(* ===== verification/Prelude.thy ===== *)
theory Prelude
  imports Main
begin

text \<open>
  What every component of the development shares: the theorem collections its proofs
  draw on, and the generic lemmas about tables. A database table is a list of rows; the
  statements the program sends are selections (the first row that satisfies a predicate),
  conditional updates of the rows a predicate selects, which report how many rows they
  touched, and appends. The lemmas below say how those three interact with a key column.
\<close>

named_theorems status_simps \<open>distinctness of the program's string constants\<close>
named_theorems sql_defs \<open>definitions of the SQL statements\<close>
named_theorems repo_defs \<open>definitions of the repository operations\<close>
named_theorems safe_intros \<open>statements that keep the schema and let the tables evolve\<close>

section \<open>Tables\<close>

text \<open>\<^term>\<open>update_where p f t\<close> is \<^verbatim>\<open>UPDATE t SET f WHERE p\<close>; \<^term>\<open>affected p t\<close> is the
  row count the driver reports for it.\<close>

definition update_where :: "('r \<Rightarrow> bool) \<Rightarrow> ('r \<Rightarrow> 'r) \<Rightarrow> 'r list \<Rightarrow> 'r list" where
  "update_where p f t = map (\<lambda>r. if p r then f r else r) t"

definition affected :: "('r \<Rightarrow> bool) \<Rightarrow> 'r list \<Rightarrow> nat" where
  "affected p t = length (filter p t)"

definition unique_on :: "('r \<Rightarrow> bool) \<Rightarrow> ('r \<Rightarrow> 'k) \<Rightarrow> 'r list \<Rightarrow> bool" where
  "unique_on p key t \<longleftrightarrow> distinct (map key (filter p t))"

abbreviation unique_key :: "('r \<Rightarrow> 'k) \<Rightarrow> 'r list \<Rightarrow> bool" where
  "unique_key key t \<equiv> distinct (map key t)"

lemma length_update_where [simp]: "length (update_where p f t) = length t"
  by (simp add: update_where_def)

lemma update_where_Nil [simp]: "update_where p f [] = []"
  by (simp add: update_where_def)

lemma update_where_Cons [simp]:
  "update_where p f (r # t) = (if p r then f r else r) # update_where p f t"
  by (simp add: update_where_def)

lemma set_update_where:
  "set (update_where p f t) = {if p r then f r else r | r. r \<in> set t}"
  by (auto simp: update_where_def)

lemma in_update_whereE:
  assumes "r' \<in> set (update_where p f t)"
  obtains r where "r \<in> set t" and "r' = (if p r then f r else r)"
  using assms by (auto simp: update_where_def)

lemma update_where_none: "(\<And>r. r \<in> set t \<Longrightarrow> \<not> p r) \<Longrightarrow> update_where p f t = t"
  by (induction t) auto

lemma map_update_where:
  "(\<And>r. p r \<Longrightarrow> g (f r) = g r) \<Longrightarrow> map g (update_where p f t) = map g t"
  by (induction t) auto

lemma unique_key_update_where:
  "(\<And>r. p r \<Longrightarrow> key (f r) = key r) \<Longrightarrow>
   unique_key key (update_where p f t) = unique_key key t"
  by (simp add: map_update_where)

lemma affected_0_iff: "affected p t = 0 \<longleftrightarrow> (\<forall>r \<in> set t. \<not> p r)"
  by (simp add: affected_def filter_empty_conv)

lemma affected_0 [simp]: "affected p [] = 0"
  by (simp add: affected_def)

lemma affected_le_1:
  assumes "unique_key key t" and "\<And>r. p r \<Longrightarrow> key r = k"
  shows "affected p t \<le> 1"
  using assms(1)
proof (induction t)
  case Nil
  then show ?case by simp
next
  case (Cons r t)
  show ?case
  proof (cases "p r")
    case True
    have "\<not> p r'" if "r' \<in> set t" for r'
      using Cons.prems that assms(2) [of r'] assms(2) [OF True] by (auto simp: image_iff)
    then have "affected p t = 0" by (simp add: affected_0_iff)
    with True show ?thesis by (simp add: affected_def)
  next
    case False
    with Cons show ?thesis by (simp add: affected_def)
  qed
qed

lemma affected_1:
  assumes "unique_key key t" and "\<And>r. p r \<Longrightarrow> key r = k" and "r \<in> set t" and "p r"
  shows "affected p t = 1"
proof -
  have "affected p t \<noteq> 0" using assms(3,4) by (auto simp: affected_0_iff)
  moreover have "affected p t \<le> 1" using assms(1,2) by (rule affected_le_1)
  ultimately show ?thesis by simp
qed

lemma unique_keyD:
  "unique_key key t \<Longrightarrow> r \<in> set t \<Longrightarrow> r' \<in> set t \<Longrightarrow> key r = key r' \<Longrightarrow> r = r'"
  by (auto simp: distinct_map inj_on_def)

lemma find_SomeD: "find p t = Some r \<Longrightarrow> r \<in> set t \<and> p r"
  by (auto simp: find_Some_iff)

lemma find_NoneD: "find p t = None \<Longrightarrow> r \<in> set t \<Longrightarrow> \<not> p r"
  by (auto simp: find_None_iff)

lemma find_unique:
  assumes "unique_key key t" and "r \<in> set t" and "p r" and "\<And>r'. p r' \<Longrightarrow> key r' = key r"
  shows "find p t = Some r"
proof (cases "find p t")
  case None
  with assms(2,3) show ?thesis by (auto simp: find_None_iff)
next
  case (Some r')
  then have "r' \<in> set t" "p r'" by (auto dest: find_SomeD)
  with assms unique_keyD [OF assms(1)] Some show ?thesis by blast
qed

lemma filter_unique:
  "unique_key key t \<Longrightarrow> r \<in> set t \<Longrightarrow> filter (\<lambda>x. key x = key r) t = [r]"
proof (induction t)
  case (Cons a t)
  show ?case
  proof (cases "a = r")
    case True
    with Cons.prems show ?thesis by (auto simp: filter_empty_conv image_iff)
  next
    case False
    with Cons show ?thesis by (auto simp: image_iff)
  qed
qed simp

lemma filter_update_where:
  "(\<And>r. q (f r) = q r) \<Longrightarrow> filter q (update_where p f t) = map (\<lambda>r. if p r then f r else r) (filter q t)"
  by (induction t) auto

lemma find_append:
  "find p (xs @ ys) = (case find p xs of None \<Rightarrow> find p ys | Some r \<Rightarrow> Some r)"
  by (induction xs) auto

text \<open>Partial unique indexes: \<^term>\<open>unique_on p key t\<close> is
  \<^verbatim>\<open>CREATE UNIQUE INDEX ON t (key) WHERE p\<close>.\<close>

lemma unique_onD:
  "unique_on p key t \<Longrightarrow> r \<in> set t \<Longrightarrow> r' \<in> set t \<Longrightarrow> p r \<Longrightarrow> p r' \<Longrightarrow> key r = key r' \<Longrightarrow> r = r'"
  by (rule unique_keyD [where key = key and t = "filter p t"]) (auto simp: unique_on_def)

lemma unique_on_append1:
  "unique_on p key (t @ [r]) \<longleftrightarrow>
     unique_on p key t \<and> (p r \<longrightarrow> (\<forall>r' \<in> set t. p r' \<longrightarrow> key r' \<noteq> key r))"
  by (auto simp: unique_on_def image_iff)

text \<open>An update that never makes an inactive row active, and keeps the key, keeps a
  partial unique index: this is why moving a status forward cannot break it.\<close>

lemma unique_on_update_where:
  assumes "unique_on p key t"
    and "\<And>r. q r \<Longrightarrow> p (f r) \<Longrightarrow> p r" and "\<And>r. q r \<Longrightarrow> key (f r) = key r"
  shows "unique_on p key (update_where q f t)"
  using assms(1)
proof (induction t)
  case Nil
  then show ?case by (simp add: unique_on_def)
next
  case (Cons r t)
  have sub: "key ` {x \<in> set (update_where q f t). p x} \<subseteq> key ` {x \<in> set t. p x}"
  proof
    fix k assume "k \<in> key ` {x \<in> set (update_where q f t). p x}"
    then obtain x where "x \<in> set (update_where q f t)" "p x" "k = key x" by auto
    then obtain y where "y \<in> set t" "x = (if q y then f y else y)"
      by (auto elim: in_update_whereE)
    with \<open>p x\<close> \<open>k = key x\<close> assms(2) [of y] assms(3) [of y]
    show "k \<in> key ` {x \<in> set t. p x}" by (auto split: if_splits)
  qed
  from Cons.prems have "unique_on p key t" by (auto simp: unique_on_def split: if_splits)
  then have IH: "unique_on p key (update_where q f t)" by (rule Cons.IH)
  have keep: "p (if q r then f r else r) \<Longrightarrow> p r \<and> key (if q r then f r else r) = key r"
    using assms(2) [of r] assms(3) [of r] by (auto split: if_splits)
  from Cons.prems have "p r \<Longrightarrow> key r \<notin> key ` {x \<in> set t. p x}"
    by (auto simp: unique_on_def split: if_splits)
  with keep sub IH show ?case
    by (auto simp: unique_on_def)
qed

text \<open>\<^term>\<open>keeps p k t t'\<close>: every row of \<open>t\<close> that satisfies \<open>p\<close> is still there in \<open>t'\<close>, still
  satisfying \<open>p\<close>, with the columns \<open>k\<close> unchanged.\<close>

definition keeps :: "('r \<Rightarrow> bool) \<Rightarrow> ('r \<Rightarrow> 'k) \<Rightarrow> 'r list \<Rightarrow> 'r list \<Rightarrow> bool" where
  "keeps p k t t' \<longleftrightarrow> (\<forall>r \<in> set t. p r \<longrightarrow> (\<exists>r' \<in> set t'. p r' \<and> k r' = k r))"

lemma keeps_refl [simp]: "keeps p k t t"
  by (auto simp: keeps_def)

lemma keeps_trans: "keeps p k t1 t2 \<Longrightarrow> keeps p k t2 t3 \<Longrightarrow> keeps p k t1 t3"
  unfolding keeps_def by metis

lemma keeps_append [simp]: "keeps p k t (t @ u)"
  by (auto simp: keeps_def)

lemma keeps_update_where:
  assumes "\<And>r. q r \<Longrightarrow> p r \<Longrightarrow> p (f r) \<and> k (f r) = k r"
  shows "keeps p k t (update_where q f t)"
proof (unfold keeps_def, intro ballI impI)
  fix r assume "r \<in> set t" "p r"
  then show "\<exists>r' \<in> set (update_where q f t). p r' \<and> k r' = k r"
    using assms [of r] by (intro bexI [of _ "if q r then f r else r"]) (auto simp: update_where_def)
qed

lemma keepsD: "keeps p k t t' \<Longrightarrow> r \<in> set t \<Longrightarrow> p r \<Longrightarrow> \<exists>r' \<in> set t'. p r' \<and> k r' = k r"
  by (auto simp: keeps_def)

section \<open>Sums as results\<close>

text \<open>A fallible operation returns \<^typ>\<open>'e + 'a\<close>: \<^term>\<open>Inl e\<close> is the error it returned.\<close>

definition is_ok :: "'e + 'a \<Rightarrow> bool" where
  "is_ok r \<longleftrightarrow> (case r of Inl _ \<Rightarrow> False | Inr _ \<Rightarrow> True)"

lemma is_ok_simps [simp]: "\<not> is_ok (Inl e)" "is_ok (Inr a)"
  by (simp_all add: is_ok_def)

lemma is_okE: "is_ok r \<Longrightarrow> (\<And>a. r = Inr a \<Longrightarrow> P) \<Longrightarrow> P"
  by (cases r) auto

end
