(* ===== verification/GoLang.thy ===== *)
theory GoLang
  imports Prelude "HOL-Library.Word"
begin

text \<open>
  The parts of Go and of its standard library that the program uses: byte strings and the
  functions of package \<^verbatim>\<open>strings\<close>, hexadecimal encoding, fixed-width signed integers,
  instants and durations, and error values with their wrapping (\<^verbatim>\<open>fmt.Errorf\<close> with
  \<^verbatim>\<open>%w\<close>, \<^verbatim>\<open>errors.Is\<close>, \<^verbatim>\<open>errors.As\<close>). A Go string is a sequence of bytes and
  is a \<^typ>\<open>string\<close> here, whose characters are bytes.
\<close>

section \<open>Strings\<close>

text \<open>\<^verbatim>\<open>unicode.IsSpace\<close>: the UTF-8 encodings of every white space rune.\<close>

definition white_space :: "string list" where
  "white_space =
     [[CHR 9], [CHR 10], [CHR 11], [CHR 12], [CHR 13], [CHR 32],
      [CHR 0xC2, CHR 0x85], [CHR 0xC2, CHR 0xA0], [CHR 0xE1, CHR 0x9A, CHR 0x80],
      [CHR 0xE2, CHR 0x80, CHR 0x80], [CHR 0xE2, CHR 0x80, CHR 0x81], [CHR 0xE2, CHR 0x80, CHR 0x82],
      [CHR 0xE2, CHR 0x80, CHR 0x83], [CHR 0xE2, CHR 0x80, CHR 0x84], [CHR 0xE2, CHR 0x80, CHR 0x85],
      [CHR 0xE2, CHR 0x80, CHR 0x86], [CHR 0xE2, CHR 0x80, CHR 0x87], [CHR 0xE2, CHR 0x80, CHR 0x88],
      [CHR 0xE2, CHR 0x80, CHR 0x89], [CHR 0xE2, CHR 0x80, CHR 0x8A], [CHR 0xE2, CHR 0x80, CHR 0xA8],
      [CHR 0xE2, CHR 0x80, CHR 0xA9], [CHR 0xE2, CHR 0x80, CHR 0xAF], [CHR 0xE2, CHR 0x81, CHR 0x9F],
      [CHR 0xE3, CHR 0x80, CHR 0x80]]"

definition has_prefix :: "string \<Rightarrow> string \<Rightarrow> bool" where
  "has_prefix s p \<longleftrightarrow> take (length p) s = p"

text \<open>\<^term>\<open>strip_heads ws s\<close> drops, as long as it can, a leading member of \<open>ws\<close>.\<close>

function strip_heads :: "string list \<Rightarrow> string \<Rightarrow> string" where
  "strip_heads ws s =
     (case find (\<lambda>w. w \<noteq> [] \<and> has_prefix s w) ws of
        None \<Rightarrow> s
      | Some w \<Rightarrow> if s = [] then s else strip_heads ws (drop (length w) s))"
  by pat_completeness auto
termination
  by (relation "measure (\<lambda>(ws, s). length s)") (auto dest!: find_SomeD)

declare strip_heads.simps [simp del]

text \<open>\<^verbatim>\<open>strings.TrimSpace\<close>.\<close>

definition TrimSpace :: "string \<Rightarrow> string" where
  "TrimSpace s =
     rev (strip_heads (map rev white_space) (rev (strip_heads white_space s)))"

lemma strip_heads_Nil [simp]: "strip_heads ws [] = []"
  by (subst strip_heads.simps) (auto split: option.splits)

lemma TrimSpace_Nil [simp]: "TrimSpace [] = []"
  by (simp add: TrimSpace_def)

lemma strip_heads_id:
  assumes "\<And>w. w \<in> set ws \<Longrightarrow> w = [] \<or> \<not> has_prefix s w"
  shows "strip_heads ws s = s"
proof -
  have "find (\<lambda>w. w \<noteq> [] \<and> has_prefix s w) ws = None"
    using assms by (auto simp: find_None_iff)
  then show ?thesis by (subst strip_heads.simps) simp
qed

text \<open>A string of printable ASCII without blanks is left alone.\<close>

definition plain_char :: "char \<Rightarrow> bool" where
  "plain_char c \<longleftrightarrow> 32 < (of_char c :: nat) \<and> (of_char c :: nat) < 127"

lemma white_space_not_plain: "w \<in> set white_space \<Longrightarrow> w \<noteq> [] \<and> \<not> plain_char (hd w) \<and> \<not> plain_char (last w)"
  by (auto simp: white_space_def plain_char_def)

lemma has_prefix_hd: "has_prefix s w \<Longrightarrow> w \<noteq> [] \<Longrightarrow> s \<noteq> [] \<and> hd s = hd w"
  by (cases s; cases w) (auto simp: has_prefix_def)

lemma TrimSpace_plain:
  assumes "\<And>c. c \<in> set s \<Longrightarrow> plain_char c"
  shows "TrimSpace s = s"
proof -
  have 1: "strip_heads white_space s = s"
    using assms by (intro strip_heads_id) (metis has_prefix_hd hd_in_set white_space_not_plain)
  have "strip_heads (map rev white_space) (rev s) = rev s"
  proof (rule strip_heads_id)
    fix w assume "w \<in> set (map rev white_space)"
    then obtain v where v: "v \<in> set white_space" "w = rev v" by auto
    show "w = [] \<or> \<not> has_prefix (rev s) w"
    proof (rule disjI2, rule notI)
      assume "has_prefix (rev s) w"
      with v white_space_not_plain [OF v(1)] have "rev s \<noteq> []" "hd (rev s) = last v"
        using has_prefix_hd [of "rev s" w] by (auto simp: hd_rev)
      then have "last v \<in> set s" by (metis hd_in_set set_rev)
      with assms white_space_not_plain [OF v(1)] show False by auto
    qed
  qed
  with 1 show ?thesis by (simp add: TrimSpace_def)
qed

text \<open>Case mapping. The program applies it to provider names and ISO 4217 codes, which are
  ASCII; on ASCII strings the three functions are those of package \<^verbatim>\<open>strings\<close>.\<close>

definition ascii_upper :: "char \<Rightarrow> char" where
  "ascii_upper c = (let n = (of_char c :: nat) in if 97 \<le> n \<and> n \<le> 122 then char_of (n - 32) else c)"

definition ascii_lower :: "char \<Rightarrow> char" where
  "ascii_lower c = (let n = (of_char c :: nat) in if 65 \<le> n \<and> n \<le> 90 then char_of (n + 32) else c)"

definition ToUpper :: "string \<Rightarrow> string" where "ToUpper s = map ascii_upper s"
definition ToLower :: "string \<Rightarrow> string" where "ToLower s = map ascii_lower s"
definition EqualFold :: "string \<Rightarrow> string \<Rightarrow> bool" where "EqualFold a b \<longleftrightarrow> ToLower a = ToLower b"

lemma EqualFold_refl [simp]: "EqualFold a a"
  by (simp add: EqualFold_def)

lemma ascii_lower_upper [simp]: "ascii_lower (ascii_upper c) = ascii_lower c"
proof (cases "97 \<le> (of_char c :: nat) \<and> (of_char c :: nat) \<le> 122")
  case True
  then have "(of_char (char_of ((of_char c :: nat) - 32) :: char) :: nat) = of_char c - 32"
    by (auto intro: mod_less)
  moreover from True have "65 \<le> (of_char c :: nat) - 32" "(of_char c :: nat) - 32 \<le> 90" by auto
  ultimately show ?thesis using True by (simp add: ascii_lower_def ascii_upper_def Let_def)
next
  case False
  then show ?thesis by (auto simp: ascii_upper_def Let_def)
qed

lemma EqualFold_ToUpper [simp]: "EqualFold (ToUpper a) b \<longleftrightarrow> EqualFold a b"
  by (simp add: EqualFold_def ToLower_def ToUpper_def comp_def)

text \<open>The verb \<^verbatim>\<open>%d\<close>, and the verb \<^verbatim>\<open>%q\<close> on text without characters it escapes. Both only
  occur in error texts.\<close>

fun decimal :: "nat \<Rightarrow> string" where
  "decimal n = (if n < 10 then [char_of (48 + n)] else decimal (n div 10) @ [char_of (48 + n mod 10)])"

declare decimal.simps [simp del]

definition itoa :: "int \<Rightarrow> string" where
  "itoa n = (if n < 0 then CHR ''-'' # decimal (nat (- n)) else decimal (nat n))"

definition quoted :: "string \<Rightarrow> string" where "quoted s = CHR 34 # s @ [CHR 34]"

section \<open>Hexadecimal\<close>

definition hex_digit :: "nat \<Rightarrow> char" where
  "hex_digit n = (if n < 10 then char_of (48 + n) else char_of (87 + n))"

definition hex_encode :: "string \<Rightarrow> string" where
  "hex_encode bytes = concat (map (\<lambda>c. [hex_digit (of_char c div 16), hex_digit (of_char c mod 16)]) bytes)"

definition is_hex :: "char \<Rightarrow> bool" where
  "is_hex c \<longleftrightarrow> (let n = (of_char c :: nat) in
     (48 \<le> n \<and> n \<le> 57) \<or> (65 \<le> n \<and> n \<le> 70) \<or> (97 \<le> n \<and> n \<le> 102))"

text \<open>\<^verbatim>\<open>hex.DecodeString\<close> succeeds exactly on an even number of hexadecimal digits.\<close>

definition hex_decodable :: "string \<Rightarrow> bool" where
  "hex_decodable s \<longleftrightarrow> even (length s) \<and> (\<forall>c \<in> set s. is_hex c)"

lemma is_hex_digit: "n < 16 \<Longrightarrow> is_hex (hex_digit n)"
  by (auto simp: is_hex_def hex_digit_def Let_def)

lemma length_hex_encode [simp]: "length (hex_encode bs) = 2 * length bs"
  by (induction bs) (auto simp: hex_encode_def)

lemma char_lt_256: "(of_char c :: nat) < 256"
proof -
  have "(of_char c :: nat) \<in> {0::nat..<256}"
    using range_nat_of_char by blast
  then show ?thesis by simp
qed

lemma hex_decodable_encode: "hex_decodable (hex_encode bs)"
proof -
  have "is_hex (hex_digit (of_char c div 16))" "is_hex (hex_digit (of_char c mod 16))" for c
    using char_lt_256 [of c] by (auto intro!: is_hex_digit simp: less_mult_imp_div_less)
  then show ?thesis
    by (auto simp: hex_decodable_def) (auto simp: hex_encode_def)
qed

section \<open>Fixed-width integers, instants and durations\<close>

text \<open>Go's \<^verbatim>\<open>int64\<close> and \<^verbatim>\<open>int32\<close> arithmetic wraps around; \<^term>\<open>wrap_signed w\<close> is
  the conversion of an exact result to \<open>w\<close> bits. Division truncates towards zero.\<close>

definition wrap_signed :: "nat \<Rightarrow> int \<Rightarrow> int" where
  "wrap_signed w x = (x + 2 ^ (w - 1)) mod 2 ^ w - 2 ^ (w - 1)"

abbreviation int64 :: "int \<Rightarrow> int" where "int64 \<equiv> wrap_signed 64"
abbreviation int32 :: "int \<Rightarrow> int" where "int32 \<equiv> wrap_signed 32"

definition MaxInt64 :: int where "MaxInt64 = 2 ^ 63 - 1"

definition quot :: "int \<Rightarrow> int \<Rightarrow> int" where
  "quot a b = sgn a * sgn b * (\<bar>a\<bar> div \<bar>b\<bar>)"

lemma int64_id: "- (2 ^ 63) \<le> x \<Longrightarrow> x < 2 ^ 63 \<Longrightarrow> int64 x = x"
  by (simp add: wrap_signed_def mod_pos_pos_trivial)

lemma int32_id: "- (2 ^ 31) \<le> x \<Longrightarrow> x < 2 ^ 31 \<Longrightarrow> int32 x = x"
  by (simp add: wrap_signed_def mod_pos_pos_trivial)

lemma int64_range: "- (2 ^ 63) \<le> int64 x \<and> int64 x < 2 ^ 63"
proof -
  have "0 \<le> (x + 2 ^ 63) mod 2 ^ 64 \<and> (x + 2 ^ 63) mod 2 ^ 64 < 2 ^ 64" by simp
  then show ?thesis by (simp add: wrap_signed_def)
qed

lemma quot_nonneg: "0 \<le> a \<Longrightarrow> 0 < b \<Longrightarrow> quot a b = a div b"
  by (cases "a = 0") (simp_all add: quot_def sgn_if)

text \<open>An instant is a number of nanoseconds since the zero \<^verbatim>\<open>time.Time\<close>, so the zero
  value is \<open>0\<close> and \<^verbatim>\<open>UTC()\<close>, which changes the location and not the instant, is the
  identity. A duration is a number of nanoseconds.\<close>

type_synonym instant = int
type_synonym duration = int

definition UTC :: "instant \<Rightarrow> instant" where [simp]: "UTC t = t"
definition IsZero :: "instant \<Rightarrow> bool" where [simp]: "IsZero t \<longleftrightarrow> t = 0"

definition Millisecond :: duration where "Millisecond = 10 ^ 6"
definition Second :: duration where "Second = 10 ^ 9"
definition Minute :: duration where "Minute = 60 * 10 ^ 9"

lemmas duration_defs = Millisecond_def Second_def Minute_def

section \<open>Errors\<close>

text \<open>The error values the program declares as package variables and compares with
  \<^verbatim>\<open>errors.Is\<close>. Two of them carry the same text and are still different values.\<close>

datatype (plugins only: code size) sentinel =
    Orders_ErrInvalidID | ErrInvalidProductID | ErrInvalidQuantity | ErrInvalidIdempotencyKey
  | ErrInvalidProduct | ErrAmountOverflow
  | ErrInvalidPayment | ErrInvalidAttempt | ErrInvalidSession
  | ErrInvalidEventID | ErrInvalidEvent | ErrInvalidMessage
  | ErrProductNotFound | OrderApp_ErrIdempotencyKeyConflict | ErrOrderNotFound
  | PaymentApp_ErrIdempotencyKeyConflict | ErrCheckoutInProgress | ErrOrderNotPayable
  | ErrProviderUnavailable
  | ErrInvalidSignature | ErrPayloadTooLarge
  | ErrEventNotFound | ErrEventNotReplayable | ErrInvalidStatus | ErrInvalidLimit
  | ErrNotConfirmed | ErrNotRouted | ErrLeaseLost
  | ErrIncompatibleAPIVersion | ErrUnreadablePayload | ErrMissingReference | ErrAggregateNotFound
  | ErrReferenceMismatch | ErrAmountMismatch | ErrStateConflict | ErrInvariantViolated
  | ErrUnauthorized | ErrNotServed

fun sentinel_text :: "sentinel \<Rightarrow> string" where
  "sentinel_text Orders_ErrInvalidID = ''invalid order id''"
| "sentinel_text ErrInvalidProductID = ''product id must be between 1 and 128 characters''"
| "sentinel_text ErrInvalidQuantity = ''quantity must be between 1 and 1000''"
| "sentinel_text ErrInvalidIdempotencyKey = ''idempotency key must be between 1 and 255 characters''"
| "sentinel_text ErrInvalidProduct = ''product has an invalid price or currency''"
| "sentinel_text ErrAmountOverflow = ''order amount overflows the supported range''"
| "sentinel_text ErrInvalidPayment = ''invalid payment''"
| "sentinel_text ErrInvalidAttempt = ''invalid payment attempt''"
| "sentinel_text ErrInvalidSession = ''invalid checkout session''"
| "sentinel_text ErrInvalidEventID = ''invalid webhook event id''"
| "sentinel_text ErrInvalidEvent = ''invalid webhook event''"
| "sentinel_text ErrInvalidMessage = ''invalid outbox message''"
| "sentinel_text ErrProductNotFound = ''product not found''"
| "sentinel_text OrderApp_ErrIdempotencyKeyConflict = ''idempotency key already used''"
| "sentinel_text ErrOrderNotFound = ''order not found''"
| "sentinel_text PaymentApp_ErrIdempotencyKeyConflict = ''idempotency key already used''"
| "sentinel_text ErrCheckoutInProgress = ''another checkout is already active for this order''"
| "sentinel_text ErrOrderNotPayable = ''order is not available for checkout''"
| "sentinel_text ErrProviderUnavailable = ''payment provider unavailable''"
| "sentinel_text ErrInvalidSignature = ''webhook signature could not be verified''"
| "sentinel_text ErrPayloadTooLarge = ''webhook payload exceeds the accepted size''"
| "sentinel_text ErrEventNotFound = ''webhook event not found''"
| "sentinel_text ErrEventNotReplayable = ''webhook event is not failed''"
| "sentinel_text ErrInvalidStatus = ''invalid webhook event status''"
| "sentinel_text ErrInvalidLimit = ''inspection limit must be between 1 and 100''"
| "sentinel_text ErrNotConfirmed = ''broker did not confirm the publication''"
| "sentinel_text ErrNotRouted = ''broker could not route the message to any queue''"
| "sentinel_text ErrLeaseLost = ''lease was lost before the outcome could be recorded''"
| "sentinel_text ErrIncompatibleAPIVersion = ''provider event uses an incompatible API version''"
| "sentinel_text ErrUnreadablePayload = ''provider payload could not be interpreted''"
| "sentinel_text ErrMissingReference = ''provider event carries no local reference''"
| "sentinel_text ErrAggregateNotFound = ''referenced payment aggregate does not exist''"
| "sentinel_text ErrReferenceMismatch = ''provider event references an inconsistent aggregate''"
| "sentinel_text ErrAmountMismatch = ''provider amount does not match the local payment''"
| "sentinel_text ErrStateConflict = ''provider event contradicts a settled state''"
| "sentinel_text ErrInvariantViolated = ''approved transition matched no row''"
| "sentinel_text ErrUnauthorized = ''authentication required''"
| "sentinel_text ErrNotServed = ''operation not served by this process''"

text \<open>An error value is a declared one, an anonymous \<^verbatim>\<open>errors.New\<close>, a value of a
  library outside the program (a driver, the broker client, the provider's SDK; it never
  wraps a value of the program), the result of \<^verbatim>\<open>fmt.Errorf\<close> with its literal text
  and its \<^verbatim>\<open>%w\<close> operands in order, the relay's \<^verbatim>\<open>PermanentError\<close>, or the
  transport's \<^verbatim>\<open>rateLimitedError\<close>, or a run-time panic.\<close>

datatype goerr =
    Sentinel sentinel
  | NewError string
  | External string
  | Errorf "errpart list"
  | PermanentError goerr
  | RateLimitedError duration
  | Panic string
and errpart = T string | W goerr

fun Error_text :: "goerr \<Rightarrow> string" and part_text :: "errpart \<Rightarrow> string" where
  "Error_text (Sentinel s) = sentinel_text s"
| "Error_text (NewError t) = t"
| "Error_text (External t) = t"
| "Error_text (Errorf ps) = concat (map part_text ps)"
| "Error_text (PermanentError e) = ''permanent: '' @ Error_text e"
| "Error_text (RateLimitedError d) = ''too many requests''"
| "Error_text (Panic t) = t"
| "part_text (T t) = t"
| "part_text (W e) = Error_text e"

text \<open>\<^verbatim>\<open>errors.Is\<close> against a declared value, and \<^verbatim>\<open>errors.As\<close> for the two error types.\<close>

fun errors_Is :: "sentinel \<Rightarrow> goerr \<Rightarrow> bool" and part_Is :: "sentinel \<Rightarrow> errpart \<Rightarrow> bool" where
  "errors_Is x (Sentinel s) = (s = x)"
| "errors_Is x (NewError t) = False"
| "errors_Is x (External t) = False"
| "errors_Is x (Errorf ps) = list_ex (part_Is x) ps"
| "errors_Is x (PermanentError e) = errors_Is x e"
| "errors_Is x (RateLimitedError d) = False"
| "errors_Is x (Panic t) = False"
| "part_Is x (T t) = False"
| "part_Is x (W e) = errors_Is x e"

fun wraps_permanent :: "goerr \<Rightarrow> bool" and part_permanent :: "errpart \<Rightarrow> bool" where
  "wraps_permanent (Sentinel s) = False"
| "wraps_permanent (NewError t) = False"
| "wraps_permanent (External t) = False"
| "wraps_permanent (Errorf ps) = list_ex part_permanent ps"
| "wraps_permanent (PermanentError e) = True"
| "wraps_permanent (RateLimitedError d) = False"
| "wraps_permanent (Panic t) = False"
| "part_permanent (T t) = False"
| "part_permanent (W e) = wraps_permanent e"

text \<open>The shape most call sites use: \<^verbatim>\<open>fmt.Errorf("what: %w", err)\<close>.\<close>

abbreviation wrap :: "string \<Rightarrow> goerr \<Rightarrow> goerr" where
  "wrap what e \<equiv> Errorf [T (what @ '': ''), W e]"

lemma wrap_Is: "errors_Is x (wrap what e) = errors_Is x e"
  by simp

type_synonym 'a result = "goerr + 'a"

end
