(* ===== verification/Order_Domain.thy ===== *)
theory Order_Domain
  imports GoLang
begin

text \<open>
  Package \<^verbatim>\<open>internal/domain/orders\<close>: the commercial intent of a purchase. The amount of
  an order is computed here, from a catalog product and a quantity, in checked 64-bit
  arithmetic; identifiers are opaque and their shape is validated on the way in.
\<close>

section \<open>Identifiers (id.go)\<close>

definition IDPrefix :: string where "IDPrefix = ''ord_''"

text \<open>\<^verbatim>\<open>NewID\<close>; the argument is what \<^verbatim>\<open>rand.Read\<close> produced for the 16-byte buffer.\<close>

definition NewID :: "string result \<Rightarrow> string result" where
  "NewID rnd = (case rnd of Inl e \<Rightarrow> Inl (wrap ''generate order id'' e)
                | Inr bytes \<Rightarrow> Inr (IDPrefix @ hex_encode bytes))"

definition ValidateID :: "string \<Rightarrow> goerr option" where
  "ValidateID i =
     (if length i \<noteq> length IDPrefix + 32 \<or> \<not> has_prefix i IDPrefix then Some (Sentinel Orders_ErrInvalidID)
      else if \<not> hex_decodable (drop (length IDPrefix) i) then Some (Sentinel Orders_ErrInvalidID)
      else None)"

section \<open>Orders (order.go)\<close>

definition OrderStatusPending :: string where "OrderStatusPending = ''pending''"
definition OrderStatusPaid :: string where "OrderStatusPaid = ''paid''"
definition OrderStatusCancelled :: string where "OrderStatusCancelled = ''cancelled''"
definition OrderStatusExpired :: string where "OrderStatusExpired = ''expired''"

lemmas order_status_defs =
  OrderStatusPending_def OrderStatusPaid_def OrderStatusCancelled_def OrderStatusExpired_def

lemma order_status_distinct [simp, status_simps]:
  "OrderStatusPending \<noteq> OrderStatusPaid" "OrderStatusPaid \<noteq> OrderStatusPending"
  "OrderStatusPending \<noteq> OrderStatusCancelled" "OrderStatusCancelled \<noteq> OrderStatusPending"
  "OrderStatusPending \<noteq> OrderStatusExpired" "OrderStatusExpired \<noteq> OrderStatusPending"
  "OrderStatusPaid \<noteq> OrderStatusCancelled" "OrderStatusCancelled \<noteq> OrderStatusPaid"
  "OrderStatusPaid \<noteq> OrderStatusExpired" "OrderStatusExpired \<noteq> OrderStatusPaid"
  "OrderStatusCancelled \<noteq> OrderStatusExpired" "OrderStatusExpired \<noteq> OrderStatusCancelled"
  by (simp_all add: order_status_defs)

definition MaxQuantity :: int where "MaxQuantity = 1000"
definition MaxIdempotencyKeyLength :: nat where "MaxIdempotencyKeyLength = 255"
definition MaxProductIDLength :: nat where "MaxProductIDLength = 128"

lemmas order_limits = MaxQuantity_def MaxIdempotencyKeyLength_def MaxProductIDLength_def

definition BRL :: string where "BRL = ''BRL''"

definition is_upper :: "char \<Rightarrow> bool" where
  "is_upper c \<longleftrightarrow> 65 \<le> (of_char c :: nat) \<and> (of_char c :: nat) \<le> 90"

text \<open>\<^verbatim>\<open>Currency.Valid\<close>: the pattern \<^verbatim>\<open>^[A-Z]{3}$\<close>.\<close>

definition Currency_Valid :: "string \<Rightarrow> bool" where
  "Currency_Valid c \<longleftrightarrow> length c = 3 \<and> list_all is_upper c"

record product =
  product_ID :: string
  product_Name :: string
  product_UnitAmount :: int
  product_Currency :: string

record order =
  order_ID :: string
  order_Status :: string
  order_Amount :: int
  order_Currency :: string
  order_ProductID :: string
  order_Quantity :: int
  order_IdempotencyKey :: string
  order_CreatedAt :: instant
  order_UpdatedAt :: instant

definition validProductID :: "string \<Rightarrow> bool" where
  "validProductID i \<longleftrightarrow> i \<noteq> [] \<and> length i \<le> MaxProductIDLength \<and> TrimSpace i = i"

definition ValidateProductID :: "string \<Rightarrow> goerr option" where
  "ValidateProductID i = (if \<not> validProductID i then Some (Sentinel ErrInvalidProductID) else None)"

definition ValidateQuantity :: "int \<Rightarrow> goerr option" where
  "ValidateQuantity q = (if q < 1 \<or> MaxQuantity < q then Some (Sentinel ErrInvalidQuantity) else None)"

definition ValidateIdempotencyKey :: "string \<Rightarrow> goerr option" where
  "ValidateIdempotencyKey k =
     (if k = [] \<or> MaxIdempotencyKeyLength < length k \<or> TrimSpace k \<noteq> k
      then Some (Sentinel ErrInvalidIdempotencyKey) else None)"

text \<open>\<^verbatim>\<open>Product.Validate\<close>.\<close>

definition Product_Validate :: "product \<Rightarrow> goerr option" where
  "Product_Validate p =
     (if \<not> validProductID (product_ID p) then Some (Sentinel ErrInvalidProductID)
      else if product_UnitAmount p \<le> 0 \<or> \<not> Currency_Valid (product_Currency p)
           then Some (Sentinel ErrInvalidProduct)
      else None)"

text \<open>\<^verbatim>\<open>multiply\<close>: the guard divides, so a zero quantity would be a run-time panic; the
  product wraps if the guard lets an overflow through.\<close>

definition multiply :: "int \<Rightarrow> int \<Rightarrow> int result" where
  "multiply unitAmount quantity =
     (if quantity = 0 then Inl (Panic ''integer divide by zero'')
      else if quot MaxInt64 quantity < unitAmount then Inl (Sentinel ErrAmountOverflow)
      else Inr (int64 (unitAmount * quantity)))"

text \<open>\<^verbatim>\<open>orders.New\<close>.\<close>

definition Order_New :: "string \<Rightarrow> product \<Rightarrow> int \<Rightarrow> string \<Rightarrow> instant \<Rightarrow> order result" where
  "Order_New i product quantity idempotencyKey now =
     (if TrimSpace i = [] then Inl (NewError ''order id is required'')
      else case Product_Validate product of Some e \<Rightarrow> Inl e | None \<Rightarrow>
      (case ValidateQuantity quantity of Some e \<Rightarrow> Inl e | None \<Rightarrow>
      (case ValidateIdempotencyKey idempotencyKey of Some e \<Rightarrow> Inl e | None \<Rightarrow>
      (case multiply (product_UnitAmount product) quantity of Inl e \<Rightarrow> Inl e | Inr amount \<Rightarrow>
         Inr \<lparr>order_ID = i, order_Status = OrderStatusPending, order_Amount = amount,
              order_Currency = product_Currency product, order_ProductID = product_ID product,
              order_Quantity = quantity, order_IdempotencyKey = idempotencyKey,
              order_CreatedAt = UTC now, order_UpdatedAt = UTC now\<rparr>))))"

text \<open>\<^verbatim>\<open>Order.Settled\<close> and \<^verbatim>\<open>Order.MarkPaid\<close>.\<close>

definition Order_Settled :: "order \<Rightarrow> bool" where
  "Order_Settled ord \<longleftrightarrow> order_Status ord \<noteq> OrderStatusPending"

definition Order_MarkPaid :: "order \<Rightarrow> instant \<Rightarrow> order \<times> bool" where
  "Order_MarkPaid ord now =
     (if order_Status ord \<noteq> OrderStatusPending then (ord, False)
      else (ord\<lparr>order_Status := OrderStatusPaid, order_UpdatedAt := UTC now\<rparr>, True))"

section \<open>Properties\<close>

lemma ValidateQuantity_None: "ValidateQuantity q = None \<longleftrightarrow> 1 \<le> q \<and> q \<le> 1000"
  by (auto simp: ValidateQuantity_def order_limits)

lemma ValidateIdempotencyKey_None:
  "ValidateIdempotencyKey k = None \<longleftrightarrow> k \<noteq> [] \<and> length k \<le> 255 \<and> TrimSpace k = k"
  by (auto simp: ValidateIdempotencyKey_def order_limits)

lemma Product_Validate_None:
  "Product_Validate p = None \<longleftrightarrow>
     validProductID (product_ID p) \<and> 0 < product_UnitAmount p \<and> Currency_Valid (product_Currency p)"
  by (auto simp: Product_Validate_def)

lemma quot_MaxInt64_less_iff:
  assumes "1 \<le> q"
  shows "quot MaxInt64 q < u \<longleftrightarrow> MaxInt64 < u * q"
proof -
  have "quot MaxInt64 q = MaxInt64 div q"
    using assms by (intro quot_nonneg) (auto simp: MaxInt64_def)
  moreover have "MaxInt64 div q < u \<longleftrightarrow> MaxInt64 < u * q"
    using assms pos_imp_zdiv_neg_iff [of q "MaxInt64 + (- u) * q"]
      div_mult_self1 [of q MaxInt64 "- u"] by simp
  ultimately show ?thesis by simp
qed

text \<open>The guard is exact: it refuses precisely the products that do not fit, and what it
  lets through is multiplied without wrapping.\<close>

lemma multiply_exact:
  assumes "1 \<le> q" and "0 < u"
  shows "multiply u q = (if u * q \<le> MaxInt64 then Inr (u * q) else Inl (Sentinel ErrAmountOverflow))"
proof -
  have "int64 (u * q) = u * q" if "u * q \<le> MaxInt64"
  proof -
    have "0 < u * q" using assms by simp
    with that show ?thesis by (intro int64_id) (simp_all add: MaxInt64_def)
  qed
  then show ?thesis
    using assms quot_MaxInt64_less_iff [OF assms(1), of u] by (auto simp: multiply_def)
qed

text \<open>What every priced order satisfies.\<close>

definition order_wf :: "order \<Rightarrow> bool" where
  "order_wf ord \<longleftrightarrow>
     TrimSpace (order_ID ord) \<noteq> [] \<and> 0 < order_Amount ord \<and> order_Amount ord \<le> MaxInt64 \<and>
     Currency_Valid (order_Currency ord) \<and> validProductID (order_ProductID ord) \<and>
     1 \<le> order_Quantity ord \<and> order_Quantity ord \<le> MaxQuantity \<and>
     ValidateIdempotencyKey (order_IdempotencyKey ord) = None"

lemma Order_New_Inr_iff:
  "Order_New i p q k now = Inr ord \<longleftrightarrow>
     TrimSpace i \<noteq> [] \<and> Product_Validate p = None \<and> 1 \<le> q \<and> q \<le> 1000 \<and>
     ValidateIdempotencyKey k = None \<and> product_UnitAmount p * q \<le> MaxInt64 \<and>
     ord = \<lparr>order_ID = i, order_Status = OrderStatusPending,
            order_Amount = product_UnitAmount p * q, order_Currency = product_Currency p,
            order_ProductID = product_ID p, order_Quantity = q, order_IdempotencyKey = k,
            order_CreatedAt = now, order_UpdatedAt = now\<rparr>" (is "?L \<longleftrightarrow> ?R")
proof (cases "Product_Validate p = None \<and> 1 \<le> q \<and> q \<le> 1000")
  case True
  then have "multiply (product_UnitAmount p) q =
      (if product_UnitAmount p * q \<le> MaxInt64 then Inr (product_UnitAmount p * q)
       else Inl (Sentinel ErrAmountOverflow))"
    by (intro multiply_exact) (auto simp: Product_Validate_None)
  moreover from True have "ValidateQuantity q = None" by (simp add: ValidateQuantity_None)
  ultimately show ?thesis using True
    by (auto simp: Order_New_def split: option.splits)
next
  case False
  then show ?thesis
    by (auto simp: Order_New_def ValidateQuantity_None split: option.splits sum.splits)
qed

lemma Order_New_wf: "Order_New i p q k now = Inr ord \<Longrightarrow> order_wf ord"
  by (auto simp: Order_New_Inr_iff order_wf_def Product_Validate_None order_limits)

text \<open>
  The server prices the order. When \<^verbatim>\<open>orders.New\<close> accepts, the amount is exactly the
  catalog's unit amount times the quantity (no wrap-around), positive and within int64, the
  currency and product are the catalog's, the order is pending; and it accepts exactly the
  inputs whose identifier, product, quantity and key are valid and whose exact product fits.
\<close>

theorem Order_New_prices:
  "Order_New i p q k now = Inr ord \<longleftrightarrow>
     (TrimSpace i \<noteq> [] \<and> validProductID (product_ID p) \<and> 0 < product_UnitAmount p \<and>
      Currency_Valid (product_Currency p) \<and> 1 \<le> q \<and> q \<le> MaxQuantity \<and>
      k \<noteq> [] \<and> length k \<le> MaxIdempotencyKeyLength \<and> TrimSpace k = k \<and>
      product_UnitAmount p * q \<le> MaxInt64) \<and>
     order_ID ord = i \<and> order_Status ord = OrderStatusPending \<and>
     order_Amount ord = product_UnitAmount p * q \<and> order_Currency ord = product_Currency p \<and>
     order_ProductID ord = product_ID p \<and> order_Quantity ord = q \<and>
     order_IdempotencyKey ord = k \<and> order_CreatedAt ord = now \<and> order_UpdatedAt ord = now"
  unfolding Order_New_Inr_iff Product_Validate_None ValidateIdempotencyKey_None
  by (cases ord) (auto simp: order_limits)

lemma take_append_prefix [simp]: "has_prefix (p @ s) p"
  by (simp add: has_prefix_def)

text \<open>
  Identifiers round-trip. Every identifier \<^verbatim>\<open>NewID\<close> generates from a full 16-byte buffer
  is accepted by \<^verbatim>\<open>ValidateID\<close>, and has the fixed length the schema and the log format rely on.
\<close>

theorem NewID_ValidateID:
  assumes "length bytes = 16"
  shows "\<exists>i. NewID (Inr bytes) = Inr i \<and> ValidateID i = None \<and> length i = 36"
  using assms by (simp add: NewID_def ValidateID_def hex_decodable_encode IDPrefix_def has_prefix_def)

theorem NewID_ValidateID_witness:
  "length ''0123456789abcdef'' = 16 \<and>
   (\<exists>i. NewID (Inr ''0123456789abcdef'') = Inr i \<and> ValidateID i = None \<and> length i = 36)"
  using NewID_ValidateID [of "''0123456789abcdef''"] by simp

lemma MarkPaid_moves_once:
  "Order_MarkPaid ord now = (ord', moved) \<Longrightarrow>
     moved = (order_Status ord = OrderStatusPending) \<and> Order_Settled ord' \<and>
     (\<not> moved \<longrightarrow> ord' = ord) \<and> Order_MarkPaid ord' later = (ord', False)"
  by (auto simp: Order_MarkPaid_def Order_Settled_def split: if_splits)

end
