(* ===== verification/Order_Service.thy ===== *)
theory Order_Service
  imports Order_Domain
begin

text \<open>
  Package \<^verbatim>\<open>internal/application/orders\<close>: the use cases that create and read orders. The
  ports \<^verbatim>\<open>Catalog\<close> and \<^verbatim>\<open>Repository\<close> are arguments; the locales state what their providers
  promise and prove what the use cases make of it, once, for every provider.
\<close>

record create_input =
  in_ProductID :: string
  in_Quantity :: int
  in_IdempotencyKey :: string

definition CreateInput_Validate :: "create_input \<Rightarrow> goerr option" where
  "CreateInput_Validate inp =
     (case ValidateProductID (in_ProductID inp) of Some e \<Rightarrow> Some e | None \<Rightarrow>
     (case ValidateQuantity (in_Quantity inp) of Some e \<Rightarrow> Some e | None \<Rightarrow>
        ValidateIdempotencyKey (in_IdempotencyKey inp)))"

text \<open>The calls the use case makes to its observer, if it has one.\<close>

datatype order_note = OrderReplayed | OrderConflicted

text \<open>\<^verbatim>\<open>Service.Create\<close>. \<open>observer\<close> says whether an observer is configured; \<open>newID\<close> and \<open>now\<close> are
  what the identifier generator and the clock returned.\<close>

definition Orders_Create ::
  "(string \<Rightarrow> product result) \<Rightarrow> ('s \<Rightarrow> order \<Rightarrow> 's \<times> (order \<times> bool) result) \<Rightarrow> bool \<Rightarrow>
   string result \<Rightarrow> instant \<Rightarrow> create_input \<Rightarrow> 's \<Rightarrow> 's \<times> order result \<times> order_note list" where
  "Orders_Create catalog_Product createOrGet observer newID now inp s =
     (case CreateInput_Validate inp of Some e \<Rightarrow> (s, Inl e, []) | None \<Rightarrow>
     (case catalog_Product (in_ProductID inp) of Inl e \<Rightarrow> (s, Inl (wrap ''resolve product'' e), []) | Inr product \<Rightarrow>
     (case newID of Inl e \<Rightarrow> (s, Inl e, []) | Inr i \<Rightarrow>
     (case Order_New i product (in_Quantity inp) (in_IdempotencyKey inp) now of Inl e \<Rightarrow> (s, Inl e, []) | Inr ord \<Rightarrow>
     (case createOrGet s ord of
        (s', Inl e) \<Rightarrow> (s', Inl (wrap ''persist order'' e), [])
      | (s', Inr (persisted, created)) \<Rightarrow>
          if \<not> created \<and> (order_ProductID persisted \<noteq> in_ProductID inp \<or>
                           order_Quantity persisted \<noteq> in_Quantity inp)
          then (s', Inl (Sentinel OrderApp_ErrIdempotencyKeyConflict), if observer then [OrderConflicted] else [])
          else (s', Inr persisted, if \<not> created \<and> observer then [OrderReplayed] else []))))))"

text \<open>\<^verbatim>\<open>Service.Get\<close>: an identifier of the wrong shape is reported as an absent order.\<close>

definition Orders_Get :: "('s \<Rightarrow> string \<Rightarrow> order result) \<Rightarrow> string \<Rightarrow> 's \<Rightarrow> order result" where
  "Orders_Get getOrder i s =
     (case ValidateID i of Some e \<Rightarrow> Inl (Sentinel ErrOrderNotFound) | None \<Rightarrow>
     (case getOrder s i of Inl e \<Rightarrow> Inl (wrap ''get order'' e) | Inr ord \<Rightarrow> Inr ord))"

section \<open>The ports\<close>

text \<open>A catalog answers a lookup with the product of that identifier, already validated.\<close>

locale order_catalog =
  fixes catalog_Product :: "string \<Rightarrow> product result"
  assumes product_valid:
    "catalog_Product i = Inr p \<Longrightarrow> product_ID p = i \<and> Product_Validate p = None"
begin

text \<open>What reaches the repository is priced from the catalog's own product.\<close>

lemma priced_from_catalog:
  assumes "CreateInput_Validate inp = None" and "catalog_Product (in_ProductID inp) = Inr p"
    and "Order_New i p (in_Quantity inp) (in_IdempotencyKey inp) now = Inr ord"
  shows "order_ProductID ord = in_ProductID inp \<and> order_Quantity ord = in_Quantity inp \<and>
         order_IdempotencyKey ord = in_IdempotencyKey inp \<and>
         order_Amount ord = product_UnitAmount p * in_Quantity inp \<and>
         order_Currency ord = product_Currency p \<and> order_wf ord"
  using assms product_valid [OF assms(2)] Order_New_wf [OF assms(3)]
  by (auto simp: Order_New_Inr_iff)

end

text \<open>A repository keeps at most one order per idempotency key: \<open>lookup\<close> reads the order that
  owns a key. It creates an order exactly when the key is free and otherwise returns the owner;
  when it reports an error the key's owner is either unchanged or the new order.\<close>

locale order_repository =
  fixes createOrGet :: "'s \<Rightarrow> order \<Rightarrow> 's \<times> (order \<times> bool) result"
    and lookup :: "'s \<Rightarrow> string \<Rightarrow> order option"
    and inv :: "'s \<Rightarrow> bool"
  assumes create_new:
    "inv s \<Longrightarrow> order_wf ord \<Longrightarrow> createOrGet s ord = (s', Inr (p, True)) \<Longrightarrow>
       inv s' \<and> p = ord \<and> lookup s (order_IdempotencyKey ord) = None \<and>
       lookup s' = (lookup s)(order_IdempotencyKey ord \<mapsto> ord)"
  and create_replay:
    "inv s \<Longrightarrow> order_wf ord \<Longrightarrow> createOrGet s ord = (s', Inr (p, False)) \<Longrightarrow>
       s' = s \<and> lookup s (order_IdempotencyKey ord) = Some p"
  and create_error:
    "inv s \<Longrightarrow> order_wf ord \<Longrightarrow> createOrGet s ord = (s', Inl e) \<Longrightarrow>
       inv s' \<and> (s' = s \<or> lookup s (order_IdempotencyKey ord) = None \<and>
                 lookup s' = (lookup s)(order_IdempotencyKey ord \<mapsto> ord))"
begin

text \<open>A key that has an owner never gets another one, whatever the use case is asked.\<close>

lemma createOrGet_keeps_owner:
  assumes "inv s" and "order_wf ord" and "createOrGet s ord = (s', r)"
  shows "inv s' \<and> (lookup s k = Some x \<longrightarrow> lookup s' k = Some x)"
proof (cases r)
  case (Inl e)
  with create_error [OF assms(1,2)] assms show ?thesis by (auto split: if_splits)
next
  case (Inr pc)
  with assms show ?thesis
    using create_new [OF assms(1,2), of s' "fst pc"] create_replay [OF assms(1,2), of s' "fst pc"]
    by (cases pc; cases "snd pc") (auto split: if_splits)
qed

lemma Create_keeps_owner:
  assumes "inv s" and "Orders_Create cat createOrGet obs nid now inp s = (s', r, ns)"
  shows "inv s' \<and> (lookup s k = Some x \<longrightarrow> lookup s' k = Some x)"
proof -
  from assms(2) consider "s' = s"
    | i p ord r' where "Order_New i p (in_Quantity inp) (in_IdempotencyKey inp) now = Inr ord"
        "createOrGet s ord = (s', r')"
    by (auto simp: Orders_Create_def split: option.splits sum.splits prod.splits if_splits)
  then show ?thesis
  proof cases
    case 2
    from createOrGet_keeps_owner [OF assms(1) Order_New_wf [OF 2(1)] 2(2)] show ?thesis .
  qed (use assms(1) in auto)
qed

lemma Create_ok_owner:
  assumes "inv s" and "Orders_Create cat createOrGet obs nid now inp s = (s', Inr ord, ns)"
  shows "inv s' \<and> lookup s' (in_IdempotencyKey inp) = Some ord \<and>
         (lookup s (in_IdempotencyKey inp) = None \<or> s' = s \<and> order_ProductID ord = in_ProductID inp \<and>
            order_Quantity ord = in_Quantity inp)"
proof -
  from assms(2) obtain p i o1 pp c where *: "CreateInput_Validate inp = None"
    "Order_New i p (in_Quantity inp) (in_IdempotencyKey inp) now = Inr o1"
    "createOrGet s o1 = (s', Inr (pp, c))" "ord = pp"
    "c \<or> order_ProductID pp = in_ProductID inp \<and> order_Quantity pp = in_Quantity inp"
    by (auto simp: Orders_Create_def split: option.splits sum.splits prod.splits if_splits)
  have wf: "order_wf o1" and key: "order_IdempotencyKey o1 = in_IdempotencyKey inp"
    using Order_New_wf [OF *(2)] *(2) by (auto simp: Order_New_Inr_iff)
  show ?thesis
  proof (cases c)
    case True
    with create_new [OF assms(1) wf] * key show ?thesis by auto
  next
    case False
    with create_replay [OF assms(1) wf] * key assms(1) show ?thesis by auto
  qed
qed

text \<open>Replaying a request against the state its first run left: the same order comes back, the
  state is untouched, and a different product or quantity under the same key is a conflict.\<close>

lemma Create_replay:
  assumes "inv s" and "lookup s (in_IdempotencyKey inp) = Some ord"
    and "Orders_Create cat createOrGet obs nid now inp s = (s', Inr ord', ns)"
  shows "s' = s \<and> ord' = ord \<and> order_ProductID ord = in_ProductID inp \<and> order_Quantity ord = in_Quantity inp"
  using Create_ok_owner [OF assms(1,3)] assms(2) by auto

end

end
