(* ===== verification/Catalog.thy ===== *)
theory Catalog
  imports Order_Service
begin

text \<open>
  Package \<^verbatim>\<open>internal/adapters/catalog\<close>: the fixed in-memory catalog, which implements the
  \<^verbatim>\<open>Catalog\<close> port of the order use cases.
\<close>

type_synonym static = "string \<rightharpoonup> product"

definition DemoProductID :: string where "DemoProductID = ''product_demo''"

fun NewStatic_loop :: "static \<Rightarrow> product list \<Rightarrow> static result" where
  "NewStatic_loop index [] = Inr index"
| "NewStatic_loop index (product # products) =
     (case Product_Validate product of
        Some e \<Rightarrow> Inl (Errorf [T ''catalog product '', T (quoted (product_ID product)), T '': '', W e])
      | None \<Rightarrow>
        if index (product_ID product) \<noteq> None
        then Inl (Errorf [T ''catalog product '', T (quoted (product_ID product)), T '': duplicated''])
        else NewStatic_loop (index(product_ID product \<mapsto> product)) products)"

definition NewStatic :: "product list \<Rightarrow> static result" where
  "NewStatic products = NewStatic_loop (\<lambda>_. None) products"

definition demo_product :: product where
  "demo_product = \<lparr>product_ID = DemoProductID, product_Name = ''Produto de demonstracao'',
                   product_UnitAmount = 10000, product_Currency = BRL\<rparr>"

definition Demo :: "static result" where
  "Demo = NewStatic [demo_product]"

definition Static_Product :: "static \<Rightarrow> string \<Rightarrow> product result" where
  "Static_Product products i =
     (case products i of None \<Rightarrow> Inl (Sentinel ErrProductNotFound) | Some p \<Rightarrow> Inr p)"

section \<open>Properties\<close>

definition static_wf :: "static \<Rightarrow> bool" where
  "static_wf c \<longleftrightarrow> (\<forall>i p. c i = Some p \<longrightarrow> product_ID p = i \<and> Product_Validate p = None)"

lemma NewStatic_loop_wf:
  "NewStatic_loop c ps = Inr c' \<Longrightarrow> static_wf c \<Longrightarrow> static_wf c' \<and> c \<subseteq>\<^sub>m c' \<and>
     (\<forall>p \<in> set ps. c' (product_ID p) = Some p)"
proof (induction ps arbitrary: c)
  case (Cons p ps)
  then have v: "Product_Validate p = None" and fresh: "c (product_ID p) = None"
    and rec: "NewStatic_loop (c(product_ID p \<mapsto> p)) ps = Inr c'"
    by (auto split: option.splits if_splits)
  have "static_wf (c(product_ID p \<mapsto> p))"
    using Cons.prems(2) v by (auto simp: static_wf_def)
  note IH = Cons.IH [OF rec this]
  then have "c' (product_ID p) = Some p" by (auto simp: map_le_def dom_def)
  moreover have "c \<subseteq>\<^sub>m c'" using IH fresh by (fastforce simp: map_le_def dom_def)
  ultimately show ?case using IH by auto
qed (simp add: static_wf_def)

lemma NewStatic_wf: "NewStatic ps = Inr c \<Longrightarrow> static_wf c"
  unfolding NewStatic_def by (drule NewStatic_loop_wf) (auto simp: static_wf_def)

text \<open>Every catalog the constructor accepts provides the port.\<close>

interpretation static_catalog: order_catalog
  "\<lambda>i. case NewStatic ps of Inl e \<Rightarrow> Inl e | Inr c \<Rightarrow> Static_Product c i" for ps
proof
  fix i p assume "(case NewStatic ps of Inl e \<Rightarrow> Inl e | Inr c \<Rightarrow> Static_Product c i) = Inr p"
  then obtain c where "NewStatic ps = Inr c" "c i = Some p"
    by (auto simp: Static_Product_def split: sum.splits option.splits)
  then show "product_ID p = i \<and> Product_Validate p = None"
    using NewStatic_wf [of ps c] by (auto simp: static_wf_def)
qed

lemma demo_valid: "Product_Validate demo_product = None"
proof -
  have "TrimSpace DemoProductID = DemoProductID"
    by (rule TrimSpace_plain) (auto simp: DemoProductID_def plain_char_def)
  then show ?thesis
    by (simp add: Product_Validate_None validProductID_def demo_product_def DemoProductID_def
        order_limits Currency_Valid_def BRL_def is_upper_def)
qed

text \<open>
  Catalog construction. A catalog \<^verbatim>\<open>NewStatic\<close> accepts resolves exactly the products it
  was given, each under its own identifier and each valid; and the demo catalog is accepted
  (its constructor cannot panic) and prices the demo product at 10000 BRL.
\<close>

theorem NewStatic_resolves:
  assumes "NewStatic ps = Inr c"
  shows "(\<forall>p \<in> set ps. Static_Product c (product_ID p) = Inr p) \<and>
         (\<forall>i p. Static_Product c i = Inr p \<longrightarrow> product_ID p = i \<and> Product_Validate p = None) \<and>
         (\<exists>d. Demo = Inr d \<and> Static_Product d DemoProductID = Inr demo_product)"
proof -
  have 1: "\<forall>p \<in> set ps. Static_Product c (product_ID p) = Inr p"
    using NewStatic_loop_wf [OF assms [unfolded NewStatic_def]]
    by (auto simp: Static_Product_def static_wf_def)
  have 2: "product_ID p = i \<and> Product_Validate p = None" if "Static_Product c i = Inr p" for i p
    using static_catalog.product_valid [of i ps p] assms that by simp
  have 3: "\<exists>d. Demo = Inr d \<and> Static_Product d DemoProductID = Inr demo_product"
    by (simp add: Demo_def NewStatic_def demo_valid Static_Product_def) (simp add: demo_product_def)
  from 1 2 3 show ?thesis by blast
qed

theorem NewStatic_resolves_witness:
  "\<exists>c. NewStatic [demo_product] = Inr c \<and> Static_Product c DemoProductID = Inr demo_product"
proof -
  obtain c where c: "NewStatic [demo_product] = Inr c"
    by (auto simp: NewStatic_def demo_valid)
  from NewStatic_resolves [OF c] have "Static_Product c (product_ID demo_product) = Inr demo_product" by simp
  with c show ?thesis by (auto simp: demo_product_def)
qed

end
