(* ===== verification/Payment_Domain.thy ===== *)
theory Payment_Domain
  imports Order_Domain
begin

text \<open>
  Package \<^verbatim>\<open>internal/domain/payments\<close>: payments, attempts and provider sessions, and the
  transition matrix \<^verbatim>\<open>Decide\<close> that says what a provider outcome does to them. The
  properties are about the matrix: it never leaves a settled state, it is idempotent, it
  escalates exactly the contradictions, and the order in which outcomes arrive does not
  change a success.
\<close>

section \<open>Identifiers (id.go)\<close>

definition paymentIDPrefix :: string where "paymentIDPrefix = ''pay_''"
definition attemptIDPrefix :: string where "attemptIDPrefix = ''pat_''"

definition Payments_newID :: "string \<Rightarrow> string result \<Rightarrow> string result" where
  "Payments_newID prefix rnd =
     (case rnd of Inl e \<Rightarrow> Inl (Errorf [T ''generate '', T prefix, T '' id: '', W e])
      | Inr bytes \<Rightarrow> Inr (prefix @ hex_encode bytes))"

definition NewPaymentID :: "string result \<Rightarrow> string result" where
  "NewPaymentID rnd = Payments_newID paymentIDPrefix rnd"

definition NewAttemptID :: "string result \<Rightarrow> string result" where
  "NewAttemptID rnd = Payments_newID attemptIDPrefix rnd"

section \<open>Payments, attempts, sessions (payment.go)\<close>

definition Stripe :: string where "Stripe = ''stripe''"

definition PaymentStatusPending :: string where "PaymentStatusPending = ''pending''"
definition PaymentStatusProcessing :: string where "PaymentStatusProcessing = ''processing''"
definition PaymentStatusSucceeded :: string where "PaymentStatusSucceeded = ''succeeded''"
definition PaymentStatusFailed :: string where "PaymentStatusFailed = ''failed''"
definition PaymentStatusCancelled :: string where "PaymentStatusCancelled = ''cancelled''"
definition PaymentStatusPartiallyRefunded :: string where
  "PaymentStatusPartiallyRefunded = ''partially_refunded''"
definition PaymentStatusRefunded :: string where "PaymentStatusRefunded = ''refunded''"

lemmas payment_status_defs =
  PaymentStatusPending_def PaymentStatusProcessing_def PaymentStatusSucceeded_def
  PaymentStatusFailed_def PaymentStatusCancelled_def PaymentStatusPartiallyRefunded_def
  PaymentStatusRefunded_def

lemma payment_status_distinct [simp, status_simps]:
  "PaymentStatusPending \<noteq> PaymentStatusProcessing"
  "PaymentStatusPending \<noteq> PaymentStatusSucceeded"
  "PaymentStatusPending \<noteq> PaymentStatusFailed"
  "PaymentStatusPending \<noteq> PaymentStatusCancelled"
  "PaymentStatusPending \<noteq> PaymentStatusPartiallyRefunded"
  "PaymentStatusPending \<noteq> PaymentStatusRefunded" "PaymentStatusPending \<noteq> []"
  "[] \<noteq> PaymentStatusPending" "PaymentStatusProcessing \<noteq> PaymentStatusPending"
  "PaymentStatusProcessing \<noteq> PaymentStatusSucceeded"
  "PaymentStatusProcessing \<noteq> PaymentStatusFailed"
  "PaymentStatusProcessing \<noteq> PaymentStatusCancelled"
  "PaymentStatusProcessing \<noteq> PaymentStatusPartiallyRefunded"
  "PaymentStatusProcessing \<noteq> PaymentStatusRefunded" "PaymentStatusProcessing \<noteq> []"
  "[] \<noteq> PaymentStatusProcessing" "PaymentStatusSucceeded \<noteq> PaymentStatusPending"
  "PaymentStatusSucceeded \<noteq> PaymentStatusProcessing"
  "PaymentStatusSucceeded \<noteq> PaymentStatusFailed"
  "PaymentStatusSucceeded \<noteq> PaymentStatusCancelled"
  "PaymentStatusSucceeded \<noteq> PaymentStatusPartiallyRefunded"
  "PaymentStatusSucceeded \<noteq> PaymentStatusRefunded" "PaymentStatusSucceeded \<noteq> []"
  "[] \<noteq> PaymentStatusSucceeded" "PaymentStatusFailed \<noteq> PaymentStatusPending"
  "PaymentStatusFailed \<noteq> PaymentStatusProcessing"
  "PaymentStatusFailed \<noteq> PaymentStatusSucceeded"
  "PaymentStatusFailed \<noteq> PaymentStatusCancelled"
  "PaymentStatusFailed \<noteq> PaymentStatusPartiallyRefunded"
  "PaymentStatusFailed \<noteq> PaymentStatusRefunded" "PaymentStatusFailed \<noteq> []"
  "[] \<noteq> PaymentStatusFailed" "PaymentStatusCancelled \<noteq> PaymentStatusPending"
  "PaymentStatusCancelled \<noteq> PaymentStatusProcessing"
  "PaymentStatusCancelled \<noteq> PaymentStatusSucceeded"
  "PaymentStatusCancelled \<noteq> PaymentStatusFailed"
  "PaymentStatusCancelled \<noteq> PaymentStatusPartiallyRefunded"
  "PaymentStatusCancelled \<noteq> PaymentStatusRefunded" "PaymentStatusCancelled \<noteq> []"
  "[] \<noteq> PaymentStatusCancelled"
  "PaymentStatusPartiallyRefunded \<noteq> PaymentStatusPending"
  "PaymentStatusPartiallyRefunded \<noteq> PaymentStatusProcessing"
  "PaymentStatusPartiallyRefunded \<noteq> PaymentStatusSucceeded"
  "PaymentStatusPartiallyRefunded \<noteq> PaymentStatusFailed"
  "PaymentStatusPartiallyRefunded \<noteq> PaymentStatusCancelled"
  "PaymentStatusPartiallyRefunded \<noteq> PaymentStatusRefunded"
  "PaymentStatusPartiallyRefunded \<noteq> []" "[] \<noteq> PaymentStatusPartiallyRefunded"
  "PaymentStatusRefunded \<noteq> PaymentStatusPending"
  "PaymentStatusRefunded \<noteq> PaymentStatusProcessing"
  "PaymentStatusRefunded \<noteq> PaymentStatusSucceeded"
  "PaymentStatusRefunded \<noteq> PaymentStatusFailed"
  "PaymentStatusRefunded \<noteq> PaymentStatusCancelled"
  "PaymentStatusRefunded \<noteq> PaymentStatusPartiallyRefunded"
  "PaymentStatusRefunded \<noteq> []" "[] \<noteq> PaymentStatusRefunded"
  by (simp_all add: payment_status_defs)

definition AttemptStatusCreated :: string where "AttemptStatusCreated = ''created''"
definition AttemptStatusPending :: string where "AttemptStatusPending = ''pending''"
definition AttemptStatusSucceeded :: string where "AttemptStatusSucceeded = ''succeeded''"
definition AttemptStatusFailed :: string where "AttemptStatusFailed = ''failed''"
definition AttemptStatusExpired :: string where "AttemptStatusExpired = ''expired''"
definition AttemptStatusCancelled :: string where "AttemptStatusCancelled = ''cancelled''"

lemmas attempt_status_defs =
  AttemptStatusCreated_def AttemptStatusPending_def AttemptStatusSucceeded_def
  AttemptStatusFailed_def AttemptStatusExpired_def AttemptStatusCancelled_def


lemma attempt_status_distinct [simp, status_simps]:
  "AttemptStatusCreated \<noteq> AttemptStatusPending"
  "AttemptStatusCreated \<noteq> AttemptStatusSucceeded"
  "AttemptStatusCreated \<noteq> AttemptStatusFailed"
  "AttemptStatusCreated \<noteq> AttemptStatusExpired"
  "AttemptStatusCreated \<noteq> AttemptStatusCancelled" "AttemptStatusCreated \<noteq> []"
  "[] \<noteq> AttemptStatusCreated" "AttemptStatusPending \<noteq> AttemptStatusCreated"
  "AttemptStatusPending \<noteq> AttemptStatusSucceeded"
  "AttemptStatusPending \<noteq> AttemptStatusFailed"
  "AttemptStatusPending \<noteq> AttemptStatusExpired"
  "AttemptStatusPending \<noteq> AttemptStatusCancelled" "AttemptStatusPending \<noteq> []"
  "[] \<noteq> AttemptStatusPending" "AttemptStatusSucceeded \<noteq> AttemptStatusCreated"
  "AttemptStatusSucceeded \<noteq> AttemptStatusPending"
  "AttemptStatusSucceeded \<noteq> AttemptStatusFailed"
  "AttemptStatusSucceeded \<noteq> AttemptStatusExpired"
  "AttemptStatusSucceeded \<noteq> AttemptStatusCancelled" "AttemptStatusSucceeded \<noteq> []"
  "[] \<noteq> AttemptStatusSucceeded" "AttemptStatusFailed \<noteq> AttemptStatusCreated"
  "AttemptStatusFailed \<noteq> AttemptStatusPending"
  "AttemptStatusFailed \<noteq> AttemptStatusSucceeded"
  "AttemptStatusFailed \<noteq> AttemptStatusExpired"
  "AttemptStatusFailed \<noteq> AttemptStatusCancelled" "AttemptStatusFailed \<noteq> []"
  "[] \<noteq> AttemptStatusFailed" "AttemptStatusExpired \<noteq> AttemptStatusCreated"
  "AttemptStatusExpired \<noteq> AttemptStatusPending"
  "AttemptStatusExpired \<noteq> AttemptStatusSucceeded"
  "AttemptStatusExpired \<noteq> AttemptStatusFailed"
  "AttemptStatusExpired \<noteq> AttemptStatusCancelled" "AttemptStatusExpired \<noteq> []"
  "[] \<noteq> AttemptStatusExpired" "AttemptStatusCancelled \<noteq> AttemptStatusCreated"
  "AttemptStatusCancelled \<noteq> AttemptStatusPending"
  "AttemptStatusCancelled \<noteq> AttemptStatusSucceeded"
  "AttemptStatusCancelled \<noteq> AttemptStatusFailed"
  "AttemptStatusCancelled \<noteq> AttemptStatusExpired" "AttemptStatusCancelled \<noteq> []"
  "[] \<noteq> AttemptStatusCancelled"
  by (simp_all add: attempt_status_defs)

record payment =
  payment_ID :: string
  payment_OrderID :: string
  payment_Provider :: string
  payment_Status :: string
  payment_Amount :: int
  payment_Currency :: string
  payment_CreatedAt :: instant
  payment_UpdatedAt :: instant

record attempt =
  attempt_ID :: string
  attempt_PaymentID :: string
  attempt_Provider :: string
  attempt_Status :: string
  attempt_IdempotencyKey :: string
  attempt_ProviderSessionID :: string
  attempt_ProviderPaymentIntentID :: string
  attempt_CheckoutURL :: string
  attempt_ExpiresAt :: instant
  attempt_CreatedAt :: instant
  attempt_UpdatedAt :: instant

record session =
  session_ID :: string
  session_PaymentIntentID :: string
  session_URL :: string
  session_ExpiresAt :: instant

text \<open>\<^verbatim>\<open>payments.New\<close>.\<close>

definition Payment_New ::
  "string \<Rightarrow> string \<Rightarrow> order \<Rightarrow> string \<Rightarrow> instant \<Rightarrow> (payment \<times> attempt) result" where
  "Payment_New paymentID attemptID ord idempotencyKey now =
     (if TrimSpace paymentID = [] \<or> TrimSpace attemptID = [] \<or> order_ID ord = [] \<or>
         order_Amount ord \<le> 0 \<or> \<not> Currency_Valid (order_Currency ord) \<or>
         ValidateQuantity (order_Quantity ord) \<noteq> None
      then Inl (Sentinel ErrInvalidPayment)
      else if ValidateIdempotencyKey idempotencyKey \<noteq> None then Inl (Sentinel ErrInvalidAttempt)
      else Inr
       (\<lparr>payment_ID = paymentID, payment_OrderID = order_ID ord, payment_Provider = Stripe,
         payment_Status = PaymentStatusPending, payment_Amount = order_Amount ord,
         payment_Currency = order_Currency ord, payment_CreatedAt = UTC now,
         payment_UpdatedAt = UTC now\<rparr>,
        \<lparr>attempt_ID = attemptID, attempt_PaymentID = paymentID, attempt_Provider = Stripe,
         attempt_Status = AttemptStatusCreated, attempt_IdempotencyKey = idempotencyKey,
         attempt_ProviderSessionID = [], attempt_ProviderPaymentIntentID = [],
         attempt_CheckoutURL = [], attempt_ExpiresAt = 0, attempt_CreatedAt = UTC now,
         attempt_UpdatedAt = UTC now\<rparr>))"

text \<open>What \<^verbatim>\<open>net/url.Parse\<close> reports of a URL and the program looks at. The parser itself is
  an argument of the definitions that use it.\<close>

record url =
  url_Scheme :: string
  url_Host :: string

type_synonym url_parser = "string \<Rightarrow> url result"

text \<open>\<^verbatim>\<open>Attempt.AttachSession\<close> and \<^verbatim>\<open>Attempt.HasSession\<close>.\<close>

definition AttachSession :: "url_parser \<Rightarrow> attempt \<Rightarrow> session \<Rightarrow> instant \<Rightarrow> attempt result" where
  "AttachSession url_Parse a s now =
     (if TrimSpace (session_ID s) = [] \<or>
         (case url_Parse (session_URL s) of Inl e \<Rightarrow> True
          | Inr u \<Rightarrow> url_Scheme u \<noteq> ''https'' \<or> url_Host u = []) \<or>
         \<not> now < session_ExpiresAt s
      then Inl (Sentinel ErrInvalidSession)
      else Inr (a\<lparr>attempt_Status := AttemptStatusPending,
                  attempt_ProviderSessionID := session_ID s,
                  attempt_ProviderPaymentIntentID := session_PaymentIntentID s,
                  attempt_CheckoutURL := session_URL s,
                  attempt_ExpiresAt := UTC (session_ExpiresAt s),
                  attempt_UpdatedAt := UTC now\<rparr>))"

definition HasSession :: "attempt \<Rightarrow> bool" where
  "HasSession a \<longleftrightarrow>
     attempt_Status a = AttemptStatusPending \<and> attempt_ProviderSessionID a \<noteq> [] \<and>
     attempt_CheckoutURL a \<noteq> [] \<and> \<not> IsZero (attempt_ExpiresAt a)"

section \<open>The transition matrix (transition.go)\<close>

definition OutcomeSucceeded :: string where "OutcomeSucceeded = ''succeeded''"
definition OutcomePending :: string where "OutcomePending = ''pending''"
definition OutcomeFailed :: string where "OutcomeFailed = ''failed''"
definition OutcomeExpired :: string where "OutcomeExpired = ''expired''"

lemmas outcome_defs = OutcomeSucceeded_def OutcomePending_def OutcomeFailed_def OutcomeExpired_def

lemma outcome_distinct [simp, status_simps]:
  "OutcomeSucceeded \<noteq> OutcomePending" "OutcomeSucceeded \<noteq> OutcomeFailed"
  "OutcomeSucceeded \<noteq> OutcomeExpired" "OutcomeSucceeded \<noteq> []"
  "[] \<noteq> OutcomeSucceeded" "OutcomePending \<noteq> OutcomeSucceeded"
  "OutcomePending \<noteq> OutcomeFailed" "OutcomePending \<noteq> OutcomeExpired"
  "OutcomePending \<noteq> []" "[] \<noteq> OutcomePending"
  "OutcomeFailed \<noteq> OutcomeSucceeded" "OutcomeFailed \<noteq> OutcomePending"
  "OutcomeFailed \<noteq> OutcomeExpired" "OutcomeFailed \<noteq> []" "[] \<noteq> OutcomeFailed"
  "OutcomeExpired \<noteq> OutcomeSucceeded" "OutcomeExpired \<noteq> OutcomePending"
  "OutcomeExpired \<noteq> OutcomeFailed" "OutcomeExpired \<noteq> []" "[] \<noteq> OutcomeExpired"
  by (simp_all add: outcome_defs)

text \<open>\<^verbatim>\<open>Decision\<close> is an integer type with three named values.\<close>

datatype decision = DecisionApply | DecisionNoOp | DecisionConflict | DecisionUnknown int

fun Decision_String :: "decision \<Rightarrow> string" where
  "Decision_String DecisionApply = ''apply''"
| "Decision_String DecisionNoOp = ''no-op''"
| "Decision_String DecisionConflict = ''conflict''"
| "Decision_String (DecisionUnknown n) = ''unknown''"

text \<open>A zero target (the empty string) leaves the entity untouched.\<close>

record transition =
  tr_Decision :: decision
  tr_Attempt :: string
  tr_Payment :: string
  tr_OrderPaid :: bool
  tr_Reason :: string

definition attemptSettled :: "string \<Rightarrow> bool" where
  "attemptSettled status \<longleftrightarrow>
     status = AttemptStatusSucceeded \<or> status = AttemptStatusFailed \<or>
     status = AttemptStatusExpired \<or> status = AttemptStatusCancelled"

definition paymentSettled :: "string \<Rightarrow> bool" where
  "paymentSettled status \<longleftrightarrow>
     status = PaymentStatusSucceeded \<or> status = PaymentStatusFailed \<or>
     status = PaymentStatusCancelled \<or> status = PaymentStatusPartiallyRefunded \<or>
     status = PaymentStatusRefunded"

abbreviation tr_noop :: "string \<Rightarrow> transition" where
  "tr_noop reason \<equiv> \<lparr>tr_Decision = DecisionNoOp, tr_Attempt = [], tr_Payment = [],
                     tr_OrderPaid = False, tr_Reason = reason\<rparr>"

abbreviation tr_conflict :: "string \<Rightarrow> transition" where
  "tr_conflict reason \<equiv> \<lparr>tr_Decision = DecisionConflict, tr_Attempt = [], tr_Payment = [],
                         tr_OrderPaid = False, tr_Reason = reason\<rparr>"

definition decideSucceeded :: "string \<Rightarrow> string \<Rightarrow> transition" where
  "decideSucceeded payment attempt =
     (if payment = PaymentStatusSucceeded \<and> attempt = AttemptStatusSucceeded
      then tr_noop ''payment already succeeded''
      else if payment = PaymentStatusPartiallyRefunded \<or> payment = PaymentStatusRefunded
      then tr_noop (''payment already '' @ payment)
      else if paymentSettled payment
      then tr_conflict (''provider reports success over a payment already '' @ payment)
      else if attempt = AttemptStatusSucceeded
      then \<lparr>tr_Decision = DecisionApply, tr_Attempt = [], tr_Payment = PaymentStatusSucceeded,
            tr_OrderPaid = True, tr_Reason = ''attempt already succeeded; settling the payment only''\<rparr>
      else if attemptSettled attempt
      then tr_conflict (''provider reports success over an attempt already '' @ attempt)
      else \<lparr>tr_Decision = DecisionApply, tr_Attempt = AttemptStatusSucceeded,
            tr_Payment = PaymentStatusSucceeded, tr_OrderPaid = True, tr_Reason = []\<rparr>)"

definition decidePending :: "string \<Rightarrow> string \<Rightarrow> transition" where
  "decidePending payment attempt =
     (if paymentSettled payment
      then tr_noop (''payment already '' @ payment @ ''; a completed session adds nothing'')
      else if payment = PaymentStatusProcessing then tr_noop ''payment already processing''
      else if attemptSettled attempt
      then tr_noop (''attempt already '' @ attempt @ ''; a completed session adds nothing'')
      else \<lparr>tr_Decision = DecisionApply, tr_Attempt = [], tr_Payment = PaymentStatusProcessing,
            tr_OrderPaid = False, tr_Reason = []\<rparr>)"

definition decideFailed :: "string \<Rightarrow> string \<Rightarrow> transition" where
  "decideFailed payment attempt =
     (if payment = PaymentStatusFailed \<and> attempt = AttemptStatusFailed
      then tr_noop ''payment already failed''
      else if payment = PaymentStatusSucceeded then tr_noop ''payment already succeeded''
      else if paymentSettled payment then tr_noop (''payment already '' @ payment)
      else if attempt = AttemptStatusFailed
      then \<lparr>tr_Decision = DecisionApply, tr_Attempt = [], tr_Payment = PaymentStatusFailed,
            tr_OrderPaid = False, tr_Reason = ''attempt already failed; failing the payment only''\<rparr>
      else if attemptSettled attempt then tr_noop (''attempt already '' @ attempt)
      else \<lparr>tr_Decision = DecisionApply, tr_Attempt = AttemptStatusFailed,
            tr_Payment = PaymentStatusFailed, tr_OrderPaid = False, tr_Reason = []\<rparr>)"

definition decideExpired :: "string \<Rightarrow> string \<Rightarrow> transition" where
  "decideExpired payment attempt =
     (if attemptSettled attempt then tr_noop (''attempt already '' @ attempt)
      else if paymentSettled payment
      then tr_noop (''payment already '' @ payment @ ''; the session expiring changes nothing'')
      else \<lparr>tr_Decision = DecisionApply, tr_Attempt = AttemptStatusExpired, tr_Payment = [],
            tr_OrderPaid = False, tr_Reason = []\<rparr>)"

definition Decide :: "string \<Rightarrow> string \<Rightarrow> string \<Rightarrow> transition" where
  "Decide outcome payment attempt =
     (if outcome = OutcomeSucceeded then decideSucceeded payment attempt
      else if outcome = OutcomePending then decidePending payment attempt
      else if outcome = OutcomeFailed then decideFailed payment attempt
      else if outcome = OutcomeExpired then decideExpired payment attempt
      else tr_conflict (''unknown financial outcome: '' @ outcome))"

lemmas decide_defs =
  Decide_def decideSucceeded_def decidePending_def decideFailed_def decideExpired_def

lemmas settled_defs = attemptSettled_def paymentSettled_def

section \<open>Properties of the matrix\<close>

lemma settled_simps [simp]:
  "attemptSettled AttemptStatusSucceeded" "attemptSettled AttemptStatusFailed"
  "attemptSettled AttemptStatusExpired" "attemptSettled AttemptStatusCancelled"
  "\<not> attemptSettled AttemptStatusCreated" "\<not> attemptSettled AttemptStatusPending"
  "paymentSettled PaymentStatusSucceeded" "paymentSettled PaymentStatusFailed"
  "paymentSettled PaymentStatusCancelled" "paymentSettled PaymentStatusPartiallyRefunded"
  "paymentSettled PaymentStatusRefunded"
  "\<not> paymentSettled PaymentStatusPending" "\<not> paymentSettled PaymentStatusProcessing"
  by (simp_all add: settled_defs)

lemma not_settled_neq:
  "\<not> paymentSettled p \<Longrightarrow> p \<noteq> PaymentStatusSucceeded \<and> p \<noteq> PaymentStatusFailed \<and>
     p \<noteq> PaymentStatusCancelled \<and> p \<noteq> PaymentStatusPartiallyRefunded \<and> p \<noteq> PaymentStatusRefunded"
  "\<not> attemptSettled a \<Longrightarrow> a \<noteq> AttemptStatusSucceeded \<and> a \<noteq> AttemptStatusFailed \<and>
     a \<noteq> AttemptStatusExpired \<and> a \<noteq> AttemptStatusCancelled"
  by (auto simp: settled_defs)

lemma paymentSettled_cases:
  "paymentSettled p \<longleftrightarrow> p \<in> {PaymentStatusSucceeded, PaymentStatusFailed, PaymentStatusCancelled,
     PaymentStatusPartiallyRefunded, PaymentStatusRefunded}"
  by (simp add: paymentSettled_def)

text \<open>One row per branch of the matrix that moves something.\<close>

lemma Decide_Apply_iff:
  "tr_Decision (Decide x p a) = DecisionApply \<longleftrightarrow> \<not> paymentSettled p \<and>
     (x = OutcomeSucceeded \<and> (a = AttemptStatusSucceeded \<or> \<not> attemptSettled a) \<or>
      x = OutcomePending \<and> p \<noteq> PaymentStatusProcessing \<and> \<not> attemptSettled a \<or>
      x = OutcomeFailed \<and> (a = AttemptStatusFailed \<or> \<not> attemptSettled a) \<or>
      x = OutcomeExpired \<and> \<not> attemptSettled a)"
  by (auto simp: decide_defs settled_defs)

text \<open>The effect of a decision on the pair of statuses (payment, attempt); a no-op and a
  conflict leave both alone.\<close>

definition moved :: "transition \<Rightarrow> string \<times> string \<Rightarrow> string \<times> string" where
  "moved t pa =
     (if tr_Decision t = DecisionApply
      then (if tr_Payment t = [] then fst pa else tr_Payment t,
            if tr_Attempt t = [] then snd pa else tr_Attempt t)
      else pa)"

definition step_outcome :: "string \<Rightarrow> string \<times> string \<Rightarrow> string \<times> string" where
  "step_outcome x pa = moved (Decide x (fst pa) (snd pa)) pa"

definition run_outcomes :: "string list \<Rightarrow> string \<times> string \<Rightarrow> string \<times> string" where
  "run_outcomes xs pa = fold step_outcome xs pa"

lemma run_outcomes_simps [simp]:
  "run_outcomes [] pa = pa"
  "run_outcomes (x # xs) pa = run_outcomes xs (step_outcome x pa)"
  "run_outcomes (xs @ ys) pa = run_outcomes ys (run_outcomes xs pa)"
  by (simp_all add: run_outcomes_def)

lemma step_outcome_open:
  assumes "\<not> paymentSettled p" "\<not> attemptSettled a"
  shows "step_outcome OutcomeSucceeded (p, a) = (PaymentStatusSucceeded, AttemptStatusSucceeded)"
    and "step_outcome OutcomeFailed (p, a) = (PaymentStatusFailed, AttemptStatusFailed)"
    and "step_outcome OutcomeExpired (p, a) = (p, AttemptStatusExpired)"
    and "step_outcome OutcomePending (p, a) = (PaymentStatusProcessing, a)"
  using assms by (auto simp: step_outcome_def moved_def decide_defs dest: not_settled_neq)

text \<open>An attempt settled in the same direction lets the payment catch up.\<close>

lemma step_outcome_resume:
  assumes "\<not> paymentSettled p"
  shows "step_outcome OutcomeSucceeded (p, AttemptStatusSucceeded) = (PaymentStatusSucceeded, AttemptStatusSucceeded)"
    and "step_outcome OutcomeFailed (p, AttemptStatusFailed) = (PaymentStatusFailed, AttemptStatusFailed)"
  using assms by (auto simp: step_outcome_def moved_def decide_defs dest: not_settled_neq)

lemma repeated_noop:
  "tr_Decision (Decide OutcomeSucceeded PaymentStatusSucceeded AttemptStatusSucceeded) = DecisionNoOp"
  "tr_Decision (Decide OutcomePending PaymentStatusProcessing a) = DecisionNoOp"
  "tr_Decision (Decide OutcomeFailed PaymentStatusFailed AttemptStatusFailed) = DecisionNoOp"
  "tr_Decision (Decide OutcomeExpired p AttemptStatusExpired) = DecisionNoOp"
  by (simp_all add: decide_defs)

text \<open>
  The matrix never leaves a settled state. An approved transition requires an open
  payment; it writes the attempt only when the attempt is open; it always writes something;
  and it marks the order paid exactly when it settles the payment as succeeded, which only a
  success outcome does.
\<close>

theorem Decide_safe:
  assumes "tr_Decision (Decide x p a) = DecisionApply"
  shows "\<not> paymentSettled p \<and>
         (tr_Attempt (Decide x p a) \<noteq> [] \<longrightarrow> \<not> attemptSettled a \<and> attemptSettled (tr_Attempt (Decide x p a))) \<and>
         (tr_Attempt (Decide x p a) \<noteq> [] \<or> tr_Payment (Decide x p a) \<noteq> []) \<and>
         (tr_OrderPaid (Decide x p a) \<longleftrightarrow> tr_Payment (Decide x p a) = PaymentStatusSucceeded) \<and>
         (tr_OrderPaid (Decide x p a) \<longleftrightarrow> x = OutcomeSucceeded) \<and>
         tr_Payment (Decide x p a) \<in> {[], PaymentStatusProcessing, PaymentStatusSucceeded, PaymentStatusFailed}"
  using assms unfolding Decide_Apply_iff
  by (auto simp: decide_defs dest: not_settled_neq)

theorem Decide_safe_witness:
  "tr_Decision (Decide OutcomeSucceeded PaymentStatusProcessing AttemptStatusPending) = DecisionApply \<and>
   tr_OrderPaid (Decide OutcomeSucceeded PaymentStatusProcessing AttemptStatusPending)"
proof -
  have h: "tr_Decision (Decide OutcomeSucceeded PaymentStatusProcessing AttemptStatusPending) = DecisionApply"
    by (simp add: Decide_Apply_iff)
  then show ?thesis using Decide_safe [OF h] by blast
qed

text \<open>
  The matrix is idempotent. After an outcome has been applied, the same outcome arriving
  again is a no-op: never a second effect and never a conflict.
\<close>

theorem Decide_idempotent:
  assumes "tr_Decision (Decide x p a) = DecisionApply" and "step_outcome x (p, a) = (p', a')"
  shows "tr_Decision (Decide x p' a') = DecisionNoOp"
proof -
  from assms(1) have "\<not> paymentSettled p"
    and "x = OutcomeSucceeded \<and> (a = AttemptStatusSucceeded \<or> \<not> attemptSettled a) \<or>
      x = OutcomePending \<and> p \<noteq> PaymentStatusProcessing \<and> \<not> attemptSettled a \<or>
      x = OutcomeFailed \<and> (a = AttemptStatusFailed \<or> \<not> attemptSettled a) \<or>
      x = OutcomeExpired \<and> \<not> attemptSettled a"
    by (simp_all add: Decide_Apply_iff)
  with assms(2) show ?thesis
    by (elim disjE conjE) (auto simp: step_outcome_open step_outcome_resume repeated_noop)
qed

theorem Decide_idempotent_witness:
  "step_outcome OutcomeFailed (PaymentStatusPending, AttemptStatusCreated)
     = (PaymentStatusFailed, AttemptStatusFailed) \<and>
   tr_Decision (Decide OutcomeFailed PaymentStatusFailed AttemptStatusFailed) = DecisionNoOp"
proof -
  have 1: "tr_Decision (Decide OutcomeFailed PaymentStatusPending AttemptStatusCreated) = DecisionApply"
    by (simp add: Decide_Apply_iff)
  have 2: "step_outcome OutcomeFailed (PaymentStatusPending, AttemptStatusCreated)
             = (PaymentStatusFailed, AttemptStatusFailed)"
    by (simp add: step_outcome_def moved_def decide_defs)
  show ?thesis using 2 Decide_idempotent [OF 1 2] by simp
qed

text \<open>
  The asymmetry of the matrix. A decision is a conflict exactly for an unknown outcome,
  or for a success reported over a payment already failed or cancelled, over a payment
  succeeded by another attempt, or, with the payment open, over an attempt already failed,
  expired or cancelled. A negative or pending outcome is never a conflict.
\<close>

theorem Decide_conflict_iff:
  "tr_Decision (Decide x p a) = DecisionConflict \<longleftrightarrow>
     (if x \<in> {OutcomeSucceeded, OutcomePending, OutcomeFailed, OutcomeExpired}
      then x = OutcomeSucceeded \<and>
        (p \<in> {PaymentStatusFailed, PaymentStatusCancelled} \<or>
         p = PaymentStatusSucceeded \<and> a \<noteq> AttemptStatusSucceeded \<or>
         \<not> paymentSettled p \<and> a \<in> {AttemptStatusFailed, AttemptStatusExpired, AttemptStatusCancelled})
      else True)"
  by (auto simp: decide_defs settled_defs)

subsection \<open>Arrival order\<close>

abbreviation "settling_outcomes \<equiv> {OutcomeSucceeded, OutcomeFailed, OutcomeExpired}"

lemma step_outcome_other:
  "x \<notin> settling_outcomes \<Longrightarrow> x \<noteq> OutcomePending \<Longrightarrow> step_outcome x pa = pa"
  by (auto simp: step_outcome_def moved_def Decide_def)

lemma run_outcomes_undecided:
  assumes "set xs \<inter> settling_outcomes = {}" "\<not> paymentSettled p" "\<not> attemptSettled a"
  shows "run_outcomes xs (p, a) = (if OutcomePending \<in> set xs then PaymentStatusProcessing else p, a)"
  using assms(1,2)
proof (induction xs arbitrary: p)
  case Nil
  then show ?case by simp
next
  case (Cons x xs)
  show ?case
  proof (cases "x = OutcomePending")
    case True
    with Cons assms(3) show ?thesis by (simp add: step_outcome_open)
  next
    case False
    with Cons.prems have "step_outcome x (p, a) = (p, a)" by (intro step_outcome_other) auto
    with Cons False show ?thesis by simp
  qed
qed

lemma run_outcomes_final:
  assumes "\<And>x. step_outcome x pa = pa"
  shows "run_outcomes xs pa = pa"
  using assms by (induction xs) auto

lemma step_outcome_settled:
  "step_outcome x (PaymentStatusSucceeded, AttemptStatusSucceeded) = (PaymentStatusSucceeded, AttemptStatusSucceeded)"
  "step_outcome x (PaymentStatusFailed, AttemptStatusFailed) = (PaymentStatusFailed, AttemptStatusFailed)"
  by (auto simp: step_outcome_def moved_def decide_defs)

lemma step_outcome_expired:
  "\<not> paymentSettled p \<Longrightarrow> step_outcome x (p, AttemptStatusExpired) = (p, AttemptStatusExpired)"
  by (auto simp: step_outcome_def moved_def decide_defs dest: not_settled_neq)

text \<open>
  The arrival order of the provider's events. From an open payment and attempt, whatever
  precedes it that does not settle (completed-but-unpaid notices, unknown outcomes) and
  whatever follows it, in any order and multiplicity, the first settling outcome decides the
  final state: a success ends in succeeded/succeeded, a failure in failed/failed, and an
  expiry closes the attempt and leaves the payment open.
\<close>

theorem first_settling_outcome_decides:
  assumes "\<not> paymentSettled p" and "\<not> attemptSettled a" and "set pre \<inter> settling_outcomes = {}"
  shows "run_outcomes (pre @ OutcomeSucceeded # post) (p, a) = (PaymentStatusSucceeded, AttemptStatusSucceeded) \<and>
         run_outcomes (pre @ OutcomeFailed # post) (p, a) = (PaymentStatusFailed, AttemptStatusFailed) \<and>
         run_outcomes (pre @ OutcomeExpired # post) (p, a) =
           (if OutcomePending \<in> set pre then PaymentStatusProcessing else p, AttemptStatusExpired)"
  using assms
  by (simp_all add: run_outcomes_undecided step_outcome_open run_outcomes_final
      step_outcome_settled step_outcome_expired)

theorem first_settling_outcome_decides_witness:
  "run_outcomes [OutcomePending, OutcomeSucceeded, OutcomeFailed, OutcomePending, OutcomeExpired]
     (PaymentStatusPending, AttemptStatusPending) = (PaymentStatusSucceeded, AttemptStatusSucceeded)"
  using first_settling_outcome_decides [of PaymentStatusPending AttemptStatusPending "[OutcomePending]"
      "[OutcomeFailed, OutcomePending, OutcomeExpired]"]
  by simp

text \<open>
  A session is attached only when it can be paid. \<^verbatim>\<open>AttachSession\<close> succeeds only for a
  session with an identifier, an absolute https URL with a host and an expiry in the future,
  and then the attempt reports the session (\<^verbatim>\<open>HasSession\<close>) with the provider's URL and
  expiry; every field that is not part of the session is kept.
\<close>

theorem AttachSession_ok:
  assumes "AttachSession url_Parse a s now = Inr a'" and "0 \<le> now" and "session_URL s \<noteq> []"
  shows "(\<exists>u. url_Parse (session_URL s) = Inr u \<and> url_Scheme u = ''https'' \<and> url_Host u \<noteq> []) \<and>
         now < session_ExpiresAt s \<and> HasSession a' \<and>
         attempt_CheckoutURL a' = session_URL s \<and> attempt_ExpiresAt a' = session_ExpiresAt s \<and>
         attempt_ProviderSessionID a' = session_ID s \<and>
         attempt_ID a' = attempt_ID a \<and> attempt_PaymentID a' = attempt_PaymentID a \<and>
         attempt_IdempotencyKey a' = attempt_IdempotencyKey a"
proof -
  have "session_ID s \<noteq> []" using assms(1) by (auto simp: AttachSession_def split: if_splits)
  with assms show ?thesis
    by (auto simp: AttachSession_def HasSession_def split: if_splits sum.splits)
qed

theorem AttachSession_ok_witness:
  "HasSession (case AttachSession (\<lambda>_. Inr \<lparr>url_Scheme = ''https'', url_Host = ''checkout.stripe.com''\<rparr>)
       \<lparr>attempt_ID = ''pat_1'', attempt_PaymentID = ''pay_1'', attempt_Provider = Stripe,
        attempt_Status = AttemptStatusCreated, attempt_IdempotencyKey = ''k'',
        attempt_ProviderSessionID = [], attempt_ProviderPaymentIntentID = [], attempt_CheckoutURL = [],
        attempt_ExpiresAt = 0, attempt_CreatedAt = 1, attempt_UpdatedAt = 1\<rparr>
       \<lparr>session_ID = ''cs_1'', session_PaymentIntentID = [], session_URL = ''https://checkout.stripe.com/1'',
        session_ExpiresAt = 9\<rparr> 5 of Inr a' \<Rightarrow> a')"
proof -
  let ?P = "\<lambda>_::string. Inr \<lparr>url_Scheme = ''https'', url_Host = ''checkout.stripe.com''\<rparr> :: url result"
  let ?a = "\<lparr>attempt_ID = ''pat_1'', attempt_PaymentID = ''pay_1'', attempt_Provider = Stripe,
        attempt_Status = AttemptStatusCreated, attempt_IdempotencyKey = ''k'',
        attempt_ProviderSessionID = [], attempt_ProviderPaymentIntentID = [], attempt_CheckoutURL = [],
        attempt_ExpiresAt = 0, attempt_CreatedAt = 1, attempt_UpdatedAt = 1\<rparr>"
  let ?s = "\<lparr>session_ID = ''cs_1'', session_PaymentIntentID = [],
        session_URL = ''https://checkout.stripe.com/1'', session_ExpiresAt = 9\<rparr>"
  have "TrimSpace ''cs_1'' = ''cs_1''" by (rule TrimSpace_plain) (auto simp: plain_char_def)
  then obtain a' where a': "AttachSession ?P ?a ?s 5 = Inr a'" by (simp add: AttachSession_def)
  from AttachSession_ok [OF a'] have "HasSession a'" by simp
  with a' show ?thesis by simp
qed

end
