(* ===== verification/Webhook_Domain.thy ===== *)
theory Webhook_Domain
  imports GoLang
begin

text \<open>
  Package \<^verbatim>\<open>internal/domain/webhooks\<close>: the entries of the durable inbox and the outbox
  messages produced from them. Whether a payload is well-formed JSON is decided by the
  standard library's \<^verbatim>\<open>json.Valid\<close>, an argument here.
\<close>

section \<open>Identifiers (id.go)\<close>

definition eventIDPrefix :: string where "eventIDPrefix = ''evt_''"
definition messageIDPrefix :: string where "messageIDPrefix = ''msg_''"

definition Webhooks_newID :: "string \<Rightarrow> string result \<Rightarrow> string result" where
  "Webhooks_newID prefix rnd =
     (case rnd of Inl e \<Rightarrow> Inl (Errorf [T ''generate '', T prefix, T '' id: '', W e])
      | Inr bytes \<Rightarrow> Inr (prefix @ hex_encode bytes))"

definition NewEventID :: "string result \<Rightarrow> string result" where
  "NewEventID rnd = Webhooks_newID eventIDPrefix rnd"

definition NewMessageID :: "string result \<Rightarrow> string result" where
  "NewMessageID rnd = Webhooks_newID messageIDPrefix rnd"

text \<open>\<^verbatim>\<open>strings.TrimPrefix\<close>.\<close>

definition TrimPrefix :: "string \<Rightarrow> string \<Rightarrow> string" where
  "TrimPrefix s p = (if has_prefix s p then drop (length p) s else s)"

definition ValidateEventID :: "string \<Rightarrow> goerr option" where
  "ValidateEventID i =
     (if \<not> has_prefix i eventIDPrefix \<or> length i \<noteq> length eventIDPrefix + 32
      then Some (Sentinel ErrInvalidEventID)
      else if \<not> hex_decodable (TrimPrefix i eventIDPrefix) then Some (Sentinel ErrInvalidEventID)
      else None)"

section \<open>Events and messages (event.go)\<close>

definition KindUnknown :: string where "KindUnknown = []"
definition KindCheckoutCompleted :: string where "KindCheckoutCompleted = ''checkout.completed''"
definition KindCheckoutPaymentSucceeded :: string where
  "KindCheckoutPaymentSucceeded = ''checkout.payment_succeeded''"
definition KindCheckoutPaymentFailed :: string where
  "KindCheckoutPaymentFailed = ''checkout.payment_failed''"
definition KindCheckoutExpired :: string where "KindCheckoutExpired = ''checkout.expired''"

lemmas kind_defs =
  KindCheckoutCompleted_def KindCheckoutPaymentSucceeded_def KindCheckoutPaymentFailed_def
  KindCheckoutExpired_def

lemma kind_distinct [simp, status_simps]:
  "KindCheckoutCompleted \<noteq> KindCheckoutPaymentSucceeded"
  "KindCheckoutCompleted \<noteq> KindCheckoutPaymentFailed"
  "KindCheckoutCompleted \<noteq> KindCheckoutExpired" "KindCheckoutCompleted \<noteq> []"
  "[] \<noteq> KindCheckoutCompleted" "KindCheckoutPaymentSucceeded \<noteq> KindCheckoutCompleted"
  "KindCheckoutPaymentSucceeded \<noteq> KindCheckoutPaymentFailed"
  "KindCheckoutPaymentSucceeded \<noteq> KindCheckoutExpired"
  "KindCheckoutPaymentSucceeded \<noteq> []" "[] \<noteq> KindCheckoutPaymentSucceeded"
  "KindCheckoutPaymentFailed \<noteq> KindCheckoutCompleted"
  "KindCheckoutPaymentFailed \<noteq> KindCheckoutPaymentSucceeded"
  "KindCheckoutPaymentFailed \<noteq> KindCheckoutExpired" "KindCheckoutPaymentFailed \<noteq> []"
  "[] \<noteq> KindCheckoutPaymentFailed" "KindCheckoutExpired \<noteq> KindCheckoutCompleted"
  "KindCheckoutExpired \<noteq> KindCheckoutPaymentSucceeded"
  "KindCheckoutExpired \<noteq> KindCheckoutPaymentFailed" "KindCheckoutExpired \<noteq> []"
  "[] \<noteq> KindCheckoutExpired"
  by (simp_all add: kind_defs)

definition InboxPending :: string where "InboxPending = ''pending''"
definition InboxProcessing :: string where "InboxProcessing = ''processing''"
definition InboxProcessed :: string where "InboxProcessed = ''processed''"
definition InboxFailed :: string where "InboxFailed = ''failed''"
definition InboxSkipped :: string where "InboxSkipped = ''skipped''"

lemmas inbox_status_defs =
  InboxPending_def InboxProcessing_def InboxProcessed_def InboxFailed_def InboxSkipped_def

lemma inbox_status_distinct [simp, status_simps]:
  "InboxPending \<noteq> InboxProcessing" "InboxPending \<noteq> InboxProcessed"
  "InboxPending \<noteq> InboxFailed" "InboxPending \<noteq> InboxSkipped"
  "InboxPending \<noteq> []" "[] \<noteq> InboxPending" "InboxProcessing \<noteq> InboxPending"
  "InboxProcessing \<noteq> InboxProcessed" "InboxProcessing \<noteq> InboxFailed"
  "InboxProcessing \<noteq> InboxSkipped" "InboxProcessing \<noteq> []"
  "[] \<noteq> InboxProcessing" "InboxProcessed \<noteq> InboxPending"
  "InboxProcessed \<noteq> InboxProcessing" "InboxProcessed \<noteq> InboxFailed"
  "InboxProcessed \<noteq> InboxSkipped" "InboxProcessed \<noteq> []" "[] \<noteq> InboxProcessed"
  "InboxFailed \<noteq> InboxPending" "InboxFailed \<noteq> InboxProcessing"
  "InboxFailed \<noteq> InboxProcessed" "InboxFailed \<noteq> InboxSkipped"
  "InboxFailed \<noteq> []" "[] \<noteq> InboxFailed" "InboxSkipped \<noteq> InboxPending"
  "InboxSkipped \<noteq> InboxProcessing" "InboxSkipped \<noteq> InboxProcessed"
  "InboxSkipped \<noteq> InboxFailed" "InboxSkipped \<noteq> []" "[] \<noteq> InboxSkipped"
  by (simp_all add: inbox_status_defs)

text \<open>The status \<^verbatim>\<open>publishing\<close> of a leased row exists only in the schema.\<close>

definition MessageStatusPending :: string where "MessageStatusPending = ''pending''"
definition MessagePublished :: string where "MessagePublished = ''published''"
definition MessageStatusFailed :: string where "MessageStatusFailed = ''failed''"
definition MessagePublishing :: string where "MessagePublishing = ''publishing''"

lemmas message_status_defs =
  MessageStatusPending_def MessagePublished_def MessageStatusFailed_def MessagePublishing_def

lemma message_status_distinct [simp, status_simps]:
  "MessageStatusPending \<noteq> MessagePublished"
  "MessageStatusPending \<noteq> MessageStatusFailed"
  "MessageStatusPending \<noteq> MessagePublishing" "MessageStatusPending \<noteq> []"
  "[] \<noteq> MessageStatusPending" "MessagePublished \<noteq> MessageStatusPending"
  "MessagePublished \<noteq> MessageStatusFailed" "MessagePublished \<noteq> MessagePublishing"
  "MessagePublished \<noteq> []" "[] \<noteq> MessagePublished"
  "MessageStatusFailed \<noteq> MessageStatusPending"
  "MessageStatusFailed \<noteq> MessagePublished" "MessageStatusFailed \<noteq> MessagePublishing"
  "MessageStatusFailed \<noteq> []" "[] \<noteq> MessageStatusFailed"
  "MessagePublishing \<noteq> MessageStatusPending" "MessagePublishing \<noteq> MessagePublished"
  "MessagePublishing \<noteq> MessageStatusFailed" "MessagePublishing \<noteq> []"
  "[] \<noteq> MessagePublishing"
  by (simp_all add: message_status_defs)

definition SchemaVersion :: int where "SchemaVersion = 1"
definition routingKeyPrefix :: string where "routingKeyPrefix = ''payment.webhook.''"

record event =
  event_ID :: string
  event_Provider :: string
  event_ProviderEventID :: string
  event_Type :: string
  event_Kind :: string
  event_RawPayload :: string
  event_Payload :: string
  event_Status :: string
  event_ReceivedAt :: instant

record message =
  message_ID :: string
  message_EventID :: string
  message_Kind :: string
  message_SchemaVersion :: int
  message_RoutingKey :: string
  message_CorrelationID :: string
  message_OccurredAt :: instant
  message_Status :: string
  message_CreatedAt :: instant

definition NewEvent ::
  "(string \<Rightarrow> bool) \<Rightarrow> string \<Rightarrow> string \<Rightarrow> string \<Rightarrow> string \<Rightarrow> string \<Rightarrow> string \<Rightarrow> string \<Rightarrow> instant \<Rightarrow> event result" where
  "NewEvent json_Valid i provider providerEventID eventType kind raw payload now =
     (if TrimSpace i = [] \<or> TrimSpace provider = [] \<or> TrimSpace providerEventID = [] \<or>
         TrimSpace eventType = [] \<or> raw = [] \<or> \<not> json_Valid payload
      then Inl (Sentinel ErrInvalidEvent)
      else Inr \<lparr>event_ID = i, event_Provider = provider, event_ProviderEventID = providerEventID,
                event_Type = eventType, event_Kind = kind, event_RawPayload = raw,
                event_Payload = payload,
                event_Status = (if kind = KindUnknown then InboxSkipped else InboxPending),
                event_ReceivedAt = UTC now\<rparr>)"

definition Handled :: "event \<Rightarrow> bool" where
  "Handled e \<longleftrightarrow> event_Kind e \<noteq> KindUnknown"

definition NewMessage :: "string \<Rightarrow> event \<Rightarrow> string \<Rightarrow> instant \<Rightarrow> instant \<Rightarrow> message result" where
  "NewMessage i e correlationID occurredAt now =
     (if TrimSpace i = [] \<or> TrimSpace (event_ID e) = [] \<or> \<not> Handled e
      then Inl (Sentinel ErrInvalidMessage)
      else let occurred = (if IsZero occurredAt then now else occurredAt) in
        Inr \<lparr>message_ID = i, message_EventID = event_ID e, message_Kind = event_Kind e,
             message_SchemaVersion = SchemaVersion,
             message_RoutingKey = routingKeyPrefix @ event_Kind e,
             message_CorrelationID = correlationID, message_OccurredAt = UTC occurred,
             message_Status = MessageStatusPending, message_CreatedAt = UTC now\<rparr>)"

section \<open>Properties\<close>

text \<open>What the constructors establish, as the receiving use case relies on it.\<close>

lemma NewEventD:
  "NewEvent jv i pr pid ty k raw pl now = Inr e \<Longrightarrow>
     event_ID e = i \<and> TrimSpace i \<noteq> [] \<and> event_Provider e = pr \<and> event_ProviderEventID e = pid \<and>
     event_Type e = ty \<and> event_Kind e = k \<and> event_RawPayload e = raw \<and> event_Payload e = pl \<and>
     event_Status e = (if Handled e then InboxPending else InboxSkipped) \<and> event_ReceivedAt e = now"
  by (auto simp: NewEvent_def Handled_def split: if_splits)

lemma NewMessageD:
  "NewMessage i e c oa now = Inr m \<Longrightarrow>
     message_ID m = i \<and> message_EventID m = event_ID e \<and> Handled e \<and> message_Kind m = event_Kind e \<and>
     message_Status m = MessageStatusPending \<and> message_SchemaVersion m = 1 \<and>
     message_RoutingKey m = routingKeyPrefix @ event_Kind e \<and> message_CorrelationID m = c"
  by (auto simp: NewMessage_def SchemaVersion_def Let_def split: if_splits)

text \<open>
  Inbox identifiers round-trip. The identifier \<^verbatim>\<open>NewEventID\<close> makes of a full 16-byte
  buffer is accepted by \<^verbatim>\<open>ValidateEventID\<close>; a message identifier never is.
\<close>

theorem NewEventID_ValidateEventID:
  assumes "length bytes = 16"
  shows "(\<exists>i. NewEventID (Inr bytes) = Inr i \<and> ValidateEventID i = None) \<and>
         (\<exists>i. NewMessageID (Inr bytes) = Inr i \<and> ValidateEventID i \<noteq> None)"
  using assms
  by (simp add: NewEventID_def NewMessageID_def Webhooks_newID_def ValidateEventID_def TrimPrefix_def
      hex_decodable_encode eventIDPrefix_def messageIDPrefix_def has_prefix_def)

theorem NewEventID_ValidateEventID_witness:
  "length ''0123456789abcdef'' = 16 \<and>
   (\<exists>i. NewEventID (Inr ''0123456789abcdef'') = Inr i \<and> ValidateEventID i = None)"
  using NewEventID_ValidateEventID [of "''0123456789abcdef''"] by simp

end
