(* ===== verification/Consumer_Service.thy ===== *)
theory Consumer_Service
  imports Payment_Domain Webhook_Domain
begin

text \<open>
  Package \<^verbatim>\<open>internal/application/consumer\<close>: applying the effects of received provider events. The
  repository owns the transaction and calls back into the use case to resolve and to decide; both
  callbacks are arguments of the repository port here, as they are in the code.
\<close>

section \<open>Ports (ports.go)\<close>

record session_outcome =
  so_OrderID :: string
  so_PaymentID :: string
  so_AttemptID :: string
  so_SessionID :: string
  so_PaymentIntentID :: string
  so_Amount :: int
  so_Currency :: string
  so_Outcome :: string
  so_OccurredAt :: instant

record aggregate =
  ag_OrderID :: string
  ag_OrderStatus :: string
  ag_PaymentID :: string
  ag_PaymentStatus :: string
  ag_Provider :: string
  ag_Amount :: int
  ag_Currency :: string
  ag_AttemptID :: string
  ag_AttemptStatus :: string
  ag_SessionID :: string

record inbox_entry =
  ie_Event :: event
  ie_Attempts :: int
  ie_Status :: string

record reference =
  rf_OrderID :: string
  rf_PaymentID :: string
  rf_AttemptID :: string

record effect =
  ef_AttemptStatus :: string
  ef_PaymentStatus :: string
  ef_OrderPaid :: bool
  ef_Note :: string

definition no_effect :: effect where
  "no_effect = \<lparr>ef_AttemptStatus = [], ef_PaymentStatus = [], ef_OrderPaid = False, ef_Note = []\<rparr>"

record process_result =
  pr_Applied :: bool
  pr_Note :: string

text \<open>The closures \<^verbatim>\<open>Handle\<close> passes to \<^verbatim>\<open>Process\<close> share a variable: what \<open>resolve\<close> interpreted is what
  \<open>decide\<close> decides on. That value is the second component here.\<close>

type_synonym 'x resolver = "inbox_entry \<Rightarrow> (reference \<times> 'x) result"
type_synonym 'x decider = "'x \<Rightarrow> inbox_entry \<Rightarrow> aggregate \<Rightarrow> effect result"

section \<open>Deciding (service.go)\<close>

datatype disposition = DispositionDone | DispositionRetry | DispositionDead

fun Disposition_String :: "disposition \<Rightarrow> string" where
  "Disposition_String DispositionDone = ''done''"
| "Disposition_String DispositionRetry = ''retry''"
| "Disposition_String DispositionDead = ''dead''"

record handling =
  h_Disposition :: disposition
  h_Attempts :: int
  h_Cause :: "goerr option"
  h_Note :: string
  h_Applied :: bool

definition EntityOrder :: string where "EntityOrder = ''order''"
definition EntityPayment :: string where "EntityPayment = ''payment''"
definition EntityAttempt :: string where "EntityAttempt = ''attempt''"

record state_change =
  sc_Entity :: string
  sc_From :: string
  sc_To :: string

record report =
  rp_Disposition :: disposition
  rp_Applied :: bool
  rp_AlreadyProcessed :: bool
  rp_Transitions :: "state_change list"
  rp_Cause :: "goerr option"
  rp_Err :: "goerr option"

definition empty_report :: report where
  "empty_report = \<lparr>rp_Disposition = DispositionDone, rp_Applied = False, rp_AlreadyProcessed = False,
     rp_Transitions = [], rp_Cause = None, rp_Err = None\<rparr>"

datatype consumer_note =
    EventApplied string effect
  | EventNoOp string string
  | EventRetrying string int goerr
  | EventDeadLettered string int goerr
  | EventHandled string report

definition DefaultMaxAttempts :: int where "DefaultMaxAttempts = 10"

definition MaxAttempts_withDefaults :: "int \<Rightarrow> int" where
  "MaxAttempts_withDefaults n = (if n < 2 then DefaultMaxAttempts else n)"

definition transitions :: "aggregate \<Rightarrow> effect \<Rightarrow> state_change list" where
  "transitions a e =
     (if ef_AttemptStatus e \<noteq> [] then
        [\<lparr>sc_Entity = EntityAttempt, sc_From = ag_AttemptStatus a, sc_To = ef_AttemptStatus e\<rparr>] else []) @
     (if ef_PaymentStatus e \<noteq> [] then
        [\<lparr>sc_Entity = EntityPayment, sc_From = ag_PaymentStatus a, sc_To = ef_PaymentStatus e\<rparr>] else []) @
     (if ef_OrderPaid e then [\<lparr>sc_Entity = EntityOrder, sc_From = ag_OrderStatus a, sc_To = ''paid''\<rparr>] else [])"

definition decideEffect :: "session_outcome \<Rightarrow> aggregate \<Rightarrow> string \<Rightarrow> effect result" where
  "decideEffect outcome a expectedProvider =
     (if \<not> EqualFold (ag_Provider a) expectedProvider
      then Inl (Errorf [W (Sentinel ErrReferenceMismatch), T '': event provider '', T expectedProvider,
                        T '', local payment provider is '', T (ag_Provider a)])
      else if so_Amount outcome \<noteq> ag_Amount a \<or> \<not> EqualFold (so_Currency outcome) (ag_Currency a)
      then Inl (Errorf [W (Sentinel ErrAmountMismatch), T '': provider settled '', T (itoa (so_Amount outcome)), T '' '',
                        T (so_Currency outcome), T '', local payment is '', T (itoa (ag_Amount a)), T '' '', T (ag_Currency a)])
      else if ag_SessionID a \<noteq> [] \<and> so_SessionID outcome \<noteq> [] \<and> ag_SessionID a \<noteq> so_SessionID outcome
      then Inl (Errorf [W (Sentinel ErrReferenceMismatch), T '': event carries session '', T (so_SessionID outcome),
                        T '', attempt holds '', T (ag_SessionID a)])
      else let t = Decide (so_Outcome outcome) (ag_PaymentStatus a) (ag_AttemptStatus a) in
        (case tr_Decision t of
           DecisionApply \<Rightarrow> Inr \<lparr>ef_AttemptStatus = tr_Attempt t, ef_PaymentStatus = tr_Payment t,
                               ef_OrderPaid = tr_OrderPaid t, ef_Note = tr_Reason t\<rparr>
         | DecisionNoOp \<Rightarrow> Inr (no_effect\<lparr>ef_Note := tr_Reason t\<rparr>)
         | DecisionConflict \<Rightarrow> Inl (Errorf [W (Sentinel ErrStateConflict), T '': '', T (tr_Reason t)])
         | DecisionUnknown n \<Rightarrow> Inl (Errorf [W (Sentinel ErrStateConflict), T '': unknown decision '',
                                  T (Decision_String (DecisionUnknown n))])))"

definition terminalErrors :: "sentinel list" where
  "terminalErrors = [ErrIncompatibleAPIVersion, ErrUnreadablePayload, ErrMissingReference, ErrAggregateNotFound,
     ErrReferenceMismatch, ErrAmountMismatch, ErrStateConflict, ErrInvariantViolated]"

definition isTerminal :: "goerr \<Rightarrow> bool" where
  "isTerminal e = list_ex (\<lambda>s. errors_Is s e) terminalErrors"

section \<open>Handling (service.go)\<close>

text \<open>The closure that resolves an inbox entry.\<close>

definition handle_resolve :: "string \<Rightarrow> (event \<Rightarrow> session_outcome result) \<Rightarrow> session_outcome resolver" where
  "handle_resolve provider interpret entry =
     (if event_Provider (ie_Event entry) \<noteq> provider
      then Inl (Errorf [W (Sentinel ErrReferenceMismatch), T '': event provider '', T (event_Provider (ie_Event entry)),
                        T '' cannot be read by '', T provider, T '' interpreter''])
      else case interpret (ie_Event entry) of
        Inl e \<Rightarrow> Inl e
      | Inr outcome \<Rightarrow> Inr (\<lparr>rf_OrderID = so_OrderID outcome, rf_PaymentID = so_PaymentID outcome,
                            rf_AttemptID = so_AttemptID outcome\<rparr>, outcome))"

definition handle_decide :: "string \<Rightarrow> session_outcome decider" where
  "handle_decide provider outcome entry a = decideEffect outcome a provider"

definition classify ::
  "('s \<Rightarrow> string \<Rightarrow> goerr \<Rightarrow> bool \<Rightarrow> int \<Rightarrow> 's \<times> (int \<times> bool) result) \<Rightarrow> int \<Rightarrow> 's \<Rightarrow> string \<Rightarrow> goerr \<Rightarrow>
   's \<times> handling result \<times> report \<times> consumer_note list" where
  "classify recordFailure maxAttempts s eventID cause =
     (case recordFailure s eventID cause (isTerminal cause) maxAttempts of
        (s', Inl e) \<Rightarrow>
          (s', Inl (Errorf [T ''record consumer failure: '', W e, T '' (cause: '', W cause, T '')'']),
           empty_report\<lparr>rp_Cause := Some cause\<rparr>, [])
      | (s', Inr (attempts, failed)) \<Rightarrow>
          let terminal = (if attempts = 0 then True else failed);
              cause' = (if terminal \<and> \<not> isTerminal cause \<and> maxAttempts \<le> attempts
                        then Errorf [T ''giving up after '', T (itoa attempts), T '' attempts: '', W cause] else cause)
          in if terminal
             then (s', Inr \<lparr>h_Disposition = DispositionDead, h_Attempts = attempts, h_Cause = Some cause', h_Note = [],
                            h_Applied = False\<rparr>,
                   empty_report\<lparr>rp_Disposition := DispositionDead, rp_Cause := Some cause'\<rparr>,
                   [EventDeadLettered eventID attempts cause'])
             else (s', Inr \<lparr>h_Disposition = DispositionRetry, h_Attempts = attempts, h_Cause = Some cause', h_Note = [],
                            h_Applied = False\<rparr>,
                   empty_report\<lparr>rp_Disposition := DispositionRetry, rp_Cause := Some cause'\<rparr>,
                   [EventRetrying eventID attempts cause']))"

text \<open>\<^verbatim>\<open>Service.handle\<close>. \<open>process\<close> returns, besides the new store and its result, what the decision
  closure captured: the aggregate it saw and the effect it answered, or nothing when it was not
  called. \<open>afterCommit\<close> is the test hook, which production does not set.\<close>

definition handle ::
  "('s \<Rightarrow> string \<Rightarrow> session_outcome resolver \<Rightarrow> session_outcome decider \<Rightarrow>
      's \<times> process_result result \<times> (aggregate \<times> effect) option) \<Rightarrow>
   ('s \<Rightarrow> string \<Rightarrow> goerr \<Rightarrow> bool \<Rightarrow> int \<Rightarrow> 's \<times> (int \<times> bool) result) \<Rightarrow>
   string \<Rightarrow> (event \<Rightarrow> session_outcome result) \<Rightarrow> (string \<Rightarrow> process_result \<Rightarrow> goerr option) \<Rightarrow> int \<Rightarrow>
   's \<Rightarrow> string \<Rightarrow> 's \<times> handling result \<times> report \<times> consumer_note list" where
  "handle process recordFailure provider interpret afterCommit maxAttempts s eventID =
     (case process s eventID (handle_resolve provider interpret) (handle_decide provider) of
        (s', Inl cause, _) \<Rightarrow> classify recordFailure maxAttempts s' eventID cause
      | (s', Inr result, captured) \<Rightarrow>
          (case afterCommit eventID result of
             Some e \<Rightarrow> (s', Inl (wrap ''after consumer commit'' e), empty_report, [])
           | None \<Rightarrow>
               (s', Inr \<lparr>h_Disposition = DispositionDone, h_Attempts = 0, h_Cause = None, h_Note = pr_Note result,
                         h_Applied = pr_Applied result\<rparr>,
                empty_report\<lparr>rp_Applied := pr_Applied result,
                  rp_AlreadyProcessed := (\<not> pr_Applied result \<and> captured = None),
                  rp_Transitions := (case captured of Some (a, e) \<Rightarrow> if pr_Applied result then transitions a e else []
                                     | None \<Rightarrow> [])\<rparr>,
                [if pr_Applied result
                 then EventApplied eventID (case captured of Some (a, e) \<Rightarrow> e | None \<Rightarrow> no_effect)
                 else EventNoOp eventID (pr_Note result)])))"

definition Handle ::
  "('s \<Rightarrow> string \<Rightarrow> session_outcome resolver \<Rightarrow> session_outcome decider \<Rightarrow>
      's \<times> process_result result \<times> (aggregate \<times> effect) option) \<Rightarrow>
   ('s \<Rightarrow> string \<Rightarrow> goerr \<Rightarrow> bool \<Rightarrow> int \<Rightarrow> 's \<times> (int \<times> bool) result) \<Rightarrow>
   string \<Rightarrow> (event \<Rightarrow> session_outcome result) \<Rightarrow> (string \<Rightarrow> process_result \<Rightarrow> goerr option) \<Rightarrow> int \<Rightarrow>
   's \<Rightarrow> string \<Rightarrow> 's \<times> handling result \<times> consumer_note list" where
  "Handle process recordFailure provider interpret afterCommit maxAttempts s eventID =
     (case handle process recordFailure provider interpret afterCommit maxAttempts s eventID of
        (s', r, rep, ns) \<Rightarrow>
          (s', r, ns @ [EventHandled eventID (rep\<lparr>rp_Err := (case r of Inl e \<Rightarrow> Some e | Inr _ \<Rightarrow> None)\<rparr>)]))"

section \<open>The repository port\<close>

text \<open>What the use case relies on. \<open>processed\<close>, \<open>failed\<close> and \<open>absent\<close> read the durable status of an
  inbox entry. An event that was processed without error is closed as processed; a failure that
  was recorded reports the durable count and whether the entry is now closed as failed.\<close>

locale event_repository =
  fixes process :: "'s \<Rightarrow> string \<Rightarrow> session_outcome resolver \<Rightarrow> session_outcome decider \<Rightarrow>
      's \<times> process_result result \<times> (aggregate \<times> effect) option"
    and recordFailure :: "'s \<Rightarrow> string \<Rightarrow> goerr \<Rightarrow> bool \<Rightarrow> int \<Rightarrow> 's \<times> (int \<times> bool) result"
    and processed :: "'s \<Rightarrow> string \<Rightarrow> bool" and failed :: "'s \<Rightarrow> string \<Rightarrow> bool" and absent :: "'s \<Rightarrow> string \<Rightarrow> bool"
    and inv :: "'s \<Rightarrow> bool"
  assumes process_ok: "inv s \<Longrightarrow> process s i rs dc = (s', Inr res, cap) \<Longrightarrow> processed s' i"
    and process_inv: "inv s \<Longrightarrow> process s i rs dc = (s', r, cap) \<Longrightarrow> inv s'"
    and record_inv: "inv s \<Longrightarrow> recordFailure s i c t mx = (s', q) \<Longrightarrow> inv s'"
    and record_ok: "inv s \<Longrightarrow> 2 \<le> mx \<Longrightarrow> recordFailure s i c t mx = (s', Inr (n, f)) \<Longrightarrow>
        0 \<le> n \<and> (if n = 0 then absent s' i else (f \<longleftrightarrow> failed s' i) \<and> (t \<or> mx \<le> n \<longrightarrow> f))"
begin

text \<open>The disposition never disagrees with the durable row: done means processed, dead means failed
  (or that there is no row to count on), retry means the row is still open and the budget not
  spent.\<close>

lemma handle_agrees:
  assumes "inv s" and "handle process recordFailure pr interp after mx s i = (s', Inr h, rep, ns)" and "2 \<le> mx"
  shows "inv s' \<and> (case h_Disposition h of
      DispositionDone \<Rightarrow> processed s' i
    | DispositionDead \<Rightarrow> failed s' i \<or> absent s' i
    | DispositionRetry \<Rightarrow> \<not> failed s' i \<and> 0 < h_Attempts h \<and> h_Attempts h < mx)"
proof -
  obtain s1 r cap where p: "process s i (handle_resolve pr interp) (handle_decide pr) = (s1, r, cap)"
    by (cases "process s i (handle_resolve pr interp) (handle_decide pr)") auto
  note inv1 = process_inv [OF assms(1) p]
  show ?thesis
  proof (cases r)
    case (Inr res)
    with p assms(2) have "s' = s1" "h_Disposition h = DispositionDone"
      by (auto simp: handle_def split: option.splits)
    with process_ok [OF assms(1)] p Inr inv1 show ?thesis by auto
  next
    case (Inl cause)
    with p assms(2) have c: "classify recordFailure mx s1 i cause = (s', Inr h, rep, ns)"
      by (simp add: handle_def)
    then obtain n f where rf: "recordFailure s1 i cause (isTerminal cause) mx = (s', Inr (n, f))"
      by (auto simp: classify_def Let_def split: prod.splits sum.splits if_splits)
    from record_ok [OF inv1 assms(3) rf] record_inv [OF inv1 rf] c rf show ?thesis
      by (auto simp: classify_def Let_def split: if_splits)
  qed
qed

end

section \<open>Properties of the decision\<close>

text \<open>What an effect that came out of the decision can ask for.\<close>

lemma decideEffect_Inr:
  assumes "decideEffect x a pr = Inr e"
  shows "EqualFold (ag_Provider a) pr \<and> so_Amount x = ag_Amount a \<and> EqualFold (so_Currency x) (ag_Currency a) \<and>
    (ag_SessionID a = [] \<or> so_SessionID x = [] \<or> ag_SessionID a = so_SessionID x) \<and>
    (tr_Decision (Decide (so_Outcome x) (ag_PaymentStatus a) (ag_AttemptStatus a)) = DecisionApply \<and>
       ef_AttemptStatus e = tr_Attempt (Decide (so_Outcome x) (ag_PaymentStatus a) (ag_AttemptStatus a)) \<and>
       ef_PaymentStatus e = tr_Payment (Decide (so_Outcome x) (ag_PaymentStatus a) (ag_AttemptStatus a)) \<and>
       ef_OrderPaid e = tr_OrderPaid (Decide (so_Outcome x) (ag_PaymentStatus a) (ag_AttemptStatus a)) \<or>
     tr_Decision (Decide (so_Outcome x) (ag_PaymentStatus a) (ag_AttemptStatus a)) = DecisionNoOp \<and>
       ef_AttemptStatus e = [] \<and> ef_PaymentStatus e = [] \<and> \<not> ef_OrderPaid e)"
  using assms by (auto simp: decideEffect_def Let_def no_effect_def split: if_splits decision.splits)

text \<open>The shape of an effect: it only moves open rows, marks the order paid exactly when the payment
  succeeds, and settles the attempt the same way as the payment.\<close>

lemma decideEffect_moves:
  assumes "decideEffect x a pr = Inr e"
  shows "ef_PaymentStatus e \<in> {[], PaymentStatusProcessing, PaymentStatusSucceeded, PaymentStatusFailed} \<and>
    ef_AttemptStatus e \<in> {[], AttemptStatusSucceeded, AttemptStatusFailed, AttemptStatusExpired} \<and>
    (ef_PaymentStatus e \<noteq> [] \<longrightarrow> \<not> paymentSettled (ag_PaymentStatus a)) \<and>
    (ef_AttemptStatus e \<noteq> [] \<longrightarrow> \<not> attemptSettled (ag_AttemptStatus a) \<and> \<not> paymentSettled (ag_PaymentStatus a)) \<and>
    (ef_OrderPaid e \<longleftrightarrow> ef_PaymentStatus e = PaymentStatusSucceeded) \<and>
    (ef_AttemptStatus e = AttemptStatusSucceeded \<longrightarrow> ef_PaymentStatus e = PaymentStatusSucceeded) \<and>
    (ef_PaymentStatus e = PaymentStatusSucceeded \<longrightarrow>
       ef_AttemptStatus e = AttemptStatusSucceeded \<or> ag_AttemptStatus a = AttemptStatusSucceeded)"
proof -
  let ?t = "Decide (so_Outcome x) (ag_PaymentStatus a) (ag_AttemptStatus a)"
  from decideEffect_Inr [OF assms] consider
      (applies) "tr_Decision ?t = DecisionApply" "ef_AttemptStatus e = tr_Attempt ?t" "ef_PaymentStatus e = tr_Payment ?t"
        "ef_OrderPaid e = tr_OrderPaid ?t"
    | (noop) "ef_AttemptStatus e = []" "ef_PaymentStatus e = []" "\<not> ef_OrderPaid e"
    by blast
  then show ?thesis
  proof cases
    case applies
    then have "\<not> paymentSettled (ag_PaymentStatus a)" by (simp add: Decide_Apply_iff)
    with applies show ?thesis by (auto simp: decide_defs dest: not_settled_neq split: if_splits)
  qed simp
qed

text \<open>
  No effect without agreement. The consumer only ever writes an effect when the provider
  matches, the settled amount is exactly the local payment's amount in the same currency, and the
  session, when both sides name one, is the attempt's own; otherwise the event is refused with a
  terminal error that sends it to the dead-letter queue.
\<close>

theorem decideEffect_guards:
  "case decideEffect x a pr of
     Inr e \<Rightarrow> EqualFold (ag_Provider a) pr \<and> so_Amount x = ag_Amount a \<and> EqualFold (so_Currency x) (ag_Currency a) \<and>
              (ag_SessionID a = [] \<or> so_SessionID x = [] \<or> ag_SessionID a = so_SessionID x)
   | Inl err \<Rightarrow> isTerminal err"
proof (cases "decideEffect x a pr")
  case (Inl err)
  then show ?thesis
    by (auto simp: decideEffect_def isTerminal_def terminalErrors_def Let_def split: if_splits decision.splits)
next
  case (Inr e)
  with decideEffect_Inr [OF Inr] show ?thesis by simp
qed

end
