(* ===== verification/Relay.thy ===== *)
theory Relay
  imports Webhook_Domain
begin

text \<open>
  Package \<^verbatim>\<open>internal/application/outbox\<close>: the relay that moves outbox messages to the broker.
  Repository and publisher are arguments over an arbitrary store and broker; the calls of one
  cycle are numbered, so that each may meet its own faults and its own instant.
\<close>

section \<open>Backoff (backoff.go)\<close>

record backoff =
  bo_Base :: duration
  bo_Max :: duration

definition DefaultBackoffBase :: duration where "DefaultBackoffBase = 2 * Second"
definition DefaultBackoffMax :: duration where "DefaultBackoffMax = 5 * Minute"

definition Backoff_withDefaults :: "backoff \<Rightarrow> backoff" where
  "Backoff_withDefaults b =
     \<lparr>bo_Base = (if bo_Base b \<le> 0 then DefaultBackoffBase else bo_Base b),
      bo_Max = (if bo_Max b \<le> 0 then DefaultBackoffMax else bo_Max b)\<rparr>"

text \<open>\<^verbatim>\<open>Backoff.Delay\<close>. The exponent is capped at 20. The product is computed in floating point and
  converted back; a product beyond int64 converts to a value the next guard replaces by the
  maximum, so it is exact here. \<open>rnd n\<close> is what \<^verbatim>\<open>rand.Int64N(n)\<close> returned.\<close>

definition Backoff_Delay :: "(int \<Rightarrow> int) \<Rightarrow> backoff \<Rightarrow> int \<Rightarrow> duration" where
  "Backoff_Delay rnd b0 attempts0 =
     (let b = Backoff_withDefaults b0;
          attempts = (if attempts0 < 0 then 0 else attempts0);
          exponent = nat (min attempts 20);
          delay0 = bo_Base b * 2 ^ exponent;
          delay = (if delay0 \<le> 0 \<or> bo_Max b < delay0 then bo_Max b else delay0);
          jittered = int64 (rnd delay + Millisecond)
      in if delay < jittered then delay else jittered)"

section \<open>Configuration and results (service.go)\<close>

definition SettlementReserve :: duration where "SettlementReserve = 5 * Second"
definition DefaultBatchSize :: int where "DefaultBatchSize = 20"
definition DefaultInterval :: duration where "DefaultInterval = Second"
definition DefaultLeaseDuration :: duration where "DefaultLeaseDuration = 2 * Minute"
definition DefaultAlertAfterAttempts :: int where "DefaultAlertAfterAttempts = 10"

record relay_config =
  rc_BatchSize :: int
  rc_Interval :: duration
  rc_LeaseDuration :: duration
  rc_Backoff :: backoff
  rc_AlertAfterAttempts :: int

definition Config_withDefaults :: "relay_config \<Rightarrow> relay_config" where
  "Config_withDefaults c =
     \<lparr>rc_BatchSize = (if rc_BatchSize c \<le> 0 then DefaultBatchSize else rc_BatchSize c),
      rc_Interval = (if rc_Interval c \<le> 0 then DefaultInterval else rc_Interval c),
      rc_LeaseDuration = (if rc_LeaseDuration c \<le> 0 then DefaultLeaseDuration else rc_LeaseDuration c),
      rc_Backoff = Backoff_withDefaults (rc_Backoff c),
      rc_AlertAfterAttempts = (if rc_AlertAfterAttempts c \<le> 0 then DefaultAlertAfterAttempts
                               else rc_AlertAfterAttempts c)\<rparr>"

record lease =
  lease_Message :: message
  lease_Attempts :: int
  lease_Expires :: instant

record relay_result =
  res_Leased :: nat
  res_Published :: nat
  res_Retrying :: nat
  res_Failed :: nat
  res_LeasesLost :: nat

definition Result_Empty :: "relay_result \<Rightarrow> bool" where
  "Result_Empty r \<longleftrightarrow> res_Leased r = 0"

datatype relay_outcome = OutcomePublished | OutcomeRetrying | OutcomeRelayFailed | OutcomeLeaseLost

fun Outcome_String :: "relay_outcome \<Rightarrow> string" where
  "Outcome_String OutcomePublished = ''published''"
| "Outcome_String OutcomeRetrying = ''retrying''"
| "Outcome_String OutcomeRelayFailed = ''failed''"
| "Outcome_String OutcomeLeaseLost = ''lease_lost''"

datatype cycle_stage = StageNone | StageLease | StageSettlement

fun CycleStage_String :: "cycle_stage \<Rightarrow> string" where
  "CycleStage_String StageLease = ''lease''"
| "CycleStage_String StageSettlement = ''settlement''"
| "CycleStage_String StageNone = ''unknown''"

text \<open>What a cycle does that is visible outside the store: calls to the publisher with their
  answer, and notifications to the observers.\<close>

datatype relay_note =
    PublishCalled message "goerr option"
  | Stuck string int goerr
  | Abandoned string int goerr
  | LeaseLost string goerr
  | PublicationSettled relay_outcome int "goerr option"
  | CycleCompleted relay_result "goerr option" cycle_stage

section \<open>The relay cycle (service.go)\<close>

text \<open>\<^verbatim>\<open>IsPermanent\<close> (errors.go).\<close>

definition IsPermanent :: "goerr \<Rightarrow> bool" where
  "IsPermanent e = wraps_permanent e"

definition Service_leaseOutcome ::
  "lease \<Rightarrow> goerr \<Rightarrow> string \<Rightarrow> (relay_outcome \<times> goerr option) result \<times> relay_note list" where
  "Service_leaseOutcome l e action =
     (if errors_Is ErrLeaseLost e
      then (Inr (OutcomeLeaseLost, Some e), [LeaseLost (message_ID (lease_Message l)) e])
      else (Inl (wrap action e), []))"

text \<open>\<^verbatim>\<open>Service.settle\<close>: the new store, the outcome with its cause or the cycle's error, and the
  notifications. \<open>hook\<close> is the \<^verbatim>\<open>BeforeSettlement\<close> test hook, which production does not set.\<close>

definition settle ::
  "relay_config \<Rightarrow> string \<Rightarrow> (message \<Rightarrow> goerr option) \<Rightarrow> (int \<Rightarrow> int) \<Rightarrow>
   ('s \<Rightarrow> string \<Rightarrow> string \<Rightarrow> 's \<times> goerr option) \<Rightarrow>
   ('s \<Rightarrow> string \<Rightarrow> string \<Rightarrow> goerr \<Rightarrow> duration \<Rightarrow> 's \<times> goerr option) \<Rightarrow>
   ('s \<Rightarrow> string \<Rightarrow> string \<Rightarrow> goerr \<Rightarrow> 's \<times> goerr option) \<Rightarrow>
   's \<Rightarrow> lease \<Rightarrow> goerr option \<Rightarrow> int \<Rightarrow> 's \<times> (relay_outcome \<times> goerr option) result \<times> relay_note list" where
  "settle cfg owner hook rnd published retry failed s l publishErr attempts =
     (let i = message_ID (lease_Message l) in
      case publishErr of
        None \<Rightarrow>
          (case hook (lease_Message l) of
             Some e \<Rightarrow> (s, Inl (wrap ''before outbox settlement'' e), [])
           | None \<Rightarrow>
               (case published s owner i of
                  (s', Some e) \<Rightarrow> (s', Service_leaseOutcome l e ''mark published'')
                | (s', None) \<Rightarrow> (s', Inr (OutcomePublished, None), [])))
      | Some pe \<Rightarrow>
          if IsPermanent pe then
            (case failed s owner i pe of
               (s', Some e) \<Rightarrow> (s', Service_leaseOutcome l e ''mark failed'')
             | (s', None) \<Rightarrow> (s', Inr (OutcomeRelayFailed, Some pe), [Abandoned i attempts pe]))
          else
            (case retry s owner i pe (Backoff_Delay rnd (rc_Backoff cfg) (lease_Attempts l)) of
               (s', Some e) \<Rightarrow> (s', Service_leaseOutcome l e ''mark retryable'')
             | (s', None) \<Rightarrow> (s', Inr (OutcomeRetrying, Some pe),
                 if rc_AlertAfterAttempts cfg \<le> attempts then [Stuck i attempts pe] else [])))"

text \<open>The repository of one relay instance: its three settlements, by the number of the message in
  the batch.\<close>

record 's settlements =
  st_Published :: "nat \<Rightarrow> 's \<Rightarrow> string \<Rightarrow> string \<Rightarrow> 's \<times> goerr option"
  st_Retry :: "nat \<Rightarrow> 's \<Rightarrow> string \<Rightarrow> string \<Rightarrow> goerr \<Rightarrow> duration \<Rightarrow> 's \<times> goerr option"
  st_Failed :: "nat \<Rightarrow> 's \<Rightarrow> string \<Rightarrow> string \<Rightarrow> goerr \<Rightarrow> 's \<times> goerr option"

definition publishOne ::
  "relay_config \<Rightarrow> string \<Rightarrow> (message \<Rightarrow> goerr option) \<Rightarrow> (nat \<Rightarrow> int \<Rightarrow> int) \<Rightarrow> (nat \<Rightarrow> message \<Rightarrow> goerr option) \<Rightarrow>
   's settlements \<Rightarrow> nat \<Rightarrow> 's \<Rightarrow> lease \<Rightarrow> 's \<times> relay_outcome result \<times> relay_note list" where
  "publishOne cfg owner hook rnd publish repo k s l =
     (let publishErr = publish k (lease_Message l); attempts = lease_Attempts l + 1 in
      case settle cfg owner hook (rnd k) (st_Published repo k) (st_Retry repo k) (st_Failed repo k)
             s l publishErr attempts of
        (s', Inl e, ns) \<Rightarrow> (s', Inl e, PublishCalled (lease_Message l) publishErr # ns)
      | (s', Inr (outcome, cause), ns) \<Rightarrow>
          (s', Inr outcome, PublishCalled (lease_Message l) publishErr # ns @ [PublicationSettled outcome attempts cause]))"

definition count_outcome :: "relay_outcome \<Rightarrow> relay_result \<Rightarrow> relay_result" where
  "count_outcome outcome r =
     (case outcome of
        OutcomePublished \<Rightarrow> r\<lparr>res_Published := res_Published r + 1\<rparr>
      | OutcomeRetrying \<Rightarrow> r\<lparr>res_Retrying := res_Retrying r + 1\<rparr>
      | OutcomeRelayFailed \<Rightarrow> r\<lparr>res_Failed := res_Failed r + 1\<rparr>
      | OutcomeLeaseLost \<Rightarrow> r\<lparr>res_LeasesLost := res_LeasesLost r + 1\<rparr>)"

text \<open>The loop of \<^verbatim>\<open>runOnce\<close>; \<open>stopped k\<close> says whether a context was done before the \<open>k\<close>-th lease.\<close>

fun publish_loop ::
  "relay_config \<Rightarrow> string \<Rightarrow> (message \<Rightarrow> goerr option) \<Rightarrow> (nat \<Rightarrow> int \<Rightarrow> int) \<Rightarrow> (nat \<Rightarrow> message \<Rightarrow> goerr option) \<Rightarrow>
   's settlements \<Rightarrow> (nat \<Rightarrow> bool) \<Rightarrow> nat \<Rightarrow> 's \<Rightarrow> lease list \<Rightarrow> relay_result \<Rightarrow>
   's \<times> (relay_result \<times> cycle_stage \<times> goerr option) \<times> relay_note list" where
  "publish_loop cfg owner hook rnd publish repo stopped k s [] r = (s, (r, StageNone, None), [])"
| "publish_loop cfg owner hook rnd publish repo stopped k s (l # ls) r =
     (if stopped k then (s, (r, StageNone, None), [])
      else case publishOne cfg owner hook rnd publish repo k s l of
        (s', Inl e, ns) \<Rightarrow> (s', (r, StageSettlement, Some e), ns)
      | (s', Inr outcome, ns) \<Rightarrow>
          (case publish_loop cfg owner hook rnd publish repo stopped (Suc k) s' ls (count_outcome outcome r) of
             (s'', x, ns') \<Rightarrow> (s'', x, ns @ ns')))"

definition empty_result :: relay_result where
  "empty_result = \<lparr>res_Leased = 0, res_Published = 0, res_Retrying = 0, res_Failed = 0, res_LeasesLost = 0\<rparr>"

definition runOnce ::
  "relay_config \<Rightarrow> string \<Rightarrow> (message \<Rightarrow> goerr option) \<Rightarrow> (nat \<Rightarrow> int \<Rightarrow> int) \<Rightarrow> (nat \<Rightarrow> message \<Rightarrow> goerr option) \<Rightarrow>
   ('s \<Rightarrow> string \<Rightarrow> int \<Rightarrow> duration \<Rightarrow> 's \<times> lease list result) \<Rightarrow> 's settlements \<Rightarrow> (nat \<Rightarrow> bool) \<Rightarrow> 's \<Rightarrow>
   's \<times> (relay_result \<times> cycle_stage \<times> goerr option) \<times> relay_note list" where
  "runOnce cfg owner hook rnd publish leaseBatch repo stopped s =
     (case leaseBatch s owner (rc_BatchSize cfg) (rc_LeaseDuration cfg) of
        (s', Inl e) \<Rightarrow> (s', (empty_result, StageLease, Some (wrap ''lease outbox batch'' e)), [])
      | (s', Inr leases) \<Rightarrow>
          publish_loop cfg owner hook rnd publish repo stopped 0 s' leases (empty_result\<lparr>res_Leased := length leases\<rparr>))"

definition RunOnce ::
  "relay_config \<Rightarrow> string \<Rightarrow> (message \<Rightarrow> goerr option) \<Rightarrow> (nat \<Rightarrow> int \<Rightarrow> int) \<Rightarrow> (nat \<Rightarrow> message \<Rightarrow> goerr option) \<Rightarrow>
   ('s \<Rightarrow> string \<Rightarrow> int \<Rightarrow> duration \<Rightarrow> 's \<times> lease list result) \<Rightarrow> 's settlements \<Rightarrow> (nat \<Rightarrow> bool) \<Rightarrow> 's \<Rightarrow>
   's \<times> relay_result \<times> goerr option \<times> relay_note list" where
  "RunOnce cfg owner hook rnd publish leaseBatch repo stopped s =
     (case runOnce cfg owner hook rnd publish leaseBatch repo stopped s of
        (s', (r, stage, e), ns) \<Rightarrow> (s', r, e, ns @ [CycleCompleted r e stage]))"

text \<open>One turn of \<^verbatim>\<open>Run\<close>: what the loop does after a cycle, given whether its context is done at
  each of the points it looks. The error, if any, is reported wrapped.\<close>

datatype run_next = Return | Again | Wait duration

definition Run_turn :: "relay_config \<Rightarrow> bool \<Rightarrow> bool \<Rightarrow> relay_result \<Rightarrow> goerr option \<Rightarrow> run_next \<times> goerr list" where
  "Run_turn cfg done1 done2 r e =
     (if e \<noteq> None \<and> done1 then (Return, [])
      else let reported = (case e of None \<Rightarrow> [] | Some x \<Rightarrow> [wrap ''relay cycle'' x]) in
        if e = None \<and> 0 < res_Published r then (if done2 then Return else Again, reported)
        else (if done2 then Return else Wait (rc_Interval cfg), reported))"

section \<open>Properties of the backoff\<close>

lemma withDefaults_pos: "0 < bo_Base (Backoff_withDefaults b)" "0 < bo_Max (Backoff_withDefaults b)"
  by (auto simp: Backoff_withDefaults_def DefaultBackoffBase_def DefaultBackoffMax_def duration_defs)

text \<open>
  The retry delay is always positive and never above the configured maximum, whatever the
  attempt count and the random draw, as long as the maximum leaves room for the added millisecond
  in int64; and it never leaves the exponential envelope.
\<close>

theorem Backoff_Delay_bounds:
  assumes "\<forall>n > 0. 0 \<le> rnd n \<and> rnd n < n" and "bo_Max b \<le> MaxInt64 - Millisecond"
  shows "0 < Backoff_Delay rnd b attempts \<and> Backoff_Delay rnd b attempts \<le> bo_Max (Backoff_withDefaults b) \<and>
         Backoff_Delay rnd b attempts \<le> bo_Base (Backoff_withDefaults b) * 2 ^ nat (min (max attempts 0) 20)"
proof -
  let ?b = "Backoff_withDefaults b" and ?e = "nat (min (max attempts 0) 20)"
  define d0 where "d0 = bo_Base ?b * 2 ^ ?e"
  define d where "d = (if d0 \<le> 0 \<or> bo_Max ?b < d0 then bo_Max ?b else d0)"
  have d0: "0 < d0" unfolding d0_def using withDefaults_pos by simp
  have d: "0 < d" "d \<le> bo_Max ?b" "d \<le> d0" unfolding d_def using withDefaults_pos d0 by auto
  have m: "bo_Max ?b \<le> MaxInt64 - Millisecond"
    using assms(2) by (auto simp: Backoff_withDefaults_def DefaultBackoffMax_def duration_defs MaxInt64_def)
  have r: "0 \<le> rnd d" "rnd d < d" using assms(1) d(1) by auto
  have "int64 (rnd d + Millisecond) = rnd d + Millisecond"
    using r d(2) m by (intro int64_id) (auto simp: MaxInt64_def duration_defs)
  moreover have att: "(if attempts < 0 then 0 else attempts) = max attempts 0" by auto
  ultimately have "Backoff_Delay rnd b attempts = (if d < rnd d + Millisecond then d else rnd d + Millisecond)"
    by (simp only: Backoff_Delay_def Let_def d_def d0_def)
  with r d show ?thesis by (auto simp: d0_def duration_defs)
qed

theorem Backoff_Delay_bounds_witness:
  "0 < Backoff_Delay (\<lambda>n. n div 2) \<lparr>bo_Base = 0, bo_Max = 0\<rparr> 1000 \<and>
   Backoff_Delay (\<lambda>n. n div 2) \<lparr>bo_Base = 0, bo_Max = 0\<rparr> 1000 \<le> 5 * Minute"
proof -
  have "\<forall>n > 0. 0 \<le> (\<lambda>n :: int. n div 2) n \<and> (\<lambda>n :: int. n div 2) n < n" by auto
  from Backoff_Delay_bounds [OF this, of "\<lparr>bo_Base = 0, bo_Max = 0\<rparr>" 1000] show ?thesis
    by (simp add: Backoff_withDefaults_def DefaultBackoffMax_def MaxInt64_def duration_defs)
qed

section \<open>The repository port\<close>

text \<open>The messages a cycle published with the broker's confirmation.\<close>

definition confirmed :: "relay_note list \<Rightarrow> string set" where
  "confirmed ns = {message_ID m | m. PublishCalled m None \<in> set ns}"

lemma confirmed_simps [simp]:
  "confirmed [] = {}" "confirmed (ns @ ns') = confirmed ns \<union> confirmed ns'"
  "confirmed (PublishCalled m e # ns) = (if e = None then {message_ID m} else {}) \<union> confirmed ns"
  by (auto simp: confirmed_def)

text \<open>\<open>pub s i\<close> says the store has message \<open>i\<close> recorded as published. \<^term>\<open>adds pub A s s'\<close>: between two
  states nothing was unrecorded, and only members of \<open>A\<close> were newly recorded.\<close>

definition adds :: "('s \<Rightarrow> string \<Rightarrow> bool) \<Rightarrow> string set \<Rightarrow> 's \<Rightarrow> 's \<Rightarrow> bool" where
  "adds pub A s s' \<longleftrightarrow> (\<forall>x. pub s x \<longrightarrow> pub s' x) \<and> (\<forall>x. pub s' x \<longrightarrow> pub s x \<or> x \<in> A)"

lemma adds_refl [simp]: "adds pub A s s"
  by (simp add: adds_def)

lemma adds_mono: "adds pub A s s' \<Longrightarrow> A \<subseteq> B \<Longrightarrow> adds pub B s s'"
  by (auto simp: adds_def)

lemma adds_trans: "adds pub A s1 s2 \<Longrightarrow> adds pub B s2 s3 \<Longrightarrow> adds pub (A \<union> B) s1 s3"
  by (auto simp: adds_def)

text \<open>What the relay relies on: only \<^verbatim>\<open>Published\<close> records a publication, and only of the message it is
  given; when it reports success the publication is recorded.\<close>

locale relay_repository =
  fixes leaseBatch :: "'s \<Rightarrow> string \<Rightarrow> int \<Rightarrow> duration \<Rightarrow> 's \<times> lease list result"
    and repo :: "'s settlements"
    and pub :: "'s \<Rightarrow> string \<Rightarrow> bool"
    and inv :: "'s \<Rightarrow> bool"
  assumes lease_pub: "inv s \<Longrightarrow> leaseBatch s ow n d = (s', r) \<Longrightarrow> inv s' \<and> adds pub {} s s'"
    and published_pub:
      "inv s \<Longrightarrow> st_Published repo k s ow i = (s', e) \<Longrightarrow>
         inv s' \<and> adds pub {i} s s' \<and> (e = None \<longrightarrow> pub s' i)"
    and retry_pub: "inv s \<Longrightarrow> st_Retry repo k s ow i c d = (s', e) \<Longrightarrow> inv s' \<and> adds pub {} s s'"
    and failed_pub: "inv s \<Longrightarrow> st_Failed repo k s ow i c = (s', e) \<Longrightarrow> inv s' \<and> adds pub {} s s'"
begin

lemma publishOne_pub:
  assumes "inv s" and "publishOne cfg ow hook rnd publish repo k s l = (s', r, ns)"
  shows "inv s' \<and> adds pub (confirmed ns) s s' \<and>
    (r = Inr OutcomePublished \<longrightarrow> publish k (lease_Message l) = None \<and> pub s' (message_ID (lease_Message l)))"
proof (cases "publish k (lease_Message l)")
  case None
  show ?thesis
  proof (cases "hook (lease_Message l)")
    case h: None
    obtain s1 e where p: "st_Published repo k s ow (message_ID (lease_Message l)) = (s1, e)" by fastforce
    have "s' = s1" "r = Inr OutcomePublished \<Longrightarrow> e = None" "message_ID (lease_Message l) \<in> confirmed ns"
      using assms(2) None h p
      by (auto simp: publishOne_def settle_def Let_def Service_leaseOutcome_def split: option.splits if_splits)
    with published_pub [OF assms(1) p] None show ?thesis by (auto elim: adds_mono)
  qed (use assms None in \<open>auto simp: publishOne_def settle_def Let_def\<close>)
next
  case (Some pe)
  let ?i = "message_ID (lease_Message l)"
  obtain s1 e1 where f: "st_Failed repo k s ow ?i pe = (s1, e1)" by fastforce
  obtain s2 e2 where g: "st_Retry repo k s ow ?i pe (Backoff_Delay (rnd k) (rc_Backoff cfg) (lease_Attempts l)) = (s2, e2)"
    by fastforce
  have "s' = s1 \<or> s' = s2" "r \<noteq> Inr OutcomePublished"
    using assms(2) Some f g
    by (auto simp: publishOne_def settle_def Let_def Service_leaseOutcome_def split: option.splits if_splits)
  with failed_pub [OF assms(1) f] retry_pub [OF assms(1) g] show ?thesis by (auto elim: adds_mono)
qed

text \<open>A whole cycle records as published only what the broker confirmed in that cycle.\<close>

lemma publish_loop_pub:
  assumes "inv s" and "publish_loop cfg ow hook rnd publish repo stopped k s ls r = (s', x, ns)"
  shows "inv s' \<and> adds pub (confirmed ns) s s'"
  using assms
proof (induction ls arbitrary: k s r ns)
  case (Cons l ls)
  obtain s1 r1 ns1 where one: "publishOne cfg ow hook rnd publish repo k s l = (s1, r1, ns1)"
    by (cases "publishOne cfg ow hook rnd publish repo k s l") auto
  note P = publishOne_pub [OF Cons.prems(1) one]
  show ?case
  proof (cases "stopped k \<or> (\<exists>e. r1 = Inl e)")
    case True
    with one Cons.prems P show ?thesis by (auto split: if_splits)
  next
    case False
    then obtain out ns2 where two: "publish_loop cfg ow hook rnd publish repo stopped (Suc k) s1 ls (count_outcome out r) = (s', x, ns2)"
        and ns: "ns = ns1 @ ns2"
      using one Cons.prems(2) by (cases r1) (auto split: prod.splits)
    from Cons.IH [OF _ two] P have "inv s'" "adds pub (confirmed ns2) s1 s'" by auto
    with P ns show ?thesis by (auto intro: adds_trans)
  qed
qed simp

lemma runOnce_pub:
  assumes "inv s" and "runOnce cfg ow hook rnd publish leaseBatch repo stopped s = (s', x, ns)"
  shows "inv s' \<and> adds pub (confirmed ns) s s'"
proof -
  obtain s1 y where l: "leaseBatch s ow (rc_BatchSize cfg) (rc_LeaseDuration cfg) = (s1, y)" by fastforce
  note L = lease_pub [OF assms(1) l]
  show ?thesis
  proof (cases y)
    case (Inl z)
    with assms(2) l L show ?thesis by (auto simp: runOnce_def)
  next
    case (Inr ls)
    with assms(2) l have "publish_loop cfg ow hook rnd publish repo stopped 0 s1 ls
        (empty_result\<lparr>res_Leased := length ls\<rparr>) = (s', x, ns)" by (simp add: runOnce_def)
    from publish_loop_pub [OF _ this] L adds_trans [of pub "{}" s s1 "confirmed ns" s'] show ?thesis by simp
  qed
qed

end

text \<open>The counters: every lease the cycle got to is counted under exactly one outcome.\<close>

definition counted :: "relay_result \<Rightarrow> nat" where
  "counted r = res_Published r + res_Retrying r + res_Failed r + res_LeasesLost r"

lemma counted_count [simp]: "counted (count_outcome x r) = Suc (counted r)" "res_Leased (count_outcome x r) = res_Leased r"
  by (cases x; simp add: count_outcome_def counted_def)+

lemma publish_loop_counts:
  "publish_loop cfg ow hook rnd publish repo stopped k s ls r = (s', (r', st, e), ns) \<Longrightarrow>
     counted r' \<le> counted r + length ls \<and> res_Leased r' = res_Leased r \<and>
     ((\<forall>i. \<not> stopped i) \<and> e = None \<longrightarrow> counted r' = counted r + length ls)"
proof (induction ls arbitrary: k s r ns)
  case (Cons l ls)
  obtain s1 r1 ns1 where one: "publishOne cfg ow hook rnd publish repo k s l = (s1, r1, ns1)"
    by (cases "publishOne cfg ow hook rnd publish repo k s l") auto
  show ?case
  proof (cases "stopped k \<or> (\<exists>e. r1 = Inl e)")
    case True
    with one Cons.prems show ?thesis by (auto split: if_splits)
  next
    case False
    then obtain out ns2 where two: "publish_loop cfg ow hook rnd publish repo stopped (Suc k) s1 ls (count_outcome out r) = (s', (r', st, e), ns2)"
      using one Cons.prems by (cases r1) (auto split: prod.splits)
    from Cons.IH [OF two] show ?thesis by auto
  qed
qed simp

end
