(* ===== verification/Database.thy ===== *)
theory Database
  imports Payment_Domain Webhook_Domain
begin

text \<open>
  The persistent state: the five tables of \<^verbatim>\<open>db/migrations\<close> with the row types sqlc and
  GORM read and write (\<^verbatim>\<open>postgres/queries/models.go\<close>, \<^verbatim>\<open>postgres/models\<close>), the
  constraints the migrations declare, and what it means to execute a statement: a write that
  would leave the tables in violation of a constraint is refused, and every call to the server
  may also fail for reasons of its own, before or after its effect took place.
\<close>

section \<open>Rows\<close>

record order_row =
  ord_ID :: string
  ord_Status :: string
  ord_Amount :: int
  ord_Currency :: string
  ord_ProductID :: string
  ord_Quantity :: int
  ord_IdempotencyKey :: string
  ord_CreatedAt :: instant
  ord_UpdatedAt :: instant

record payment_row =
  pay_ID :: string
  pay_OrderID :: string
  pay_Provider :: string
  pay_Status :: string
  pay_Amount :: int
  pay_Currency :: string
  pay_CreatedAt :: instant
  pay_UpdatedAt :: instant

record attempt_row =
  att_ID :: string
  att_PaymentID :: string
  att_Provider :: string
  att_Status :: string
  att_IdempotencyKey :: string
  att_ProviderSessionID :: "string option"
  att_ProviderPaymentIntentID :: "string option"
  att_CheckoutUrl :: "string option"
  att_ExpiresAt :: "instant option"
  att_FailureCode :: "string option"
  att_FailureMessage :: "string option"
  att_CreatedAt :: instant
  att_UpdatedAt :: instant

record event_row =
  evt_ID :: string
  evt_Provider :: string
  evt_ProviderEventID :: string
  evt_EventType :: string
  evt_RawPayload :: string
  evt_Payload :: string
  evt_Status :: string
  evt_Attempts :: int
  evt_ReceivedAt :: instant
  evt_ProcessedAt :: "instant option"
  evt_LastError :: "string option"
  evt_UpdatedAt :: instant
  evt_ReplayCount :: int
  evt_LastReplayedAt :: "instant option"

record outbox_row =
  obx_ID :: string
  obx_WebhookEventID :: string
  obx_EventType :: string
  obx_SchemaVersion :: int
  obx_RoutingKey :: string
  obx_CorrelationID :: string
  obx_OccurredAt :: instant
  obx_Status :: string
  obx_Attempts :: int
  obx_PublishedAt :: "instant option"
  obx_LastError :: "string option"
  obx_CreatedAt :: instant
  obx_UpdatedAt :: instant
  obx_LockedUntil :: "instant option"
  obx_LockedBy :: "string option"
  obx_NextAttemptAt :: instant

record database =
  orders :: "order_row list"
  payments :: "payment_row list"
  payment_attempts :: "attempt_row list"
  webhook_events :: "event_row list"
  outbox_events :: "outbox_row list"

definition empty_db :: database where
  "empty_db = \<lparr>orders = [], payments = [], payment_attempts = [], webhook_events = [], outbox_events = []\<rparr>"

section \<open>Constraints (db/migrations)\<close>

definition int4 :: "int \<Rightarrow> bool" where "int4 n \<longleftrightarrow> - (2 ^ 31) \<le> n \<and> n < 2 ^ 31"
definition int8 :: "int \<Rightarrow> bool" where "int8 n \<longleftrightarrow> - (2 ^ 63) \<le> n \<and> n < 2 ^ 63"

definition order_check :: "order_row \<Rightarrow> bool" where
  "order_check r \<longleftrightarrow>
     ord_Status r \<in> {OrderStatusPending, OrderStatusPaid, OrderStatusCancelled, OrderStatusExpired} \<and>
     0 < ord_Amount r \<and> int8 (ord_Amount r) \<and> Currency_Valid (ord_Currency r) \<and>
     0 < ord_Quantity r \<and> int4 (ord_Quantity r)"

definition payment_check :: "payment_row \<Rightarrow> bool" where
  "payment_check r \<longleftrightarrow>
     pay_Status r \<in> {PaymentStatusPending, PaymentStatusProcessing, PaymentStatusSucceeded,
       PaymentStatusFailed, PaymentStatusCancelled, PaymentStatusPartiallyRefunded, PaymentStatusRefunded} \<and>
     0 < pay_Amount r \<and> int8 (pay_Amount r) \<and> Currency_Valid (pay_Currency r)"

definition attempt_check :: "attempt_row \<Rightarrow> bool" where
  "attempt_check r \<longleftrightarrow>
     att_Status r \<in> {AttemptStatusCreated, AttemptStatusPending, AttemptStatusSucceeded,
       AttemptStatusFailed, AttemptStatusExpired, AttemptStatusCancelled}"

definition event_check :: "event_row \<Rightarrow> bool" where
  "event_check r \<longleftrightarrow>
     evt_Status r \<in> {InboxPending, InboxProcessing, InboxProcessed, InboxFailed, InboxSkipped} \<and>
     0 \<le> evt_Attempts r \<and> int4 (evt_Attempts r) \<and> 0 \<le> evt_ReplayCount r \<and> int4 (evt_ReplayCount r)"

definition outbox_check :: "outbox_row \<Rightarrow> bool" where
  "outbox_check r \<longleftrightarrow>
     obx_Status r \<in> {MessageStatusPending, MessagePublishing, MessagePublished, MessageStatusFailed} \<and>
     0 \<le> obx_Attempts r \<and> int4 (obx_Attempts r) \<and> 0 < obx_SchemaVersion r \<and> int4 (obx_SchemaVersion r) \<and>
     (obx_Status r = MessagePublished) = (obx_PublishedAt r \<noteq> None) \<and>
     (obx_Status r = MessagePublishing) = (obx_LockedUntil r \<noteq> None \<and> obx_LockedBy r \<noteq> None)"

lemmas check_defs = order_check_def payment_check_def attempt_check_def event_check_def outbox_check_def

text \<open>The predicates of the partial unique indexes.\<close>

definition payment_active :: "payment_row \<Rightarrow> bool" where
  "payment_active r \<longleftrightarrow> pay_Status r \<noteq> PaymentStatusFailed \<and> pay_Status r \<noteq> PaymentStatusCancelled"

definition attempt_active :: "attempt_row \<Rightarrow> bool" where
  "attempt_active r \<longleftrightarrow> att_Status r \<noteq> AttemptStatusFailed \<and> att_Status r \<noteq> AttemptStatusExpired \<and>
     att_Status r \<noteq> AttemptStatusCancelled"

abbreviation has_session_id :: "attempt_row \<Rightarrow> bool" where
  "has_session_id r \<equiv> att_ProviderSessionID r \<noteq> None"

abbreviation session_key :: "attempt_row \<Rightarrow> string \<times> string option" where
  "session_key r \<equiv> (att_Provider r, att_ProviderSessionID r)"

abbreviation event_key :: "event_row \<Rightarrow> string \<times> string" where
  "event_key r \<equiv> (evt_Provider r, evt_ProviderEventID r)"

definition orders_ok :: "database \<Rightarrow> bool" where
  "orders_ok db \<longleftrightarrow> list_all order_check (orders db) \<and>
     unique_key ord_ID (orders db) \<and> unique_key ord_IdempotencyKey (orders db)"

definition payments_ok :: "database \<Rightarrow> bool" where
  "payments_ok db \<longleftrightarrow> list_all payment_check (payments db) \<and> unique_key pay_ID (payments db) \<and>
     unique_on payment_active pay_OrderID (payments db) \<and>
     list_all (\<lambda>p. list_ex (\<lambda>r. ord_ID r = pay_OrderID p \<and> ord_Amount r = pay_Amount p \<and>
                 ord_Currency r = pay_Currency p) (orders db)) (payments db)"

definition attempts_ok :: "database \<Rightarrow> bool" where
  "attempts_ok db \<longleftrightarrow> list_all attempt_check (payment_attempts db) \<and>
     unique_key att_ID (payment_attempts db) \<and> unique_key att_IdempotencyKey (payment_attempts db) \<and>
     unique_on attempt_active att_PaymentID (payment_attempts db) \<and>
     unique_on has_session_id session_key (payment_attempts db) \<and>
     list_all (\<lambda>a. list_ex (\<lambda>p. pay_ID p = att_PaymentID a \<and> pay_Provider p = att_Provider a)
                 (payments db)) (payment_attempts db)"

definition events_ok :: "database \<Rightarrow> bool" where
  "events_ok db \<longleftrightarrow> list_all event_check (webhook_events db) \<and>
     unique_key evt_ID (webhook_events db) \<and> unique_key event_key (webhook_events db)"

definition outbox_ok :: "database \<Rightarrow> bool" where
  "outbox_ok db \<longleftrightarrow> list_all outbox_check (outbox_events db) \<and>
     unique_key obx_ID (outbox_events db) \<and> unique_key obx_WebhookEventID (outbox_events db) \<and>
     list_all (\<lambda>m. list_ex (\<lambda>e. evt_ID e = obx_WebhookEventID m) (webhook_events db)) (outbox_events db)"

definition schema_ok :: "database \<Rightarrow> bool" where
  "schema_ok db \<longleftrightarrow> orders_ok db \<and> payments_ok db \<and> attempts_ok db \<and> events_ok db \<and> outbox_ok db"

lemmas table_ok_defs = orders_ok_def payments_ok_def attempts_ok_def events_ok_def outbox_ok_def

section \<open>Executing statements\<close>

text \<open>A statement reads and writes the tables, or is refused.\<close>

type_synonym 'a stmt = "database \<Rightarrow> ('a \<times> database) result"

definition constraint_violation :: goerr where
  "constraint_violation = External ''constraint violation''"

definition exec_write :: "database \<Rightarrow> 'a \<Rightarrow> ('a \<times> database) result" where
  "exec_write db' a = (if schema_ok db' then Inr (a, db') else Inl constraint_violation)"

text \<open>How a call to the server ends: as its SQL says, refused (a dropped connection, a
  timeout, a value the server rejects), or executed with the reply lost on the way back.\<close>

datatype fault = NoFault | Refused string | ReplyLost string

text \<open>Each call site of an operation has a number, in the order the code reaches it.\<close>

type_synonym faults = "nat \<Rightarrow> fault"

abbreviation no_faults :: faults where "no_faults \<equiv> \<lambda>_. NoFault"

text \<open>A statement on its own commits when it is executed, whether or not the reply arrives.\<close>

definition autocommit :: "fault \<Rightarrow> 'a stmt \<Rightarrow> database \<Rightarrow> database \<times> 'a result" where
  "autocommit f s db =
     (case f of
        Refused t \<Rightarrow> (db, Inl (External t))
      | NoFault \<Rightarrow> (case s db of Inl e \<Rightarrow> (db, Inl e) | Inr (a, db') \<Rightarrow> (db', Inr a))
      | ReplyLost t \<Rightarrow> (case s db of Inl e \<Rightarrow> (db, Inl (External t)) | Inr (a, db') \<Rightarrow> (db', Inl (External t))))"

text \<open>A statement inside a transaction works on the transaction's own copy, which is lost on
  any error.\<close>

definition in_tx :: "fault \<Rightarrow> 'a stmt \<Rightarrow> 'a stmt" where
  "in_tx f s w =
     (case f of NoFault \<Rightarrow> s w | Refused t \<Rightarrow> Inl (External t) | ReplyLost t \<Rightarrow> Inl (External t))"

text \<open>\<^verbatim>\<open>BeginTx\<close> changes nothing. \<^verbatim>\<open>Commit\<close> makes the working copy the state, also when its
  reply is lost.\<close>

definition begin_tx :: "fault \<Rightarrow> goerr option" where
  "begin_tx f = (case f of NoFault \<Rightarrow> None | Refused t \<Rightarrow> Some (External t) | ReplyLost t \<Rightarrow> Some (External t))"

definition commit_tx :: "fault \<Rightarrow> database \<Rightarrow> database \<Rightarrow> database \<times> goerr option" where
  "commit_tx f db w =
     (case f of NoFault \<Rightarrow> (w, None) | Refused t \<Rightarrow> (db, Some (External t)) | ReplyLost t \<Rightarrow> (w, Some (External t)))"

lemmas exec_defs = autocommit_def in_tx_def begin_tx_def commit_tx_def

section \<open>What the constraints keep\<close>

lemma schema_ok_empty: "schema_ok empty_db"
  by (simp add: schema_ok_def table_ok_defs empty_db_def unique_on_def)

lemma exec_write_Inr: "exec_write db' a = Inr (x, d) \<longleftrightarrow> schema_ok db' \<and> x = a \<and> d = db'"
  by (auto simp: exec_write_def)

lemma exec_write_ok [simp]: "schema_ok db' \<Longrightarrow> exec_write db' a = Inr (a, db')"
  by (simp add: exec_write_def)

lemma in_tx_NoFault [simp]: "in_tx NoFault s = s"
  by (simp add: in_tx_def fun_eq_iff)

lemma begin_tx_NoFault [simp]: "begin_tx NoFault = None"
  by (simp add: begin_tx_def)

lemma commit_tx_NoFault [simp]: "commit_tx NoFault db w = (w, None)"
  by (simp add: commit_tx_def)

lemma in_tx_Inr: "in_tx f s w = Inr r \<longleftrightarrow> f = NoFault \<and> s w = Inr r"
  by (cases f) (auto simp: in_tx_def)

lemma commit_tx_cases: "commit_tx f db w = (d, r) \<Longrightarrow> d = w \<or> d = db \<and> r \<noteq> None"
  by (cases f) (auto simp: commit_tx_def)

lemma schema_okD:
  assumes "schema_ok db"
  shows "unique_key ord_ID (orders db)" "unique_key ord_IdempotencyKey (orders db)"
    "unique_key pay_ID (payments db)" "unique_on payment_active pay_OrderID (payments db)"
    "unique_key att_ID (payment_attempts db)" "unique_key att_IdempotencyKey (payment_attempts db)"
    "unique_on attempt_active att_PaymentID (payment_attempts db)"
    "unique_key evt_ID (webhook_events db)" "unique_key event_key (webhook_events db)"
    "unique_key obx_ID (outbox_events db)" "unique_key obx_WebhookEventID (outbox_events db)"
  using assms by (auto simp: schema_ok_def table_ok_defs)

lemma attempt_has_payment:
  "schema_ok db \<Longrightarrow> r \<in> set (payment_attempts db) \<Longrightarrow>
     \<exists>p \<in> set (payments db). pay_ID p = att_PaymentID r \<and> pay_Provider p = att_Provider r"
  by (auto simp: schema_ok_def attempts_ok_def list_all_iff list_ex_iff)

lemma payment_has_order:
  "schema_ok db \<Longrightarrow> p \<in> set (payments db) \<Longrightarrow>
     \<exists>r \<in> set (orders db). ord_ID r = pay_OrderID p \<and> ord_Amount r = pay_Amount p \<and> ord_Currency r = pay_Currency p"
  by (auto simp: schema_ok_def payments_ok_def list_all_iff list_ex_iff)

lemma outbox_has_event:
  "schema_ok db \<Longrightarrow> m \<in> set (outbox_events db) \<Longrightarrow> \<exists>e \<in> set (webhook_events db). evt_ID e = obx_WebhookEventID m"
  by (auto simp: schema_ok_def outbox_ok_def list_all_iff list_ex_iff)

lemma list_ex_update_where:
  "(\<And>r. p r \<Longrightarrow> q (f r) = q r) \<Longrightarrow> list_ex q (update_where p f t) = list_ex q t"
  by (induction t) auto

lemma list_all_update_where:
  "list_all q t \<Longrightarrow> (\<And>r. r \<in> set t \<Longrightarrow> p r \<Longrightarrow> q r \<Longrightarrow> q (f r)) \<Longrightarrow> list_all q (update_where p f t)"
  by (induction t) auto

text \<open>Updates that keep the keys and satisfy the row's own check keep the schema: one lemma per
  table, used by every statement below it.\<close>

lemma update_orders_ok:
  assumes "schema_ok db"
    and "\<And>r. p r \<Longrightarrow> ord_ID (f r) = ord_ID r \<and> ord_IdempotencyKey (f r) = ord_IdempotencyKey r \<and>
           ord_Amount (f r) = ord_Amount r \<and> ord_Currency (f r) = ord_Currency r"
    and "\<And>r. r \<in> set (orders db) \<Longrightarrow> p r \<Longrightarrow> order_check r \<Longrightarrow> order_check (f r)"
  shows "schema_ok (db\<lparr>orders := update_where p f (orders db)\<rparr>)"
  using assms unfolding schema_ok_def table_ok_defs
  by (simp add: unique_key_update_where list_ex_update_where list_all_update_where)

lemma update_payments_ok:
  assumes "schema_ok db"
    and "\<And>r. p r \<Longrightarrow> pay_ID (f r) = pay_ID r \<and> pay_OrderID (f r) = pay_OrderID r \<and>
           pay_Provider (f r) = pay_Provider r \<and> pay_Amount (f r) = pay_Amount r \<and>
           pay_Currency (f r) = pay_Currency r"
    and "\<And>r. p r \<Longrightarrow> payment_active (f r) \<Longrightarrow> payment_active r"
    and "\<And>r. r \<in> set (payments db) \<Longrightarrow> p r \<Longrightarrow> payment_check r \<Longrightarrow> payment_check (f r)"
  shows "schema_ok (db\<lparr>payments := update_where p f (payments db)\<rparr>)"
  using assms unfolding schema_ok_def table_ok_defs
  by (simp add: unique_key_update_where list_ex_update_where list_all_update_where unique_on_update_where)

lemma update_attempts_ok:
  assumes "schema_ok db"
    and "\<And>r. p r \<Longrightarrow> att_ID (f r) = att_ID r \<and> att_PaymentID (f r) = att_PaymentID r \<and>
           att_Provider (f r) = att_Provider r \<and> att_IdempotencyKey (f r) = att_IdempotencyKey r"
    and "\<And>r. p r \<Longrightarrow> attempt_active (f r) \<Longrightarrow> attempt_active r"
    and "\<And>r. r \<in> set (payment_attempts db) \<Longrightarrow> p r \<Longrightarrow> attempt_check r \<Longrightarrow> attempt_check (f r)"
    and "unique_on has_session_id session_key (update_where p f (payment_attempts db))"
  shows "schema_ok (db\<lparr>payment_attempts := update_where p f (payment_attempts db)\<rparr>)"
  using assms unfolding schema_ok_def table_ok_defs
  by (simp add: unique_key_update_where list_all_update_where unique_on_update_where)

lemma update_events_ok:
  assumes "schema_ok db"
    and "\<And>r. p r \<Longrightarrow> evt_ID (f r) = evt_ID r \<and> event_key (f r) = event_key r"
    and "\<And>r. r \<in> set (webhook_events db) \<Longrightarrow> p r \<Longrightarrow> event_check r \<Longrightarrow> event_check (f r)"
  shows "schema_ok (db\<lparr>webhook_events := update_where p f (webhook_events db)\<rparr>)"
  using assms unfolding schema_ok_def table_ok_defs
  by (simp add: unique_key_update_where list_ex_update_where list_all_update_where)

lemma update_outbox_ok:
  assumes "schema_ok db"
    and "\<And>r. p r \<Longrightarrow> obx_ID (f r) = obx_ID r \<and> obx_WebhookEventID (f r) = obx_WebhookEventID r"
    and "\<And>r. r \<in> set (outbox_events db) \<Longrightarrow> p r \<Longrightarrow> outbox_check r \<Longrightarrow> outbox_check (f r)"
  shows "schema_ok (db\<lparr>outbox_events := update_where p f (outbox_events db)\<rparr>)"
  using assms unfolding schema_ok_def table_ok_defs
  by (simp add: unique_key_update_where list_all_update_where)

section \<open>How the tables evolve\<close>

text \<open>No operation of the program deletes a row or changes a column that identifies it, and none
  moves an order, payment or attempt out of a settled status. \<^term>\<open>evolves db db'\<close> states all of it
  of two successive states; it is what one process may assume of the others.\<close>

abbreviation order_identity where
  "order_identity r \<equiv> (ord_ID r, ord_Amount r, ord_Currency r, ord_ProductID r, ord_Quantity r, ord_IdempotencyKey r)"

abbreviation payment_identity where
  "payment_identity r \<equiv> (pay_ID r, pay_OrderID r, pay_Provider r, pay_Amount r, pay_Currency r)"

abbreviation attempt_identity where
  "attempt_identity r \<equiv> (att_ID r, att_PaymentID r, att_Provider r, att_IdempotencyKey r)"

abbreviation event_identity where
  "event_identity r \<equiv> (evt_ID r, evt_Provider r, evt_ProviderEventID r, evt_EventType r, evt_RawPayload r, evt_Payload r)"

abbreviation outbox_identity where
  "outbox_identity r \<equiv> (obx_ID r, obx_WebhookEventID r, obx_EventType r, obx_SchemaVersion r, obx_RoutingKey r,
     obx_CorrelationID r, obx_OccurredAt r)"

definition evolves :: "database \<Rightarrow> database \<Rightarrow> bool" where
  "evolves db db' \<longleftrightarrow>
     keeps (\<lambda>_. True) order_identity (orders db) (orders db') \<and>
     keeps (\<lambda>r. ord_Status r \<noteq> OrderStatusPending) (\<lambda>r. (ord_ID r, ord_Status r)) (orders db) (orders db') \<and>
     keeps (\<lambda>_. True) payment_identity (payments db) (payments db') \<and>
     keeps (\<lambda>r. paymentSettled (pay_Status r)) (\<lambda>r. (pay_ID r, pay_Status r)) (payments db) (payments db') \<and>
     keeps (\<lambda>_. True) attempt_identity (payment_attempts db) (payment_attempts db') \<and>
     keeps (\<lambda>r. attemptSettled (att_Status r)) (\<lambda>r. (att_ID r, att_Status r))
       (payment_attempts db) (payment_attempts db') \<and>
     keeps (\<lambda>_. True) event_identity (webhook_events db) (webhook_events db') \<and>
     keeps (\<lambda>_. True) outbox_identity (outbox_events db) (outbox_events db')"

lemma evolves_refl [simp]: "evolves db db"
  by (simp add: evolves_def)

lemma evolves_trans: "evolves a b \<Longrightarrow> evolves b c \<Longrightarrow> evolves a c"
  unfolding evolves_def by (blast intro: keeps_trans)

text \<open>Adding rows to a table, and updates that keep identities and settled statuses.\<close>

lemma evolves_insert:
  "evolves db (db\<lparr>orders := orders db @ os\<rparr>)" "evolves db (db\<lparr>payments := payments db @ ps\<rparr>)"
  "evolves db (db\<lparr>payment_attempts := payment_attempts db @ as\<rparr>)"
  "evolves db (db\<lparr>webhook_events := webhook_events db @ es\<rparr>)"
  "evolves db (db\<lparr>outbox_events := outbox_events db @ ms\<rparr>)"
  by (simp_all add: evolves_def)

lemma evolves_orders:
  "(\<And>r. q r \<Longrightarrow> order_identity (f r) = order_identity r \<and> ord_Status r = OrderStatusPending) \<Longrightarrow>
   evolves db (db\<lparr>orders := update_where q f (orders db)\<rparr>)"
  unfolding evolves_def by (simp, intro conjI; rule keeps_update_where) auto

lemma evolves_payments:
  "(\<And>r. q r \<Longrightarrow> payment_identity (f r) = payment_identity r \<and> \<not> paymentSettled (pay_Status r)) \<Longrightarrow>
   evolves db (db\<lparr>payments := update_where q f (payments db)\<rparr>)"
  unfolding evolves_def by (simp, intro conjI; rule keeps_update_where) auto

lemma evolves_attempts:
  "(\<And>r. q r \<Longrightarrow> attempt_identity (f r) = attempt_identity r \<and>
      (attemptSettled (att_Status r) \<longrightarrow> att_Status (f r) = att_Status r)) \<Longrightarrow>
   evolves db (db\<lparr>payment_attempts := update_where q f (payment_attempts db)\<rparr>)"
  unfolding evolves_def by (simp, intro conjI; rule keeps_update_where) auto

lemma evolves_events:
  "(\<And>r. q r \<Longrightarrow> event_identity (f r) = event_identity r) \<Longrightarrow>
   evolves db (db\<lparr>webhook_events := update_where q f (webhook_events db)\<rparr>)"
  unfolding evolves_def by (simp, rule keeps_update_where) auto

lemma evolves_outbox:
  "(\<And>r. q r \<Longrightarrow> outbox_identity (f r) = outbox_identity r) \<Longrightarrow>
   evolves db (db\<lparr>outbox_events := update_where q f (outbox_events db)\<rparr>)"
  unfolding evolves_def by (simp, rule keeps_update_where) auto

end
