(* ===== verification/Queries.thy ===== *)
theory Queries
  imports Database "HOL-Library.List_Lexorder" "HOL-Library.Char_ord"
begin

text \<open>
  The statements sqlc generates (\<^verbatim>\<open>postgres/queries/*.sql.go\<close>), one definition each, over the
  tables of theory Database. \<^verbatim>\<open>now\<close> is the database's clock, the only one these statements
  read. A query of kind \<^verbatim>\<open>:one\<close> returns an option, where \<^const>\<open>None\<close> is
  \<^verbatim>\<open>sql.ErrNoRows\<close>; one of kind \<^verbatim>\<open>:execrows\<close> returns the number of rows it changed.
\<close>

section \<open>Inbox and outbox inserts (webhooks.sql.go)\<close>

text \<open>\<^verbatim>\<open>INSERT ... ON CONFLICT DO NOTHING\<close>: the row's own checks come first, then the
  conflict, then every other constraint.\<close>

definition insert_do_nothing :: "bool \<Rightarrow> bool \<Rightarrow> 'a \<Rightarrow> 'a \<Rightarrow> database \<Rightarrow> 'a stmt" where
  "insert_do_nothing row_ok conflict none some db' db =
     (if \<not> row_ok then Inl constraint_violation
      else if conflict then Inr (none, db)
      else exec_write db' some)"

definition new_event_row ::
  "string \<Rightarrow> string \<Rightarrow> string \<Rightarrow> string \<Rightarrow> string \<Rightarrow> string \<Rightarrow> string \<Rightarrow> instant \<Rightarrow> event_row" where
  "new_event_row i provider providerEventID eventType raw payload status receivedAt =
     \<lparr>evt_ID = i, evt_Provider = provider, evt_ProviderEventID = providerEventID,
      evt_EventType = eventType, evt_RawPayload = raw, evt_Payload = payload, evt_Status = status,
      evt_Attempts = 0, evt_ReceivedAt = receivedAt, evt_ProcessedAt = None, evt_LastError = None,
      evt_UpdatedAt = receivedAt, evt_ReplayCount = 0, evt_LastReplayedAt = None\<rparr>"

definition InsertWebhookEvent ::
  "string \<Rightarrow> string \<Rightarrow> string \<Rightarrow> string \<Rightarrow> string \<Rightarrow> string \<Rightarrow> string \<Rightarrow> instant \<Rightarrow> string option stmt" where
  "InsertWebhookEvent i provider providerEventID eventType raw payload status receivedAt db =
     (let row = new_event_row i provider providerEventID eventType raw payload status receivedAt in
      insert_do_nothing (event_check row)
        (list_ex (\<lambda>r. event_key r = event_key row) (webhook_events db)) None (Some i)
        (db\<lparr>webhook_events := webhook_events db @ [row]\<rparr>) db)"

definition new_outbox_row ::
  "instant \<Rightarrow> string \<Rightarrow> string \<Rightarrow> string \<Rightarrow> int \<Rightarrow> string \<Rightarrow> string \<Rightarrow> instant \<Rightarrow> string \<Rightarrow> instant \<Rightarrow> outbox_row" where
  "new_outbox_row now i webhookEventID eventType schemaVersion routingKey correlationID occurredAt status createdAt =
     \<lparr>obx_ID = i, obx_WebhookEventID = webhookEventID, obx_EventType = eventType,
      obx_SchemaVersion = schemaVersion, obx_RoutingKey = routingKey,
      obx_CorrelationID = correlationID, obx_OccurredAt = occurredAt, obx_Status = status,
      obx_Attempts = 0, obx_PublishedAt = None, obx_LastError = None, obx_CreatedAt = createdAt,
      obx_UpdatedAt = createdAt, obx_LockedUntil = None, obx_LockedBy = None, obx_NextAttemptAt = now\<rparr>"

definition InsertOutboxEvent ::
  "instant \<Rightarrow> string \<Rightarrow> string \<Rightarrow> string \<Rightarrow> int \<Rightarrow> string \<Rightarrow> string \<Rightarrow> instant \<Rightarrow> string \<Rightarrow> instant \<Rightarrow> unit stmt" where
  "InsertOutboxEvent now i webhookEventID eventType schemaVersion routingKey correlationID occurredAt status createdAt db =
     exec_write (db\<lparr>outbox_events := outbox_events db @
       [new_outbox_row now i webhookEventID eventType schemaVersion routingKey correlationID
          occurredAt status createdAt]\<rparr>) ()"

section \<open>Consumer statements (consumer.sql.go)\<close>

text \<open>Within the transaction nothing else changes a locked row, so \<^verbatim>\<open>FOR UPDATE\<close> leaves no
  trace in the state.\<close>

definition LockWebhookEvent :: "string \<Rightarrow> event_row option stmt" where
  "LockWebhookEvent i db = Inr (find (\<lambda>r. evt_ID r = i) (webhook_events db), db)"

record aggregate_row =
  agg_OrderID :: string
  agg_OrderStatus :: string
  agg_PaymentID :: string
  agg_PaymentStatus :: string
  agg_Provider :: string
  agg_Amount :: int
  agg_Currency :: string
  agg_AttemptID :: string
  agg_AttemptStatus :: string
  agg_SessionID :: "string option"

definition LockPaymentAggregate :: "string \<Rightarrow> string \<Rightarrow> string \<Rightarrow> aggregate_row option stmt" where
  "LockPaymentAggregate attemptID paymentID orderID db =
     (let rows = [\<lparr>agg_OrderID = ord_ID q, agg_OrderStatus = ord_Status q, agg_PaymentID = pay_ID p,
                   agg_PaymentStatus = pay_Status p, agg_Provider = pay_Provider p,
                   agg_Amount = pay_Amount p, agg_Currency = pay_Currency p, agg_AttemptID = att_ID a,
                   agg_AttemptStatus = att_Status a, agg_SessionID = att_ProviderSessionID a\<rparr>.
                  a \<leftarrow> payment_attempts db, p \<leftarrow> payments db, q \<leftarrow> orders db,
                  pay_ID p = att_PaymentID a \<and> pay_Provider p = att_Provider a \<and> ord_ID q = pay_OrderID p \<and>
                  att_ID a = attemptID \<and> pay_ID p = paymentID \<and> ord_ID q = orderID]
      in Inr (case rows of [] \<Rightarrow> None | r # _ \<Rightarrow> Some r, db))"

definition MarkOrderPaid :: "instant \<Rightarrow> string \<Rightarrow> nat stmt" where
  "MarkOrderPaid now i db =
     (let p = (\<lambda>r. ord_ID r = i \<and> ord_Status r = OrderStatusPending) in
      exec_write (db\<lparr>orders := update_where p
          (\<lambda>r. r\<lparr>ord_Status := OrderStatusPaid, ord_UpdatedAt := now\<rparr>) (orders db)\<rparr>)
        (affected p (orders db)))"

definition MarkWebhookEventProcessed :: "instant \<Rightarrow> string option \<Rightarrow> string \<Rightarrow> nat stmt" where
  "MarkWebhookEventProcessed now note i db =
     (let p = (\<lambda>r. evt_ID r = i \<and> evt_Status r \<noteq> InboxProcessed) in
      exec_write (db\<lparr>webhook_events := update_where p
          (\<lambda>r. r\<lparr>evt_Status := InboxProcessed, evt_ProcessedAt := Some now, evt_Attempts := evt_Attempts r + 1,
                 evt_LastError := note, evt_UpdatedAt := now\<rparr>) (webhook_events db)\<rparr>)
        (affected p (webhook_events db)))"

definition RecordWebhookEventFailure ::
  "instant \<Rightarrow> bool \<Rightarrow> int \<Rightarrow> string option \<Rightarrow> string \<Rightarrow> (int \<times> bool) option stmt" where
  "RecordWebhookEventFailure now terminal maxAttempts lastError i db =
     (let p = (\<lambda>r. evt_ID r = i);
          t = update_where p
            (\<lambda>r. r\<lparr>evt_Attempts := evt_Attempts r + 1,
                   evt_Status := (if terminal \<or> maxAttempts \<le> evt_Attempts r + 1 then InboxFailed
                                  else evt_Status r),
                   evt_LastError := lastError, evt_UpdatedAt := now\<rparr>) (webhook_events db)
      in exec_write (db\<lparr>webhook_events := t\<rparr>)
           (map_option (\<lambda>r. (evt_Attempts r, evt_Status r = InboxFailed)) (find p t)))"

definition TransitionPayment :: "instant \<Rightarrow> string \<Rightarrow> string \<Rightarrow> nat stmt" where
  "TransitionPayment now status i db =
     (let p = (\<lambda>r. pay_ID r = i \<and> pay_Status r \<notin> {PaymentStatusSucceeded, PaymentStatusFailed,
                PaymentStatusCancelled, PaymentStatusPartiallyRefunded, PaymentStatusRefunded}) in
      exec_write (db\<lparr>payments := update_where p
          (\<lambda>r. r\<lparr>pay_Status := status, pay_UpdatedAt := now\<rparr>) (payments db)\<rparr>)
        (affected p (payments db)))"

definition TransitionPaymentAttempt :: "instant \<Rightarrow> string \<Rightarrow> string \<Rightarrow> nat stmt" where
  "TransitionPaymentAttempt now status i db =
     (let p = (\<lambda>r. att_ID r = i \<and> att_Status r \<notin> {AttemptStatusSucceeded, AttemptStatusFailed,
                AttemptStatusExpired, AttemptStatusCancelled}) in
      exec_write (db\<lparr>payment_attempts := update_where p
          (\<lambda>r. r\<lparr>att_Status := status, att_UpdatedAt := now\<rparr>) (payment_attempts db)\<rparr>)
        (affected p (payment_attempts db)))"

text \<open>No caller in the program; \<^verbatim>\<open>coalesce\<close> keeps what is already there. SQL's \<^verbatim>\<open>=\<close> with a null
  argument is not true.\<close>

definition AttachAttemptReferences ::
  "instant \<Rightarrow> string option \<Rightarrow> string option \<Rightarrow> string \<Rightarrow> nat stmt" where
  "AttachAttemptReferences now sessionID paymentIntentID i db =
     (let p = (\<lambda>r. att_ID r = i \<and> (att_ProviderSessionID r = None \<or>
                 (sessionID \<noteq> None \<and> att_ProviderSessionID r = sessionID)));
          orElse = (\<lambda>(x :: string option) y. case x of None \<Rightarrow> y | Some v \<Rightarrow> Some v) in
      exec_write (db\<lparr>payment_attempts := update_where p
          (\<lambda>r. r\<lparr>att_ProviderSessionID := orElse (att_ProviderSessionID r) sessionID,
                 att_ProviderPaymentIntentID := orElse (att_ProviderPaymentIntentID r) paymentIntentID,
                 att_UpdatedAt := now\<rparr>) (payment_attempts db)\<rparr>)
        (affected p (payment_attempts db)))"

text \<open>The age of the oldest of the rows, \<open>0\<close> when there is none.\<close>

definition oldest_age :: "instant \<Rightarrow> instant list \<Rightarrow> duration" where
  "oldest_age now ts = (case ts of [] \<Rightarrow> 0 | t # r \<Rightarrow> now - fold min r t)"

definition WebhookInboxBacklog :: "instant \<Rightarrow> (nat \<times> nat \<times> duration) stmt" where
  "WebhookInboxBacklog now db =
     (let waiting = filter (\<lambda>r. evt_Status r = InboxPending \<or> evt_Status r = InboxProcessing) (webhook_events db)
      in Inr ((length waiting, affected (\<lambda>r. evt_Status r = InboxFailed) (webhook_events db),
               oldest_age now (map evt_ReceivedAt waiting)), db))"

section \<open>Outbox leases (outbox.sql.go)\<close>

text \<open>\<^verbatim>\<open>make_interval(secs => d)\<close>: intervals have microsecond resolution.\<close>

definition make_interval :: "duration \<Rightarrow> duration" where
  "make_interval d = ((d + 500) div 1000) * 1000"

definition due :: "instant \<Rightarrow> outbox_row \<Rightarrow> bool" where
  "due now r \<longleftrightarrow> obx_NextAttemptAt r \<le> now \<and>
     (obx_Status r = MessageStatusPending \<or>
      obx_Status r = MessagePublishing \<and> (case obx_LockedUntil r of None \<Rightarrow> False | Some u \<Rightarrow> u \<le> now))"

text \<open>\<^term>\<open>skip\<close> marks the rows another transaction holds locked, which \<^verbatim>\<open>SKIP LOCKED\<close> passes over.\<close>

definition lease_ids :: "instant \<Rightarrow> (string \<Rightarrow> bool) \<Rightarrow> nat \<Rightarrow> outbox_row list \<Rightarrow> string list" where
  "lease_ids now skip n t =
     map obx_ID (take n (sort_key obx_NextAttemptAt (filter (\<lambda>r. due now r \<and> \<not> skip (obx_ID r)) t)))"

definition lease_row :: "instant \<Rightarrow> duration \<Rightarrow> string option \<Rightarrow> outbox_row \<Rightarrow> outbox_row" where
  "lease_row now leaseSeconds owner r =
     r\<lparr>obx_Status := MessagePublishing, obx_LockedUntil := Some (now + make_interval leaseSeconds),
       obx_LockedBy := owner, obx_UpdatedAt := now\<rparr>"

definition LeaseOutboxBatch ::
  "instant \<Rightarrow> (string \<Rightarrow> bool) \<Rightarrow> duration \<Rightarrow> string option \<Rightarrow> int \<Rightarrow> outbox_row list stmt" where
  "LeaseOutboxBatch now skip leaseSeconds owner batchSize db =
     (if batchSize < 0 then Inl (External ''LIMIT must not be negative'')
      else let ids = lease_ids now skip (nat batchSize) (outbox_events db);
               p = (\<lambda>r. obx_ID r \<in> set ids);
               t = update_where p (lease_row now leaseSeconds owner) (outbox_events db)
           in exec_write (db\<lparr>outbox_events := t\<rparr>) (filter p t))"

text \<open>The condition all three settlements share: the lease is held by this owner and has not run
  out. In SQL a null \<^verbatim>\<open>locked_by\<close> or \<^verbatim>\<open>locked_until\<close> makes it false.\<close>

definition holds_lease :: "instant \<Rightarrow> string \<Rightarrow> string option \<Rightarrow> outbox_row \<Rightarrow> bool" where
  "holds_lease now i owner r \<longleftrightarrow> obx_ID r = i \<and> owner \<noteq> None \<and> obx_LockedBy r = owner \<and>
     (case obx_LockedUntil r of None \<Rightarrow> False | Some u \<Rightarrow> now < u)"

definition MarkOutboxFailed :: "instant \<Rightarrow> string option \<Rightarrow> string \<Rightarrow> string option \<Rightarrow> nat stmt" where
  "MarkOutboxFailed now lastError i owner db =
     exec_write (db\<lparr>outbox_events := update_where (holds_lease now i owner)
         (\<lambda>r. r\<lparr>obx_Status := MessageStatusFailed, obx_Attempts := obx_Attempts r + 1, obx_LastError := lastError,
                obx_LockedUntil := None, obx_LockedBy := None, obx_UpdatedAt := now\<rparr>) (outbox_events db)\<rparr>)
       (affected (holds_lease now i owner) (outbox_events db))"

definition MarkOutboxPublished :: "instant \<Rightarrow> string \<Rightarrow> string option \<Rightarrow> nat stmt" where
  "MarkOutboxPublished now i owner db =
     exec_write (db\<lparr>outbox_events := update_where (holds_lease now i owner)
         (\<lambda>r. r\<lparr>obx_Status := MessagePublished, obx_PublishedAt := Some now, obx_Attempts := obx_Attempts r + 1,
                obx_LastError := None, obx_LockedUntil := None, obx_LockedBy := None,
                obx_UpdatedAt := now\<rparr>) (outbox_events db)\<rparr>)
       (affected (holds_lease now i owner) (outbox_events db))"

definition MarkOutboxRetryable ::
  "instant \<Rightarrow> string option \<Rightarrow> duration \<Rightarrow> string \<Rightarrow> string option \<Rightarrow> nat stmt" where
  "MarkOutboxRetryable now lastError backoffSeconds i owner db =
     exec_write (db\<lparr>outbox_events := update_where (holds_lease now i owner)
         (\<lambda>r. r\<lparr>obx_Status := MessageStatusPending, obx_Attempts := obx_Attempts r + 1, obx_LastError := lastError,
                obx_NextAttemptAt := now + make_interval backoffSeconds,
                obx_LockedUntil := None, obx_LockedBy := None, obx_UpdatedAt := now\<rparr>) (outbox_events db)\<rparr>)
       (affected (holds_lease now i owner) (outbox_events db))"

definition OutboxBacklog :: "instant \<Rightarrow> (nat \<times> duration) stmt" where
  "OutboxBacklog now db =
     (let waiting = filter (\<lambda>r. obx_Status r = MessageStatusPending \<or> obx_Status r = MessagePublishing)
                      (outbox_events db)
      in Inr ((length waiting, oldest_age now (map obx_CreatedAt waiting)), db))"

section \<open>Operational statements (operations.sql.go)\<close>

text \<open>A row of \<^verbatim>\<open>webhook_events LEFT JOIN outbox_events\<close>: the payload columns are not selected.\<close>

type_synonym joined_row = "event_row \<times> outbox_row option"

definition left_join :: "database \<Rightarrow> event_row \<Rightarrow> joined_row list" where
  "left_join db e =
     (case filter (\<lambda>m. obx_WebhookEventID m = evt_ID e) (outbox_events db) of
        [] \<Rightarrow> [(e, None)] | ms \<Rightarrow> map (\<lambda>m. (e, Some m)) ms)"

definition GetWebhookEvent :: "string \<Rightarrow> joined_row option stmt" where
  "GetWebhookEvent i db =
     Inr (case concat (map (left_join db) (filter (\<lambda>r. evt_ID r = i) (webhook_events db))) of
            [] \<Rightarrow> None | r # _ \<Rightarrow> Some r, db)"

definition ListWebhookEvents :: "string \<Rightarrow> int \<Rightarrow> joined_row list stmt" where
  "ListWebhookEvents status resultLimit db =
     (if resultLimit < 0 then Inl (External ''LIMIT must not be negative'')
      else let rows = concat (map (left_join db)
                 (filter (\<lambda>r. status = [] \<or> evt_Status r = status) (webhook_events db)))
           in Inr (take (nat resultLimit)
                (rev (sort_key (\<lambda>(e, _). evt_ReceivedAt e) (sort_key (\<lambda>(e, _). evt_ID e) rows))), db))"

definition LockWebhookEventForReplay :: "string \<Rightarrow> (string \<times> string) option stmt" where
  "LockWebhookEventForReplay i db =
     Inr (case [(evt_Status e, obx_Status m). e \<leftarrow> webhook_events db, m \<leftarrow> outbox_events db,
                obx_WebhookEventID m = evt_ID e \<and> evt_ID e = i] of [] \<Rightarrow> None | r # _ \<Rightarrow> Some r, db)"

definition ResetOutboxForReplay :: "instant \<Rightarrow> string \<Rightarrow> nat stmt" where
  "ResetOutboxForReplay now webhookEventID db =
     (let p = (\<lambda>r. obx_WebhookEventID r = webhookEventID \<and>
                (obx_Status r = MessagePublished \<or> obx_Status r = MessageStatusFailed)) in
      exec_write (db\<lparr>outbox_events := update_where p
          (\<lambda>r. r\<lparr>obx_Status := MessageStatusPending, obx_Attempts := 0, obx_PublishedAt := None,
                 obx_LastError := None, obx_LockedUntil := None, obx_LockedBy := None,
                 obx_NextAttemptAt := now, obx_UpdatedAt := now\<rparr>) (outbox_events db)\<rparr>)
        (affected p (outbox_events db)))"

definition ResetWebhookEventForReplay :: "instant \<Rightarrow> string \<Rightarrow> nat stmt" where
  "ResetWebhookEventForReplay now i db =
     (let p = (\<lambda>r. evt_ID r = i \<and> (evt_Status r = InboxPending \<or> evt_Status r = InboxFailed)) in
      exec_write (db\<lparr>webhook_events := update_where p
          (\<lambda>r. let failed = (evt_Status r = InboxFailed) in
               r\<lparr>evt_Status := (if failed then InboxPending else evt_Status r),
                 evt_Attempts := (if failed then 0 else evt_Attempts r),
                 evt_ProcessedAt := (if failed then None else evt_ProcessedAt r),
                 evt_LastError := (if failed then None else evt_LastError r),
                 evt_ReplayCount := evt_ReplayCount r + 1, evt_LastReplayedAt := Some now,
                 evt_UpdatedAt := now\<rparr>) (webhook_events db)\<rparr>)
        (affected p (webhook_events db)))"

text \<open>\<^verbatim>\<open>Ping\<close> (health.sql.go).\<close>

definition Ping :: "int stmt" where
  "Ping db = Inr (1, db)"

lemmas [sql_defs] =
  InsertWebhookEvent_def InsertOutboxEvent_def LockWebhookEvent_def MarkOrderPaid_def
  MarkWebhookEventProcessed_def RecordWebhookEventFailure_def TransitionPayment_def
  TransitionPaymentAttempt_def AttachAttemptReferences_def LeaseOutboxBatch_def
  MarkOutboxFailed_def MarkOutboxPublished_def MarkOutboxRetryable_def GetWebhookEvent_def
  ListWebhookEvents_def LockWebhookEventForReplay_def ResetOutboxForReplay_def
  ResetWebhookEventForReplay_def LockPaymentAggregate_def WebhookInboxBacklog_def OutboxBacklog_def
  insert_do_nothing_def

section \<open>Every statement is safe\<close>

text \<open>A statement that succeeds keeps the constraints and lets the tables only evolve.\<close>

definition safe_stmt :: "'a stmt \<Rightarrow> bool" where
  "safe_stmt s \<longleftrightarrow> (\<forall>db a db'. schema_ok db \<longrightarrow> s db = Inr (a, db') \<longrightarrow> schema_ok db' \<and> evolves db db')"

lemma safe_stmtD: "safe_stmt s \<Longrightarrow> schema_ok db \<Longrightarrow> s db = Inr (a, db') \<Longrightarrow> schema_ok db' \<and> evolves db db'"
  by (auto simp: safe_stmt_def)

lemma safe_stmtI:
  "(\<And>db a db'. s db = Inr (a, db') \<Longrightarrow> schema_ok db \<Longrightarrow> schema_ok db' \<and> evolves db db') \<Longrightarrow> safe_stmt s"
  by (auto simp: safe_stmt_def)

lemma safe_autocommit:
  assumes "safe_stmt s" and "schema_ok db" and "autocommit f s db = (db', r)"
  shows "schema_ok db' \<and> evolves db db'"
  using assms safe_stmtD [OF assms(1,2)]
  by (cases f) (auto simp: autocommit_def split: sum.splits prod.splits)

lemma safe_in_tx: "safe_stmt s \<Longrightarrow> schema_ok w \<Longrightarrow> in_tx f s w = Inr (a, w') \<Longrightarrow> schema_ok w' \<and> evolves w w'"
  by (auto simp: in_tx_Inr dest: safe_stmtD)

lemma safe_read [safe_intros]: "(\<And>db. \<exists>a. s db = Inr (a, db)) \<Longrightarrow> safe_stmt s"
  unfolding safe_stmt_def by (metis Inr_inject Pair_inject evolves_refl)

lemma safe_insert_do_nothing:
  "insert_do_nothing row_ok conflict none some db' db = Inr (a, d) \<Longrightarrow> schema_ok db \<Longrightarrow> evolves db db' \<Longrightarrow>
     schema_ok d \<and> evolves db d"
  by (auto simp: insert_do_nothing_def Let_def exec_write_Inr split: if_splits)

lemma safe_InsertWebhookEvent [safe_intros]: "safe_stmt (InsertWebhookEvent i pr pe ty raw pl st t)"
  unfolding InsertWebhookEvent_def Let_def
  by (rule safe_stmtI, erule safe_insert_do_nothing) (simp_all add: evolves_insert)

lemma safe_InsertOutboxEvent [safe_intros]: "safe_stmt (InsertOutboxEvent now i w ty v rk c oa st ca)"
  by (rule safe_stmtI) (auto simp: InsertOutboxEvent_def Let_def exec_write_Inr intro: evolves_insert)

lemma safe_LockWebhookEvent [safe_intros]: "safe_stmt (LockWebhookEvent i)"
  by (rule safe_read) (simp add: LockWebhookEvent_def)

lemma safe_LockPaymentAggregate [safe_intros]: "safe_stmt (LockPaymentAggregate a p q)"
  by (rule safe_read) (simp add: LockPaymentAggregate_def Let_def)

lemma safe_MarkOrderPaid [safe_intros]: "safe_stmt (MarkOrderPaid now i)"
  by (rule safe_stmtI) (auto simp: MarkOrderPaid_def Let_def exec_write_Inr intro!: evolves_orders)

lemma safe_MarkWebhookEventProcessed [safe_intros]: "safe_stmt (MarkWebhookEventProcessed now note i)"
  by (rule safe_stmtI) (auto simp: MarkWebhookEventProcessed_def Let_def exec_write_Inr intro!: evolves_events)

lemma safe_RecordWebhookEventFailure [safe_intros]: "safe_stmt (RecordWebhookEventFailure now tm mx le i)"
  by (rule safe_stmtI) (auto simp: RecordWebhookEventFailure_def Let_def exec_write_Inr intro!: evolves_events)

lemma safe_TransitionPayment [safe_intros]: "safe_stmt (TransitionPayment now st i)"
  by (rule safe_stmtI)
    (auto simp: TransitionPayment_def Let_def exec_write_Inr paymentSettled_def intro!: evolves_payments)

lemma safe_TransitionPaymentAttempt [safe_intros]: "safe_stmt (TransitionPaymentAttempt now st i)"
  by (rule safe_stmtI)
    (auto simp: TransitionPaymentAttempt_def Let_def exec_write_Inr attemptSettled_def intro!: evolves_attempts)

lemma safe_AttachAttemptReferences [safe_intros]: "safe_stmt (AttachAttemptReferences now s pi i)"
  by (rule safe_stmtI) (auto simp: AttachAttemptReferences_def Let_def exec_write_Inr intro!: evolves_attempts)

lemma safe_LeaseOutboxBatch [safe_intros]: "safe_stmt (LeaseOutboxBatch now skip d ow n)"
  by (rule safe_stmtI)
    (auto simp: LeaseOutboxBatch_def Let_def exec_write_Inr lease_row_def split: if_splits intro!: evolves_outbox)

lemma safe_MarkOutboxFailed [safe_intros]: "safe_stmt (MarkOutboxFailed now le i ow)"
  by (rule safe_stmtI) (auto simp: MarkOutboxFailed_def Let_def exec_write_Inr intro!: evolves_outbox)

lemma safe_MarkOutboxPublished [safe_intros]: "safe_stmt (MarkOutboxPublished now i ow)"
  by (rule safe_stmtI) (auto simp: MarkOutboxPublished_def Let_def exec_write_Inr intro!: evolves_outbox)

lemma safe_MarkOutboxRetryable [safe_intros]: "safe_stmt (MarkOutboxRetryable now le b i ow)"
  by (rule safe_stmtI) (auto simp: MarkOutboxRetryable_def Let_def exec_write_Inr intro!: evolves_outbox)

lemma safe_ResetOutboxForReplay [safe_intros]: "safe_stmt (ResetOutboxForReplay now i)"
  by (rule safe_stmtI) (auto simp: ResetOutboxForReplay_def Let_def exec_write_Inr intro!: evolves_outbox)

lemma safe_ResetWebhookEventForReplay [safe_intros]: "safe_stmt (ResetWebhookEventForReplay now i)"
  by (rule safe_stmtI) (auto simp: ResetWebhookEventForReplay_def Let_def exec_write_Inr intro!: evolves_events)

section \<open>What the consumer's statements do\<close>

lemma LockPaymentAggregate_Some:
  assumes "LockPaymentAggregate aid pid oid db = Inr (Some g, db')"
  obtains a p q where "db' = db" "a \<in> set (payment_attempts db)" "p \<in> set (payments db)" "q \<in> set (orders db)"
    "att_ID a = aid" "pay_ID p = pid" "ord_ID q = oid" "att_PaymentID a = pid" "att_Provider a = pay_Provider p"
    "pay_OrderID p = oid"
    "g = \<lparr>agg_OrderID = oid, agg_OrderStatus = ord_Status q, agg_PaymentID = pid, agg_PaymentStatus = pay_Status p,
          agg_Provider = pay_Provider p, agg_Amount = pay_Amount p, agg_Currency = pay_Currency p,
          agg_AttemptID = aid, agg_AttemptStatus = att_Status a, agg_SessionID = att_ProviderSessionID a\<rparr>"
proof -
  define rows where "rows = [\<lparr>agg_OrderID = ord_ID q, agg_OrderStatus = ord_Status q, agg_PaymentID = pay_ID p,
                   agg_PaymentStatus = pay_Status p, agg_Provider = pay_Provider p,
                   agg_Amount = pay_Amount p, agg_Currency = pay_Currency p, agg_AttemptID = att_ID a,
                   agg_AttemptStatus = att_Status a, agg_SessionID = att_ProviderSessionID a\<rparr>.
                  a \<leftarrow> payment_attempts db, p \<leftarrow> payments db, q \<leftarrow> orders db,
                  pay_ID p = att_PaymentID a \<and> pay_Provider p = att_Provider a \<and> ord_ID q = pay_OrderID p \<and>
                  att_ID a = aid \<and> pay_ID p = pid \<and> ord_ID q = oid]"
  have "LockPaymentAggregate aid pid oid db = Inr (case rows of [] \<Rightarrow> None | r # _ \<Rightarrow> Some r, db)"
    by (simp only: LockPaymentAggregate_def Let_def rows_def)
  with assms have "db' = db" "g \<in> set rows" by (auto split: list.splits)
  then show thesis using that unfolding rows_def by auto
qed

lemma LockWebhookEvent_simps:
  "LockWebhookEvent i db = Inr (find (\<lambda>r. evt_ID r = i) (webhook_events db), db)"
  by (simp add: LockWebhookEvent_def)

text \<open>The conditional updates move exactly the row they name, when it is there and open.\<close>

lemma TransitionPaymentAttempt_ok:
  assumes "schema_ok db" and "a \<in> set (payment_attempts db)" and "att_ID a = i"
    and "\<not> attemptSettled (att_Status a)"
    and "st \<in> {AttemptStatusPending, AttemptStatusSucceeded, AttemptStatusFailed, AttemptStatusExpired}"
  shows "\<exists>db'. TransitionPaymentAttempt now st i db = Inr (1, db') \<and>
     db' = db\<lparr>payment_attempts := update_where (\<lambda>r. att_ID r = i)
               (\<lambda>r. r\<lparr>att_Status := st, att_UpdatedAt := now\<rparr>) (payment_attempts db)\<rparr>"
proof -
  let ?p = "\<lambda>r. att_ID r = i \<and> att_Status r \<notin> {AttemptStatusSucceeded, AttemptStatusFailed,
                AttemptStatusExpired, AttemptStatusCancelled}"
  let ?f = "\<lambda>r. r\<lparr>att_Status := st, att_UpdatedAt := now\<rparr>"
  have uniq: "r = a" if "r \<in> set (payment_attempts db)" "att_ID r = i" for r
    using unique_keyD [OF schema_okD(5) [OF assms(1)] that(1) assms(2)] that assms(3) by simp
  then have same: "update_where ?p ?f (payment_attempts db) =
      update_where (\<lambda>r. att_ID r = i) ?f (payment_attempts db)"
    using assms(4) by (auto simp: update_where_def attemptSettled_def)
  have "schema_ok (db\<lparr>payment_attempts := update_where ?p ?f (payment_attempts db)\<rparr>)"
    using assms(1,5)
    by (intro update_attempts_ok unique_on_update_where)
      (auto simp: attempt_active_def attempt_check_def schema_ok_def attempts_ok_def)
  moreover have "affected ?p (payment_attempts db) = 1"
    using schema_okD(5) [OF assms(1)] assms(2-4)
    by (intro affected_1 [of att_ID _ _ i a]) (auto simp: attemptSettled_def)
  ultimately show ?thesis using same by (simp add: TransitionPaymentAttempt_def Let_def)
qed

lemma TransitionPayment_ok:
  assumes "schema_ok db" and "p \<in> set (payments db)" and "pay_ID p = i"
    and "\<not> paymentSettled (pay_Status p)"
    and "st \<in> {PaymentStatusProcessing, PaymentStatusSucceeded, PaymentStatusFailed}"
  shows "\<exists>db'. TransitionPayment now st i db = Inr (1, db') \<and>
     db' = db\<lparr>payments := update_where (\<lambda>r. pay_ID r = i)
               (\<lambda>r. r\<lparr>pay_Status := st, pay_UpdatedAt := now\<rparr>) (payments db)\<rparr>"
proof -
  let ?p = "\<lambda>r. pay_ID r = i \<and> pay_Status r \<notin> {PaymentStatusSucceeded, PaymentStatusFailed,
                PaymentStatusCancelled, PaymentStatusPartiallyRefunded, PaymentStatusRefunded}"
  let ?f = "\<lambda>r. r\<lparr>pay_Status := st, pay_UpdatedAt := now\<rparr>"
  have uniq: "r = p" if "r \<in> set (payments db)" "pay_ID r = i" for r
    using unique_keyD [OF schema_okD(3) [OF assms(1)] that(1) assms(2)] that assms(3) by simp
  then have same: "update_where ?p ?f (payments db) = update_where (\<lambda>r. pay_ID r = i) ?f (payments db)"
    using assms(4) by (auto simp: update_where_def paymentSettled_def)
  have "schema_ok (db\<lparr>payments := update_where ?p ?f (payments db)\<rparr>)"
    using assms(1,5) by (intro update_payments_ok) (auto simp: payment_active_def payment_check_def)
  moreover have "affected ?p (payments db) = 1"
    using schema_okD(3) [OF assms(1)] assms(2-4)
    by (intro affected_1 [of pay_ID _ _ i p]) (auto simp: paymentSettled_def)
  ultimately show ?thesis using same by (simp add: TransitionPayment_def Let_def)
qed

lemma MarkOrderPaid_ok:
  assumes "schema_ok db" and "q \<in> set (orders db)" and "ord_ID q = i" and "ord_Status q = OrderStatusPending"
  shows "\<exists>db'. MarkOrderPaid now i db = Inr (1, db') \<and>
     db' = db\<lparr>orders := update_where (\<lambda>r. ord_ID r = i)
               (\<lambda>r. r\<lparr>ord_Status := OrderStatusPaid, ord_UpdatedAt := now\<rparr>) (orders db)\<rparr>"
proof -
  let ?p = "\<lambda>r. ord_ID r = i \<and> ord_Status r = OrderStatusPending"
  let ?f = "\<lambda>r. r\<lparr>ord_Status := OrderStatusPaid, ord_UpdatedAt := now\<rparr>"
  have uniq: "r = q" if "r \<in> set (orders db)" "ord_ID r = i" for r
    using unique_keyD [OF schema_okD(1) [OF assms(1)] that(1) assms(2)] that assms(3) by simp
  then have same: "update_where ?p ?f (orders db) = update_where (\<lambda>r. ord_ID r = i) ?f (orders db)"
    using assms(4) by (auto simp: update_where_def)
  have "schema_ok (db\<lparr>orders := update_where ?p ?f (orders db)\<rparr>)"
    using assms(1) by (intro update_orders_ok) (auto simp: order_check_def)
  moreover have "affected ?p (orders db) = 1"
    using schema_okD(1) [OF assms(1)] assms(2-4) by (intro affected_1 [of ord_ID _ _ i q]) auto
  ultimately show ?thesis using same by (simp add: MarkOrderPaid_def Let_def)
qed

text \<open>The only constraint that can refuse closing an inbox entry is the width of its counter.\<close>

lemma MarkWebhookEventProcessed_ok:
  assumes "schema_ok db" and "e \<in> set (webhook_events db)" and "evt_ID e = i"
    and "evt_Status e \<noteq> InboxProcessed" and "evt_Attempts e < 2 ^ 31 - 1"
  shows "\<exists>db'. MarkWebhookEventProcessed now note i db = Inr (1, db') \<and>
     db' = db\<lparr>webhook_events := update_where (\<lambda>r. evt_ID r = i)
       (\<lambda>r. r\<lparr>evt_Status := InboxProcessed, evt_ProcessedAt := Some now, evt_Attempts := evt_Attempts r + 1,
              evt_LastError := note, evt_UpdatedAt := now\<rparr>) (webhook_events db)\<rparr>"
proof -
  let ?p = "\<lambda>r. evt_ID r = i \<and> evt_Status r \<noteq> InboxProcessed"
  let ?f = "\<lambda>r. r\<lparr>evt_Status := InboxProcessed, evt_ProcessedAt := Some now, evt_Attempts := evt_Attempts r + 1,
              evt_LastError := note, evt_UpdatedAt := now\<rparr>"
  have uniq: "r = e" if "r \<in> set (webhook_events db)" "evt_ID r = i" for r
    using unique_keyD [OF schema_okD(8) [OF assms(1)] that(1) assms(2)] that assms(3) by simp
  then have same: "update_where ?p ?f (webhook_events db) = update_where (\<lambda>r. evt_ID r = i) ?f (webhook_events db)"
    using assms(4) by (auto simp: update_where_def)
  have "schema_ok (db\<lparr>webhook_events := update_where ?p ?f (webhook_events db)\<rparr>)"
    using assms(1,5) uniq
    by (intro update_events_ok) (auto simp: event_check_def int4_def)
  moreover have "affected ?p (webhook_events db) = 1"
    using schema_okD(8) [OF assms(1)] assms(2-4) by (intro affected_1 [of evt_ID _ _ i e]) auto
  ultimately show ?thesis using same by (simp add: MarkWebhookEventProcessed_def Let_def)
qed

end
