(* ===== verification/Errsanitize.thy ===== *)
theory Errsanitize
  imports GoLang
begin

text \<open>
  Package \<^verbatim>\<open>internal/platform/errsanitize\<close>: redaction and truncation of the text an error
  leaves in \<^verbatim>\<open>last_error\<close>. The seven patterns are written in a small regular expression
  type with the leftmost-first, greedy semantics of Go's \<^verbatim>\<open>regexp\<close>; UTF-8 validity is
  decided byte by byte as \<^verbatim>\<open>unicode/utf8\<close> does.
\<close>

definition Redacted :: string where "Redacted = ''[REDACTED]''"
definition MaxLength :: nat where "MaxLength = 500"

section \<open>UTF-8\<close>

definition byte_in :: "nat \<Rightarrow> nat \<Rightarrow> char \<Rightarrow> bool" where
  "byte_in lo hi c \<longleftrightarrow> lo \<le> (of_char c :: nat) \<and> (of_char c :: nat) \<le> hi"

abbreviation cont :: "char \<Rightarrow> bool" where "cont \<equiv> byte_in 0x80 0xBF"

text \<open>The width of the rune a string starts with, \<open>0\<close> where no valid encoding starts
  (the table of \<^verbatim>\<open>utf8.DecodeRuneInString\<close>).\<close>

definition rune_width :: "string \<Rightarrow> nat" where
  "rune_width s =
     (case s of [] \<Rightarrow> 0
      | b0 # r \<Rightarrow>
        if byte_in 0 0x7F b0 then 1
        else if byte_in 0xC2 0xDF b0 then
          (case r of b1 # _ \<Rightarrow> if cont b1 then 2 else 0 | _ \<Rightarrow> 0)
        else if byte_in 0xE0 0xEF b0 then
          (case r of b1 # b2 # _ \<Rightarrow>
             if (if byte_in 0xE0 0xE0 b0 then byte_in 0xA0 0xBF b1
                 else if byte_in 0xED 0xED b0 then byte_in 0x80 0x9F b1 else cont b1) \<and> cont b2
             then 3 else 0 | _ \<Rightarrow> 0)
        else if byte_in 0xF0 0xF4 b0 then
          (case r of b1 # b2 # b3 # _ \<Rightarrow>
             if (if byte_in 0xF0 0xF0 b0 then byte_in 0x90 0xBF b1
                 else if byte_in 0xF4 0xF4 b0 then byte_in 0x80 0x8F b1 else cont b1) \<and> cont b2 \<and> cont b3
             then 4 else 0 | _ \<Rightarrow> 0)
        else 0)"

lemma rune_width_le: "rune_width s \<le> length s"
  by (auto simp: rune_width_def split: list.splits)

text \<open>\<^verbatim>\<open>strings.ToValidUTF8\<close>: every run of invalid bytes becomes one replacement. The flag
  says whether the previous byte already belonged to such a run.\<close>

function ToValidUTF8 :: "bool \<Rightarrow> string \<Rightarrow> string \<Rightarrow> string" where
  "ToValidUTF8 bad s rep =
     (if s = [] then []
      else if rune_width s = 0
      then (if bad then [] else rep) @ ToValidUTF8 True (tl s) rep
      else take (rune_width s) s @ ToValidUTF8 False (drop (rune_width s) s) rep)"
  by pat_completeness auto
termination
  by (relation "measure (\<lambda>(bad, s, rep). length s)") auto

declare ToValidUTF8.simps [simp del]

text \<open>\<^verbatim>\<open>strings.ReplaceAll(s, "\x00", rep)\<close>.\<close>

definition replace_nul :: "string \<Rightarrow> string \<Rightarrow> string" where
  "replace_nul s rep = concat (map (\<lambda>c. if c = CHR 0x00 then rep else [c]) s)"

definition validText :: "string \<Rightarrow> string" where
  "validText s = replace_nul (ToValidUTF8 False s Redacted) Redacted"

definition RuneStart :: "char \<Rightarrow> bool" where
  "RuneStart c \<longleftrightarrow> \<not> cont c"

text \<open>The loop of \<^verbatim>\<open>Truncate\<close>, stepping back to a rune boundary.\<close>

fun step_back :: "string \<Rightarrow> nat \<Rightarrow> nat" where
  "step_back s 0 = 0"
| "step_back s (Suc n) = (if RuneStart (s ! Suc n) then Suc n else step_back s n)"

definition Truncate :: "string \<Rightarrow> int \<Rightarrow> string" where
  "Truncate s maxBytes =
     (if maxBytes \<le> 0 then []
      else let v = validText s in
        if int (length v) \<le> maxBytes then v
        else take (step_back v (nat maxBytes)) v)"

section \<open>Patterns\<close>

datatype re = Cls "char \<Rightarrow> bool" | Cat re re | Alt re re | Opt re | Many re | WordB | Empty

definition word_char :: "char \<Rightarrow> bool" where
  "word_char c \<longleftrightarrow> byte_in 48 57 c \<or> byte_in 65 90 c \<or> byte_in 97 122 c \<or> c = CHR ''_''"

text \<open>A position is the byte before it (if any) and the rest of the text. \<^term>\<open>ends r\<close> lists
  where a match of \<open>r\<close> may end, the preferred one first: alternatives from the left, repetitions
  greedy. A repetition consumes something each time, so the length of the rest is enough fuel.\<close>

type_synonym pos = "char option \<times> string"

primrec many_ends :: "(pos \<Rightarrow> pos list) \<Rightarrow> nat \<Rightarrow> pos \<Rightarrow> pos list" where
  "many_ends f 0 p = [p]"
| "many_ends f (Suc n) p =
     concat (map (many_ends f n) (filter (\<lambda>q. length (snd q) < length (snd p)) (f p))) @ [p]"

primrec ends :: "re \<Rightarrow> pos \<Rightarrow> pos list" where
  "ends (Cls k) p = (case snd p of [] \<Rightarrow> [] | c # r \<Rightarrow> if k c then [(Some c, r)] else [])"
| "ends (Cat a b) p = concat (map (ends b) (ends a p))"
| "ends (Alt a b) p = ends a p @ ends b p"
| "ends (Opt a) p = ends a p @ [p]"
| "ends (Many a) p = many_ends (ends a) (length (snd p)) p"
| "ends WordB p =
     (let left = (case fst p of None \<Rightarrow> False | Some c \<Rightarrow> word_char c);
          right = (case snd p of [] \<Rightarrow> False | c # _ \<Rightarrow> word_char c)
      in if left \<noteq> right then [p] else [])"
| "ends Empty p = [p]"

text \<open>\<^verbatim>\<open>ReplaceAllString\<close> with a replacement that names no group.\<close>

function ReplaceAllString :: "re \<Rightarrow> string \<Rightarrow> pos \<Rightarrow> string" where
  "ReplaceAllString r rep p =
     (case snd p of [] \<Rightarrow> []
      | c # rest \<Rightarrow>
        (case ends r p of
           q # _ \<Rightarrow> if length (snd q) < length (snd p) then rep @ ReplaceAllString r rep q
                   else c # ReplaceAllString r rep (Some c, rest)
         | [] \<Rightarrow> c # ReplaceAllString r rep (Some c, rest)))"
  by pat_completeness auto
termination
  by (relation "measure (\<lambda>(r, rep, p). length (snd p))") auto

declare ReplaceAllString.simps [simp del]

definition lit :: "char \<Rightarrow> re" where "lit c = Cls (\<lambda>d. d = c)"

primrec lits :: "string \<Rightarrow> re" where
  "lits [] = Empty"
| "lits (c # cs) = Cat (lit c) (lits cs)"

text \<open>Under \<^verbatim>\<open>(?i)\<close> a letter matches both cases, and \<^verbatim>\<open>s\<close> and \<^verbatim>\<open>k\<close> also the two
  non-ASCII runes that fold to them.\<close>

definition fold_char :: "char \<Rightarrow> re" where
  "fold_char c =
     (let base = Cls (\<lambda>d. ascii_lower d = ascii_lower c) in
      if ascii_lower c = CHR ''s'' then Alt base (lits [CHR 0xC5, CHR 0xBF])
      else if ascii_lower c = CHR ''k'' then Alt base (lits [CHR 0xE2, CHR 0x84, CHR 0xAA])
      else base)"

primrec folds :: "string \<Rightarrow> re" where
  "folds [] = Empty"
| "folds (c # cs) = Cat (fold_char c) (folds cs)"

primrec alts :: "re \<Rightarrow> re list \<Rightarrow> re" where
  "alts r [] = r"
| "alts r (x # xs) = Alt r (alts x xs)"

primrec cats :: "re list \<Rightarrow> re" where
  "cats [] = Empty"
| "cats (r # rs) = Cat r (cats rs)"

definition Some1 :: "re \<Rightarrow> re" where "Some1 r = Cat r (Many r)"

definition any_of :: "string \<Rightarrow> re" where "any_of cs = Cls (\<lambda>c. c \<in> set cs)"
definition none_of :: "string \<Rightarrow> re" where "none_of cs = Cls (\<lambda>c. c \<notin> set cs)"
definition blanks :: string where "blanks = [CHR 9, CHR 10, CHR 12, CHR 13, CHR 32]"
definition blank0 :: re where "blank0 = Many (any_of blanks)"
definition digit :: re where "digit = Cls (byte_in 48 57)"
definition alnum :: re where
  "alnum = Cls (\<lambda>c. byte_in 48 57 c \<or> byte_in 65 90 c \<or> byte_in 97 122 c)"

definition pattern_url :: re where
  "pattern_url = cats
     [WordB,
      alts (cats [folds ''postgres'', Opt (folds ''ql'')])
        [cats [folds ''amqp'', Opt (fold_char CHR ''s'')], cats [folds ''http'', Opt (fold_char CHR ''s'')],
         folds ''mysql'', folds ''redis'', cats [folds ''mongodb'', Opt (folds ''+srv'')]],
      lits ''://'', Some1 (none_of (''/@'' @ blanks)), lit CHR ''@'']"

definition pattern_header :: re where
  "pattern_header = cats
     [WordB,
      alts (folds ''authorization'')
        [folds ''x-api-key'', folds ''proxy-authorization'', folds ''cookie'', folds ''set-cookie''],
      blank0, any_of '':='', blank0, Some1 (none_of ('','' @ '';'' @ [CHR 10]))]"

definition pattern_stripe_signature :: re where
  "pattern_stripe_signature = cats
     [WordB, folds ''stripe-signature'', blank0, any_of '':='', blank0, Some1 (none_of ('';'' @ [CHR 10]))]"

definition pattern_pair :: re where
  "pattern_pair = cats
     [WordB,
      alts (folds ''password'')
        [folds ''passwd'', folds ''pwd'', folds ''token'', folds ''secret'',
         cats [folds ''api'', Opt (any_of ''_-''), folds ''key''],
         cats [folds ''access'', Opt (any_of ''_-''), folds ''key''],
         cats [folds ''client'', Opt (any_of ''_-''), folds ''secret'']],
      WordB, Opt (any_of [CHR 34, CHR 39]), blank0, any_of '':='', blank0,
      alts (cats [lit (CHR 34), Many (none_of [CHR 34]), lit (CHR 34)])
        [cats [lit (CHR 39), Many (none_of [CHR 39]), lit (CHR 39)],
         Some1 (none_of (blanks @ ''&,;}''))]]"

definition pattern_secret_key :: re where
  "pattern_secret_key = cats
     [WordB, any_of ''sr'', lits ''k_'', alts (lits ''live'') [lits ''test''], lit CHR ''_'', Some1 alnum, WordB]"

definition pattern_webhook_secret :: re where
  "pattern_webhook_secret = cats [WordB, lits ''whsec_'', Some1 alnum, WordB]"

definition pattern_signature_value :: re where
  "pattern_signature_value = cats
     [WordB, lits ''t='', Some1 digit,
      Some1 (cats [lits '',v'', Some1 digit, lit CHR ''='', Some1 alnum]), WordB]"

definition patterns :: "re list" where
  "patterns = [pattern_url, pattern_header, pattern_stripe_signature, pattern_pair,
               pattern_secret_key, pattern_webhook_secret, pattern_signature_value]"

definition Sanitize :: "string \<Rightarrow> string" where
  "Sanitize text =
     Truncate (fold (\<lambda>pattern t. ReplaceAllString pattern Redacted (None, t)) patterns (validText text))
       (int MaxLength)"

section \<open>Properties\<close>

text \<open>Well-formed UTF-8: the text is a sequence of whole runes.\<close>

inductive valid_utf8 :: "string \<Rightarrow> bool" where
  valid_Nil: "valid_utf8 []"
| valid_rune: "rune_width s = length s \<Longrightarrow> s \<noteq> [] \<Longrightarrow> valid_utf8 t \<Longrightarrow> valid_utf8 (s @ t)"

lemma list4_cases:
  obtains "s = []" | a where "s = [a]" | a b where "s = [a, b]" | a b c where "s = [a, b, c]"
    | a b c d r where "s = a # b # c # d # r"
  by (cases s; cases "tl s"; cases "tl (tl s)"; cases "tl (tl (tl s))") auto

lemma rune_width_take_n: "rune_width s = n \<Longrightarrow> rune_width (take n s) = n"
  by (cases s rule: list4_cases) (auto simp: rune_width_def numeral_eq_Suc split: if_splits)

lemma rune_width_take: "rune_width (take (rune_width s) s) = rune_width s"
  by (rule rune_width_take_n) (rule refl)

lemma valid_utf8_append: "valid_utf8 s \<Longrightarrow> valid_utf8 t \<Longrightarrow> valid_utf8 (s @ t)"
  by (induction rule: valid_utf8.induct) (auto intro: valid_utf8.intros)

lemma valid_ascii1: "byte_in 0 127 c \<Longrightarrow> valid_utf8 [c]"
  using valid_rune [of "[c]" "[]"] by (simp add: rune_width_def valid_Nil)

lemma valid_ascii: "\<forall>c \<in> set s. byte_in 0 127 c \<Longrightarrow> valid_utf8 s"
proof (induction s)
  case (Cons c s)
  then show ?case using valid_utf8_append [of "[c]" s] by (simp add: valid_ascii1)
qed (rule valid_Nil)

lemma valid_Redacted: "valid_utf8 Redacted"
  by (rule valid_ascii) (simp add: Redacted_def byte_in_def)

lemma ToValidUTF8_valid: "valid_utf8 rep \<Longrightarrow> valid_utf8 (ToValidUTF8 bad s rep)"
proof (induction bad s rep rule: ToValidUTF8.induct)
  case (1 bad s rep)
  show ?case
  proof (cases "s = [] \<or> rune_width s = 0")
    case True
    with 1 show ?thesis
      by (subst ToValidUTF8.simps) (auto intro: valid_utf8_append valid_Nil)
  next
    case False
    then have "valid_utf8 (take (rune_width s) s)"
      using valid_rune [of "take (rune_width s) s" "[]"] rune_width_le [of s]
      by (simp add: rune_width_take valid_Nil)
    with False 1 show ?thesis
      by (subst ToValidUTF8.simps) (auto intro: valid_utf8_append)
  qed
qed

lemma no_nul_rune: "rune_width s = length s \<Longrightarrow> 1 < length s \<Longrightarrow> CHR 0x00 \<notin> set s"
  by (auto simp: rune_width_def byte_in_def split: list.splits if_splits)

lemma replace_nul_id: "CHR 0x00 \<notin> set s \<Longrightarrow> replace_nul s rep = s"
  by (induction s) (auto simp: replace_nul_def)

lemma replace_nul_valid:
  assumes "valid_utf8 s" and "valid_utf8 rep"
  shows "valid_utf8 (replace_nul s rep)"
  using assms(1)
proof (induction rule: valid_utf8.induct)
  case (valid_rune s t)
  have "valid_utf8 (replace_nul s rep)"
  proof (cases "length s = 1")
    case True
    then obtain c where "s = [c]" by (cases s) auto
    with valid_rune.hyps assms(2) valid_utf8.valid_rune [of s "[]"] show ?thesis
      by (auto simp: replace_nul_def valid_Nil)
  next
    case False
    with valid_rune.hyps have "1 < length s" by (cases s) auto
    with valid_rune.hyps have "replace_nul s rep = s" by (simp add: replace_nul_id no_nul_rune)
    with valid_rune.hyps valid_utf8.valid_rune [of s "[]"] show ?thesis by (simp add: valid_Nil)
  qed
  with valid_rune.IH valid_utf8_append show ?case by (simp add: replace_nul_def)
qed (simp add: replace_nul_def valid_Nil)

lemma validText_valid: "valid_utf8 (validText s)"
  unfolding validText_def by (intro replace_nul_valid ToValidUTF8_valid valid_Redacted)

lemma replace_nul_no_nul: "CHR 0x00 \<notin> set rep \<Longrightarrow> CHR 0x00 \<notin> set (replace_nul s rep)"
  by (induction s) (auto simp: replace_nul_def)

lemma validText_no_nul: "CHR 0x00 \<notin> set (validText s)"
  unfolding validText_def by (rule replace_nul_no_nul) (simp add: Redacted_def)

text \<open>Inside a rune every byte but the first is a continuation byte, so a cut at a rune
  start never splits one.\<close>

lemma rune_inner_cont:
  "rune_width s = length s \<Longrightarrow> 0 < k \<Longrightarrow> k < length s \<Longrightarrow> \<not> RuneStart (s ! k)"
  by (auto simp: rune_width_def RuneStart_def byte_in_def less_Suc_eq nth_Cons'
      split: list.splits if_splits)

lemma valid_take_RuneStart:
  assumes "valid_utf8 s" and "k < length s" and "RuneStart (s ! k)"
  shows "valid_utf8 (take k s)"
  using assms
proof (induction arbitrary: k rule: valid_utf8.induct)
  case (valid_rune s t)
  show ?case
  proof (cases "k < length s")
    case True
    with valid_rune.prems have "RuneStart (s ! k)" by (simp add: nth_append)
    with rune_inner_cont [OF valid_rune.hyps(1)] True have "k = 0" by auto
    then show ?thesis by (simp add: valid_Nil)
  next
    case False
    with valid_rune.prems have "valid_utf8 (take (k - length s) t)"
      by (intro valid_rune.IH) (auto simp: nth_append)
    with False valid_rune.hyps show ?thesis by (auto intro: valid_utf8.valid_rune)
  qed
qed simp

lemma step_back_cases: "step_back s n = 0 \<or> RuneStart (s ! step_back s n)"
  by (induction n) auto

lemma step_back_le: "step_back s n \<le> n"
  by (induction n) (auto intro: le_SucI)

lemma Truncate_ok:
  "int (length (Truncate s m)) \<le> max 0 m \<and> valid_utf8 (Truncate s m) \<and> CHR 0x00 \<notin> set (Truncate s m)"
proof (cases "m \<le> 0 \<or> int (length (validText s)) \<le> m")
  case True
  then show ?thesis
    using validText_valid [of s] validText_no_nul [of s] by (auto simp: Truncate_def valid_Nil)
next
  case False
  define v where "v = validText s"
  define k where "k = step_back v (nat m)"
  have km: "k \<le> nat m" unfolding k_def by (rule step_back_le)
  have "valid_utf8 (take k v)"
    using step_back_cases [of v "nat m"] valid_take_RuneStart [of v k] validText_valid [of s] False km
    by (auto simp: k_def [symmetric] v_def [symmetric] valid_Nil)
  moreover from False have "Truncate s m = take k v" by (simp add: Truncate_def v_def k_def Let_def)
  moreover have "CHR 0x00 \<notin> set (take k v)"
    using validText_no_nul [of s] set_take_subset [of k v] by (auto simp: v_def)
  ultimately show ?thesis using km False by auto
qed

text \<open>
  C39: what reaches \<^verbatim>\<open>last_error\<close> is storable. Whatever the error text (invalid UTF-8, NUL
  bytes, any length), the sanitized text is at most 500 bytes, is well-formed UTF-8 cut at a
  rune boundary, and has no NUL byte.
\<close>

theorem Sanitize_storable:
  "length (Sanitize text) \<le> MaxLength \<and> valid_utf8 (Sanitize text) \<and> CHR 0x00 \<notin> set (Sanitize text)"
  using Truncate_ok
    [of "fold (\<lambda>pattern t. ReplaceAllString pattern Redacted (None, t)) patterns (validText text)" "int MaxLength"]
  by (simp add: Sanitize_def)

end
