(* ===== verification/Samples.thy ===== *)
theory Samples
  imports Database
begin

text \<open>
  A small concrete state the witnesses of the development evaluate on: one priced order with a
  payment, an open attempt that has its provider session, and one received event with its outbox
  message.
\<close>

definition sample_order :: order_row where
  "sample_order = \<lparr>ord_ID = ''ord_1'', ord_Status = OrderStatusPending, ord_Amount = 100, ord_Currency = ''BRL'',
     ord_ProductID = ''p'', ord_Quantity = 2, ord_IdempotencyKey = ''k1'', ord_CreatedAt = 1, ord_UpdatedAt = 1\<rparr>"

definition sample_payment :: payment_row where
  "sample_payment = \<lparr>pay_ID = ''pay_1'', pay_OrderID = ''ord_1'', pay_Provider = Stripe,
     pay_Status = PaymentStatusPending, pay_Amount = 100, pay_Currency = ''BRL'', pay_CreatedAt = 2, pay_UpdatedAt = 2\<rparr>"

definition sample_attempt :: attempt_row where
  "sample_attempt = \<lparr>att_ID = ''pat_1'', att_PaymentID = ''pay_1'', att_Provider = Stripe,
     att_Status = AttemptStatusPending, att_IdempotencyKey = ''k2'', att_ProviderSessionID = Some ''cs_1'',
     att_ProviderPaymentIntentID = None, att_CheckoutUrl = Some ''https://checkout.stripe.com/1'',
     att_ExpiresAt = Some 900, att_FailureCode = None, att_FailureMessage = None, att_CreatedAt = 2, att_UpdatedAt = 3\<rparr>"

definition sample_event :: event_row where
  "sample_event = \<lparr>evt_ID = ''evt_1'', evt_Provider = Stripe, evt_ProviderEventID = ''evt_s1'',
     evt_EventType = ''checkout.session.completed'', evt_RawPayload = ''{}'', evt_Payload = ''{}'',
     evt_Status = InboxPending, evt_Attempts = 0, evt_ReceivedAt = 4, evt_ProcessedAt = None, evt_LastError = None,
     evt_UpdatedAt = 4, evt_ReplayCount = 0, evt_LastReplayedAt = None\<rparr>"

definition sample_message :: outbox_row where
  "sample_message = \<lparr>obx_ID = ''msg_1'', obx_WebhookEventID = ''evt_1'', obx_EventType = KindCheckoutCompleted,
     obx_SchemaVersion = 1, obx_RoutingKey = routingKeyPrefix @ KindCheckoutCompleted, obx_CorrelationID = ''c'',
     obx_OccurredAt = 4, obx_Status = MessageStatusPending, obx_Attempts = 0, obx_PublishedAt = None,
     obx_LastError = None, obx_CreatedAt = 4, obx_UpdatedAt = 4, obx_LockedUntil = None, obx_LockedBy = None,
     obx_NextAttemptAt = 4\<rparr>"

definition sample_db :: database where
  "sample_db = \<lparr>orders = [sample_order], payments = [sample_payment], payment_attempts = [sample_attempt],
     webhook_events = [sample_event], outbox_events = [sample_message]\<rparr>"

lemmas sample_defs =
  sample_order_def sample_payment_def sample_attempt_def sample_event_def sample_message_def sample_db_def

lemma BRL_valid [simp]: "Currency_Valid ''BRL''"
  by (simp add: Currency_Valid_def is_upper_def)

lemma sample_tables [simp]:
  "orders sample_db = [sample_order]" "payments sample_db = [sample_payment]"
  "payment_attempts sample_db = [sample_attempt]" "webhook_events sample_db = [sample_event]"
  "outbox_events sample_db = [sample_message]"
  by (simp_all add: sample_db_def)

lemma sample_ok [simp]: "schema_ok sample_db"
  by (simp add: schema_ok_def table_ok_defs check_defs unique_on_def sample_order_def sample_payment_def
      sample_attempt_def sample_event_def sample_message_def int4_def int8_def)

end
