(* ===== verification/Outbox_Repository.thy ===== *)
theory Outbox_Repository
  imports Relay Queries Errsanitize Samples
begin

text \<open>
  \<^verbatim>\<open>postgres/repositories/outbox.go\<close>: leasing due messages and recording what publishing them
  produced. Each operation is one statement, committed on its own.
\<close>

definition messageFromRow :: "outbox_row \<Rightarrow> message" where
  "messageFromRow r =
     \<lparr>message_ID = obx_ID r, message_EventID = obx_WebhookEventID r, message_Kind = obx_EventType r,
      message_SchemaVersion = obx_SchemaVersion r, message_RoutingKey = obx_RoutingKey r,
      message_CorrelationID = obx_CorrelationID r, message_OccurredAt = UTC (obx_OccurredAt r),
      message_Status = MessageStatusPending, message_CreatedAt = 0\<rparr>"

definition lease_of_row :: "outbox_row \<Rightarrow> lease" where
  "lease_of_row r =
     \<lparr>lease_Message = messageFromRow r, lease_Attempts = obx_Attempts r,
      lease_Expires = (case obx_LockedUntil r of None \<Rightarrow> 0 | Some u \<Rightarrow> UTC u)\<rparr>"

definition OutboxRepository_Lease ::
  "fault \<Rightarrow> instant \<Rightarrow> (string \<Rightarrow> bool) \<Rightarrow> database \<Rightarrow> string \<Rightarrow> int \<Rightarrow> duration \<Rightarrow> database \<times> lease list result" where
  "OutboxRepository_Lease f now skip db owner batchSize leaseDuration =
     (case autocommit f (LeaseOutboxBatch now skip leaseDuration (Some owner) (int32 batchSize)) db of
        (db', Inl e) \<Rightarrow> (db', Inl (wrap ''lease outbox batch'' e))
      | (db', Inr rows) \<Rightarrow> (db', Inr (map lease_of_row rows)))"

text \<open>\<^verbatim>\<open>leaseOutcome\<close>: a settlement that matched no row is a lost lease.\<close>

definition leaseOutcome :: "nat \<Rightarrow> goerr option" where
  "leaseOutcome n = (if n = 0 then Some (Sentinel ErrLeaseLost) else None)"

definition errorText :: "goerr option \<Rightarrow> string option" where
  "errorText e = map_option (\<lambda>x. Sanitize (Error_text x)) e"

text \<open>The shape the three settlements share.\<close>

definition settlement :: "fault \<Rightarrow> string \<Rightarrow> nat stmt \<Rightarrow> database \<Rightarrow> database \<times> goerr option" where
  "settlement f what s db =
     (case autocommit f s db of
        (db', Inl e) \<Rightarrow> (db', Some (wrap what e))
      | (db', Inr n) \<Rightarrow> (db', leaseOutcome n))"

definition OutboxRepository_Published ::
  "fault \<Rightarrow> instant \<Rightarrow> database \<Rightarrow> string \<Rightarrow> string \<Rightarrow> database \<times> goerr option" where
  "OutboxRepository_Published f now db owner messageID =
     settlement f ''mark outbox published'' (MarkOutboxPublished now messageID (Some owner)) db"

definition OutboxRepository_Retry ::
  "fault \<Rightarrow> instant \<Rightarrow> database \<Rightarrow> string \<Rightarrow> string \<Rightarrow> goerr \<Rightarrow> duration \<Rightarrow> database \<times> goerr option" where
  "OutboxRepository_Retry f now db owner messageID cause backoff =
     settlement f ''mark outbox retryable''
       (MarkOutboxRetryable now (errorText (Some cause)) backoff messageID (Some owner)) db"

definition OutboxRepository_Failed ::
  "fault \<Rightarrow> instant \<Rightarrow> database \<Rightarrow> string \<Rightarrow> string \<Rightarrow> goerr \<Rightarrow> database \<times> goerr option" where
  "OutboxRepository_Failed f now db owner messageID cause =
     settlement f ''mark outbox failed'' (MarkOutboxFailed now (errorText (Some cause)) messageID (Some owner)) db"

definition OutboxRepository_Backlog :: "fault \<Rightarrow> instant \<Rightarrow> database \<Rightarrow> (nat \<times> duration) result" where
  "OutboxRepository_Backlog f now db =
     (case autocommit f (OutboxBacklog now) db of
        (_, Inl e) \<Rightarrow> Inl (wrap ''read outbox backlog'' e) | (_, Inr r) \<Rightarrow> Inr r)"

lemmas [repo_defs] = OutboxRepository_Lease_def OutboxRepository_Published_def OutboxRepository_Retry_def
  OutboxRepository_Failed_def settlement_def leaseOutcome_def

section \<open>Leases\<close>

lemma set_lease_ids:
  "i \<in> set (lease_ids now skip n t) \<Longrightarrow> \<exists>r \<in> set t. obx_ID r = i \<and> due now r \<and> \<not> skip i"
  by (auto simp: lease_ids_def dest!: in_set_takeD)

text \<open>The lease check of the schema: a row with both lease columns is being published.\<close>

lemma leased_publishing:
  assumes "schema_ok db" and "r \<in> set (outbox_events db)" and "obx_LockedBy r = Some ow" and "obx_LockedUntil r = Some u"
  shows "obx_Status r = MessagePublishing"
  using assms by (auto simp: schema_ok_def outbox_ok_def list_all_iff outbox_check_def)

lemma holds_lease_publishing:
  "schema_ok db \<Longrightarrow> r \<in> set (outbox_events db) \<Longrightarrow> holds_lease now i ow r \<Longrightarrow> obx_Status r = MessagePublishing"
  by (auto simp: holds_lease_def split: option.splits intro: leased_publishing)

lemma outbox_row_unique:
  "schema_ok db \<Longrightarrow> x \<in> set (outbox_events db) \<Longrightarrow> r \<in> set (outbox_events db) \<Longrightarrow> obx_ID x = obx_ID r \<Longrightarrow> x = r"
  using unique_keyD [OF schema_okD(10)] by blast

lemma held_not_leasable:
  assumes "schema_ok db" and "r \<in> set (outbox_events db)" and "obx_LockedBy r = Some ow"
    and "obx_LockedUntil r = Some u" and "now < u"
  shows "obx_ID r \<notin> set (lease_ids now skip n (outbox_events db))"
proof
  assume "obx_ID r \<in> set (lease_ids now skip n (outbox_events db))"
  then obtain x where x: "x \<in> set (outbox_events db)" "obx_ID x = obx_ID r" "due now x"
    using set_lease_ids by blast
  with outbox_row_unique [OF assms(1) x(1) assms(2)] have "due now r" by simp
  with leased_publishing [OF assms(1-4)] assms(4,5) show False by (simp add: due_def)
qed

lemma LeaseOutboxBatch_Inr:
  assumes "LeaseOutboxBatch now skip d ow n db = Inr (rows, db')"
  shows "0 \<le> n \<and> schema_ok db' \<and>
    db' = db\<lparr>outbox_events := update_where (\<lambda>r. obx_ID r \<in> set (lease_ids now skip (nat n) (outbox_events db)))
               (lease_row now d ow) (outbox_events db)\<rparr> \<and>
    rows = filter (\<lambda>r. obx_ID r \<in> set (lease_ids now skip (nat n) (outbox_events db))) (outbox_events db')"
  using assms by (auto simp: LeaseOutboxBatch_def Let_def exec_write_Inr split: if_splits)

lemma outbox_not_due_id:
  assumes "schema_ok db" and "r \<in> set (outbox_events db)" and "\<not> due now r"
  shows "obx_ID r \<notin> set (lease_ids now skip n (outbox_events db))"
  using assms set_lease_ids [of "obx_ID r" now skip n "outbox_events db"] outbox_row_unique by blast

section \<open>The relay's port\<close>

definition published_in :: "database \<Rightarrow> string \<Rightarrow> bool" where
  "published_in db i \<longleftrightarrow> (\<exists>r \<in> set (outbox_events db). obx_ID r = i \<and> obx_Status r = MessagePublished)"

text \<open>An update of rows that are not published records, at most, what it was asked to.\<close>

lemma adds_update:
  assumes "\<And>r. r \<in> set (outbox_events db) \<Longrightarrow> p r \<Longrightarrow> obx_Status r \<noteq> MessagePublished"
    and "\<And>r. p r \<Longrightarrow> obx_ID (f r) = obx_ID r"
    and "\<And>r. p r \<Longrightarrow> obx_Status (f r) = MessagePublished \<Longrightarrow> obx_ID r \<in> A"
  shows "adds published_in A db (db\<lparr>outbox_events := update_where p f (outbox_events db)\<rparr>)"
  using assms by (fastforce simp: adds_def published_in_def set_update_where)

lemma settlement_adds:
  assumes "schema_ok db" and "safe_stmt s" and "settlement fl what s db = (db', e)"
    and "\<And>n d. s db = Inr (n, d) \<Longrightarrow> adds published_in A db d"
  shows "schema_ok db' \<and> adds published_in A db db'"
proof -
  obtain x where x: "autocommit fl s db = (db', x)"
    using assms(3) by (auto simp: settlement_def split: prod.splits sum.splits)
  have "adds published_in A db db'"
    using x assms(4) by (auto simp: autocommit_def split: fault.splits sum.splits prod.splits)
  with safe_autocommit [OF assms(2,1) x] show ?thesis by blast
qed

lemma Published_adds:
  assumes "schema_ok db" and "OutboxRepository_Published fl now db ow i = (db', e)"
  shows "schema_ok db' \<and> adds published_in {i} db db' \<and> (e = None \<longrightarrow> published_in db' i)"
proof -
  have stmt: "adds published_in {i} db d \<and> (0 < n \<longrightarrow> published_in d i)"
    if "MarkOutboxPublished now i (Some ow) db = Inr (n, d)" for n d
  proof -
    from that have d: "d = db\<lparr>outbox_events := update_where (holds_lease now i (Some ow))
         (\<lambda>r. r\<lparr>obx_Status := MessagePublished, obx_PublishedAt := Some now, obx_Attempts := obx_Attempts r + 1,
                obx_LastError := None, obx_LockedUntil := None, obx_LockedBy := None, obx_UpdatedAt := now\<rparr>) (outbox_events db)\<rparr>"
      and n: "n = affected (holds_lease now i (Some ow)) (outbox_events db)"
      by (auto simp: MarkOutboxPublished_def exec_write_Inr)
    have "adds published_in {i} db d" unfolding d
      using holds_lease_publishing [OF assms(1)] by (intro adds_update) (auto simp: holds_lease_def)
    moreover have "published_in d i" if "0 < n"
    proof -
      from that n obtain r where "r \<in> set (outbox_events db)" "holds_lease now i (Some ow) r"
        using affected_0_iff [of "holds_lease now i (Some ow)" "outbox_events db"] by auto
      then show ?thesis unfolding d by (force simp: published_in_def set_update_where holds_lease_def)
    qed
    ultimately show ?thesis by blast
  qed
  have "e = None \<Longrightarrow> published_in db' i"
    using assms(2) stmt
    by (auto simp: OutboxRepository_Published_def settlement_def autocommit_def leaseOutcome_def
        split: fault.splits sum.splits prod.splits if_splits)
  moreover have "schema_ok db' \<and> adds published_in {i} db db'"
    using assms stmt by (intro settlement_adds [OF assms(1) safe_MarkOutboxPublished, of fl _ now i "Some ow"])
      (auto simp: OutboxRepository_Published_def)
  ultimately show ?thesis by blast
qed

lemma Retry_adds:
  assumes "schema_ok db" and "OutboxRepository_Retry fl now db ow i c b = (db', e)"
  shows "schema_ok db' \<and> adds published_in {} db db'"
  using assms(2) unfolding OutboxRepository_Retry_def
  by (rule settlement_adds [OF assms(1) safe_MarkOutboxRetryable])
    (use holds_lease_publishing [OF assms(1)] in
      \<open>auto simp: MarkOutboxRetryable_def exec_write_Inr intro!: adds_update\<close>)

lemma Failed_adds:
  assumes "schema_ok db" and "OutboxRepository_Failed fl now db ow i c = (db', e)"
  shows "schema_ok db' \<and> adds published_in {} db db'"
  using assms(2) unfolding OutboxRepository_Failed_def
  by (rule settlement_adds [OF assms(1) safe_MarkOutboxFailed])
    (use holds_lease_publishing [OF assms(1)] in
      \<open>auto simp: MarkOutboxFailed_def exec_write_Inr intro!: adds_update\<close>)

lemma Lease_adds:
  assumes "schema_ok db" and "OutboxRepository_Lease fl now skip db ow n d = (db', r)"
  shows "schema_ok db' \<and> adds published_in {} db db'"
proof -
  obtain x where x: "autocommit fl (LeaseOutboxBatch now skip d (Some ow) (int32 n)) db = (db', x)"
    using assms(2) by (auto simp: OutboxRepository_Lease_def split: prod.splits sum.splits)
  have notpub: "obx_Status r \<noteq> MessagePublished"
    if "r \<in> set (outbox_events db)" "obx_ID r \<in> set (lease_ids now skip k (outbox_events db))" for r k
    using outbox_not_due_id [OF assms(1) that(1), of now skip k] that(2) by (auto simp: due_def)
  have "adds published_in {} db w" if "LeaseOutboxBatch now skip d (Some ow) (int32 n) db = Inr (rows, w)" for rows w
    using LeaseOutboxBatch_Inr [OF that] notpub by (auto simp: lease_row_def intro!: adds_update)
  then have "adds published_in {} db db'"
    using x by (auto simp: autocommit_def split: fault.splits sum.splits prod.splits)
  with safe_autocommit [OF safe_LeaseOutboxBatch assms(1) x] show ?thesis by blast
qed

text \<open>The Postgres repository, each call with its own fault and its own instant.\<close>

definition postgres_settlements :: "(nat \<Rightarrow> fault) \<Rightarrow> (nat \<Rightarrow> instant) \<Rightarrow> database settlements" where
  "postgres_settlements f now =
     \<lparr>st_Published = (\<lambda>k. OutboxRepository_Published (f k) (now k)),
      st_Retry = (\<lambda>k. OutboxRepository_Retry (f k) (now k)),
      st_Failed = (\<lambda>k. OutboxRepository_Failed (f k) (now k))\<rparr>"

interpretation relay_store: relay_repository
  "OutboxRepository_Lease fl now0 skip" "postgres_settlements f now" published_in schema_ok for fl now0 skip f now
  by unfold_locales
    (auto simp: postgres_settlements_def dest: Lease_adds Published_adds Retry_adds Failed_adds)

section \<open>Properties\<close>

text \<open>
  A publication is recorded only after the broker confirmed it. Whatever faults the database
  shows and whenever the cycle is stopped, a message that a relay cycle turns into a published one
  was handed to the publisher in that cycle and confirmed; nothing published is taken back, and the
  schema holds.
\<close>

theorem relay_publishes_confirmed_only:
  assumes "schema_ok db"
    and "runOnce cfg ow hook rnd publish (OutboxRepository_Lease fl now0 skip) (postgres_settlements f now) stopped db =
           (db', x, ns)"
  shows "schema_ok db' \<and> (\<forall>i. published_in db i \<longrightarrow> published_in db' i) \<and>
         (\<forall>i. published_in db' i \<and> \<not> published_in db i \<longrightarrow> (\<exists>m. message_ID m = i \<and> PublishCalled m None \<in> set ns))"
  using relay_store.runOnce_pub [OF assms] by (auto simp: adds_def confirmed_def)

theorem relay_publishes_confirmed_only_witness:
  "\<exists>db' x ns. runOnce (Config_withDefaults \<lparr>rc_BatchSize = 0, rc_Interval = 0, rc_LeaseDuration = 0,
       rc_Backoff = \<lparr>bo_Base = 0, bo_Max = 0\<rparr>, rc_AlertAfterAttempts = 0\<rparr>) ''relay-a'' (\<lambda>_. None) (\<lambda>_ n. 0) (\<lambda>_ _. None)
       (OutboxRepository_Lease NoFault 9 (\<lambda>_. False)) (postgres_settlements (\<lambda>_. NoFault) (\<lambda>_. 10)) (\<lambda>_. False) sample_db =
       (db', x, ns) \<and> schema_ok db' \<and>
     (\<forall>i. published_in db' i \<longrightarrow> (\<exists>m. message_ID m = i \<and> PublishCalled m None \<in> set ns))"
proof -
  let ?run = "runOnce (Config_withDefaults \<lparr>rc_BatchSize = 0, rc_Interval = 0, rc_LeaseDuration = 0,
       rc_Backoff = \<lparr>bo_Base = 0, bo_Max = 0\<rparr>, rc_AlertAfterAttempts = 0\<rparr>) ''relay-a'' (\<lambda>_. None) (\<lambda>_ n. 0) (\<lambda>_ _. None)
       (OutboxRepository_Lease NoFault 9 (\<lambda>_. False)) (postgres_settlements (\<lambda>_. NoFault) (\<lambda>_. 10)) (\<lambda>_. False) sample_db"
  obtain db' x ns where run: "?run = (db', x, ns)" by (cases ?run) auto
  have "\<not> published_in sample_db i" for i by (simp add: published_in_def sample_message_def)
  with relay_publishes_confirmed_only [OF sample_ok run] run show ?thesis by blast
qed

text \<open>The three settlements, as one description: they move the row exactly when its lease is this
  owner's and has not run out at the database's instant.\<close>

lemma settle_row:
  assumes "schema_ok db" and "r \<in> set (outbox_events db)"
    and "holds_lease now (obx_ID r) (Some ow) r \<Longrightarrow> outbox_check (f r)"
    and "\<And>x. obx_ID (f x) = obx_ID x \<and> obx_WebhookEventID (f x) = obx_WebhookEventID x"
  shows "(case exec_write (db\<lparr>outbox_events := update_where (holds_lease now (obx_ID r) (Some ow)) f (outbox_events db)\<rparr>)
            (affected (holds_lease now (obx_ID r) (Some ow)) (outbox_events db)) of
            Inl e \<Rightarrow> (db, Some (wrap what e)) | Inr (n, d) \<Rightarrow> (d, leaseOutcome n)) =
    (if holds_lease now (obx_ID r) (Some ow) r
     then (db\<lparr>outbox_events := update_where (\<lambda>x. obx_ID x = obx_ID r) f (outbox_events db)\<rparr>, None)
     else (db, Some (Sentinel ErrLeaseLost)))"
proof (cases "holds_lease now (obx_ID r) (Some ow) r")
  case True
  let ?p = "holds_lease now (obx_ID r) (Some ow)"
  have uniq: "x = r" if "x \<in> set (outbox_events db)" "obx_ID x = obx_ID r" for x
    using outbox_row_unique [OF assms(1) that(1) assms(2) that(2)] .
  have upd: "update_where ?p f (outbox_events db) = update_where (\<lambda>x. obx_ID x = obx_ID r) f (outbox_events db)"
    using uniq True unfolding update_where_def by (intro map_cong refl) (auto simp: holds_lease_def)
  have "schema_ok (db\<lparr>outbox_events := update_where ?p f (outbox_events db)\<rparr>)"
    using uniq assms(3) True by (intro update_outbox_ok [OF assms(1)] assms(4)) (auto simp: holds_lease_def)
  moreover have "affected ?p (outbox_events db) = 1"
    using schema_okD(10) [OF assms(1)] assms(2) True
    by (intro affected_1 [of obx_ID _ _ "obx_ID r" r]) (auto simp: holds_lease_def)
  ultimately show ?thesis using True by (simp add: upd leaseOutcome_def)
next
  case False
  have none: "\<not> holds_lease now (obx_ID r) (Some ow) x" if "x \<in> set (outbox_events db)" for x
    using outbox_row_unique [OF assms(1) that assms(2)] False by (auto simp: holds_lease_def)
  then have "update_where (holds_lease now (obx_ID r) (Some ow)) f (outbox_events db) = outbox_events db"
      "affected (holds_lease now (obx_ID r) (Some ow)) (outbox_events db) = 0"
    by (auto simp: affected_0_iff intro!: update_where_none)
  with False assms(1) show ?thesis by (simp add: leaseOutcome_def)
qed

lemma settlement_NoFault:
  "settlement NoFault what s db =
     (case s db of Inl e \<Rightarrow> (db, Some (wrap what e)) | Inr (n, d) \<Rightarrow> (d, leaseOutcome n))"
  by (simp add: settlement_def autocommit_def split: sum.splits prod.splits)

lemma outbox_check_row: "schema_ok db \<Longrightarrow> r \<in> set (outbox_events db) \<Longrightarrow> outbox_check r"
  by (auto simp: schema_ok_def outbox_ok_def list_all_iff)

text \<open>
  Settling. Recording a publication moves the row, to published at the database's instant, with
  one more attempt and the lease released, exactly when the lease is this owner's and has not run
  out; in every other case the tables are unchanged and the caller is told that the lease was lost.
\<close>

theorem Published_spec:
  assumes "schema_ok db" and "r \<in> set (outbox_events db)" and "obx_Attempts r < 2 ^ 31 - 1"
  shows "OutboxRepository_Published NoFault now db ow (obx_ID r) =
    (if obx_LockedBy r = Some ow \<and> (\<exists>u. obx_LockedUntil r = Some u \<and> now < u)
     then (db\<lparr>outbox_events := update_where (\<lambda>x. obx_ID x = obx_ID r)
              (\<lambda>x. x\<lparr>obx_Status := MessagePublished, obx_PublishedAt := Some now, obx_Attempts := obx_Attempts x + 1,
                obx_LastError := None, obx_LockedUntil := None, obx_LockedBy := None, obx_UpdatedAt := now\<rparr>)
              (outbox_events db)\<rparr>, None)
     else (db, Some (Sentinel ErrLeaseLost)))"
proof -
  have h: "holds_lease now (obx_ID r) (Some ow) r \<longleftrightarrow> obx_LockedBy r = Some ow \<and> (\<exists>u. obx_LockedUntil r = Some u \<and> now < u)"
    by (auto simp: holds_lease_def split: option.splits)
  have "outbox_check (r\<lparr>obx_Status := MessagePublished, obx_PublishedAt := Some now, obx_Attempts := obx_Attempts r + 1,
      obx_LastError := None, obx_LockedUntil := None, obx_LockedBy := None, obx_UpdatedAt := now\<rparr>)"
    using outbox_check_row [OF assms(1,2)] assms(3) by (auto simp: outbox_check_def int4_def)
  then show ?thesis
    unfolding OutboxRepository_Published_def settlement_NoFault MarkOutboxPublished_def h [symmetric]
    by (intro settle_row [OF assms(1,2)]) auto
qed

definition leased_message :: outbox_row where
  "leased_message = sample_message\<lparr>obx_Status := MessagePublishing, obx_LockedUntil := Some 50, obx_LockedBy := Some ''relay-a''\<rparr>"

definition leased_db :: database where
  "leased_db = sample_db\<lparr>outbox_events := [leased_message]\<rparr>"

lemma leased_ok: "schema_ok leased_db"
  by (simp add: leased_db_def leased_message_def schema_ok_def table_ok_defs check_defs unique_on_def sample_order_def
      sample_payment_def sample_attempt_def sample_event_def sample_message_def int4_def int8_def)

lemma leased_simps [simp]:
  "outbox_events leased_db = [leased_message]" "obx_ID leased_message = ''msg_1''"
  "obx_LockedBy leased_message = Some ''relay-a''" "obx_LockedUntil leased_message = Some 50"
  "obx_Attempts leased_message = 0"
  by (simp_all add: leased_db_def) (simp_all add: leased_message_def sample_message_def)

theorem Published_spec_witness:
  "OutboxRepository_Published NoFault 60 leased_db ''relay-a'' ''msg_1'' = (leased_db, Some (Sentinel ErrLeaseLost)) \<and>
   snd (OutboxRepository_Published NoFault 40 leased_db ''relay-a'' ''msg_1'') = None"
  using Published_spec [OF leased_ok, of leased_message 60 "''relay-a''"]
    Published_spec [OF leased_ok, of leased_message 40 "''relay-a''"]
  by simp

text \<open>
  C23: a lease excludes every other relay. While the lease of a message has not run out at the
  database's instant, no claim returns that message or touches its row, whatever the batch size, the
  locked rows and the faults; and no other owner can settle it, at any instant, in any of the three
  ways: the attempt changes nothing and reports the lost lease.
\<close>

theorem lease_exclusive:
  assumes "schema_ok db" and "r \<in> set (outbox_events db)" and "obx_LockedBy r = Some owner"
    and "obx_LockedUntil r = Some u" and "now < u"
    and "OutboxRepository_Lease fl now skip db other n d = (db', res)" and "other \<noteq> owner"
  shows "r \<in> set (outbox_events db') \<and> (\<forall>ls. res = Inr ls \<longrightarrow> obx_ID r \<notin> message_ID ` lease_Message ` set ls) \<and>
         OutboxRepository_Published NoFault t db other (obx_ID r) = (db, Some (Sentinel ErrLeaseLost)) \<and>
         OutboxRepository_Retry NoFault t db other (obx_ID r) cause b = (db, Some (Sentinel ErrLeaseLost)) \<and>
         OutboxRepository_Failed NoFault t db other (obx_ID r) cause = (db, Some (Sentinel ErrLeaseLost))"
proof -
  have free: "obx_ID r \<notin> set (lease_ids now skip k (outbox_events db))" for k
    by (rule held_not_leasable [OF assms(1-5)])
  have stmt: "r \<in> set (outbox_events w) \<and> obx_ID r \<notin> obx_ID ` set rows"
    if "LeaseOutboxBatch now skip d (Some other) (int32 n) db = Inr (rows, w)" for rows w
    using LeaseOutboxBatch_Inr [OF that] free assms(2) by (force simp: set_update_where)
  have lease: "r \<in> set (outbox_events db') \<and> (\<forall>ls. res = Inr ls \<longrightarrow> obx_ID r \<notin> message_ID ` lease_Message ` set ls)"
    using assms(2,6) stmt
    by (auto simp: OutboxRepository_Lease_def autocommit_def lease_of_row_def messageFromRow_def
        split: fault.splits sum.splits prod.splits)
  have no: "\<not> holds_lease t (obx_ID r) (Some other) r" using assms(3,7) by (auto simp: holds_lease_def)
  have "settlement NoFault what (\<lambda>db. exec_write (db\<lparr>outbox_events := update_where (holds_lease t (obx_ID r) (Some other)) f
       (outbox_events db)\<rparr>) (affected (holds_lease t (obx_ID r) (Some other)) (outbox_events db))) db =
       (db, Some (Sentinel ErrLeaseLost))"
    if "\<And>x. obx_ID (f x) = obx_ID x \<and> obx_WebhookEventID (f x) = obx_WebhookEventID x" for what f
    unfolding settlement_NoFault using settle_row [OF assms(1,2) _ that, of t other what] no by simp
  note this [simp]
  show ?thesis
    using lease
    by (simp add: OutboxRepository_Published_def OutboxRepository_Retry_def OutboxRepository_Failed_def
        MarkOutboxPublished_def [abs_def] MarkOutboxRetryable_def [abs_def] MarkOutboxFailed_def [abs_def])
qed

theorem lease_exclusive_witness:
  "leased_message \<in> set (outbox_events (fst (OutboxRepository_Lease NoFault 45 (\<lambda>_. False) leased_db ''relay-b'' 10 30))) \<and>
   OutboxRepository_Published NoFault 45 leased_db ''relay-b'' ''msg_1'' = (leased_db, Some (Sentinel ErrLeaseLost))"
proof -
  obtain db' res where l: "OutboxRepository_Lease NoFault 45 (\<lambda>_. False) leased_db ''relay-b'' 10 30 = (db', res)" by fastforce
  from lease_exclusive [OF leased_ok _ _ _ _ l, of leased_message "''relay-a''" 50 45] l show ?thesis by simp
qed

lemma length_filter_ids:
  assumes "unique_key key t" and "distinct ids" and "set ids \<subseteq> key ` set t"
  shows "length (filter (\<lambda>r. key r \<in> set ids) t) = length ids"
proof -
  have "distinct (map key (filter (\<lambda>r. key r \<in> set ids) t))" using assms(1) by (simp add: distinct_map_filter)
  then have "length (filter (\<lambda>r. key r \<in> set ids) t) = card (key ` {r \<in> set t. key r \<in> set ids})"
    using distinct_card by fastforce
  also have "key ` {r \<in> set t. key r \<in> set ids} = set ids" using assms(3) by auto
  also have "card (set ids) = length ids" using assms(2) by (rule distinct_card)
  finally show ?thesis .
qed

lemma lease_ids_facts:
  fixes now skip t
  defines "c \<equiv> filter (\<lambda>r. due now r \<and> \<not> skip (obx_ID r)) t"
  assumes "unique_key obx_ID t"
  shows "distinct (lease_ids now skip n t) \<and> set (lease_ids now skip n t) \<subseteq> obx_ID ` set t \<and>
         length (lease_ids now skip n t) = min n (length c) \<and>
         (length (lease_ids now skip n t) < n \<longrightarrow> set (lease_ids now skip n t) = obx_ID ` set c)"
proof -
  have "distinct (map obx_ID (sort_key obx_NextAttemptAt c))"
    using assms(2) by (simp add: c_def distinct_map_filter distinct_map inj_on_filter_key_eq inj_on_def)
  then have "distinct (map obx_ID (take n (sort_key obx_NextAttemptAt c)))"
    by (simp add: take_map [symmetric])
  moreover have "obx_ID ` set (take n (sort_key obx_NextAttemptAt c)) \<subseteq> obx_ID ` set t"
    using set_take_subset [of n "sort_key obx_NextAttemptAt c"] by (auto simp: c_def)
  moreover have "min n (length c) < n \<Longrightarrow> take n (sort_key obx_NextAttemptAt c) = sort_key obx_NextAttemptAt c"
    by (simp add: min_def split: if_splits)
  ultimately show ?thesis by (auto simp: lease_ids_def c_def [symmetric] min.commute)
qed

lemma Lease_schema:
  assumes "schema_ok db"
  shows "schema_ok (db\<lparr>outbox_events := update_where (\<lambda>r. obx_ID r \<in> set (lease_ids now skip n (outbox_events db)))
           (lease_row now d (Some ow)) (outbox_events db)\<rparr>)"
proof (rule update_outbox_ok [OF assms])
  fix r assume r: "r \<in> set (outbox_events db)" "obx_ID r \<in> set (lease_ids now skip n (outbox_events db))" "outbox_check r"
  then have "due now r" using outbox_not_due_id [OF assms r(1)] by blast
  with r(3) show "outbox_check (lease_row now d (Some ow) r)"
    by (auto simp: due_def outbox_check_def lease_row_def)
qed (simp add: lease_row_def)

text \<open>
  Claiming. A claim of at most \<open>n\<close> messages returns only messages that are due and not locked by
  another transaction, each now leased to this owner until the database's instant plus the lease
  duration; it returns \<open>n\<close> of them unless it took every one there is; and it leaves all other rows
  alone.
\<close>

theorem Lease_spec:
  assumes "schema_ok db" and "0 \<le> n" and "n < 2 ^ 31"
  shows "\<exists>db' ls. OutboxRepository_Lease NoFault now skip db owner n d = (db', Inr ls) \<and> schema_ok db' \<and>
    length ls = min (nat n) (length (filter (\<lambda>r. due now r \<and> \<not> skip (obx_ID r)) (outbox_events db))) \<and>
    (\<forall>l \<in> set ls. \<exists>r \<in> set (outbox_events db). due now r \<and> \<not> skip (obx_ID r) \<and>
        lease_of_row (lease_row now d (Some owner) r) = l \<and> lease_row now d (Some owner) r \<in> set (outbox_events db')) \<and>
    (\<forall>r \<in> set (outbox_events db). obx_ID r \<in> message_ID ` lease_Message ` set ls \<or> r \<in> set (outbox_events db')) \<and>
    (length ls < nat n \<longrightarrow> (\<forall>r \<in> set (outbox_events db). due now r \<and> \<not> skip (obx_ID r) \<longrightarrow>
        obx_ID r \<in> message_ID ` lease_Message ` set ls))"
proof -
  define ids where "ids = lease_ids now skip (nat n) (outbox_events db)"
  define t where "t = update_where (\<lambda>r. obx_ID r \<in> set ids) (lease_row now d (Some owner)) (outbox_events db)"
  define ls where "ls = map lease_of_row (filter (\<lambda>r. obx_ID r \<in> set ids) t)"
  note F = lease_ids_facts [OF schema_okD(10) [OF assms(1)], of now skip "nat n", folded ids_def]
  have ok: "schema_ok (db\<lparr>outbox_events := t\<rparr>)" unfolding t_def ids_def by (rule Lease_schema [OF assms(1)])
  then have run: "OutboxRepository_Lease NoFault now skip db owner n d = (db\<lparr>outbox_events := t\<rparr>, Inr ls)"
    using assms(2,3) by (simp add: OutboxRepository_Lease_def autocommit_def LeaseOutboxBatch_def Let_def int32_id
        ids_def [symmetric] t_def [symmetric] ls_def)
  have keys: "map obx_ID t = map obx_ID (outbox_events db)"
    unfolding t_def by (rule map_update_where) (simp add: lease_row_def)
  have "set ids \<subseteq> obx_ID ` set t" using F keys by (metis image_set)
  then have len: "length ls = length ids"
    using length_filter_ids [of obx_ID t ids] F schema_okD(10) [OF assms(1)] keys by (simp add: ls_def)
  have inls: "obx_ID r \<in> message_ID ` lease_Message ` set ls" if "r \<in> set (outbox_events db)" "obx_ID r \<in> set ids" for r
    using that by (force simp: ls_def t_def lease_of_row_def messageFromRow_def set_update_where image_iff lease_row_def)
  have from_db: "\<exists>r \<in> set (outbox_events db). due now r \<and> \<not> skip (obx_ID r) \<and>
      lease_of_row (lease_row now d (Some owner) r) = l \<and> lease_row now d (Some owner) r \<in> set t" if "l \<in> set ls" for l
  proof -
    from that obtain r where r: "r \<in> set (outbox_events db)" "obx_ID r \<in> set ids" "l = lease_of_row (lease_row now d (Some owner) r)"
      by (auto simp: ls_def t_def set_update_where lease_row_def split: if_splits)
    with set_lease_ids [of "obx_ID r" now skip "nat n" "outbox_events db"] outbox_row_unique [OF assms(1) _ r(1)]
    have "due now r \<and> \<not> skip (obx_ID r)" by (auto simp: ids_def)
    with r show ?thesis by (force simp: t_def set_update_where)
  qed
  have rest: "obx_ID r \<in> message_ID ` lease_Message ` set ls \<or> r \<in> set t" if "r \<in> set (outbox_events db)" for r
    using inls [OF that] that by (cases "obx_ID r \<in> set ids") (force simp: t_def set_update_where)+
  show ?thesis
    by (intro exI [of _ "db\<lparr>outbox_events := t\<rparr>"] exI [of _ ls])
      (use run ok len F from_db rest inls in auto)
qed

theorem Lease_spec_witness:
  "\<exists>db' l. OutboxRepository_Lease NoFault 9 (\<lambda>_. False) sample_db ''relay-a'' 20 30 = (db', Inr [l])"
proof -
  obtain db' ls where l: "OutboxRepository_Lease NoFault 9 (\<lambda>_. False) sample_db ''relay-a'' 20 30 = (db', Inr ls)"
      "length ls = min 20 (length (filter (\<lambda>r. due 9 r) [sample_message]))"
    using Lease_spec [OF sample_ok, of 20 9 "\<lambda>_. False" "''relay-a''" 30] by auto
  then have "length ls = 1" by (simp add: due_def sample_message_def)
  with l(1) show ?thesis by (cases ls) auto
qed

end
