(* ===== verification/Event_Repository.thy ===== *)
theory Event_Repository
  imports Consumer_Service Outbox_Repository
begin

text \<open>
  \<^verbatim>\<open>postgres/repositories/events.go\<close>: applying the effects of a received event in one transaction,
  and recording a failure in another. The transaction locks the inbox entry, then attempt, payment
  and order together, and writes only rows it has locked, so it is given here as one step over the
  state in which the aggregate's lock was granted: what others commit before that is in that state,
  and nothing they do later touches a row the step reads. The database clock is \<open>now\<close>, which
  does not advance inside a transaction.
\<close>

section \<open>Locking\<close>

definition entry_of_row :: "event_row \<Rightarrow> inbox_entry" where
  "entry_of_row r =
     \<lparr>ie_Event = \<lparr>event_ID = evt_ID r, event_Provider = evt_Provider r, event_ProviderEventID = evt_ProviderEventID r,
        event_Type = evt_EventType r, event_Kind = [], event_RawPayload = evt_RawPayload r, event_Payload = evt_Payload r,
        event_Status = evt_Status r, event_ReceivedAt = UTC (evt_ReceivedAt r)\<rparr>,
      ie_Attempts = evt_Attempts r, ie_Status = evt_Status r\<rparr>"

definition lockEntry :: "fault \<Rightarrow> string \<Rightarrow> inbox_entry stmt" where
  "lockEntry f eventID w =
     (case in_tx f (LockWebhookEvent eventID) w of
        Inl e \<Rightarrow> Inl (wrap ''lock webhook event'' e)
      | Inr (None, _) \<Rightarrow> Inl (Errorf [W (Sentinel ErrAggregateNotFound), T '': webhook event '', T eventID])
      | Inr (Some row, w') \<Rightarrow> Inr (entry_of_row row, w'))"

definition aggregate_of_row :: "aggregate_row \<Rightarrow> aggregate" where
  "aggregate_of_row r =
     \<lparr>ag_OrderID = agg_OrderID r, ag_OrderStatus = agg_OrderStatus r, ag_PaymentID = agg_PaymentID r,
      ag_PaymentStatus = agg_PaymentStatus r, ag_Provider = agg_Provider r, ag_Amount = agg_Amount r,
      ag_Currency = agg_Currency r, ag_AttemptID = agg_AttemptID r, ag_AttemptStatus = agg_AttemptStatus r,
      ag_SessionID = (case agg_SessionID r of None \<Rightarrow> [] | Some s \<Rightarrow> s)\<rparr>"

definition lockAggregate :: "fault \<Rightarrow> inbox_entry \<Rightarrow> 'x resolver \<Rightarrow> (aggregate \<times> 'x) stmt" where
  "lockAggregate f entry resolve w =
     (case resolve entry of
        Inl e \<Rightarrow> Inl e
      | Inr (ref, x) \<Rightarrow>
          (case in_tx f (LockPaymentAggregate (rf_AttemptID ref) (rf_PaymentID ref) (rf_OrderID ref)) w of
             Inl e \<Rightarrow> Inl (wrap ''lock payment aggregate'' e)
           | Inr (None, _) \<Rightarrow> Inl (Errorf [W (Sentinel ErrReferenceMismatch), T '': attempt '', T (rf_AttemptID ref),
               T '', payment '', T (rf_PaymentID ref), T '', order '', T (rf_OrderID ref)])
           | Inr (Some row, w') \<Rightarrow> Inr ((aggregate_of_row row, x), w')))"

section \<open>Writing the effect\<close>

text \<open>One conditional transition: an error of the server, or a row count other than one, ends the
  transaction.\<close>

definition move_one :: "string \<Rightarrow> string \<Rightarrow> string \<Rightarrow> nat stmt \<Rightarrow> unit stmt" where
  "move_one what subject goal s w =
     (case s w of
        Inl e \<Rightarrow> Inl (wrap what e)
      | Inr (n, w') \<Rightarrow>
          if n \<noteq> 1 then Inl (Errorf [W (Sentinel ErrInvariantViolated), T '': '', T subject, T '' to '', T goal,
                                    T '' matched '', T (itoa (int n)), T '' rows''])
          else Inr ((), w'))"

text \<open>Run a transition only when the effect asks for it.\<close>

definition when_asked :: "bool \<Rightarrow> unit stmt \<Rightarrow> unit stmt" where
  "when_asked b s w = (if b then s w else Inr ((), w))"

definition applyEffect :: "faults \<Rightarrow> instant \<Rightarrow> aggregate \<Rightarrow> effect \<Rightarrow> bool stmt" where
  "applyEffect fs now a e w =
     (case when_asked (ef_AttemptStatus e \<noteq> [])
          (move_one ''transition payment attempt'' (''attempt '' @ ag_AttemptID a) (ef_AttemptStatus e)
            (in_tx (fs 3) (TransitionPaymentAttempt now (ef_AttemptStatus e) (ag_AttemptID a)))) w of
        Inl err \<Rightarrow> Inl err
      | Inr (_, w1) \<Rightarrow>
     (case when_asked (ef_PaymentStatus e \<noteq> [])
          (move_one ''transition payment'' (''payment '' @ ag_PaymentID a) (ef_PaymentStatus e)
            (in_tx (fs 4) (TransitionPayment now (ef_PaymentStatus e) (ag_PaymentID a)))) w1 of
        Inl err \<Rightarrow> Inl err
      | Inr (_, w2) \<Rightarrow>
     (case when_asked (ef_OrderPaid e)
          (move_one ''mark order paid'' (''order '' @ ag_OrderID a) ''paid''
            (in_tx (fs 5) (MarkOrderPaid now (ag_OrderID a)))) w2 of
        Inl err \<Rightarrow> Inl err
      | Inr (_, w3) \<Rightarrow>
          Inr (ef_AttemptStatus e \<noteq> [] \<or> ef_PaymentStatus e \<noteq> [] \<or> ef_OrderPaid e, w3))))"

definition nullableText :: "string \<Rightarrow> string option" where
  "nullableText v = (if v = [] then None else Some (Truncate v (int MaxLength)))"

section \<open>Process\<close>

text \<open>What happens between \<^verbatim>\<open>BEGIN\<close> and \<^verbatim>\<open>COMMIT\<close> for an entry that is still open.\<close>

definition process_open ::
  "faults \<Rightarrow> instant \<Rightarrow> string \<Rightarrow> inbox_entry \<Rightarrow> 'x resolver \<Rightarrow> 'x decider \<Rightarrow>
   (process_result \<times> aggregate \<times> effect) stmt" where
  "process_open fs now eventID entry resolve decide w =
     (case lockAggregate (fs 2) entry resolve w of
        Inl e \<Rightarrow> Inl e
      | Inr ((a, x), w1) \<Rightarrow>
     (case decide x entry a of
        Inl e \<Rightarrow> Inl e
      | Inr eff \<Rightarrow>
     (case applyEffect fs now a eff w1 of
        Inl e \<Rightarrow> Inl e
      | Inr (applied, w2) \<Rightarrow>
     (case in_tx (fs 6) (MarkWebhookEventProcessed now (nullableText (ef_Note eff)) eventID) w2 of
        Inl e \<Rightarrow> Inl (wrap ''mark webhook event processed'' e)
      | Inr (_, w3) \<Rightarrow> Inr ((\<lparr>pr_Applied = applied, pr_Note = ef_Note eff\<rparr>, a, eff), w3)))))"

definition EventRepository_Process ::
  "faults \<Rightarrow> instant \<Rightarrow> database \<Rightarrow> string \<Rightarrow> 'x resolver \<Rightarrow> 'x decider \<Rightarrow>
   database \<times> process_result result \<times> (aggregate \<times> effect) option" where
  "EventRepository_Process fs now db eventID resolve decide =
     (case begin_tx (fs 0) of
        Some e \<Rightarrow> (db, Inl (wrap ''begin consumer transaction'' e), None)
      | None \<Rightarrow>
     (case lockEntry (fs 1) eventID db of
        Inl e \<Rightarrow> (db, Inl e, None)
      | Inr (entry, w) \<Rightarrow>
          if ie_Status entry = InboxProcessed
          then (db, Inr \<lparr>pr_Applied = False, pr_Note = ''event was already processed''\<rparr>, None)
          else
     (case process_open fs now eventID entry resolve decide w of
        Inl e \<Rightarrow> (db, Inl e, None)
      | Inr ((res, a, eff), w') \<Rightarrow>
     (case commit_tx (fs 7) db w' of
        (db', Some e) \<Rightarrow> (db', Inl (wrap ''commit consumer transaction'' e), Some (a, eff))
      | (db', None) \<Rightarrow> (db', Inr res, Some (a, eff))))))"

section \<open>Recording a failure\<close>

text \<open>A cause without text is stored as an unspecified failure.\<close>

definition failure_text :: "goerr option \<Rightarrow> string option" where
  "failure_text cause = (case errorText cause of None \<Rightarrow> Some ''unspecified failure'' | Some t \<Rightarrow> Some t)"

definition EventRepository_RecordFailure ::
  "fault \<Rightarrow> instant \<Rightarrow> database \<Rightarrow> string \<Rightarrow> goerr \<Rightarrow> bool \<Rightarrow> int \<Rightarrow> database \<times> (int \<times> bool) result" where
  "EventRepository_RecordFailure f now db eventID cause terminal maxAttempts =
     (case autocommit f (RecordWebhookEventFailure now terminal (int32 maxAttempts) (failure_text (Some cause)) eventID) db of
        (db', Inl e) \<Rightarrow> (db', Inl (wrap ''record webhook event failure'' e))
      | (db', Inr None) \<Rightarrow> (db', Inr (0, True))
      | (db', Inr (Some (attempts, failed))) \<Rightarrow> (db', Inr (attempts, failed)))"

definition EventRepository_Backlog :: "fault \<Rightarrow> instant \<Rightarrow> database \<Rightarrow> (nat \<times> nat \<times> duration) result" where
  "EventRepository_Backlog f now db =
     (case autocommit f (WebhookInboxBacklog now) db of
        (_, Inl e) \<Rightarrow> Inl (wrap ''read inbox backlog'' e) | (_, Inr r) \<Rightarrow> Inr r)"


section \<open>What the transaction does\<close>

text \<open>The state after an effect was written: the rows the aggregate names, and the inbox entry.\<close>

definition after_effect :: "instant \<Rightarrow> string \<Rightarrow> aggregate \<Rightarrow> effect \<Rightarrow> database \<Rightarrow> database" where
  "after_effect now eventID a e db = db
     \<lparr>payment_attempts := update_where (\<lambda>r. ef_AttemptStatus e \<noteq> [] \<and> att_ID r = ag_AttemptID a)
        (\<lambda>r. r\<lparr>att_Status := ef_AttemptStatus e, att_UpdatedAt := now\<rparr>) (payment_attempts db),
      payments := update_where (\<lambda>r. ef_PaymentStatus e \<noteq> [] \<and> pay_ID r = ag_PaymentID a)
        (\<lambda>r. r\<lparr>pay_Status := ef_PaymentStatus e, pay_UpdatedAt := now\<rparr>) (payments db),
      orders := update_where (\<lambda>r. ef_OrderPaid e \<and> ord_ID r = ag_OrderID a)
        (\<lambda>r. r\<lparr>ord_Status := OrderStatusPaid, ord_UpdatedAt := now\<rparr>) (orders db),
      webhook_events := update_where (\<lambda>r. evt_ID r = eventID)
        (\<lambda>r. r\<lparr>evt_Status := InboxProcessed, evt_ProcessedAt := Some now, evt_Attempts := evt_Attempts r + 1,
               evt_LastError := nullableText (ef_Note e), evt_UpdatedAt := now\<rparr>) (webhook_events db)\<rparr>"

text \<open>A conditional update of one row found by its key moves that row, and only that one.\<close>

lemma update_where_one:
  assumes "unique_key key t" and "affected (\<lambda>r. key r = k \<and> q r) t = 1"
  shows "update_where (\<lambda>r. key r = k \<and> q r) f t = update_where (\<lambda>r. key r = k) f t"
proof -
  from assms(2) have "affected (\<lambda>r. key r = k \<and> q r) t \<noteq> 0" by simp
  then obtain r where r: "r \<in> set t" "key r = k" "q r" unfolding affected_0_iff by blast
  then have "q r'" if "r' \<in> set t" "key r' = k" for r'
    using unique_keyD [OF assms(1) that(1) r(1)] that by simp
  then show ?thesis by (auto simp: update_where_def)
qed

lemma update_where_False [simp]: "update_where (\<lambda>r. False) f t = t"
  by (rule update_where_none) simp

lemma move_one_Inr: "move_one what sub goal s w = Inr (u, w') \<longleftrightarrow> s w = Inr (1, w')"
  by (auto simp: move_one_def split: sum.splits prod.splits)

lemma when_asked_Inr:
  "when_asked b s w = Inr (u, w') \<longleftrightarrow> (if b then s w = Inr ((), w') else w' = w)"
  by (auto simp: when_asked_def)

lemma when_asked_move_one_Inr:
  "when_asked b (move_one what sub goal (in_tx f s)) w = Inr (u, w') \<longleftrightarrow>
     (if b then f = NoFault \<and> s w = Inr (1, w') else w' = w)"
  by (simp add: when_asked_Inr move_one_Inr in_tx_Inr)

lemma attempt_moved:
  assumes "schema_ok w" and "TransitionPaymentAttempt now st i w = Inr (1, w')"
  shows "w' = w\<lparr>payment_attempts := update_where (\<lambda>r. att_ID r = i)
      (\<lambda>r. r\<lparr>att_Status := st, att_UpdatedAt := now\<rparr>) (payment_attempts w)\<rparr>"
  using assms(2) update_where_one [OF schema_okD(5) [OF assms(1)]]
  by (auto simp: TransitionPaymentAttempt_def Let_def exec_write_Inr)

lemma payment_moved:
  assumes "schema_ok w" and "TransitionPayment now st i w = Inr (1, w')"
  shows "w' = w\<lparr>payments := update_where (\<lambda>r. pay_ID r = i)
      (\<lambda>r. r\<lparr>pay_Status := st, pay_UpdatedAt := now\<rparr>) (payments w)\<rparr>"
  using assms(2) update_where_one [OF schema_okD(3) [OF assms(1)]]
  by (auto simp: TransitionPayment_def Let_def exec_write_Inr)

lemma order_moved:
  assumes "schema_ok w" and "MarkOrderPaid now i w = Inr (1, w')"
  shows "w' = w\<lparr>orders := update_where (\<lambda>r. ord_ID r = i)
      (\<lambda>r. r\<lparr>ord_Status := OrderStatusPaid, ord_UpdatedAt := now\<rparr>) (orders w)\<rparr>"
  using assms(2) update_where_one [OF schema_okD(1) [OF assms(1)]]
  by (auto simp: MarkOrderPaid_def Let_def exec_write_Inr)

text \<open>The three conditional transitions in sequence, when all of them succeed.\<close>

lemma applyEffect_steps:
  assumes "applyEffect fs now a e w = Inr (b, w')"
  obtains w1 w2 where
    "if ef_AttemptStatus e \<noteq> [] then TransitionPaymentAttempt now (ef_AttemptStatus e) (ag_AttemptID a) w = Inr (1, w1)
     else w1 = w"
    "if ef_PaymentStatus e \<noteq> [] then TransitionPayment now (ef_PaymentStatus e) (ag_PaymentID a) w1 = Inr (1, w2)
     else w2 = w1"
    "if ef_OrderPaid e then MarkOrderPaid now (ag_OrderID a) w2 = Inr (1, w') else w' = w2"
    "b \<longleftrightarrow> ef_AttemptStatus e \<noteq> [] \<or> ef_PaymentStatus e \<noteq> [] \<or> ef_OrderPaid e"
proof -
  from assms obtain u1 w1 where 1: "when_asked (ef_AttemptStatus e \<noteq> [])
      (move_one ''transition payment attempt'' (''attempt '' @ ag_AttemptID a) (ef_AttemptStatus e)
        (in_tx (fs 3) (TransitionPaymentAttempt now (ef_AttemptStatus e) (ag_AttemptID a)))) w = Inr (u1, w1)"
    unfolding applyEffect_def by (auto split: sum.splits prod.splits)
  from assms 1 obtain u2 w2 where 2: "when_asked (ef_PaymentStatus e \<noteq> [])
      (move_one ''transition payment'' (''payment '' @ ag_PaymentID a) (ef_PaymentStatus e)
        (in_tx (fs 4) (TransitionPayment now (ef_PaymentStatus e) (ag_PaymentID a)))) w1 = Inr (u2, w2)"
    unfolding applyEffect_def by (auto split: sum.splits prod.splits)
  from assms 1 2 obtain u3 w3 where 3: "when_asked (ef_OrderPaid e)
      (move_one ''mark order paid'' (''order '' @ ag_OrderID a) ''paid''
        (in_tx (fs 5) (MarkOrderPaid now (ag_OrderID a)))) w2 = Inr (u3, w3)"
    unfolding applyEffect_def by (auto split: sum.splits prod.splits)
  from assms 1 2 3 have "w3 = w'" "b = (ef_AttemptStatus e \<noteq> [] \<or> ef_PaymentStatus e \<noteq> [] \<or> ef_OrderPaid e)"
    by (simp_all add: applyEffect_def)
  with 1 2 3 show thesis by (intro that [of w1 w2]) (simp_all add: when_asked_move_one_Inr split: if_splits)
qed

lemma applyEffect_Inr:
  assumes "schema_ok w" and "applyEffect fs now a e w = Inr (b, w')"
  shows "schema_ok w' \<and> evolves w w' \<and> webhook_events w' = webhook_events w \<and> outbox_events w' = outbox_events w \<and>
    (b \<longleftrightarrow> ef_AttemptStatus e \<noteq> [] \<or> ef_PaymentStatus e \<noteq> [] \<or> ef_OrderPaid e) \<and>
    payment_attempts w' = update_where (\<lambda>r. ef_AttemptStatus e \<noteq> [] \<and> att_ID r = ag_AttemptID a)
        (\<lambda>r. r\<lparr>att_Status := ef_AttemptStatus e, att_UpdatedAt := now\<rparr>) (payment_attempts w) \<and>
    payments w' = update_where (\<lambda>r. ef_PaymentStatus e \<noteq> [] \<and> pay_ID r = ag_PaymentID a)
        (\<lambda>r. r\<lparr>pay_Status := ef_PaymentStatus e, pay_UpdatedAt := now\<rparr>) (payments w) \<and>
    orders w' = update_where (\<lambda>r. ef_OrderPaid e \<and> ord_ID r = ag_OrderID a)
        (\<lambda>r. r\<lparr>ord_Status := OrderStatusPaid, ord_UpdatedAt := now\<rparr>) (orders w)"
proof -
  from assms(2) obtain w1 w2 where
      1: "if ef_AttemptStatus e \<noteq> [] then TransitionPaymentAttempt now (ef_AttemptStatus e) (ag_AttemptID a) w = Inr (1, w1)
          else w1 = w"
    and 2: "if ef_PaymentStatus e \<noteq> [] then TransitionPayment now (ef_PaymentStatus e) (ag_PaymentID a) w1 = Inr (1, w2)
          else w2 = w1"
    and 3: "if ef_OrderPaid e then MarkOrderPaid now (ag_OrderID a) w2 = Inr (1, w') else w' = w2"
    and b: "b \<longleftrightarrow> ef_AttemptStatus e \<noteq> [] \<or> ef_PaymentStatus e \<noteq> [] \<or> ef_OrderPaid e"
    by (rule applyEffect_steps)
  have s1: "schema_ok w1 \<and> evolves w w1"
    using 1 assms(1) safe_stmtD [OF safe_TransitionPaymentAttempt] by (auto split: if_splits)
  have s2: "schema_ok w2 \<and> evolves w1 w2"
    using 2 s1 safe_stmtD [OF safe_TransitionPayment] by (auto split: if_splits)
  have s3: "schema_ok w' \<and> evolves w2 w'"
    using 3 s2 safe_stmtD [OF safe_MarkOrderPaid] by (auto split: if_splits)
  have "evolves w w'" using s1 s2 s3 by (blast intro: evolves_trans)
  moreover have "w1 = w\<lparr>payment_attempts := update_where (\<lambda>r. ef_AttemptStatus e \<noteq> [] \<and> att_ID r = ag_AttemptID a)
      (\<lambda>r. r\<lparr>att_Status := ef_AttemptStatus e, att_UpdatedAt := now\<rparr>) (payment_attempts w)\<rparr>"
    using 1 attempt_moved [OF assms(1)] by (simp split: if_splits)
  moreover have "w2 = w1\<lparr>payments := update_where (\<lambda>r. ef_PaymentStatus e \<noteq> [] \<and> pay_ID r = ag_PaymentID a)
      (\<lambda>r. r\<lparr>pay_Status := ef_PaymentStatus e, pay_UpdatedAt := now\<rparr>) (payments w1)\<rparr>"
    using 2 s1 payment_moved [of w1] by (simp split: if_splits)
  moreover have "w' = w2\<lparr>orders := update_where (\<lambda>r. ef_OrderPaid e \<and> ord_ID r = ag_OrderID a)
      (\<lambda>r. r\<lparr>ord_Status := OrderStatusPaid, ord_UpdatedAt := now\<rparr>) (orders w2)\<rparr>"
    using 3 s2 order_moved [of w2] by (simp split: if_splits)
  ultimately show ?thesis using b s3 by simp
qed

lemma process_open_Inr:
  assumes "schema_ok w" and "process_open fs now i entry rs dc w = Inr ((res, a, eff), w')"
    and "\<exists>r \<in> set (webhook_events w). evt_ID r = i \<and> evt_Status r \<noteq> InboxProcessed"
  shows "schema_ok w' \<and> evolves w w' \<and> w' = after_effect now i a eff w \<and>
    (\<exists>ref x row. rs entry = Inr (ref, x) \<and> dc x entry a = Inr eff \<and> a = aggregate_of_row row \<and>
       LockPaymentAggregate (rf_AttemptID ref) (rf_PaymentID ref) (rf_OrderID ref) w = Inr (Some row, w)) \<and>
    res = \<lparr>pr_Applied = (ef_AttemptStatus eff \<noteq> [] \<or> ef_PaymentStatus eff \<noteq> [] \<or> ef_OrderPaid eff),
           pr_Note = ef_Note eff\<rparr>"
proof -
  from assms(2) obtain ref x row w1 b w2 n where
      r: "rs entry = Inr (ref, x)" "dc x entry a = Inr eff" "a = aggregate_of_row row"
    and l: "LockPaymentAggregate (rf_AttemptID ref) (rf_PaymentID ref) (rf_OrderID ref) w = Inr (Some row, w1)"
    and ap: "applyEffect fs now a eff w1 = Inr (b, w2)"
    and m: "MarkWebhookEventProcessed now (nullableText (ef_Note eff)) i w2 = Inr (n, w')"
    and res: "res = \<lparr>pr_Applied = b, pr_Note = ef_Note eff\<rparr>"
    by (auto simp: process_open_def lockAggregate_def in_tx_Inr split: sum.splits prod.splits option.splits)
  have [simp]: "w1 = w" using l by (rule LockPaymentAggregate_Some)
  note eff = applyEffect_Inr [OF assms(1) ap [simplified]]
  from safe_stmtD [OF safe_MarkWebhookEventProcessed _ m] eff
  have s: "schema_ok w'" "evolves w w'" by (auto intro: evolves_trans)
  let ?q = "\<lambda>r. evt_Status r \<noteq> InboxProcessed"
  obtain r where "r \<in> set (webhook_events w)" "evt_ID r = i" "?q r" using assms(3) by blast
  then have "affected (\<lambda>r. evt_ID r = i \<and> ?q r) (webhook_events w) = 1"
    using schema_okD(8) [OF assms(1)] by (intro affected_1 [of evt_ID _ _ i r]) auto
  with m update_where_one [OF schema_okD(8), of w2 i ?q] eff
  have "w' = after_effect now i a eff w"
    by (auto simp: MarkWebhookEventProcessed_def Let_def exec_write_Inr after_effect_def)
  with s r l res eff show ?thesis by auto
qed


text \<open>The two ways the transaction can leave the tables: as they were, or with the whole effect.\<close>

lemma Process_cases:
  assumes "schema_ok db" and "EventRepository_Process fs now db i rs dc = (db', r, cap)"
  obtains (unchanged) "db' = db" "\<And>res. r = Inr res \<Longrightarrow>
      (\<exists>e \<in> set (webhook_events db). evt_ID e = i \<and> evt_Status e = InboxProcessed) \<and> cap = None \<and>
      res = \<lparr>pr_Applied = False, pr_Note = ''event was already processed''\<rparr>"
  | (effect) e ref x row a eff where "e \<in> set (webhook_events db)" "evt_ID e = i" "evt_Status e \<noteq> InboxProcessed"
      "rs (entry_of_row e) = Inr (ref, x)" "a = aggregate_of_row row" "dc x (entry_of_row e) a = Inr eff"
      "LockPaymentAggregate (rf_AttemptID ref) (rf_PaymentID ref) (rf_OrderID ref) db = Inr (Some row, db)"
      "db' = after_effect now i a eff db" "schema_ok db'" "evolves db db'" "cap = Some (a, eff)"
      "\<And>res. r = Inr res \<Longrightarrow> res = \<lparr>pr_Applied = (ef_AttemptStatus eff \<noteq> [] \<or> ef_PaymentStatus eff \<noteq> [] \<or> ef_OrderPaid eff),
           pr_Note = ef_Note eff\<rparr>"
proof (cases "begin_tx (fs 0) = None \<and> (\<exists>e \<in> set (webhook_events db). lockEntry (fs 1) i db = Inr (entry_of_row e, db) \<and>
    evt_ID e = i \<and> evt_Status e \<noteq> InboxProcessed)")
  case False
  have "lockEntry (fs 1) i db = Inr (en, w) \<Longrightarrow>
      \<exists>e \<in> set (webhook_events db). en = entry_of_row e \<and> w = db \<and> evt_ID e = i" for en w
    by (auto simp: lockEntry_def in_tx_Inr LockWebhookEvent_def split: sum.splits option.splits dest!: find_SomeD)
  with False assms(2) show thesis
    by (intro unchanged) (fastforce simp: EventRepository_Process_def entry_of_row_def split: option.splits sum.splits if_splits)+
next
  case True
  then obtain e where e: "e \<in> set (webhook_events db)" "lockEntry (fs 1) i db = Inr (entry_of_row e, db)" "evt_ID e = i"
    "evt_Status e \<noteq> InboxProcessed" and b: "begin_tx (fs 0) = None" by blast
  have st: "ie_Status (entry_of_row e) \<noteq> InboxProcessed" using e by (simp add: entry_of_row_def)
  show thesis
  proof (cases "process_open fs now i (entry_of_row e) rs dc db")
    case (Inl err)
    with b e st assms(2) show thesis by (intro unchanged) (simp_all add: EventRepository_Process_def)
  next
    case (Inr x)
    then obtain res a eff w where po: "process_open fs now i (entry_of_row e) rs dc db = Inr ((res, a, eff), w)"
      by (cases x) auto
    note spec = process_open_Inr [OF assms(1) po]
    show thesis
    proof (cases "fst (commit_tx (fs 7) db w) = w")
      case False
      then have "\<exists>err. commit_tx (fs 7) db w = (db, Some err)" by (cases "fs 7") (simp_all add: commit_tx_def)
      with b e st po assms(2) show thesis by (intro unchanged) (auto simp: EventRepository_Process_def)
    next
      case True
      with b e st po assms(2) have "db' = w" "cap = Some (a, eff)" "r = Inr res \<or> (\<exists>err. r = Inl err)"
        by (auto simp: EventRepository_Process_def split: prod.splits option.splits)
      moreover from spec e obtain ref x row where "rs (entry_of_row e) = Inr (ref, x)" "dc x (entry_of_row e) a = Inr eff"
        "a = aggregate_of_row row"
        "LockPaymentAggregate (rf_AttemptID ref) (rf_PaymentID ref) (rf_OrderID ref) db = Inr (Some row, db)" by blast
      ultimately show thesis using spec e
        by (intro effect [where e = e and ref = ref and x = x and row = row and a = a and eff = eff]) auto
    qed
  qed
qed

lemma Process_safe:
  assumes "schema_ok db" and "EventRepository_Process fs now db i rs dc = (db', r, cap)"
  shows "schema_ok db' \<and> evolves db db'"
  using assms by (cases rule: Process_cases [OF assms]) auto

lemma RecordFailure_safe:
  assumes "schema_ok db" and "EventRepository_RecordFailure f now db i c t mx = (db', r)"
  shows "schema_ok db' \<and> evolves db db'"
  using assms(2) safe_autocommit [OF safe_RecordWebhookEventFailure assms(1)]
  by (fastforce simp: EventRepository_RecordFailure_def split: prod.splits sum.splits option.splits)


section \<open>The port's laws\<close>

definition event_status :: "database \<Rightarrow> string \<Rightarrow> string option" where
  "event_status db i = map_option evt_Status (find (\<lambda>r. evt_ID r = i) (webhook_events db))"

lemma event_status_iff:
  assumes "schema_ok db"
  shows "event_status db i = Some st \<longleftrightarrow> (\<exists>e \<in> set (webhook_events db). evt_ID e = i \<and> evt_Status e = st)"
proof -
  have "find (\<lambda>r. evt_ID r = i) (webhook_events db) = Some e" if "e \<in> set (webhook_events db)" "evt_ID e = i" for e
    using that by (intro find_unique [OF schema_okD(8) [OF assms]]) auto
  then show ?thesis by (auto simp: event_status_def dest!: find_SomeD)
qed

lemma event_status_after_effect:
  assumes "e \<in> set (webhook_events db)" and "evt_ID e = i" and "schema_ok (after_effect now i a eff db)"
  shows "event_status (after_effect now i a eff db) i = Some InboxProcessed"
proof -
  let ?f = "\<lambda>r. r\<lparr>evt_Status := InboxProcessed, evt_ProcessedAt := Some now, evt_Attempts := evt_Attempts r + 1,
               evt_LastError := nullableText (ef_Note eff), evt_UpdatedAt := now\<rparr>"
  have "?f e \<in> set (webhook_events (after_effect now i a eff db))"
    using assms(1,2) by (auto simp: after_effect_def set_update_where)
  with assms(2) show ?thesis unfolding event_status_iff [OF assms(3)] by (intro bexI [of _ "?f e"]) auto
qed

lemma RecordFailure_Inr:
  assumes "schema_ok db" and "EventRepository_RecordFailure f now db i c t mx = (db', Inr (n, b))"
  shows "0 \<le> n \<and> n < 2 ^ 31 \<and> (if n = 0 then event_status db' i = None
    else (b \<longleftrightarrow> event_status db' i = Some InboxFailed) \<and> (t \<or> int32 mx \<le> n \<longrightarrow> b))"
proof -
  let ?s = "RecordWebhookEventFailure now t (int32 mx) (failure_text (Some c)) i"
  from assms(2) obtain x where x: "?s db = Inr (x, db')" "case x of None \<Rightarrow> n = 0 \<and> b | Some (m, g) \<Rightarrow> n = m \<and> b = g"
    by (auto simp: EventRepository_RecordFailure_def autocommit_def split: prod.splits sum.splits option.splits fault.splits)
  show ?thesis
  proof (cases "find (\<lambda>r. evt_ID r = i) (webhook_events db')")
    case None
    with x show ?thesis
      by (auto simp: RecordWebhookEventFailure_def Let_def exec_write_Inr event_status_def)
  next
    case (Some e)
    with x have n: "n = evt_Attempts e" "b \<longleftrightarrow> evt_Status e = InboxFailed"
      by (auto simp: RecordWebhookEventFailure_def Let_def exec_write_Inr)
    let ?f = "\<lambda>r. r\<lparr>evt_Attempts := evt_Attempts r + 1,
                   evt_Status := (if t \<or> int32 mx \<le> evt_Attempts r + 1 then InboxFailed else evt_Status r),
                   evt_LastError := failure_text (Some c), evt_UpdatedAt := now\<rparr>"
    from x(1) have t: "schema_ok db'" "webhook_events db' = update_where (\<lambda>r. evt_ID r = i) ?f (webhook_events db)"
      by (auto simp: RecordWebhookEventFailure_def Let_def exec_write_Inr)
    from find_SomeD [OF Some] have e: "e \<in> set (webhook_events db')" "evt_ID e = i" by auto
    from e(1) obtain e0 where e0: "e0 \<in> set (webhook_events db)" "e = (if evt_ID e0 = i then ?f e0 else e0)"
      unfolding t(2) by (rule in_update_whereE)
    with e(2) have e1: "e = ?f e0" by (simp split: if_splits)
    have "event_check e0" using assms(1) e0(1) by (auto simp: schema_ok_def events_ok_def list_all_iff)
    moreover have "event_check e" using t(1) e(1) by (auto simp: schema_ok_def events_ok_def list_all_iff)
    ultimately have "0 < n" "n < 2 ^ 31" by (simp_all add: n event_check_def int4_def e1)
    moreover have "t \<or> int32 mx \<le> n \<longrightarrow> b" by (simp add: n e1)
    ultimately show ?thesis using n Some by (simp add: event_status_def)
  qed
qed

interpretation event_store: event_repository
  "EventRepository_Process fs now" "EventRepository_RecordFailure f now'"
  "\<lambda>s i. event_status s i = Some InboxProcessed" "\<lambda>s i. event_status s i = Some InboxFailed"
  "\<lambda>s i. event_status s i = None" schema_ok
  for fs now f now'
proof
  fix s s' i res cap c t mx n b and rs :: "session_outcome resolver" and dc :: "session_outcome decider" and r q
  show "event_status s' i = Some InboxProcessed"
    if "schema_ok s" "EventRepository_Process fs now s i rs dc = (s', Inr res, cap)"
    using that(1) by (cases rule: Process_cases [OF that]) (auto simp: event_status_iff event_status_after_effect)
  show "schema_ok s'" if "schema_ok s" "EventRepository_Process fs now s i rs dc = (s', r, cap)"
    using Process_safe [OF that] by blast
  show "schema_ok s'" if "schema_ok s" "EventRepository_RecordFailure f now' s i c t mx = (s', q)"
    using RecordFailure_safe [OF that] by blast
  assume a: "schema_ok s" "2 \<le> mx" "EventRepository_RecordFailure f now' s i c t mx = (s', Inr (n, b))"
  note RecordFailure_Inr [OF a(1,3)]
  moreover have "int32 mx = mx" if "mx \<le> n" "n < 2 ^ 31"
    using that a(2) by (intro int32_id) auto
  ultimately show "0 \<le> n \<and> (if n = 0 then event_status s' i = None
      else (b \<longleftrightarrow> event_status s' i = Some InboxFailed) \<and> (t \<or> mx \<le> n \<longrightarrow> b))"
    by (metis (no_types, lifting))
qed


end
