(* ===== verification/Ledger.thy ===== *)
theory Ledger
  imports Event_Repository
begin

text \<open>
  What the tables say about money, and that applying provider events keeps it consistent: an order
  is paid exactly when one of its payments succeeded, and a payment succeeded exactly when one of
  its attempts did. Under this invariant the row counts \<^verbatim>\<open>applyEffect\<close> checks are never off: the
  transition matrix and the conditional updates agree.
\<close>

section \<open>The books\<close>

definition paid_orders :: "database \<Rightarrow> string set" where
  "paid_orders db = set (map ord_ID (filter (\<lambda>r. ord_Status r = OrderStatusPaid) (orders db)))"

definition settled_orders :: "database \<Rightarrow> string set" where
  "settled_orders db = set (map pay_OrderID (filter (\<lambda>r. pay_Status r = PaymentStatusSucceeded) (payments db)))"

definition succeeded_payments :: "database \<Rightarrow> string set" where
  "succeeded_payments db = set (map pay_ID (filter (\<lambda>r. pay_Status r = PaymentStatusSucceeded) (payments db)))"

definition captured_payments :: "database \<Rightarrow> string set" where
  "captured_payments db = set (map att_PaymentID (filter (\<lambda>r. att_Status r = AttemptStatusSucceeded) (payment_attempts db)))"

definition ledger_ok :: "database \<Rightarrow> bool" where
  "ledger_ok db \<longleftrightarrow> (\<forall>r \<in> set (orders db). ord_Status r \<in> {OrderStatusPending, OrderStatusPaid}) \<and>
     paid_orders db = settled_orders db \<and> succeeded_payments db = captured_payments db"

lemmas books_defs = paid_orders_def settled_orders_def succeeded_payments_def captured_payments_def

text \<open>An operation that moves no money leaves all four sets alone.\<close>

definition quiet :: "database \<Rightarrow> database \<Rightarrow> bool" where
  "quiet db db' \<longleftrightarrow> paid_orders db' = paid_orders db \<and> settled_orders db' = settled_orders db \<and>
     succeeded_payments db' = succeeded_payments db \<and> captured_payments db' = captured_payments db \<and>
     ((\<forall>r \<in> set (orders db). ord_Status r \<in> {OrderStatusPending, OrderStatusPaid}) \<longrightarrow>
      (\<forall>r \<in> set (orders db'). ord_Status r \<in> {OrderStatusPending, OrderStatusPaid}))"

lemma quiet_refl [simp]: "quiet db db"
  by (simp add: quiet_def)

lemma quiet_trans: "quiet a b \<Longrightarrow> quiet b c \<Longrightarrow> quiet a c"
  unfolding quiet_def by (elim conjE, intro conjI) (simp only:, simp only:, simp only:, simp only:, blast)

lemma quiet_ledger: "quiet db db' \<Longrightarrow> ledger_ok db \<Longrightarrow> ledger_ok db'"
  by (simp add: quiet_def ledger_ok_def)

text \<open>Moving one row, found by its key, into a set it was not in.\<close>

lemma filter_move:
  assumes "unique_key key t" and "r0 \<in> set t" and "b \<Longrightarrow> \<not> p r0" and "k (f r0) = k r0"
  shows "set (map k (filter p (update_where (\<lambda>r. b \<and> key r = key r0) f t))) =
    (if b \<and> p (f r0) then insert (k r0) (set (map k (filter p t))) else set (map k (filter p t)))"
  using assms(1,2)
proof (induction t)
  case (Cons r t)
  show ?case
  proof (cases "r = r0")
    case True
    with Cons.prems(1) have "update_where (\<lambda>r. b \<and> key r = key r0) f t = t"
      by (intro update_where_none) (auto simp: image_iff)
    with True assms(3,4) show ?thesis by (cases b) auto
  next
    case False
    with Cons.prems have "r0 \<in> set t" "key r \<noteq> key r0" "unique_key key t" by (auto simp: image_iff)
    with Cons.IH show ?thesis by auto
  qed
qed simp

section \<open>Events and the books\<close>

text \<open>An open payment of an order leaves no room for another that succeeded, so its order is not
  paid.\<close>

lemma open_payment_order_pending:
  assumes "schema_ok db" and "ledger_ok db" and "p \<in> set (payments db)" and "\<not> paymentSettled (pay_Status p)"
    and "q \<in> set (orders db)" and "ord_ID q = pay_OrderID p"
  shows "ord_Status q = OrderStatusPending"
proof (rule ccontr)
  assume "ord_Status q \<noteq> OrderStatusPending"
  with assms(2,5) have "ord_ID q \<in> paid_orders db" by (auto simp: ledger_ok_def paid_orders_def)
  with assms(2) obtain p' where p': "p' \<in> set (payments db)" "pay_OrderID p' = ord_ID q" "pay_Status p' = PaymentStatusSucceeded"
    by (auto simp: ledger_ok_def settled_orders_def)
  moreover have "payment_active p" "payment_active p'"
    using assms(4) p'(3) not_settled_neq [of "pay_Status p"] by (auto simp: payment_active_def)
  ultimately have "p' = p" using unique_onD [OF schema_okD(4) [OF assms(1)] p'(1) assms(3)] assms(6) by simp
  with p' assms(4) show False by simp
qed

lemma open_payment_attempt:
  assumes "schema_ok db" and "ledger_ok db" and "p \<in> set (payments db)" and "\<not> paymentSettled (pay_Status p)"
    and "a \<in> set (payment_attempts db)" and "att_PaymentID a = pay_ID p"
  shows "att_Status a \<noteq> AttemptStatusSucceeded"
proof
  assume "att_Status a = AttemptStatusSucceeded"
  with assms(2,5,6) have "pay_ID p \<in> succeeded_payments db" by (force simp: ledger_ok_def captured_payments_def)
  then obtain p' where "p' \<in> set (payments db)" "pay_ID p' = pay_ID p" "pay_Status p' = PaymentStatusSucceeded"
    by (auto simp: succeeded_payments_def)
  moreover from this have "p' = p" using unique_keyD [OF schema_okD(3) [OF assms(1)] _ assms(3)] by blast
  ultimately show False using assms(4) by simp
qed

lemma after_effect_books:
  assumes "schema_ok db" and "ledger_ok db" and "LockPaymentAggregate aid pid oid db = Inr (Some row, db)"
    and "decideEffect x (aggregate_of_row row) pr = Inr eff"
    and "d = after_effect now i (aggregate_of_row row) eff db"
  shows "paid_orders d = (if ef_OrderPaid eff then insert oid (paid_orders db) else paid_orders db) \<and>
    settled_orders d = (if ef_OrderPaid eff then insert oid (settled_orders db) else settled_orders db) \<and>
    succeeded_payments d = (if ef_OrderPaid eff then insert pid (succeeded_payments db) else succeeded_payments db) \<and>
    captured_payments d = (if ef_OrderPaid eff then insert pid (captured_payments db) else captured_payments db)"
proof -
  from assms(3) obtain a p q where rows: "a \<in> set (payment_attempts db)" "p \<in> set (payments db)" "q \<in> set (orders db)"
    and ids: "att_ID a = aid" "pay_ID p = pid" "ord_ID q = oid" "att_PaymentID a = pid" "pay_OrderID p = oid"
    and agg: "ag_OrderID (aggregate_of_row row) = oid" "ag_PaymentID (aggregate_of_row row) = pid"
      "ag_AttemptID (aggregate_of_row row) = aid" "ag_PaymentStatus (aggregate_of_row row) = pay_Status p"
      "ag_AttemptStatus (aggregate_of_row row) = att_Status a"
    by (rule LockPaymentAggregate_Some) (auto simp: aggregate_of_row_def)
  note mv = decideEffect_moves [OF assms(4), unfolded agg]
  let ?d = "after_effect now i (aggregate_of_row row) eff db" and ?paid = "ef_OrderPaid eff"
  have pend: "?paid \<Longrightarrow> ord_Status q = OrderStatusPending"
    using mv open_payment_order_pending [OF assms(1,2) rows(2) _ rows(3)] ids by auto
  have open_p: "ef_PaymentStatus eff \<noteq> [] \<Longrightarrow> pay_Status p \<noteq> PaymentStatusSucceeded"
    and paid: "?paid \<longleftrightarrow> ef_PaymentStatus eff = PaymentStatusSucceeded"
    using mv by auto
  have open_a: "ef_AttemptStatus eff \<noteq> [] \<Longrightarrow> att_Status a \<noteq> AttemptStatusSucceeded" using mv by auto
  have "ef_PaymentStatus eff = PaymentStatusSucceeded \<Longrightarrow> \<not> paymentSettled (pay_Status p)"
    using mv by (auto simp: PaymentStatusSucceeded_def)
  with open_payment_attempt [OF assms(1,2) rows(2) _ rows(1)] ids mv
  have captured: "?paid \<longleftrightarrow> ef_AttemptStatus eff = AttemptStatusSucceeded" by blast
  have nonempty: "PaymentStatusSucceeded \<noteq> []" "AttemptStatusSucceeded \<noteq> []"
    by (simp_all add: PaymentStatusSucceeded_def AttemptStatusSucceeded_def)
  have "paid_orders ?d = (if ?paid then insert oid (paid_orders db) else paid_orders db)"
    using filter_move [OF schema_okD(1) [OF assms(1)] rows(3), where b = ?paid and k = ord_ID
        and f = "\<lambda>r. r\<lparr>ord_Status := OrderStatusPaid, ord_UpdatedAt := now\<rparr>" and p = "\<lambda>r. ord_Status r = OrderStatusPaid"] pend ids
    by (simp add: paid_orders_def after_effect_def agg)
  moreover have "settled_orders ?d = (if ?paid then insert oid (settled_orders db) else settled_orders db)"
    using filter_move [OF schema_okD(3) [OF assms(1)] rows(2), where b = "ef_PaymentStatus eff \<noteq> []" and k = pay_OrderID
        and f = "\<lambda>r. r\<lparr>pay_Status := ef_PaymentStatus eff, pay_UpdatedAt := now\<rparr>" and p = "\<lambda>r. pay_Status r = PaymentStatusSucceeded", OF open_p]
      ids paid nonempty
    by (simp add: settled_orders_def after_effect_def agg)
  moreover have "succeeded_payments ?d = (if ?paid then insert pid (succeeded_payments db) else succeeded_payments db)"
    using filter_move [OF schema_okD(3) [OF assms(1)] rows(2), where b = "ef_PaymentStatus eff \<noteq> []" and k = pay_ID
        and f = "\<lambda>r. r\<lparr>pay_Status := ef_PaymentStatus eff, pay_UpdatedAt := now\<rparr>" and p = "\<lambda>r. pay_Status r = PaymentStatusSucceeded", OF open_p]
      ids paid nonempty
    by (simp add: succeeded_payments_def after_effect_def agg)
  moreover have "captured_payments ?d = (if ?paid then insert pid (captured_payments db) else captured_payments db)"
    using filter_move [OF schema_okD(5) [OF assms(1)] rows(1), where b = "ef_AttemptStatus eff \<noteq> []" and k = att_PaymentID
        and f = "\<lambda>r. r\<lparr>att_Status := ef_AttemptStatus eff, att_UpdatedAt := now\<rparr>" and p = "\<lambda>r. att_Status r = AttemptStatusSucceeded", OF open_a]
      ids captured nonempty
    by (simp add: captured_payments_def after_effect_def agg)
  ultimately show ?thesis by (simp add: assms(5))
qed

lemma after_effect_ledger:
  assumes "schema_ok db" and "ledger_ok db" and "LockPaymentAggregate aid pid oid db = Inr (Some row, db)"
    and "decideEffect x (aggregate_of_row row) pr = Inr eff"
  shows "ledger_ok (after_effect now i (aggregate_of_row row) eff db)"
proof -
  let ?d = "after_effect now i (aggregate_of_row row) eff db"
  have "list_all (\<lambda>r. ord_Status r \<in> {OrderStatusPending, OrderStatusPaid}) (orders ?d)"
    unfolding after_effect_def using assms(2)
    by (simp, intro list_all_update_where) (auto simp: ledger_ok_def list_all_iff)
  with after_effect_books [OF assms refl] assms(2) show ?thesis
    unfolding list_all_iff by (simp add: ledger_ok_def)
qed

text \<open>The approved transitions find exactly one row each.\<close>

lemma effect_rows:
  assumes "schema_ok db" and "ledger_ok db" and "LockPaymentAggregate aid pid oid db = Inr (Some row, db)"
    and "decideEffect x (aggregate_of_row row) pr = Inr eff" and "schema_ok w"
  shows "ef_AttemptStatus eff \<noteq> [] \<Longrightarrow> payment_attempts w = payment_attempts db \<Longrightarrow>
      \<exists>w'. TransitionPaymentAttempt now (ef_AttemptStatus eff) (ag_AttemptID (aggregate_of_row row)) w = Inr (1, w') \<and>
        schema_ok w' \<and> payments w' = payments w \<and> orders w' = orders w"
    and "ef_PaymentStatus eff \<noteq> [] \<Longrightarrow> payments w = payments db \<Longrightarrow>
      \<exists>w'. TransitionPayment now (ef_PaymentStatus eff) (ag_PaymentID (aggregate_of_row row)) w = Inr (1, w') \<and>
        schema_ok w' \<and> orders w' = orders w"
    and "ef_OrderPaid eff \<Longrightarrow> orders w = orders db \<Longrightarrow>
      \<exists>w'. MarkOrderPaid now (ag_OrderID (aggregate_of_row row)) w = Inr (1, w')"
proof -
  from assms(3) obtain a p q where rows: "a \<in> set (payment_attempts db)" "p \<in> set (payments db)" "q \<in> set (orders db)"
    and ids: "att_ID a = aid" "pay_ID p = pid" "ord_ID q = oid" "att_PaymentID a = pid" "pay_OrderID p = oid"
    and agg: "ag_OrderID (aggregate_of_row row) = oid" "ag_PaymentID (aggregate_of_row row) = pid"
      "ag_AttemptID (aggregate_of_row row) = aid" "ag_PaymentStatus (aggregate_of_row row) = pay_Status p"
      "ag_AttemptStatus (aggregate_of_row row) = att_Status a"
    by (rule LockPaymentAggregate_Some) (auto simp: aggregate_of_row_def)
  note mv = decideEffect_moves [OF assms(4), unfolded agg]
  show "\<exists>w'. TransitionPaymentAttempt now (ef_AttemptStatus eff) (ag_AttemptID (aggregate_of_row row)) w = Inr (1, w') \<and>
        schema_ok w' \<and> payments w' = payments w \<and> orders w' = orders w"
    if "ef_AttemptStatus eff \<noteq> []" "payment_attempts w = payment_attempts db"
    using TransitionPaymentAttempt_ok [OF assms(5), of a aid "ef_AttemptStatus eff" now] that rows(1) ids(1) mv
      safe_stmtD [OF safe_TransitionPaymentAttempt assms(5)] by (fastforce simp: agg)
  show "\<exists>w'. TransitionPayment now (ef_PaymentStatus eff) (ag_PaymentID (aggregate_of_row row)) w = Inr (1, w') \<and>
        schema_ok w' \<and> orders w' = orders w"
    if "ef_PaymentStatus eff \<noteq> []" "payments w = payments db"
    using TransitionPayment_ok [OF assms(5), of p pid "ef_PaymentStatus eff" now] that rows(2) ids(2) mv
      safe_stmtD [OF safe_TransitionPayment assms(5)] by (fastforce simp: agg)
  show "\<exists>w'. MarkOrderPaid now (ag_OrderID (aggregate_of_row row)) w = Inr (1, w')"
    if "ef_OrderPaid eff" "orders w = orders db"
  proof -
    have "PaymentStatusSucceeded \<noteq> []" by (simp add: PaymentStatusSucceeded_def)
    with mv that(1) have "\<not> paymentSettled (pay_Status p)" by metis
    from open_payment_order_pending [OF assms(1,2) rows(2) this rows(3)] ids
    have "ord_Status q = OrderStatusPending" by simp
    with MarkOrderPaid_ok [OF assms(5), of q oid now] rows(3) ids(3) that(2) show ?thesis by (auto simp: agg)
  qed
qed

text \<open>A transition that finds its row can only fail by a fault of the server.\<close>

definition server_error :: "goerr \<Rightarrow> bool" where
  "server_error e \<longleftrightarrow> (\<exists>what t. e = wrap what (External t))"

lemma server_error_Is: "server_error e \<Longrightarrow> \<not> errors_Is s e"
  by (auto simp: server_error_def)

lemma move_one_found:
  "s w = Inr (1, w') \<Longrightarrow> (\<exists>e. move_one what sub goal (in_tx f s) w = Inl e \<and> server_error e \<and> f \<noteq> NoFault) \<or>
     move_one what sub goal (in_tx f s) w = Inr ((), w') \<and> f = NoFault"
  by (cases f) (auto simp: move_one_def in_tx_def server_error_def)

lemma when_asked_found:
  assumes "b \<Longrightarrow> \<exists>w'. s w = Inr (1, w') \<and> P w'" and "P w"
  shows "(\<exists>e. when_asked b (move_one what sub goal (in_tx f s)) w = Inl e \<and> server_error e \<and> f \<noteq> NoFault) \<or>
     (\<exists>w'. when_asked b (move_one what sub goal (in_tx f s)) w = Inr ((), w') \<and> P w')"
  using assms move_one_found [of s w _ what sub goal f] by (cases b) (force simp: when_asked_def)+

lemma applyEffect_found:
  assumes "schema_ok db" and "ledger_ok db" and "LockPaymentAggregate aid pid oid db = Inr (Some row, db)"
    and "decideEffect x (aggregate_of_row row) pr = Inr eff"
  shows "(\<exists>e. applyEffect fs now (aggregate_of_row row) eff db = Inl e \<and> server_error e \<and> fs \<noteq> no_faults) \<or>
         (\<exists>r. applyEffect fs now (aggregate_of_row row) eff db = Inr r)"
proof -
  let ?a = "aggregate_of_row row"
  note rows = effect_rows [OF assms]
  let ?s1 = "when_asked (ef_AttemptStatus eff \<noteq> []) (move_one ''transition payment attempt'' (''attempt '' @ ag_AttemptID ?a)
      (ef_AttemptStatus eff) (in_tx (fs 3) (TransitionPaymentAttempt now (ef_AttemptStatus eff) (ag_AttemptID ?a)))) db"
  have "(\<exists>e. ?s1 = Inl e \<and> server_error e \<and> fs 3 \<noteq> NoFault) \<or>
      (\<exists>w. ?s1 = Inr ((), w) \<and> schema_ok w \<and> payments w = payments db \<and> orders w = orders db)"
    by (rule when_asked_found) (use rows(1) [OF assms(1)] assms(1) in simp_all)
  then consider (e1) e where "?s1 = Inl e" "server_error e" "fs 3 \<noteq> NoFault"
    | (w1) w1 where "?s1 = Inr ((), w1)" "schema_ok w1" "payments w1 = payments db" "orders w1 = orders db" by blast
  then show ?thesis
  proof cases
    case w1
    let ?s2 = "when_asked (ef_PaymentStatus eff \<noteq> []) (move_one ''transition payment'' (''payment '' @ ag_PaymentID ?a)
      (ef_PaymentStatus eff) (in_tx (fs 4) (TransitionPayment now (ef_PaymentStatus eff) (ag_PaymentID ?a)))) w1"
    have "(\<exists>e. ?s2 = Inl e \<and> server_error e \<and> fs 4 \<noteq> NoFault) \<or>
        (\<exists>w. ?s2 = Inr ((), w) \<and> schema_ok w \<and> orders w = orders db)"
      by (rule when_asked_found) (use rows(2) [OF w1(2)] w1(2-4) in simp_all)
    then consider (e2) e where "?s2 = Inl e" "server_error e" "fs 4 \<noteq> NoFault"
      | (w2) w2 where "?s2 = Inr ((), w2)" "schema_ok w2" "orders w2 = orders db" by blast
    then show ?thesis
    proof cases
      case w2
      let ?s3 = "when_asked (ef_OrderPaid eff) (move_one ''mark order paid'' (''order '' @ ag_OrderID ?a) ''paid''
        (in_tx (fs 5) (MarkOrderPaid now (ag_OrderID ?a)))) w2"
      have "(\<exists>e. ?s3 = Inl e \<and> server_error e \<and> fs 5 \<noteq> NoFault) \<or> (\<exists>w. ?s3 = Inr ((), w) \<and> True)"
        by (rule when_asked_found) (use rows(3) [OF w2(2)] w2(3) in simp_all)
      then consider (e3) e where "?s3 = Inl e" "server_error e" "fs 5 \<noteq> NoFault" | (w3) w3 where "?s3 = Inr ((), w3)"
        by blast
      then show ?thesis by cases (use w1 w2 in \<open>auto simp: applyEffect_def\<close>)
    qed (use w1 in \<open>auto simp: applyEffect_def\<close>)
  qed (auto simp: applyEffect_def)
qed


section \<open>Processing with the use case's closures\<close>

lemma handle_decide_simp [simp]: "handle_decide pr x e a = decideEffect x a pr"
  by (simp add: handle_decide_def)

text \<open>Where an error of the transaction can come from, and that none of the sources is a violated
  invariant.\<close>

lemma LockPaymentAggregate_same: "LockPaymentAggregate a p q w = Inr (r, w') \<Longrightarrow> w' = w"
  by (auto simp: LockPaymentAggregate_def Let_def)

lemma lockAggregate_Inr:
  assumes "lockAggregate f en rs w = Inr ((a, x), w')"
  shows "\<exists>ref row. rs en = Inr (ref, x) \<and> a = aggregate_of_row row \<and> w' = w \<and>
      LockPaymentAggregate (rf_AttemptID ref) (rf_PaymentID ref) (rf_OrderID ref) w = Inr (Some row, w)"
  using assms by (auto simp: lockAggregate_def in_tx_Inr split: sum.splits prod.splits option.splits
      dest: LockPaymentAggregate_same)

lemma lockAggregate_Inl:
  assumes "lockAggregate f en (handle_resolve pr interp) w = Inl e" and "\<And>ev e. interp ev = Inl e \<Longrightarrow> \<not> errors_Is s e"
    and "s \<noteq> ErrReferenceMismatch"
  shows "\<not> errors_Is s e"
proof (cases "handle_resolve pr interp en")
  case (Inl e')
  with assms show ?thesis by (auto simp: lockAggregate_def handle_resolve_def split: if_splits sum.splits)
next
  case (Inr ref)
  moreover have "\<exists>r. LockPaymentAggregate (rf_AttemptID (fst ref)) (rf_PaymentID (fst ref)) (rf_OrderID (fst ref)) w = Inr r"
    by (simp add: LockPaymentAggregate_def Let_def)
  ultimately show ?thesis using assms(1,3)
    by (cases f; cases ref) (auto simp: lockAggregate_def in_tx_def split: option.splits)
qed

lemma decideEffect_Inl: "decideEffect x a pr = Inl e \<Longrightarrow> \<not> errors_Is ErrInvariantViolated e"
  by (auto simp: decideEffect_def Let_def split: if_splits decision.splits)

lemma mark_Inl: "in_tx f (MarkWebhookEventProcessed now note i) w = Inl e \<Longrightarrow> \<not> errors_Is s e"
  by (cases f) (auto simp: in_tx_def MarkWebhookEventProcessed_def Let_def exec_write_def constraint_violation_def
      split: if_splits)

lemma process_open_Inl:
  assumes "schema_ok db" and "ledger_ok db" and "\<And>ev e. interp ev = Inl e \<Longrightarrow> \<not> errors_Is ErrInvariantViolated e"
    and "process_open fs now i en (handle_resolve pr interp) (handle_decide pr) db = Inl err"
  shows "\<not> errors_Is ErrInvariantViolated err"
proof (cases "lockAggregate (fs 2) en (handle_resolve pr interp) db")
  case (Inl e)
  with assms(4) have "err = e" by (simp add: process_open_def)
  with lockAggregate_Inl [OF Inl assms(3)] show ?thesis by simp
next
  case (Inr r)
  then obtain a x w where l: "lockAggregate (fs 2) en (handle_resolve pr interp) db = Inr ((a, x), w)" by (cases r) auto
  from lockAggregate_Inr [OF l] obtain ref :: reference and row where [simp]: "w = db" and a: "a = aggregate_of_row row"
    and row: "LockPaymentAggregate (rf_AttemptID ref) (rf_PaymentID ref) (rf_OrderID ref) db = Inr (Some row, db)" by blast
  show ?thesis
  proof (cases "decideEffect x a pr")
    case (Inl e)
    with assms(4) l decideEffect_Inl [OF Inl] show ?thesis by (simp add: process_open_def)
  next
    case (Inr eff)
    from applyEffect_found [OF assms(1,2) row Inr [unfolded a], of fs now]
    consider e where "applyEffect fs now a eff db = Inl e" "server_error e"
      | b w' where "applyEffect fs now a eff db = Inr (b, w')" unfolding a by fastforce
    then show ?thesis
    proof cases
      case 1
      with assms(4) l Inr server_error_Is show ?thesis by (simp add: process_open_def)
    next
      case 2
      with assms(4) l Inr mark_Inl [of "fs 6"] show ?thesis
        by (auto simp: process_open_def split: sum.splits prod.splits)
    qed
  qed
qed

lemma lockEntry_Inl: "lockEntry f i db = Inl e \<Longrightarrow> s \<noteq> ErrAggregateNotFound \<Longrightarrow> \<not> errors_Is s e"
  by (cases f) (auto simp: lockEntry_def in_tx_def LockWebhookEvent_def split: option.splits)

lemma lockEntry_Inr: "lockEntry f i db = Inr (en, w) \<Longrightarrow> w = db"
  by (auto simp: lockEntry_def in_tx_Inr LockWebhookEvent_def split: sum.splits option.splits)

text \<open>An approved event takes effect: in a consistent state and without server faults, an open event of
  this provider, whose interpretation names rows that belong together and that the decision
  approves, is applied completely and reported as such. The inbox counter's width is the only
  bound.\<close>

lemma Process_completes:
  assumes "schema_ok db" and "ledger_ok db" and "e \<in> set (webhook_events db)"
    and "evt_Status e \<noteq> InboxProcessed" and "evt_Attempts e < 2 ^ 31 - 1" and "evt_Provider e = pr"
    and "interp (ie_Event (entry_of_row e)) = Inr x"
    and "LockPaymentAggregate (so_AttemptID x) (so_PaymentID x) (so_OrderID x) db = Inr (Some row, db)"
    and "decideEffect x (aggregate_of_row row) pr = Inr eff"
  shows "EventRepository_Process no_faults now db (evt_ID e) (handle_resolve pr interp) (handle_decide pr) =
    (after_effect now (evt_ID e) (aggregate_of_row row) eff db,
     Inr \<lparr>pr_Applied = (ef_AttemptStatus eff \<noteq> [] \<or> ef_PaymentStatus eff \<noteq> [] \<or> ef_OrderPaid eff), pr_Note = ef_Note eff\<rparr>,
     Some (aggregate_of_row row, eff))"
proof -
  let ?p = "process_open no_faults now (evt_ID e) (entry_of_row e) (handle_resolve pr interp) (handle_decide pr) db"
  have "find (\<lambda>r. evt_ID r = evt_ID e) (webhook_events db) = Some e"
    using assms(3) by (intro find_unique [OF schema_okD(8) [OF assms(1)]]) auto
  then have entry: "lockEntry NoFault (evt_ID e) db = Inr (entry_of_row e, db)"
    by (simp add: lockEntry_def LockWebhookEvent_def)
  have st: "ie_Status (entry_of_row e) \<noteq> InboxProcessed" "event_Provider (ie_Event (entry_of_row e)) = pr"
    using assms(4,6) by (simp_all add: entry_of_row_def)
  have lock: "lockAggregate NoFault (entry_of_row e) (handle_resolve pr interp) db = Inr ((aggregate_of_row row, x), db)"
    using assms(7,8) st by (simp add: lockAggregate_def handle_resolve_def)
  obtain b w where ap: "applyEffect no_faults now (aggregate_of_row row) eff db = Inr (b, w)"
    using applyEffect_found [OF assms(1,2,8,9), of no_faults now] by fastforce
  have "schema_ok w \<and> webhook_events w = webhook_events db" using applyEffect_Inr [OF assms(1) ap] by blast
  then obtain w' where "MarkWebhookEventProcessed now (nullableText (ef_Note eff)) (evt_ID e) w = Inr (1, w')"
    using MarkWebhookEventProcessed_ok [of w e "evt_ID e" now "nullableText (ef_Note eff)"] assms(3-5) by auto
  with lock ap assms(9) have p: "?p = Inr ((\<lparr>pr_Applied = b, pr_Note = ef_Note eff\<rparr>, aggregate_of_row row, eff), w')"
    by (simp add: process_open_def)
  from process_open_Inr [OF assms(1) p] assms(3,4) have "w' = after_effect now (evt_ID e) (aggregate_of_row row) eff db"
      "b = (ef_AttemptStatus eff \<noteq> [] \<or> ef_PaymentStatus eff \<noteq> [] \<or> ef_OrderPaid eff)" by auto
  with p entry st show ?thesis by (simp add: EventRepository_Process_def)
qed


section \<open>The sample session\<close>

text \<open>A completed session that settles the sample order.\<close>

definition sample_outcome :: session_outcome where
  "sample_outcome = \<lparr>so_OrderID = ''ord_1'', so_PaymentID = ''pay_1'', so_AttemptID = ''pat_1'', so_SessionID = ''cs_1'',
     so_PaymentIntentID = [], so_Amount = 100, so_Currency = ''BRL'', so_Outcome = OutcomeSucceeded, so_OccurredAt = 4\<rparr>"

definition sample_aggregate :: aggregate where
  "sample_aggregate = \<lparr>ag_OrderID = ''ord_1'', ag_OrderStatus = OrderStatusPending, ag_PaymentID = ''pay_1'',
     ag_PaymentStatus = PaymentStatusPending, ag_Provider = Stripe, ag_Amount = 100, ag_Currency = ''BRL'',
     ag_AttemptID = ''pat_1'', ag_AttemptStatus = AttemptStatusPending, ag_SessionID = ''cs_1''\<rparr>"

definition sample_effect :: effect where
  "sample_effect = \<lparr>ef_AttemptStatus = AttemptStatusSucceeded, ef_PaymentStatus = PaymentStatusSucceeded,
     ef_OrderPaid = True, ef_Note = []\<rparr>"


definition sample_row :: aggregate_row where
  "sample_row = \<lparr>agg_OrderID = ''ord_1'', agg_OrderStatus = OrderStatusPending, agg_PaymentID = ''pay_1'',
     agg_PaymentStatus = PaymentStatusPending, agg_Provider = Stripe, agg_Amount = 100, agg_Currency = ''BRL'',
     agg_AttemptID = ''pat_1'', agg_AttemptStatus = AttemptStatusPending, agg_SessionID = Some ''cs_1''\<rparr>"

lemma sample_ledger [simp]: "ledger_ok sample_db"
  by (simp add: ledger_ok_def books_defs) (simp add: sample_defs)

lemma sample_lock: "LockPaymentAggregate ''pat_1'' ''pay_1'' ''ord_1'' sample_db = Inr (Some sample_row, sample_db)"
  by (simp add: LockPaymentAggregate_def Let_def) (simp add: sample_defs sample_row_def)

lemma sample_decide: "decideEffect sample_outcome (aggregate_of_row sample_row) Stripe = Inr sample_effect"
proof -
  have "aggregate_of_row sample_row = sample_aggregate"
    by (simp add: aggregate_of_row_def sample_row_def sample_aggregate_def)
  moreover have "Decide OutcomeSucceeded PaymentStatusPending AttemptStatusPending =
     \<lparr>tr_Decision = DecisionApply, tr_Attempt = AttemptStatusSucceeded, tr_Payment = PaymentStatusSucceeded,
      tr_OrderPaid = True, tr_Reason = []\<rparr>"
    by (simp add: decide_defs settled_defs)
  ultimately show ?thesis
    by (simp add: decideEffect_def sample_outcome_def sample_aggregate_def sample_effect_def EqualFold_def)
qed

text \<open>The sample session, processed.\<close>

abbreviation sample_resolve :: "session_outcome resolver" where
  "sample_resolve \<equiv> handle_resolve Stripe (\<lambda>_. Inr sample_outcome)"

abbreviation sample_after :: database where
  "sample_after \<equiv> after_effect 10 ''evt_1'' (aggregate_of_row sample_row) sample_effect sample_db"

lemma sample_run:
  "EventRepository_Process no_faults 10 sample_db ''evt_1'' sample_resolve (handle_decide Stripe) =
     (sample_after, Inr \<lparr>pr_Applied = True, pr_Note = []\<rparr>, Some (aggregate_of_row sample_row, sample_effect))"
  using Process_completes [OF sample_ok sample_ledger, of sample_event Stripe "\<lambda>_. Inr sample_outcome" sample_outcome
      sample_row sample_effect 10] sample_lock sample_decide
  by (simp add: sample_event_def sample_outcome_def sample_effect_def)

text \<open>A run that succeeded or changed something left the entry processed, and on a processed entry the
  transaction does nothing.\<close>

lemma Process_status:
  assumes "schema_ok db" and "EventRepository_Process fs now db i rs dc = (db', r, cap)"
  shows "schema_ok db' \<and> (is_ok r \<or> db' \<noteq> db \<longrightarrow> event_status db' i = Some InboxProcessed)"
  using assms
proof (cases rule: Process_cases)
  case unchanged
  then show ?thesis using assms(1) by (auto simp: event_status_iff elim!: is_okE)
next
  case (effect e ref x row a eff)
  then show ?thesis using event_status_after_effect [of e db i] by simp
qed

lemma Process_processed:
  assumes "event_status db i = Some InboxProcessed"
  shows "\<exists>r. EventRepository_Process fs now db i rs dc = (db, r, None) \<and> (\<forall>res. r = Inr res \<longrightarrow> \<not> pr_Applied res)"
proof -
  from assms obtain e where "find (\<lambda>r. evt_ID r = i) (webhook_events db) = Some e" "evt_Status e = InboxProcessed"
    by (auto simp: event_status_def)
  then show ?thesis
    by (cases "fs 0"; cases "fs 1")
      (auto simp: EventRepository_Process_def lockEntry_def LockWebhookEvent_def in_tx_def begin_tx_def entry_of_row_def)
qed

lemma process_keeps_books:
  assumes "schema_ok db" and "ledger_ok db"
    and "EventRepository_Process fs now db i (handle_resolve pr interp) (handle_decide pr) = (db', r, cap)"
  shows "ledger_ok db'"
  using assms(1,3)
proof (cases rule: Process_cases)
  case unchanged
  with assms(2) show ?thesis by simp
next
  case (effect e ref x row a eff)
  then have "decideEffect x (aggregate_of_row row) pr = Inr eff" by simp
  from after_effect_ledger [OF assms(1,2) effect(7) this] effect show ?thesis by simp
qed

section \<open>Properties\<close>

text \<open>
  C17: one event, one transaction. Whatever the server does to any of the calls, the transaction
  leaves the tables exactly as they were, or with the complete effect the decision approved on the
  rows that were locked together: attempt, payment, order and the inbox entry in one commit. A run
  that reports success leaves the entry processed.
\<close>

theorem Process_atomic:
  assumes "schema_ok db" and "EventRepository_Process fs now db i rs dc = (db', r, cap)"
  shows "schema_ok db' \<and> evolves db db' \<and> (is_ok r \<longrightarrow> event_status db' i = Some InboxProcessed) \<and>
    (db' = db \<or>
     (\<exists>e \<in> set (webhook_events db). \<exists>ref x row eff. evt_ID e = i \<and> evt_Status e \<noteq> InboxProcessed \<and>
        rs (entry_of_row e) = Inr (ref, x) \<and>
        LockPaymentAggregate (rf_AttemptID ref) (rf_PaymentID ref) (rf_OrderID ref) db = Inr (Some row, db) \<and>
        dc x (entry_of_row e) (aggregate_of_row row) = Inr eff \<and>
        db' = after_effect now i (aggregate_of_row row) eff db))"
  using assms
proof (cases rule: Process_cases)
  case unchanged
  then show ?thesis using assms(1) by (auto simp: event_status_iff elim!: is_okE)
next
  case (effect e ref x row a eff)
  then have "event_status db' i = Some InboxProcessed" using event_status_after_effect [of e db i] by simp
  with effect show ?thesis by blast
qed

theorem Process_atomic_witness:
  "schema_ok sample_after \<and> event_status sample_after ''evt_1'' = Some InboxProcessed"
  using Process_atomic [OF sample_ok sample_run] by simp

text \<open>
  C18: at most one effect per event. Once a run has succeeded or has changed anything, even when
  the reply to its commit was lost, no later run on the same event changes the tables or reports an
  effect, whatever that run's interpreter and decision say.
\<close>

theorem Process_at_most_once:
  assumes "schema_ok db" and "EventRepository_Process fs now db i rs dc = (db1, r, cap)" and "is_ok r \<or> db1 \<noteq> db"
    and "EventRepository_Process fs' now' db1 i rs' dc' = (db2, r', cap')"
  shows "db2 = db1 \<and> cap' = None \<and> (\<forall>res. r' = Inr res \<longrightarrow> \<not> pr_Applied res)"
proof -
  have "event_status db1 i = Some InboxProcessed" using Process_status [OF assms(1,2)] assms(3) by blast
  from Process_processed [OF this, of fs' now' rs' dc'] assms(4) show ?thesis by auto
qed

theorem Process_at_most_once_witness:
  "EventRepository_Process no_faults 11 sample_after ''evt_1'' sample_resolve (handle_decide Stripe) =
     (sample_after, Inr \<lparr>pr_Applied = False, pr_Note = ''event was already processed''\<rparr>, None)"
proof -
  obtain d r c where x: "EventRepository_Process no_faults 11 sample_after ''evt_1'' sample_resolve (handle_decide Stripe) = (d, r, c)"
    by (cases "EventRepository_Process no_faults 11 sample_after ''evt_1'' sample_resolve (handle_decide Stripe)") auto
  have "d = sample_after \<and> c = None" using Process_at_most_once [OF sample_ok sample_run _ x] by simp
  moreover have "webhook_events sample_after = [sample_event\<lparr>evt_Status := InboxProcessed, evt_ProcessedAt := Some 10,
      evt_Attempts := 1, evt_LastError := None, evt_UpdatedAt := 10\<rparr>]"
    by (simp add: after_effect_def sample_event_def nullableText_def sample_effect_def)
  ultimately show ?thesis using x
    by (simp add: EventRepository_Process_def lockEntry_def LockWebhookEvent_def entry_of_row_def sample_event_def)
qed

text \<open>
  The books stay consistent. Applying any event, under any faults, keeps the invariant that an
  order is paid exactly when one of its payments succeeded, and that a payment succeeded exactly
  when one of its attempts did.
\<close>

theorem Process_keeps_ledger:
  assumes "schema_ok db" and "ledger_ok db"
    and "EventRepository_Process fs now db i (handle_resolve pr interp) (handle_decide pr) = (db', r, cap)"
  shows "ledger_ok db'"
  using assms by (rule process_keeps_books)

theorem Process_keeps_ledger_witness: "ledger_ok sample_after \<and> paid_orders sample_after = {''ord_1''}"
  using Process_keeps_ledger [OF sample_ok sample_ledger sample_run]
    after_effect_books [OF sample_ok sample_ledger sample_lock sample_decide refl, of 10 "''evt_1''"]
  by (simp add: sample_effect_def) (simp add: paid_orders_def sample_defs)

text \<open>
  C19: the matrix and the schema agree. In a consistent state, processing never reports a violated
  invariant: every transition the decision approved finds exactly the one row it names, whatever
  the interpreter answered and whatever the server did.
\<close>

theorem Process_no_invariant_violation:
  assumes "schema_ok db" and "ledger_ok db" and "\<And>ev e. interp ev = Inl e \<Longrightarrow> \<not> errors_Is ErrInvariantViolated e"
    and "EventRepository_Process fs now db i (handle_resolve pr interp) (handle_decide pr) = (db', Inl err, cap)"
  shows "\<not> errors_Is ErrInvariantViolated err"
proof (cases "begin_tx (fs 0)")
  case (Some e)
  with assms(4) show ?thesis by (cases "fs 0") (auto simp: EventRepository_Process_def begin_tx_def)
next
  case None
  show ?thesis
  proof (cases "lockEntry (fs 1) i db")
    case (Inl e)
    with None assms(4) lockEntry_Inl [OF Inl, of ErrInvariantViolated] show ?thesis by (simp add: EventRepository_Process_def)
  next
    case (Inr x)
    then obtain en where l: "lockEntry (fs 1) i db = Inr (en, db)" using lockEntry_Inr by (cases x) blast
    with None assms(4) have st: "ie_Status en \<noteq> InboxProcessed" by (auto simp: EventRepository_Process_def)
    show ?thesis
    proof (cases "process_open fs now i en (handle_resolve pr interp) (handle_decide pr) db")
      case (Inl e)
      with None l st assms(4) process_open_Inl [OF assms(1-3) Inl] show ?thesis by (simp add: EventRepository_Process_def)
    next
      case (Inr y)
      with None l st assms(4) show ?thesis
        by (cases y; cases "fs 7") (auto simp: EventRepository_Process_def commit_tx_def)
    qed
  qed
qed


theorem Process_no_invariant_violation_witness:
  "EventRepository_Process no_faults 10 sample_db ''evt_1'' (handle_resolve Stripe (\<lambda>_. Inl (Sentinel ErrUnreadablePayload)))
     (handle_decide Stripe) = (sample_db, Inl (Sentinel ErrUnreadablePayload), None) \<and>
   \<not> errors_Is ErrInvariantViolated (Sentinel ErrUnreadablePayload)"
proof -
  have "EventRepository_Process no_faults 10 sample_db ''evt_1'' (handle_resolve Stripe (\<lambda>_. Inl (Sentinel ErrUnreadablePayload)))
     (handle_decide Stripe) = (sample_db, Inl (Sentinel ErrUnreadablePayload), None)"
    by (simp add: EventRepository_Process_def lockEntry_def LockWebhookEvent_def process_open_def lockAggregate_def
        handle_resolve_def entry_of_row_def sample_event_def)
  with Process_no_invariant_violation [OF sample_ok sample_ledger _ this] show ?thesis by auto
qed

text \<open>
  C16: money in, order paid. A settled session for an open attempt of an open payment, with the
  payment's own amount and currency, marks exactly that order paid in the same transaction.
\<close>

theorem settled_session_pays_order:
  assumes "schema_ok db" and "ledger_ok db" and "e \<in> set (webhook_events db)"
    and "evt_Status e \<noteq> InboxProcessed" and "evt_Attempts e < 2 ^ 31 - 1"
    and "interp (ie_Event (entry_of_row e)) = Inr x" and "so_Outcome x = OutcomeSucceeded"
    and "LockPaymentAggregate (so_AttemptID x) (so_PaymentID x) (so_OrderID x) db = Inr (Some row, db)"
    and "agg_Provider row = evt_Provider e" and "so_Amount x = agg_Amount row" and "so_Currency x = agg_Currency row"
    and "agg_SessionID row = None \<or> agg_SessionID row = Some (so_SessionID x)"
    and "\<not> attemptSettled (agg_AttemptStatus row)" and "\<not> paymentSettled (agg_PaymentStatus row)"
    and "EventRepository_Process no_faults now db (evt_ID e) (handle_resolve (evt_Provider e) interp)
           (handle_decide (evt_Provider e)) = (db', r, cap)"
  shows "is_ok r \<and> paid_orders db' = insert (so_OrderID x) (paid_orders db)"
proof -
  let ?t = "Decide (so_Outcome x) (agg_PaymentStatus row) (agg_AttemptStatus row)"
  have t: "tr_Decision ?t = DecisionApply" "tr_OrderPaid ?t" using assms(7,13,14)
    by (simp_all add: Decide_Apply_iff) (auto simp: decide_defs dest: not_settled_neq)
  with assms(9-12) have "\<exists>eff. decideEffect x (aggregate_of_row row) (evt_Provider e) = Inr eff \<and> ef_OrderPaid eff"
    by (auto simp: decideEffect_def aggregate_of_row_def Let_def EqualFold_def)
  then obtain eff where eff: "decideEffect x (aggregate_of_row row) (evt_Provider e) = Inr eff" "ef_OrderPaid eff" by blast
  from Process_completes [OF assms(1-5) refl, of interp x row eff now] assms(6,8,15) eff(1)
  have "db' = after_effect now (evt_ID e) (aggregate_of_row row) eff db" "is_ok r" by auto
  with after_effect_books [OF assms(1,2,8) eff(1) this(1)] eff(2) show ?thesis by simp
qed

theorem settled_session_pays_order_witness: "paid_orders sample_after = insert ''ord_1'' (paid_orders sample_db)"
proof -
  have "EventRepository_Process no_faults 10 sample_db (evt_ID sample_event) (handle_resolve (evt_Provider sample_event)
      (\<lambda>_. Inr sample_outcome)) (handle_decide (evt_Provider sample_event)) =
     (sample_after, Inr \<lparr>pr_Applied = True, pr_Note = []\<rparr>, Some (aggregate_of_row sample_row, sample_effect))"
    using sample_run by (simp add: sample_event_def)
  from settled_session_pays_order [OF sample_ok sample_ledger _ _ _ _ _ _ _ _ _ _ _ _ this, of sample_outcome sample_row]
    sample_lock show ?thesis
    by (simp add: sample_outcome_def sample_row_def) (simp add: sample_event_def)
qed


text \<open>
  C22: the disposition agrees with the durable row. Whatever the faults, a message reported done has
  its entry processed, one reported dead has it failed (or has no entry at all), and one sent to
  retry is neither failed nor out of its retry budget.
\<close>

theorem handle_disposition_durable:
  assumes "schema_ok db" and "2 \<le> mx"
    and "handle (EventRepository_Process fs now) (EventRepository_RecordFailure f now') pr interp after mx db i =
      (db', Inr h, rep, ns)"
  shows "schema_ok db' \<and> (case h_Disposition h of
      DispositionDone \<Rightarrow> event_status db' i = Some InboxProcessed
    | DispositionDead \<Rightarrow> event_status db' i = Some InboxFailed \<or> event_status db' i = None
    | DispositionRetry \<Rightarrow> event_status db' i \<noteq> Some InboxFailed \<and> 0 < h_Attempts h \<and> h_Attempts h < mx)"
  using event_store.handle_agrees [OF assms(1,3,2)] .

theorem handle_disposition_durable_witness: "event_status sample_after ''evt_1'' = Some InboxProcessed"
proof -
  have "handle (EventRepository_Process no_faults 10) (EventRepository_RecordFailure NoFault 10) Stripe (\<lambda>_. Inr sample_outcome)
      (\<lambda>_ _. None) 10 sample_db ''evt_1'' = (sample_after,
        Inr \<lparr>h_Disposition = DispositionDone, h_Attempts = 0, h_Cause = None, h_Note = [], h_Applied = True\<rparr>,
        empty_report\<lparr>rp_Applied := True, rp_AlreadyProcessed := False,
          rp_Transitions := transitions (aggregate_of_row sample_row) sample_effect\<rparr>,
        [EventApplied ''evt_1'' sample_effect])"
    by (simp add: handle_def sample_run)
  from handle_disposition_durable [OF sample_ok _ this] show ?thesis by simp
qed

text \<open>An entry whose effect is committed, on its ninth attempt.\<close>

definition processed_db :: database where
  "processed_db = sample_db\<lparr>webhook_events :=
     [sample_event\<lparr>evt_Status := InboxProcessed, evt_Attempts := 9, evt_ProcessedAt := Some 10\<rparr>]\<rparr>"

text \<open>
  C40: what the failure statement does not guard. A fault while a processed event is redelivered is
  counted against its budget, and the last one turns the entry, whose effect is committed, into a
  failed one whose message goes to the dead-letter queue.
\<close>

theorem processed_event_can_fail:
  "\<exists>db' h rep ns. handle (EventRepository_Process (\<lambda>_. Refused ''down'') 20) (EventRepository_RecordFailure NoFault 20)
       Stripe (\<lambda>_. Inr sample_outcome) (\<lambda>_ _. None) 10 processed_db ''evt_1'' = (db', Inr h, rep, ns) \<and>
     event_status processed_db ''evt_1'' = Some InboxProcessed \<and> h_Disposition h = DispositionDead \<and>
     event_status db' ''evt_1'' = Some InboxFailed"
proof -
  have 32: "int32 10 = 10" by (rule int32_id) simp_all
  have ok: "schema_ok (processed_db\<lparr>webhook_events := [sample_event\<lparr>evt_Status := InboxFailed, evt_Attempts := 10,
      evt_ProcessedAt := Some 10, evt_LastError := l, evt_UpdatedAt := 20\<rparr>]\<rparr>)" for l
    using sample_ok by (simp add: schema_ok_def table_ok_defs processed_db_def sample_db_def sample_event_def
        event_check_def int4_def sample_message_def)
  show ?thesis
    by (simp add: handle_def EventRepository_Process_def begin_tx_def classify_def EventRepository_RecordFailure_def
        autocommit_def RecordWebhookEventFailure_def Let_def 32)
      (use ok in \<open>simp add: processed_db_def sample_event_def event_status_def exec_write_def\<close>)
qed

end
