(* ===== verification/Order_Repository.thy ===== *)
theory Order_Repository
  imports Order_Service Queries
begin

text \<open>
  \<^verbatim>\<open>postgres/models/order.go\<close> and \<^verbatim>\<open>postgres/repositories/orders.go\<close>: the row conversions and
  the order repository, which implements the \<^verbatim>\<open>Repository\<close> port of the order use cases.
\<close>

definition OrderFromDomain :: "order \<Rightarrow> order_row" where
  "OrderFromDomain ord =
     \<lparr>ord_ID = order_ID ord, ord_Status = order_Status ord, ord_Amount = order_Amount ord,
      ord_Currency = order_Currency ord, ord_ProductID = order_ProductID ord,
      ord_Quantity = int32 (order_Quantity ord), ord_IdempotencyKey = order_IdempotencyKey ord,
      ord_CreatedAt = UTC (order_CreatedAt ord), ord_UpdatedAt = UTC (order_UpdatedAt ord)\<rparr>"

definition Order_ToDomain :: "order_row \<Rightarrow> order" where
  "Order_ToDomain r =
     \<lparr>order_ID = ord_ID r, order_Status = ord_Status r, order_Amount = ord_Amount r,
      order_Currency = ord_Currency r, order_ProductID = ord_ProductID r,
      order_Quantity = ord_Quantity r, order_IdempotencyKey = ord_IdempotencyKey r,
      order_CreatedAt = UTC (ord_CreatedAt r), order_UpdatedAt = UTC (ord_UpdatedAt r)\<rparr>"

text \<open>The two statements: an insert that does nothing when the idempotency key is taken, and the
  selection of the row that owns a key. GORM reports a missing row as
  \<^verbatim>\<open>gorm.ErrRecordNotFound\<close>.\<close>

definition ErrRecordNotFound :: goerr where "ErrRecordNotFound = External ''record not found''"

definition insert_order :: "order_row \<Rightarrow> nat stmt" where
  "insert_order row db =
     insert_do_nothing (order_check row)
       (list_ex (\<lambda>r. ord_IdempotencyKey r = ord_IdempotencyKey row) (orders db)) 0 1
       (db\<lparr>orders := orders db @ [row]\<rparr>) db"

definition select_order :: "(order_row \<Rightarrow> bool) \<Rightarrow> order_row option stmt" where
  "select_order p db = Inr (find p (orders db), db)"

text \<open>\<^verbatim>\<open>OrderRepository.CreateOrGet\<close>: two statements, each its own transaction. \<open>env\<close> is what
  other connections did to the tables between them.\<close>

definition OrderRepository_CreateOrGet ::
  "faults \<Rightarrow> (database \<Rightarrow> database) \<Rightarrow> database \<Rightarrow> order \<Rightarrow> database \<times> (order \<times> bool) result" where
  "OrderRepository_CreateOrGet f env db ord =
     (case autocommit (f 0) (insert_order (OrderFromDomain ord)) db of
        (db1, Inl e) \<Rightarrow> (db1, Inl (wrap ''insert order'' e))
      | (db1, Inr n) \<Rightarrow>
          if n = 1 then (db1, Inr (ord, True))
          else (case autocommit (f 1)
                    (select_order (\<lambda>r. ord_IdempotencyKey r = order_IdempotencyKey ord)) (env db1) of
                  (db2, Inl e) \<Rightarrow> (db2, Inl (wrap ''find order idempotency replay'' e))
                | (db2, Inr None) \<Rightarrow> (db2, Inl (wrap ''find order idempotency replay'' ErrRecordNotFound))
                | (db2, Inr (Some existing)) \<Rightarrow> (db2, Inr (Order_ToDomain existing, False))))"

definition OrderRepository_Get :: "faults \<Rightarrow> database \<Rightarrow> string \<Rightarrow> order result" where
  "OrderRepository_Get f db i =
     (case autocommit (f 0) (select_order (\<lambda>r. ord_ID r = i)) db of
        (_, Inl e) \<Rightarrow> Inl (wrap ''select order'' e)
      | (_, Inr None) \<Rightarrow> Inl (Sentinel ErrOrderNotFound)
      | (_, Inr (Some row)) \<Rightarrow> Inr (Order_ToDomain row))"

lemmas [repo_defs] = OrderRepository_CreateOrGet_def OrderRepository_Get_def

section \<open>Properties\<close>

lemma safe_insert_order [safe_intros]: "safe_stmt (insert_order row)"
  unfolding insert_order_def
  by (rule safe_stmtI, erule safe_insert_do_nothing) (simp_all add: evolves_insert)

lemma safe_select_order [safe_intros]: "safe_stmt (select_order p)"
  by (rule safe_read) (simp add: select_order_def)

text \<open>Whatever happens between its two statements, the operation keeps the schema and only lets
  the tables evolve.\<close>

lemma CreateOrGet_safe:
  assumes "schema_ok db" and "\<And>d. schema_ok d \<Longrightarrow> schema_ok (env d) \<and> evolves d (env d)"
    and "OrderRepository_CreateOrGet f env db ord = (db', r)"
  shows "schema_ok db' \<and> evolves db db'"
proof -
  obtain db1 r1 where 1: "autocommit (f 0) (insert_order (OrderFromDomain ord)) db = (db1, r1)" by fastforce
  note s1 = safe_autocommit [OF safe_insert_order assms(1) 1]
  obtain db2 r2 where 2: "autocommit (f 1)
      (select_order (\<lambda>r. ord_IdempotencyKey r = order_IdempotencyKey ord)) (env db1) = (db2, r2)" by fastforce
  have s2: "schema_ok db2 \<and> evolves (env db1) db2"
    using assms(2) [of db1] s1 by (intro safe_autocommit [OF safe_select_order _ 2]) auto
  have "db' = db1 \<or> db' = db2"
    using assms(3) 1 2 by (auto simp: repo_defs split: sum.splits option.splits if_splits)
  then show ?thesis using s1 s2 assms(2) [of db1] by (blast intro: evolves_trans)
qed

lemma order_roundtrip: "order_wf ord \<Longrightarrow> Order_ToDomain (OrderFromDomain ord) = ord"
  by (cases ord) (simp add: Order_ToDomain_def OrderFromDomain_def order_wf_def order_limits int32_id)

text \<open>Which order owns an idempotency key.\<close>

definition order_by_key :: "database \<Rightarrow> string \<Rightarrow> order option" where
  "order_by_key db k = map_option Order_ToDomain (find (\<lambda>r. ord_IdempotencyKey r = k) (orders db))"

lemma order_by_key_None:
  "order_by_key db k = None \<longleftrightarrow> \<not> list_ex (\<lambda>r. ord_IdempotencyKey r = k) (orders db)"
  by (auto simp: order_by_key_def find_None_iff list_ex_iff)

lemma order_by_key_append:
  assumes "order_wf ord" and "order_by_key db (order_IdempotencyKey ord) = None"
  shows "order_by_key (db\<lparr>orders := orders db @ [OrderFromDomain ord]\<rparr>) =
         (order_by_key db)(order_IdempotencyKey ord \<mapsto> ord)"
proof
  fix k
  have "ord_IdempotencyKey (OrderFromDomain ord) = order_IdempotencyKey ord"
    by (simp add: OrderFromDomain_def)
  with assms order_roundtrip [OF assms(1)]
  show "order_by_key (db\<lparr>orders := orders db @ [OrderFromDomain ord]\<rparr>) k =
        ((order_by_key db)(order_IdempotencyKey ord \<mapsto> ord)) k"
    by (auto simp: order_by_key_def find_append split: option.splits)
qed

lemma insert_order_cases:
  assumes "insert_order row db = Inr (n, db')"
  shows "n = 0 \<and> db' = db \<and> list_ex (\<lambda>r. ord_IdempotencyKey r = ord_IdempotencyKey row) (orders db) \<or>
         n = 1 \<and> db' = db\<lparr>orders := orders db @ [row]\<rparr> \<and> schema_ok db' \<and>
         \<not> list_ex (\<lambda>r. ord_IdempotencyKey r = ord_IdempotencyKey row) (orders db)"
  using assms by (auto simp: insert_order_def insert_do_nothing_def exec_write_Inr split: if_splits)

lemma select_order_autocommit:
  "autocommit f (select_order p) db = (db', r) \<Longrightarrow> db' = db \<and> (\<forall>x. r = Inr x \<longrightarrow> x = find p (orders db))"
  by (auto simp: autocommit_def select_order_def split: fault.splits)

text \<open>The repository provides the port, whatever faults the server shows.\<close>

interpretation order_store: order_repository
  "OrderRepository_CreateOrGet f (\<lambda>db. db)" order_by_key schema_ok for f
proof
  fix s :: database and ord s' p
  let ?row = "OrderFromDomain ord" and ?k = "order_IdempotencyKey ord"
  have key: "ord_IdempotencyKey ?row = ?k" by (simp add: OrderFromDomain_def)
  {
    assume s: "schema_ok s" "order_wf ord"
      and c: "OrderRepository_CreateOrGet f (\<lambda>db. db) s ord = (s', Inr (p, True))"
    then have "insert_order ?row s = Inr (1, s')" "p = ord"
      by (auto simp: repo_defs autocommit_def select_order_def
          split: fault.splits sum.splits prod.splits option.splits if_splits)
    with insert_order_cases [of ?row s 1 s'] s order_by_key_append [of ord s]
    show "schema_ok s' \<and> p = ord \<and> order_by_key s ?k = None \<and>
        order_by_key s' = (order_by_key s)(?k \<mapsto> ord)"
      by (auto simp: order_by_key_None key)
  next
    assume s: "schema_ok s" "order_wf ord"
      and c: "OrderRepository_CreateOrGet f (\<lambda>db. db) s ord = (s', Inr (p, False))"
    then obtain n where n: "insert_order ?row s = Inr (n, s')" "n \<noteq> 1"
        and p: "Some p = order_by_key s' ?k"
      by (auto simp: repo_defs autocommit_def select_order_def order_by_key_def
          split: fault.splits sum.splits prod.splits option.splits if_splits)
    from insert_order_cases [OF n(1)] n(2) have "s' = s" by auto
    with p show "s' = s \<and> order_by_key s ?k = Some p" by simp
  next
    fix e
    assume s: "schema_ok s" "order_wf ord"
      and c: "OrderRepository_CreateOrGet f (\<lambda>db. db) s ord = (s', Inl e)"
    then have "s' = s \<or> (\<exists>n. insert_order ?row s = Inr (n, s'))"
      by (auto simp: repo_defs autocommit_def select_order_def
          split: fault.splits sum.splits prod.splits option.splits if_splits)
    then show "schema_ok s' \<and> (s' = s \<or> order_by_key s ?k = None \<and>
        order_by_key s' = (order_by_key s)(?k \<mapsto> ord))"
      using insert_order_cases [of ?row s _ s'] s order_by_key_append [of ord s]
      by (auto simp: order_by_key_None key)
  }
qed

text \<open>Without faults the repository answers: the owner of the key, or the new order.\<close>

lemma order_check_row:
  "order_wf ord \<Longrightarrow> order_Status ord = OrderStatusPending \<Longrightarrow> order_check (OrderFromDomain ord)"
  by (simp add: order_check_def OrderFromDomain_def order_wf_def order_limits int32_id int4_def int8_def
      MaxInt64_def)

lemma CreateOrGet_owned:
  assumes "order_wf ord" and "order_Status ord = OrderStatusPending"
    and "order_by_key db (order_IdempotencyKey ord) = Some x"
  shows "OrderRepository_CreateOrGet no_faults (\<lambda>db. db) db ord = (db, Inr (x, False))"
proof -
  have "list_ex (\<lambda>r. ord_IdempotencyKey r = ord_IdempotencyKey (OrderFromDomain ord)) (orders db)"
    using assms(3) order_by_key_None [of db "order_IdempotencyKey ord"] by (simp add: OrderFromDomain_def)
  then have "insert_order (OrderFromDomain ord) db = Inr (0, db)"
    using order_check_row [OF assms(1,2)] by (simp add: insert_order_def insert_do_nothing_def)
  with assms(3) show ?thesis
    by (auto simp: repo_defs autocommit_def select_order_def order_by_key_def)
qed

lemma CreateOrGet_free:
  assumes "schema_ok db" and "order_wf ord" and "order_Status ord = OrderStatusPending"
    and "order_by_key db (order_IdempotencyKey ord) = None" and "order_ID ord \<notin> ord_ID ` set (orders db)"
  shows "OrderRepository_CreateOrGet no_faults env db ord =
           (db\<lparr>orders := orders db @ [OrderFromDomain ord]\<rparr>, Inr (ord, True)) \<and>
         schema_ok (db\<lparr>orders := orders db @ [OrderFromDomain ord]\<rparr>)"
proof -
  let ?row = "OrderFromDomain ord" and ?db' = "db\<lparr>orders := orders db @ [OrderFromDomain ord]\<rparr>"
  have f: "ord_ID ?row = order_ID ord" "ord_IdempotencyKey ?row = order_IdempotencyKey ord"
    by (simp_all add: OrderFromDomain_def)
  have free: "\<not> list_ex (\<lambda>r. ord_IdempotencyKey r = order_IdempotencyKey ord) (orders db)"
    using assms(4) by (simp add: order_by_key_None)
  have "schema_ok ?db'"
    using assms(1,5) free order_check_row [OF assms(2,3)] f
    by (auto simp: schema_ok_def table_ok_defs list_ex_iff list_all_iff image_iff)
  moreover from this have "insert_order ?row db = Inr (1, ?db')"
    using free order_check_row [OF assms(2,3)] f by (simp add: insert_order_def insert_do_nothing_def)
  ultimately show ?thesis by (auto simp: repo_defs autocommit_def)
qed

text \<open>
  C21: order creation is idempotent. After a request has been answered with an order, whatever
  faults its own run met, any later valid request under the same idempotency key leaves the
  tables untouched and is answered with that same order when product and quantity agree, and
  with the idempotency conflict when they do not; the observer is told which.
\<close>

theorem Orders_Create_idempotent:
  assumes "schema_ok db"
    and "Orders_Create cat (OrderRepository_CreateOrGet f (\<lambda>db. db)) obs nid now inp db = (db1, Inr ord, ns)"
    and "in_IdempotencyKey inp' = in_IdempotencyKey inp"
    and "CreateInput_Validate inp' = None" and "cat (in_ProductID inp') = Inr p'"
    and "Order_New i' p' (in_Quantity inp') (in_IdempotencyKey inp') now' = Inr ord'"
  shows "Orders_Create cat (OrderRepository_CreateOrGet no_faults (\<lambda>db. db)) obs (Inr i') now' inp' db1 =
         (if order_ProductID ord = in_ProductID inp' \<and> order_Quantity ord = in_Quantity inp'
          then (db1, Inr ord, if obs then [OrderReplayed] else [])
          else (db1, Inl (Sentinel OrderApp_ErrIdempotencyKeyConflict), if obs then [OrderConflicted] else []))"
proof -
  have own: "order_by_key db1 (order_IdempotencyKey ord') = Some ord"
    using order_store.Create_ok_owner [OF assms(1,2)] assms(3,6) by (simp add: Order_New_Inr_iff)
  have "order_Status ord' = OrderStatusPending" using assms(6) by (simp add: Order_New_Inr_iff)
  from CreateOrGet_owned [OF Order_New_wf [OF assms(6)] this own] assms(4-6)
  show ?thesis by (auto simp: Orders_Create_def)
qed

definition sample_input :: create_input where
  "sample_input = \<lparr>in_ProductID = ''p'', in_Quantity = 2, in_IdempotencyKey = ''k''\<rparr>"

definition sample_product :: product where
  "sample_product = \<lparr>product_ID = ''p'', product_Name = [], product_UnitAmount = 50, product_Currency = ''BRL''\<rparr>"

lemma TrimSpace_letters [simp]: "TrimSpace ''p'' = ''p''" "TrimSpace ''k'' = ''k''" "TrimSpace ''ord_1'' = ''ord_1''"
  "TrimSpace ''ord_2'' = ''ord_2''"
  by (rule TrimSpace_plain; auto simp: plain_char_def)+

lemma sample_input_valid:
  "CreateInput_Validate sample_input = None"
  "CreateInput_Validate (sample_input\<lparr>in_Quantity := 3\<rparr>) = None"
  by (simp_all add: CreateInput_Validate_def ValidateProductID_def ValidateQuantity_def
      ValidateIdempotencyKey_def validProductID_def sample_input_def order_limits)

lemma sample_order_new:
  "i \<in> {''ord_1'', ''ord_2''} \<Longrightarrow> q \<in> {2, 3} \<Longrightarrow>
   Order_New i sample_product q ''k'' now =
     Inr \<lparr>order_ID = i, order_Status = OrderStatusPending, order_Amount = 50 * q, order_Currency = ''BRL'',
          order_ProductID = ''p'', order_Quantity = q, order_IdempotencyKey = ''k'', order_CreatedAt = now,
          order_UpdatedAt = now\<rparr>"
  by (auto simp: Order_New_Inr_iff sample_product_def Product_Validate_None validProductID_def
      order_limits Currency_Valid_def is_upper_def ValidateIdempotencyKey_None MaxInt64_def)

theorem Orders_Create_idempotent_witness:
  "\<exists>db1 ord. Orders_Create (\<lambda>_. Inr sample_product) (OrderRepository_CreateOrGet no_faults (\<lambda>db. db)) True
       (Inr ''ord_1'') 5 sample_input empty_db = (db1, Inr ord, []) \<and>
     Orders_Create (\<lambda>_. Inr sample_product) (OrderRepository_CreateOrGet no_faults (\<lambda>db. db)) True
       (Inr ''ord_2'') 9 (sample_input\<lparr>in_Quantity := 3\<rparr>) db1 =
       (db1, Inl (Sentinel OrderApp_ErrIdempotencyKeyConflict), [OrderConflicted])"
proof -
  let ?run = "Orders_Create (\<lambda>_. Inr sample_product) (OrderRepository_CreateOrGet no_faults (\<lambda>db. db)) True"
  obtain ord where new: "Order_New ''ord_1'' sample_product 2 ''k'' 5 = Inr ord"
    and q: "order_Quantity ord = 2" "order_Status ord = OrderStatusPending" "order_IdempotencyKey ord = ''k''"
    by (simp add: sample_order_new)
  have "OrderRepository_CreateOrGet no_faults (\<lambda>db. db) empty_db ord =
      (empty_db\<lparr>orders := [OrderFromDomain ord]\<rparr>, Inr (ord, True))"
    using CreateOrGet_free [OF schema_ok_empty Order_New_wf [OF new]] q
    by (simp add: empty_db_def order_by_key_def)
  then have 1: "?run (Inr ''ord_1'') 5 sample_input empty_db =
      (empty_db\<lparr>orders := [OrderFromDomain ord]\<rparr>, Inr ord, [])"
    using new sample_input_valid(1) by (simp add: Orders_Create_def) (simp add: sample_input_def)
  have "Order_New ''ord_2'' sample_product 3 ''k'' 9 \<in> range Inr" by (simp add: sample_order_new)
  then obtain ord' where new': "Order_New ''ord_2'' sample_product 3 ''k'' 9 = Inr ord'" by auto
  have "?run (Inr ''ord_2'') 9 (sample_input\<lparr>in_Quantity := 3\<rparr>) (empty_db\<lparr>orders := [OrderFromDomain ord]\<rparr>) =
      (empty_db\<lparr>orders := [OrderFromDomain ord]\<rparr>, Inl (Sentinel OrderApp_ErrIdempotencyKeyConflict), [OrderConflicted])"
    using Orders_Create_idempotent [OF schema_ok_empty 1, of "sample_input\<lparr>in_Quantity := 3\<rparr>" sample_product
        "''ord_2''" 9 ord'] sample_input_valid(2) new' q(1)
    by (simp add: sample_input_def)
  with 1 show ?thesis by blast
qed

end
