(* ===== verification/Payment_Service.thy ===== *)
theory Payment_Service
  imports Payment_Domain
begin

text \<open>
  Package \<^verbatim>\<open>internal/application/payments\<close>: the checkout use case. The ports (order reader,
  payment repository, provider) are arguments over an arbitrary store; between two calls to a
  port other processes may change the store, which the argument \<open>env\<close> stands for.
\<close>

record provider_request =
  req_OrderID :: string
  req_PaymentID :: string
  req_AttemptID :: string
  req_ProductID :: string
  req_UnitAmount :: int
  req_Quantity :: int
  req_Currency :: string
  req_IdempotencyKey :: string

record checkout =
  checkout_URL :: string
  checkout_ExpiresAt :: instant

record checkout_input =
  cin_OrderID :: string
  cin_IdempotencyKey :: string

definition ProviderOperationCreateCheckout :: string where
  "ProviderOperationCreateCheckout = ''create_checkout''"

datatype checkout_note =
    CheckoutReplayed | CheckoutConflicted
  | ProviderCalled string string "goerr option"

definition checkoutFromAttempt :: "attempt \<Rightarrow> checkout" where
  "checkoutFromAttempt a = \<lparr>checkout_URL = attempt_CheckoutURL a, checkout_ExpiresAt = attempt_ExpiresAt a\<rparr>"

definition provider_request_of :: "order \<Rightarrow> payment \<Rightarrow> attempt \<Rightarrow> provider_request" where
  "provider_request_of ord payment attempt =
     \<lparr>req_OrderID = order_ID ord, req_PaymentID = payment_ID payment, req_AttemptID = attempt_ID attempt,
      req_ProductID = order_ProductID ord, req_UnitAmount = quot (order_Amount ord) (order_Quantity ord),
      req_Quantity = order_Quantity ord, req_Currency = order_Currency ord,
      req_IdempotencyKey = attempt_IdempotencyKey attempt\<rparr>"

text \<open>\<^verbatim>\<open>Service.CreateCheckout\<close>. The result carries the calls made to the provider and to the
  observer. A division by a zero quantity would be a run-time panic.\<close>

definition CreateCheckout ::
  "url_parser \<Rightarrow> ('s \<Rightarrow> string \<Rightarrow> order result) \<Rightarrow>
   ('s \<Rightarrow> payment \<Rightarrow> attempt \<Rightarrow> 's \<times> (payment \<times> attempt) result) \<Rightarrow>
   (provider_request \<Rightarrow> session result) \<Rightarrow> ('s \<Rightarrow> attempt \<Rightarrow> 's \<times> goerr option) \<Rightarrow>
   (nat \<Rightarrow> 's \<Rightarrow> 's) \<Rightarrow> bool \<Rightarrow> string result \<Rightarrow> string result \<Rightarrow> instant \<Rightarrow> instant \<Rightarrow>
   checkout_input \<Rightarrow> 's \<Rightarrow> 's \<times> checkout result \<times> provider_request list \<times> checkout_note list" where
  "CreateCheckout url_Parse getOrder prepareCheckout provider saveSession env observer
     newPaymentID newAttemptID now1 now2 inp s =
     (case ValidateID (cin_OrderID inp) of Some e \<Rightarrow> (s, Inl (Sentinel ErrOrderNotFound), [], []) | None \<Rightarrow>
     (case ValidateIdempotencyKey (cin_IdempotencyKey inp) of Some e \<Rightarrow> (s, Inl e, [], []) | None \<Rightarrow>
     (case getOrder s (cin_OrderID inp) of Inl e \<Rightarrow> (s, Inl (wrap ''load checkout order'' e), [], []) | Inr ord \<Rightarrow>
      if order_Status ord \<noteq> OrderStatusPending then (s, Inl (Sentinel ErrOrderNotPayable), [], []) else
     (case newPaymentID of Inl e \<Rightarrow> (s, Inl e, [], []) | Inr paymentID \<Rightarrow>
     (case newAttemptID of Inl e \<Rightarrow> (s, Inl e, [], []) | Inr attemptID \<Rightarrow>
     (case Payment_New paymentID attemptID ord (cin_IdempotencyKey inp) now1 of
        Inl e \<Rightarrow> (s, Inl e, [], []) | Inr (payment0, attempt0) \<Rightarrow>
     (case prepareCheckout (env 0 s) payment0 attempt0 of
        (s1, Inl e) \<Rightarrow> (s1, Inl (wrap ''prepare checkout'' e), [],
          if observer \<and> errors_Is PaymentApp_ErrIdempotencyKeyConflict e then [CheckoutConflicted] else [])
      | (s1, Inr (payment, attempt)) \<Rightarrow>
        let replay = (if observer \<and> attempt_ID attempt \<noteq> attemptID then [CheckoutReplayed] else []) in
        if HasSession attempt then (s1, Inr (checkoutFromAttempt attempt), [], replay)
        else if order_Quantity ord = 0 then (s1, Inl (Panic ''integer divide by zero''), [], replay)
        else let req = provider_request_of ord payment attempt; answer = provider req;
                 called = replay @ (if observer
                   then [ProviderCalled (payment_Provider payment) ProviderOperationCreateCheckout
                           (case answer of Inl e \<Rightarrow> Some e | Inr _ \<Rightarrow> None)] else []) in
          (case answer of
             Inl e \<Rightarrow> (s1, Inl (Errorf [W (Sentinel ErrProviderUnavailable), T '': '', W e]), [req], called)
           | Inr session \<Rightarrow>
             (case AttachSession url_Parse attempt session now2 of
                Inl e \<Rightarrow> (s1, Inl (Errorf [W (Sentinel ErrProviderUnavailable),
                            T '': validate provider session: '', W e]), [req], called)
              | Inr attached \<Rightarrow>
                (case saveSession (env 1 s1) attached of
                   (s2, Some e) \<Rightarrow> (s2, Inl (wrap ''persist provider session'' e), [req], called)
                 | (s2, None) \<Rightarrow> (s2, Inr (checkoutFromAttempt attached), [req], called)))))))))))"

section \<open>The repository port\<close>

text \<open>What the checkout relies on. \<open>holds s p a\<close> says the store has the attempt \<open>a\<close> under the
  payment \<open>p\<close>. A prepared checkout belongs to the requested order, carries the requested key,
  and is in the store.\<close>

locale checkout_repository =
  fixes prepareCheckout :: "'s \<Rightarrow> payment \<Rightarrow> attempt \<Rightarrow> 's \<times> (payment \<times> attempt) result"
    and saveSession :: "'s \<Rightarrow> attempt \<Rightarrow> 's \<times> goerr option"
    and holds :: "'s \<Rightarrow> payment \<Rightarrow> attempt \<Rightarrow> bool"
    and inv :: "'s \<Rightarrow> bool"
  assumes prepare_ok:
    "inv s \<Longrightarrow> prepareCheckout s p0 a0 = (s', Inr (p, a)) \<Longrightarrow>
       payment_OrderID p = payment_OrderID p0 \<and> attempt_IdempotencyKey a = attempt_IdempotencyKey a0 \<and>
       attempt_PaymentID a = payment_ID p \<and> holds s' p a"
    and prepare_inv: "inv s \<Longrightarrow> prepareCheckout s p0 a0 = (s', r) \<Longrightarrow> inv s'"
    and save_keeps: "inv s \<Longrightarrow> saveSession s x = (s', e) \<Longrightarrow> inv s' \<and> (holds s p a \<longrightarrow> holds s' p a)"
begin

text \<open>The provider is called at most once, after the local attempt is durably reserved, and with
  the identifiers of that attempt, its payment and the order, and the client's key. The reservation
  outlives the call, however the rest of the use case ends.\<close>

lemma provider_call:
  assumes "inv (env 0 s)"
    and env1: "\<And>s p a. inv s \<Longrightarrow> inv (env 1 s) \<and> (holds s p a \<longrightarrow> holds (env 1 s) p a)"
    and "CreateCheckout up getOrder prepareCheckout provider saveSession env obs npid naid t1 t2 inp s =
           (s', r, reqs, ns)"
    and "req \<in> set reqs"
  shows "reqs = [req] \<and> (\<exists>ord p a. getOrder s (cin_OrderID inp) = Inr ord \<and>
           order_Status ord = OrderStatusPending \<and> 1 \<le> order_Quantity ord \<and> 0 < order_Amount ord \<and>
           req = provider_request_of ord p a \<and> payment_OrderID p = order_ID ord \<and>
           attempt_PaymentID a = payment_ID p \<and> attempt_IdempotencyKey a = cin_IdempotencyKey inp \<and>
           \<not> HasSession a \<and> holds s' p a)"
proof -
  from assms(3,4) obtain ord pid aid p0 a0 p a s1 where
    *: "getOrder s (cin_OrderID inp) = Inr ord" "order_Status ord = OrderStatusPending"
      "Payment_New pid aid ord (cin_IdempotencyKey inp) t1 = Inr (p0, a0)"
      "prepareCheckout (env 0 s) p0 a0 = (s1, Inr (p, a))" "\<not> HasSession a"
      "reqs = [provider_request_of ord p a]" "s' = s1 \<or> (\<exists>x e. saveSession (env 1 s1) x = (s', e))"
    by (auto simp: CreateCheckout_def Let_def
        split: option.splits sum.splits prod.splits if_splits) blast+
  have new: "1 \<le> order_Quantity ord" "0 < order_Amount ord" "payment_OrderID p0 = order_ID ord"
      "attempt_IdempotencyKey a0 = cin_IdempotencyKey inp"
    using *(3) by (auto simp: Payment_New_def ValidateQuantity_None split: if_splits)
  have "inv s1" "holds s1 p a"
    using prepare_ok [OF assms(1) *(4)] prepare_inv [OF assms(1) *(4)] by auto
  then have "holds s' p a" using *(7) env1 [of s1 p a] save_keeps by blast
  with new prepare_ok [OF assms(1) *(4)] * assms(4) show ?thesis by simp blast
qed

text \<open>A client that is redirected gets either the session its attempt already had, or one the
  provider just returned for this request and the store accepted.\<close>

lemma redirected:
  assumes "CreateCheckout up getOrder prepareCheckout provider saveSession env obs npid naid t1 t2 inp s =
           (s', Inr c, reqs, ns)"
  shows "(\<exists>s0 p0 a0 p a. prepareCheckout s0 p0 a0 = (s', Inr (p, a)) \<and> HasSession a \<and>
            c = checkoutFromAttempt a \<and> reqs = []) \<or>
         (\<exists>req ses a a' s1. reqs = [req] \<and> provider req = Inr ses \<and> AttachSession up a ses t2 = Inr a' \<and>
            saveSession s1 a' = (s', None) \<and> c = checkoutFromAttempt a')"
  using assms
  by (auto simp: CreateCheckout_def Let_def split: option.splits sum.splits prod.splits if_splits) blast+

end

end
