(* ===== verification/Payment_Repository.thy ===== *)
theory Payment_Repository
  imports Payment_Service Order_Repository Samples
begin

text \<open>
  \<^verbatim>\<open>postgres/models/payment.go\<close> and \<^verbatim>\<open>postgres/repositories/payments.go\<close>: the row conversions
  and the checkout repository, whose concurrency guarantees rest on the partial unique indexes.
\<close>

section \<open>Rows (models/payment.go)\<close>

definition PaymentFromDomain :: "payment \<Rightarrow> payment_row" where
  "PaymentFromDomain p =
     \<lparr>pay_ID = payment_ID p, pay_OrderID = payment_OrderID p, pay_Provider = payment_Provider p,
      pay_Status = payment_Status p, pay_Amount = payment_Amount p, pay_Currency = payment_Currency p,
      pay_CreatedAt = UTC (payment_CreatedAt p), pay_UpdatedAt = UTC (payment_UpdatedAt p)\<rparr>"

definition Payment_ToDomain :: "payment_row \<Rightarrow> payment" where
  "Payment_ToDomain r =
     \<lparr>payment_ID = pay_ID r, payment_OrderID = pay_OrderID r, payment_Provider = pay_Provider r,
      payment_Status = pay_Status r, payment_Amount = pay_Amount r, payment_Currency = pay_Currency r,
      payment_CreatedAt = UTC (pay_CreatedAt r), payment_UpdatedAt = UTC (pay_UpdatedAt r)\<rparr>"

definition nonempty :: "string \<Rightarrow> string option" where
  "nonempty s = (if s = [] then None else Some s)"

definition PaymentAttemptFromDomain :: "attempt \<Rightarrow> attempt_row" where
  "PaymentAttemptFromDomain a =
     \<lparr>att_ID = attempt_ID a, att_PaymentID = attempt_PaymentID a, att_Provider = attempt_Provider a,
      att_Status = attempt_Status a, att_IdempotencyKey = attempt_IdempotencyKey a,
      att_ProviderSessionID = nonempty (attempt_ProviderSessionID a),
      att_ProviderPaymentIntentID = nonempty (attempt_ProviderPaymentIntentID a),
      att_CheckoutUrl = nonempty (attempt_CheckoutURL a),
      att_ExpiresAt = (if IsZero (attempt_ExpiresAt a) then None else Some (UTC (attempt_ExpiresAt a))),
      att_FailureCode = None, att_FailureMessage = None,
      att_CreatedAt = UTC (attempt_CreatedAt a), att_UpdatedAt = UTC (attempt_UpdatedAt a)\<rparr>"

definition or_empty :: "string option \<Rightarrow> string" where
  "or_empty x = (case x of None \<Rightarrow> [] | Some s \<Rightarrow> s)"

definition PaymentAttempt_ToDomain :: "attempt_row \<Rightarrow> attempt" where
  "PaymentAttempt_ToDomain r =
     \<lparr>attempt_ID = att_ID r, attempt_PaymentID = att_PaymentID r, attempt_Provider = att_Provider r,
      attempt_Status = att_Status r, attempt_IdempotencyKey = att_IdempotencyKey r,
      attempt_ProviderSessionID = or_empty (att_ProviderSessionID r),
      attempt_ProviderPaymentIntentID = or_empty (att_ProviderPaymentIntentID r),
      attempt_CheckoutURL = or_empty (att_CheckoutUrl r),
      attempt_ExpiresAt = (case att_ExpiresAt r of None \<Rightarrow> 0 | Some t \<Rightarrow> UTC t),
      attempt_CreatedAt = UTC (att_CreatedAt r), attempt_UpdatedAt = UTC (att_UpdatedAt r)\<rparr>"

section \<open>The repository (repositories/payments.go)\<close>

definition findAttemptByKey :: "fault \<Rightarrow> string \<Rightarrow> database \<Rightarrow> attempt option result" where
  "findAttemptByKey f key w =
     (case in_tx f (\<lambda>w. Inr (find (\<lambda>r. att_IdempotencyKey r = key) (payment_attempts w), w)) w of
        Inl e \<Rightarrow> Inl (wrap ''find payment attempt'' e)
      | Inr (row, _) \<Rightarrow> Inr (map_option PaymentAttempt_ToDomain row))"

definition findPayment :: "fault \<Rightarrow> string \<Rightarrow> database \<Rightarrow> payment result" where
  "findPayment f i w =
     (case in_tx f (\<lambda>w. Inr (find (\<lambda>r. pay_ID r = i) (payments w), w)) w of
        Inl e \<Rightarrow> Inl (wrap ''find payment'' e)
      | Inr (None, _) \<Rightarrow> Inl (wrap ''find payment'' ErrRecordNotFound)
      | Inr (Some row, _) \<Rightarrow> Inr (Payment_ToDomain row))"

text \<open>Without a target, \<^verbatim>\<open>ON CONFLICT DO NOTHING\<close> yields to a conflict on any unique index of
  the table.\<close>

definition insert_payment :: "payment_row \<Rightarrow> nat stmt" where
  "insert_payment row db =
     insert_do_nothing (payment_check row)
       (list_ex (\<lambda>r. pay_ID r = pay_ID row \<or>
           payment_active r \<and> payment_active row \<and> pay_OrderID r = pay_OrderID row) (payments db)) 0 1
       (db\<lparr>payments := payments db @ [row]\<rparr>) db"

definition insert_attempt :: "attempt_row \<Rightarrow> nat stmt" where
  "insert_attempt row db =
     insert_do_nothing (attempt_check row)
       (list_ex (\<lambda>r. att_ID r = att_ID row \<or> att_IdempotencyKey r = att_IdempotencyKey row \<or>
           attempt_active r \<and> attempt_active row \<and> att_PaymentID r = att_PaymentID row \<or>
           has_session_id r \<and> session_key r = session_key row) (payment_attempts db)) 0 1
       (db\<lparr>payment_attempts := payment_attempts db @ [row]\<rparr>) db"

definition createOrGetActivePayment :: "faults \<Rightarrow> payment \<Rightarrow> database \<Rightarrow> (payment \<times> database) result" where
  "createOrGetActivePayment f payment w =
     (case in_tx (f 3) (insert_payment (PaymentFromDomain payment)) w of
        Inl e \<Rightarrow> Inl (wrap ''insert payment'' e)
      | Inr (n, w') \<Rightarrow>
          if n = 1 then Inr (payment, w')
          else (case in_tx (f 4) (\<lambda>w. Inr (find (\<lambda>r. pay_OrderID r = payment_OrderID payment \<and>
                        pay_Status r \<notin> {''failed'', ''cancelled''}) (payments w), w)) w' of
                  Inl e \<Rightarrow> Inl (wrap ''find active payment'' e)
                | Inr (None, _) \<Rightarrow> Inl (wrap ''find active payment'' ErrRecordNotFound)
                | Inr (Some existing, _) \<Rightarrow> Inr (Payment_ToDomain existing, w')))"

text \<open>What both lookups by key do with the attempt they found: the key must belong to the order.\<close>

definition existing_checkout :: "fault \<Rightarrow> payment \<Rightarrow> attempt \<Rightarrow> database \<Rightarrow> (payment \<times> attempt) result" where
  "existing_checkout f payment existingAttempt w =
     (case findPayment f (attempt_PaymentID existingAttempt) w of
        Inl e \<Rightarrow> Inl e
      | Inr existingPayment \<Rightarrow>
          if payment_OrderID existingPayment \<noteq> payment_OrderID payment
          then Inl (Sentinel PaymentApp_ErrIdempotencyKeyConflict)
          else Inr (existingPayment, existingAttempt))"

text \<open>\<^verbatim>\<open>prepareCheckout\<close>, run inside a transaction at the isolation level \<^verbatim>\<open>READ COMMITTED\<close>: the
  first lookup takes no lock, so other transactions may commit between it and the rest (\<open>env\<close>).\<close>

definition prepareCheckout ::
  "faults \<Rightarrow> (database \<Rightarrow> database) \<Rightarrow> payment \<Rightarrow> attempt \<Rightarrow> database \<Rightarrow> ((payment \<times> attempt) \<times> database) result" where
  "prepareCheckout f env payment attempt db =
     (case findAttemptByKey (f 1) (attempt_IdempotencyKey attempt) db of
        Inl e \<Rightarrow> Inl e
      | Inr (Some existing) \<Rightarrow>
          (case existing_checkout (f 2) payment existing (env db) of Inl e \<Rightarrow> Inl e | Inr r \<Rightarrow> Inr (r, env db))
      | Inr None \<Rightarrow>
          (case createOrGetActivePayment f payment (env db) of
             Inl e \<Rightarrow> Inl e
           | Inr (preparedPayment, w) \<Rightarrow>
               let row = (PaymentAttemptFromDomain attempt)\<lparr>att_PaymentID := payment_ID preparedPayment\<rparr> in
               (case in_tx (f 5) (insert_attempt row) w of
                  Inl e \<Rightarrow> Inl (wrap ''insert payment attempt'' e)
                | Inr (n, w') \<Rightarrow>
                    if n = 1 then Inr ((preparedPayment, PaymentAttempt_ToDomain row), w')
                    else (case findAttemptByKey (f 6) (attempt_IdempotencyKey attempt) w' of
                            Inl e \<Rightarrow> Inl e
                          | Inr (Some existing) \<Rightarrow>
                              (case existing_checkout (f 7) payment existing w' of
                                 Inl e \<Rightarrow> Inl e | Inr r \<Rightarrow> Inr (r, w'))
                          | Inr None \<Rightarrow> Inl (Sentinel ErrCheckoutInProgress)))))"

text \<open>\<^verbatim>\<open>PaymentRepository.PrepareCheckout\<close>: GORM's \<^verbatim>\<open>Transaction\<close> rolls back on any error.\<close>

definition PrepareCheckout ::
  "faults \<Rightarrow> (database \<Rightarrow> database) \<Rightarrow> database \<Rightarrow> payment \<Rightarrow> attempt \<Rightarrow> database \<times> (payment \<times> attempt) result" where
  "PrepareCheckout f env db payment attempt =
     (case begin_tx (f 0) of Some e \<Rightarrow> (db, Inl e) | None \<Rightarrow>
     (case prepareCheckout f env payment attempt db of
        Inl e \<Rightarrow> (env db, Inl e)
      | Inr (r, w) \<Rightarrow>
          (case commit_tx (f 8) (env db) w of (db', Some e) \<Rightarrow> (db', Inl e) | (db', None) \<Rightarrow> (db', Inr r))))"

definition update_session :: "attempt \<Rightarrow> nat stmt" where
  "update_session a db =
     (let p = (\<lambda>r. att_ID r = attempt_ID a \<and> att_Status r = AttemptStatusCreated) in
      exec_write (db\<lparr>payment_attempts := update_where p
          (\<lambda>r. r\<lparr>att_Status := attempt_Status a, att_ProviderSessionID := Some (attempt_ProviderSessionID a),
                 att_ProviderPaymentIntentID := nonempty (attempt_ProviderPaymentIntentID a),
                 att_CheckoutUrl := Some (attempt_CheckoutURL a),
                 att_ExpiresAt := Some (UTC (attempt_ExpiresAt a)),
                 att_UpdatedAt := UTC (attempt_UpdatedAt a)\<rparr>) (payment_attempts db)\<rparr>)
        (affected p (payment_attempts db)))"

text \<open>\<^verbatim>\<open>PaymentRepository.SaveSession\<close>: again two statements with other connections in between.\<close>

definition SaveSession ::
  "faults \<Rightarrow> (database \<Rightarrow> database) \<Rightarrow> database \<Rightarrow> attempt \<Rightarrow> database \<times> goerr option" where
  "SaveSession f env db a =
     (case autocommit (f 0) (update_session a) db of
        (db1, Inl e) \<Rightarrow> (db1, Some (wrap ''update payment attempt session'' e))
      | (db1, Inr n) \<Rightarrow>
          if n = 1 then (db1, None)
          else (case autocommit (f 1)
                    (\<lambda>w. Inr (find (\<lambda>r. att_ID r = attempt_ID a) (payment_attempts w), w)) (env db1) of
                  (db2, Inl e) \<Rightarrow> (db2, Some (wrap ''find updated payment attempt'' e))
                | (db2, Inr None) \<Rightarrow> (db2, Some (wrap ''find updated payment attempt'' ErrRecordNotFound))
                | (db2, Inr (Some existing)) \<Rightarrow>
                    if att_ProviderSessionID existing = Some (attempt_ProviderSessionID a) then (db2, None)
                    else (db2, Some (NewError ''payment attempt session changed concurrently''))))"

lemmas [repo_defs] = findAttemptByKey_def findPayment_def createOrGetActivePayment_def
  existing_checkout_def prepareCheckout_def PrepareCheckout_def SaveSession_def

section \<open>Properties\<close>

lemma safe_insert_payment [safe_intros]: "safe_stmt (insert_payment row)"
  unfolding insert_payment_def
  by (rule safe_stmtI, erule safe_insert_do_nothing) (simp_all add: evolves_insert)

lemma safe_insert_attempt [safe_intros]: "safe_stmt (insert_attempt row)"
  unfolding insert_attempt_def
  by (rule safe_stmtI, erule safe_insert_do_nothing) (simp_all add: evolves_insert)

lemma safe_update_session [safe_intros]: "safe_stmt (update_session a)"
  by (rule safe_stmtI) (auto simp: update_session_def Let_def exec_write_Inr intro!: evolves_attempts)

lemma createOrGetActivePayment_safe:
  "createOrGetActivePayment f p w = Inr (p', w') \<Longrightarrow> schema_ok w \<Longrightarrow> schema_ok w' \<and> evolves w w'"
  using safe_in_tx [OF safe_insert_payment]
  by (fastforce simp: createOrGetActivePayment_def split: sum.splits prod.splits option.splits if_splits)

lemma prepareCheckout_safe:
  assumes "schema_ok (env db)" and "prepareCheckout f env p a db = Inr (r, w)"
  shows "schema_ok w \<and> evolves (env db) w"
proof -
  from assms(2) consider "w = env db"
    | p1 w1 row n where "createOrGetActivePayment f p (env db) = Inr (p1, w1)"
        "in_tx (f 5) (insert_attempt row) w1 = Inr (n, w)"
    by (fastforce simp: prepareCheckout_def Let_def split: sum.splits prod.splits option.splits if_splits)
  then show ?thesis
  proof cases
    case 2
    from createOrGetActivePayment_safe [OF 2(1) assms(1)]
    have "schema_ok w1" "evolves (env db) w1" by auto
    with safe_in_tx [OF safe_insert_attempt _ 2(2)] show ?thesis by (blast intro: evolves_trans)
  qed (use assms(1) in auto)
qed

lemma PrepareCheckout_safe:
  assumes "schema_ok db" and "schema_ok (env db) \<and> evolves db (env db)"
    and "PrepareCheckout f env db p a = (db', r)"
  shows "schema_ok db' \<and> evolves db db'"
proof -
  from assms(3) consider "db' = db" | "db' = env db" | x w where "prepareCheckout f env p a db = Inr (x, w)" "db' = w"
    by (auto simp: PrepareCheckout_def split: option.splits sum.splits prod.splits dest: commit_tx_cases)
  then show ?thesis
  proof cases
    case 3
    with prepareCheckout_safe [OF _ 3(1)] assms(2) show ?thesis by (blast intro: evolves_trans)
  qed (use assms in auto)
qed

lemma SaveSession_safe:
  assumes "schema_ok db" and "\<And>d. schema_ok d \<Longrightarrow> schema_ok (env d) \<and> evolves d (env d)"
    and "SaveSession f env db a = (db', r)"
  shows "schema_ok db' \<and> evolves db db'"
proof -
  let ?sel = "\<lambda>w. Inr (find (\<lambda>r. att_ID r = attempt_ID a) (payment_attempts w), w) :: (attempt_row option \<times> database) result"
  obtain db1 r1 where 1: "autocommit (f 0) (update_session a) db = (db1, r1)" by fastforce
  note s1 = safe_autocommit [OF safe_update_session assms(1) 1]
  obtain db2 r2 where 2: "autocommit (f 1) ?sel (env db1) = (db2, r2)" by fastforce
  have s2: "schema_ok db2 \<and> evolves (env db1) db2"
    using assms(2) [of db1] s1 by (intro safe_autocommit [OF safe_read _ 2]) auto
  have "db' = db1 \<or> db' = db2"
    using assms(3) 1 2 by (auto simp: SaveSession_def split: sum.splits option.splits if_splits)
  then show ?thesis using s1 s2 assms(2) [of db1] by (blast intro: evolves_trans)
qed

text \<open>The tables hold an attempt under a payment, by the columns that never change.\<close>

definition holds_checkout :: "database \<Rightarrow> payment \<Rightarrow> attempt \<Rightarrow> bool" where
  "holds_checkout db p a \<longleftrightarrow>
     (\<exists>pr \<in> set (payments db). \<exists>ar \<in> set (payment_attempts db).
        pay_ID pr = payment_ID p \<and> pay_OrderID pr = payment_OrderID p \<and> pay_Amount pr = payment_Amount p \<and>
        pay_Currency pr = payment_Currency p \<and> att_ID ar = attempt_ID a \<and> att_PaymentID ar = pay_ID pr \<and>
        att_IdempotencyKey ar = attempt_IdempotencyKey a)"

lemma payment_roundtrip [simp]: "Payment_ToDomain (PaymentFromDomain p) = p"
  by (cases p) (simp add: Payment_ToDomain_def PaymentFromDomain_def)

lemma attempt_roundtrip [simp]: "PaymentAttempt_ToDomain (PaymentAttemptFromDomain a) = a"
  by (cases a) (simp add: PaymentAttempt_ToDomain_def PaymentAttemptFromDomain_def or_empty_def nonempty_def)

lemma insert_payment_cases:
  "insert_payment row db = Inr (n, db') \<Longrightarrow> n = 0 \<and> db' = db \<or> n = 1 \<and> db' = db\<lparr>payments := payments db @ [row]\<rparr>"
  by (auto simp: insert_payment_def insert_do_nothing_def exec_write_Inr split: if_splits)

lemma insert_attempt_cases:
  "insert_attempt row db = Inr (n, db') \<Longrightarrow>
     n = 0 \<and> db' = db \<or> n = 1 \<and> db' = db\<lparr>payment_attempts := payment_attempts db @ [row]\<rparr>"
  by (auto simp: insert_attempt_def insert_do_nothing_def exec_write_Inr split: if_splits)

lemma createOrGetActivePayment_ok:
  assumes "createOrGetActivePayment f p w = Inr (p', w')"
  shows "\<exists>pr \<in> set (payments w'). p' = Payment_ToDomain pr \<and> pay_OrderID pr = payment_OrderID p \<and>
           payment_attempts w' = payment_attempts w"
proof -
  from assms obtain n w1 where ins: "in_tx (f 3) (insert_payment (PaymentFromDomain p)) w = Inr (n, w1)"
    by (cases "in_tx (f 3) (insert_payment (PaymentFromDomain p)) w") (auto simp: createOrGetActivePayment_def)
  then have row: "insert_payment (PaymentFromDomain p) w = Inr (n, w1)" by (simp add: in_tx_Inr)
  show ?thesis
  proof (cases "n = 1")
    case True
    with assms ins have "p' = p" "w' = w1" by (simp_all add: createOrGetActivePayment_def)
    moreover have "pay_OrderID (PaymentFromDomain p) = payment_OrderID p" by (simp add: PaymentFromDomain_def)
    ultimately show ?thesis
      using insert_payment_cases [OF row] True by (intro bexI [of _ "PaymentFromDomain p"]) auto
  next
    case False
    with assms ins obtain r where "w' = w1" "p' = Payment_ToDomain r"
        "find (\<lambda>r. pay_OrderID r = payment_OrderID p \<and> pay_Status r \<notin> {''failed'', ''cancelled''}) (payments w1) = Some r"
      by (auto simp: createOrGetActivePayment_def in_tx_def split: fault.splits option.splits)
    with insert_payment_cases [OF row] False show ?thesis by (auto dest: find_SomeD)
  qed
qed

lemma existing_checkout_ok:
  assumes "existing_checkout f p a w = Inr (p', a')"
  shows "a' = a \<and> payment_OrderID p' = payment_OrderID p \<and>
         (\<exists>pr \<in> set (payments w). p' = Payment_ToDomain pr \<and> pay_ID pr = attempt_PaymentID a)"
  using assms
  by (auto simp: existing_checkout_def findPayment_def in_tx_def
      split: sum.splits option.splits prod.splits if_splits fault.splits dest!: find_SomeD)

lemma findAttemptByKey_ok:
  "findAttemptByKey f k w = Inr (Some a) \<Longrightarrow>
     \<exists>ar \<in> set (payment_attempts w). a = PaymentAttempt_ToDomain ar \<and> att_IdempotencyKey ar = k"
  by (auto simp: findAttemptByKey_def in_tx_def split: sum.splits prod.splits fault.splits dest!: find_SomeD)

lemma holds_checkoutI:
  assumes "pr \<in> set (payments db)" and "ar \<in> set (payment_attempts db)" and "att_PaymentID ar = pay_ID pr"
    and "attempt_identity ar = attempt_identity ar'"
  shows "holds_checkout db (Payment_ToDomain pr) (PaymentAttempt_ToDomain ar')"
  using assms by (fastforce simp: holds_checkout_def Payment_ToDomain_def PaymentAttempt_ToDomain_def)

text \<open>Whoever wins the race between the first lookup and the inserts, a prepared checkout is the
  one the tables hold for this order and key.\<close>

lemma prepareCheckout_ok:
  assumes "evolves db (env db)" and "prepareCheckout f env p0 a0 db = Inr ((p, a), w)"
  shows "payment_OrderID p = payment_OrderID p0 \<and> attempt_IdempotencyKey a = attempt_IdempotencyKey a0 \<and>
         attempt_PaymentID a = payment_ID p \<and> holds_checkout w p a"
proof -
  let ?row = "\<lambda>p1. (PaymentAttemptFromDomain a0)\<lparr>att_PaymentID := payment_ID p1\<rparr>"
  from assms(2) consider
      (found) x where "findAttemptByKey (f 1) (attempt_IdempotencyKey a0) db = Inr (Some x)"
        "existing_checkout (f 2) p0 x (env db) = Inr (p, a)" "w = env db"
    | (new) p1 w1 where "createOrGetActivePayment f p0 (env db) = Inr (p1, w1)"
        "insert_attempt (?row p1) w1 = Inr (1, w)" "p = p1" "a = PaymentAttempt_ToDomain (?row p1)"
    | (raced) x where "findAttemptByKey (f 6) (attempt_IdempotencyKey a0) w = Inr (Some x)"
        "existing_checkout (f 7) p0 x w = Inr (p, a)"
    by (fastforce simp: prepareCheckout_def Let_def in_tx_def
        split: sum.splits prod.splits option.splits if_splits fault.splits)
  then show ?thesis
  proof cases
    case found
    obtain ar where ar: "ar \<in> set (payment_attempts db)" "x = PaymentAttempt_ToDomain ar"
        "att_IdempotencyKey ar = attempt_IdempotencyKey a0"
      using findAttemptByKey_ok [OF found(1)] by auto
    obtain ar' where ar': "ar' \<in> set (payment_attempts w)" "attempt_identity ar' = attempt_identity ar"
      using assms(1) ar(1) found(3) unfolding evolves_def by (blast dest: keepsD)
    obtain pr where pr: "pr \<in> set (payments w)" "p = Payment_ToDomain pr" "pay_ID pr = attempt_PaymentID x"
        "a = x" "payment_OrderID p = payment_OrderID p0"
      using existing_checkout_ok [OF found(2)] found(3) by auto
    with ar ar' holds_checkoutI [OF pr(1) ar'(1) _ ar'(2)] show ?thesis
      by (auto simp: PaymentAttempt_ToDomain_def Payment_ToDomain_def)
  next
    case new
    obtain pr where pr: "pr \<in> set (payments w1)" "p1 = Payment_ToDomain pr" "pay_OrderID pr = payment_OrderID p0"
      using createOrGetActivePayment_ok [OF new(1)] by auto
    have "w = w1\<lparr>payment_attempts := payment_attempts w1 @ [?row p1]\<rparr>"
      using insert_attempt_cases [OF new(2)] by simp
    with new pr holds_checkoutI [of pr w "?row p1" "?row p1"] show ?thesis
      by (auto simp: PaymentAttempt_ToDomain_def Payment_ToDomain_def PaymentAttemptFromDomain_def)
  next
    case raced
    obtain ar where ar: "ar \<in> set (payment_attempts w)" "x = PaymentAttempt_ToDomain ar"
        "att_IdempotencyKey ar = attempt_IdempotencyKey a0"
      using findAttemptByKey_ok [OF raced(1)] by auto
    obtain pr where pr: "pr \<in> set (payments w)" "p = Payment_ToDomain pr" "pay_ID pr = attempt_PaymentID x"
        "a = x" "payment_OrderID p = payment_OrderID p0"
      using existing_checkout_ok [OF raced(2)] by auto
    with ar holds_checkoutI [OF pr(1) ar(1) _ refl] show ?thesis
      by (auto simp: PaymentAttempt_ToDomain_def Payment_ToDomain_def)
  qed
qed

lemma PrepareCheckout_Inr:
  "PrepareCheckout f env db p0 a0 = (db', Inr r) \<Longrightarrow> prepareCheckout f env p0 a0 db = Inr (r, db')"
  by (auto simp: PrepareCheckout_def commit_tx_def split: option.splits sum.splits prod.splits fault.splits)

text \<open>Others may act inside the transaction as long as they keep the schema and only evolve the
  tables, as every operation of the program does.\<close>

definition well_behaved :: "(database \<Rightarrow> database) \<Rightarrow> bool" where
  "well_behaved env \<longleftrightarrow> (\<forall>d. schema_ok d \<longrightarrow> schema_ok (env d) \<and> evolves d (env d))"

lemma well_behaved_id [simp]: "well_behaved (\<lambda>d. d)"
  by (simp add: well_behaved_def)

abbreviation tamed :: "(database \<Rightarrow> database) \<Rightarrow> database \<Rightarrow> database" where
  "tamed env \<equiv> (if well_behaved env then env else (\<lambda>d. d))"

lemma tamed_ok: "schema_ok d \<Longrightarrow> schema_ok (tamed env d) \<and> evolves d (tamed env d)"
  by (auto simp: well_behaved_def)

lemma holds_checkout_evolves:
  assumes "schema_ok db'" and "holds_checkout db p a" and "evolves db db'"
  shows "holds_checkout db' p a"
proof -
  from assms(2) obtain pr ar where *: "pr \<in> set (payments db)" "ar \<in> set (payment_attempts db)"
      "pay_ID pr = payment_ID p" "pay_OrderID pr = payment_OrderID p" "pay_Amount pr = payment_Amount p"
      "pay_Currency pr = payment_Currency p" "att_ID ar = attempt_ID a" "att_PaymentID ar = pay_ID pr"
      "att_IdempotencyKey ar = attempt_IdempotencyKey a"
    by (auto simp: holds_checkout_def)
  obtain pr' ar' where "pr' \<in> set (payments db')" "payment_identity pr' = payment_identity pr"
      "ar' \<in> set (payment_attempts db')" "attempt_identity ar' = attempt_identity ar"
    using assms(3) *(1,2) unfolding evolves_def by (blast dest: keepsD)
  with * show ?thesis unfolding holds_checkout_def by (intro bexI [of _ pr'] bexI [of _ ar']) auto
qed

interpretation checkout_store: checkout_repository
  "PrepareCheckout f (tamed env)" "SaveSession g (tamed env')" holds_checkout schema_ok for f g env env'
proof
  fix s p0 a0 s' p a r x e
  show "schema_ok s \<Longrightarrow> PrepareCheckout f (tamed env) s p0 a0 = (s', r) \<Longrightarrow> schema_ok s'"
    using PrepareCheckout_safe [of s "tamed env" f p0 a0 s' r] tamed_ok [of s env] by simp
  show "schema_ok s' \<and> (holds_checkout s p a \<longrightarrow> holds_checkout s' p a)"
    if "schema_ok s" "SaveSession g (tamed env') s x = (s', e)"
    using SaveSession_safe [OF that(1) tamed_ok that(2)] holds_checkout_evolves [of s' s p a] by blast
  assume "schema_ok s" "PrepareCheckout f (tamed env) s p0 a0 = (s', Inr (p, a))"
  with prepareCheckout_ok [of s "tamed env" f p0 a0 p a s'] tamed_ok [of s env]
    PrepareCheckout_Inr [of f "tamed env" s p0 a0 s' "(p, a)"]
  show "payment_OrderID p = payment_OrderID p0 \<and> attempt_IdempotencyKey a = attempt_IdempotencyKey a0 \<and>
       attempt_PaymentID a = payment_ID p \<and> holds_checkout s' p a"
    by blast
qed



text \<open>A payment and an attempt as \<^verbatim>\<open>payments.New\<close> builds them, and the rows that can be added for
  them.\<close>

lemma insert_payment_fresh:
  assumes "schema_ok db" and "payment_check row" and "pay_ID row \<notin> pay_ID ` set (payments db)"
    and "\<forall>r \<in> set (payments db). payment_active r \<longrightarrow> pay_OrderID r \<noteq> pay_OrderID row"
    and "q \<in> set (orders db)" "ord_ID q = pay_OrderID row" "ord_Amount q = pay_Amount row"
        "ord_Currency q = pay_Currency row"
  shows "insert_payment row db = Inr (1, db\<lparr>payments := payments db @ [row]\<rparr>) \<and>
         schema_ok (db\<lparr>payments := payments db @ [row]\<rparr>)"
proof -
  have "schema_ok (db\<lparr>payments := payments db @ [row]\<rparr>)"
    using assms by (auto simp: schema_ok_def table_ok_defs unique_on_append1 list_all_iff list_ex_iff image_iff)
  moreover have "\<not> list_ex (\<lambda>r. pay_ID r = pay_ID row \<or>
      payment_active r \<and> payment_active row \<and> pay_OrderID r = pay_OrderID row) (payments db)"
    using assms(3,4) by (auto simp: list_ex_iff image_iff)
  ultimately show ?thesis using assms(2) by (simp add: insert_payment_def insert_do_nothing_def)
qed

lemma insert_attempt_fresh:
  assumes "schema_ok db" and "attempt_check row" and "att_ID row \<notin> att_ID ` set (payment_attempts db)"
    and "att_IdempotencyKey row \<notin> att_IdempotencyKey ` set (payment_attempts db)"
    and "\<forall>r \<in> set (payment_attempts db). attempt_active r \<longrightarrow> att_PaymentID r \<noteq> att_PaymentID row"
    and "att_ProviderSessionID row = None"
    and "p \<in> set (payments db)" "pay_ID p = att_PaymentID row" "pay_Provider p = att_Provider row"
  shows "insert_attempt row db = Inr (1, db\<lparr>payment_attempts := payment_attempts db @ [row]\<rparr>)"
proof -
  have "schema_ok (db\<lparr>payment_attempts := payment_attempts db @ [row]\<rparr>)"
    using assms by (auto simp: schema_ok_def table_ok_defs unique_on_append1 list_all_iff list_ex_iff image_iff)
  moreover have "\<not> list_ex (\<lambda>r. att_ID r = att_ID row \<or> att_IdempotencyKey r = att_IdempotencyKey row \<or>
           attempt_active r \<and> attempt_active row \<and> att_PaymentID r = att_PaymentID row \<or>
           has_session_id r \<and> session_key r = session_key row) (payment_attempts db)"
    using assms(3-6) by (auto simp: list_ex_iff image_iff)
  ultimately show ?thesis using assms(2) by (simp add: insert_attempt_def insert_do_nothing_def)
qed

lemma Payment_New_rows:
  assumes "Payment_New pid aid ord k now = Inr (p0, a0)"
  shows "payment_OrderID p0 = order_ID ord \<and> payment_ID p0 = pid \<and> payment_Amount p0 = order_Amount ord \<and>
         payment_Currency p0 = order_Currency ord \<and> payment_Status p0 = PaymentStatusPending \<and>
         attempt_ID a0 = aid \<and> attempt_IdempotencyKey a0 = k \<and> attempt_Status a0 = AttemptStatusCreated \<and>
         attempt_Provider a0 = Stripe \<and> payment_Provider p0 = Stripe \<and> attempt_PaymentID a0 = pid \<and>
         0 < order_Amount ord \<and> Currency_Valid (order_Currency ord) \<and> attempt_ProviderSessionID a0 = []"
  using assms by (auto simp: Payment_New_def split: if_splits)

text \<open>
  Checkout is idempotent in its key. When the key already names an attempt, preparing a
  checkout again, with any freshly generated identifiers, changes nothing: it returns that attempt
  and its payment if they belong to the requested order, and the idempotency conflict if not.
\<close>

theorem PrepareCheckout_replay:
  assumes "schema_ok db" and "ar \<in> set (payment_attempts db)" and "pr \<in> set (payments db)"
    and "att_IdempotencyKey ar = attempt_IdempotencyKey a0" and "att_PaymentID ar = pay_ID pr"
  shows "PrepareCheckout no_faults (\<lambda>d. d) db p0 a0 =
         (db, if pay_OrderID pr = payment_OrderID p0
              then Inr (Payment_ToDomain pr, PaymentAttempt_ToDomain ar)
              else Inl (Sentinel PaymentApp_ErrIdempotencyKeyConflict))"
proof -
  have "find (\<lambda>r. att_IdempotencyKey r = attempt_IdempotencyKey a0) (payment_attempts db) = Some ar"
    using find_unique [OF schema_okD(6) [OF assms(1)] assms(2)] assms(4) by simp
  moreover have "find (\<lambda>r. pay_ID r = att_PaymentID ar) (payments db) = Some pr"
    using find_unique [OF schema_okD(3) [OF assms(1)] assms(3)] assms(5) by simp
  ultimately show ?thesis
    by (simp add: repo_defs) (simp add: PaymentAttempt_ToDomain_def Payment_ToDomain_def)
qed

theorem PrepareCheckout_replay_witness:
  "PrepareCheckout no_faults (\<lambda>d. d) sample_db ((Payment_ToDomain sample_payment)\<lparr>payment_ID := ''pay_2''\<rparr>)
     ((PaymentAttempt_ToDomain sample_attempt)\<lparr>attempt_ID := ''pat_2''\<rparr>) =
   (sample_db, Inr (Payment_ToDomain sample_payment, PaymentAttempt_ToDomain sample_attempt))"
  using PrepareCheckout_replay [OF sample_ok, of sample_attempt sample_payment
      "(PaymentAttempt_ToDomain sample_attempt)\<lparr>attempt_ID := ''pat_2''\<rparr>"
      "(Payment_ToDomain sample_payment)\<lparr>payment_ID := ''pay_2''\<rparr>"]
  by (simp add: PaymentAttempt_ToDomain_def Payment_ToDomain_def) (simp add: sample_defs)

lemma payment_row_new:
  assumes "Payment_New pid aid ord k now = Inr (p0, a0)" and "order_Amount ord \<le> MaxInt64"
  shows "pay_ID (PaymentFromDomain p0) = pid \<and> pay_OrderID (PaymentFromDomain p0) = order_ID ord \<and>
         pay_Provider (PaymentFromDomain p0) = Stripe \<and> payment_active (PaymentFromDomain p0) \<and>
         payment_check (PaymentFromDomain p0) \<and> pay_Amount (PaymentFromDomain p0) = order_Amount ord \<and>
         pay_Currency (PaymentFromDomain p0) = order_Currency ord"
  using Payment_New_rows [OF assms(1)] assms(2)
  by (auto simp: PaymentFromDomain_def payment_active_def payment_check_def int8_def MaxInt64_def)

lemma attempt_row_new:
  fixes i :: string
  assumes "Payment_New pid aid ord k now = Inr (p0, a0)"
  defines "row \<equiv> (PaymentAttemptFromDomain a0)\<lparr>att_PaymentID := i\<rparr>"
  shows "att_ID row = aid \<and> att_IdempotencyKey row = k \<and> att_Provider row = Stripe \<and> attempt_active row \<and>
         attempt_check row \<and> att_ProviderSessionID row = None \<and> att_PaymentID row = i \<and>
         PaymentAttempt_ToDomain row = a0\<lparr>attempt_PaymentID := i\<rparr>"
  using Payment_New_rows [OF assms(1)] unfolding row_def
  by (cases a0) (auto simp: PaymentAttemptFromDomain_def attempt_active_def attempt_check_def nonempty_def
      PaymentAttempt_ToDomain_def or_empty_def)

lemma find_active_payment:
  "find (\<lambda>r. pay_OrderID r = i \<and> pay_Status r \<notin> {''failed'', ''cancelled''}) t =
   find (\<lambda>r. pay_OrderID r = i \<and> payment_active r) t"
  by (rule arg_cong2 [where f = find])
    (auto simp: payment_active_def PaymentStatusFailed_def PaymentStatusCancelled_def fun_eq_iff)

text \<open>The second half of the operation, once the payment is known: the attempt is added unless the
  payment has an open one.\<close>

lemma prepareCheckout_attempt:
  assumes "schema_ok w" and "Payment_New pid aid ord k now = Inr (p0, a0)"
    and "createOrGetActivePayment no_faults p0 db = Inr (p, w)"
    and "pr \<in> set (payments w)" "pay_ID pr = payment_ID p" "pay_Provider pr = Stripe"
    and "k \<notin> att_IdempotencyKey ` set (payment_attempts db)" "aid \<notin> att_ID ` set (payment_attempts db)"
    and "payment_attempts w = payment_attempts db"
  shows "prepareCheckout no_faults (\<lambda>d. d) p0 a0 db =
    (if list_ex (\<lambda>r. att_PaymentID r = payment_ID p \<and> attempt_active r) (payment_attempts db)
     then Inl (Sentinel ErrCheckoutInProgress)
     else Inr ((p, a0\<lparr>attempt_PaymentID := payment_ID p\<rparr>), w\<lparr>payment_attempts := payment_attempts db @
                   [(PaymentAttemptFromDomain a0)\<lparr>att_PaymentID := payment_ID p\<rparr>]\<rparr>))"
proof -
  let ?row = "(PaymentAttemptFromDomain a0)\<lparr>att_PaymentID := payment_ID p\<rparr>"
  note rf = attempt_row_new [OF assms(2), of "payment_ID p"]
  have nokey: "find (\<lambda>r. att_IdempotencyKey r = attempt_IdempotencyKey a0) (payment_attempts db) = None"
    using assms(7) Payment_New_rows [OF assms(2)] by (auto simp: find_None_iff image_iff)
  show ?thesis
  proof (cases "list_ex (\<lambda>r. att_PaymentID r = payment_ID p \<and> attempt_active r) (payment_attempts db)")
    case True
    then have "insert_attempt ?row w = Inr (0, w)"
      using rf assms(9) by (auto simp: insert_attempt_def insert_do_nothing_def list_ex_iff)
    with True assms(3,9) nokey show ?thesis by (simp add: prepareCheckout_def findAttemptByKey_def)
  next
    case False
    then have "insert_attempt ?row w = Inr (1, w\<lparr>payment_attempts := payment_attempts w @ [?row]\<rparr>)"
      using insert_attempt_fresh [OF assms(1), of ?row pr] assms(4-9) rf by (auto simp: list_ex_iff)
    with False assms(3,9) nokey rf show ?thesis by (simp add: prepareCheckout_def findAttemptByKey_def)
  qed
qed

text \<open>
  A new key. For an order whose payments are Stripe's, with freshly generated identifiers and
  a key no attempt carries: if the order has no live payment, a payment and an attempt are added;
  if it has one without an open attempt, only an attempt is added, under that payment; and if an
  attempt is open, nothing changes and the checkout is refused as already in progress.
\<close>

theorem PrepareCheckout_new_key:
  assumes "schema_ok db" and "Payment_New pid aid ord k now = Inr (p0, a0)"
    and "q \<in> set (orders db)" "order_ID ord = ord_ID q" "order_Amount ord = ord_Amount q" "order_Currency ord = ord_Currency q"
    and "order_Amount ord \<le> MaxInt64"
    and "pid \<notin> pay_ID ` set (payments db)" "aid \<notin> att_ID ` set (payment_attempts db)"
    and "k \<notin> att_IdempotencyKey ` set (payment_attempts db)"
    and "\<forall>r \<in> set (payments db). pay_Provider r = Stripe"
  shows "PrepareCheckout no_faults (\<lambda>d. d) db p0 a0 =
    (case find (\<lambda>r. pay_OrderID r = order_ID ord \<and> payment_active r) (payments db) of
       None \<Rightarrow> (db\<lparr>payments := payments db @ [PaymentFromDomain p0],
                  payment_attempts := payment_attempts db @ [PaymentAttemptFromDomain a0]\<rparr>, Inr (p0, a0))
     | Some pr \<Rightarrow>
         if list_ex (\<lambda>r. att_PaymentID r = pay_ID pr \<and> attempt_active r) (payment_attempts db)
         then (db, Inl (Sentinel ErrCheckoutInProgress))
         else (db\<lparr>payment_attempts := payment_attempts db @
                   [(PaymentAttemptFromDomain a0)\<lparr>att_PaymentID := pay_ID pr\<rparr>]\<rparr>,
               Inr (Payment_ToDomain pr, a0\<lparr>attempt_PaymentID := pay_ID pr\<rparr>)))"
proof (cases "find (\<lambda>r. pay_OrderID r = order_ID ord \<and> payment_active r) (payments db)")
  case None
  let ?prow = "PaymentFromDomain p0" and ?db1 = "db\<lparr>payments := payments db @ [PaymentFromDomain p0]\<rparr>"
  note pf = payment_row_new [OF assms(2,7)] and new = Payment_New_rows [OF assms(2)]
  have none: "\<forall>r \<in> set (payments db). payment_active r \<longrightarrow> pay_OrderID r \<noteq> order_ID ord"
    using None by (auto simp: find_None_iff)
  have "insert_payment ?prow db = Inr (1, ?db1) \<and> schema_ok ?db1"
    by (rule insert_payment_fresh [OF assms(1), of ?prow q]) (use assms(3-6,8) pf none in simp_all)
  then have 1: "insert_payment ?prow db = Inr (1, ?db1)" "schema_ok ?db1" by auto
  then have c: "createOrGetActivePayment no_faults p0 db = Inr (p0, ?db1)"
    by (simp add: createOrGetActivePayment_def)
  have "\<not> list_ex (\<lambda>r. att_PaymentID r = payment_ID p0 \<and> attempt_active r) (payment_attempts db)"
    using attempt_has_payment [OF assms(1)] assms(8) new by (force simp: list_ex_iff image_iff)
  moreover have "a0\<lparr>attempt_PaymentID := payment_ID p0\<rparr> = a0"
      "(PaymentAttemptFromDomain a0)\<lparr>att_PaymentID := payment_ID p0\<rparr> = PaymentAttemptFromDomain a0"
    using new by (simp_all add: PaymentAttemptFromDomain_def)
  ultimately show ?thesis
    using prepareCheckout_attempt [OF 1(2) assms(2) c, of ?prow] None pf new assms(9,10)
    by (simp add: PrepareCheckout_def)
next
  case (Some pr)
  then have pr: "pr \<in> set (payments db)" "pay_OrderID pr = order_ID ord" "payment_active pr"
    by (auto dest: find_SomeD)
  have "insert_payment (PaymentFromDomain p0) db = Inr (0, db)"
    using pr payment_row_new [OF assms(2,7)] by (auto simp: insert_payment_def insert_do_nothing_def list_ex_iff)
  then have c: "createOrGetActivePayment no_faults p0 db = Inr (Payment_ToDomain pr, db)"
    using Some Payment_New_rows [OF assms(2)] find_active_payment [of "order_ID ord" "payments db"]
    by (simp add: createOrGetActivePayment_def)
  have "payment_ID (Payment_ToDomain pr) = pay_ID pr" by (simp add: Payment_ToDomain_def)
  then show ?thesis
    using prepareCheckout_attempt [OF assms(1,2) c pr(1)] Some pr assms(9-11)
    by (simp add: PrepareCheckout_def)
qed

lemma TrimSpace_ids [simp]: "TrimSpace ''pay_2'' = ''pay_2''" "TrimSpace ''pat_2'' = ''pat_2''" "TrimSpace ''k3'' = ''k3''"
  by (rule TrimSpace_plain; auto simp: plain_char_def)+

lemma sample_Payment_New:
  "\<exists>p0 a0. Payment_New ''pay_2'' ''pat_2'' (Order_ToDomain sample_order) ''k3'' 7 = Inr (p0, a0)"
  by (simp add: Payment_New_def Order_ToDomain_def sample_order_def ValidateQuantity_def order_limits
      ValidateIdempotencyKey_def)

theorem PrepareCheckout_new_key_witness:
  "\<exists>p0 a0. Payment_New ''pay_2'' ''pat_2'' (Order_ToDomain sample_order) ''k3'' 7 = Inr (p0, a0) \<and>
     PrepareCheckout no_faults (\<lambda>d. d) sample_db p0 a0 = (sample_db, Inl (Sentinel ErrCheckoutInProgress))"
proof -
  obtain p0 a0 where 1: "Payment_New ''pay_2'' ''pat_2'' (Order_ToDomain sample_order) ''k3'' 7 = Inr (p0, a0)"
    using sample_Payment_New by auto
  with PrepareCheckout_new_key [OF sample_ok 1, of sample_order]
  have "PrepareCheckout no_faults (\<lambda>d. d) sample_db p0 a0 = (sample_db, Inl (Sentinel ErrCheckoutInProgress))"
    by (simp add: Order_ToDomain_def sample_order_def sample_payment_def sample_attempt_def MaxInt64_def
        payment_active_def attempt_active_def)
  with 1 show ?thesis by blast
qed

text \<open>
  The provider is asked for the order's own money, once. Whatever faults and well-behaved
  interference the checkout meets, if the provider was called it was called once, for a pending
  order of the tables, with that order's quantity and currency and its amount divided by the
  quantity (exactly its amount when the quantity divides it), under the client's key, and for an
  attempt and payment of that order that the tables hold when the use case returns.
\<close>

theorem CreateCheckout_provider_call:
  assumes "schema_ok db" and "well_behaved (env 0)" "well_behaved (env 1)" "well_behaved env1" "well_behaved env2"
    and "CreateCheckout up (\<lambda>d i. Orders_Get (OrderRepository_Get f) i d) (PrepareCheckout f1 env1) provider
           (SaveSession f2 env2) env obs npid naid t1 t2 inp db = (db', r, reqs, ns)"
    and "req \<in> set reqs"
  shows "reqs = [req] \<and> req_IdempotencyKey req = cin_IdempotencyKey inp \<and>
         (\<exists>q \<in> set (orders db). ord_ID q = cin_OrderID inp \<and> ord_Status q = OrderStatusPending \<and>
            req_OrderID req = ord_ID q \<and> req_Quantity req = ord_Quantity q \<and> req_Currency req = ord_Currency q \<and>
            req_UnitAmount req = ord_Amount q div ord_Quantity q \<and>
            (ord_Quantity q dvd ord_Amount q \<longrightarrow> req_UnitAmount req * req_Quantity req = ord_Amount q) \<and>
            (\<exists>pr \<in> set (payments db'). \<exists>ar \<in> set (payment_attempts db').
               pay_ID pr = req_PaymentID req \<and> pay_OrderID pr = ord_ID q \<and> att_ID ar = req_AttemptID req \<and>
               att_PaymentID ar = pay_ID pr \<and> att_IdempotencyKey ar = req_IdempotencyKey req))"
proof -
  have keep: "schema_ok (env 1 s) \<and> (holds_checkout s p a \<longrightarrow> holds_checkout (env 1 s) p a)" if "schema_ok s" for s p a
    using that assms(3) holds_checkout_evolves [of "env 1 s" s p a] by (auto simp: well_behaved_def)
  have start: "schema_ok (env 0 db)" using assms(1,2) by (simp add: well_behaved_def)
  have run: "CreateCheckout up (\<lambda>d i. Orders_Get (OrderRepository_Get f) i d) (PrepareCheckout f1 (tamed env1)) provider
           (SaveSession f2 (tamed env2)) env obs npid naid t1 t2 inp db = (db', r, reqs, ns)"
    using assms(4-6) by simp
  from checkout_store.provider_call [OF start keep run assms(7)]
  obtain ord p a where *: "reqs = [req]" "Orders_Get (OrderRepository_Get f) (cin_OrderID inp) db = Inr ord"
      "order_Status ord = OrderStatusPending" "1 \<le> order_Quantity ord" "0 < order_Amount ord"
      "req = provider_request_of ord p a" "payment_OrderID p = order_ID ord"
      "attempt_IdempotencyKey a = cin_IdempotencyKey inp" "holds_checkout db' p a"
    by blast
  from *(2) obtain q where q: "q \<in> set (orders db)" "ord_ID q = cin_OrderID inp" "ord = Order_ToDomain q"
    by (auto simp: Orders_Get_def OrderRepository_Get_def autocommit_def select_order_def
        split: option.splits sum.splits prod.splits fault.splits dest!: find_SomeD)
  have "quot (ord_Amount q) (ord_Quantity q) = ord_Amount q div ord_Quantity q"
    using *(4,5) q(3) by (intro quot_nonneg) (auto simp: Order_ToDomain_def)
  with * q show ?thesis
    by (auto simp: provider_request_of_def Order_ToDomain_def holds_checkout_def intro!: bexI [of _ q])
qed

definition sample_order_id :: string where
  "sample_order_id = ''ord_'' @ replicate 32 (CHR ''0'')"

definition reserved_db :: database where
  "reserved_db = sample_db\<lparr>orders := [sample_order\<lparr>ord_ID := sample_order_id\<rparr>],
     payments := [sample_payment\<lparr>pay_OrderID := sample_order_id\<rparr>],
     payment_attempts := [sample_attempt\<lparr>att_Status := AttemptStatusCreated, att_ProviderSessionID := None\<rparr>]\<rparr>"

lemma reserved_ok: "schema_ok reserved_db"
  by (simp add: reserved_db_def schema_ok_def table_ok_defs check_defs unique_on_def sample_order_def
      sample_payment_def sample_attempt_def sample_event_def sample_message_def int4_def int8_def)

lemma sample_order_id_valid: "ValidateID sample_order_id = None"
  by (simp add: ValidateID_def sample_order_id_def IDPrefix_def has_prefix_def hex_decodable_def is_hex_def)

lemma TrimSpace_k2 [simp]: "TrimSpace ''k2'' = ''k2''"
  by (rule TrimSpace_plain) (auto simp: plain_char_def)

definition reserved_input :: checkout_input where
  "reserved_input = \<lparr>cin_OrderID = sample_order_id, cin_IdempotencyKey = ''k2''\<rparr>"

lemma reserved_get:
  "Orders_Get (OrderRepository_Get no_faults) sample_order_id reserved_db =
     Inr (Order_ToDomain (sample_order\<lparr>ord_ID := sample_order_id\<rparr>))"
  by (simp add: Orders_Get_def sample_order_id_valid OrderRepository_Get_def autocommit_def select_order_def
      reserved_db_def)

lemma reserved_new:
  "Payment_New ''pay_2'' ''pat_2'' (Order_ToDomain (sample_order\<lparr>ord_ID := sample_order_id\<rparr>)) ''k2'' 7 = Inr (p0, a0) \<Longrightarrow>
   PrepareCheckout no_faults (\<lambda>d. d) reserved_db p0 a0 =
     (reserved_db, Inr (Payment_ToDomain (sample_payment\<lparr>pay_OrderID := sample_order_id\<rparr>), PaymentAttempt_ToDomain
       (sample_attempt\<lparr>att_Status := AttemptStatusCreated, att_ProviderSessionID := None\<rparr>)))"
  using Payment_New_rows [of "''pay_2''" "''pat_2''" _ "''k2''" 7 p0 a0]
  by (simp add: repo_defs reserved_db_def)
    (simp add: PaymentAttempt_ToDomain_def Payment_ToDomain_def Order_ToDomain_def sample_defs)

theorem CreateCheckout_provider_call_witness:
  "\<exists>db' r req ns. CreateCheckout (\<lambda>_. Inl (NewError [])) (\<lambda>d i. Orders_Get (OrderRepository_Get no_faults) i d)
     (PrepareCheckout no_faults (\<lambda>d. d)) (\<lambda>_. Inl (External ''timeout'')) (SaveSession no_faults (\<lambda>d. d))
     (\<lambda>_ d. d) False (Inr ''pay_2'') (Inr ''pat_2'') 7 8 reserved_input reserved_db = (db', r, [req], ns) \<and>
     req_IdempotencyKey req = ''k2'' \<and> req_UnitAmount req * req_Quantity req = 100"
proof -
  let ?run = "CreateCheckout (\<lambda>_. Inl (NewError [])) (\<lambda>d i. Orders_Get (OrderRepository_Get no_faults) i d)
     (PrepareCheckout no_faults (\<lambda>d. d)) (\<lambda>_. Inl (External ''timeout'')) (SaveSession no_faults (\<lambda>d. d))
     (\<lambda>_ d. d) False (Inr ''pay_2'') (Inr ''pat_2'') 7 8 reserved_input reserved_db"
  obtain p0 a0 where new: "Payment_New ''pay_2'' ''pat_2''
      (Order_ToDomain (sample_order\<lparr>ord_ID := sample_order_id\<rparr>)) ''k2'' 7 = Inr (p0, a0)"
    by (auto simp: Payment_New_def Order_ToDomain_def sample_order_def ValidateQuantity_def order_limits
        ValidateIdempotencyKey_def sample_order_id_def)
  obtain r req ns where run: "?run = (reserved_db, r, [req], ns)"
    using new reserved_new [OF new] reserved_get sample_order_id_valid
    by (simp add: CreateCheckout_def reserved_input_def ValidateIdempotencyKey_def order_limits
        HasSession_def PaymentAttempt_ToDomain_def Order_ToDomain_def sample_order_def)
  have "req_IdempotencyKey req = ''k2'' \<and> req_UnitAmount req * req_Quantity req = 100"
    using CreateCheckout_provider_call [OF reserved_ok _ _ _ _ run, of req]
    by (auto simp: reserved_input_def reserved_db_def sample_order_def)
  with run show ?thesis by blast
qed

text \<open>
  A saved session is recorded. When \<^verbatim>\<open>SaveSession\<close> reports success, whatever interference came
  between its two statements, the attempt's row carries exactly the session it was given; the
  schema holds, and no settled attempt was reopened.
\<close>

theorem SaveSession_recorded:
  assumes "schema_ok db" and "well_behaved env" and "SaveSession f env db a = (db', None)"
  shows "schema_ok db' \<and> evolves db db' \<and>
         (\<exists>r \<in> set (payment_attempts db'). att_ID r = attempt_ID a \<and>
            att_ProviderSessionID r = Some (attempt_ProviderSessionID a))"
proof -
  have safe: "schema_ok db' \<and> evolves db db'"
    using assms(2) by (intro SaveSession_safe [OF assms(1) _ assms(3)]) (auto simp: well_behaved_def)
  from assms(3) consider n where "update_session a db = Inr (n, db')" "n = 1"
    | r where "r \<in> set (payment_attempts db')" "att_ID r = attempt_ID a"
        "att_ProviderSessionID r = Some (attempt_ProviderSessionID a)"
    by (auto simp: SaveSession_def autocommit_def split: sum.splits prod.splits fault.splits option.splits if_splits
        dest!: find_SomeD)
  then show ?thesis
  proof cases
    case 1
    let ?p = "\<lambda>r. att_ID r = attempt_ID a \<and> att_Status r = AttemptStatusCreated"
    from 1 have "affected ?p (payment_attempts db) \<noteq> 0"
      by (auto simp: update_session_def Let_def exec_write_Inr)
    then obtain r where "r \<in> set (payment_attempts db)" "?p r" by (auto simp: affected_0_iff)
    with 1 have "\<exists>r \<in> set (payment_attempts db'). att_ID r = attempt_ID a \<and>
        att_ProviderSessionID r = Some (attempt_ProviderSessionID a)"
      by (force simp: update_session_def Let_def exec_write_Inr set_update_where)
    with safe show ?thesis by blast
  qed (use safe in blast)
qed

theorem SaveSession_recorded_witness:
  "SaveSession no_faults (\<lambda>d. d) sample_db (PaymentAttempt_ToDomain sample_attempt) = (sample_db, None) \<and>
   (\<exists>r \<in> set (payment_attempts sample_db). att_ProviderSessionID r = Some ''cs_1'')"
proof -
  have "update_session (PaymentAttempt_ToDomain sample_attempt) sample_db = Inr (0, sample_db)"
    by (simp add: update_session_def PaymentAttempt_ToDomain_def) (simp add: sample_defs affected_def update_where_def
        sample_ok [unfolded sample_defs])
  then have 1: "SaveSession no_faults (\<lambda>d. d) sample_db (PaymentAttempt_ToDomain sample_attempt) = (sample_db, None)"
    by (simp add: SaveSession_def autocommit_def PaymentAttempt_ToDomain_def or_empty_def)
      (simp add: sample_attempt_def)
  with SaveSession_recorded [OF sample_ok well_behaved_id 1] show ?thesis
    by (auto simp: PaymentAttempt_ToDomain_def or_empty_def sample_attempt_def)
qed

end
