(* ===== verification/Webhook_Service.thy ===== *)
theory Webhook_Service
  imports Webhook_Domain
begin

text \<open>
  Package \<^verbatim>\<open>internal/application/webhooks\<close>: receiving provider events durably, and the
  operational use cases over the inbox. The verifier and the repositories are arguments.
\<close>

section \<open>Receiving (service.go)\<close>

record provider_event =
  pe_ID :: string
  pe_Type :: string
  pe_Kind :: string
  pe_OccurredAt :: instant
  pe_Payload :: string

record receive_input =
  rin_RawBody :: string
  rin_Signature :: string
  rin_CorrelationID :: string
  rin_ReadError :: "goerr option"

definition OutcomeAccepted :: string where "OutcomeAccepted = ''accepted''"
definition OutcomeDuplicate :: string where "OutcomeDuplicate = ''duplicate''"
definition OutcomeIgnored :: string where "OutcomeIgnored = ''ignored''"

lemma receive_outcome_distinct [simp, status_simps]:
  "OutcomeAccepted \<noteq> OutcomeDuplicate" "OutcomeDuplicate \<noteq> OutcomeAccepted" "OutcomeAccepted \<noteq> OutcomeIgnored"
  "OutcomeIgnored \<noteq> OutcomeAccepted" "OutcomeDuplicate \<noteq> OutcomeIgnored" "OutcomeIgnored \<noteq> OutcomeDuplicate"
  by (simp_all add: OutcomeAccepted_def OutcomeDuplicate_def OutcomeIgnored_def)

text \<open>What the observer is told of one call.\<close>

record receipt =
  receipt_Provider :: string
  receipt_Kind :: string
  receipt_Outcome :: string
  receipt_Err :: "goerr option"

text \<open>The second half of \<^verbatim>\<open>Service.receive\<close>: what is stored for a verified event, and the outcome
  or the error.\<close>

definition receive_store ::
  "('s \<Rightarrow> event \<Rightarrow> 's \<times> bool result) \<Rightarrow> ('s \<Rightarrow> event \<Rightarrow> message \<Rightarrow> 's \<times> bool result) \<Rightarrow>
   string result \<Rightarrow> instant \<Rightarrow> string \<Rightarrow> instant \<Rightarrow> event \<Rightarrow> 's \<Rightarrow> 's \<times> string result" where
  "receive_store storeIgnored storePending newMessageID now correlationID occurredAt event s =
     (if \<not> Handled event then
        (case storeIgnored s event of
           (s', Inl e) \<Rightarrow> (s', Inl (wrap ''store ignored webhook event'' e))
         | (s', Inr stored) \<Rightarrow> (s', Inr (if \<not> stored then OutcomeDuplicate else OutcomeIgnored)))
      else
        (case newMessageID of Inl e \<Rightarrow> (s, Inl e) | Inr messageID \<Rightarrow>
        (case NewMessage messageID event correlationID occurredAt now of
           Inl e \<Rightarrow> (s, Inl (wrap ''build outbox message'' e))
         | Inr message \<Rightarrow>
             (case storePending s event message of
                (s', Inl e) \<Rightarrow> (s', Inl (wrap ''store webhook event'' e))
              | (s', Inr stored) \<Rightarrow> (s', Inr (if \<not> stored then OutcomeDuplicate else OutcomeAccepted))))))"

text \<open>\<^verbatim>\<open>Service.receive\<close>: the new store, the kind, and the outcome or the error.\<close>

definition receive ::
  "(string \<Rightarrow> bool) \<Rightarrow> (string \<Rightarrow> string \<Rightarrow> provider_event result) \<Rightarrow> string \<Rightarrow>
   ('s \<Rightarrow> event \<Rightarrow> 's \<times> bool result) \<Rightarrow> ('s \<Rightarrow> event \<Rightarrow> message \<Rightarrow> 's \<times> bool result) \<Rightarrow>
   string result \<Rightarrow> string result \<Rightarrow> instant \<Rightarrow> receive_input \<Rightarrow> 's \<Rightarrow> 's \<times> string \<times> string result" where
  "receive json_Valid verify provider storeIgnored storePending newEventID newMessageID now inp s =
     (case rin_ReadError inp of Some e \<Rightarrow> (s, KindUnknown, Inl e) | None \<Rightarrow>
     (case verify (rin_RawBody inp) (rin_Signature inp) of
        Inl e \<Rightarrow> (s, KindUnknown, Inl (Errorf [W (Sentinel ErrInvalidSignature), T '': '', W e]))
      | Inr pe \<Rightarrow>
     (case newEventID of Inl e \<Rightarrow> (s, pe_Kind pe, Inl e) | Inr eventID \<Rightarrow>
     (case NewEvent json_Valid eventID provider (pe_ID pe) (pe_Type pe) (pe_Kind pe)
             (rin_RawBody inp) (pe_Payload pe) now of
        Inl e \<Rightarrow> (s, pe_Kind pe, Inl (wrap ''build webhook event'' e))
      | Inr event \<Rightarrow>
          (case receive_store storeIgnored storePending newMessageID now (rin_CorrelationID inp)
                  (pe_OccurredAt pe) event s of (s', r) \<Rightarrow> (s', pe_Kind pe, r))))))"

text \<open>\<^verbatim>\<open>Service.Receive\<close> reports every call to the observer, also one that failed.\<close>

definition Receive ::
  "(string \<Rightarrow> bool) \<Rightarrow> (string \<Rightarrow> string \<Rightarrow> provider_event result) \<Rightarrow> string \<Rightarrow>
   ('s \<Rightarrow> event \<Rightarrow> 's \<times> bool result) \<Rightarrow> ('s \<Rightarrow> event \<Rightarrow> message \<Rightarrow> 's \<times> bool result) \<Rightarrow> bool \<Rightarrow>
   string result \<Rightarrow> string result \<Rightarrow> instant \<Rightarrow> receive_input \<Rightarrow> 's \<Rightarrow> 's \<times> string result \<times> receipt list" where
  "Receive json_Valid verify provider storeIgnored storePending observer newEventID newMessageID now inp s =
     (case receive json_Valid verify provider storeIgnored storePending newEventID newMessageID now inp s of
        (s', kind, r) \<Rightarrow> (s', r, if observer then
          [\<lparr>receipt_Provider = provider, receipt_Kind = kind,
            receipt_Outcome = (case r of Inl e \<Rightarrow> [] | Inr outcome \<Rightarrow> outcome),
            receipt_Err = (case r of Inl e \<Rightarrow> Some e | Inr _ \<Rightarrow> None)\<rparr>] else []))"

section \<open>Operations (operations.go)\<close>

definition defaultInspectionLimit :: int where "defaultInspectionLimit = 50"
definition maxInspectionLimit :: int where "maxInspectionLimit = 100"

record outbox_inspection =
  oi_ID :: string
  oi_Status :: string
  oi_Attempts :: int
  oi_PublishedAt :: "instant option"
  oi_LastError :: string
  oi_NextAttemptAt :: instant

record event_inspection =
  ei_ID :: string
  ei_Provider :: string
  ei_ProviderEventID :: string
  ei_EventType :: string
  ei_Status :: string
  ei_Attempts :: int
  ei_ReceivedAt :: instant
  ei_ProcessedAt :: "instant option"
  ei_LastError :: string
  ei_UpdatedAt :: instant
  ei_ReplayCount :: int
  ei_LastReplayedAt :: "instant option"
  ei_Outbox :: "outbox_inspection option"

definition validInspectionStatus :: "string \<Rightarrow> bool" where
  "validInspectionStatus status \<longleftrightarrow>
     status \<in> {InboxPending, InboxProcessing, InboxProcessed, InboxFailed, InboxSkipped}"

definition Operations_List ::
  "('s \<Rightarrow> string \<Rightarrow> int \<Rightarrow> event_inspection list result) \<Rightarrow> 's \<Rightarrow> string \<Rightarrow> int \<Rightarrow> event_inspection list result" where
  "Operations_List repository_List s status limit =
     (if status \<noteq> [] \<and> \<not> validInspectionStatus status then Inl (Sentinel ErrInvalidStatus)
      else let limit = (if limit = 0 then defaultInspectionLimit else limit) in
        if limit < 1 \<or> maxInspectionLimit < limit then Inl (Sentinel ErrInvalidLimit)
        else repository_List s status limit)"

definition Operations_Reprocess ::
  "('s \<Rightarrow> string \<Rightarrow> 's \<times> event_inspection result) \<Rightarrow> 's \<Rightarrow> string \<Rightarrow> 's \<times> event_inspection result" where
  "Operations_Reprocess repository_Reprocess s eventID =
     (case ValidateEventID eventID of Some e \<Rightarrow> (s, Inl (Sentinel ErrEventNotFound)) | None \<Rightarrow>
        repository_Reprocess s eventID)"

section \<open>The repository port\<close>

text \<open>\<open>received s\<close> is the set of provider events the inbox knows, by provider and provider event
  identifier; \<open>queued s\<close> those that have an outbox message. Storing is atomic: the event enters the
  inbox together with its message (if it is handled) or not at all, also when an error is reported.\<close>

definition recorded ::
  "('s \<Rightarrow> 'k set) \<Rightarrow> ('s \<Rightarrow> 'k set) \<Rightarrow> bool \<Rightarrow> 'k \<Rightarrow> 's \<Rightarrow> 's \<Rightarrow> bool" where
  "recorded received queued handled k s s' \<longleftrightarrow>
     k \<notin> received s \<and> received s' = insert k (received s) \<and>
     queued s' = (if handled then insert k (queued s) else queued s)"

definition store_outcome ::
  "('s \<Rightarrow> 'k set) \<Rightarrow> ('s \<Rightarrow> 'k set) \<Rightarrow> bool \<Rightarrow> 'k \<Rightarrow> 's \<Rightarrow> 's \<Rightarrow> bool result \<Rightarrow> bool" where
  "store_outcome received queued handled k s s' r \<longleftrightarrow>
     (case r of
        Inl e \<Rightarrow> s' = s \<or> recorded received queued handled k s s'
      | Inr True \<Rightarrow> recorded received queued handled k s s'
      | Inr False \<Rightarrow> s' = s \<and> k \<in> received s)"

abbreviation provider_key :: "event \<Rightarrow> string \<times> string" where
  "provider_key e \<equiv> (event_Provider e, event_ProviderEventID e)"

locale inbox_repository =
  fixes storeIgnored :: "'s \<Rightarrow> event \<Rightarrow> 's \<times> bool result"
    and storePending :: "'s \<Rightarrow> event \<Rightarrow> message \<Rightarrow> 's \<times> bool result"
    and received :: "'s \<Rightarrow> (string \<times> string) set"
    and queued :: "'s \<Rightarrow> (string \<times> string) set"
    and inv :: "'s \<Rightarrow> bool"
  assumes ignored_stored:
    "inv s \<Longrightarrow> storeIgnored s e = (s', r) \<Longrightarrow>
       inv s' \<and> store_outcome received queued False (provider_key e) s s' r"
  and pending_stored:
    "inv s \<Longrightarrow> message_EventID m = event_ID e \<Longrightarrow> storePending s e m = (s', r) \<Longrightarrow>
       inv s' \<and> store_outcome received queued True (provider_key e) s s' r"
begin

text \<open>Storing a verified event: nothing happens and nothing is claimed, or the event is recorded.\<close>

lemma receive_store_effect:
  assumes "inv s" and "receive_store storeIgnored storePending nmid now c oa e s = (s', r)"
  shows "inv s' \<and> (s' = s \<and> (\<forall>out. r = Inr out \<longrightarrow> out = OutcomeDuplicate \<and> provider_key e \<in> received s) \<or>
     recorded received queued (Handled e) (provider_key e) s s' \<and>
     (\<forall>out. r = Inr out \<longrightarrow> out = (if Handled e then OutcomeAccepted else OutcomeIgnored)))"
proof (cases "Handled e")
  case False
  obtain b where b: "storeIgnored s e = (s', b)"
    using assms(2) False by (auto simp: receive_store_def split: prod.splits sum.splits)
  from ignored_stored [OF assms(1) b] assms(2) False b show ?thesis
    by (cases b) (auto simp: receive_store_def store_outcome_def split: bool.splits if_splits)
next
  case True
  show ?thesis
  proof (cases "\<exists>i m. nmid = Inr i \<and> NewMessage i e c oa now = Inr m")
    case False
    with assms True show ?thesis by (auto simp: receive_store_def split: sum.splits)
  next
    case m: True
    then obtain i m where m: "nmid = Inr i" "NewMessage i e c oa now = Inr m" by auto
    obtain b where b: "storePending s e m = (s', b)"
      using assms(2) True m by (auto simp: receive_store_def split: prod.splits sum.splits)
    from NewMessageD [OF m(2)] have "message_EventID m = event_ID e" by simp
    from pending_stored [OF assms(1) this b] assms(2) True b m show ?thesis
      by (cases b) (auto simp: receive_store_def store_outcome_def split: bool.splits if_splits)
  qed
qed

text \<open>The whole effect of receiving one request, on every path. A verified event that was already
  received changes nothing; a new one enters the inbox at most once, and exactly then, if the
  application handles its kind, gets its message.\<close>

lemma receive_effect:
  assumes "inv s" and "receive jv verify pr storeIgnored storePending neid nmid now inp s = (s', kind, r)"
  shows "inv s' \<and> (s' = s \<and> (\<forall>out. r = Inr out \<longrightarrow> out = OutcomeDuplicate) \<or>
    (\<exists>pe. verify (rin_RawBody inp) (rin_Signature inp) = Inr pe \<and> kind = pe_Kind pe \<and>
       recorded received queued (kind \<noteq> KindUnknown) (pr, pe_ID pe) s s' \<and>
       (\<forall>out. r = Inr out \<longrightarrow> out = (if kind = KindUnknown then OutcomeIgnored else OutcomeAccepted))))"
proof (cases "\<exists>pe i e. rin_ReadError inp = None \<and> verify (rin_RawBody inp) (rin_Signature inp) = Inr pe \<and> neid = Inr i \<and>
    NewEvent jv i pr (pe_ID pe) (pe_Type pe) (pe_Kind pe) (rin_RawBody inp) (pe_Payload pe) now = Inr e")
  case False
  with assms show ?thesis by (auto simp: receive_def split: option.splits sum.splits)
next
  case True
  then obtain pe i e where *: "rin_ReadError inp = None" "verify (rin_RawBody inp) (rin_Signature inp) = Inr pe"
      "neid = Inr i" "NewEvent jv i pr (pe_ID pe) (pe_Type pe) (pe_Kind pe) (rin_RawBody inp) (pe_Payload pe) now = Inr e"
    by auto
  then have run: "receive_store storeIgnored storePending nmid now (rin_CorrelationID inp) (pe_OccurredAt pe) e s = (s', r)"
      and k: "kind = pe_Kind pe"
    using assms(2) by (auto simp: receive_def split: prod.splits)
  have key: "provider_key e = (pr, pe_ID pe)" and h: "Handled e \<longleftrightarrow> kind \<noteq> KindUnknown"
    using NewEventD [OF *(4)] k by (auto simp: Handled_def)
  from receive_store_effect [OF assms(1) run, unfolded key h] *(2) k show ?thesis
    by (elim conjE disjE; cases "kind = KindUnknown"; simp)
qed

text \<open>A reported outcome speaks of a verified event the inbox knows, and of its message when it is accepted.\<close>

lemma receive_success:
  assumes "inv s" and "receive jv verify pr storeIgnored storePending neid nmid now inp s = (s', kind, Inr out)"
  shows "rin_ReadError inp = None \<and> (\<exists>pe. verify (rin_RawBody inp) (rin_Signature inp) = Inr pe \<and>
    (pr, pe_ID pe) \<in> received s' \<and> (out = OutcomeAccepted \<longrightarrow> (pr, pe_ID pe) \<in> queued s'))"
proof -
  from assms(2) obtain pe i e where *: "rin_ReadError inp = None" "verify (rin_RawBody inp) (rin_Signature inp) = Inr pe"
      "NewEvent jv i pr (pe_ID pe) (pe_Type pe) (pe_Kind pe) (rin_RawBody inp) (pe_Payload pe) now = Inr e"
      "receive_store storeIgnored storePending nmid now (rin_CorrelationID inp) (pe_OccurredAt pe) e s = (s', Inr out)"
    by (auto simp: receive_def split: option.splits sum.splits prod.splits)
  have key: "provider_key e = (pr, pe_ID pe)" using NewEventD [OF *(3)] by simp
  from receive_store_effect [OF assms(1) *(4), unfolded key] show ?thesis using *(1,2)
    by (auto simp: recorded_def split: if_splits)
qed

text \<open>A redelivery, however late, under whatever generated identifiers: nothing changes.\<close>

lemma receive_redelivery:
  assumes "inv s" and "receive jv verify pr storeIgnored storePending neid nmid now inp s = (s', kind, r)"
    and "verify (rin_RawBody inp) (rin_Signature inp) = Inr pe" and "(pr, pe_ID pe) \<in> received s"
  shows "s' = s \<and> (\<forall>out. r = Inr out \<longrightarrow> out = OutcomeDuplicate)"
  using receive_effect [OF assms(1,2)] assms(3,4) by (auto simp: recorded_def)

end

end
