(* ===== verification/Webhook_Repository.thy ===== *)
theory Webhook_Repository
  imports Webhook_Service Queries Errsanitize Samples
begin

text \<open>
  \<^verbatim>\<open>postgres/repositories/webhooks.go\<close> and \<^verbatim>\<open>operations.go\<close>: the inbox and outbox writes of
  the receiving use case, the operational view, and the replay of failed work.
\<close>

section \<open>Storing (webhooks.go)\<close>

text \<open>\<^verbatim>\<open>insertedEvent\<close>: no row returned means the event was already present.\<close>

definition insertedEvent :: "string option result \<Rightarrow> bool result" where
  "insertedEvent r = (case r of Inl e \<Rightarrow> Inl (wrap ''insert webhook event'' e)
                      | Inr None \<Rightarrow> Inr False | Inr (Some _) \<Rightarrow> Inr True)"

definition insert_event :: "event \<Rightarrow> string option stmt" where
  "insert_event e =
     InsertWebhookEvent (event_ID e) (event_Provider e) (event_ProviderEventID e) (event_Type e)
       (event_RawPayload e) (event_Payload e) (event_Status e) (event_ReceivedAt e)"

definition StoreIgnored :: "faults \<Rightarrow> database \<Rightarrow> event \<Rightarrow> database \<times> bool result" where
  "StoreIgnored f db event =
     (case autocommit (f 0) (insert_event event) db of (db', r) \<Rightarrow> (db', insertedEvent r))"

definition StorePending :: "faults \<Rightarrow> instant \<Rightarrow> database \<Rightarrow> event \<Rightarrow> message \<Rightarrow> database \<times> bool result" where
  "StorePending f now db event message =
     (case begin_tx (f 0) of Some e \<Rightarrow> (db, Inl (wrap ''begin webhook transaction'' e)) | None \<Rightarrow>
     (case in_tx (f 1) (insert_event event) db of
        Inl e \<Rightarrow> (db, Inl (wrap ''insert webhook event'' e))
      | Inr (None, w) \<Rightarrow> (db, Inr False)
      | Inr (Some _, w) \<Rightarrow>
          (case in_tx (f 2) (InsertOutboxEvent now (message_ID message) (message_EventID message)
                  (message_Kind message) (int32 (message_SchemaVersion message)) (message_RoutingKey message)
                  (message_CorrelationID message) (message_OccurredAt message) (message_Status message)
                  (message_CreatedAt message)) w of
             Inl e \<Rightarrow> (db, Inl (wrap ''insert outbox event'' e))
           | Inr (_, w') \<Rightarrow>
               (case commit_tx (f 3) db w' of
                  (db', Some e) \<Rightarrow> (db', Inl (wrap ''commit webhook transaction'' e))
                | (db', None) \<Rightarrow> (db', Inr True)))))"

section \<open>Inspection and replay (operations.go)\<close>

definition operationNullableString :: "string option \<Rightarrow> string" where
  "operationNullableString v = (case v of None \<Rightarrow> [] | Some s \<Rightarrow> Sanitize s)"

definition operationNullableTime :: "instant option \<Rightarrow> instant option" where
  "operationNullableTime v = map_option UTC v"

definition inspectionFromValues :: "joined_row \<Rightarrow> event_inspection" where
  "inspectionFromValues row =
     (case row of (e, m) \<Rightarrow>
        \<lparr>ei_ID = evt_ID e, ei_Provider = evt_Provider e, ei_ProviderEventID = evt_ProviderEventID e,
         ei_EventType = evt_EventType e, ei_Status = evt_Status e, ei_Attempts = evt_Attempts e,
         ei_ReceivedAt = UTC (evt_ReceivedAt e), ei_ProcessedAt = operationNullableTime (evt_ProcessedAt e),
         ei_LastError = operationNullableString (evt_LastError e), ei_UpdatedAt = UTC (evt_UpdatedAt e),
         ei_ReplayCount = evt_ReplayCount e, ei_LastReplayedAt = operationNullableTime (evt_LastReplayedAt e),
         ei_Outbox = map_option (\<lambda>m.
           \<lparr>oi_ID = obx_ID m, oi_Status = obx_Status m, oi_Attempts = obx_Attempts m,
            oi_PublishedAt = operationNullableTime (obx_PublishedAt m),
            oi_LastError = operationNullableString (obx_LastError m),
            oi_NextAttemptAt = UTC (obx_NextAttemptAt m)\<rparr>) m\<rparr>)"

definition WebhookRepository_List :: "faults \<Rightarrow> database \<Rightarrow> string \<Rightarrow> int \<Rightarrow> event_inspection list result" where
  "WebhookRepository_List f db status limit =
     (case autocommit (f 0) (ListWebhookEvents status (int32 limit)) db of
        (_, Inl e) \<Rightarrow> Inl (wrap ''list webhook events'' e)
      | (_, Inr rows) \<Rightarrow> Inr (map inspectionFromValues rows))"

definition WebhookRepository_Reprocess ::
  "faults \<Rightarrow> instant \<Rightarrow> database \<Rightarrow> string \<Rightarrow> database \<times> event_inspection result" where
  "WebhookRepository_Reprocess f now db eventID =
     (case begin_tx (f 0) of Some e \<Rightarrow> (db, Inl (wrap ''begin webhook replay transaction'' e)) | None \<Rightarrow>
     (case in_tx (f 1) (LockWebhookEventForReplay eventID) db of
        Inl e \<Rightarrow> (db, Inl (wrap ''lock webhook event for replay'' e))
      | Inr (None, w) \<Rightarrow>
          (case in_tx (f 2) (GetWebhookEvent eventID) w of
             Inl e \<Rightarrow> (db, Inl (wrap ''check webhook event for replay'' e))
           | Inr (Some _, _) \<Rightarrow> (db, Inl (Sentinel ErrEventNotReplayable))
           | Inr (None, _) \<Rightarrow> (db, Inl (Sentinel ErrEventNotFound)))
      | Inr (Some (eventStatus, outboxStatus), w) \<Rightarrow>
          if (eventStatus \<noteq> InboxPending \<and> eventStatus \<noteq> InboxFailed) \<or>
             (eventStatus \<noteq> InboxFailed \<and> outboxStatus \<noteq> MessageStatusFailed)
          then (db, Inl (Sentinel ErrEventNotReplayable))
          else
          (case in_tx (f 3) (ResetWebhookEventForReplay now eventID) w of
             Inl e \<Rightarrow> (db, Inl (wrap ''reset webhook event for replay'' e))
           | Inr (eventRows, w1) \<Rightarrow>
          (case in_tx (f 4) (ResetOutboxForReplay now eventID) w1 of
             Inl e \<Rightarrow> (db, Inl (wrap ''reset outbox event for replay'' e))
           | Inr (outboxRows, w2) \<Rightarrow>
             if eventRows \<noteq> 1 \<or> outboxRows \<noteq> 1
             then (db, Inl (Errorf [T ''replay invariant: reset '', T (decimal eventRows), T '' inbox and '',
                              T (decimal outboxRows), T '' outbox rows'']))
             else
          (case in_tx (f 5) (GetWebhookEvent eventID) w2 of
             Inl e \<Rightarrow> (db, Inl (wrap ''read replayed webhook event'' e))
           | Inr (None, _) \<Rightarrow> (db, Inl (wrap ''read replayed webhook event'' (External ''sql: no rows in result set'')))
           | Inr (Some row, w3) \<Rightarrow>
               (case commit_tx (f 6) db w3 of
                  (db', Some e) \<Rightarrow> (db', Inl (wrap ''commit webhook replay transaction'' e))
                | (db', None) \<Rightarrow> (db', Inr (inspectionFromValues row))))))))"

lemmas [repo_defs] = StoreIgnored_def StorePending_def insertedEvent_def WebhookRepository_List_def
  WebhookRepository_Reprocess_def

section \<open>The inbox port\<close>

definition received_events :: "database \<Rightarrow> (string \<times> string) set" where
  "received_events db = event_key ` set (webhook_events db)"

definition queued_events :: "database \<Rightarrow> (string \<times> string) set" where
  "queued_events db =
     {event_key e | e. e \<in> set (webhook_events db) \<and>
        (\<exists>m \<in> set (outbox_events db). obx_WebhookEventID m = evt_ID e)}"

abbreviation event_row_of :: "event \<Rightarrow> event_row" where
  "event_row_of e \<equiv> new_event_row (event_ID e) (event_Provider e) (event_ProviderEventID e) (event_Type e)
     (event_RawPayload e) (event_Payload e) (event_Status e) (event_ReceivedAt e)"

lemma new_event_row_simps [simp]:
  "evt_ID (new_event_row i p pe ty raw pl st ra) = i" "evt_Provider (new_event_row i p pe ty raw pl st ra) = p"
  "evt_ProviderEventID (new_event_row i p pe ty raw pl st ra) = pe"
  "evt_Status (new_event_row i p pe ty raw pl st ra) = st"
  "evt_RawPayload (new_event_row i p pe ty raw pl st ra) = raw"
  "evt_Attempts (new_event_row i p pe ty raw pl st ra) = 0"
  by (simp_all add: new_event_row_def)

lemma safe_insert_event [safe_intros]: "safe_stmt (insert_event e)"
  unfolding insert_event_def by (rule safe_InsertWebhookEvent)

lemma insert_event_cases:
  assumes "insert_event e db = Inr (x, db')"
  shows "x = None \<and> db' = db \<and> provider_key e \<in> received_events db \<or>
         x = Some (event_ID e) \<and> db' = db\<lparr>webhook_events := webhook_events db @ [event_row_of e]\<rparr> \<and> schema_ok db' \<and>
         provider_key e \<notin> received_events db"
  using assms
  by (auto simp: insert_event_def InsertWebhookEvent_def insert_do_nothing_def exec_write_Inr received_events_def
      list_ex_iff Let_def new_event_row_def split: if_splits) force

text \<open>A message refers to an event that is there, so a fresh event has none.\<close>

lemma fresh_event_unqueued:
  assumes "schema_ok db" and "schema_ok (db\<lparr>webhook_events := webhook_events db @ [r]\<rparr>)"
    and "m \<in> set (outbox_events db)"
  shows "obx_WebhookEventID m \<noteq> evt_ID r"
  using outbox_has_event [OF assms(1,3)] schema_okD(8) [OF assms(2)] by (auto simp: image_iff)

lemma queued_append_event:
  assumes "schema_ok db" and "schema_ok (db\<lparr>webhook_events := webhook_events db @ [r]\<rparr>)"
  shows "queued_events (db\<lparr>webhook_events := webhook_events db @ [r]\<rparr>) = queued_events db"
  using fresh_event_unqueued [OF assms] by (auto simp: queued_events_def)

lemma queued_append_message:
  assumes "obx_WebhookEventID m = evt_ID r"
  shows "queued_events (db\<lparr>webhook_events := webhook_events db @ [r], outbox_events := outbox_events db @ [m]\<rparr>) =
         insert (event_key r) (queued_events (db\<lparr>webhook_events := webhook_events db @ [r]\<rparr>) \<union>
           {event_key e | e. e \<in> set (webhook_events db) \<and> evt_ID e = evt_ID r})"
  using assms by (auto simp: queued_events_def)

lemma StoreIgnored_outcome:
  assumes "schema_ok db" and "StoreIgnored f db e = (db', r)"
  shows "schema_ok db' \<and> evolves db db' \<and>
         store_outcome received_events queued_events False (provider_key e) db db' r"
proof -
  obtain x where x: "autocommit (f 0) (insert_event e) db = (db', x)" "r = insertedEvent x"
    using assms(2) by (auto simp: StoreIgnored_def split: prod.splits)
  have safe: "schema_ok db' \<and> evolves db db'" by (rule safe_autocommit [OF safe_insert_event assms(1) x(1)])
  have rec: "recorded received_events queued_events False (provider_key e) db d"
    if "d = db\<lparr>webhook_events := webhook_events db @ [event_row_of e]\<rparr>" "schema_ok d"
       "provider_key e \<notin> received_events db" for d
    using that queued_append_event [OF assms(1), of "event_row_of e"]
    by (auto simp: recorded_def received_events_def)
  have "store_outcome received_events queued_events False (provider_key e) db db' r"
    using x rec by (auto simp: autocommit_def insertedEvent_def store_outcome_def
        split: fault.splits sum.splits prod.splits dest!: insert_event_cases)
  with safe show ?thesis by blast
qed

text \<open>Both rows or neither.\<close>

lemma StorePending_cases:
  assumes "schema_ok db" and "StorePending f now db e m = (db', r)"
  shows "db' = db \<and> r = Inr False \<and> provider_key e \<in> received_events db \<or>
         db' = db \<and> (\<exists>x. r = Inl x) \<or>
         (\<exists>row. db' = db\<lparr>webhook_events := webhook_events db @ [event_row_of e], outbox_events := outbox_events db @ [row]\<rparr> \<and>
            schema_ok db' \<and> schema_ok (db\<lparr>webhook_events := webhook_events db @ [event_row_of e]\<rparr>) \<and>
            provider_key e \<notin> received_events db \<and> (r = Inr True \<or> (\<exists>x. r = Inl x)) \<and>
            row = new_outbox_row now (message_ID m) (message_EventID m) (message_Kind m)
              (int32 (message_SchemaVersion m)) (message_RoutingKey m) (message_CorrelationID m)
              (message_OccurredAt m) (message_Status m) (message_CreatedAt m))"
  using assms(2)
  by (auto simp: StorePending_def InsertOutboxEvent_def exec_write_Inr in_tx_Inr commit_tx_def
      split: option.splits sum.splits prod.splits fault.splits dest!: insert_event_cases)

lemma StorePending_outcome:
  assumes "schema_ok db" and "message_EventID m = event_ID e" and "StorePending f now db e m = (db', r)"
  shows "schema_ok db' \<and> evolves db db' \<and>
         store_outcome received_events queued_events True (provider_key e) db db' r"
proof -
  from StorePending_cases [OF assms(1,3)] consider
      "db' = db" "r = Inr False \<and> provider_key e \<in> received_events db \<or> (\<exists>x. r = Inl x)"
    | (new) row where "db' = db\<lparr>webhook_events := webhook_events db @ [event_row_of e], outbox_events := outbox_events db @ [row]\<rparr>"
        "schema_ok db'" "schema_ok (db\<lparr>webhook_events := webhook_events db @ [event_row_of e]\<rparr>)"
        "provider_key e \<notin> received_events db" "r = Inr True \<or> (\<exists>x. r = Inl x)"
        "obx_WebhookEventID row = event_ID e"
    using assms(2) by (auto simp: new_outbox_row_def)
  then show ?thesis
  proof cases
    case new
    have "evolves db db'" unfolding new(1) by (simp add: evolves_def)
    moreover have "\<forall>x \<in> set (webhook_events db). evt_ID x \<noteq> event_ID e"
      using schema_okD(8) [OF new(3)] by (auto simp: image_iff)
    then have "recorded received_events queued_events True (provider_key e) db db'"
      using new(4,6) queued_append_message [of row "event_row_of e" db] queued_append_event [OF assms(1) new(3)]
      unfolding new(1) by (auto simp: recorded_def received_events_def)
    ultimately show ?thesis using new(2,5) by (auto simp: store_outcome_def)
  qed (use assms(1) in \<open>auto simp: store_outcome_def\<close>)
qed

interpretation inbox_store: inbox_repository
  "StoreIgnored f" "StorePending g now" received_events queued_events schema_ok for f g now
proof
  show "schema_ok s' \<and> store_outcome received_events queued_events False (provider_key e) s s' r"
    if "schema_ok s" "StoreIgnored f s e = (s', r)" for s e s' r
    using StoreIgnored_outcome [OF that] by blast
  show "schema_ok s' \<and> store_outcome received_events queued_events True (provider_key e) s s' r"
    if "schema_ok s" "message_EventID m = event_ID e" "StorePending g now s e m = (s', r)" for s m e s' r
    using StorePending_outcome [OF that] by blast
qed

section \<open>Properties of receiving\<close>

text \<open>
  Inbox and outbox move together. Whatever faults the server shows, receiving a request either
  leaves the inbox and the outbox as they were (and then claims at most a duplicate), or records
  exactly one verified provider event that was not there before, together with its outbox message
  if and only if the application handles its kind; nothing is recorded without a verified signature.
\<close>

theorem receive_atomic:
  assumes "schema_ok db"
    and "receive jv verify pr (StoreIgnored f) (StorePending g dbnow) neid nmid now inp db = (db', kind, r)"
  shows "schema_ok db' \<and> (db' = db \<and> (\<forall>out. r = Inr out \<longrightarrow> out = OutcomeDuplicate) \<or>
    (\<exists>pe. verify (rin_RawBody inp) (rin_Signature inp) = Inr pe \<and> kind = pe_Kind pe \<and>
       (pr, pe_ID pe) \<notin> received_events db \<and> received_events db' = insert (pr, pe_ID pe) (received_events db) \<and>
       queued_events db' = (if kind = KindUnknown then queued_events db else insert (pr, pe_ID pe) (queued_events db)) \<and>
       (\<forall>out. r = Inr out \<longrightarrow> out = (if kind = KindUnknown then OutcomeIgnored else OutcomeAccepted))))"
proof -
  from inbox_store.receive_effect [OF assms] consider
      "schema_ok db'" "db' = db" "\<forall>out. r = Inr out \<longrightarrow> out = OutcomeDuplicate"
    | pe where "schema_ok db'" "verify (rin_RawBody inp) (rin_Signature inp) = Inr pe" "kind = pe_Kind pe"
        "recorded received_events queued_events (kind \<noteq> KindUnknown) (pr, pe_ID pe) db db'"
        "\<forall>out. r = Inr out \<longrightarrow> out = (if kind = KindUnknown then OutcomeIgnored else OutcomeAccepted)"
    by blast
  then show ?thesis by cases (simp_all add: recorded_def)
qed

lemma TrimSpace_sample_ids [simp]:
  "TrimSpace ''evt_2'' = ''evt_2''" "TrimSpace ''evt_s2'' = ''evt_s2''" "TrimSpace ''customer.created'' = ''customer.created''"
  "TrimSpace ''stripe'' = ''stripe''" "TrimSpace ''evt_s1'' = ''evt_s1''" "TrimSpace ''msg_2'' = ''msg_2''"
  by (rule TrimSpace_plain; auto simp: plain_char_def)+

definition sample_verify :: "string \<Rightarrow> string \<Rightarrow> provider_event result" where
  "sample_verify raw sig = Inr \<lparr>pe_ID = ''evt_s2'', pe_Type = ''customer.created'', pe_Kind = KindUnknown,
     pe_OccurredAt = 3, pe_Payload = raw\<rparr>"

definition sample_receive :: receive_input where
  "sample_receive = \<lparr>rin_RawBody = ''{}'', rin_Signature = ''s'', rin_CorrelationID = ''c'', rin_ReadError = None\<rparr>"

lemma sample_insert_ok:
  "schema_ok (sample_db\<lparr>webhook_events := [sample_event, new_event_row ''evt_2'' Stripe ''evt_s2'' ''customer.created''
     ''{}'' ''{}'' InboxSkipped 9]\<rparr>)"
  by (simp add: schema_ok_def table_ok_defs check_defs unique_on_def sample_order_def sample_payment_def
      sample_attempt_def sample_event_def sample_message_def int4_def int8_def new_event_row_def)

lemma sample_insert_run:
  "insert_event \<lparr>event_ID = ''evt_2'', event_Provider = Stripe, event_ProviderEventID = ''evt_s2'',
      event_Type = ''customer.created'', event_Kind = KindUnknown, event_RawPayload = ''{}'', event_Payload = ''{}'',
      event_Status = InboxSkipped, event_ReceivedAt = 9\<rparr> sample_db =
    Inr (Some ''evt_2'', sample_db\<lparr>webhook_events := [sample_event, new_event_row ''evt_2'' Stripe ''evt_s2''
      ''customer.created'' ''{}'' ''{}'' InboxSkipped 9]\<rparr>)"
  using sample_insert_ok
  by (simp add: insert_event_def InsertWebhookEvent_def insert_do_nothing_def)
    (simp add: new_event_row_def event_check_def int4_def sample_event_def)

theorem receive_atomic_witness:
  "\<exists>db'. receive (\<lambda>_. True) sample_verify Stripe (StoreIgnored no_faults) (StorePending no_faults 8)
     (Inr ''evt_2'') (Inr ''msg_2'') 9 sample_receive sample_db = (db', KindUnknown, Inr OutcomeIgnored) \<and>
     received_events db' = {(Stripe, ''evt_s1''), (Stripe, ''evt_s2'')}"
proof -
  from sample_insert_run
  obtain db' where run: "receive (\<lambda>_. True) sample_verify Stripe (StoreIgnored no_faults) (StorePending no_faults 8)
     (Inr ''evt_2'') (Inr ''msg_2'') 9 sample_receive sample_db = (db', KindUnknown, Inr OutcomeIgnored)"
    by (simp add: receive_def receive_store_def sample_receive_def sample_verify_def NewEvent_def Handled_def
        StoreIgnored_def autocommit_def insertedEvent_def Stripe_def)
  from receive_atomic [OF sample_ok run] have "received_events db' = insert (Stripe, ''evt_s2'') (received_events sample_db)"
    by (auto simp: sample_verify_def)
  with run show ?thesis by (auto simp: received_events_def sample_event_def)
qed

text \<open>
  Redelivery is a no-op. A verified event the inbox already has, received again at any time
  with any freshly generated identifiers, is answered as a duplicate and changes nothing, so it
  can produce no second message.
\<close>

theorem receive_redelivery_noop:
  assumes "schema_ok db" and "rin_ReadError inp = None"
    and "verify (rin_RawBody inp) (rin_Signature inp) = Inr pe" and "(pr, pe_ID pe) \<in> received_events db"
    and "NewEvent jv i pr (pe_ID pe) (pe_Type pe) (pe_Kind pe) (rin_RawBody inp) (pe_Payload pe) now = Inr e"
    and "TrimSpace mi \<noteq> []"
  shows "receive jv verify pr (StoreIgnored no_faults) (StorePending no_faults dbnow) (Inr i) (Inr mi) now inp db =
         (db, pe_Kind pe, Inr OutcomeDuplicate)"
proof -
  note e = NewEventD [OF assms(5)]
  have "event_check (event_row_of e)"
    using e by (auto simp: event_check_def new_event_row_def int4_def)
  moreover have "provider_key e = (pr, pe_ID pe)" using e by auto
  ultimately have ins: "insert_event e db = Inr (None, db)"
    using assms(4) by (auto simp: insert_event_def InsertWebhookEvent_def insert_do_nothing_def received_events_def
        list_ex_iff Let_def)
  have "\<exists>m. NewMessage mi e (rin_CorrelationID inp) (pe_OccurredAt pe) now = Inr m" if "Handled e"
    using that e assms(6) by (simp add: NewMessage_def Let_def)
  then show ?thesis
    using assms(2,3,5) ins
    by (auto simp: receive_def receive_store_def StoreIgnored_def StorePending_def autocommit_def insertedEvent_def)
qed

theorem receive_redelivery_noop_witness:
  "receive (\<lambda>_. True) (\<lambda>raw sig. Inr \<lparr>pe_ID = ''evt_s1'', pe_Type = ''customer.created'', pe_Kind = KindCheckoutExpired,
     pe_OccurredAt = 3, pe_Payload = raw\<rparr>) Stripe (StoreIgnored no_faults) (StorePending no_faults 8)
     (Inr ''evt_2'') (Inr ''msg_2'') 9 sample_receive sample_db = (sample_db, KindCheckoutExpired, Inr OutcomeDuplicate)"
proof -
  let ?pe = "\<lambda>raw. \<lparr>pe_ID = ''evt_s1'', pe_Type = ''customer.created'', pe_Kind = KindCheckoutExpired,
     pe_OccurredAt = 3, pe_Payload = raw\<rparr>"
  obtain e where "NewEvent (\<lambda>_. True) ''evt_2'' Stripe (pe_ID (?pe ''{}'')) (pe_Type (?pe ''{}'')) (pe_Kind (?pe ''{}''))
      (rin_RawBody sample_receive) (pe_Payload (?pe ''{}'')) 9 = Inr e"
    by (simp add: NewEvent_def sample_receive_def Stripe_def)
  from receive_redelivery_noop [OF sample_ok _ _ _ this, of "\<lambda>raw sig. Inr (?pe raw)" "''msg_2''" 8]
  show ?thesis by (simp add: sample_receive_def received_events_def) (simp add: sample_event_def)
qed

section \<open>Properties of inspection and replay\<close>

definition replayed_event :: "instant \<Rightarrow> event_row \<Rightarrow> event_row" where
  "replayed_event now e =
     (if evt_Status e = InboxFailed
      then e\<lparr>evt_Status := InboxPending, evt_Attempts := 0, evt_ProcessedAt := None, evt_LastError := None,
             evt_ReplayCount := evt_ReplayCount e + 1, evt_LastReplayedAt := Some now, evt_UpdatedAt := now\<rparr>
      else e\<lparr>evt_ReplayCount := evt_ReplayCount e + 1, evt_LastReplayedAt := Some now, evt_UpdatedAt := now\<rparr>)"

definition replayed_message :: "instant \<Rightarrow> outbox_row \<Rightarrow> outbox_row" where
  "replayed_message now m =
     m\<lparr>obx_Status := MessageStatusPending, obx_Attempts := 0, obx_PublishedAt := None, obx_LastError := None,
       obx_LockedUntil := None, obx_LockedBy := None, obx_NextAttemptAt := now, obx_UpdatedAt := now\<rparr>"

text \<open>The row of an event and of its message, by their keys.\<close>

lemma LockForReplay_row:
  assumes "schema_ok db" and "e \<in> set (webhook_events db)" and "m \<in> set (outbox_events db)"
    and "obx_WebhookEventID m = evt_ID e"
  shows "LockWebhookEventForReplay (evt_ID e) db = Inr (Some (evt_Status e, obx_Status m), db)"
proof -
  let ?rows = "[(evt_Status x, obx_Status y). x \<leftarrow> webhook_events db, y \<leftarrow> outbox_events db,
                obx_WebhookEventID y = evt_ID x \<and> evt_ID x = evt_ID e]"
  have all: "r = (evt_Status e, obx_Status m)" if "r \<in> set ?rows" for r
    using that unique_keyD [OF schema_okD(8) [OF assms(1)] _ assms(2)]
      unique_keyD [OF schema_okD(11) [OF assms(1)] _ assms(3)] assms(4) by fastforce
  have "(evt_Status e, obx_Status m) \<in> set ?rows" using assms(2-4) by fastforce
  then obtain r rs where rs: "?rows = r # rs" by (cases ?rows) auto
  with all have "r = (evt_Status e, obx_Status m)" by simp
  with rs show ?thesis by (simp add: LockWebhookEventForReplay_def)
qed

lemma ResetEvent_row:
  assumes "schema_ok db" and "e \<in> set (webhook_events db)" and "evt_ReplayCount e < 2 ^ 31 - 1"
    and "evt_Status e = InboxPending \<or> evt_Status e = InboxFailed"
  shows "ResetWebhookEventForReplay now (evt_ID e) db =
           Inr (1, db\<lparr>webhook_events := update_where (\<lambda>r. evt_ID r = evt_ID e) (replayed_event now) (webhook_events db)\<rparr>) \<and>
         schema_ok (db\<lparr>webhook_events := update_where (\<lambda>r. evt_ID r = evt_ID e) (replayed_event now) (webhook_events db)\<rparr>)"
proof -
  let ?p = "\<lambda>r. evt_ID r = evt_ID e \<and> (evt_Status r = InboxPending \<or> evt_Status r = InboxFailed)"
  have uniq: "r = e" if "r \<in> set (webhook_events db)" "evt_ID r = evt_ID e" for r
    using unique_keyD [OF schema_okD(8) [OF assms(1)] that(1) assms(2)] that by simp
  have upd: "update_where ?p (\<lambda>r. let failed = (evt_Status r = InboxFailed) in
               r\<lparr>evt_Status := (if failed then InboxPending else evt_Status r),
                 evt_Attempts := (if failed then 0 else evt_Attempts r),
                 evt_ProcessedAt := (if failed then None else evt_ProcessedAt r),
                 evt_LastError := (if failed then None else evt_LastError r),
                 evt_ReplayCount := evt_ReplayCount r + 1, evt_LastReplayedAt := Some now,
                 evt_UpdatedAt := now\<rparr>) (webhook_events db) =
      update_where (\<lambda>r. evt_ID r = evt_ID e) (replayed_event now) (webhook_events db)"
    using uniq assms(4) unfolding update_where_def
    by (intro map_cong refl) (auto simp: replayed_event_def)
  have ok: "schema_ok (db\<lparr>webhook_events := update_where (\<lambda>r. evt_ID r = evt_ID e) (replayed_event now) (webhook_events db)\<rparr>)"
    by (rule update_events_ok [OF assms(1)])
      (use assms(3) uniq in \<open>auto simp: replayed_event_def event_check_def int4_def\<close>)
  have "affected ?p (webhook_events db) = 1"
    using schema_okD(8) [OF assms(1)] assms(2,4) by (intro affected_1 [of evt_ID _ _ "evt_ID e" e]) auto
  with ok show ?thesis by (simp add: ResetWebhookEventForReplay_def upd)
qed

lemma ResetOutbox_row:
  assumes "schema_ok db" and "m \<in> set (outbox_events db)"
  shows "ResetOutboxForReplay now (obx_WebhookEventID m) db =
           (if obx_Status m = MessagePublished \<or> obx_Status m = MessageStatusFailed
            then Inr (1, db\<lparr>outbox_events := update_where (\<lambda>r. obx_WebhookEventID r = obx_WebhookEventID m)
                               (replayed_message now) (outbox_events db)\<rparr>)
            else Inr (0, db))"
proof -
  let ?p = "\<lambda>r. obx_WebhookEventID r = obx_WebhookEventID m \<and>
     (obx_Status r = MessagePublished \<or> obx_Status r = MessageStatusFailed)"
  let ?f = "\<lambda>r. r\<lparr>obx_Status := MessageStatusPending, obx_Attempts := 0, obx_PublishedAt := None,
                 obx_LastError := None, obx_LockedUntil := None, obx_LockedBy := None,
                 obx_NextAttemptAt := now, obx_UpdatedAt := now\<rparr>"
  have uniq: "r = m" if "r \<in> set (outbox_events db)" "obx_WebhookEventID r = obx_WebhookEventID m" for r
    using unique_keyD [OF schema_okD(11) [OF assms(1)] that(1) assms(2)] that by simp
  show ?thesis
  proof (cases "obx_Status m = MessagePublished \<or> obx_Status m = MessageStatusFailed")
    case True
    have upd: "update_where ?p ?f (outbox_events db) =
        update_where (\<lambda>r. obx_WebhookEventID r = obx_WebhookEventID m) (replayed_message now) (outbox_events db)"
      using uniq True unfolding update_where_def by (intro map_cong refl) (auto simp: replayed_message_def)
    have "schema_ok (db\<lparr>outbox_events := update_where ?p ?f (outbox_events db)\<rparr>)"
      by (rule update_outbox_ok [OF assms(1)]) (auto simp: outbox_check_def int4_def)
    moreover have "affected ?p (outbox_events db) = 1"
      using schema_okD(11) [OF assms(1)] assms(2) True
      by (intro affected_1 [of obx_WebhookEventID _ _ "obx_WebhookEventID m" m]) auto
    ultimately show ?thesis using True upd by (simp add: ResetOutboxForReplay_def)
  next
    case False
    then have "update_where ?p ?f (outbox_events db) = outbox_events db" "affected ?p (outbox_events db) = 0"
      using uniq by (auto simp: affected_0_iff intro!: update_where_none)
    with False assms(1) show ?thesis by (simp add: ResetOutboxForReplay_def)
  qed
qed

lemma GetWebhookEvent_row:
  assumes "filter (\<lambda>r. evt_ID r = i) (webhook_events db) = [e]" and "evt_ID e = i"
    and "filter (\<lambda>m. obx_WebhookEventID m = i) (outbox_events db) = [m]"
  shows "GetWebhookEvent i db = Inr (Some (e, Some m), db)"
  using assms by (simp add: GetWebhookEvent_def left_join_def)

text \<open>
  Replay. For an event with its outbox message: it is replayable exactly when the event failed,
  or is still pending while its publication failed; then, if the message is not on its way, the
  event is pending with a fresh budget, the same message (no second one) is pending and due at
  once, the replay is counted and the caller sees the new state. In every other case nothing
  changes and the caller gets the reason.
\<close>

theorem Reprocess_spec:
  assumes "schema_ok db" and "e \<in> set (webhook_events db)" and "m \<in> set (outbox_events db)"
    and "obx_WebhookEventID m = evt_ID e" and "evt_ReplayCount e < 2 ^ 31 - 1"
  shows "WebhookRepository_Reprocess no_faults now db (evt_ID e) =
    (if \<not> (evt_Status e = InboxFailed \<or> evt_Status e = InboxPending \<and> obx_Status m = MessageStatusFailed)
     then (db, Inl (Sentinel ErrEventNotReplayable))
     else if obx_Status m = MessageStatusPending \<or> obx_Status m = MessagePublishing
     then (db, Inl (Errorf [T ''replay invariant: reset '', T (decimal 1), T '' inbox and '', T (decimal 0), T '' outbox rows'']))
     else (db\<lparr>webhook_events := update_where (\<lambda>r. evt_ID r = evt_ID e) (replayed_event now) (webhook_events db),
              outbox_events := update_where (\<lambda>r. obx_WebhookEventID r = evt_ID e) (replayed_message now) (outbox_events db)\<rparr>,
           Inr (inspectionFromValues (replayed_event now e, Some (replayed_message now m)))))"
proof (cases "evt_Status e = InboxFailed \<or> evt_Status e = InboxPending \<and> obx_Status m = MessageStatusFailed")
  case False
  then show ?thesis
    using LockForReplay_row [OF assms(1-4)] by (auto simp: WebhookRepository_Reprocess_def)
next
  case True
  then have st: "evt_Status e = InboxPending \<or> evt_Status e = InboxFailed" by auto
  define d1 where "d1 = db\<lparr>webhook_events := update_where (\<lambda>r. evt_ID r = evt_ID e) (replayed_event now) (webhook_events db)\<rparr>"
  define d2 where "d2 = d1\<lparr>outbox_events := update_where (\<lambda>r. obx_WebhookEventID r = evt_ID e) (replayed_message now) (outbox_events db)\<rparr>"
  have r1: "ResetWebhookEventForReplay now (evt_ID e) db = Inr (1, d1)" and ok1: "schema_ok d1"
    using ResetEvent_row [OF assms(1,2,5) st] by (auto simp: d1_def)
  have r2: "ResetOutboxForReplay now (evt_ID e) d1 =
      (if obx_Status m = MessagePublished \<or> obx_Status m = MessageStatusFailed then Inr (1, d2) else Inr (0, d1))"
    using ResetOutbox_row [OF ok1, of m now] assms(3,4) by (auto simp: d1_def d2_def)
  have "GetWebhookEvent (evt_ID e) d2 = Inr (Some (replayed_event now e, Some (replayed_message now m)), d2)"
    using filter_unique [OF schema_okD(8) [OF assms(1)] assms(2)] filter_unique [OF schema_okD(11) [OF assms(1)] assms(3)] assms(4)
    by (intro GetWebhookEvent_row)
      (simp_all add: d1_def d2_def filter_update_where replayed_event_def replayed_message_def)
  moreover have "obx_Status m \<in> {MessageStatusPending, MessagePublishing, MessagePublished, MessageStatusFailed}"
    using assms(1,3) by (auto simp: schema_ok_def outbox_ok_def list_all_iff outbox_check_def)
  ultimately show ?thesis
    using True st LockForReplay_row [OF assms(1-4)] r1 r2
    by (auto simp: WebhookRepository_Reprocess_def d2_def d1_def)
qed

definition failed_db :: database where
  "failed_db = sample_db\<lparr>webhook_events := [sample_event\<lparr>evt_Status := InboxFailed, evt_Attempts := 5\<rparr>],
     outbox_events := [sample_message\<lparr>obx_Status := MessagePublished, obx_PublishedAt := Some 6\<rparr>]\<rparr>"

lemma failed_ok: "schema_ok failed_db"
  by (simp add: failed_db_def schema_ok_def table_ok_defs check_defs unique_on_def sample_order_def sample_payment_def
      sample_attempt_def sample_event_def sample_message_def int4_def int8_def)

theorem Reprocess_spec_witness:
  "\<exists>db' v. WebhookRepository_Reprocess no_faults 20 failed_db ''evt_1'' = (db', Inr v) \<and> ei_Status v = InboxPending \<and>
     ei_ReplayCount v = 1 \<and> map obx_Status (outbox_events db') = [MessageStatusPending]"
  using Reprocess_spec [OF failed_ok, of "sample_event\<lparr>evt_Status := InboxFailed, evt_Attempts := 5\<rparr>"
      "sample_message\<lparr>obx_Status := MessagePublished, obx_PublishedAt := Some 6\<rparr>" 20]
  by (simp add: failed_db_def)
    (simp add: sample_event_def sample_message_def inspectionFromValues_def replayed_event_def replayed_message_def)

end
