(* ===== verification/System.thy ===== *)
theory System
  imports Ledger Order_Repository Payment_Repository Webhook_Repository
begin

text \<open>
  The processes together. The API, the relay and the consumer run at once and meet in the database
  only; a run interleaves their repository operations, each with arbitrary faults, clocks and
  provider answers. Where an operation has a gap between its statements, other steps run in it.
  The section proves that every run keeps the schema, the books and the link from inbox to outbox,
  and loses nothing.
\<close>

section \<open>Operations that move no money\<close>

lemma quiet_same:
  "orders db' = orders db \<Longrightarrow> payments db' = payments db \<Longrightarrow> payment_attempts db' = payment_attempts db \<Longrightarrow> quiet db db'"
  by (simp add: quiet_def books_defs)

definition quiet_stmt :: "'a stmt \<Rightarrow> bool" where
  "quiet_stmt s \<longleftrightarrow> (\<forall>db a db'. s db = Inr (a, db') \<longrightarrow> quiet db db')"

lemma quiet_autocommit: "quiet_stmt s \<Longrightarrow> autocommit f s db = (db', r) \<Longrightarrow> quiet db db'"
  by (cases f) (auto simp: autocommit_def quiet_stmt_def split: sum.splits prod.splits)

lemma quiet_insert_order: "ord_Status row = OrderStatusPending \<Longrightarrow> quiet_stmt (insert_order row)"
  by (auto simp: quiet_stmt_def insert_order_def insert_do_nothing_def exec_write_Inr quiet_def books_defs split: if_splits)

lemma quiet_insert_payment: "pay_Status row \<noteq> PaymentStatusSucceeded \<Longrightarrow> quiet_stmt (insert_payment row)"
  by (auto simp: quiet_stmt_def insert_payment_def insert_do_nothing_def exec_write_Inr quiet_def books_defs split: if_splits)

lemma quiet_insert_attempt: "att_Status row \<noteq> AttemptStatusSucceeded \<Longrightarrow> quiet_stmt (insert_attempt row)"
  by (auto simp: quiet_stmt_def insert_attempt_def insert_do_nothing_def exec_write_Inr quiet_def books_defs split: if_splits)

lemma filter_update_neither:
  "(\<And>r. q r \<Longrightarrow> \<not> p r \<and> \<not> p (f r)) \<Longrightarrow> filter p (update_where q f t) = filter p t"
  by (induction t) auto

lemma quiet_update_session:
  assumes "attempt_Status a = AttemptStatusPending"
  shows "quiet_stmt (update_session a)"
proof -
  have filt: "filter (\<lambda>r. att_Status r = AttemptStatusSucceeded)
      (update_where (\<lambda>r. att_ID r = attempt_ID a \<and> att_Status r = AttemptStatusCreated) f t) =
      filter (\<lambda>r. att_Status r = AttemptStatusSucceeded) t"
    if "\<And>r. att_Status (f r) = attempt_Status a" for f t
    by (rule filter_update_neither) (simp add: assms that)
  show ?thesis
    by (auto simp: quiet_stmt_def update_session_def Let_def exec_write_Inr quiet_def books_defs filt
        simp del: set_map set_filter)
qed

section \<open>The link from inbox to outbox\<close>

text \<open>Every event that is not skipped has its message.\<close>

definition mailed :: "database \<Rightarrow> bool" where
  "mailed db \<longleftrightarrow> list_all (\<lambda>e. evt_Status e = InboxSkipped \<or>
     list_ex (\<lambda>m. obx_WebhookEventID m = evt_ID e) (outbox_events db)) (webhook_events db)"

text \<open>What an operation may do to the inbox: an event that is not skipped afterwards was there and not
  skipped, or has a message.\<close>

definition mail_kept :: "database \<Rightarrow> database \<Rightarrow> bool" where
  "mail_kept db db' \<longleftrightarrow> (\<forall>e' \<in> set (webhook_events db').
     (\<exists>e \<in> set (webhook_events db). evt_ID e = evt_ID e' \<and> evt_Status e = evt_Status e') \<or>
     evt_Status e' = InboxSkipped \<or> (\<exists>m \<in> set (outbox_events db'). obx_WebhookEventID m = evt_ID e'))"

lemma mailed_step: "evolves db db' \<Longrightarrow> mail_kept db db' \<Longrightarrow> mailed db \<Longrightarrow> mailed db'"
  unfolding evolves_def mailed_def mail_kept_def list_all_iff list_ex_iff keeps_def by (metis (no_types, lifting) prod.inject)

lemma mail_kept_same: "webhook_events db' = webhook_events db \<Longrightarrow> mail_kept db db'"
  by (auto simp: mail_kept_def)

definition good :: "database \<Rightarrow> bool" where
  "good db \<longleftrightarrow> schema_ok db \<and> ledger_ok db \<and> mailed db"

lemma good_step:
  "good db \<Longrightarrow> schema_ok db' \<Longrightarrow> evolves db db' \<Longrightarrow> quiet db db' \<Longrightarrow> mail_kept db db' \<Longrightarrow> good db' \<and> evolves db db'"
  unfolding good_def using mailed_step quiet_ledger by blast

lemma good_empty: "good empty_db"
  by (simp add: good_def schema_ok_empty) (simp add: empty_db_def ledger_ok_def mailed_def books_defs)


section \<open>The operations, one by one\<close>

text \<open>Creating an order: the insert, then whatever others do, then a read.\<close>

lemma CreateOrGet_result:
  "autocommit (f 0) (insert_order (OrderFromDomain ord)) db = (db1, x) \<Longrightarrow>
   OrderRepository_CreateOrGet f (\<lambda>_. db2) db ord = (db', r) \<Longrightarrow> db' = db1 \<or> db' = db2"
  by (auto simp: OrderRepository_CreateOrGet_def autocommit_def select_order_def
      split: sum.splits prod.splits option.splits if_splits fault.splits)

lemma good_insert_order:
  assumes "good db" and "Order_New i p q k now = Inr ord"
    and "autocommit f (insert_order (OrderFromDomain ord)) db = (db', r)"
  shows "good db' \<and> evolves db db'"
proof (rule good_step [OF assms(1)])
  show "schema_ok db'" "evolves db db'"
    using safe_autocommit [OF safe_insert_order _ assms(3)] assms(1) by (auto simp: good_def)
  have "ord_Status (OrderFromDomain ord) = OrderStatusPending"
    using assms(2) by (simp add: Order_New_Inr_iff OrderFromDomain_def)
  then show "quiet db db'" by (rule quiet_autocommit [OF quiet_insert_order assms(3)])
  show "mail_kept db db'"
    using assms(3) by (cases f) (auto intro!: mail_kept_same simp: autocommit_def insert_order_def insert_do_nothing_def
        exec_write_Inr split: sum.splits prod.splits if_splits)
qed

text \<open>Preparing a checkout, from the state the gap after its first lookup left.\<close>

lemma prepareCheckout_quiet:
  assumes "prepareCheckout f (\<lambda>_. d) p a db = Inr (r, w)"
    and "payment_Status p \<noteq> PaymentStatusSucceeded" and "attempt_Status a \<noteq> AttemptStatusSucceeded"
  shows "quiet d w \<and> webhook_events w = webhook_events d"
proof -
  have pay: "quiet d w1 \<and> webhook_events w1 = webhook_events d" if "createOrGetActivePayment f p d = Inr (p1, w1)" for p1 w1
  proof -
    have "insert_payment (PaymentFromDomain p) d = Inr (n, w1) \<Longrightarrow> quiet d w1 \<and> webhook_events w1 = webhook_events d" for n
      using quiet_insert_payment [of "PaymentFromDomain p"] assms(2) insert_payment_cases [of "PaymentFromDomain p" d n w1]
      by (auto simp: quiet_stmt_def PaymentFromDomain_def)
    with that show ?thesis
      by (fastforce simp: createOrGetActivePayment_def in_tx_Inr split: sum.splits prod.splits option.splits if_splits)
  qed
  have att: "quiet w1 w' \<and> webhook_events w' = webhook_events w1"
    if "insert_attempt ((PaymentAttemptFromDomain a)\<lparr>att_PaymentID := i\<rparr>) w1 = Inr (n, w')" for i w1 n w'
    using that quiet_insert_attempt [of "(PaymentAttemptFromDomain a)\<lparr>att_PaymentID := i\<rparr>"] assms(3)
      insert_attempt_cases [OF that] by (auto simp: quiet_stmt_def PaymentAttemptFromDomain_def)
  from assms(1) consider "w = d"
    | p1 w1 n where "createOrGetActivePayment f p d = Inr (p1, w1)"
        "in_tx (f 5) (insert_attempt ((PaymentAttemptFromDomain a)\<lparr>att_PaymentID := payment_ID p1\<rparr>)) w1 = Inr (n, w)"
    by (fastforce simp: prepareCheckout_def Let_def split: sum.splits prod.splits option.splits if_splits)
  then show ?thesis
  proof cases
    case 2
    with pay [OF 2(1)] att show ?thesis by (auto simp: in_tx_Inr intro: quiet_trans)
  qed simp
qed

lemma good_prepare:
  assumes "good db" and "good d" and "evolves db d" and "Payment_New pid aid ord k now = Inr (p, a)"
    and "PrepareCheckout f (\<lambda>_. d) db p a = (db', r)"
  shows "good db' \<and> evolves db db'"
proof -
  from assms(5) consider "db' = db" | "db' = d" | x where "prepareCheckout f (\<lambda>_. d) p a db = Inr (x, db')"
    by (auto simp: PrepareCheckout_def split: option.splits sum.splits prod.splits dest: commit_tx_cases)
  then show ?thesis
  proof cases
    case 3
    have "payment_Status p \<noteq> PaymentStatusSucceeded" "attempt_Status a \<noteq> AttemptStatusSucceeded"
      using assms(4) by (auto simp: Payment_New_def split: if_splits)
    from prepareCheckout_quiet [OF 3 this] have "quiet d db'" "mail_kept d db'" by (auto intro: mail_kept_same)
    moreover have "schema_ok db' \<and> evolves d db'"
      using prepareCheckout_safe [OF _ 3] assms(2) by (simp add: good_def)
    ultimately have "good db' \<and> evolves d db'" using good_step [OF assms(2)] by blast
    with assms(3) show ?thesis by (blast intro: evolves_trans)
  qed (use assms in auto)
qed


text \<open>Saving a session: the conditional update, then whatever others do, then a read.\<close>

lemma SaveSession_result:
  "autocommit (f 0) (update_session a) db = (db1, x) \<Longrightarrow> SaveSession f (\<lambda>_. db2) db a = (db', r) \<Longrightarrow> db' = db1 \<or> db' = db2"
  by (auto simp: SaveSession_def autocommit_def split: sum.splits prod.splits option.splits if_splits fault.splits)

lemma good_update_session:
  assumes "good db" and "AttachSession up a0 s now = Inr a" and "autocommit f (update_session a) db = (db', r)"
  shows "good db' \<and> evolves db db'"
proof (rule good_step [OF assms(1)])
  show "schema_ok db'" "evolves db db'"
    using safe_autocommit [OF safe_update_session _ assms(3)] assms(1) by (auto simp: good_def)
  have "attempt_Status a = AttemptStatusPending" using assms(2) by (auto simp: AttachSession_def split: if_splits)
  then show "quiet db db'" by (rule quiet_autocommit [OF quiet_update_session assms(3)])
  show "mail_kept db db'"
    using assms(3) by (cases f) (auto intro!: mail_kept_same simp: autocommit_def update_session_def Let_def exec_write_Inr
        split: sum.splits prod.splits)
qed

text \<open>Receiving a webhook.\<close>

lemma receive_cases:
  assumes "receive jv vf pr (StoreIgnored f) (StorePending g t) neid nmid now inp db = (db', k, r)"
  obtains "db' = db"
  | e q where "\<not> Handled e" "event_Status e = InboxSkipped" "StoreIgnored f db e = (db', q)"
  | e m q where "message_EventID m = event_ID e" "StorePending g t db e m = (db', q)"
proof -
  from assms consider (same) "db' = db"
    | (new) i e and pe :: provider_event where "NewEvent jv i pr (pe_ID pe) (pe_Type pe) (pe_Kind pe) (rin_RawBody inp) (pe_Payload pe) now = Inr e"
        "\<exists>q. receive_store (StoreIgnored f) (StorePending g t) nmid now (rin_CorrelationID inp) (pe_OccurredAt pe) e db = (db', q)"
    by (auto simp: receive_def split: option.splits sum.splits prod.splits)
  then show thesis
  proof cases
    case new
    from new(2) consider "db' = db" | q where "\<not> Handled e" "StoreIgnored f db e = (db', q)"
      | mi m q where "NewMessage mi e (rin_CorrelationID inp) (pe_OccurredAt pe) now = Inr m" "StorePending g t db e m = (db', q)"
      by (auto simp: receive_store_def split: sum.splits prod.splits if_splits)
    then show thesis
    proof cases
      case 2
      with NewEventD [OF new(1)] that(2) show thesis by simp
    next
      case 3
      then have "message_EventID m = event_ID e" by (auto simp: NewMessage_def Let_def split: if_splits)
      with 3 that(3) show thesis by blast
    qed (rule that(1))
  qed (rule that(1))
qed

lemma good_receive:
  assumes "good db" and "receive jv vf pr (StoreIgnored f) (StorePending g t) neid nmid now inp db = (db', k, r)"
  shows "good db' \<and> evolves db db'"
  using assms(2)
proof (cases rule: receive_cases)
  case 1
  with assms(1) show ?thesis by simp
next
  case (2 e q)
  have ok: "schema_ok db' \<and> evolves db db'" using StoreIgnored_outcome [OF _ 2(3)] assms(1) by (auto simp: good_def)
  have "db' = db \<or> db' = db\<lparr>webhook_events := webhook_events db @ [event_row_of e]\<rparr>"
    using 2(3) by (auto simp: StoreIgnored_def autocommit_def split: fault.splits sum.splits prod.splits dest!: insert_event_cases)
  then have "quiet db db'" "mail_kept db db'" using 2(2) by (auto intro: quiet_same simp: mail_kept_def)
  with good_step [OF assms(1)] ok show ?thesis by blast
next
  case (3 e m q)
  have ok: "schema_ok db' \<and> evolves db db'" using StorePending_outcome [OF _ 3] assms(1) by (auto simp: good_def)
  have "db' = db \<or> (\<exists>row. db' = db\<lparr>webhook_events := webhook_events db @ [event_row_of e], outbox_events := outbox_events db @ [row]\<rparr> \<and>
      obx_WebhookEventID row = event_ID e)"
    using StorePending_cases [OF _ 3(2)] assms(1) 3(1) by (auto simp: good_def new_outbox_row_def)
  then have "quiet db db'" "mail_kept db db'" by (auto intro!: quiet_same simp: mail_kept_def)
  with good_step [OF assms(1)] ok show ?thesis by blast
qed

text \<open>The relay's statements touch only the outbox.\<close>

lemma good_outbox:
  assumes "good db" and "safe_stmt s" and "autocommit f s db = (db', r)"
    and "\<And>d a d'. s d = Inr (a, d') \<Longrightarrow> orders d' = orders d \<and> payments d' = payments d \<and>
           payment_attempts d' = payment_attempts d \<and> webhook_events d' = webhook_events d"
  shows "good db' \<and> evolves db db'"
proof (rule good_step [OF assms(1)])
  show "schema_ok db'" "evolves db db'"
    using safe_autocommit [OF assms(2) _ assms(3)] assms(1) by (auto simp: good_def)
  have "orders db' = orders db \<and> payments db' = payments db \<and> payment_attempts db' = payment_attempts db \<and>
      webhook_events db' = webhook_events db"
    using assms(3,4) by (cases f) (fastforce simp: autocommit_def split: sum.splits prod.splits)+
  then show "quiet db db'" "mail_kept db db'" by (auto intro: quiet_same mail_kept_same)
qed

lemma good_settlement:
  assumes "good db" and "safe_stmt s" and "settlement f what s db = (db', r)"
    and "\<And>d a d'. s d = Inr (a, d') \<Longrightarrow> orders d' = orders d \<and> payments d' = payments d \<and>
           payment_attempts d' = payment_attempts d \<and> webhook_events d' = webhook_events d"
  shows "good db' \<and> evolves db db'"
proof -
  from assms(3) obtain x where "autocommit f s db = (db', x)"
    by (auto simp: settlement_def split: prod.splits sum.splits)
  then show ?thesis by (rule good_outbox [OF assms(1,2)]) (use assms(4) in blast)
qed


text \<open>Replaying failed work: the event it resets has a message, or it is not reset.\<close>

lemma Reprocess_cases:
  assumes "WebhookRepository_Reprocess f now db i = (db', r)"
  obtains "db' = db"
  | w n m where "\<exists>e \<in> set (outbox_events db). obx_WebhookEventID e = i"
      "ResetWebhookEventForReplay now i db = Inr (n, w)" "ResetOutboxForReplay now i w = Inr (m, db')"
proof -
  have lock: "w = db \<and> (\<exists>e \<in> set (outbox_events db). obx_WebhookEventID e = i)"
    if "LockWebhookEventForReplay i db = Inr (Some y, w)" for y w
  proof -
    have head: "(case rows of [] \<Rightarrow> None | r # _ \<Rightarrow> Some r) = Some y \<Longrightarrow> y \<in> set rows" for rows :: "(string \<times> string) list"
      by (auto split: list.splits)
    have w: "w = db" using that by (simp add: LockWebhookEventForReplay_def)
    have "y \<in> set [(evt_Status e, obx_Status m). e \<leftarrow> webhook_events db, m \<leftarrow> outbox_events db,
                obx_WebhookEventID m = evt_ID e \<and> evt_ID e = i]"
      by (rule head) (use that [unfolded w] in \<open>simp only: LockWebhookEventForReplay_def sum.inject prod.inject simp_thms\<close>)
    with w show ?thesis by auto
  qed
  show thesis
  proof (cases "db' = db")
    case False
    with assms show thesis
      by (auto simp: WebhookRepository_Reprocess_def in_tx_Inr GetWebhookEvent_def commit_tx_def
          split: option.splits sum.splits prod.splits if_splits fault.splits intro!: that(2) dest!: lock)
  qed (rule that(1))
qed


text \<open>An update of the inbox that only touches events that have a message.\<close>

lemma mail_kept_update:
  assumes "\<And>e. e \<in> set (webhook_events db') \<Longrightarrow> e \<in> set (webhook_events db) \<or> evt_ID e = i"
    and "\<exists>m \<in> set (outbox_events db'). obx_WebhookEventID m = i"
  shows "mail_kept db db'"
  unfolding mail_kept_def
proof
  fix e assume "e \<in> set (webhook_events db')"
  with assms(1) [of e] assms(2)
  show "(\<exists>e' \<in> set (webhook_events db). evt_ID e' = evt_ID e \<and> evt_Status e' = evt_Status e) \<or>
      evt_Status e = InboxSkipped \<or> (\<exists>m \<in> set (outbox_events db'). obx_WebhookEventID m = evt_ID e)" by blast
qed

lemma good_reprocess:
  assumes "good db" and "WebhookRepository_Reprocess f now db i = (db', r)"
  shows "good db' \<and> evolves db db'"
  using assms(2)
proof (cases rule: Reprocess_cases)
  case 1
  with assms(1) show ?thesis by simp
next
  case (2 w n m)
  have w: "schema_ok w \<and> evolves db w" using safe_stmtD [OF safe_ResetWebhookEventForReplay _ 2(2)] assms(1) by (simp add: good_def)
  have db': "schema_ok db' \<and> evolves w db'" using safe_stmtD [OF safe_ResetOutboxForReplay _ 2(3)] w by blast
  then have ok: "schema_ok db'" "evolves db db'" using w by (auto intro: evolves_trans)
  have "quiet db db'" using 2(2,3)
    by (auto intro!: quiet_same simp: ResetWebhookEventForReplay_def ResetOutboxForReplay_def Let_def exec_write_Inr)
  moreover have "mail_kept db db'"
  proof (rule mail_kept_update)
    show "e \<in> set (webhook_events db) \<or> evt_ID e = i" if "e \<in> set (webhook_events db')" for e
      using 2(2,3) that
      by (auto simp: ResetWebhookEventForReplay_def ResetOutboxForReplay_def Let_def exec_write_Inr elim!: in_update_whereE)
    show "\<exists>m \<in> set (outbox_events db'). obx_WebhookEventID m = i"
      using 2(1) ok(2) unfolding evolves_def keeps_def by (metis prod.inject)
  qed
  ultimately show ?thesis using good_step [OF assms(1) ok] by blast
qed

text \<open>Applying an event, and counting a failure, for an event some message names.\<close>

lemma good_process:
  assumes "good db" and "\<exists>m \<in> set (outbox_events db). obx_WebhookEventID m = i"
    and "EventRepository_Process fs now db i (handle_resolve pr interp) (handle_decide pr) = (db', r, cap)"
  shows "good db' \<and> evolves db db'"
proof -
  have ok: "schema_ok db" "ledger_ok db" using assms(1) by (simp_all add: good_def)
  note safe = Process_safe [OF ok(1) assms(3)]
  have "ledger_ok db'" using process_keeps_books [OF ok assms(3)] .
  moreover have "mailed db'"
  proof (rule mailed_step)
    show "mail_kept db db'" using ok(1) assms(3)
    proof (cases rule: Process_cases)
      case unchanged
      then show ?thesis by (simp add: mail_kept_same)
    next
      case (effect e ref x row a eff)
      show ?thesis
        by (rule mail_kept_update [where i = i])
          (use effect(8) assms(2) in \<open>auto simp: after_effect_def elim!: in_update_whereE\<close>)
    qed
  qed (use safe assms(1) in \<open>auto simp: good_def\<close>)
  ultimately show ?thesis using safe by (simp add: good_def)
qed

lemma good_failure:
  assumes "good db" and "\<exists>m \<in> set (outbox_events db). obx_WebhookEventID m = i"
    and "EventRepository_RecordFailure f now db i c t mx = (db', r)"
  shows "good db' \<and> evolves db db'"
proof (rule good_step [OF assms(1)])
  have ok: "schema_ok db" using assms(1) by (simp add: good_def)
  show "schema_ok db'" "evolves db db'" using RecordFailure_safe [OF ok assms(3)] by auto
  obtain x where x: "autocommit f (RecordWebhookEventFailure now t (int32 mx) (failure_text (Some c)) i) db = (db', x)"
    using assms(3) by (auto simp: EventRepository_RecordFailure_def split: prod.splits sum.splits option.splits)
  then show "quiet db db'"
    by (cases f) (auto intro!: quiet_same simp: autocommit_def RecordWebhookEventFailure_def Let_def exec_write_Inr
        split: sum.splits prod.splits)
  have "outbox_events db' = outbox_events db \<and> (\<forall>e \<in> set (webhook_events db'). e \<in> set (webhook_events db) \<or> evt_ID e = i)"
    using x by (cases f) (auto simp: autocommit_def RecordWebhookEventFailure_def Let_def exec_write_Inr
        split: sum.splits prod.splits elim!: in_update_whereE)
  then show "mail_kept db db'" using mail_kept_update [of db' db i] assms(2) by auto
qed


section \<open>Runs\<close>

text \<open>\<open>runs db db'\<close>: the processes can take the database from \<open>db\<close> to \<open>db'\<close>. Where an operation
  reads in one statement and acts in another, the rule has a run between the two. The consumer only
  gets events that a message names, and every object an operation writes was built by the domain's
  constructors, as the use cases do.\<close>

inductive runs :: "database \<Rightarrow> database \<Rightarrow> bool" where
  start: "runs db db"
| create_order:
    "\<lbrakk>runs db d1; Order_New i product q k now = Inr ord;
      autocommit (f 0) (insert_order (OrderFromDomain ord)) d1 = (d2, x); runs d2 d3;
      OrderRepository_CreateOrGet f (\<lambda>_. d3) d1 ord = (d4, r)\<rbrakk> \<Longrightarrow> runs db d4"
| prepare:
    "\<lbrakk>runs db d1; Payment_New pid aid ord k now = Inr (p, a); runs d1 d2;
      PrepareCheckout f (\<lambda>_. d2) d1 p a = (d3, pr)\<rbrakk> \<Longrightarrow> runs db d3"
| save_session:
    "\<lbrakk>runs db d1; AttachSession up a0 ses now = Inr a; autocommit (f 0) (update_session a) d1 = (d2, n); runs d2 d3;
      SaveSession f (\<lambda>_. d3) d1 a = (d4, e)\<rbrakk> \<Longrightarrow> runs db d4"
| receive_webhook:
    "\<lbrakk>runs db d1; receive jv vf provider (StoreIgnored f) (StorePending g t) neid nmid now inp d1 = (d2, kind, out)\<rbrakk>
     \<Longrightarrow> runs db d2"
| replay:
    "\<lbrakk>runs db d1; WebhookRepository_Reprocess f now d1 i = (d2, insp)\<rbrakk> \<Longrightarrow> runs db d2"
| lease_batch:
    "\<lbrakk>runs db d1; OutboxRepository_Lease f0 now skip d1 owner n d = (d2, ls)\<rbrakk> \<Longrightarrow> runs db d2"
| published:
    "\<lbrakk>runs db d1; OutboxRepository_Published f0 now d1 owner i = (d2, e)\<rbrakk> \<Longrightarrow> runs db d2"
| retried:
    "\<lbrakk>runs db d1; OutboxRepository_Retry f0 now d1 owner i c d = (d2, e)\<rbrakk> \<Longrightarrow> runs db d2"
| gave_up:
    "\<lbrakk>runs db d1; OutboxRepository_Failed f0 now d1 owner i c = (d2, e)\<rbrakk> \<Longrightarrow> runs db d2"
| process_event:
    "\<lbrakk>runs db d1; \<exists>m \<in> set (outbox_events d1). obx_WebhookEventID m = i;
      EventRepository_Process f now d1 i (handle_resolve provider interp) (handle_decide provider) = (d2, res, cap)\<rbrakk>
     \<Longrightarrow> runs db d2"
| count_failure:
    "\<lbrakk>runs db d1; \<exists>m \<in> set (outbox_events d1). obx_WebhookEventID m = i;
      EventRepository_RecordFailure f0 now d1 i c terminal mx = (d2, cnt)\<rbrakk> \<Longrightarrow> runs db d2"

lemma outbox_frame:
  "LeaseOutboxBatch now skip d ow n w = Inr (a, w') \<Longrightarrow> orders w' = orders w \<and> payments w' = payments w \<and>
     payment_attempts w' = payment_attempts w \<and> webhook_events w' = webhook_events w"
  "MarkOutboxPublished now i ow w = Inr (m, w') \<Longrightarrow> orders w' = orders w \<and> payments w' = payments w \<and>
     payment_attempts w' = payment_attempts w \<and> webhook_events w' = webhook_events w"
  "MarkOutboxRetryable now le b i ow w = Inr (m, w') \<Longrightarrow> orders w' = orders w \<and> payments w' = payments w \<and>
     payment_attempts w' = payment_attempts w \<and> webhook_events w' = webhook_events w"
  "MarkOutboxFailed now le i ow w = Inr (m, w') \<Longrightarrow> orders w' = orders w \<and> payments w' = payments w \<and>
     payment_attempts w' = payment_attempts w \<and> webhook_events w' = webhook_events w"
  by (auto simp: LeaseOutboxBatch_def MarkOutboxPublished_def MarkOutboxRetryable_def MarkOutboxFailed_def Let_def
      exec_write_Inr split: if_splits)

lemma good_lease:
  assumes "good db" and "OutboxRepository_Lease f now skip db owner n d = (db', ls)"
  shows "good db' \<and> evolves db db'"
proof -
  obtain x where "autocommit f (LeaseOutboxBatch now skip d (Some owner) (int32 n)) db = (db', x)"
    using assms(2) by (auto simp: OutboxRepository_Lease_def split: prod.splits sum.splits)
  then show ?thesis by (rule good_outbox [OF assms(1) safe_LeaseOutboxBatch]) (rule outbox_frame(1))
qed

lemma good_relay:
  "good db \<Longrightarrow> OutboxRepository_Published f now db owner i = (db', e) \<Longrightarrow> good db' \<and> evolves db db'"
  "good db \<Longrightarrow> OutboxRepository_Retry f now db owner i c d = (db', e) \<Longrightarrow> good db' \<and> evolves db db'"
  "good db \<Longrightarrow> OutboxRepository_Failed f now db owner i c = (db', e) \<Longrightarrow> good db' \<and> evolves db db'"
  unfolding OutboxRepository_Published_def OutboxRepository_Retry_def OutboxRepository_Failed_def
  by (erule good_settlement [OF _ safe_MarkOutboxPublished], assumption, erule outbox_frame)
    (erule good_settlement [OF _ safe_MarkOutboxRetryable], assumption, erule outbox_frame,
     erule good_settlement [OF _ safe_MarkOutboxFailed], assumption, erule outbox_frame)

text \<open>The invariant, by rule induction: every run from a good state ends in a good one, and the
  tables only evolved.\<close>

lemma runs_good: "runs db db' \<Longrightarrow> good db \<Longrightarrow> good db' \<and> evolves db db'"
proof (induction rule: runs.induct)
  case (create_order db d1 i product q k now ord f d2 x d3 d4 r)
  then have 1: "good d1 \<and> evolves db d1" by blast
  then have 2: "good d2 \<and> evolves d1 d2" using good_insert_order create_order.hyps(2,3) by blast
  then have 3: "good d3 \<and> evolves d2 d3" using create_order.IH(2) by blast
  from CreateOrGet_result [OF create_order.hyps(3,5)] 1 2 3 show ?case by (blast intro: evolves_trans)
next
  case (prepare db d1 pid aid ord k now p a d2 f d3 pr)
  then have 1: "good d1 \<and> evolves db d1" by blast
  then have 2: "good d2 \<and> evolves d1 d2" using prepare.IH(2) by blast
  from good_prepare [OF _ _ _ prepare.hyps(2,4)] 1 2 show ?case by (blast intro: evolves_trans)
next
  case (save_session db d1 up a0 ses now a f d2 n d3 d4 e)
  then have 1: "good d1 \<and> evolves db d1" by blast
  then have 2: "good d2 \<and> evolves d1 d2" using good_update_session save_session.hyps(2,3) by blast
  then have 3: "good d3 \<and> evolves d2 d3" using save_session.IH(2) by blast
  from SaveSession_result [OF save_session.hyps(3,5)] 1 2 3 show ?case by (blast intro: evolves_trans)
next
  case receive_webhook
  then show ?case using good_receive by (blast intro: evolves_trans)
next
  case replay
  then show ?case using good_reprocess by (blast intro: evolves_trans)
next
  case lease_batch
  then show ?case using good_lease by (blast intro: evolves_trans)
next
  case published
  then show ?case using good_relay(1) by (blast intro: evolves_trans)
next
  case retried
  then show ?case using good_relay(2) by (blast intro: evolves_trans)
next
  case gave_up
  then show ?case using good_relay(3) by (blast intro: evolves_trans)
next
  case process_event
  then show ?case using good_process by (blast intro: evolves_trans)
next
  case count_failure
  then show ?case using good_failure by (blast intro: evolves_trans)
qed simp


section \<open>A run that pays an order\<close>

text \<open>From the empty database to the sample state: an order, its checkout and session, and the
  provider's event. Then the event is applied.\<close>

definition run_1 :: database where "run_1 = empty_db\<lparr>orders := [sample_order]\<rparr>"

definition run_attempt :: attempt_row where
  "run_attempt = sample_attempt\<lparr>att_Status := AttemptStatusCreated, att_ProviderSessionID := None, att_CheckoutUrl := None,
     att_ExpiresAt := None, att_UpdatedAt := 2\<rparr>"

definition run_2 :: database where
  "run_2 = run_1\<lparr>payments := [sample_payment], payment_attempts := [run_attempt]\<rparr>"

definition run_3 :: database where "run_3 = run_2\<lparr>payment_attempts := [sample_attempt]\<rparr>"

lemmas run_defs = run_1_def run_2_def run_3_def empty_db_def run_attempt_def sample_defs

lemma run_ok: "schema_ok run_1" "schema_ok (run_1\<lparr>payments := [sample_payment]\<rparr>)" "schema_ok run_2" "schema_ok run_3"
  by (simp_all add: schema_ok_def table_ok_defs check_defs unique_on_def run_defs int4_def int8_def attempt_active_def
      payment_active_def)

lemma TrimSpace_run [simp]: "TrimSpace ''ord_1'' = ''ord_1''" "TrimSpace ''p'' = ''p''" "TrimSpace ''k1'' = ''k1''"
  "TrimSpace ''k2'' = ''k2''" "TrimSpace ''pay_1'' = ''pay_1''" "TrimSpace ''pat_1'' = ''pat_1''" "TrimSpace ''cs_1'' = ''cs_1''"
  by (rule TrimSpace_plain; auto simp: plain_char_def)+

definition run_order :: order where "run_order = Order_ToDomain sample_order"

lemma run_order_new:
  "Order_New ''ord_1'' \<lparr>product_ID = ''p'', product_Name = [], product_UnitAmount = 50, product_Currency = ''BRL''\<rparr> 2 ''k1'' 1
     = Inr run_order"
  by (simp add: Order_New_Inr_iff Product_Validate_None validProductID_def order_limits ValidateIdempotencyKey_None
      MaxInt64_def run_order_def Order_ToDomain_def sample_order_def)

lemma run_order_row: "OrderFromDomain run_order = sample_order"
  by (simp add: OrderFromDomain_def run_order_def Order_ToDomain_def int32_id sample_order_def)

lemma runs_1: "runs empty_db run_1"
proof -
  have ins: "insert_order sample_order empty_db = Inr (1, run_1)"
    using run_ok(1) by (simp add: insert_order_def insert_do_nothing_def run_1_def empty_db_def)
      (simp add: order_check_def sample_order_def int4_def int8_def)
  then have "autocommit NoFault (insert_order (OrderFromDomain run_order)) empty_db = (run_1, Inr 1)"
    by (simp add: autocommit_def run_order_row)
  moreover from ins have "OrderRepository_CreateOrGet no_faults (\<lambda>_. run_1) empty_db run_order = (run_1, Inr (run_order, True))"
    by (simp add: OrderRepository_CreateOrGet_def autocommit_def run_order_row)
  ultimately show ?thesis
    by (rule runs.create_order [OF runs.start run_order_new _ runs.start, where f = no_faults])
qed

lemma runs_2: "runs empty_db run_2"
proof -
  have new: "Payment_New ''pay_1'' ''pat_1'' run_order ''k2'' 2 =
      Inr (Payment_ToDomain sample_payment, PaymentAttempt_ToDomain run_attempt)"
    by (simp add: Payment_New_def run_order_def Order_ToDomain_def Payment_ToDomain_def PaymentAttempt_ToDomain_def
        sample_order_def sample_payment_def run_attempt_def sample_attempt_def or_empty_def ValidateQuantity_None
        ValidateIdempotencyKey_None order_limits)
  have "insert_payment sample_payment run_1 = Inr (1, run_1\<lparr>payments := [sample_payment]\<rparr>)"
    using run_ok(2) by (simp add: insert_payment_def insert_do_nothing_def run_1_def empty_db_def)
      (simp add: payment_check_def sample_payment_def int8_def)
  moreover have "insert_attempt run_attempt (run_1\<lparr>payments := [sample_payment]\<rparr>) = Inr (1, run_2)"
    using run_ok(3) by (simp add: insert_attempt_def insert_do_nothing_def run_1_def run_2_def empty_db_def)
      (simp add: attempt_check_def run_attempt_def)
  moreover have "PaymentFromDomain (Payment_ToDomain sample_payment) = sample_payment"
    by (simp add: PaymentFromDomain_def Payment_ToDomain_def sample_payment_def)
  moreover have "(PaymentAttemptFromDomain (PaymentAttempt_ToDomain run_attempt))
      \<lparr>att_PaymentID := payment_ID (Payment_ToDomain sample_payment)\<rparr> = run_attempt"
    by (simp add: PaymentAttemptFromDomain_def PaymentAttempt_ToDomain_def run_attempt_def sample_attempt_def or_empty_def
        nonempty_def Payment_ToDomain_def sample_payment_def)
  moreover have "findAttemptByKey NoFault (attempt_IdempotencyKey (PaymentAttempt_ToDomain run_attempt)) run_1 = Inr None"
    by (simp add: findAttemptByKey_def run_1_def empty_db_def)
  ultimately have "PrepareCheckout no_faults (\<lambda>_. run_1) run_1 (Payment_ToDomain sample_payment) (PaymentAttempt_ToDomain run_attempt) =
      (run_2, Inr (Payment_ToDomain sample_payment, PaymentAttempt_ToDomain run_attempt))"
    by (simp add: PrepareCheckout_def prepareCheckout_def createOrGetActivePayment_def Let_def)
  from runs.prepare [OF runs_1 new runs.start this] show ?thesis .
qed

lemma runs_3: "runs empty_db run_3"
proof -
  have att: "AttachSession (\<lambda>_. Inr \<lparr>url_Scheme = ''https'', url_Host = ''checkout.stripe.com''\<rparr>) (PaymentAttempt_ToDomain run_attempt)
     \<lparr>session_ID = ''cs_1'', session_PaymentIntentID = [], session_URL = ''https://checkout.stripe.com/1'', session_ExpiresAt = 900\<rparr> 3
     = Inr (PaymentAttempt_ToDomain sample_attempt)"
    by (simp add: AttachSession_def PaymentAttempt_ToDomain_def run_attempt_def sample_attempt_def or_empty_def)
  have up: "update_session (PaymentAttempt_ToDomain sample_attempt) run_2 = Inr (1, run_3)"
    using run_ok(4) by (simp add: update_session_def Let_def run_2_def run_3_def PaymentAttempt_ToDomain_def)
      (simp add: run_attempt_def sample_attempt_def affected_def or_empty_def nonempty_def)
  then have "autocommit NoFault (update_session (PaymentAttempt_ToDomain sample_attempt)) run_2 = (run_3, Inr 1)"
    "SaveSession no_faults (\<lambda>_. run_3) run_2 (PaymentAttempt_ToDomain sample_attempt) = (run_3, None)"
    by (simp_all add: autocommit_def SaveSession_def)
  then show ?thesis
    by (rule runs.save_session [OF runs_2 att _ runs.start, where f = no_faults])
qed


text \<open>The provider's event arrives, is stored with its message, leased and published, and applied.\<close>

definition run_verify :: "string \<Rightarrow> string \<Rightarrow> provider_event result" where
  "run_verify raw sig = Inr \<lparr>pe_ID = ''evt_s1'', pe_Type = ''checkout.session.completed'', pe_Kind = KindCheckoutCompleted,
     pe_OccurredAt = 4, pe_Payload = raw\<rparr>"

definition run_input :: receive_input where
  "run_input = \<lparr>rin_RawBody = ''{}'', rin_Signature = ''s'', rin_CorrelationID = ''c'', rin_ReadError = None\<rparr>"

definition run_event :: event where
  "run_event = \<lparr>event_ID = ''evt_1'', event_Provider = Stripe, event_ProviderEventID = ''evt_s1'',
     event_Type = ''checkout.session.completed'', event_Kind = KindCheckoutCompleted, event_RawPayload = ''{}'',
     event_Payload = ''{}'', event_Status = InboxPending, event_ReceivedAt = 4\<rparr>"

definition run_message :: message where
  "run_message = \<lparr>message_ID = ''msg_1'', message_EventID = ''evt_1'', message_Kind = KindCheckoutCompleted,
     message_SchemaVersion = SchemaVersion, message_RoutingKey = routingKeyPrefix @ KindCheckoutCompleted,
     message_CorrelationID = ''c'', message_OccurredAt = 4, message_Status = MessageStatusPending, message_CreatedAt = 4\<rparr>"

lemma run_stored: "StorePending no_faults 4 run_3 run_event run_message = (sample_db, Inr True)"
proof -
  have row: "event_row_of run_event = sample_event" by (simp add: new_event_row_def run_event_def sample_event_def)
  have "schema_ok (run_3\<lparr>webhook_events := [sample_event]\<rparr>)"
    by (simp add: schema_ok_def table_ok_defs check_defs unique_on_def run_defs int4_def int8_def)
  then have "insert_event run_event run_3 = Inr (Some ''evt_1'', run_3\<lparr>webhook_events := [sample_event]\<rparr>)"
    using row by (simp add: insert_event_def InsertWebhookEvent_def insert_do_nothing_def Let_def)
      (simp add: event_check_def int4_def sample_event_def run_event_def run_3_def run_2_def run_1_def empty_db_def)
  moreover have "new_outbox_row 4 ''msg_1'' ''evt_1'' KindCheckoutCompleted (int32 SchemaVersion)
      (routingKeyPrefix @ KindCheckoutCompleted) ''c'' 4 MessageStatusPending 4 = sample_message"
    by (simp add: new_outbox_row_def sample_message_def SchemaVersion_def int32_id)
  moreover have "run_3\<lparr>webhook_events := [sample_event], outbox_events := [sample_message]\<rparr> = sample_db"
    by (simp add: run_3_def run_2_def run_1_def empty_db_def sample_db_def)
  moreover have "outbox_events run_3 = []" by (simp add: run_3_def run_2_def run_1_def empty_db_def)
  ultimately show ?thesis
    by (simp add: StorePending_def InsertOutboxEvent_def run_message_def)
qed

lemma TrimSpace_event [simp]: "TrimSpace ''evt_1'' = ''evt_1''" "TrimSpace Stripe = Stripe" "TrimSpace ''msg_1'' = ''msg_1''"
  "TrimSpace ''checkout.session.completed'' = ''checkout.session.completed''" "TrimSpace ''evt_s1'' = ''evt_s1''"
  unfolding Stripe_def by (rule TrimSpace_plain; auto simp: plain_char_def)+

lemma runs_sample: "runs empty_db sample_db"
proof -
  have "receive (\<lambda>_. True) run_verify Stripe (StoreIgnored no_faults) (StorePending no_faults 4) (Inr ''evt_1'') (Inr ''msg_1'') 4
      run_input run_3 = (sample_db, KindCheckoutCompleted, Inr OutcomeAccepted)"
    using run_stored [unfolded run_event_def run_message_def]
    by (simp add: receive_def receive_store_def run_input_def run_verify_def NewEvent_def Handled_def NewMessage_def
        Let_def Stripe_def KindCheckoutCompleted_def KindUnknown_def)
  from runs.receive_webhook [OF runs_3 this] show ?thesis .
qed

lemma runs_paid: "runs empty_db sample_after \<and> paid_orders sample_after = {''ord_1''}"
proof -
  have "\<exists>m \<in> set (outbox_events sample_db). obx_WebhookEventID m = ''evt_1''" by (simp add: sample_message_def)
  from runs.process_event [OF runs_sample this sample_run] after_effect_books [OF sample_ok sample_ledger sample_lock
      sample_decide refl, of 10 "''evt_1''"]
  show ?thesis by (simp add: sample_effect_def) (simp add: paid_orders_def sample_defs)
qed

end
