(* ===== verification/Stripe.thy ===== *)
theory Stripe
  imports Consumer_Service Payment_Service Webhook_Service
begin

text \<open>
  Package \<^verbatim>\<open>internal/adapters/payments/stripe\<close>: opening a hosted session, verifying a signed
  webhook and interpreting a stored session event. The SDK is not part of the repository; what the
  adapter uses of it is the record \<open>stripe_sdk\<close>: its constants, the decoding of a session and of
  the event envelope, signature verification, and session creation. The adapter reads only the
  fields below of a session.
\<close>

section \<open>What the adapter uses of the SDK\<close>

record stripe_session =
  ss_ID :: string
  ss_Object :: string
  ss_PaymentStatus :: string
  ss_PaymentIntent :: "string option"
  ss_AmountTotal :: int
  ss_Currency :: string
  ss_Metadata :: "string \<Rightarrow> string option"
  ss_ClientReferenceID :: string
  ss_URL :: string
  ss_ExpiresAt :: int

record stripe_event =
  se_ID :: string
  se_Type :: string
  se_Created :: int

text \<open>\<^verbatim>\<open>eventEnvelope\<close>: \<open>env_Object\<close> is the raw JSON of the session.\<close>

record event_envelope =
  env_APIVersion :: string
  env_Type :: string
  env_Object :: string

record checkout_params =
  cp_Mode :: string
  cp_SuccessURL :: string
  cp_CancelURL :: string
  cp_ClientReferenceID :: string
  cp_PaymentMethodTypes :: "string list"
  cp_Quantity :: int
  cp_Currency :: string
  cp_UnitAmount :: int
  cp_ProductName :: string
  cp_Metadata :: "string \<Rightarrow> string option"
  cp_IdempotencyKey :: string

record stripe_sdk =
  sdk_APIVersion :: string
  sdk_ModePayment :: string
  sdk_MethodCard :: string
  sdk_MethodPix :: string
  sdk_StatusPaid :: string
  sdk_StatusUnpaid :: string
  sdk_StatusNoPaymentRequired :: string
  sdk_decode_envelope :: "string \<Rightarrow> event_envelope result"
  sdk_decode_session :: "string \<Rightarrow> stripe_session result"
  sdk_construct_event :: "string \<Rightarrow> string \<Rightarrow> string \<Rightarrow> stripe_event result"
  sdk_marshal_event :: "stripe_event \<Rightarrow> string result"
  sdk_json_valid :: "string \<Rightarrow> bool"

text \<open>Instants count nanoseconds from Go's zero time; \<^verbatim>\<open>time.Unix\<close> counts seconds from 1970.\<close>

definition time_Unix :: "int \<Rightarrow> instant" where
  "time_Unix secs = (secs + 62135596800) * Second"

text \<open>Reading a Go map: an absent key reads as the empty string.\<close>

definition map_get :: "('k \<Rightarrow> string option) \<Rightarrow> 'k \<Rightarrow> string" where
  "map_get m k = (case m k of None \<Rightarrow> [] | Some v \<Rightarrow> v)"

section \<open>Interpreting a stored session (session.go)\<close>

definition metadataOrderID :: string where "metadataOrderID = ''order_id''"
definition metadataPaymentID :: string where "metadataPaymentID = ''payment_id''"
definition metadataAttemptID :: string where "metadataAttemptID = ''payment_attempt_id''"

definition eventKinds :: "string \<Rightarrow> string option" where
  "eventKinds = [''checkout.session.completed'' \<mapsto> KindCheckoutCompleted,
     ''checkout.session.async_payment_succeeded'' \<mapsto> KindCheckoutPaymentSucceeded,
     ''checkout.session.async_payment_failed'' \<mapsto> KindCheckoutPaymentFailed,
     ''checkout.session.expired'' \<mapsto> KindCheckoutExpired]"

definition checkVersion :: "string list \<Rightarrow> string \<Rightarrow> goerr option" where
  "checkVersion supportedVersions version =
     (if TrimSpace version = []
      then Some (Errorf [W (Sentinel ErrIncompatibleAPIVersion), T '': event carries no api_version''])
      else if version \<notin> set supportedVersions
      then Some (Errorf [W (Sentinel ErrIncompatibleAPIVersion), T '': '', T version,
                         T '' is not among the supported versions''])
      else None)"

definition localReference :: "stripe_session \<Rightarrow> reference result" where
  "localReference s =
     (let orderID = TrimSpace (map_get (ss_Metadata s) metadataOrderID);
          paymentID = TrimSpace (map_get (ss_Metadata s) metadataPaymentID);
          attemptID = TrimSpace (map_get (ss_Metadata s) metadataAttemptID);
          orderID' = (if orderID = [] then TrimSpace (ss_ClientReferenceID s) else orderID)
      in if attemptID = [] \<or> paymentID = [] \<or> orderID' = []
         then Inl (Errorf [W (Sentinel ErrMissingReference), T '': session '', T (ss_ID s),
                           T '' is missing order, payment or attempt metadata''])
         else Inr \<lparr>rf_OrderID = orderID', rf_PaymentID = paymentID, rf_AttemptID = attemptID\<rparr>)"

definition financialOutcome :: "stripe_sdk \<Rightarrow> string \<Rightarrow> stripe_session \<Rightarrow> string result" where
  "financialOutcome sdk kind s =
     (if kind = KindCheckoutCompleted
      then if ss_PaymentStatus s = sdk_StatusPaid sdk \<or> ss_PaymentStatus s = sdk_StatusNoPaymentRequired sdk
           then Inr OutcomeSucceeded
           else if ss_PaymentStatus s = sdk_StatusUnpaid sdk then Inr OutcomePending
           else Inl (Errorf [W (Sentinel ErrUnreadablePayload), T '': unknown payment_status '',
                             T (quoted (ss_PaymentStatus s)), T '' on a completed session''])
      else if kind = KindCheckoutPaymentSucceeded then Inr OutcomeSucceeded
      else if kind = KindCheckoutPaymentFailed then Inr OutcomeFailed
      else if kind = KindCheckoutExpired then Inr OutcomeExpired
      else Inl (Errorf [W (Sentinel ErrUnreadablePayload), T '': event kind '', T (quoted kind),
                        T '' produces no transition'']))"

definition interpret_kind :: "event \<Rightarrow> string" where
  "interpret_kind ev = (if event_Kind ev = KindUnknown then map_get eventKinds (event_Type ev) else event_Kind ev)"

definition Interpret :: "stripe_sdk \<Rightarrow> string list \<Rightarrow> event \<Rightarrow> session_outcome result" where
  "Interpret sdk supportedVersions ev =
     (case sdk_decode_envelope sdk (event_Payload ev) of
        Inl e \<Rightarrow> Inl (Errorf [W (Sentinel ErrUnreadablePayload), T '': decode event envelope: '', W e])
      | Inr envelope \<Rightarrow>
     (case checkVersion supportedVersions (env_APIVersion envelope) of Some e \<Rightarrow> Inl e | None \<Rightarrow>
     (case sdk_decode_session sdk (env_Object envelope) of
        Inl e \<Rightarrow> Inl (Errorf [W (Sentinel ErrUnreadablePayload), T '': decode checkout session: '', W e])
      | Inr s \<Rightarrow>
      if ss_Object s \<noteq> [] \<and> ss_Object s \<noteq> ''checkout.session''
      then Inl (Errorf [W (Sentinel ErrUnreadablePayload), T '': event carries a '', T (quoted (ss_Object s)),
                        T '', not a checkout session''])
      else if TrimSpace (ss_ID s) = []
      then Inl (Errorf [W (Sentinel ErrUnreadablePayload), T '': checkout session has no id''])
      else
     (case financialOutcome sdk (interpret_kind ev) s of Inl e \<Rightarrow> Inl e | Inr outcome \<Rightarrow>
     (case localReference s of Inl e \<Rightarrow> Inl e | Inr ref \<Rightarrow>
        Inr \<lparr>so_OrderID = rf_OrderID ref, so_PaymentID = rf_PaymentID ref, so_AttemptID = rf_AttemptID ref,
             so_SessionID = ss_ID s, so_PaymentIntentID = (case ss_PaymentIntent s of None \<Rightarrow> [] | Some i \<Rightarrow> i),
             so_Amount = ss_AmountTotal s, so_Currency = ToUpper (ss_Currency s), so_Outcome = outcome,
             so_OccurredAt = UTC (event_ReceivedAt ev)\<rparr>)))))"

text \<open>\<^verbatim>\<open>NewSession\<close> supports the version the SDK is pinned to.\<close>

definition NewSession :: "stripe_sdk \<Rightarrow> string list" where
  "NewSession sdk = [sdk_APIVersion sdk]"

section \<open>Verifying a webhook (webhook.go)\<close>

definition canonicalPayload :: "stripe_sdk \<Rightarrow> string \<Rightarrow> stripe_event \<Rightarrow> string" where
  "canonicalPayload sdk rawBody ev =
     (if sdk_json_valid sdk rawBody then rawBody
      else case sdk_marshal_event sdk ev of Inl e \<Rightarrow> ''{}'' | Inr encoded \<Rightarrow> encoded)"

definition Verify :: "stripe_sdk \<Rightarrow> string \<Rightarrow> string \<Rightarrow> string \<Rightarrow> provider_event result" where
  "Verify sdk secret rawBody signature =
     (case sdk_construct_event sdk rawBody signature secret of
        Inl e \<Rightarrow> Inl (wrap ''verify stripe signature'' e)
      | Inr ev \<Rightarrow> Inr \<lparr>pe_ID = se_ID ev, pe_Type = se_Type ev, pe_Kind = map_get eventKinds (se_Type ev),
          pe_OccurredAt = UTC (time_Unix (se_Created ev)), pe_Payload = canonicalPayload sdk rawBody ev\<rparr>)"

section \<open>Opening a session (checkout.go)\<close>

definition checkout_params_of :: "stripe_sdk \<Rightarrow> string \<Rightarrow> string \<Rightarrow> provider_request \<Rightarrow> checkout_params" where
  "checkout_params_of sdk successURL cancelURL req =
     \<lparr>cp_Mode = sdk_ModePayment sdk, cp_SuccessURL = successURL, cp_CancelURL = cancelURL,
      cp_ClientReferenceID = req_OrderID req,
      cp_PaymentMethodTypes = [sdk_MethodCard sdk, sdk_MethodPix sdk],
      cp_Quantity = int64 (req_Quantity req), cp_Currency = ToLower (req_Currency req),
      cp_UnitAmount = req_UnitAmount req, cp_ProductName = req_ProductID req,
      cp_Metadata = [metadataOrderID \<mapsto> req_OrderID req, metadataPaymentID \<mapsto> req_PaymentID req,
                     metadataAttemptID \<mapsto> req_AttemptID req],
      cp_IdempotencyKey = req_IdempotencyKey req\<rparr>"

definition Stripe_CreateCheckout ::
  "stripe_sdk \<Rightarrow> (checkout_params \<Rightarrow> stripe_session option result) \<Rightarrow> string \<Rightarrow> string \<Rightarrow> provider_request \<Rightarrow> session result" where
  "Stripe_CreateCheckout sdk create successURL cancelURL req =
     (case create (checkout_params_of sdk successURL cancelURL req) of
        Inl e \<Rightarrow> Inl (wrap ''create Stripe Checkout Session'' e)
      | Inr None \<Rightarrow> Inl (NewError ''create Stripe Checkout Session: empty response'')
      | Inr (Some s) \<Rightarrow>
          Inr \<lparr>session_ID = ss_ID s, session_PaymentIntentID = (case ss_PaymentIntent s of None \<Rightarrow> [] | Some i \<Rightarrow> i),
               session_URL = ss_URL s, session_ExpiresAt = UTC (time_Unix (ss_ExpiresAt s))\<rparr>)"


section \<open>Properties\<close>

text \<open>A constant SDK for the witnesses: version, statuses and a fixed session.\<close>

definition sample_session :: stripe_session where
  "sample_session = \<lparr>ss_ID = ''cs_1'', ss_Object = ''checkout.session'', ss_PaymentStatus = ''unpaid'', ss_PaymentIntent = None,
     ss_AmountTotal = 100, ss_Currency = ''brl'', ss_Metadata = [metadataOrderID \<mapsto> ''ord_1'', metadataPaymentID \<mapsto> ''pay_1'',
     metadataAttemptID \<mapsto> ''pat_1''], ss_ClientReferenceID = ''ord_1'', ss_URL = [], ss_ExpiresAt = 0\<rparr>"

definition sample_sdk :: stripe_sdk where
  "sample_sdk = \<lparr>sdk_APIVersion = ''v1'', sdk_ModePayment = ''payment'', sdk_MethodCard = ''card'', sdk_MethodPix = ''pix'',
     sdk_StatusPaid = ''paid'', sdk_StatusUnpaid = ''unpaid'', sdk_StatusNoPaymentRequired = ''no_payment_required'',
     sdk_decode_envelope = (\<lambda>_. Inr \<lparr>env_APIVersion = ''v1'', env_Type = [], env_Object = ''{}''\<rparr>),
     sdk_decode_session = (\<lambda>_. Inr sample_session), sdk_construct_event = (\<lambda>_ _ _. Inl (External ''bad signature'')),
     sdk_marshal_event = (\<lambda>_. Inr ''{}''), sdk_json_valid = (\<lambda>_. True)\<rparr>"

definition sample_stored :: event where
  "sample_stored = \<lparr>event_ID = ''evt_1'', event_Provider = Stripe, event_ProviderEventID = ''evt_s1'',
     event_Type = ''checkout.session.completed'', event_Kind = KindUnknown, event_RawPayload = ''{}'', event_Payload = ''{}'',
     event_Status = InboxPending, event_ReceivedAt = 4\<rparr>"

definition sample_interpreted :: session_outcome where
  "sample_interpreted = \<lparr>so_OrderID = ''ord_1'', so_PaymentID = ''pay_1'', so_AttemptID = ''pat_1'', so_SessionID = ''cs_1'',
     so_PaymentIntentID = [], so_Amount = 100, so_Currency = ''BRL'', so_Outcome = OutcomePending, so_OccurredAt = 4\<rparr>"

definition sample_open_aggregate :: aggregate where
  "sample_open_aggregate = \<lparr>ag_OrderID = ''ord_1'', ag_OrderStatus = OrderStatusPending, ag_PaymentID = ''pay_1'',
     ag_PaymentStatus = PaymentStatusPending, ag_Provider = Stripe, ag_Amount = 100, ag_Currency = ''BRL'',
     ag_AttemptID = ''pat_1'', ag_AttemptStatus = AttemptStatusPending, ag_SessionID = ''cs_1''\<rparr>"

definition sample_pending_effect :: effect where
  "sample_pending_effect = \<lparr>ef_AttemptStatus = [], ef_PaymentStatus = PaymentStatusProcessing, ef_OrderPaid = False, ef_Note = []\<rparr>"

definition sample_request :: provider_request where
  "sample_request = \<lparr>req_OrderID = ''ord_1'', req_PaymentID = ''pay_1'', req_AttemptID = ''pat_1'', req_ProductID = ''p'',
     req_UnitAmount = 50, req_Quantity = 2, req_Currency = ''BRL'', req_IdempotencyKey = ''k''\<rparr>"

lemma TrimSpace_sample [simp]: "TrimSpace ''v1'' = ''v1''" "TrimSpace ''cs_1'' = ''cs_1''" "TrimSpace ''ord_1'' = ''ord_1''"
  "TrimSpace ''pay_1'' = ''pay_1''" "TrimSpace ''pat_1'' = ''pat_1''" "TrimSpace ''p'' = ''p''" "TrimSpace ''k'' = ''k''"
  by (rule TrimSpace_plain; auto simp: plain_char_def)+

lemma ToUpper_brl [simp]: "ToUpper ''brl'' = ''BRL''"
  by code_simp

lemma sample_Interpret: "Interpret sample_sdk (NewSession sample_sdk) sample_stored = Inr sample_interpreted"
  by (simp add: Interpret_def NewSession_def sample_sdk_def checkVersion_def sample_session_def financialOutcome_def
      interpret_kind_def sample_stored_def eventKinds_def map_get_def localReference_def metadataOrderID_def
      metadataPaymentID_def metadataAttemptID_def sample_interpreted_def KindUnknown_def)

lemma sample_pending_decision:
  "decideEffect sample_interpreted sample_open_aggregate Stripe = Inr sample_pending_effect"
  by (simp add: decideEffect_def sample_interpreted_def sample_open_aggregate_def sample_pending_effect_def Decide_def
      decidePending_def)

lemma EqualFold_ToLower [simp]: "EqualFold (ToLower a) b \<longleftrightarrow> EqualFold a b"
proof -
  have "ascii_lower (ascii_lower c) = ascii_lower c" for c
    by (cases "65 \<le> (of_char c :: nat) \<and> (of_char c :: nat) \<le> 90") (auto simp: ascii_lower_def Let_def of_char_of)
  then show ?thesis by (simp add: EqualFold_def ToLower_def comp_def)
qed

definition sample_price :: product where
  "sample_price = \<lparr>product_ID = ''p'', product_Name = [], product_UnitAmount = 50, product_Currency = ''BRL''\<rparr>"

lemma sample_priced_order:
  "Order_New ''ord_1'' sample_price 2 ''k'' 1 =
     Inr \<lparr>order_ID = ''ord_1'', order_Status = OrderStatusPending, order_Amount = 100, order_Currency = ''BRL'',
          order_ProductID = ''p'', order_Quantity = 2, order_IdempotencyKey = ''k'', order_CreatedAt = 1, order_UpdatedAt = 1\<rparr>"
  by (simp add: Order_New_Inr_iff sample_price_def Product_Validate_None validProductID_def order_limits Currency_Valid_def
      is_upper_def ValidateIdempotencyKey_None MaxInt64_def TrimSpace_plain plain_char_def)

text \<open>The steps of an interpretation that succeeds.\<close>

lemma Interpret_Inr:
  assumes "Interpret sdk vs ev = Inr x"
  obtains env s ref where "sdk_decode_envelope sdk (event_Payload ev) = Inr env" "env_APIVersion env \<in> set vs"
    "sdk_decode_session sdk (env_Object env) = Inr s" "TrimSpace (ss_ID s) \<noteq> []"
    "financialOutcome sdk (interpret_kind ev) s = Inr (so_Outcome x)" "localReference s = Inr ref"
    "so_OrderID x = rf_OrderID ref" "so_PaymentID x = rf_PaymentID ref" "so_AttemptID x = rf_AttemptID ref"
    "so_SessionID x = ss_ID s" "so_Amount x = ss_AmountTotal s" "so_Currency x = ToUpper (ss_Currency s)"
  using assms by (auto simp: Interpret_def checkVersion_def split: sum.splits option.splits if_splits)

lemma localReference_Inr:
  "localReference s = Inr ref \<Longrightarrow> rf_OrderID ref \<noteq> [] \<and> rf_PaymentID ref \<noteq> [] \<and> rf_AttemptID ref \<noteq> []"
  by (auto simp: localReference_def Let_def split: if_splits)

text \<open>Every failure wraps one of three declared errors.\<close>

lemma checkVersion_Some: "checkVersion vs v = Some e \<Longrightarrow> errors_Is ErrIncompatibleAPIVersion e"
  by (auto simp: checkVersion_def split: if_splits)

lemma financialOutcome_Inl: "financialOutcome sdk k s = Inl e \<Longrightarrow> errors_Is ErrUnreadablePayload e"
  by (auto simp: financialOutcome_def split: if_splits)

lemma localReference_Inl: "localReference s = Inl e \<Longrightarrow> errors_Is ErrMissingReference e"
  by (auto simp: localReference_def Let_def split: if_splits)

lemma Interpret_Inl:
  assumes "Interpret sdk vs ev = Inl e"
  shows "errors_Is ErrUnreadablePayload e \<or> errors_Is ErrIncompatibleAPIVersion e \<or> errors_Is ErrMissingReference e"
  using assms checkVersion_Some financialOutcome_Inl localReference_Inl
  by (fastforce simp: Interpret_def split: sum.splits option.splits if_splits)

text \<open>
  C14: a stored event is either read completely or refused for good. A successful interpretation
  comes from a payload of a supported API version, names a session and all three local rows, and
  takes the amount from the session; every failure is a terminal error, so an unreadable event is
  never retried.
\<close>

theorem Interpret_complete_or_terminal:
  "case Interpret sdk vs ev of
     Inl e \<Rightarrow> isTerminal e
   | Inr x \<Rightarrow> so_OrderID x \<noteq> [] \<and> so_PaymentID x \<noteq> [] \<and> so_AttemptID x \<noteq> [] \<and> so_SessionID x \<noteq> [] \<and>
       (\<exists>env s. sdk_decode_envelope sdk (event_Payload ev) = Inr env \<and> env_APIVersion env \<in> set vs \<and>
          sdk_decode_session sdk (env_Object env) = Inr s \<and> so_SessionID x = ss_ID s \<and> so_Amount x = ss_AmountTotal s)"
proof (cases "Interpret sdk vs ev")
  case (Inl e)
  from Interpret_Inl [OF Inl] have "isTerminal e"
    by (auto simp: isTerminal_def terminalErrors_def)
  with Inl show ?thesis by simp
next
  case (Inr x)
  then obtain env s ref where x: "sdk_decode_envelope sdk (event_Payload ev) = Inr env" "env_APIVersion env \<in> set vs"
    "sdk_decode_session sdk (env_Object env) = Inr s" "TrimSpace (ss_ID s) \<noteq> []" "localReference s = Inr ref"
    "so_OrderID x = rf_OrderID ref" "so_PaymentID x = rf_PaymentID ref" "so_AttemptID x = rf_AttemptID ref"
    "so_SessionID x = ss_ID s" "so_Amount x = ss_AmountTotal s"
    by (rule Interpret_Inr)
  from x(4) have "ss_ID s \<noteq> []" using TrimSpace_plain [of "[]"] by auto
  with x localReference_Inr [OF x(5)] Inr show ?thesis by simp
qed

text \<open>
  C13: completion is not payment. A completed session that is still unpaid is interpreted as
  pending, and no decision over it pays the order or settles the payment.
\<close>

theorem unpaid_session_never_pays:
  assumes "sdk_StatusUnpaid sdk \<notin> {sdk_StatusPaid sdk, sdk_StatusNoPaymentRequired sdk}"
    and "Interpret sdk vs ev = Inr x" and "interpret_kind ev = KindCheckoutCompleted"
    and "sdk_decode_envelope sdk (event_Payload ev) = Inr env" and "sdk_decode_session sdk (env_Object env) = Inr s"
    and "ss_PaymentStatus s = sdk_StatusUnpaid sdk" and "decideEffect x a pr = Inr e"
  shows "so_Outcome x = OutcomePending \<and> \<not> ef_OrderPaid e \<and> ef_AttemptStatus e = [] \<and>
         ef_PaymentStatus e \<in> {[], PaymentStatusProcessing}"
proof -
  have "so_Outcome x = OutcomePending"
    using assms(2) by (rule Interpret_Inr) (use assms(1,3-6) in \<open>auto simp: financialOutcome_def\<close>)
  with decideEffect_Inr [OF assms(7)] show ?thesis
    by (auto simp: Decide_def decidePending_def split: if_splits)
qed

theorem unpaid_session_never_pays_witness:
  "Interpret sample_sdk (NewSession sample_sdk) sample_stored = Inr sample_interpreted \<and>
   decideEffect sample_interpreted sample_open_aggregate Stripe = Inr sample_pending_effect \<and>
   so_Outcome sample_interpreted = OutcomePending \<and> \<not> ef_OrderPaid sample_pending_effect"
proof -
  have 1: "Interpret sample_sdk (NewSession sample_sdk) sample_stored = Inr sample_interpreted" by (rule sample_Interpret)
  have 2: "decideEffect sample_interpreted sample_open_aggregate Stripe = Inr sample_pending_effect"
    by (rule sample_pending_decision)
  show ?thesis using unpaid_session_never_pays [OF _ 1 _ _ _ _ 2] 1 2
    by (simp add: sample_sdk_def sample_session_def sample_stored_def interpret_kind_def map_get_def eventKinds_def KindUnknown_def)
qed

text \<open>
  C15: the link between a session and the local rows survives the provider. The identifiers
  \<^verbatim>\<open>CreateCheckout\<close> attaches to a session are the ones a later event about a session with the
  same metadata refers to.
\<close>

theorem metadata_roundtrip:
  assumes "\<forall>i \<in> {req_OrderID req, req_PaymentID req, req_AttemptID req}. i \<noteq> [] \<and> TrimSpace i = i"
    and "ss_Metadata s = cp_Metadata (checkout_params_of sdk su cu req)"
  shows "localReference s = Inr \<lparr>rf_OrderID = req_OrderID req, rf_PaymentID = req_PaymentID req,
           rf_AttemptID = req_AttemptID req\<rparr>"
  using assms
  by (simp add: localReference_def map_get_def checkout_params_of_def metadataOrderID_def metadataPaymentID_def
      metadataAttemptID_def)

theorem metadata_roundtrip_witness:
  "localReference (sample_session\<lparr>ss_Metadata := cp_Metadata (checkout_params_of sample_sdk [] [] sample_request)\<rparr>) =
   Inr \<lparr>rf_OrderID = ''ord_1'', rf_PaymentID = ''pay_1'', rf_AttemptID = ''pat_1''\<rparr>"
  using metadata_roundtrip [of sample_request "sample_session\<lparr>ss_Metadata := cp_Metadata (checkout_params_of sample_sdk [] []
    sample_request)\<rparr>" sample_sdk "[]" "[]"] by (simp add: sample_request_def)

text \<open>
  The provider is asked for the order's price. For an order priced by \<^verbatim>\<open>orders.New\<close> the line
  item's unit amount times its quantity is exactly the order's amount, in the order's currency, so
  the amount the provider settles can equal the payment's.
\<close>

theorem checkout_charges_order:
  assumes "Order_New i product q k now = Inr ord"
    and "c = checkout_params_of sdk su cu (provider_request_of ord p a)"
  shows "cp_UnitAmount c * cp_Quantity c = order_Amount ord \<and> cp_UnitAmount c = product_UnitAmount product \<and>
         EqualFold (cp_Currency c) (order_Currency ord)"
proof -
  from assms(1) have n: "order_Amount ord = product_UnitAmount product * q" "order_Quantity ord = q" "1 \<le> q" "q \<le> 1000"
      "0 < product_UnitAmount product"
    unfolding Order_New_Inr_iff by (auto simp: Product_Validate_None)
  then have "quot (order_Amount ord) q = product_UnitAmount product" by (subst quot_nonneg) auto
  moreover have "int64 q = q" using n by (intro int64_id) auto
  ultimately show ?thesis using n by (simp add: assms(2) checkout_params_of_def provider_request_of_def)
qed

theorem checkout_charges_order_witness:
  "\<exists>ord. Order_New ''ord_1'' sample_price 2 ''k'' 1 = Inr ord \<and>
     (\<forall>p a. cp_UnitAmount (checkout_params_of sample_sdk [] [] (provider_request_of ord p a)) = 50 \<and> order_Amount ord = 100)"
  using checkout_charges_order [OF sample_priced_order refl, of sample_sdk "[]" "[]"] sample_priced_order
  by (simp add: sample_price_def)

end
