(* ===== verification/Amqp.thy ===== *)
theory Amqp
  imports Consumer_Service Relay
begin

text \<open>
  What the RabbitMQ adapter (package \<^verbatim>\<open>internal/adapters/rabbitmq\<close>) is written in: operations over
  the adapter's memory and the outside world that may fail, may never return, and leave a log of the
  calls they made with the answers they got. The AMQP client library and the sockets are an argument
  of type \<open>amqp\<close>: every field answers one call of the library, over an arbitrary outside world.
\<close>

section \<open>Calls and answers\<close>

text \<open>A message as it is published, the fields the adapter sets; \<^verbatim>\<open>DeliveryMode\<close> 2 is
  \<^verbatim>\<open>amqp.Persistent\<close>. A header table is opaque to the adapter, which only copies it.\<close>

record publishing =
  pg_ContentType :: string
  pg_DeliveryMode :: int
  pg_MessageId :: string
  pg_Type :: string
  pg_CorrelationId :: string
  pg_Timestamp :: instant
  pg_Headers :: string
  pg_Body :: string

record delivery =
  dl_Tag :: nat
  dl_RoutingKey :: string
  dl_ContentType :: string
  dl_MessageId :: string
  dl_Type :: string
  dl_CorrelationId :: string
  dl_Timestamp :: instant
  dl_Headers :: string
  dl_Body :: string
  dl_Redelivered :: bool

record returned =
  rt_RoutingKey :: string
  rt_ReplyCode :: int
  rt_ReplyText :: string

text \<open>The calls that answer with an error only. The numbers are channel handles. Exchanges and queues
  are declared durable and with every other flag false, in every call of the source.\<close>

datatype table_value = VString string | VInt int

datatype request =
    CloseChannel nat
  | ConfirmMode nat
  | ExchangeDeclare nat string string
  | QueueDeclare nat string "(string \<times> table_value) list"
  | QueueBind nat string string string
  | Qos nat int
  | ConsumeQueue nat string string
  | AckDelivery nat bool

text \<open>A non-blocking receive (\<^verbatim>\<open>select\<close> with \<^verbatim>\<open>default\<close>) on the Go channel of returned messages.\<close>

datatype recv = Received returned | Empty | Closed

datatype amqp_event =
    Called request "goerr option"
  | Opened "nat result"
  | Sent nat string string publishing "goerr option"
  | Awaited "bool result"
  | ReturnSeen "returned option"
  | HandlerCalled string "handling result"
  | Redelivered string
  | Rejected string goerr
  | Republished string string int
  | FailedDelivery string goerr

section \<open>Operations\<close>

text \<open>An operation returns the new world, its result and its log; \<^term>\<open>None\<close> means that it never returns.\<close>

type_synonym ('w, 'a) op = "'w \<Rightarrow> ('w \<times> 'a result \<times> amqp_event list) option"

definition op_ok :: "'a \<Rightarrow> ('w, 'a) op" where "op_ok a w = Some (w, Inr a, [])"
definition op_fail :: "goerr \<Rightarrow> ('w, 'a) op" where "op_fail e w = Some (w, Inl e, [])"
definition op_note :: "amqp_event list \<Rightarrow> ('w, unit) op" where "op_note l w = Some (w, Inr (), l)"
definition op_get :: "('w \<Rightarrow> 'a) \<Rightarrow> ('w, 'a) op" where "op_get f w = Some (w, Inr (f w), [])"
definition op_modify :: "('w \<Rightarrow> 'w) \<Rightarrow> ('w, unit) op" where "op_modify f w = Some (f w, Inr (), [])"

text \<open>Sequencing stops at the first error, as \<^verbatim>\<open>if err != nil { return err }\<close> does.\<close>

definition op_then :: "('w, 'a) op \<Rightarrow> ('a \<Rightarrow> ('w, 'b) op) \<Rightarrow> ('w, 'b) op" where
  "op_then m f w =
     (case m w of
        None \<Rightarrow> None
      | Some (w1, Inl e, l) \<Rightarrow> Some (w1, Inl e, l)
      | Some (w1, Inr a, l) \<Rightarrow>
          (case f a w1 of None \<Rightarrow> None | Some (w2, r, l') \<Rightarrow> Some (w2, r, l @ l')))"

abbreviation op_seq :: "('w, unit) op \<Rightarrow> ('w, 'b) op \<Rightarrow> ('w, 'b) op" where
  "op_seq m n \<equiv> op_then m (\<lambda>_. n)"

text \<open>Wrapping the error; and running an operation whose own result is ignored on the error path
  (\<open>op_onerr\<close>) or in every case, as a deferred call (\<open>op_finally\<close>).\<close>

definition op_wrap :: "string \<Rightarrow> ('w, 'a) op \<Rightarrow> ('w, 'a) op" where
  "op_wrap what m w =
     (case m w of None \<Rightarrow> None
      | Some (w', Inl e, l) \<Rightarrow> Some (w', Inl (wrap what e), l)
      | Some (w', Inr a, l) \<Rightarrow> Some (w', Inr a, l))"

definition op_finally :: "('w, 'a) op \<Rightarrow> ('w, 'b) op \<Rightarrow> ('w, 'a) op" where
  "op_finally m n w =
     (case m w of None \<Rightarrow> None
      | Some (w1, r, l) \<Rightarrow> (case n w1 of None \<Rightarrow> None | Some (w2, _, l') \<Rightarrow> Some (w2, r, l @ l')))"

definition op_onerr :: "('w, 'a) op \<Rightarrow> ('w, 'b) op \<Rightarrow> ('w, 'a) op" where
  "op_onerr m n w =
     (case m w of None \<Rightarrow> None
      | Some (w1, Inl e, l) \<Rightarrow> (case n w1 of None \<Rightarrow> None | Some (w2, _, l') \<Rightarrow> Some (w2, Inl e, l @ l'))
      | Some (w1, Inr a, l) \<Rightarrow> Some (w1, Inr a, l))"

text \<open>A deferred call whose error becomes the result, but only of an operation that had none.\<close>

definition op_deferred :: "('w, 'a) op \<Rightarrow> ('w, unit) op \<Rightarrow> ('w, 'a) op" where
  "op_deferred m n w =
     (case m w of None \<Rightarrow> None
      | Some (w1, r, l) \<Rightarrow>
          (case n w1 of None \<Rightarrow> None
           | Some (w2, r', l') \<Rightarrow>
               Some (w2, case r of Inl e \<Rightarrow> Inl e | Inr a \<Rightarrow> (case r' of Inl e \<Rightarrow> Inl e | Inr _ \<Rightarrow> Inr a), l @ l')))"

lemmas op_defs = op_ok_def op_fail_def op_note_def op_get_def op_modify_def op_then_def op_wrap_def
  op_finally_def op_onerr_def

lemma op_then_Some:
  "op_then m f w = Some (w', r, l) \<longleftrightarrow>
     (\<exists>e. m w = Some (w', Inl e, l) \<and> r = Inl e) \<or>
     (\<exists>w1 a l1 l2. m w = Some (w1, Inr a, l1) \<and> f a w1 = Some (w', r, l2) \<and> l = l1 @ l2)"
  by (auto simp: op_then_def split: option.splits sum.splits)

lemma op_wrap_Some:
  "op_wrap what m w = Some (w', r, l) \<longleftrightarrow>
     (\<exists>e. m w = Some (w', Inl e, l) \<and> r = Inl (wrap what e)) \<or> (\<exists>a. m w = Some (w', Inr a, l) \<and> r = Inr a)"
  by (auto simp: op_wrap_def split: option.splits sum.splits)

lemma op_finally_Some:
  "op_finally m n w = Some (w', r, l) \<longleftrightarrow>
     (\<exists>w1 l1 q l2. m w = Some (w1, r, l1) \<and> n w1 = Some (w', q, l2) \<and> l = l1 @ l2)"
  by (auto simp: op_finally_def split: option.splits)

lemma op_onerr_Some:
  "op_onerr m n w = Some (w', r, l) \<longleftrightarrow>
     (\<exists>w1 e l1 q l2. m w = Some (w1, Inl e, l1) \<and> n w1 = Some (w', q, l2) \<and> l = l1 @ l2 \<and> r = Inl e) \<or>
     (\<exists>a. m w = Some (w', Inr a, l) \<and> r = Inr a)"
  by (auto simp: op_onerr_def split: option.splits sum.splits)

lemma op_deferred_Some:
  "op_deferred m n w = Some (w', r, l) \<longleftrightarrow>
     (\<exists>w1 r1 l1 r2 l2. m w = Some (w1, r1, l1) \<and> n w1 = Some (w', r2, l2) \<and> l = l1 @ l2 \<and>
        r = (case r1 of Inl e \<Rightarrow> Inl e | Inr a \<Rightarrow> (case r2 of Inl e \<Rightarrow> Inl e | Inr _ \<Rightarrow> Inr a)))"
  by (auto simp: op_deferred_def split: option.splits)

lemma op_deferredE:
  assumes "op_deferred m n w = Some (w', r, l)"
  obtains w1 r1 l1 r2 l2 where "m w = Some (w1, r1, l1)" "n w1 = Some (w', r2, l2)" "l = l1 @ l2"
    "r = r1 \<or> (\<exists>e. r = Inl e \<and> r2 = Inl e)"
proof -
  from assms obtain w1 r1 l1 r2 l2 where *: "m w = Some (w1, r1, l1)" "n w1 = Some (w', r2, l2)" "l = l1 @ l2"
      and r: "r = (case r1 of Inl e \<Rightarrow> Inl e | Inr a \<Rightarrow> (case r2 of Inl e \<Rightarrow> Inl e | Inr _ \<Rightarrow> Inr a))"
    unfolding op_deferred_Some by blast
  from r have "r = r1 \<or> (\<exists>e. r = Inl e \<and> r2 = Inl e)" by (cases r1; cases r2) auto
  with * show thesis by (rule that)
qed

lemma op_thenE:
  assumes "op_then m f w = Some (w', r, l)"
  obtains (stop) e where "m w = Some (w', Inl e, l)" "r = Inl e"
    | (go) w1 a l1 l2 where "m w = Some (w1, Inr a, l1)" "f a w1 = Some (w', r, l2)" "l = l1 @ l2"
  using assms by (auto simp: op_then_Some)

lemma op_atoms [simp]:
  "op_ok a w = Some (w', r, l) \<longleftrightarrow> w' = w \<and> r = Inr a \<and> l = []"
  "op_fail e w = Some (w', q, l) \<longleftrightarrow> w' = w \<and> q = Inl e \<and> l = []"
  "op_note ns w = Some (w', u, l) \<longleftrightarrow> w' = w \<and> u = Inr () \<and> l = ns"
  "op_get g w = Some (w', s, l) \<longleftrightarrow> w' = w \<and> s = Inr (g w) \<and> l = []"
  "op_modify h w = Some (w', v, l) \<longleftrightarrow> w' = h w \<and> v = Inr () \<and> l = []"
  by (auto simp: op_defs)

lemmas op_Some = op_then_Some op_wrap_Some op_finally_Some op_onerr_Some op_deferred_Some

text \<open>\<^term>\<open>logs P m\<close>: whenever \<open>m\<close> returns, \<open>P\<close> holds of its result and its log.\<close>

definition logs :: "('a result \<Rightarrow> amqp_event list \<Rightarrow> bool) \<Rightarrow> ('w, 'a) op \<Rightarrow> bool" where
  "logs P m \<longleftrightarrow> (\<forall>w w' r l. m w = Some (w', r, l) \<longrightarrow> P r l)"

lemma logsI: "(\<And>w w' r l. m w = Some (w', r, l) \<Longrightarrow> P r l) \<Longrightarrow> logs P m"
  by (auto simp: logs_def)

lemma logsD: "logs P m \<Longrightarrow> m w = Some (w', r, l) \<Longrightarrow> P r l"
  by (auto simp: logs_def)

text \<open>\<^term>\<open>only E m\<close>: every event \<open>m\<close> logs is in \<open>E\<close>.\<close>

definition only :: "(amqp_event \<Rightarrow> bool) \<Rightarrow> ('w, 'a) op \<Rightarrow> bool" where
  "only E m \<longleftrightarrow> logs (\<lambda>_ l. list_all E l) m"

lemma onlyI: "(\<And>w w' r l. m w = Some (w', r, l) \<Longrightarrow> list_all E l) \<Longrightarrow> only E m"
  by (auto simp: only_def logs_def)

lemma onlyD: "only E m \<Longrightarrow> m w = Some (w', r, l) \<Longrightarrow> list_all E l"
  by (auto simp: only_def logs_def)

named_theorems only_intros \<open>operations whose log stays within a set of events\<close>

lemma only_atoms [only_intros]:
  "only E (op_ok a)" "only E (op_fail e)" "only E (op_get g)" "only E (op_modify h)"
  "list_all E ns \<Longrightarrow> only E (op_note ns)"
  by (auto intro: onlyI)

lemma only_then [only_intros]: "only E m \<Longrightarrow> (\<And>a. only E (f a)) \<Longrightarrow> only E (op_then m f)"
  by (rule onlyI) (auto simp: op_then_Some; blast dest: onlyD)

lemma only_wrap [only_intros]: "only E m \<Longrightarrow> only E (op_wrap what m)"
  by (rule onlyI) (auto simp: op_wrap_Some; blast dest: onlyD)

lemma only_finally [only_intros]: "only E m \<Longrightarrow> only E n \<Longrightarrow> only E (op_finally m n)"
  by (rule onlyI) (auto simp: op_finally_Some; blast dest: onlyD)

lemma only_onerr [only_intros]: "only E m \<Longrightarrow> only E n \<Longrightarrow> only E (op_onerr m n)"
  by (rule onlyI) (auto simp: op_onerr_Some; blast dest: onlyD)

lemma only_deferred [only_intros]: "only E m \<Longrightarrow> only E n \<Longrightarrow> only E (op_deferred m n)"
  by (rule onlyI) (auto simp: op_deferred_Some; blast dest: onlyD)

lemma only_if [only_intros]: "only E m \<Longrightarrow> only E n \<Longrightarrow> only E (if b then m else n)"
  by simp

lemma only_option [only_intros]:
  "only E m \<Longrightarrow> (\<And>x. only E (f x)) \<Longrightarrow> only E (case o' of None \<Rightarrow> m | Some x \<Rightarrow> f x)"
  by (cases o') auto

text \<open>\<^term>\<open>errs P m\<close>: every error \<open>m\<close> returns satisfies \<open>P\<close>.\<close>

definition errs :: "(goerr \<Rightarrow> bool) \<Rightarrow> ('w, 'a) op \<Rightarrow> bool" where
  "errs P m \<longleftrightarrow> (\<forall>w w' e l. m w = Some (w', Inl e, l) \<longrightarrow> P e)"

lemma errsI: "(\<And>w w' e l. m w = Some (w', Inl e, l) \<Longrightarrow> P e) \<Longrightarrow> errs P m"
  by (auto simp: errs_def)

lemma errsD: "errs P m \<Longrightarrow> m w = Some (w', Inl e, l) \<Longrightarrow> P e"
  by (auto simp: errs_def)

named_theorems errs_intros \<open>operations whose errors satisfy a predicate\<close>

lemma errs_atoms [errs_intros]:
  "errs P (op_ok a)" "P e \<Longrightarrow> errs P (op_fail e)" "errs P (op_get g)" "errs P (op_modify h)" "errs P (op_note ns)"
  by (auto intro!: errsI)

lemma errs_then [errs_intros]: "errs P m \<Longrightarrow> (\<And>a. errs P (f a)) \<Longrightarrow> errs P (op_then m f)"
  by (rule errsI) (auto simp: op_then_Some dest: errsD)

lemma errs_wrap [errs_intros]: "errs P m \<Longrightarrow> (\<And>e. P e \<Longrightarrow> P (wrap what e)) \<Longrightarrow> errs P (op_wrap what m)"
  by (rule errsI) (auto simp: op_wrap_Some dest: errsD)

lemma errs_finally [errs_intros]: "errs P m \<Longrightarrow> errs P (op_finally m n)"
  by (rule errsI) (auto simp: op_finally_Some dest: errsD)

lemma errs_onerr [errs_intros]: "errs P m \<Longrightarrow> errs P (op_onerr m n)"
  by (rule errsI) (auto simp: op_onerr_Some dest: errsD)

lemma errs_deferred [errs_intros]: "errs P m \<Longrightarrow> errs P n \<Longrightarrow> errs P (op_deferred m n)"
  by (rule errsI) (auto elim!: op_deferredE dest: errsD)

lemma errs_if [errs_intros]: "errs P m \<Longrightarrow> errs P n \<Longrightarrow> errs P (if b then m else n)"
  by simp

lemma errs_option [errs_intros]:
  "errs P m \<Longrightarrow> (\<And>x. errs P (f x)) \<Longrightarrow> errs P (case o' of None \<Rightarrow> m | Some x \<Rightarrow> f x)"
  by (cases o') auto

end
