(* ===== verification/Amqp_Topology.thy ===== *)
theory Amqp_Topology
  imports Amqp
begin

text \<open>
  The exchanges and queues the worker declares (\<^verbatim>\<open>topology.go\<close>), and the delay tiers of the retry
  ladder (\<^verbatim>\<open>retry.go\<close>) with the names derived from their delays. \<open>call\<close> is the library's answer to
  a request on a channel, over an arbitrary world.
\<close>

section \<open>time.Duration.String\<close>

text \<open>The verb \<^verbatim>\<open>%d\<close> digits of a fraction of \<open>n\<close> digits, trailing zeros dropped; nothing at all, not
  even the dot, when they are all zero.\<close>

fun fraction_digits :: "nat \<Rightarrow> nat \<Rightarrow> string" where
  "fraction_digits 0 v = []"
| "fraction_digits (Suc n) v =
     (let s = fraction_digits n (v div 10)
      in s @ [char_of (48 + v mod 10)])"

fun drop_zeros :: "string \<Rightarrow> string" where
  "drop_zeros [] = []"
| "drop_zeros (c # s) = (if c = CHR ''0'' then drop_zeros s else c # s)"

definition fmtFrac :: "nat \<Rightarrow> nat \<Rightarrow> string" where
  "fmtFrac n v =
     (let s = rev (drop_zeros (rev (fraction_digits n (v mod 10 ^ n)))) in if s = [] then [] else CHR ''.'' # s)"

definition Duration_String :: "duration \<Rightarrow> string" where
  "Duration_String d =
     (let u = nat \<bar>d\<bar>;
          body =
            (if u = 0 then ''0s''
             else if u < 10 ^ 3 then decimal u @ ''ns''
             else if u < 10 ^ 6 then decimal (u div 10 ^ 3) @ fmtFrac 3 u @ [CHR 0xC2, CHR 0xB5] @ ''s''
             else if u < 10 ^ 9 then decimal (u div 10 ^ 6) @ fmtFrac 6 u @ ''ms''
             else
               let s = u div 10 ^ 9; m = s div 60; h = m div 60;
                   sec = decimal (s mod 60) @ fmtFrac 9 u @ ''s''
               in if m = 0 then sec
                  else if h = 0 then decimal (m mod 60) @ ''m'' @ sec
                  else decimal h @ ''h'' @ decimal (m mod 60) @ ''m'' @ sec)
      in if d < 0 then CHR ''-'' # body else body)"

text \<open>\<^verbatim>\<open>time.Duration.Milliseconds\<close>.\<close>

definition Milliseconds :: "duration \<Rightarrow> int" where "Milliseconds d = quot d Millisecond"

section \<open>Topology (topology.go)\<close>

definition EventsExchange :: string where "EventsExchange = ''payments.events''"
definition WebhooksQueue :: string where "WebhooksQueue = ''payments.webhooks''"
definition WebhookBindingKey :: string where "WebhookBindingKey = ''payment.webhook.#''"
definition DeadLetterExchange :: string where "DeadLetterExchange = ''payments.webhooks.dlx''"
definition DeadLetterQueue :: string where "DeadLetterQueue = ''payments.webhooks.dlq''"
definition deadLetterKey :: string where "deadLetterKey = ''payments.webhooks.dead''"

definition do_call :: "('n \<Rightarrow> request \<Rightarrow> 'n \<times> string option) \<Rightarrow> request \<Rightarrow> ('n, unit) op" where
  "do_call call q n =
     (case call n q of
        (n', None) \<Rightarrow> Some (n', Inr (), [Called q None])
      | (n', Some e) \<Rightarrow> Some (n', Inl (External e), [Called q (Some (External e))]))"

lemma only_do_call [only_intros]: "(\<And>e. E (Called q e)) \<Longrightarrow> only E (do_call call q)"
  by (auto intro!: onlyI simp: do_call_def split: prod.splits option.splits)

lemma do_call_Some:
  "do_call call q n = Some (n', r, l) \<longleftrightarrow>
     (call n q = (n', None) \<and> r = Inr () \<and> l = [Called q None]) \<or>
     (\<exists>e. call n q = (n', Some e) \<and> r = Inl (External e) \<and> l = [Called q (Some (External e))])"
  by (auto simp: do_call_def split: prod.splits option.splits)

definition DeclareTopology :: "('n \<Rightarrow> request \<Rightarrow> 'n \<times> string option) \<Rightarrow> nat \<Rightarrow> ('n, unit) op" where
  "DeclareTopology call ch =
     op_seq (op_wrap ''declare events exchange'' (do_call call (ExchangeDeclare ch EventsExchange ''topic'')))
     (op_seq (op_wrap ''declare dead letter exchange'' (do_call call (ExchangeDeclare ch DeadLetterExchange ''topic'')))
     (op_seq (op_wrap ''declare dead letter queue'' (do_call call (QueueDeclare ch DeadLetterQueue [])))
     (op_seq (op_wrap ''bind dead letter queue'' (do_call call (QueueBind ch DeadLetterQueue ''#'' DeadLetterExchange)))
     (op_seq (op_wrap ''declare webhooks queue'' (do_call call (QueueDeclare ch WebhooksQueue
        [(''x-dead-letter-exchange'', VString DeadLetterExchange),
         (''x-dead-letter-routing-key'', VString deadLetterKey)])))
     (op_wrap ''bind webhooks queue'' (do_call call (QueueBind ch WebhooksQueue WebhookBindingKey EventsExchange)))))))"

section \<open>Retry tiers (retry.go)\<close>

definition RetryExchangePrefix :: string where "RetryExchangePrefix = ''payments.webhooks.retry.''"

record retry_tier = tier_Delay :: duration

text \<open>\<^verbatim>\<open>strings.ReplaceAll\<close> of the micro sign, whose UTF-8 encoding has two bytes.\<close>

fun replace_micro :: "string \<Rightarrow> string" where
  "replace_micro (a # b # s) =
     (if a = CHR 0xC2 \<and> b = CHR 0xB5 then CHR ''u'' # replace_micro s else a # replace_micro (b # s))"
| "replace_micro s = s"

definition tier_Name :: "retry_tier \<Rightarrow> string" where
  "tier_Name t = replace_micro (Duration_String (tier_Delay t))"

definition tier_Exchange :: "retry_tier \<Rightarrow> string" where "tier_Exchange t = RetryExchangePrefix @ tier_Name t"
definition tier_Queue :: "retry_tier \<Rightarrow> string" where "tier_Queue t = RetryExchangePrefix @ tier_Name t"

definition declare_tier :: "('n \<Rightarrow> request \<Rightarrow> 'n \<times> string option) \<Rightarrow> nat \<Rightarrow> retry_tier \<Rightarrow> ('n, unit) op" where
  "declare_tier call ch t =
     (if tier_Delay t \<le> 0
      then op_fail (Errorf [T ''retry tier must have a positive delay, got '', T (Duration_String (tier_Delay t))])
      else
        op_seq (op_wrap (''declare retry exchange '' @ tier_Exchange t)
          (do_call call (ExchangeDeclare ch (tier_Exchange t) ''fanout'')))
        (op_seq (op_wrap (''declare retry queue '' @ tier_Queue t)
          (do_call call (QueueDeclare ch (tier_Queue t)
            [(''x-queue-type'', VString ''quorum''),
             (''x-message-ttl'', VInt (Milliseconds (tier_Delay t))),
             (''x-dead-letter-exchange'', VString EventsExchange),
             (''x-dead-letter-strategy'', VString ''at-least-once''),
             (''x-overflow'', VString ''reject-publish'')])))
        (op_wrap (''bind retry queue '' @ tier_Queue t)
          (do_call call (QueueBind ch (tier_Queue t) [] (tier_Exchange t))))))"

fun DeclareRetryTopology ::
  "('n \<Rightarrow> request \<Rightarrow> 'n \<times> string option) \<Rightarrow> nat \<Rightarrow> retry_tier list \<Rightarrow> ('n, unit) op" where
  "DeclareRetryTopology call ch [] = op_ok ()"
| "DeclareRetryTopology call ch (t # ts) = op_seq (declare_tier call ch t) (DeclareRetryTopology call ch ts)"

text \<open>\<^verbatim>\<open>TierFor\<close>: the tier for an attempt count, if there is any tier.\<close>

definition TierFor :: "retry_tier list \<Rightarrow> int \<Rightarrow> retry_tier option" where
  "TierFor tiers attempts =
     (if tiers = [] then None
      else let index = int64 (attempts - 1);
               index = (if index < 0 then 0 else index);
               index = (if int (length tiers) \<le> index then int (length tiers) - 1 else index)
           in Some (tiers ! nat index))"

end
