(* ===== verification/Amqp_Connection.thy ===== *)
theory Amqp_Connection
  imports Amqp_Topology
begin

text \<open>
  The connection of the adapter (\<^verbatim>\<open>connection.go\<close>, \<^verbatim>\<open>inspect.go\<close>): redialling on demand, the deadline an
  operation keeps on the socket, and the inspection of queue depths. The memory of the adapter is a
  record; transports are shared by reference in the code, so a transport is an index into a list of
  them. The AMQP library and the sockets answer through the record \<open>amqp\<close>, over an arbitrary outside
  world \<open>'n\<close>; their errors are texts, since they never wrap a value of the program.
\<close>

section \<open>The outside\<close>

record 'n amqp =
  am_Now :: "'n \<Rightarrow> instant"
  am_CtxErr :: "'n \<Rightarrow> string option"
  am_Dial :: "'n \<Rightarrow> 'n \<times> string option"
  am_SetRead :: "'n \<Rightarrow> instant \<Rightarrow> 'n \<times> string option"
  am_SetWrite :: "'n \<Rightarrow> instant \<Rightarrow> 'n \<times> string option"
  am_Handshake :: "'n \<Rightarrow> 'n \<times> (string + nat)"
  am_ConnIsClosed :: "'n \<Rightarrow> nat \<Rightarrow> bool"
  am_Channel :: "'n \<Rightarrow> nat \<Rightarrow> 'n \<times> (string + nat)"
  am_ChannelIsClosed :: "'n \<Rightarrow> nat \<Rightarrow> bool"
  am_Call :: "'n \<Rightarrow> request \<Rightarrow> 'n \<times> string option"
  am_Inspect :: "'n \<Rightarrow> nat \<Rightarrow> string \<Rightarrow> 'n \<times> (string + int)"
  am_Publish :: "'n \<Rightarrow> nat \<Rightarrow> string \<Rightarrow> string \<Rightarrow> publishing \<Rightarrow> 'n \<times> string option"
  am_Wait :: "'n \<Rightarrow> nat \<Rightarrow> 'n \<times> (string + bool)"
  am_Recv :: "'n \<Rightarrow> nat \<Rightarrow> 'n \<times> recv"

section \<open>The memory\<close>

text \<open>\<^verbatim>\<open>deadlineConn\<close>: the deadlines the driver asked for, the deadline of the current operation, and
  those last installed on the embedded socket. Zero means none.\<close>

record deadline_conn =
  dc_Read :: instant
  dc_Write :: instant
  dc_Operation :: instant
  dc_SockRead :: instant
  dc_SockWrite :: instant

definition newDeadlineConn :: deadline_conn where
  "newDeadlineConn = \<lparr>dc_Read = 0, dc_Write = 0, dc_Operation = 0, dc_SockRead = 0, dc_SockWrite = 0\<rparr>"

text \<open>\<^verbatim>\<open>Connection\<close> together with the fields of the \<^verbatim>\<open>Publisher\<close> that uses it: its channel, and the
  channel its returns come from. A connection shared with no publisher leaves those two empty.\<close>

record 'n memory =
  m_Connection :: "nat option"
  m_Transport :: "nat option"
  m_Transports :: "deadline_conn list"
  m_Channel :: "nat option"
  m_Returns :: "nat option"
  m_Net :: 'n

text \<open>An operation of the outside world, run on the memory.\<close>

definition on_net :: "('n, 'a) op \<Rightarrow> ('n memory, 'a) op" where
  "on_net f m = (case f (m_Net m) of None \<Rightarrow> None | Some (n', r, l) \<Rightarrow> Some (m\<lparr>m_Net := n'\<rparr>, r, l))"

lemma on_net_Some:
  "on_net f m = Some (m', r, l) \<longleftrightarrow> (\<exists>n'. f (m_Net m) = Some (n', r, l) \<and> m' = m\<lparr>m_Net := n'\<rparr>)"
  by (auto simp: on_net_def split: option.splits)

lemma only_on_net [only_intros]: "only E f \<Longrightarrow> only E (on_net f)"
  by (rule onlyI) (auto simp: on_net_Some dest: onlyD)

definition net_err :: "('n \<Rightarrow> 'n \<times> string option) \<Rightarrow> ('n, unit) op" where
  "net_err f n = (case f n of (n', None) \<Rightarrow> Some (n', Inr (), []) | (n', Some e) \<Rightarrow> Some (n', Inl (External e), []))"

definition net_val :: "('n \<Rightarrow> 'n \<times> (string + 'a)) \<Rightarrow> ('a result \<Rightarrow> amqp_event list) \<Rightarrow> ('n, 'a) op" where
  "net_val f log n =
     (case f n of (n', Inr a) \<Rightarrow> Some (n', Inr a, log (Inr a))
      | (n', Inl e) \<Rightarrow> Some (n', Inl (External e), log (Inl (External e))))"

lemma only_net_err [only_intros]: "only E (net_err f)"
  by (auto intro!: onlyI simp: net_err_def split: prod.splits option.splits)

lemma only_net_val [only_intros]: "(\<And>r. list_all E (log r)) \<Longrightarrow> only E (net_val f log)"
  by (auto intro!: onlyI simp: net_val_def split: prod.splits sum.splits)

lemma net_err_Some:
  "net_err f n = Some (n', r, l) \<longleftrightarrow>
     l = [] \<and> ((f n = (n', None) \<and> r = Inr ()) \<or> (\<exists>e. f n = (n', Some e) \<and> r = Inl (External e)))"
  by (auto simp: net_err_def split: prod.splits option.splits)

lemma net_val_Some:
  "net_val f log n = Some (n', r, l) \<longleftrightarrow> (\<exists>q. f n = (n', q) \<and> r = map_sum External id q \<and> l = log r)"
  by (auto simp: net_val_def split: prod.splits sum.splits)

section \<open>Deadlines\<close>

definition earlier :: "instant \<Rightarrow> instant \<Rightarrow> instant" where
  "earlier first second = (if IsZero first then second else if IsZero second \<or> first < second then first else second)"

text \<open>The methods of \<^verbatim>\<open>deadlineConn\<close>. The answers of the embedded socket are \<open>e1\<close> and \<open>e2\<close>; a refused
  call leaves the socket's deadline as it was.\<close>

definition sock_read :: "string option \<Rightarrow> instant \<Rightarrow> deadline_conn \<Rightarrow> deadline_conn \<times> goerr option" where
  "sock_read e d c = (case e of Some x \<Rightarrow> (c, Some (External x)) | None \<Rightarrow> (c\<lparr>dc_SockRead := d\<rparr>, None))"

definition sock_write :: "string option \<Rightarrow> instant \<Rightarrow> deadline_conn \<Rightarrow> deadline_conn \<times> goerr option" where
  "sock_write e d c = (case e of Some x \<Rightarrow> (c, Some (External x)) | None \<Rightarrow> (c\<lparr>dc_SockWrite := d\<rparr>, None))"

definition applyLocked :: "string option \<Rightarrow> string option \<Rightarrow> deadline_conn \<Rightarrow> deadline_conn \<times> goerr option" where
  "applyLocked e1 e2 c =
     (case sock_read e1 (earlier (dc_Read c) (dc_Operation c)) c of
        (c', Some e) \<Rightarrow> (c', Some e)
      | (c', None) \<Rightarrow> sock_write e2 (earlier (dc_Write c') (dc_Operation c')) c')"

definition SetDeadline :: "string option \<Rightarrow> string option \<Rightarrow> instant \<Rightarrow> deadline_conn \<Rightarrow> deadline_conn \<times> goerr option" where
  "SetDeadline e1 e2 d c = applyLocked e1 e2 (c\<lparr>dc_Read := d, dc_Write := d\<rparr>)"

definition SetReadDeadline :: "string option \<Rightarrow> instant \<Rightarrow> deadline_conn \<Rightarrow> deadline_conn \<times> goerr option" where
  "SetReadDeadline e d c = sock_read e (earlier d (dc_Operation c)) (c\<lparr>dc_Read := d\<rparr>)"

definition SetWriteDeadline :: "string option \<Rightarrow> instant \<Rightarrow> deadline_conn \<Rightarrow> deadline_conn \<times> goerr option" where
  "SetWriteDeadline e d c = sock_write e (earlier d (dc_Operation c)) (c\<lparr>dc_Write := d\<rparr>)"

definition limit :: "string option \<Rightarrow> string option \<Rightarrow> instant \<Rightarrow> deadline_conn \<Rightarrow> deadline_conn \<times> goerr option" where
  "limit e1 e2 d c = applyLocked e1 e2 (c\<lparr>dc_Operation := d\<rparr>)"

definition clearLimit :: "string option \<Rightarrow> string option \<Rightarrow> deadline_conn \<Rightarrow> deadline_conn \<times> goerr option" where
  "clearLimit e1 e2 c = applyLocked e1 e2 (c\<lparr>dc_Operation := 0\<rparr>)"

section \<open>Connecting\<close>

definition handshakeTimeout :: duration where "handshakeTimeout = 10 * Second"

text \<open>A method of the transport with number \<open>i\<close>, against the socket's answers. The second answer is
  asked only after the first call succeeded.\<close>

definition on_transport ::
  "'n amqp \<Rightarrow> (string option \<Rightarrow> string option \<Rightarrow> deadline_conn \<Rightarrow> deadline_conn \<times> goerr option) \<Rightarrow> nat \<Rightarrow>
   ('n memory, unit) op" where
  "on_transport am f i m =
     (let c = m_Transports m ! i;
          (n1, e1) = am_SetRead am (m_Net m) (dc_SockRead (fst (f None None c)));
          (n2, e2) = (case e1 of Some e \<Rightarrow> (n1, None) | None \<Rightarrow> am_SetWrite am n1 (dc_SockWrite (fst (f None None c))));
          (c', r) = f e1 e2 c
      in Some (m\<lparr>m_Net := n2, m_Transports := (m_Transports m)[i := c']\<rparr>,
               case r of None \<Rightarrow> Inr () | Some e \<Rightarrow> Inl e, []))"

text \<open>\<^verbatim>\<open>dial\<close>. The driver calls back with the dialled socket, whose deadline is the caller's, or ten
  seconds from now if the caller has none, and then performs its handshake. The check for a missing
  transport never fires: a dial that succeeds has called back.\<close>

definition dial :: "'n amqp \<Rightarrow> instant option \<Rightarrow> ('n memory, nat \<times> nat) op" where
  "dial am deadline =
     op_wrap ''dial rabbitmq''
       (op_seq (on_net (net_err (am_Dial am)))
       (op_then (op_get (\<lambda>m. length (m_Transports m))) (\<lambda>i.
        op_seq (op_modify (\<lambda>m. m\<lparr>m_Transports := m_Transports m @ [newDeadlineConn]\<rparr>))
       (op_then (op_get (\<lambda>m. am_Now am (m_Net m))) (\<lambda>now.
        op_seq (on_transport am (\<lambda>e1 e2. SetDeadline e1 e2
          (case deadline of Some d \<Rightarrow> d | None \<Rightarrow> now + handshakeTimeout)) i)
       (op_then (on_net (net_val (am_Handshake am) (\<lambda>_. []))) (\<lambda>conn. op_ok (conn, i))))))))"

definition live :: "'n amqp \<Rightarrow> 'n memory \<Rightarrow> bool" where
  "live am m \<longleftrightarrow> (case m_Connection m of None \<Rightarrow> False | Some c \<Rightarrow> \<not> am_ConnIsClosed am (m_Net m) c)"

definition connect :: "'n amqp \<Rightarrow> instant option \<Rightarrow> ('n memory, unit) op" where
  "connect am deadline m =
     (if live am m then op_ok () m
      else case am_CtxErr am (m_Net m) of
        Some e \<Rightarrow> op_fail (External e) m
      | None \<Rightarrow>
          op_then (dial am deadline) (\<lambda>(conn, transport).
            op_modify (\<lambda>m. m\<lparr>m_Connection := Some conn, m_Transport := Some transport\<rparr>)) m)"

text \<open>\<^verbatim>\<open>withDeadline\<close>. The limit is cleared on the transport it was set on, and an error of clearing it
  counts only when the operation itself had none.\<close>

definition withDeadline :: "'n amqp \<Rightarrow> instant option \<Rightarrow> ('n memory, 'a) op \<Rightarrow> ('n memory, 'a) op" where
  "withDeadline am deadline fn =
     (case deadline of
        None \<Rightarrow> op_fail (NewError ''rabbitmq operation requires a deadline'')
      | Some d \<Rightarrow>
          op_seq (connect am (Some d))
         (op_then (op_get m_Transport) (\<lambda>t.
           case t of
             None \<Rightarrow> op_fail (NewError ''rabbitmq transport is unavailable'')
           | Some i \<Rightarrow>
               op_seq (op_wrap ''set rabbitmq operation deadline'' (on_transport am (\<lambda>e1 e2. limit e1 e2 d) i))
                 (op_deferred fn (op_wrap ''clear rabbitmq operation deadline'' (on_transport am clearLimit i))))))"

text \<open>\<^verbatim>\<open>channel\<close>: a failed open on a dead connection forgets the connection, so that the next call
  redials.\<close>

definition open_channel :: "'n amqp \<Rightarrow> instant option \<Rightarrow> ('n memory, nat) op" where
  "open_channel am deadline =
     op_seq (connect am deadline)
     (op_then (op_get (\<lambda>m. the (m_Connection m))) (\<lambda>c.
       op_wrap ''open channel''
         (op_onerr (on_net (net_val (\<lambda>n. am_Channel am n c) (\<lambda>r. [Opened r])))
           (op_modify (\<lambda>m. if am_ConnIsClosed am (m_Net m) c then m\<lparr>m_Connection := None\<rparr> else m)))))"

definition Channel :: "'n amqp \<Rightarrow> instant option \<Rightarrow> ('n memory, nat) op" where
  "Channel am deadline = withDeadline am deadline (open_channel am deadline)"

definition close_channel :: "'n amqp \<Rightarrow> nat \<Rightarrow> ('n memory, unit) op" where
  "close_channel am ch = on_net (do_call (am_Call am) (CloseChannel ch))"

definition withChannel :: "'n amqp \<Rightarrow> instant option \<Rightarrow> (nat \<Rightarrow> ('n memory, 'a) op) \<Rightarrow> ('n memory, 'a) op" where
  "withChannel am deadline use =
     withDeadline am deadline
       (op_then (open_channel am deadline) (\<lambda>ch. op_finally (use ch) (close_channel am ch)))"

text \<open>\<^verbatim>\<open>Ping\<close>.\<close>

definition Ping_broker :: "'n amqp \<Rightarrow> 'n memory \<Rightarrow> goerr option" where
  "Ping_broker am m =
     (case am_CtxErr am (m_Net m) of
        Some e \<Rightarrow> Some (External e)
      | None \<Rightarrow>
          if m_Connection m = None \<or> am_ConnIsClosed am (m_Net m) (the (m_Connection m))
          then Some (NewError ''rabbitmq connection is closed'') else None)"

section \<open>Queue depths (inspect.go)\<close>

fun inspect_queues :: "'n amqp \<Rightarrow> nat \<Rightarrow> string list \<Rightarrow> (string \<rightharpoonup> int) \<Rightarrow> ('n memory, string \<rightharpoonup> int) op" where
  "inspect_queues am ch [] depths = op_ok depths"
| "inspect_queues am ch (q # qs) depths =
     op_then (op_wrap (''inspect queue '' @ q) (on_net (net_val (\<lambda>n. am_Inspect am n ch q) (\<lambda>_. []))))
       (\<lambda>messages. inspect_queues am ch qs (depths(q \<mapsto> messages)))"

definition QueueDepths :: "'n amqp \<Rightarrow> instant option \<Rightarrow> string list \<Rightarrow> ('n memory, string \<rightharpoonup> int) op" where
  "QueueDepths am deadline queues =
     op_wrap ''inspect queue depths'' (withChannel am deadline (\<lambda>ch. inspect_queues am ch queues Map.empty))"

section \<open>Logs and errors\<close>

text \<open>What \<open>withDeadline\<close> adds to an operation: nothing to its log, and no success of its own.\<close>

lemma on_transport_Some: "on_transport am f i m = Some (m', r, l) \<Longrightarrow> l = []"
  by (auto simp: on_transport_def Let_def split: prod.splits)

lemma only_on_transport [only_intros]: "only E (on_transport am f i)"
  by (auto intro!: onlyI dest: on_transport_Some)

lemma only_connect [only_intros]: "only E (connect am dl)"
proof -
  have "only E (dial am dl)" unfolding dial_def by (intro only_intros) simp
  then have *: "only E (op_then (dial am dl) (\<lambda>(conn, transport).
      op_modify (\<lambda>m. m\<lparr>m_Connection := Some conn, m_Transport := Some transport\<rparr>)))"
    by (intro only_then) (auto intro: only_intros split: prod.splits)
  show ?thesis
    by (rule onlyI) (auto simp: connect_def split: if_splits option.splits intro: onlyD [OF *])
qed

lemma only_withDeadline [only_intros]: "only E fn \<Longrightarrow> only E (withDeadline am dl fn)"
  unfolding withDeadline_def by (intro only_intros)

lemma log_Nil: "only (\<lambda>_. False) m \<Longrightarrow> m w = Some (w', r, l) \<Longrightarrow> l = []"
  using onlyD [of "\<lambda>_. False" m w w' r l] by (cases l) auto

lemma withDeadline_Some:
  assumes "withDeadline am dl fn m = Some (m', r, l)"
  shows "(l = [] \<and> (\<exists>e. r = Inl e)) \<or>
    (\<exists>m0 m1 r1. fn m0 = Some (m1, r1, l) \<and> (r = r1 \<or> (\<exists>e. r = Inl e)))"
proof (cases dl)
  case None
  with assms show ?thesis by (auto simp: withDeadline_def)
next
  case (Some d)
  have quiet: "only (\<lambda>_. False) (connect am dl)" "only (\<lambda>_. False) (op_wrap what (on_transport am f i))" for dl what f i
    by (intro only_intros)+
  note log = log_Nil [OF quiet(1)] log_Nil [OF quiet(2)]
  from assms Some have "op_seq (connect am (Some d)) (op_then (op_get m_Transport) (\<lambda>t. case t of
       None \<Rightarrow> op_fail (NewError ''rabbitmq transport is unavailable'')
     | Some i \<Rightarrow> op_seq (op_wrap ''set rabbitmq operation deadline'' (on_transport am (\<lambda>e1 e2. limit e1 e2 d) i))
         (op_deferred fn (op_wrap ''clear rabbitmq operation deadline'' (on_transport am clearLimit i))))) m = Some (m', r, l)"
    by (simp add: withDeadline_def)
  then show ?thesis
  proof (cases rule: op_thenE)
    case stop
    then show ?thesis using log(1) by blast
  next
    case (go w1 u l1 l2)
    then have "l1 = []" using log(1) by blast
    with go show ?thesis
    proof (cases "m_Transport w1")
      case None
      with go \<open>l1 = []\<close> show ?thesis by (simp add: op_then_Some)
    next
      case (Some i)
      with go have "op_seq (op_wrap ''set rabbitmq operation deadline'' (on_transport am (\<lambda>e1 e2. limit e1 e2 d) i))
         (op_deferred fn (op_wrap ''clear rabbitmq operation deadline'' (on_transport am clearLimit i))) w1 = Some (m', r, l2)"
        by (simp add: op_then_Some)
      then show ?thesis
      proof (cases rule: op_thenE)
        case stop
        then show ?thesis using log(2) go(3) \<open>l1 = []\<close> by auto
      next
        case (go w2 v l3 l4)
        from go(2) obtain w3 r1 l5 r2 l6 where "fn w2 = Some (w3, r1, l5)"
            "op_wrap ''clear rabbitmq operation deadline'' (on_transport am clearLimit i) w3 = Some (m', r2, l6)"
            "l4 = l5 @ l6" "r = r1 \<or> (\<exists>e. r = Inl e \<and> r2 = Inl e)"
          by (rule op_deferredE)
        moreover from calculation log(2) have "l6 = []" by blast
        moreover from go(1) log(2) have "l3 = []" by blast
        ultimately show ?thesis using \<open>l = l1 @ l2\<close> \<open>l1 = []\<close> go(3) by auto
      qed
    qed
  qed
qed

lemma only_open_channel [only_intros]: "(\<And>r. E (Opened r)) \<Longrightarrow> only E (open_channel am dl)"
  unfolding open_channel_def by (intro only_intros) simp

lemma only_close_channel [only_intros]: "(\<And>r. E (Called (CloseChannel ch) r)) \<Longrightarrow> only E (close_channel am ch)"
  unfolding close_channel_def by (intro only_intros) simp

text \<open>The errors of the library never wrap a value of the program, and what the adapter makes of them
  keeps that: \<open>P\<close> is any property of errors that external ones have and wrapping keeps.\<close>

lemma errs_on_net [errs_intros]: "errs P f \<Longrightarrow> errs P (on_net f)"
  by (rule errsI) (auto simp: on_net_Some dest: errsD)

lemma errs_do_call [errs_intros]: "(\<And>e. P (External e)) \<Longrightarrow> errs P (do_call call q)"
  by (rule errsI) (auto simp: do_call_Some)

lemma errs_net_err [errs_intros]: "(\<And>e. P (External e)) \<Longrightarrow> errs P (net_err f)"
  by (rule errsI) (auto simp: net_err_def split: prod.splits option.splits)

lemma errs_net_val [errs_intros]: "(\<And>e. P (External e)) \<Longrightarrow> errs P (net_val f log)"
  by (rule errsI) (auto simp: net_val_def split: prod.splits sum.splits)

lemma applyLocked_err: "applyLocked e1 e2 c = (c', Some e) \<Longrightarrow> \<exists>x. e = External x"
  by (auto simp: applyLocked_def sock_read_def sock_write_def split: option.splits prod.splits)

lemma errs_on_transport [errs_intros]:
  assumes "\<And>e. P (External e)" and "\<And>e1 e2 c c' e. f e1 e2 c = (c', Some e) \<Longrightarrow> \<exists>x. e = External x"
  shows "errs P (on_transport am f i)"
  using assms by (intro errsI) (fastforce simp: on_transport_def Let_def split: prod.splits option.splits)

lemma errs_connect [errs_intros]:
  assumes "\<And>e. P (External e)" and "\<And>what e. P e \<Longrightarrow> P (wrap what e)"
  shows "errs P (connect am dl)"
proof -
  have "errs P (dial am dl)" unfolding dial_def
    by (intro errs_intros assms) (auto simp: SetDeadline_def dest: applyLocked_err)
  then have *: "errs P (op_then (dial am dl) (\<lambda>(conn, transport).
      op_modify (\<lambda>m. m\<lparr>m_Connection := Some conn, m_Transport := Some transport\<rparr>)))"
    by (intro errs_then) (auto intro: errs_intros split: prod.splits)
  show ?thesis
    by (rule errsI) (auto simp: connect_def assms split: if_splits option.splits intro: errsD [OF *])
qed

lemma errs_withDeadline [errs_intros]:
  assumes "\<And>e. P (External e)" and "\<And>what e. P e \<Longrightarrow> P (wrap what e)" and "\<And>t. P (NewError t)" and fn: "errs P fn"
  shows "errs P (withDeadline am dl fn)"
proof -
  have lim: "errs P (on_transport am (\<lambda>e1 e2. limit e1 e2 d) i)" "errs P (on_transport am clearLimit i)" for d i
    by (auto intro!: errs_intros assms simp: limit_def clearLimit_def dest: applyLocked_err)
  show ?thesis unfolding withDeadline_def by (intro errs_intros assms lim)
qed

lemma errs_open_channel [errs_intros]:
  assumes "\<And>e. P (External e)" and "\<And>what e. P e \<Longrightarrow> P (wrap what e)"
  shows "errs P (open_channel am dl)"
  unfolding open_channel_def by (intro errs_intros assms)

section \<open>The operation deadline\<close>

text \<open>What the driver does to the socket's deadlines by itself, while an operation runs: its heartbeat loop
  pushes the read deadline, its writer the write deadline. Each call may be refused by the socket.\<close>

datatype driver_call = DriverSets instant | DriverSetsRead instant | DriverSetsWrite instant

fun driver_step :: "driver_call \<times> string option \<times> string option \<Rightarrow> deadline_conn \<Rightarrow> deadline_conn" where
  "driver_step (DriverSets d, e1, e2) c = fst (SetDeadline e1 e2 d c)"
| "driver_step (DriverSetsRead d, e1, e2) c = fst (SetReadDeadline e1 d c)"
| "driver_step (DriverSetsWrite d, e1, e2) c = fst (SetWriteDeadline e1 d c)"

definition within :: "instant \<Rightarrow> deadline_conn \<Rightarrow> bool" where
  "within d c \<longleftrightarrow> dc_Operation c = d \<and> dc_SockRead c \<noteq> 0 \<and> dc_SockRead c \<le> d \<and> dc_SockWrite c \<noteq> 0 \<and> dc_SockWrite c \<le> d"

lemma earlier_within: "d \<noteq> 0 \<Longrightarrow> earlier x d \<noteq> 0 \<and> earlier x d \<le> d"
  by (auto simp: earlier_def)

lemmas deadline_defs = SetDeadline_def SetReadDeadline_def SetWriteDeadline_def applyLocked_def sock_read_def sock_write_def
  limit_def clearLimit_def

lemma driver_step_within: "d \<noteq> 0 \<Longrightarrow> within d c \<Longrightarrow> within d (driver_step q c)"
  using earlier_within [of d]
  by (cases "(q, c)" rule: driver_step.cases)
    (auto simp: within_def deadline_defs split: option.splits)

lemma driver_steps_within: "d \<noteq> 0 \<Longrightarrow> within d c \<Longrightarrow> within d (fold driver_step qs c)"
  by (induction qs arbitrary: c) (auto intro: driver_step_within)

text \<open>
  C24: an operation keeps its deadline. Once the deadline of an operation is installed on a transport,
  the socket's read and write deadlines are set and never later than it, whatever deadlines the driver
  asks for meanwhile, with zero (none) or a later one among them, and whichever of those calls the
  socket refuses. When it is cleared, the socket gets back what the driver last asked for.
\<close>

theorem operation_deadline_holds:
  assumes "limit e1 e2 d c = (c1, None)" and "d \<noteq> 0"
  shows "dc_SockRead (fold driver_step qs c1) \<noteq> 0 \<and> dc_SockRead (fold driver_step qs c1) \<le> d \<and>
         dc_SockWrite (fold driver_step qs c1) \<noteq> 0 \<and> dc_SockWrite (fold driver_step qs c1) \<le> d \<and>
         (\<forall>c2 e3 e4. clearLimit e3 e4 (fold driver_step qs c1) = (c2, None) \<longrightarrow>
            dc_SockRead c2 = dc_Read (fold driver_step qs c1) \<and> dc_SockWrite c2 = dc_Write (fold driver_step qs c1))"
proof -
  have "within d c1"
    using assms earlier_within [OF assms(2)] by (auto simp: within_def deadline_defs split: option.splits)
  from driver_steps_within [OF assms(2) this, of qs] show ?thesis
    by (auto simp: within_def deadline_defs earlier_def split: option.splits)
qed

theorem operation_deadline_holds_witness:
  "dc_SockRead (fold driver_step [(DriverSetsRead 0, None, None), (DriverSetsRead 90, None, None), (DriverSets 3, None, Some ''x'')]
     (fst (limit None None 50 newDeadlineConn))) = 3"
proof -
  have "limit None None 50 newDeadlineConn = (newDeadlineConn\<lparr>dc_Operation := 50, dc_SockRead := 50, dc_SockWrite := 50\<rparr>, None)"
    by (simp add: deadline_defs newDeadlineConn_def earlier_def)
  from operation_deadline_holds [OF this, of "[(DriverSetsRead 0, None, None), (DriverSetsRead 90, None, None), (DriverSets 3, None, Some ''x'')]"]
  show ?thesis by (simp add: deadline_defs newDeadlineConn_def earlier_def)
qed

lemma on_transport_Inr:
  assumes "on_transport am f i m = Some (m', Inr u, l)"
  shows "\<exists>n e1 e2 c'. f e1 e2 (m_Transports m ! i) = (c', None) \<and>
    m' = m\<lparr>m_Net := n, m_Transports := (m_Transports m)[i := c']\<rparr>"
  using assms by (auto simp: on_transport_def Let_def split: prod.splits option.splits)

lemma dial_transport:
  assumes "dial am dl m = Some (m', Inr (conn, i), l)"
  shows "i = length (m_Transports m) \<and> dc_Operation (m_Transports m' ! i) = 0"
proof -
  from assms obtain n1 n2 m3 l3 d where i: "i = length (m_Transports m)"
      and t: "on_transport am (\<lambda>e1 e2. SetDeadline e1 e2 d) i
        (m\<lparr>m_Net := n1, m_Transports := m_Transports m @ [newDeadlineConn]\<rparr>) = Some (m3, Inr (), l3)"
      and m': "m' = m3\<lparr>m_Net := n2\<rparr>"
    by (auto simp: dial_def op_then_Some op_wrap_Some on_net_Some net_err_Some net_val_Some)
  from on_transport_Inr [OF t] i m' show ?thesis
    by (auto simp: deadline_defs newDeadlineConn_def split: option.splits)
qed

text \<open>
  A redial escapes it. When the connection died after the deadline was installed, the operation's own
  request for a channel dials again, and the transport it goes on with is a new one that has no operation
  deadline: the next time the driver clears its own deadline there, the socket has none at all.
\<close>

theorem redial_not_limited:
  assumes "\<not> live am m" and "open_channel am (Some d) m = Some (m', Inr ch, l)"
  shows "\<exists>i. m_Transport m' = Some i \<and> i = length (m_Transports m) \<and> dc_Operation (m_Transports m' ! i) = 0 \<and>
    dc_SockRead (fold driver_step [(DriverSets 0, None, None)] (m_Transports m' ! i)) = 0"
proof -
  from assms(2) obtain m1 l1 where c: "connect am (Some d) m = Some (m1, Inr (), l1)"
      and rest: "m_Transport m' = m_Transport m1" "m_Transports m' = m_Transports m1"
    by (auto simp: open_channel_def op_then_Some op_wrap_Some op_onerr_Some on_net_Some)
  from c assms(1) obtain m2 conn i l2 where "dial am (Some d) m = Some (m2, Inr (conn, i), l2)"
      "m1 = m2\<lparr>m_Connection := Some conn, m_Transport := Some i\<rparr>"
    by (auto simp: connect_def op_then_Some split: if_splits option.splits)
  with dial_transport [OF this(1)] rest show ?thesis by (auto simp: deadline_defs earlier_def)
qed

text \<open>A broker that accepts everything, and a memory before any call; for the witnesses.\<close>

definition healthy :: "unit amqp" where
  "healthy = \<lparr>am_Now = (\<lambda>_. 100), am_CtxErr = (\<lambda>_. None), am_Dial = (\<lambda>n. (n, None)), am_SetRead = (\<lambda>n _. (n, None)),
     am_SetWrite = (\<lambda>n _. (n, None)), am_Handshake = (\<lambda>n. (n, Inr 1)), am_ConnIsClosed = (\<lambda>_ _. False),
     am_Channel = (\<lambda>n _. (n, Inr 7)), am_ChannelIsClosed = (\<lambda>_ _. False), am_Call = (\<lambda>n _. (n, None)),
     am_Inspect = (\<lambda>n _ _. (n, Inr 0)), am_Publish = (\<lambda>n _ _ _ _. (n, None)), am_Wait = (\<lambda>n _. (n, Inr True)),
     am_Recv = (\<lambda>n _. (n, Empty))\<rparr>"

definition fresh_memory :: "'n \<Rightarrow> 'n memory" where
  "fresh_memory n = \<lparr>m_Connection = None, m_Transport = None, m_Transports = [], m_Channel = None, m_Returns = None, m_Net = n\<rparr>"

lemma fresh_memory_simps [simp]: "m_Net (fresh_memory n) = n" "(fresh_memory ())\<lparr>m_Net := ()\<rparr> = fresh_memory ()"
  by (simp_all add: fresh_memory_def)

theorem redial_not_limited_witness:
  "\<exists>m'. dc_Operation (m_Transports m' ! 0) = 0 \<and> m_Transport m' = Some 0 \<and>
     (\<exists>l. open_channel healthy (Some 50) (fresh_memory ()) = Some (m', Inr 7, l))"
proof -
  have "\<exists>m' l. open_channel healthy (Some 50) (fresh_memory ()) = Some (m', Inr 7, l)"
    by (simp add: open_channel_def connect_def live_def dial_def op_defs on_net_def net_err_def net_val_def on_transport_def
        Let_def deadline_defs fresh_memory_def healthy_def)
  then obtain m' l where run: "open_channel healthy (Some 50) (fresh_memory ()) = Some (m', Inr 7, l)" by blast
  from redial_not_limited [OF _ this] have "m_Transport m' = Some 0 \<and> dc_Operation (m_Transports m' ! 0) = 0"
    by (auto simp: live_def fresh_memory_def)
  with run show ?thesis by blast
qed

end
