(* ===== verification/Amqp_Publisher.thy ===== *)
theory Amqp_Publisher
  imports Amqp_Connection
begin

text \<open>
  Publishing outbox messages with confirms (\<^verbatim>\<open>publisher.go\<close>). The package's \<^verbatim>\<open>json.Marshal\<close> of the
  message body is an argument. The result type says \<^term>\<open>None\<close> where the code never returns, which
  \<^verbatim>\<open>drainReturns\<close> may do.
\<close>

section \<open>Definitions\<close>

definition PublishTimeout :: duration where "PublishTimeout = 5 * Second"

record message_body =
  mb_MessageID :: string
  mb_Type :: string
  mb_SchemaVersion :: int
  mb_OccurredAt :: instant
  mb_CorrelationID :: string
  mb_WebhookEventID :: string

text \<open>The test hooks: a replacement for a whole attempt, and one after a confirm. Production sets none.\<close>

record publish_hooks =
  ph_Publish :: "(message \<Rightarrow> goerr option) option"
  ph_AfterPublishConfirmed :: "(message \<Rightarrow> goerr option) option"

definition no_publish_hooks :: publish_hooks where
  "no_publish_hooks = \<lparr>ph_Publish = None, ph_AfterPublishConfirmed = None\<rparr>"

definition op_error :: "goerr option \<Rightarrow> ('w, unit) op" where
  "op_error e = (case e of None \<Rightarrow> op_ok () | Some x \<Rightarrow> op_fail x)"

definition usable :: "'n amqp \<Rightarrow> 'n memory \<Rightarrow> bool" where
  "usable am m \<longleftrightarrow> (case m_Channel m of None \<Rightarrow> False | Some ch \<Rightarrow> \<not> am_ChannelIsClosed am (m_Net m) ch)"

definition ensureChannel :: "'n amqp \<Rightarrow> instant option \<Rightarrow> ('n memory, nat) op" where
  "ensureChannel am deadline m =
     (if usable am m then op_ok (the (m_Channel m)) m
      else
        op_then (open_channel am deadline) (\<lambda>ch.
        op_seq (op_onerr (op_wrap ''enable publisher confirms'' (on_net (do_call (am_Call am) (ConfirmMode ch))))
                  (close_channel am ch))
       (op_seq (op_onerr (on_net (DeclareTopology (am_Call am) ch)) (close_channel am ch))
       (op_seq (op_modify (\<lambda>m. m\<lparr>m_Returns := Some ch, m_Channel := Some ch\<rparr>)) (op_ok ch)))) m)"

text \<open>\<^verbatim>\<open>drainReturns\<close> on the Go channel of returns. A receive from a closed Go channel succeeds at once,
  so only an empty open channel, or a nil one, ends the loop.\<close>

partial_function (option) drain :: "('n \<Rightarrow> 'n \<times> recv) \<Rightarrow> 'n \<Rightarrow> 'n option" where
  "drain recv n =
     (case recv n of
        (n', Empty) \<Rightarrow> Some n'
      | (n', Received r) \<Rightarrow> drain recv n'
      | (n', Closed) \<Rightarrow> drain recv n')"

definition drainReturns :: "'n amqp \<Rightarrow> ('n memory, unit) op" where
  "drainReturns am m =
     (case m_Returns m of
        None \<Rightarrow> Some (m, Inr (), [])
      | Some ch \<Rightarrow>
          (case drain (\<lambda>n. am_Recv am n ch) (m_Net m) of
             None \<Rightarrow> None
           | Some n' \<Rightarrow> Some (m\<lparr>m_Net := n'\<rparr>, Inr (), [])))"

definition takeReturn :: "'n amqp \<Rightarrow> ('n memory, returned option) op" where
  "takeReturn am m =
     (case m_Returns m of
        None \<Rightarrow> Some (m, Inr None, [ReturnSeen None])
      | Some ch \<Rightarrow>
          (case am_Recv am (m_Net m) ch of
             (n', Received r) \<Rightarrow> Some (m\<lparr>m_Net := n'\<rparr>, Inr (Some r), [ReturnSeen (Some r)])
           | (n', _) \<Rightarrow> Some (m\<lparr>m_Net := n'\<rparr>, Inr None, [ReturnSeen None])))"

definition discardChannel :: "'n amqp \<Rightarrow> ('n memory, unit) op" where
  "discardChannel am m =
     op_seq (case m_Channel m of None \<Rightarrow> op_ok () | Some ch \<Rightarrow> op_finally (op_ok ()) (close_channel am ch))
       (op_modify (\<lambda>m. m\<lparr>m_Channel := None, m_Returns := None\<rparr>)) m"

definition Warm :: "'n amqp \<Rightarrow> instant \<Rightarrow> ('n memory, unit) op" where
  "Warm am deadline = withDeadline am (Some deadline) (op_then (ensureChannel am (Some deadline)) (\<lambda>_. op_ok ()))"

definition send :: "'n amqp \<Rightarrow> nat \<Rightarrow> string \<Rightarrow> string \<Rightarrow> publishing \<Rightarrow> ('n, unit) op" where
  "send am ch exchange key p n =
     (case am_Publish am n ch exchange key p of
        (n', None) \<Rightarrow> Some (n', Inr (), [Sent ch exchange key p None])
      | (n', Some e) \<Rightarrow> Some (n', Inl (External e), [Sent ch exchange key p (Some (External e))]))"

definition await :: "'n amqp \<Rightarrow> nat \<Rightarrow> ('n, bool) op" where
  "await am ch = net_val (\<lambda>n. am_Wait am n ch) (\<lambda>r. [Awaited r])"

definition publishing_of :: "message \<Rightarrow> string \<Rightarrow> publishing" where
  "publishing_of msg body =
     \<lparr>pg_ContentType = ''application/json'', pg_DeliveryMode = 2, pg_MessageId = message_ID msg,
      pg_Type = message_Kind msg, pg_CorrelationId = message_CorrelationID msg,
      pg_Timestamp = UTC (message_OccurredAt msg), pg_Headers = [], pg_Body = body\<rparr>"

definition body_of :: "message \<Rightarrow> message_body" where
  "body_of msg =
     \<lparr>mb_MessageID = message_ID msg, mb_Type = message_Kind msg, mb_SchemaVersion = message_SchemaVersion msg,
      mb_OccurredAt = UTC (message_OccurredAt msg), mb_CorrelationID = message_CorrelationID msg,
      mb_WebhookEventID = message_EventID msg\<rparr>"

text \<open>What \<^verbatim>\<open>Publish\<close> does once the body is encoded, inside the deadline.\<close>

definition map_err :: "(goerr \<Rightarrow> goerr) \<Rightarrow> ('w, 'a) op \<Rightarrow> ('w, 'a) op" where
  "map_err f m w =
     (case m w of None \<Rightarrow> None | Some (w', Inl e, l) \<Rightarrow> Some (w', Inl (f e), l) | Some (w', Inr a, l) \<Rightarrow> Some (w', Inr a, l))"

definition publish_attempt ::
  "'n amqp \<Rightarrow> publish_hooks \<Rightarrow> instant \<Rightarrow> message \<Rightarrow> string \<Rightarrow> ('n memory, unit) op" where
  "publish_attempt am hooks deadline msg body =
     op_then (ensureChannel am (Some deadline)) (\<lambda>ch.
     op_seq (drainReturns am)
    (op_seq (op_onerr (op_wrap ''publish outbox message''
               (on_net (send am ch EventsExchange (message_RoutingKey msg) (publishing_of msg body))))
             (discardChannel am))
    (op_then (op_onerr (map_err (\<lambda>e. Errorf [W (Sentinel ErrNotConfirmed), T '': '', W e]) (on_net (await am ch)))
             (discardChannel am)) (\<lambda>acked.
       if \<not> acked then op_fail (Sentinel ErrNotConfirmed)
       else op_then (takeReturn am) (\<lambda>ret.
         case ret of
           Some r \<Rightarrow> op_fail (Errorf [W (Sentinel ErrNotRouted), T '': '', T (rt_RoutingKey r), T '' ('',
                               T (itoa (rt_ReplyCode r)), T '' '', T (rt_ReplyText r), T '')''])
         | None \<Rightarrow> (case ph_AfterPublishConfirmed hooks of None \<Rightarrow> op_ok () | Some h \<Rightarrow> op_error (h msg)))))))"

text \<open>\<^verbatim>\<open>Publish\<close>; \<open>now\<close> is the instant at which the attempt's budget starts.\<close>

definition Publish ::
  "'n amqp \<Rightarrow> (message_body \<Rightarrow> string + string) \<Rightarrow> publish_hooks \<Rightarrow> instant \<Rightarrow> message \<Rightarrow> ('n memory, unit) op" where
  "Publish am marshal hooks now msg =
     (case ph_Publish hooks of
        Some h \<Rightarrow>
          (case h msg of
             Some e \<Rightarrow> op_fail e
           | None \<Rightarrow> (case ph_AfterPublishConfirmed hooks of None \<Rightarrow> op_ok () | Some h' \<Rightarrow> op_error (h' msg)))
      | None \<Rightarrow>
          (case marshal (body_of msg) of
             Inl e \<Rightarrow> op_fail (PermanentError (wrap ''encode outbox message'' (External e)))
           | Inr body \<Rightarrow>
               withDeadline am (Some (now + PublishTimeout))
                 (publish_attempt am hooks (now + PublishTimeout) msg body)))"

definition Publisher_Close :: "'n amqp \<Rightarrow> ('n memory, unit) op" where
  "Publisher_Close am m =
     (case m_Channel m of
        None \<Rightarrow> op_ok () m
      | Some ch \<Rightarrow> if am_ChannelIsClosed am (m_Net m) ch then op_ok () m else close_channel am ch m)"

section \<open>What the calls log\<close>

lemma only_op_error [only_intros]: "only E (op_error e)"
  by (simp add: op_error_def only_intros split: option.splits)

lemma op_error_Some [simp]:
  "op_error e w = Some (w', r, l) \<longleftrightarrow> w' = w \<and> l = [] \<and> r = (case e of None \<Rightarrow> Inr () | Some x \<Rightarrow> Inl x)"
  by (auto simp: op_error_def split: option.splits)

lemma send_Some:
  "send am ch x k p n = Some (n', r, l) \<longleftrightarrow>
     (am_Publish am n ch x k p = (n', None) \<and> r = Inr () \<and> l = [Sent ch x k p None]) \<or>
     (\<exists>e. am_Publish am n ch x k p = (n', Some e) \<and> r = Inl (External e) \<and> l = [Sent ch x k p (Some (External e))])"
  by (auto simp: send_def split: prod.splits option.splits)

lemma await_Some:
  "await am ch n = Some (n', r, l) \<longleftrightarrow> (\<exists>q. am_Wait am n ch = (n', q) \<and> r = map_sum External id q \<and> l = [Awaited r])"
  by (auto simp: await_def net_val_def split: prod.splits sum.splits)

lemma only_send [only_intros]: "(\<And>e. E (Sent ch x k p e)) \<Longrightarrow> only E (send am ch x k p)"
  by (auto intro!: onlyI simp: send_Some)

lemma only_await [only_intros]: "(\<And>r. E (Awaited r)) \<Longrightarrow> only E (await am ch)"
  unfolding await_def by (intro only_intros) simp

section \<open>Properties\<close>

lemma only_takeReturn [only_intros]: "(\<And>r. E (ReturnSeen r)) \<Longrightarrow> only E (takeReturn am)"
  by (auto intro!: onlyI simp: takeReturn_def split: option.splits prod.splits recv.splits)

lemma takeReturn_Some: "takeReturn am m = Some (m', r, l) \<Longrightarrow> \<exists>q. r = Inr q \<and> l = [ReturnSeen q]"
  by (auto simp: takeReturn_def split: option.splits prod.splits recv.splits)

lemma drainReturns_Some: "drainReturns am m = Some (m', r, l) \<Longrightarrow> r = Inr () \<and> l = []"
  by (auto simp: drainReturns_def split: option.splits)

lemma publish_attempt_ok:
  assumes "publish_attempt am no_publish_hooks d msg body m = Some (m', Inr (), l)"
  shows "\<exists>l0 ch. l = l0 @ [Sent ch EventsExchange (message_RoutingKey msg) (publishing_of msg body) None,
           Awaited (Inr True), ReturnSeen None]"
proof -
  have err: "map_err f n w = Some (w', Inr a, l) \<longleftrightarrow> n w = Some (w', Inr a, l)" for f and n :: "('w, 'x) op" and w w' a l
    by (auto simp: map_err_def split: option.splits sum.splits)
  from assms show ?thesis
    by (auto simp: publish_attempt_def no_publish_hooks_def op_then_Some op_onerr_Some op_wrap_Some on_net_Some err
        send_Some await_Some split: option.splits if_splits dest!: takeReturn_Some drainReturns_Some)
qed

lemma publish_ok:
  assumes "Publish am marshal no_publish_hooks now msg m = Some (m', Inr (), l)"
  shows "\<exists>l0 ch body. marshal (body_of msg) = Inr body \<and>
    l = l0 @ [Sent ch EventsExchange (message_RoutingKey msg) (publishing_of msg body) None, Awaited (Inr True), ReturnSeen None]"
proof -
  from assms obtain body where b: "marshal (body_of msg) = Inr body"
      and w: "withDeadline am (Some (now + PublishTimeout))
        (publish_attempt am no_publish_hooks (now + PublishTimeout) msg body) m = Some (m', Inr (), l)"
    by (auto simp: Publish_def no_publish_hooks_def split: sum.splits)
  from withDeadline_Some [OF w] publish_attempt_ok [of am _ msg body _ _ l] b show ?thesis by fastforce
qed

text \<open>
  Published means the broker has it. When \<^verbatim>\<open>Publish\<close> reports success, the last things it did were to
  send the message, encoded, persistent and under its routing key, to the events exchange, to see it
  confirmed, and to find that it was not returned as unroutable.
\<close>

theorem Publish_confirmed:
  assumes "Publish am marshal no_publish_hooks now msg m = Some (m', Inr (), l)"
  shows "\<exists>l0 ch body. marshal (body_of msg) = Inr body \<and>
    l = l0 @ [Sent ch EventsExchange (message_RoutingKey msg) (publishing_of msg body) None, Awaited (Inr True), ReturnSeen None]"
  using publish_ok [OF assms] .

lemma errs_drainReturns [errs_intros]: "errs P (drainReturns am)"
  by (rule errsI) (auto simp: drainReturns_def split: option.splits)

lemma errs_takeReturn [errs_intros]: "errs P (takeReturn am)"
  by (rule errsI) (auto dest!: takeReturn_Some)

lemma errs_op_error [errs_intros]: "(\<And>x. e = Some x \<Longrightarrow> P x) \<Longrightarrow> errs P (op_error e)"
  by (rule errsI) (auto split: option.splits)

lemma errs_map_err [errs_intros]: "errs P m \<Longrightarrow> (\<And>e. P e \<Longrightarrow> P (f e)) \<Longrightarrow> errs P (map_err f m)"
  unfolding errs_def map_err_def by (fastforce split: option.splits sum.splits)

lemma errs_send [errs_intros]: "(\<And>e. P (External e)) \<Longrightarrow> errs P (send am ch x k p)"
  by (rule errsI) (auto simp: send_Some)

lemma errs_await [errs_intros]: "(\<And>e. P (External e)) \<Longrightarrow> errs P (await am ch)"
  unfolding await_def by (intro errs_intros)

lemma errs_DeclareTopology [errs_intros]:
  assumes "\<And>e. P (External e)" and "\<And>what e. P e \<Longrightarrow> P (wrap what e)"
  shows "errs P (DeclareTopology call ch)"
  unfolding DeclareTopology_def by (intro errs_intros assms)

lemma publish_attempt_errs: "errs (\<lambda>e. \<not> wraps_permanent e) (publish_attempt am no_publish_hooks d msg body)"
proof -
  let ?P = "\<lambda>e. \<not> wraps_permanent e"
  have ens: "errs ?P (ensureChannel am dl)" for dl
  proof (rule errsI)
    fix w w' e l assume *: "ensureChannel am dl w = Some (w', Inl e, l)"
    have "errs ?P (op_then (open_channel am dl) (\<lambda>ch.
        op_seq (op_onerr (op_wrap ''enable publisher confirms'' (on_net (do_call (am_Call am) (ConfirmMode ch)))) (close_channel am ch))
       (op_seq (op_onerr (on_net (DeclareTopology (am_Call am) ch)) (close_channel am ch))
       (op_seq (op_modify (\<lambda>m. m\<lparr>m_Returns := Some ch, m_Channel := Some ch\<rparr>)) (op_ok ch)))))"
      by (intro errs_intros) simp_all
    from errsD [OF this] * show "?P e" by (auto simp: ensureChannel_def split: if_splits)
  qed
  show ?thesis
    unfolding publish_attempt_def no_publish_hooks_def publish_hooks.simps option.case
    by (intro errs_intros ens) simp_all
qed

text \<open>
  Only an unencodable message is given up. Whatever goes wrong with the connection, the topology, the
  send, the confirm or the routing, the error is not a permanent one, so the relay keeps the message for
  another attempt; the single permanent failure is a body that cannot be encoded.
\<close>

theorem Publish_permanent_iff:
  assumes "Publish am marshal no_publish_hooks now msg m = Some (m', Inl e, l)"
  shows "IsPermanent e \<longleftrightarrow> (\<exists>x. marshal (body_of msg) = Inl x)"
proof (cases "marshal (body_of msg)")
  case (Inl x)
  with assms show ?thesis by (simp add: Publish_def no_publish_hooks_def IsPermanent_def)
next
  case (Inr body)
  have "errs (\<lambda>e. \<not> wraps_permanent e) (withDeadline am (Some (now + PublishTimeout))
      (publish_attempt am no_publish_hooks (now + PublishTimeout) msg body))"
    by (intro errs_intros publish_attempt_errs) simp_all
  from errsD [OF this] assms Inr show ?thesis
    by (auto simp: Publish_def no_publish_hooks_def IsPermanent_def)
qed

text \<open>
  Witnesses for the two: a healthy broker, and one that refuses the connection.
\<close>

definition sample_outgoing :: message where
  "sample_outgoing = \<lparr>message_ID = ''msg_1'', message_EventID = ''evt_1'', message_Kind = KindCheckoutCompleted,
     message_SchemaVersion = 1, message_RoutingKey = ''payment.webhook.checkout.completed'', message_CorrelationID = ''c'',
     message_OccurredAt = 5, message_Status = MessageStatusPending, message_CreatedAt = 5\<rparr>"

lemma drain_healthy [simp]: "drain (\<lambda>n. ((), Empty)) () = Some ()"
  by (subst drain.simps) simp

definition warm_memory :: "unit memory" where
  "warm_memory = \<lparr>m_Connection = Some 1, m_Transport = Some 0, m_Transports = [newDeadlineConn], m_Channel = Some 7,
     m_Returns = Some 7, m_Net = ()\<rparr>"

theorem Publish_confirmed_witness:
  "\<exists>m' l l0. Publish healthy (\<lambda>b. Inr (mb_WebhookEventID b)) no_publish_hooks 0 sample_outgoing warm_memory = Some (m', Inr (), l) \<and>
     (\<exists>ch p. l = l0 @ [Sent ch EventsExchange ''payment.webhook.checkout.completed'' p None, Awaited (Inr True), ReturnSeen None])"
proof -
  let ?d = "0 + PublishTimeout" and ?b = "mb_WebhookEventID (body_of sample_outgoing)"
  have attempt: "\<exists>m' l. publish_attempt healthy no_publish_hooks ?d sample_outgoing ?b (warm_memory\<lparr>m_Transports := ts\<rparr>) =
      Some (m', Inr (), l)" for ts
    by (simp add: publish_attempt_def ensureChannel_def usable_def no_publish_hooks_def op_defs map_err_def on_net_def
        send_def await_def net_val_def drainReturns_def takeReturn_def healthy_def warm_memory_def)
  have hooks: "ph_Publish no_publish_hooks = None" and warm: "live healthy warm_memory" "m_Transport warm_memory = Some 0"
    by (simp_all add: no_publish_hooks_def live_def warm_memory_def healthy_def)
  have clear: "\<exists>m2. on_transport healthy clearLimit i m = Some (m2, Inr (), [])" for i and m :: "unit memory"
    by (simp add: on_transport_def Let_def healthy_def deadline_defs)
  obtain ts where lim: "on_transport healthy (\<lambda>e1 e2. limit e1 e2 ?d) 0 warm_memory = Some (warm_memory\<lparr>m_Transports := ts\<rparr>, Inr (), [])"
    by (simp add: on_transport_def Let_def healthy_def deadline_defs warm_memory_def)
  obtain m1 l1 m2 where "publish_attempt healthy no_publish_hooks ?d sample_outgoing ?b (warm_memory\<lparr>m_Transports := ts\<rparr>) =
      Some (m1, Inr (), l1)" "on_transport healthy clearLimit 0 m1 = Some (m2, Inr (), [])"
    using attempt clear by metis
  with lim have run: "Publish healthy (\<lambda>b. Inr (mb_WebhookEventID b)) no_publish_hooks 0 sample_outgoing warm_memory =
      Some (m2, Inr (), l1)"
    by (simp add: Publish_def hooks withDeadline_def connect_def warm op_defs op_deferred_def)
  from Publish_confirmed [OF run] run show ?thesis by (fastforce simp: sample_outgoing_def)
qed

theorem Publish_permanent_iff_witness:
  "\<exists>m' l e. Publish healthy (\<lambda>b. Inl ''NaN'') no_publish_hooks 0 sample_outgoing (fresh_memory ()) = Some (m', Inl e, l) \<and>
     IsPermanent e"
proof -
  have run: "Publish healthy (\<lambda>b. Inl ''NaN'') no_publish_hooks 0 sample_outgoing (fresh_memory ()) =
      Some (fresh_memory (), Inl (PermanentError (wrap ''encode outbox message'' (External ''NaN''))), [])"
    by (simp add: Publish_def no_publish_hooks_def op_fail_def)
  from Publish_permanent_iff [OF run] run show ?thesis by blast
qed

text \<open>Draining: a Go channel with finitely many buffered returns is emptied; a closed one is read forever.\<close>

lemma drain_closed:
  assumes "\<And>n. recv n = (n, Closed)"
  shows "drain recv n = None"
proof (cases "drain recv n")
  case (Some y)
  have "\<not> (\<forall>n. recv n = (n, Closed))"
    by (rule drain.raw_induct [OF _ Some, of "\<lambda>recv n y. \<not> (\<forall>n. recv n = (n, Closed))"])
      (auto split: prod.splits recv.splits, metis prod.inject recv.distinct(5))
  with assms show ?thesis by blast
qed simp

text \<open>
  Emptying the returns ends exactly while their Go channel is open. If every receive takes one of
  finitely many buffered returns, the loop ends; if the driver has closed the channel, which it does when
  the AMQP channel dies, a receive succeeds at once for ever, and \<^verbatim>\<open>drainReturns\<close>, which holds the
  publisher's lock and looks at no deadline, never returns.
\<close>

theorem drainReturns_returns_iff_open:
  assumes "m_Returns m = Some ch"
  shows "((\<forall>n. am_Recv am n ch = (n, Closed)) \<longrightarrow> drainReturns am m = None) \<and>
    ((\<forall>n. snd (am_Recv am n ch) \<noteq> Closed) \<and>
     (\<forall>n n' r. am_Recv am n ch = (n', Received r) \<longrightarrow> buffered n' < (buffered n :: nat)) \<longrightarrow>
       (\<exists>m'. drainReturns am m = Some (m', Inr (), [])))"
proof (intro conjI impI)
  assume "\<forall>n. am_Recv am n ch = (n, Closed)"
  then have "drain (\<lambda>n. am_Recv am n ch) (m_Net m) = None" by (intro drain_closed) simp
  with assms show "drainReturns am m = None" by (simp add: drainReturns_def)
next
  assume *: "(\<forall>n. snd (am_Recv am n ch) \<noteq> Closed) \<and>
     (\<forall>n n' r. am_Recv am n ch = (n', Received r) \<longrightarrow> buffered n' < buffered n)"
  have "\<exists>n'. drain (\<lambda>n. am_Recv am n ch) n = Some n'" for n
  proof (induction "buffered n" arbitrary: n rule: less_induct)
    case less
    obtain n' q where q: "am_Recv am n ch = (n', q)" by (cases "am_Recv am n ch")
    show ?case
    proof (cases q)
      case (Received r)
      with q * less show ?thesis by (subst drain.simps) simp
    next
      case Empty
      with q show ?thesis by (subst drain.simps) simp
    next
      case Closed
      with q * show ?thesis by (metis snd_conv)
    qed
  qed
  then obtain n' where "drain (\<lambda>n. am_Recv am n ch) (m_Net m) = Some n'" by blast
  with assms show "\<exists>m'. drainReturns am m = Some (m', Inr (), [])" by (simp add: drainReturns_def)
qed

theorem drainReturns_returns_iff_open_witness:
  "drainReturns (healthy\<lparr>am_Recv := \<lambda>n _. (n, Closed)\<rparr>) ((fresh_memory ())\<lparr>m_Channel := Some 7, m_Returns := Some 7\<rparr>) = None"
  using drainReturns_returns_iff_open [of "(fresh_memory ())\<lparr>m_Channel := Some 7, m_Returns := Some 7\<rparr>" 7
      "healthy\<lparr>am_Recv := \<lambda>n _. (n, Closed)\<rparr>"]
  by simp

end
