(* ===== verification/Amqp_Consumer.thy ===== *)
theory Amqp_Consumer
  imports Amqp_Publisher
begin

text \<open>
  The consumer of webhook messages with manual acknowledgement (\<^verbatim>\<open>consumer.go\<close>): how one delivery is
  handled and settled, and how a session with the broker is set up. Decoding the body
  (\<^verbatim>\<open>json.Unmarshal\<close>) and the handler are arguments. The log records every acknowledgement, every
  publication with its confirm, and what the observers are told.
\<close>

section \<open>Configuration\<close>

definition republishTimeout :: duration where "republishTimeout = 5 * Second"

record consumer_config =
  cc_Prefetch :: int
  cc_Concurrency :: int
  cc_RetryTiers :: "retry_tier list"

text \<open>What \<^verbatim>\<open>NewConsumer\<close> makes of its configuration.\<close>

definition NewConsumer :: "consumer_config \<Rightarrow> consumer_config" where
  "NewConsumer c =
     (let c1 = (if cc_Concurrency c < 1 then c\<lparr>cc_Concurrency := 1\<rparr> else c)
      in if cc_Prefetch c1 < cc_Concurrency c1 then c1\<lparr>cc_Prefetch := cc_Concurrency c1\<rparr> else c1)"

record consumer_hooks =
  ch_Republish :: "(string \<Rightarrow> delivery \<Rightarrow> goerr option) option"
  ch_AfterRepublishConfirmed :: "(string \<Rightarrow> delivery \<Rightarrow> goerr option) option"
  ch_BeforeAck :: "(delivery \<Rightarrow> goerr option) option"

definition no_consumer_hooks :: consumer_hooks where
  "no_consumer_hooks = \<lparr>ch_Republish = None, ch_AfterRepublishConfirmed = None, ch_BeforeAck = None\<rparr>"

section \<open>One delivery\<close>

definition webhookEventID :: "(string \<Rightarrow> string + string) \<Rightarrow> string \<Rightarrow> string result" where
  "webhookEventID unmarshal body =
     (case unmarshal body of
        Inl e \<Rightarrow> Inl (wrap ''decode message body'' (External e))
      | Inr i \<Rightarrow> if i = [] then Inl (NewError ''message carries no webhook event reference'') else Inr i)"

definition copy_of :: "delivery \<Rightarrow> publishing" where
  "copy_of d =
     \<lparr>pg_ContentType = dl_ContentType d, pg_DeliveryMode = 2, pg_MessageId = dl_MessageId d, pg_Type = dl_Type d,
      pg_CorrelationId = dl_CorrelationId d, pg_Timestamp = dl_Timestamp d, pg_Headers = dl_Headers d, pg_Body = dl_Body d\<rparr>"

text \<open>A channel of its own, in confirm mode, closed whatever happens. The select with a default on the
  new channel's returns is \<^verbatim>\<open>takeReturn\<close> on that channel.\<close>

definition own_return :: "'n amqp \<Rightarrow> nat \<Rightarrow> ('n, returned option) op" where
  "own_return am ch n =
     (case am_Recv am n ch of
        (n', Received r) \<Rightarrow> Some (n', Inr (Some r), [ReturnSeen (Some r)])
      | (n', Closed) \<Rightarrow> Some (n', Inr (Some \<lparr>rt_RoutingKey = [], rt_ReplyCode = 0, rt_ReplyText = []\<rparr>),
          [ReturnSeen (Some \<lparr>rt_RoutingKey = [], rt_ReplyCode = 0, rt_ReplyText = []\<rparr>)])
      | (n', Empty) \<Rightarrow> Some (n', Inr None, [ReturnSeen None]))"

definition republish_on ::
  "'n amqp \<Rightarrow> consumer_hooks \<Rightarrow> string \<Rightarrow> delivery \<Rightarrow> nat \<Rightarrow> ('n memory, unit) op" where
  "republish_on am hooks exchange d ch =
     op_seq (op_wrap ''enable republish confirms'' (on_net (do_call (am_Call am) (ConfirmMode ch))))
    (op_seq (op_wrap ''republish message'' (on_net (send am ch exchange (dl_RoutingKey d) (copy_of d))))
    (op_then (op_wrap ''await republish confirm'' (on_net (await am ch))) (\<lambda>acked.
       if \<not> acked then op_fail (NewError ''broker refused the republished message'')
       else op_then (on_net (own_return am ch)) (\<lambda>ret.
         case ret of
           Some r \<Rightarrow> op_fail (Errorf [T ''republished message was not routed: '', T (rt_RoutingKey r), T '' ('',
                       T (itoa (rt_ReplyCode r)), T '' '', T (rt_ReplyText r), T '')''])
         | None \<Rightarrow> (case ch_AfterRepublishConfirmed hooks of None \<Rightarrow> op_ok () | Some h \<Rightarrow> op_error (h exchange d))))))"

definition republish ::
  "'n amqp \<Rightarrow> consumer_hooks \<Rightarrow> string \<Rightarrow> delivery \<Rightarrow> ('n memory, unit) op" where
  "republish am hooks exchange d m =
     (case ch_Republish hooks of
        Some h \<Rightarrow>
          (case h exchange d of
             Some e \<Rightarrow> op_fail e m
           | None \<Rightarrow> (case ch_AfterRepublishConfirmed hooks of None \<Rightarrow> op_ok () m | Some h' \<Rightarrow> op_error (h' exchange d) m))
      | None \<Rightarrow>
          (let deadline = Some (am_Now am (m_Net m) + republishTimeout) in
           withDeadline am deadline
             (op_then (open_channel am deadline) (\<lambda>ch.
               op_finally (republish_on am hooks exchange d ch) (close_channel am ch))) m))"

text \<open>The acknowledgement of this delivery alone (\<open>multiple\<close> is false).\<close>

definition ack :: "'n amqp \<Rightarrow> consumer_hooks \<Rightarrow> delivery \<Rightarrow> ('n memory, unit) op" where
  "ack am hooks d =
     op_seq (case ch_BeforeAck hooks of None \<Rightarrow> op_ok () | Some h \<Rightarrow> op_error (h d))
       (op_wrap ''acknowledge message'' (on_net (do_call (am_Call am) (AckDelivery (dl_Tag d) False))))"

text \<open>\<^verbatim>\<open>failed\<close>, at each of its call sites: the error \<open>m\<close> ended with, transformed by \<open>f\<close>, is reported to the
  observers and returned.\<close>

definition failed :: "string \<Rightarrow> (goerr \<Rightarrow> goerr) \<Rightarrow> ('w, unit) op \<Rightarrow> ('w, unit) op" where
  "failed messageID f m w =
     (case m w of
        None \<Rightarrow> None
      | Some (w', Inr u, l) \<Rightarrow> Some (w', Inr u, l)
      | Some (w', Inl e, l) \<Rightarrow> Some (w', Inl (f e), l @ [FailedDelivery messageID (f e)]))"

definition republishToDeadLetter ::
  "'n amqp \<Rightarrow> consumer_hooks \<Rightarrow> delivery \<Rightarrow> handling \<Rightarrow> ('n memory, unit) op" where
  "republishToDeadLetter am hooks d h =
     op_seq (op_wrap ''republish to dead letter'' (republish am hooks DeadLetterExchange d))
    (op_seq (op_note [Republished (dl_MessageId d) DeadLetterQueue (h_Attempts h)])
    (ack am hooks d))"

definition republishForRetry ::
  "'n amqp \<Rightarrow> consumer_hooks \<Rightarrow> retry_tier list \<Rightarrow> delivery \<Rightarrow> handling \<Rightarrow> ('n memory, unit) op" where
  "republishForRetry am hooks tiers d h =
     (case TierFor tiers (h_Attempts h) of
        None \<Rightarrow> republishToDeadLetter am hooks d h
      | Some tier \<Rightarrow>
          op_seq (op_wrap ''republish for retry'' (republish am hooks (tier_Exchange tier) d))
         (op_seq (op_note [Republished (dl_MessageId d) (tier_Queue tier) (h_Attempts h)])
         (ack am hooks d)))"

definition call_handler ::
  "('n \<Rightarrow> string \<Rightarrow> 'n \<times> handling result) \<Rightarrow> string \<Rightarrow> ('n, handling) op" where
  "call_handler handler i n = (case handler n i of (n', r) \<Rightarrow> Some (n', r, [HandlerCalled i r]))"

definition unreadable :: "goerr \<Rightarrow> handling" where
  "unreadable cause = \<lparr>h_Disposition = DispositionDead, h_Attempts = 0, h_Cause = Some cause, h_Note = [], h_Applied = False\<rparr>"

text \<open>How a handled message is settled; every disposition has its case, so the code's default, an
  unknown disposition, does not occur.\<close>

definition settle_delivery ::
  "'n amqp \<Rightarrow> consumer_hooks \<Rightarrow> retry_tier list \<Rightarrow> delivery \<Rightarrow> handling \<Rightarrow> ('n memory, unit) op" where
  "settle_delivery am hooks tiers d h =
     (case h_Disposition h of
        DispositionDone \<Rightarrow> ack am hooks d
      | DispositionRetry \<Rightarrow> republishForRetry am hooks tiers d h
      | DispositionDead \<Rightarrow> republishToDeadLetter am hooks d h)"

definition handle_delivery ::
  "'n amqp \<Rightarrow> consumer_hooks \<Rightarrow> retry_tier list \<Rightarrow> (string \<Rightarrow> string + string) \<Rightarrow>
   ('n \<Rightarrow> string \<Rightarrow> 'n \<times> handling result) \<Rightarrow> delivery \<Rightarrow> ('n memory, unit) op" where
  "handle_delivery am hooks tiers unmarshal handler d =
     op_seq (op_note (if dl_Redelivered d then [Redelivered (dl_MessageId d)] else []))
       (case webhookEventID unmarshal (dl_Body d) of
          Inl e \<Rightarrow>
            op_seq (op_note [Rejected (dl_MessageId d) e])
              (failed (dl_MessageId d) (wrap ''dead-letter unreadable message'')
                (republishToDeadLetter am hooks d (unreadable e)))
        | Inr eventID \<Rightarrow>
            failed (dl_MessageId d) id
              (op_then (on_net (call_handler handler eventID)) (settle_delivery am hooks tiers d)))"

section \<open>A session (consume)\<close>

text \<open>The set-up of a session, up to the channel of deliveries: nothing is consumed before the whole
  topology is declared and the prefetch is set.\<close>

definition session_setup :: "'n amqp \<Rightarrow> consumer_config \<Rightarrow> string \<Rightarrow> instant \<Rightarrow> ('n memory, nat) op" where
  "session_setup am cfg name deadline =
     op_then (op_wrap ''open consumer channel'' (Channel am (Some deadline))) (\<lambda>ch.
       op_onerr
         (op_seq (on_net (DeclareTopology (am_Call am) ch))
         (op_seq (on_net (DeclareRetryTopology (am_Call am) ch (cc_RetryTiers cfg)))
         (op_seq (op_wrap ''set consumer prefetch'' (on_net (do_call (am_Call am) (Qos ch (cc_Prefetch cfg)))))
         (op_seq (op_wrap ''start consuming'' (on_net (do_call (am_Call am) (ConsumeQueue ch WebhooksQueue name))))
         (op_ok ch)))))
         (close_channel am ch))"

text \<open>\<^verbatim>\<open>Run\<close>: the waits between the sessions, given the error each of them ended with. The loop
  returns as soon as its context is done, which is when a session ends without an error.\<close>

definition minBackoff :: duration where "minBackoff = 500 * Millisecond"
definition maxBackoff :: duration where "maxBackoff = 30 * Second"

definition next_backoff :: "duration \<Rightarrow> goerr option \<Rightarrow> duration" where
  "next_backoff backoff err =
     (let b = int64 (backoff * 2); b = (if maxBackoff < b then maxBackoff else b)
      in if err = None then minBackoff else b)"

fun backoffs :: "duration \<Rightarrow> goerr option list \<Rightarrow> duration list" where
  "backoffs b [] = []"
| "backoffs b (err # es) = b # backoffs (next_backoff b err) es"

section \<open>Properties of one delivery\<close>

definition not_ack :: "amqp_event \<Rightarrow> bool" where
  "not_ack e \<longleftrightarrow> (case e of Called (AckDelivery t b) _ \<Rightarrow> False | _ \<Rightarrow> True)"

lemma not_ack_simps [simp]:
  "not_ack (Opened x)" "not_ack (Sent ch ex k p e)" "not_ack (Awaited b)" "not_ack (ReturnSeen r)" "not_ack (HandlerCalled i hr)"
  "not_ack (Redelivered s)" "not_ack (Rejected s c)" "not_ack (Republished s s' n)" "not_ack (FailedDelivery s c)"
  "\<not> not_ack (Called (AckDelivery t mu) e)" "not_ack (Called (CloseChannel ch) e)" "not_ack (Called (ConfirmMode ch) e)"
  by (simp_all add: not_ack_def)

text \<open>\<^term>\<open>copied x d l\<close>: in \<open>l\<close> a copy of the delivery, with its routing key, was sent to the exchange \<open>x\<close>,
  the broker confirmed it, and nothing came back as unroutable.\<close>

definition copied :: "string \<Rightarrow> delivery \<Rightarrow> amqp_event list \<Rightarrow> bool" where
  "copied x d l \<longleftrightarrow> (\<exists>l1 ch l2. l = l1 @ [Sent ch x (dl_RoutingKey d) (copy_of d) None, Awaited (Inr True), ReturnSeen None] @ l2)"

lemma copied_append [simp]: "copied x d l \<Longrightarrow> copied x d (l0 @ l)" "copied x d l \<Longrightarrow> copied x d (l @ l1)"
  unfolding copied_def by (metis append.assoc)+

lemma copied_Cons: "copied x d l \<Longrightarrow> copied x d (e # l)"
  using copied_append(1) [of x d l "[e]"] by simp

lemma own_return_Some: "own_return am ch n = Some (n', r, l) \<Longrightarrow> \<exists>q. r = Inr q \<and> l = [ReturnSeen q]"
  by (auto simp: own_return_def split: prod.splits recv.splits)

lemma only_own_return [only_intros]: "(\<And>r. E (ReturnSeen r)) \<Longrightarrow> only E (own_return am ch)"
  by (auto intro!: onlyI dest!: own_return_Some)

text \<open>What a republication can put into the log: no acknowledgement and no note.\<close>

lemma republish_only:
  assumes "\<And>x e. (\<And>t mu. x \<noteq> AckDelivery t mu) \<Longrightarrow> E (Called x e)" and "\<And>y. E (Opened y)"
    and "\<And>ch ex k p e. E (Sent ch ex k p e)" and "\<And>b. E (Awaited b)" and "\<And>r. E (ReturnSeen r)"
  shows "only E (republish am hooks x d)"
proof -
  have on: "only E (republish_on am hooks x d ch)" for ch
    unfolding republish_on_def by (intro only_intros) (simp_all add: assms)
  have hook: "only E (case h of None \<Rightarrow> op_ok () | Some f \<Rightarrow> op_error (f x d))" for h
    by (intro only_intros)
  have "only E (withDeadline am dl (op_then (open_channel am dl) (\<lambda>ch.
      op_finally (republish_on am hooks x d ch) (close_channel am ch))))" for dl
    by (intro only_intros on) (simp_all add: assms)
  note * = onlyD [OF this] onlyD [OF hook]
  show ?thesis
    by (rule onlyI) (auto simp: republish_def Let_def op_error_def op_fail_def op_ok_def split: option.splits dest: *(1))
qed

lemma republish_no_ack: "only not_ack (republish am hooks x d)"
  by (rule republish_only) (simp_all add: not_ack_def split: request.splits)

lemma republish_on_ok:
  assumes "republish_on am hooks x d ch m = Some (m', Inr (), l)"
  shows "copied x d l"
proof -
  from assms have "\<exists>l0. l = l0 @ [Sent ch x (dl_RoutingKey d) (copy_of d) None, Awaited (Inr True), ReturnSeen None]"
    by (auto simp: republish_on_def op_then_Some op_wrap_Some on_net_Some do_call_Some send_Some await_Some
        split: option.splits if_splits dest!: own_return_Some)
  then show ?thesis unfolding copied_def by (metis append_Nil2)
qed

lemma republish_ok:
  assumes "ch_Republish hooks = None" and "republish am hooks x d m = Some (m', Inr (), l)"
  shows "copied x d l"
proof -
  let ?dl = "Some (am_Now am (m_Net m) + republishTimeout)"
  from assms have "withDeadline am ?dl (op_then (open_channel am ?dl) (\<lambda>ch.
      op_finally (republish_on am hooks x d ch) (close_channel am ch))) m = Some (m', Inr (), l)"
    by (simp add: republish_def Let_def)
  from withDeadline_Some [OF this] obtain m0 m1 where
      "op_then (open_channel am ?dl) (\<lambda>ch. op_finally (republish_on am hooks x d ch) (close_channel am ch)) m0 =
         Some (m1, Inr (), l)"
    by auto
  then show ?thesis
    by (auto simp: op_then_Some op_finally_Some dest!: republish_on_ok)
qed

text \<open>\<^term>\<open>settled_after P d r l\<close>: either an error and no acknowledgement, or one attempt to acknowledge
  exactly this delivery, the last call made, with \<open>P\<close> true of everything before it.\<close>

definition settled_after :: "(amqp_event list \<Rightarrow> bool) \<Rightarrow> delivery \<Rightarrow> unit result \<Rightarrow> amqp_event list \<Rightarrow> bool" where
  "settled_after P d r l \<longleftrightarrow>
     (list_all not_ack l \<and> (\<exists>e. r = Inl e)) \<or>
     (\<exists>l1 e l2. l = l1 @ Called (AckDelivery (dl_Tag d) False) e # l2 \<and> list_all not_ack l1 \<and> list_all not_ack l2 \<and>
        (r = Inr () \<longleftrightarrow> e = None) \<and> P l1)"

lemma settled_after_mono:
  "settled_after P d r l \<Longrightarrow> (\<And>l1. P l1 \<Longrightarrow> Q l1) \<Longrightarrow> settled_after Q d r l"
  unfolding settled_after_def by blast

lemma settled_after_prefix:
  assumes "settled_after P d r l" and "list_all not_ack l0" and "\<And>l1. P l1 \<Longrightarrow> Q (l0 @ l1)"
  shows "settled_after Q d r (l0 @ l)"
  using assms(1) unfolding settled_after_def
proof (elim disjE exE conjE)
  fix l1 e l2
  assume "l = l1 @ Called (AckDelivery (dl_Tag d) False) e # l2" "list_all not_ack l1" "list_all not_ack l2"
    "r = Inr () \<longleftrightarrow> e = None" "P l1"
  with assms(2,3) show "list_all not_ack (l0 @ l) \<and> (\<exists>e. r = Inl e) \<or> (\<exists>l1 e l2. l0 @ l =
      l1 @ Called (AckDelivery (dl_Tag d) False) e # l2 \<and> list_all not_ack l1 \<and> list_all not_ack l2 \<and>
      (r = Inr () \<longleftrightarrow> e = None) \<and> Q l1)"
    by (intro disjI2 exI [of _ "l0 @ l1"] exI [of _ e] exI [of _ l2]) auto
qed (use assms(2) in auto)

lemma ack_settles:
  assumes "ack am hooks d m = Some (m', r, l)" and "P []"
  shows "settled_after P d r l"
proof -
  from assms(1) consider "l = []" "\<exists>e. r = Inl e" | e where "l = [Called (AckDelivery (dl_Tag d) False) e]" "r = Inr () \<longleftrightarrow> e = None"
    by (auto simp: ack_def op_then_Some op_wrap_Some on_net_Some do_call_Some op_error_def split: option.splits)
  then show ?thesis
  proof cases
    case 2
    with assms(2) show ?thesis unfolding settled_after_def
      by (intro disjI2 exI [of _ "[]"] exI [of _ e] exI [of _ "[]"]) simp
  qed (simp add: settled_after_def)
qed

lemma copy_then_ack:
  assumes "op_seq (op_wrap what (republish am hooks x d)) (op_seq (op_note [Republished s q n]) (ack am hooks d)) m =
      Some (m', r, l)" and "ch_Republish hooks = None"
  shows "settled_after (copied x d) d r l"
  using assms(1)
proof (cases rule: op_thenE)
  case (stop e)
  then show ?thesis
    by (auto simp: op_wrap_Some settled_after_def dest: onlyD [OF republish_no_ack])
next
  case (go m1 u l1 l2)
  then have rep: "republish am hooks x d m1' = Some (m1, Inr (), l1)" if "m1' = m" for m1'
    using that by (auto simp: op_wrap_Some)
  from go(2) obtain l3 where l3: "l2 = Republished s q n # l3" "ack am hooks d m1 = Some (m', r, l3)"
    by (auto simp: op_then_Some)
  have "settled_after (\<lambda>_. True) d r l3" by (rule ack_settles [OF l3(2)]) simp
  then have "settled_after (copied x d) d r ((l1 @ [Republished s q n]) @ l3)"
    using republish_ok [OF assms(2) rep [OF refl]] onlyD [OF republish_no_ack rep [OF refl]]
    by (intro settled_after_prefix) (auto simp del: append_assoc)
  with go(3) l3(1) show ?thesis by simp
qed

text \<open>Where a copy goes, by the disposition: nowhere when the effect is committed, to the tier of the
  attempt count when it is to be retried (or to the dead letter, if there are no tiers), to the dead
  letter otherwise.\<close>

definition justified :: "retry_tier list \<Rightarrow> delivery \<Rightarrow> handling \<Rightarrow> amqp_event list \<Rightarrow> bool" where
  "justified tiers d h l \<longleftrightarrow>
     (case h_Disposition h of
        DispositionDone \<Rightarrow> True
      | DispositionRetry \<Rightarrow> copied (case TierFor tiers (h_Attempts h) of None \<Rightarrow> DeadLetterExchange | Some t \<Rightarrow> tier_Exchange t) d l
      | DispositionDead \<Rightarrow> copied DeadLetterExchange d l)"

lemma justified_append: "justified tiers d h l \<Longrightarrow> justified tiers d h (l0 @ l)"
  by (auto simp: justified_def split: disposition.splits)

lemma justified_Cons: "justified tiers d h l \<Longrightarrow> justified tiers d h (e # l)"
  using justified_append [of tiers d h l "[e]"] by simp

lemma settle_delivery_settles:
  assumes "settle_delivery am hooks tiers d h m = Some (m', r, l)" and "ch_Republish hooks = None"
  shows "settled_after (justified tiers d h) d r l"
proof (cases "h_Disposition h")
  case DispositionDone
  with assms show ?thesis
    by (auto simp: settle_delivery_def justified_def intro: ack_settles)
next
  case DispositionRetry
  with assms have *: "republishForRetry am hooks tiers d h m = Some (m', r, l)" by (simp add: settle_delivery_def)
  show ?thesis
    by (rule settled_after_mono [where P = "copied (case TierFor tiers (h_Attempts h) of None \<Rightarrow> DeadLetterExchange | Some t \<Rightarrow> tier_Exchange t) d"])
      (use * DispositionRetry in \<open>auto simp: republishForRetry_def republishToDeadLetter_def justified_def split: option.splits
         intro: copy_then_ack [OF _ assms(2)]\<close>)
next
  case DispositionDead
  with assms have *: "republishToDeadLetter am hooks d h m = Some (m', r, l)" by (simp add: settle_delivery_def)
  from copy_then_ack [OF this [unfolded republishToDeadLetter_def] assms(2)] DispositionDead show ?thesis
    by (auto intro: settled_after_mono simp: justified_def)
qed

text \<open>What must be true of the log before a delivery is acknowledged: an unreadable message was copied to
  the dead letter; a readable one was handled, in the world the delivery arrived in, and what was done
  is what its disposition asks for.\<close>

definition may_ack ::
  "retry_tier list \<Rightarrow> (string \<Rightarrow> string + string) \<Rightarrow> ('n \<Rightarrow> string \<Rightarrow> 'n \<times> handling result) \<Rightarrow> 'n \<Rightarrow> delivery \<Rightarrow>
   amqp_event list \<Rightarrow> bool" where
  "may_ack tiers unmarshal handler n d l \<longleftrightarrow>
     (case webhookEventID unmarshal (dl_Body d) of
        Inl e \<Rightarrow> copied DeadLetterExchange d l
      | Inr i \<Rightarrow> (\<exists>n' h. handler n i = (n', Inr h) \<and> justified tiers d h l))"

lemma failed_settles:
  assumes "failed s f m w = Some (w', r, l)" and "\<And>w' r l. m w = Some (w', r, l) \<Longrightarrow> settled_after P d r l"
  shows "settled_after P d r l"
proof -
  from assms(1) obtain r1 l1 where m: "m w = Some (w', r1, l1)"
      and l: "case r1 of Inr u \<Rightarrow> r = Inr u \<and> l = l1 | Inl e \<Rightarrow> r = Inl (f e) \<and> l = l1 @ [FailedDelivery s (f e)]"
    by (auto simp: failed_def split: option.splits sum.splits)
  from assms(2) [OF m] consider "list_all not_ack l1" "\<exists>e. r1 = Inl e"
    | la e lb where "l1 = la @ Called (AckDelivery (dl_Tag d) False) e # lb" "list_all not_ack la" "list_all not_ack lb"
        "r1 = Inr () \<longleftrightarrow> e = None" "P la"
    unfolding settled_after_def by blast
  then show ?thesis
  proof cases
    case 1
    with l show ?thesis by (auto simp: settled_after_def)
  next
    case 2
    with l have "\<exists>lc. l = la @ Called (AckDelivery (dl_Tag d) False) e # lc \<and> list_all not_ack lc \<and> (r = Inr () \<longleftrightarrow> e = None)"
      by (cases r1) auto
    with 2 show ?thesis unfolding settled_after_def by blast
  qed
qed

lemma handle_delivery_settles:
  assumes "handle_delivery am hooks tiers unmarshal handler d m = Some (m', r, l)" and "ch_Republish hooks = None"
  shows "settled_after (may_ack tiers unmarshal handler (m_Net m) d) d r l"
proof -
  let ?red = "if dl_Redelivered d then [Redelivered (dl_MessageId d)] else []"
  have red: "list_all not_ack ?red" by simp
  show ?thesis
  proof (cases "webhookEventID unmarshal (dl_Body d)")
    case (Inl e)
    with assms(1) obtain l1 where l: "l = ?red @ Rejected (dl_MessageId d) e # l1"
        and f: "failed (dl_MessageId d) (wrap ''dead-letter unreadable message'')
          (republishToDeadLetter am hooks d (unreadable e)) m = Some (m', r, l1)"
      by (auto simp: handle_delivery_def op_then_Some)
    have "settled_after (copied DeadLetterExchange d) d r l1"
      by (rule failed_settles [OF f]) (simp add: republishToDeadLetter_def copy_then_ack [OF _ assms(2)])
    then have "settled_after (may_ack tiers unmarshal handler (m_Net m) d) d r ((?red @ [Rejected (dl_MessageId d) e]) @ l1)"
      by (rule settled_after_prefix) (auto simp: may_ack_def Inl copied_Cons)
    with l show ?thesis by simp
  next
    case (Inr i)
    with assms(1) obtain l1 where l: "l = ?red @ l1"
        and f: "failed (dl_MessageId d) id (op_then (on_net (call_handler handler i)) (settle_delivery am hooks tiers d)) m =
          Some (m', r, l1)"
      by (auto simp: handle_delivery_def op_then_Some)
    have "settled_after (may_ack tiers unmarshal handler (m_Net m) d) d r l1"
    proof (rule failed_settles [OF f])
      fix w' r l assume "op_then (on_net (call_handler handler i)) (settle_delivery am hooks tiers d) m = Some (w', r, l)"
      then show "settled_after (may_ack tiers unmarshal handler (m_Net m) d) d r l"
      proof (cases rule: op_thenE)
        case (stop e)
        then show ?thesis by (auto simp: on_net_Some call_handler_def settled_after_def split: prod.splits)
      next
        case (go w1 h la lb)
        from go(1) obtain n' where h: "handler (m_Net m) i = (n', Inr h)" "la = [HandlerCalled i (Inr h)]"
          by (auto simp: on_net_Some call_handler_def split: prod.splits)
        have "settled_after (may_ack tiers unmarshal handler (m_Net m) d) d r (la @ lb)"
          by (rule settled_after_prefix [OF settle_delivery_settles [OF go(2) assms(2)]])
            (auto simp: h may_ack_def Inr justified_append dest: justified_append [where ?l0.0 = la])
        with go(3) show ?thesis by simp
      qed
    qed
    then have "settled_after (may_ack tiers unmarshal handler (m_Net m) d) d r (?red @ l1)"
      by (rule settled_after_prefix [OF _ red]) (auto simp: may_ack_def Inr intro: justified_Cons)
    with l show ?thesis by simp
  qed
qed

definition sample_delivery :: delivery where
  "sample_delivery = \<lparr>dl_Tag = 3, dl_RoutingKey = ''payment.webhook.checkout.completed'', dl_ContentType = ''application/json'',
     dl_MessageId = ''msg_1'', dl_Type = ''checkout.completed'', dl_CorrelationId = ''c'', dl_Timestamp = 5, dl_Headers = [],
     dl_Body = ''evt_1'', dl_Redelivered = False\<rparr>"

definition retry_later :: handling where
  "retry_later = \<lparr>h_Disposition = DispositionRetry, h_Attempts = 2, h_Cause = Some (External ''down''), h_Note = [], h_Applied = False\<rparr>"

lemmas run_simps = withDeadline_def connect_def live_def dial_def open_channel_def on_transport_def on_net_def net_err_def
  net_val_def do_call_def send_def await_def own_return_def close_channel_def op_defs op_deferred_def op_error_def Let_def

lemma healthy_republish:
  "\<exists>m'. republish healthy no_consumer_hooks x d (fresh_memory ()) =
     Some (m', Inr (), [Opened (Inr 7), Called (ConfirmMode 7) None, Sent 7 x (dl_RoutingKey d) (copy_of d) None,
       Awaited (Inr True), ReturnSeen None, Called (CloseChannel 7) None])"
  by (simp add: republish_def republish_on_def run_simps healthy_def no_consumer_hooks_def fresh_memory_def
      limit_def clearLimit_def SetDeadline_def applyLocked_def sock_read_def sock_write_def)

lemma healthy_ack:
  "ack healthy no_consumer_hooks d m = Some (m\<lparr>m_Net := ()\<rparr>, Inr (), [Called (AckDelivery (dl_Tag d) False) None])"
  by (simp add: ack_def no_consumer_hooks_def op_defs on_net_def do_call_def healthy_def)

lemma healthy_retry:
  assumes "TierFor tiers 2 = Some t"
  shows "\<exists>m' l. handle_delivery healthy no_consumer_hooks tiers Inr (\<lambda>n _. (n, Inr retry_later)) sample_delivery
       (fresh_memory ()) = Some (m', Inr (), l)"
proof -
  obtain m1 l1 where "republish healthy no_consumer_hooks (tier_Exchange t) sample_delivery (fresh_memory ()) = Some (m1, Inr (), l1)"
    using healthy_republish by blast
  then have "\<exists>m' l. settle_delivery healthy no_consumer_hooks tiers sample_delivery retry_later (fresh_memory ()) = Some (m', Inr (), l)"
    using assms by (simp add: settle_delivery_def republishForRetry_def retry_later_def op_defs healthy_ack)
  then show ?thesis
    by (auto simp: handle_delivery_def webhookEventID_def failed_def call_handler_def op_defs on_net_def)
      (simp_all add: sample_delivery_def)
qed

text \<open>
  C11: no message is dropped. Whatever the broker, the sockets and the handler answer, a delivery is
  acknowledged at most once, on its own, as the last thing done with it, and only after what its outcome
  demands: the handler reported its effect as committed, or the broker confirmed (and routed) a copy
  with the same body and routing key in the tier of its attempt count, or in the dead-letter exchange
  for a message that is dead or unreadable. Success is reported exactly when that acknowledgement went
  through; otherwise an error is returned, which ends the session and so gets the message redelivered.
\<close>

theorem acknowledged_only_when_settled:
  assumes "handle_delivery am no_consumer_hooks tiers unmarshal handler d m = Some (m', r, l)"
  shows "(list_all not_ack l \<and> (\<exists>e. r = Inl e)) \<or>
     (\<exists>l1 e l2. l = l1 @ Called (AckDelivery (dl_Tag d) False) e # l2 \<and> list_all not_ack l1 \<and> list_all not_ack l2 \<and>
        (r = Inr () \<longleftrightarrow> e = None) \<and> may_ack tiers unmarshal handler (m_Net m) d l1)"
  using handle_delivery_settles [OF assms] by (simp add: settled_after_def no_consumer_hooks_def)

theorem acknowledged_only_when_settled_witness:
  "\<exists>m' l l1 l2. handle_delivery healthy no_consumer_hooks [\<lparr>tier_Delay = 5\<rparr>] Inr (\<lambda>n _. (n, Inr retry_later))
       sample_delivery (fresh_memory ()) = Some (m', Inr (), l) \<and>
     l = l1 @ Called (AckDelivery 3 False) None # l2 \<and> copied (tier_Exchange \<lparr>tier_Delay = 5\<rparr>) sample_delivery l1"
proof -
  have tier: "TierFor [\<lparr>tier_Delay = 5\<rparr>] 2 = Some \<lparr>tier_Delay = 5\<rparr>" by (simp add: TierFor_def Let_def int64_id)
  from healthy_retry [OF this] obtain m' l where run: "handle_delivery healthy no_consumer_hooks [\<lparr>tier_Delay = 5\<rparr>]
      Inr (\<lambda>n _. (n, Inr retry_later)) sample_delivery (fresh_memory ()) = Some (m', Inr (), l)"
    by blast
  from acknowledged_only_when_settled [OF run] obtain l1 e l2 where l: "l = l1 @ Called (AckDelivery (dl_Tag sample_delivery) False) e # l2"
      "e = None" and may: "may_ack [\<lparr>tier_Delay = 5\<rparr>] Inr (\<lambda>n _. (n, Inr retry_later)) () sample_delivery l1"
    by auto
  from may have "copied (tier_Exchange \<lparr>tier_Delay = 5\<rparr>) sample_delivery l1"
    by (simp add: may_ack_def webhookEventID_def justified_def retry_later_def tier sample_delivery_def)
  moreover have "dl_Tag sample_delivery = 3" by (simp add: sample_delivery_def)
  ultimately show ?thesis using run l by auto
qed

end
