(* ===== verification/Delivery.thy ===== *)
theory Delivery
  imports Ledger Outbox_Repository Amqp_Consumer
begin

text \<open>
  The two ends of the message path together with the database: what the relay records as published was
  put on the broker, and what the consumer takes off the broker is durable in the inbox, or is still on
  the broker as a confirmed copy. The outside world of the consumer's adapter is a pair of the database
  and the rest.
\<close>

text \<open>The consumer service over the repository, as the worker composes them.\<close>

definition inbox_handler ::
  "(nat \<Rightarrow> fault) \<Rightarrow> instant \<Rightarrow> fault \<Rightarrow> instant \<Rightarrow> string \<Rightarrow> (event \<Rightarrow> session_outcome result) \<Rightarrow> int \<Rightarrow>
   database \<times> 'x \<Rightarrow> string \<Rightarrow> (database \<times> 'x) \<times> handling result" where
  "inbox_handler fs now f now' provider interpret maxAttempts n i =
     (case Handle (EventRepository_Process fs now) (EventRepository_RecordFailure f now') provider interpret
             (\<lambda>_ _. None) (MaxAttempts_withDefaults maxAttempts) (fst n) i of
        (db', r, notes) \<Rightarrow> ((db', snd n), r))"

lemma Handle_handle: "Handle p rf pr interp after mx s i = (s', r, ns) \<Longrightarrow>
    \<exists>rep ns'. handle p rf pr interp after mx s i = (s', r, rep, ns')"
  by (auto simp: Handle_def split: prod.splits)

lemma MaxAttempts_ge_2: "2 \<le> MaxAttempts_withDefaults n"
  by (simp add: MaxAttempts_withDefaults_def DefaultMaxAttempts_def)

definition retry_exchange :: "retry_tier list \<Rightarrow> int \<Rightarrow> string" where
  "retry_exchange tiers n = (case TierFor tiers n of None \<Rightarrow> DeadLetterExchange | Some t \<Rightarrow> tier_Exchange t)"

text \<open>
  C5: an acknowledged event is not lost. When the consumer acknowledges a message that names an inbox
  event, whatever the broker and the database did, then in the database as the handler left it either the
  event is processed; or it is failed (or unknown), and a copy of the message was confirmed by the
  dead-letter exchange before; or it is still open within its retry budget, and a copy was confirmed by
  the exchange of its delay.
\<close>

theorem acknowledged_event_durable:
  assumes "schema_ok db" and "m_Net m = (db, x)"
    and "unmarshal (dl_Body d) = Inr i" and "i \<noteq> []"
    and "handle_delivery am no_consumer_hooks tiers unmarshal (inbox_handler fs now f now' pr interp n) d m = Some (m', r, l)"
    and "Called (AckDelivery t b) e \<in> set l"
  shows "\<exists>db' h. inbox_handler fs now f now' pr interp n (db, x) i = ((db', x), Inr h) \<and> schema_ok db' \<and>
    (event_status db' i = Some InboxProcessed \<or>
     (event_status db' i = Some InboxFailed \<or> event_status db' i = None) \<and> copied DeadLetterExchange d l \<or>
     event_status db' i \<noteq> Some InboxFailed \<and> h_Attempts h < MaxAttempts_withDefaults n \<and>
       copied (retry_exchange tiers (h_Attempts h)) d l)"
proof -
  let ?handler = "inbox_handler fs now f now' pr interp n :: database \<times> 'a \<Rightarrow> string \<Rightarrow> _"
  have "settled_after (may_ack tiers unmarshal ?handler (m_Net m) d) d r l"
    by (rule handle_delivery_settles [OF assms(5)]) (simp add: no_consumer_hooks_def)
  with assms(6) obtain l1 q l2 where l: "l = l1 @ q # l2" and may: "may_ack tiers unmarshal ?handler (db, x) d l1"
    using assms(2) by (auto simp: settled_after_def list_all_iff)
  from may assms(3,4) obtain n' h where h: "?handler (db, x) i = (n', Inr h)" and just: "justified tiers d h l1"
    by (auto simp: may_ack_def webhookEventID_def)
  from h obtain db' ns where n': "n' = (db', x)" and H: "Handle (EventRepository_Process fs now)
      (EventRepository_RecordFailure f now') pr interp (\<lambda>_ _. None) (MaxAttempts_withDefaults n) db i = (db', Inr h, ns)"
    by (auto simp: inbox_handler_def split: prod.splits)
  from Handle_handle [OF H] obtain rep ns' where "handle (EventRepository_Process fs now)
      (EventRepository_RecordFailure f now') pr interp (\<lambda>_ _. None) (MaxAttempts_withDefaults n) db i = (db', Inr h, rep, ns')"
    by blast
  note agrees = event_store.handle_agrees [OF assms(1) this MaxAttempts_ge_2]
  from just have copy: "h_Disposition h = DispositionRetry \<Longrightarrow> copied (retry_exchange tiers (h_Attempts h)) d l"
      "h_Disposition h = DispositionDead \<Longrightarrow> copied DeadLetterExchange d l"
    by (simp_all add: justified_def retry_exchange_def l)
  from agrees copy h n' show ?thesis by (cases "h_Disposition h") auto
qed

text \<open>The healthy broker of the witnesses beside a database.\<close>

definition healthy_db :: "(database \<times> unit) amqp" where
  "healthy_db = \<lparr>am_Now = (\<lambda>_. 100), am_CtxErr = (\<lambda>_. None), am_Dial = (\<lambda>n. (n, None)), am_SetRead = (\<lambda>n _. (n, None)),
     am_SetWrite = (\<lambda>n _. (n, None)), am_Handshake = (\<lambda>n. (n, Inr 1)), am_ConnIsClosed = (\<lambda>_ _. False),
     am_Channel = (\<lambda>n _. (n, Inr 7)), am_ChannelIsClosed = (\<lambda>_ _. False), am_Call = (\<lambda>n _. (n, None)),
     am_Inspect = (\<lambda>n _ _. (n, Inr 0)), am_Publish = (\<lambda>n _ _ _ _. (n, None)), am_Wait = (\<lambda>n _. (n, Inr True)),
     am_Recv = (\<lambda>n _. (n, Empty))\<rparr>"

theorem acknowledged_event_durable_witness: "event_status sample_after ''evt_1'' = Some InboxProcessed"
proof -
  let ?h = "\<lparr>h_Disposition = DispositionDone, h_Attempts = 0, h_Cause = None, h_Note = [], h_Applied = True\<rparr>"
  have handler: "inbox_handler no_faults 10 NoFault 10 Stripe (\<lambda>_. Inr sample_outcome) 10 (sample_db, ()) ''evt_1'' =
      ((sample_after, ()), Inr ?h)"
    by (simp add: inbox_handler_def Handle_def handle_def sample_run)
  have run: "handle_delivery healthy_db no_consumer_hooks [] Inr (inbox_handler no_faults 10 NoFault 10 Stripe
      (\<lambda>_. Inr sample_outcome) 10) sample_delivery (fresh_memory (sample_db, ())) =
      Some (fresh_memory (sample_after, ()), Inr (), [HandlerCalled ''evt_1'' (Inr ?h), Called (AckDelivery 3 False) None])"
    by (simp add: handle_delivery_def webhookEventID_def failed_def call_handler_def settle_delivery_def op_defs on_net_def
        ack_def do_call_def op_error_def no_consumer_hooks_def healthy_db_def sample_delivery_def fresh_memory_def handler)
  have "copied ex sample_delivery [HandlerCalled ''evt_1'' (Inr ?h), Called (AckDelivery 3 False) None] = False" for ex
    by (auto simp: copied_def append_eq_Cons_conv)
  with acknowledged_event_durable [OF sample_ok _ _ _ run, of "()" "''evt_1''" 3 False None] show ?thesis
    by (simp add: fresh_memory_def sample_delivery_def handler)
qed

text \<open>The relay's publisher: the result of \<^verbatim>\<open>Publish\<close> in the memory the adapter is in at the \<open>k\<close>-th
  message. A publication that never returns stops the relay, which is not a state to reason from here.\<close>

definition publish_results ::
  "'n amqp \<Rightarrow> (message_body \<Rightarrow> string + string) \<Rightarrow> (nat \<Rightarrow> instant) \<Rightarrow> (nat \<Rightarrow> 'n memory) \<Rightarrow> nat \<Rightarrow> message \<Rightarrow> goerr option" where
  "publish_results am marshal t mem k msg =
     (case Publish am marshal no_publish_hooks (t k) msg (mem k) of
        Some (m', Inr u, l) \<Rightarrow> None
      | Some (m', Inl e, l) \<Rightarrow> Some e
      | None \<Rightarrow> Some (Panic ''does not return''))"

lemma publishOne_called:
  "publishOne cfg ow hook rnd publish repo k s lz = (s1, q, n1) \<Longrightarrow> PublishCalled msg None \<in> set n1 \<Longrightarrow> publish k msg = None"
  by (auto simp: publishOne_def settle_def Service_leaseOutcome_def Let_def
      split: prod.splits sum.splits option.splits if_splits)

lemma loop_called:
  "publish_loop cfg ow hook rnd publish repo stopped k s ls res = (s', y, ns) \<Longrightarrow> PublishCalled msg None \<in> set ns \<Longrightarrow>
   \<exists>k. publish k msg = None"
proof (induction ls arbitrary: k s res s' y ns)
  case (Cons lz ls)
  show ?case
  proof (cases "stopped k")
    case True
    with Cons.prems show ?thesis by simp
  next
    case False
    obtain s1 q n1 where one: "publishOne cfg ow hook rnd publish repo k s lz = (s1, q, n1)"
      by (cases "publishOne cfg ow hook rnd publish repo k s lz") auto
    show ?thesis
    proof (cases q)
      case (Inl e)
      with Cons.prems False one publishOne_called [OF one] show ?thesis by auto
    next
      case (Inr oc)
      obtain s2 z n2 where two: "publish_loop cfg ow hook rnd publish repo stopped (Suc k) s1 ls (count_outcome oc res) = (s2, z, n2)"
        by (cases "publish_loop cfg ow hook rnd publish repo stopped (Suc k) s1 ls (count_outcome oc res)") auto
      from Cons.prems False one Inr two have "PublishCalled msg None \<in> set n1 \<or> PublishCalled msg None \<in> set n2" by auto
      with publishOne_called [OF one] Cons.IH [OF two] show ?thesis by blast
    qed
  qed
qed simp

text \<open>
  C6: a message recorded as published is on the broker. Whatever faults the database and the broker
  show, for every outbox row that a relay cycle turns into a published one there is a publication of that
  cycle whose last three events are its send to the events exchange under its own routing key, a confirm,
  and no return.
\<close>

theorem published_is_on_broker:
  assumes "schema_ok db"
    and "runOnce cfg ow hook rnd (publish_results am marshal t mem) (OutboxRepository_Lease fl now0 skip)
           (postgres_settlements f now) stopped db = (db', r, ns)"
    and "published_in db' i" and "\<not> published_in db i"
  shows "\<exists>msg k m' l l0 ch body. message_ID msg = i \<and> marshal (body_of msg) = Inr body \<and>
    Publish am marshal no_publish_hooks (t k) msg (mem k) = Some (m', Inr (), l) \<and>
    l = l0 @ [Sent ch EventsExchange (message_RoutingKey msg) (publishing_of msg body) None, Awaited (Inr True), ReturnSeen None]"
proof -
  from relay_store.runOnce_pub [OF assms(1,2)] assms(3,4) obtain msg where msg: "message_ID msg = i" "PublishCalled msg None \<in> set ns"
    by (auto simp: adds_def confirmed_def)
  note called = loop_called [of cfg ow hook rnd "publish_results am marshal t mem" "postgres_settlements f now" stopped]
  obtain s1 lr where "OutboxRepository_Lease fl now0 skip db ow (rc_BatchSize cfg) (rc_LeaseDuration cfg) = (s1, lr)"
    by (cases "OutboxRepository_Lease fl now0 skip db ow (rc_BatchSize cfg) (rc_LeaseDuration cfg)") auto
  with assms(2) msg(2) have "\<exists>ls. publish_loop cfg ow hook rnd (publish_results am marshal t mem) (postgres_settlements f now)
      stopped 0 s1 ls (empty_result\<lparr>res_Leased := length ls\<rparr>) = (db', r, ns)"
    by (cases lr) (auto simp: runOnce_def)
  with called msg(2) have "\<exists>k. publish_results am marshal t mem k msg = None" by blast
  then obtain k where k: "publish_results am marshal t mem k msg = None" by blast
  obtain m' l where run: "Publish am marshal no_publish_hooks (t k) msg (mem k) = Some (m', Inr (), l)"
  proof (cases "Publish am marshal no_publish_hooks (t k) msg (mem k)")
    case None
    with k show ?thesis by (simp add: publish_results_def)
  next
    case (Some y)
    then obtain m' q l where y: "y = (m', q, l)" by (cases y)
    with Some k have "q = Inr ()" by (cases q) (simp_all add: publish_results_def)
    with Some y that show ?thesis by simp
  qed
  from publish_ok [OF run] msg(1) run show ?thesis by blast
qed

theorem published_is_on_broker_witness:
  "\<exists>db' r ns. runOnce (Config_withDefaults \<lparr>rc_BatchSize = 0, rc_Interval = 0, rc_LeaseDuration = 0,
       rc_Backoff = \<lparr>bo_Base = 0, bo_Max = 0\<rparr>, rc_AlertAfterAttempts = 0\<rparr>) ''relay-a'' (\<lambda>_. None) (\<lambda>_ n. 0)
       (publish_results healthy (\<lambda>b. Inr (mb_WebhookEventID b)) (\<lambda>_. 0) (\<lambda>_. warm_memory))
       (OutboxRepository_Lease NoFault 9 (\<lambda>_. False)) (postgres_settlements (\<lambda>_. NoFault) (\<lambda>_. 10)) (\<lambda>_. False) sample_db =
       (db', r, ns) \<and>
     (\<forall>i. published_in db' i \<longrightarrow> (\<exists>msg m' l. message_ID msg = i \<and>
        Publish healthy (\<lambda>b. Inr (mb_WebhookEventID b)) no_publish_hooks 0 msg warm_memory = Some (m', Inr (), l)))"
proof -
  let ?run = "runOnce (Config_withDefaults \<lparr>rc_BatchSize = 0, rc_Interval = 0, rc_LeaseDuration = 0,
       rc_Backoff = \<lparr>bo_Base = 0, bo_Max = 0\<rparr>, rc_AlertAfterAttempts = 0\<rparr>) ''relay-a'' (\<lambda>_. None) (\<lambda>_ n. 0)
       (publish_results healthy (\<lambda>b. Inr (mb_WebhookEventID b)) (\<lambda>_. 0) (\<lambda>_. warm_memory))
       (OutboxRepository_Lease NoFault 9 (\<lambda>_. False)) (postgres_settlements (\<lambda>_. NoFault) (\<lambda>_. 10)) (\<lambda>_. False) sample_db"
  obtain db' r ns where run: "?run = (db', r, ns)" by (cases ?run) auto
  have "\<not> published_in sample_db i" for i by (simp add: published_in_def sample_message_def)
  with published_is_on_broker [OF sample_ok run] run show ?thesis by blast
qed

end
