(* ===== verification/Tier_Names.thy ===== *)
theory Tier_Names
  imports Amqp_Topology Digits
begin

text \<open>
  The name of a retry tier determines its delay. \<open>read_delay\<close> reads a name back; since it inverts
  the naming, two tiers with different delays never share an exchange or a queue. The last section
  bounds the choice of a tier.
\<close>

section \<open>Reading a name back\<close>

text \<open>An integer part, the digits after a dot, and the rest, which begins with the unit.\<close>

definition read_part :: "string \<Rightarrow> string \<times> string \<times> string" where
  "read_part s =
     (let r = dropWhile is_digit s in
      if r \<noteq> [] \<and> hd r = CHR ''.''
      then (takeWhile is_digit s, takeWhile is_digit (tl r), dropWhile is_digit (tl r))
      else (takeWhile is_digit s, [], r))"

definition scaled :: "nat \<Rightarrow> string \<Rightarrow> string \<Rightarrow> nat" where
  "scaled k i f = digits_value i * 10 ^ k + digits_value f * 10 ^ (k - length f)"

definition read_seconds :: "string \<Rightarrow> nat" where
  "read_seconds s = (case read_part s of (i, f, r) \<Rightarrow> scaled 9 i f)"

definition read_minutes :: "string \<Rightarrow> nat" where
  "read_minutes s = (case read_part s of (i, f, r) \<Rightarrow> digits_value i * (60 * 10 ^ 9) + read_seconds (tl r))"

definition read_delay :: "string \<Rightarrow> nat" where
  "read_delay s =
     (case read_part s of (i, f, r) \<Rightarrow>
        if r = ''ns'' then digits_value i
        else if r = ''us'' then scaled 3 i f
        else if r = ''ms'' then scaled 6 i f
        else if r = ''s'' then scaled 9 i f
        else if hd r = CHR ''m'' then read_minutes s
        else digits_value i * (3600 * 10 ^ 9) + read_minutes (tl r))"

section \<open>Digits\<close>

lemma fraction_digits_props:
  "length (fraction_digits k v) = k \<and> list_all is_digit (fraction_digits k v) \<and>
   digits_value (fraction_digits k v) = v mod 10 ^ k"
proof (induction k v rule: fraction_digits.induct)
  case (2 n v)
  have "v mod 10 ^ Suc n = 10 * (v div 10 mod 10 ^ n) + v mod 10"
    using mod_mult2_eq [of v 10 "10 ^ n"] by simp
  with 2 show ?case by (simp add: Let_def digits_value_snoc is_digit_char_of)
qed simp

text \<open>Dropping the trailing zeros keeps the value, scaled.\<close>

lemma drop_zeros_value:
  "digits_value (rev (drop_zeros r)) * 10 ^ (length r - length (drop_zeros r)) = digits_value (rev r) \<and>
   length (drop_zeros r) \<le> length r"
proof (induction r)
  case (Cons c r)
  show ?case
  proof (cases "c = CHR ''0''")
    case True
    with Cons show ?thesis by (simp add: digits_value_snoc Suc_diff_le)
  qed simp
qed simp

lemma drop_zeros_all: "list_all P r \<Longrightarrow> list_all P (drop_zeros r)"
  by (induction r) auto

definition frac_part :: "nat \<Rightarrow> nat \<Rightarrow> string" where
  "frac_part k v = rev (drop_zeros (rev (fraction_digits k (v mod 10 ^ k))))"

lemma fmtFrac_eq: "fmtFrac k v = (if frac_part k v = [] then [] else CHR ''.'' # frac_part k v)"
  by (simp add: fmtFrac_def frac_part_def)

lemma frac_part_digits: "list_all is_digit (frac_part k v)"
  using fraction_digits_props [of k "v mod 10 ^ k"] drop_zeros_all [of is_digit "rev (fraction_digits k (v mod 10 ^ k))"]
  by (simp add: frac_part_def)

lemma frac_part_value: "digits_value (frac_part k v) * 10 ^ (k - length (frac_part k v)) = v mod 10 ^ k"
  using drop_zeros_value [of "rev (fraction_digits k (v mod 10 ^ k))"] fraction_digits_props [of k "v mod 10 ^ k"]
  by (simp add: frac_part_def)

section \<open>Reading inverts writing\<close>

lemma takeWhile_digits: "list_all is_digit s \<Longrightarrow> \<not> is_digit c \<Longrightarrow> takeWhile is_digit (s @ c # t) = s"
  by (induction s) auto

lemma dropWhile_digits: "list_all is_digit s \<Longrightarrow> \<not> is_digit c \<Longrightarrow> dropWhile is_digit (s @ c # t) = c # t"
  by (induction s) auto

lemma dot_not_digit [simp]: "\<not> is_digit (CHR ''.'')" "\<not> is_digit (CHR ''n'')" "\<not> is_digit (CHR ''u'')"
  "\<not> is_digit (CHR ''m'')" "\<not> is_digit (CHR ''s'')" "\<not> is_digit (CHR ''h'')"
  by (simp_all add: is_digit_def)

lemma read_part_fmt:
  assumes "\<not> is_digit c" and "c \<noteq> CHR ''.''"
  shows "read_part (decimal a @ fmtFrac k v @ c # t) = (decimal a, frac_part k v, c # t)"
  using assms decimal_digits [of a] frac_part_digits [of k v]
  by (simp add: read_part_def fmtFrac_eq takeWhile_digits dropWhile_digits Let_def)

lemma read_part_int:
  assumes "\<not> is_digit c" and "c \<noteq> CHR ''.''"
  shows "read_part (decimal a @ c # t) = (decimal a, [], c # t)"
  using assms decimal_digits [of a] by (simp add: read_part_def takeWhile_digits dropWhile_digits Let_def)

lemma scaled_fmt: "scaled k (decimal a) (frac_part k v) = a * 10 ^ k + v mod 10 ^ k"
  by (simp add: scaled_def digits_value_decimal frac_part_value)

lemma read_seconds_fmt: "read_seconds (decimal s @ fmtFrac 9 u @ ''s'') = s * 10 ^ 9 + u mod 10 ^ 9"
  by (simp add: read_seconds_def read_part_fmt scaled_fmt)

lemma read_minutes_fmt:
  "read_minutes (decimal m @ ''m'' @ decimal s @ fmtFrac 9 u @ ''s'') = m * (60 * 10 ^ 9) + (s * 10 ^ 9 + u mod 10 ^ 9)"
  by (simp add: read_minutes_def read_part_int digits_value_decimal read_seconds_fmt)

lemma read_delay_seconds: "read_delay (decimal a @ fmtFrac 9 v @ ''s'') = a * 10 ^ 9 + v mod 10 ^ 9"
  by (simp add: read_delay_def read_part_fmt scaled_fmt)

lemma read_delay_minutes:
  "read_delay (decimal m @ ''m'' @ decimal a @ fmtFrac 9 v @ ''s'') = m * (60 * 10 ^ 9) + (a * 10 ^ 9 + v mod 10 ^ 9)"
  using read_minutes_fmt [of m a v]
  by (simp add: read_delay_def read_part_int)

lemma read_delay_hours:
  "read_delay (decimal h @ ''h'' @ decimal m @ ''m'' @ decimal a @ fmtFrac 9 v @ ''s'') =
     h * (3600 * 10 ^ 9) + (m * (60 * 10 ^ 9) + (a * 10 ^ 9 + v mod 10 ^ 9))"
  using read_minutes_fmt [of m a v] by (simp add: read_delay_def read_part_int digits_value_decimal)

lemma read_delay_clock:
  "read_delay (if m = 0 then decimal a @ fmtFrac 9 v @ ''s''
     else if m div 60 = 0 then decimal (m mod 60) @ ''m'' @ decimal a @ fmtFrac 9 v @ ''s''
     else decimal (m div 60) @ ''h'' @ decimal (m mod 60) @ ''m'' @ decimal a @ fmtFrac 9 v @ ''s'') =
   m div 60 * (3600 * 10 ^ 9) + (m mod 60 * (60 * 10 ^ 9) + (a * 10 ^ 9 + v mod 10 ^ 9))"
proof (cases "m = 0")
  case True
  with read_delay_seconds [of a v] show ?thesis by simp
next
  case False
  with read_delay_minutes [of "m mod 60" a v] read_delay_hours [of "m div 60" "m mod 60" a v] show ?thesis
    by (cases "m div 60 = 0") simp_all
qed

text \<open>Nothing but the micro sign has the byte \<open>0xC2\<close>.\<close>

lemma replace_micro_skip: "list_all (\<lambda>c. c \<noteq> CHR 0xC2) s \<Longrightarrow> replace_micro (s @ t) = s @ replace_micro t"
proof (induction s)
  case (Cons c s)
  then show ?case by (cases "s @ t") auto
qed simp

lemma digit_plain: "is_digit c \<Longrightarrow> c \<noteq> CHR 0xC2"
  by (auto simp: is_digit_def)

lemma plain_decimal: "list_all (\<lambda>c. c \<noteq> CHR 0xC2) (decimal n)"
  using decimal_digits [of n] digit_plain by (auto simp: list_all_iff)

lemma plain_fmtFrac: "list_all (\<lambda>c. c \<noteq> CHR 0xC2) (fmtFrac k v)"
  using frac_part_digits [of k v] digit_plain by (auto simp: fmtFrac_eq list_all_iff)

lemma replace_micro_id: "list_all (\<lambda>c. c \<noteq> CHR 0xC2) s \<Longrightarrow> replace_micro s = s"
  using replace_micro_skip [of s "[]"] by simp

lemmas plain_parts = plain_decimal plain_fmtFrac

lemma clock_sum:
  "h * 60 + m' = m \<Longrightarrow> m * 60 + s' = s \<Longrightarrow> s * 10 ^ 9 + f = u \<Longrightarrow>
   h * (3600 * 10 ^ 9) + (m' * (60 * 10 ^ 9) + (s' * 10 ^ 9 + f)) = (u :: nat)"
  by (simp add: algebra_simps)

lemma read_delay_Name:
  assumes "0 < tier_Delay t"
  shows "int (read_delay (tier_Name t)) = tier_Delay t"
proof -
  let ?u = "nat (tier_Delay t)"
  have u: "0 < ?u" "nat \<bar>tier_Delay t\<bar> = ?u" "\<not> tier_Delay t < 0" "int ?u = tier_Delay t" using assms by auto
  consider (ns) "?u < 10 ^ 3" | (us) "10 ^ 3 \<le> ?u" "?u < 10 ^ 6" | (ms) "10 ^ 6 \<le> ?u" "?u < 10 ^ 9" | (s) "10 ^ 9 \<le> ?u"
    by linarith
  then have "read_delay (tier_Name t) = ?u"
  proof cases
    case ns
    with u have "tier_Name t = decimal ?u @ ''ns''"
      by (simp add: tier_Name_def Duration_String_def Let_def replace_micro_id plain_parts del: power_numeral)
    then show ?thesis by (simp add: read_delay_def read_part_int digits_value_decimal)
  next
    case us
    with u have "tier_Name t = decimal (?u div 10 ^ 3) @ fmtFrac 3 ?u @ ''us''"
      by (simp add: tier_Name_def Duration_String_def Let_def replace_micro_skip plain_parts)
    then have "read_delay (tier_Name t) = ?u div 10 ^ 3 * 10 ^ 3 + ?u mod 10 ^ 3"
      by (simp add: read_delay_def read_part_fmt scaled_fmt)
    then show ?thesis by (simp only: div_mult_mod_eq)
  next
    case ms
    with u have "tier_Name t = decimal (?u div 10 ^ 6) @ fmtFrac 6 ?u @ ''ms''"
      by (simp add: tier_Name_def Duration_String_def Let_def replace_micro_skip replace_micro_id plain_parts)
    then have "read_delay (tier_Name t) = ?u div 10 ^ 6 * 10 ^ 6 + ?u mod 10 ^ 6"
      by (simp add: read_delay_def read_part_fmt scaled_fmt)
    then show ?thesis by (simp only: div_mult_mod_eq)
  next
    case s
    let ?s = "?u div 10 ^ 9" let ?m = "?s div 60" let ?h = "?m div 60"
    let ?sec = "decimal (?s mod 60) @ fmtFrac 9 ?u @ ''s''"
    from s have "?u \<noteq> 0" "\<not> ?u < 10 ^ 3" "\<not> ?u < 10 ^ 6" "\<not> ?u < 10 ^ 9" by simp_all
    then have "Duration_String (tier_Delay t) = (if ?m = 0 then ?sec else if ?h = 0 then decimal (?m mod 60) @ ''m'' @ ?sec
        else decimal ?h @ ''h'' @ decimal (?m mod 60) @ ''m'' @ ?sec)"
      unfolding Duration_String_def Let_def u(2) using u(3) by (simp only: if_False)
    then have "tier_Name t = (if ?m = 0 then ?sec else if ?h = 0 then decimal (?m mod 60) @ ''m'' @ ?sec
        else decimal ?h @ ''h'' @ decimal (?m mod 60) @ ''m'' @ ?sec)"
      by (simp add: tier_Name_def replace_micro_id plain_parts list_all_append del: div_mult2_eq)
    then have "read_delay (tier_Name t) = ?h * (3600 * 10 ^ 9) + (?m mod 60 * (60 * 10 ^ 9) + (?s mod 60 * 10 ^ 9 + ?u mod 10 ^ 9))"
      by (simp only: read_delay_clock)
    also have "\<dots> = ?u"
      by (rule clock_sum [of ?h "?m mod 60" ?m "?s mod 60" ?s]) (simp_all only: div_mult_mod_eq)
    finally show ?thesis .
  qed
  with u show ?thesis by simp
qed

section \<open>Properties\<close>

lemma distinct_tier_names:
  assumes "\<forall>t \<in> set tiers. 0 < tier_Delay t" and "distinct (map tier_Delay tiers)"
  shows "distinct (map tier_Name tiers)"
proof -
  have "inj_on tier_Name (set tiers)"
  proof (rule inj_onI)
    fix s t assume "s \<in> set tiers" "t \<in> set tiers" "tier_Name s = tier_Name t"
    with assms(1) have "tier_Delay s = tier_Delay t" by (metis read_delay_Name)
    with assms(2) \<open>s \<in> set tiers\<close> \<open>t \<in> set tiers\<close> show "s = t" by (auto simp: distinct_map inj_on_def)
  qed
  with assms(2) show ?thesis by (simp add: distinct_map)
qed

lemma tiers_apart:
  assumes "\<forall>t \<in> set tiers. 0 < tier_Delay t" and "distinct (map tier_Delay tiers)"
  shows "distinct (WebhooksQueue # DeadLetterQueue # map tier_Queue tiers) \<and>
         distinct (EventsExchange # DeadLetterExchange # map tier_Exchange tiers)"
proof -
  have d: "distinct (map (append RetryExchangePrefix) (map tier_Name tiers))"
    using distinct_tier_names [OF assms] by (subst distinct_map) (auto simp: inj_on_def)
  have q: "map tier_Queue tiers = map (append RetryExchangePrefix) (map tier_Name tiers)"
    and x: "map tier_Exchange tiers = map (append RetryExchangePrefix) (map tier_Name tiers)"
    by (simp_all add: tier_Queue_def tier_Exchange_def)
  have "x \<notin> set (map (append RetryExchangePrefix) ns)" if "take 21 x \<noteq> take 21 RetryExchangePrefix" for x ns
    using that by (auto simp: RetryExchangePrefix_def)
  then have "WebhooksQueue \<notin> set (map (append RetryExchangePrefix) ns)" "DeadLetterQueue \<notin> set (map (append RetryExchangePrefix) ns)"
      "EventsExchange \<notin> set (map (append RetryExchangePrefix) ns)" "DeadLetterExchange \<notin> set (map (append RetryExchangePrefix) ns)" for ns
    by (simp_all add: WebhooksQueue_def DeadLetterQueue_def EventsExchange_def DeadLetterExchange_def
        RetryExchangePrefix_def del: set_map)
  moreover have "WebhooksQueue \<noteq> DeadLetterQueue" "EventsExchange \<noteq> DeadLetterExchange"
    by (simp_all add: WebhooksQueue_def DeadLetterQueue_def EventsExchange_def DeadLetterExchange_def)
  ultimately show ?thesis unfolding q x using d by (simp del: set_map map_map)
qed

text \<open>
  The retry ladder never collides. Tiers with different positive delays have different exchanges
  and queues, and none of them is the main or the dead-letter one, so declaring one tier can never
  redeclare another with a different delay.
\<close>

theorem retry_tiers_distinct:
  assumes "\<forall>t \<in> set tiers. 0 < tier_Delay t" and "distinct (map tier_Delay tiers)"
  shows "distinct (WebhooksQueue # DeadLetterQueue # map tier_Queue tiers) \<and>
         distinct (EventsExchange # DeadLetterExchange # map tier_Exchange tiers)"
  by (rule tiers_apart [OF assms])

theorem retry_tiers_distinct_witness:
  "distinct (map tier_Queue (map (\<lambda>d. \<lparr>tier_Delay = d\<rparr>) [5 * Second, 30 * Second, 2 * Minute, 10 * Minute]))"
  using retry_tiers_distinct [of "map (\<lambda>d. \<lparr>tier_Delay = d\<rparr>) [5 * Second, 30 * Second, 2 * Minute, 10 * Minute]"]
  by (simp add: duration_defs)

text \<open>
  The ladder escalates. With at least one tier, every attempt count gets a tier of the ladder; the
  count \<open>n\<close> from one on gets the \<open>n\<close>-th, and the last one for every count beyond the ladder, so that
  ascending delays never shrink as attempts grow.
\<close>

theorem TierFor_escalates:
  assumes "tiers \<noteq> []" and "sorted_wrt (\<lambda>s t. tier_Delay s < tier_Delay t) tiers"
    and "1 \<le> m" and "m \<le> n" and "n \<le> MaxInt64"
  shows "\<exists>s t. TierFor tiers m = Some s \<and> TierFor tiers n = Some t \<and> s \<in> set tiers \<and> t \<in> set tiers \<and>
    tier_Delay s \<le> tier_Delay t \<and> (int (length tiers) \<le> n \<longrightarrow> t = last tiers)"
proof -
  let ?k = "\<lambda>n :: int. min (nat (n - 1)) (length tiers - 1)"
  have len: "0 < length tiers" using assms(1) by simp
  have TF: "TierFor tiers j = Some (tiers ! ?k j)" if "1 \<le> j" "j \<le> MaxInt64" for j
  proof -
    have "int64 (j - 1) = j - 1" using that by (intro int64_id) (auto simp: MaxInt64_def)
    moreover have "nat (if int (length tiers) \<le> j - 1 then int (length tiers) - 1 else j - 1) = ?k j"
      using that(1) len by (auto simp: min_def)
    moreover have "nat (int (length tiers) - 1) = length tiers - 1" using len by simp
    ultimately show ?thesis using assms(1) that(1) by (simp add: TierFor_def Let_def)
  qed
  have in_tiers: "tiers ! ?k j \<in> set tiers" for j by (rule nth_mem) (use len in linarith)
  have "tier_Delay (tiers ! ?k m) \<le> tier_Delay (tiers ! ?k n)"
  proof (cases "?k m = ?k n")
    case True
    then show ?thesis by simp
  next
    case False
    with assms(4) len have "?k m < ?k n" "?k n < length tiers" by (auto simp: min_def split: if_splits)
    with assms(2) have "tier_Delay (tiers ! ?k m) < tier_Delay (tiers ! ?k n)" by (rule sorted_wrt_nth_less)
    then show ?thesis by simp
  qed
  moreover have "tiers ! ?k n = last tiers" if "int (length tiers) \<le> n"
    using that assms(1) len by (simp add: last_conv_nth min_def) (auto intro!: arg_cong [of _ _ "nth tiers"])
  ultimately show ?thesis using TF [of m] TF [of n] in_tiers assms(3-5) by auto
qed

theorem TierFor_escalates_witness:
  "\<exists>s t. TierFor (map (\<lambda>d. \<lparr>tier_Delay = d\<rparr>) [5, 30]) 1 = Some s \<and>
    TierFor (map (\<lambda>d. \<lparr>tier_Delay = d\<rparr>) [5, 30]) 9 = Some t \<and> tier_Delay s \<le> tier_Delay t \<and> tier_Delay t = 30"
  using TierFor_escalates [of "map (\<lambda>d. \<lparr>tier_Delay = d\<rparr>) [5, 30]" 1 9] by (auto simp: MaxInt64_def)

text \<open>\<^term>\<open>topology_ok xs qs l\<close>: given the exchanges \<open>xs\<close> and the queues \<open>qs\<close>, the calls in \<open>l\<close> all succeed
  and name nothing that was not declared before: neither a binding nor a dead-letter argument.\<close>

fun topology_ok :: "string set \<Rightarrow> string set \<Rightarrow> amqp_event list \<Rightarrow> bool" where
  "topology_ok xs qs [] = True"
| "topology_ok xs qs (Called (ExchangeDeclare ch x kind) None # l) = topology_ok (insert x xs) qs l"
| "topology_ok xs qs (Called (QueueDeclare ch q args) None # l) \<longleftrightarrow>
     list_all (\<lambda>(k, v). k = ''x-dead-letter-exchange'' \<longrightarrow> (case v of VString x \<Rightarrow> x \<in> xs | VInt _ \<Rightarrow> False)) args \<and>
     topology_ok xs (insert q qs) l"
| "topology_ok xs qs (Called (QueueBind ch q key x) None # l) \<longleftrightarrow> q \<in> qs \<and> x \<in> xs \<and> topology_ok xs qs l"
| "topology_ok xs qs (e # l) = False"

lemma DeclareTopology_log:
  assumes "DeclareTopology call ch n = Some (n', Inr (), l)"
  shows "topology_ok xs qs (l @ l') \<longleftrightarrow>
    topology_ok ({DeadLetterExchange, EventsExchange} \<union> xs) ({WebhooksQueue, DeadLetterQueue} \<union> qs) l'"
  using assms by (auto simp: DeclareTopology_def op_Some do_call_Some)

lemma declare_tier_log:
  assumes "declare_tier call ch t n = Some (n', Inr (), l)" and "EventsExchange \<in> xs"
  shows "topology_ok xs qs (l @ l') \<longleftrightarrow> topology_ok (insert (tier_Exchange t) xs) (insert (tier_Queue t) qs) l'"
  using assms by (auto simp: declare_tier_def op_Some do_call_Some split: if_splits)

lemma DeclareRetryTopology_log:
  "DeclareRetryTopology call ch ts n = Some (n', Inr (), l) \<Longrightarrow> EventsExchange \<in> xs \<Longrightarrow> topology_ok xs qs l"
proof (induction ts arbitrary: n l xs qs)
  case (Cons t ts)
  from Cons.prems(1) obtain n1 l1 l2 where *: "declare_tier call ch t n = Some (n1, Inr (), l1)"
      "DeclareRetryTopology call ch ts n1 = Some (n', Inr (), l2)" "l = l1 @ l2"
    by (auto simp: op_then_Some)
  from Cons.IH [OF *(2)] declare_tier_log [OF *(1)] Cons.prems(2) *(3) show ?case by simp
qed simp

text \<open>
  A session only starts on a complete topology. When both declarations succeed, every call was
  accepted, and each queue's dead-letter exchange and each binding's queue and exchange had been
  declared before it; in particular every retry queue returns its messages to the events exchange.
\<close>

theorem declared_topology_complete:
  assumes "op_seq (DeclareTopology call ch) (DeclareRetryTopology call ch tiers) n = Some (n', Inr (), l)"
  shows "topology_ok {} {} l"
proof -
  from assms obtain n1 l1 l2 where "DeclareTopology call ch n = Some (n1, Inr (), l1)"
      "DeclareRetryTopology call ch tiers n1 = Some (n', Inr (), l2)" "l = l1 @ l2"
    by (auto simp: op_then_Some)
  with DeclareTopology_log DeclareRetryTopology_log show ?thesis by fastforce
qed

theorem declared_topology_complete_witness:
  "\<exists>l. op_seq (DeclareTopology (\<lambda>n _. (n, None)) 1) (DeclareRetryTopology (\<lambda>n _. (n, None)) 1 [\<lparr>tier_Delay = 5\<rparr>]) () =
     Some ((), Inr (), l) \<and> topology_ok {} {} l"
proof -
  obtain l where l: "op_seq (DeclareTopology (\<lambda>n _. (n, None)) 1) (DeclareRetryTopology (\<lambda>n _. (n, None)) 1 [\<lparr>tier_Delay = 5\<rparr>]) () =
     Some ((), Inr (), l)"
    by (simp add: op_Some DeclareTopology_def declare_tier_def do_call_Some)
  with declared_topology_complete [OF l] show ?thesis by blast
qed

end
