(* ===== verification/Amqp_Session.thy ===== *)
theory Amqp_Session
  imports Amqp_Consumer "HOL-Library.Multiset"
begin

text \<open>
  One consuming session (\<^verbatim>\<open>consume\<close> in \<^verbatim>\<open>consumer.go\<close>) as a step relation: the dispatching goroutine
  with its two selects, the pool of workers, the errors they send back, and the broker, which never has
  more than the prefetch of unacknowledged deliveries out. A worker's step abstracts \<open>handle_delivery\<close>
  to what it returned: without an error the delivery is acknowledged, with one it is not.
\<close>

section \<open>States and steps\<close>

datatype dispatcher = Selecting | Handing nat | Ended "unit result"
datatype worker = Idle | Busy nat | Exited nat

record session_state =
  sn_Dispatcher :: dispatcher
  sn_Workers :: "worker list"
  sn_Errors :: "goerr list"
  sn_Buffer :: "nat list"
  sn_Unacked :: "nat multiset"
  sn_Done :: bool
  sn_Closed :: "goerr option option"

definition session_start :: "consumer_config \<Rightarrow> session_state" where
  "session_start cfg = \<lparr>sn_Dispatcher = Selecting, sn_Workers = replicate (nat (cc_Concurrency cfg)) Idle, sn_Errors = [],
     sn_Buffer = [], sn_Unacked = {#}, sn_Done = False, sn_Closed = None\<rparr>"

text \<open>The first three rules are the environment's: the broker delivers within the prefetch, the context
  is cancelled, the AMQP channel closes with or without a reason. The selects choose any ready case.\<close>

inductive session_step :: "consumer_config \<Rightarrow> session_state \<Rightarrow> session_state \<Rightarrow> bool" for cfg where
  deliver: "int (size (sn_Unacked s)) < cc_Prefetch cfg \<Longrightarrow>
     session_step cfg s (s\<lparr>sn_Buffer := sn_Buffer s @ [d], sn_Unacked := add_mset d (sn_Unacked s)\<rparr>)"
| cancel: "session_step cfg s (s\<lparr>sn_Done := True\<rparr>)"
| channel_closes: "session_step cfg s (s\<lparr>sn_Closed := Some reason\<rparr>)"
| receive: "sn_Dispatcher s = Selecting \<Longrightarrow> sn_Buffer s = d # b \<Longrightarrow>
     session_step cfg s (s\<lparr>sn_Dispatcher := Handing d, sn_Buffer := b\<rparr>)"
| hand: "sn_Dispatcher s = Handing d \<Longrightarrow> i < length (sn_Workers s) \<Longrightarrow> sn_Workers s ! i = Idle \<Longrightarrow>
     session_step cfg s (s\<lparr>sn_Dispatcher := Selecting, sn_Workers := (sn_Workers s)[i := Busy d]\<rparr>)"
| finish: "i < length (sn_Workers s) \<Longrightarrow> sn_Workers s ! i = Busy d \<Longrightarrow>
     session_step cfg s (s\<lparr>sn_Workers := (sn_Workers s)[i := Idle], sn_Unacked := sn_Unacked s - {#d#}\<rparr>)"
| fail: "i < length (sn_Workers s) \<Longrightarrow> sn_Workers s ! i = Busy d \<Longrightarrow> int (length (sn_Errors s)) < cc_Concurrency cfg \<Longrightarrow>
     session_step cfg s (s\<lparr>sn_Workers := (sn_Workers s)[i := Exited d], sn_Errors := sn_Errors s @ [e]\<rparr>)"
| see_error: "sn_Dispatcher s = Selecting \<Longrightarrow> sn_Errors s = e # es \<Longrightarrow>
     session_step cfg s (s\<lparr>sn_Dispatcher := Ended (Inl (wrap ''consumer worker failed'' e)), sn_Errors := es\<rparr>)"
| see_closed: "sn_Dispatcher s = Selecting \<Longrightarrow> sn_Closed s = Some (Some e) \<Longrightarrow>
     session_step cfg s (s\<lparr>sn_Dispatcher := Ended (Inl (wrap ''consumer channel closed'' e))\<rparr>)"
| see_closed_silently: "sn_Dispatcher s = Selecting \<Longrightarrow> sn_Closed s = Some None \<Longrightarrow>
     session_step cfg s (s\<lparr>sn_Dispatcher := Ended (Inl (NewError ''consumer channel closed''))\<rparr>)"
| see_no_more: "sn_Dispatcher s = Selecting \<Longrightarrow> sn_Closed s \<noteq> None \<Longrightarrow> sn_Buffer s = [] \<Longrightarrow>
     session_step cfg s (s\<lparr>sn_Dispatcher := Ended (Inl (NewError ''consumer deliveries channel closed''))\<rparr>)"
| see_done: "sn_Done s \<Longrightarrow> sn_Dispatcher s = Selecting \<or> sn_Dispatcher s = Handing d \<Longrightarrow>
     session_step cfg s (s\<lparr>sn_Dispatcher := Ended (Inr ())\<rparr>)"

inductive session_reachable :: "consumer_config \<Rightarrow> session_state \<Rightarrow> bool" for cfg where
  start: "session_reachable cfg (session_start cfg)"
| step: "session_reachable cfg s \<Longrightarrow> session_step cfg s s' \<Longrightarrow> session_reachable cfg s'"

section \<open>The invariant\<close>

text \<open>Every unacknowledged delivery is somewhere: in the buffer, in the dispatcher's hands, with a worker,
  or with a worker that failed on it. A session that ended may have dropped one.\<close>

definition held :: "worker \<Rightarrow> nat multiset" where
  "held w = (case w of Idle \<Rightarrow> {#} | Busy d \<Rightarrow> {#d#} | Exited d \<Rightarrow> {#d#})"

definition in_hand :: "dispatcher \<Rightarrow> nat multiset" where
  "in_hand x = (case x of Handing d \<Rightarrow> {#d#} | _ \<Rightarrow> {#})"

definition session_inv :: "consumer_config \<Rightarrow> session_state \<Rightarrow> bool" where
  "session_inv cfg s \<longleftrightarrow>
     length (sn_Workers s) = nat (cc_Concurrency cfg) \<and> int (size (sn_Unacked s)) \<le> max 0 (cc_Prefetch cfg) \<and>
     mset (sn_Buffer s) + in_hand (sn_Dispatcher s) + sum_list (map held (sn_Workers s)) \<subseteq># sn_Unacked s"

lemma sum_list_update_held:
  "i < length ws \<Longrightarrow> sum_list (map held (ws[i := w])) + held (ws ! i) = sum_list (map held ws) + held w"
proof (induction ws arbitrary: i)
  case (Cons v ws)
  show ?case
  proof (cases i)
    case (Suc j)
    with Cons.IH [of j] Cons.prems show ?thesis by (simp add: ac_simps)
  qed (simp add: ac_simps)
qed simp

lemma session_inv_start: "session_inv cfg (session_start cfg)"
proof -
  have "sum_list (map held (replicate n Idle)) = {#}" for n by (induction n) (simp_all add: held_def)
  then show ?thesis by (simp add: session_inv_def session_start_def in_hand_def del: map_replicate)
qed

lemma drop_middle: "A + X + B \<subseteq># U \<Longrightarrow> A + B \<subseteq># (U :: 'a multiset)"
  using subset_mset.order_trans [of "A + B" "A + X + B" U] by (simp add: ac_simps)

lemma take_out:
  assumes "A + add_mset d B \<subseteq># U"
  shows "A + B \<subseteq># U - {#d#}"
proof (rule mset_subset_eqI)
  fix a
  from mset_subset_eq_count [OF assms, of a] show "count (A + B) a \<le> count (U - {#d#}) a"
    by (auto split: if_splits)
qed

lemma session_inv_step:
  assumes "session_step cfg s s'" and "session_inv cfg s"
  shows "session_inv cfg s'"
  using assms(1)
proof cases
  case (deliver d)
  with assms(2) show ?thesis by (simp add: session_inv_def add.assoc)
next
  case (receive d b)
  with assms(2) show ?thesis by (simp add: session_inv_def in_hand_def)
next
  case (hand d i)
  from sum_list_update_held [OF hand(3), of "Busy d"] hand(4)
  have "sum_list (map held ((sn_Workers s)[i := Busy d])) = add_mset d (sum_list (map held (sn_Workers s)))"
    by (simp add: held_def)
  with hand assms(2) show ?thesis by (simp add: session_inv_def in_hand_def ac_simps)
next
  case (finish i d)
  from sum_list_update_held [OF finish(2), of Idle] finish(3)
  have upd: "sum_list (map held (sn_Workers s)) = add_mset d (sum_list (map held ((sn_Workers s)[i := Idle])))"
    by (simp add: held_def)
  from assms(2) have "mset (sn_Buffer s) + in_hand (sn_Dispatcher s) +
      add_mset d (sum_list (map held ((sn_Workers s)[i := Idle]))) \<subseteq># sn_Unacked s"
    unfolding session_inv_def upd by simp
  note take_out [OF this]
  moreover have "size (sn_Unacked s - {#d#}) \<le> size (sn_Unacked s)" by (simp add: size_mset_mono)
  ultimately show ?thesis using finish assms(2) by (simp add: session_inv_def)
next
  case (fail i d e)
  from sum_list_update_held [OF fail(2), of "Exited d"] fail(3)
  have "sum_list (map held ((sn_Workers s)[i := Exited d])) = sum_list (map held (sn_Workers s))"
    by (simp add: held_def)
  with fail assms(2) show ?thesis by (simp add: session_inv_def)
next
  case (see_done d)
  from assms(2) have "mset (sn_Buffer s) + sum_list (map held (sn_Workers s)) \<subseteq># sn_Unacked s"
    by (auto simp: session_inv_def intro: drop_middle)
  with see_done assms(2) show ?thesis by (simp add: session_inv_def in_hand_def)
qed (use assms(2) in \<open>simp_all add: session_inv_def in_hand_def\<close>)

lemma session_reachable_inv: "session_reachable cfg s \<Longrightarrow> session_inv cfg s"
  by (induction rule: session_reachable.induct) (auto intro: session_inv_start session_inv_step)

section \<open>Stuck sessions\<close>

text \<open>A session is stuck when its dispatcher waits for a worker to take a delivery and every worker has
  gone: only cancelling the context gets it out, neither the workers' errors nor a closed channel do.\<close>

definition stuck :: "session_state \<Rightarrow> bool" where
  "stuck s \<longleftrightarrow> (\<exists>d. sn_Dispatcher s = Handing d) \<and> \<not> sn_Done s \<and> list_all (\<lambda>w. \<exists>d. w = Exited d) (sn_Workers s)"

lemma size_held_exited: "list_all (\<lambda>w. \<exists>d. w = Exited d) ws \<Longrightarrow> size (sum_list (map held ws)) = length ws"
  by (induction ws) (auto simp: held_def)

text \<open>
  No session wedges when the prefetch does not exceed the concurrency, as in the default
  configuration. Every exited worker holds an unacknowledged delivery, so if all of them are gone and the
  dispatcher holds one more, the broker has given out more than the concurrency.
\<close>

theorem stuck_needs_prefetch:
  assumes "session_reachable cfg s" and "stuck s" and "1 \<le> cc_Concurrency cfg"
  shows "cc_Concurrency cfg < cc_Prefetch cfg"
proof -
  from session_reachable_inv [OF assms(1)] have inv: "session_inv cfg s" .
  from assms(2) obtain d where d: "sn_Dispatcher s = Handing d" and ex: "list_all (\<lambda>w. \<exists>d. w = Exited d) (sn_Workers s)"
    by (auto simp: stuck_def)
  from inv have "size (mset (sn_Buffer s) + in_hand (sn_Dispatcher s) + sum_list (map held (sn_Workers s))) \<le> size (sn_Unacked s)"
    unfolding session_inv_def by (blast intro: size_mset_mono)
  with d size_held_exited [OF ex] have "Suc (length (sn_Workers s)) \<le> size (sn_Unacked s)"
    by (simp add: in_hand_def)
  with inv assms(3) show ?thesis by (auto simp: session_inv_def)
qed

text \<open>A run that gets stuck, with one worker and a prefetch of two: the worker fails on the first
  delivery after the dispatcher took the second.\<close>

definition wedged_cfg :: consumer_config where
  "wedged_cfg = \<lparr>cc_Prefetch = 2, cc_Concurrency = 1, cc_RetryTiers = []\<rparr>"

definition wedged :: session_state where
  "wedged = \<lparr>sn_Dispatcher = Handing 2, sn_Workers = [Exited 1], sn_Errors = [External ''down''], sn_Buffer = [],
     sn_Unacked = {#1, 2#}, sn_Done = False, sn_Closed = None\<rparr>"

lemma wedged_reachable: "session_reachable wedged_cfg wedged"
proof -
  let ?st = "\<lambda>x w es b u. \<lparr>sn_Dispatcher = x, sn_Workers = [w], sn_Errors = es, sn_Buffer = b, sn_Unacked = u, sn_Done = False,
    sn_Closed = None\<rparr>"
  have 0: "session_reachable wedged_cfg (?st Selecting Idle [] [] {#})"
    using session_reachable.start [of wedged_cfg] by (simp add: session_start_def wedged_cfg_def)
  have 1: "session_reachable wedged_cfg (?st Selecting Idle [] [1] {#1#})"
    by (rule step [OF 0]) (use session_step.deliver [of "?st Selecting Idle [] [] {#}" wedged_cfg 1] in \<open>simp add: wedged_cfg_def\<close>)
  have 2: "session_reachable wedged_cfg (?st Selecting Idle [] [1, 2] {#1, 2#})"
    by (rule step [OF 1]) (use session_step.deliver [of "?st Selecting Idle [] [1] {#1#}" wedged_cfg 2] in
      \<open>simp add: wedged_cfg_def add_mset_commute\<close>)
  have 3: "session_reachable wedged_cfg (?st (Handing 1) Idle [] [2] {#1, 2#})"
    by (rule step [OF 2]) (use session_step.receive [of "?st Selecting Idle [] [1, 2] {#1, 2#}" 1 "[2]" wedged_cfg] in simp)
  have 4: "session_reachable wedged_cfg (?st Selecting (Busy 1) [] [2] {#1, 2#})"
    by (rule step [OF 3]) (use session_step.hand [of "?st (Handing 1) Idle [] [2] {#1, 2#}" 1 0 wedged_cfg] in simp)
  have 5: "session_reachable wedged_cfg (?st (Handing 2) (Busy 1) [] [] {#1, 2#})"
    by (rule step [OF 4]) (use session_step.receive [of "?st Selecting (Busy 1) [] [2] {#1, 2#}" 2 "[]" wedged_cfg] in simp)
  show ?thesis unfolding wedged_def
    by (rule step [OF 5]) (use session_step.fail [of 0 "?st (Handing 2) (Busy 1) [] [] {#1, 2#}" 1 wedged_cfg "External ''down''"] in
      \<open>simp add: wedged_cfg_def\<close>)
qed

theorem stuck_needs_prefetch_witness: "cc_Concurrency wedged_cfg < cc_Prefetch wedged_cfg"
  using stuck_needs_prefetch [OF wedged_reachable] by (simp add: stuck_def wedged_def wedged_cfg_def)

lemma stuck_step: "session_step cfg s s' \<Longrightarrow> stuck s \<Longrightarrow> sn_Done s' \<or> stuck s'"
  by (cases rule: session_step.cases) (auto simp: stuck_def list_all_length)

lemma stuck_steps: "rtranclp (\<lambda>a b. session_step cfg a b \<and> \<not> sn_Done b) s s' \<Longrightarrow> stuck s \<Longrightarrow> stuck s'"
  by (induction rule: rtranclp_induct) (auto dest: stuck_step)


end
