(* ===== verification/Openapi.thy ===== *)
theory Openapi
  imports GoLang
begin

text \<open>
  The response side of the generated server (\<^verbatim>\<open>internal/transport/http/openapi/server.gen.go\<close>): the models
  of the contract, the response objects of each operation and their \<^verbatim>\<open>Visit\<close> methods, which write them.

  A response writer keeps the headers set so far, the status line once it went out, together with the
  headers as they were then, and the bodies written. The first \<^verbatim>\<open>WriteHeader\<close> wins, as in \<^verbatim>\<open>net/http\<close>.
  Headers are named with the source's spelling everywhere, since the library compares them ignoring case.
  JSON bodies stay the values they encode; the argument \<open>encode\<close> says which of them \<^verbatim>\<open>encoding/json\<close>
  refuses (an instant after the year 9999). Writing to the connection is taken to succeed.
\<close>

section \<open>Models\<close>

record api_error =
  er_Code :: string
  er_CorrelationId :: string
  er_Message :: string

record api_checkout =
  ck_CheckoutUrl :: string
  ck_ExpiresAt :: instant

record create_order_request =
  cr_ProductId :: string
  cr_Quantity :: int

record api_health =
  he_Checks :: "(string \<times> string) list"
  he_Service :: string
  he_Status :: string
  he_Version :: string

definition Health_Up :: string where "Health_Up = ''up''"
definition Health_Down :: string where "Health_Down = ''down''"
definition Health_Ok :: string where "Health_Ok = ''ok''"
definition Health_Unavailable :: string where "Health_Unavailable = ''unavailable''"

record api_order =
  ao_Amount :: int
  ao_Currency :: string
  ao_Id :: string
  ao_Status :: string

record api_outbox_inspection =
  ov_Attempts :: int
  ov_Id :: string
  ov_LastError :: "string option"
  ov_NextAttemptAt :: instant
  ov_PublishedAt :: "instant option"
  ov_Status :: string

record api_event_inspection =
  wi_Attempts :: int
  wi_EventType :: string
  wi_Id :: string
  wi_LastError :: "string option"
  wi_LastReplayedAt :: "instant option"
  wi_Outbox :: "api_outbox_inspection option"
  wi_ProcessedAt :: "instant option"
  wi_Provider :: string
  wi_ProviderEventId :: string
  wi_ReceivedAt :: instant
  wi_ReplayCount :: int
  wi_Status :: string
  wi_UpdatedAt :: instant

datatype payload =
    ErrorBody api_error | CheckoutBody api_checkout | HealthBody api_health | OrderBody api_order
  | EventBody api_event_inspection | EventListBody "api_event_inspection list"
  | TextBody string | DocumentBody

section \<open>The response writer\<close>

type_synonym headers = "string \<rightharpoonup> string"

record writer =
  wr_Header :: headers
  wr_Sent :: "(int \<times> headers) option"
  wr_Body :: "payload list"

definition new_writer :: writer where
  "new_writer = \<lparr>wr_Header = Map.empty, wr_Sent = None, wr_Body = []\<rparr>"

definition set_header :: "string \<Rightarrow> string \<Rightarrow> writer \<Rightarrow> writer" where
  "set_header k v w = w\<lparr>wr_Header := (wr_Header w)(k \<mapsto> v)\<rparr>"

definition WriteHeader :: "int \<Rightarrow> writer \<Rightarrow> writer" where
  "WriteHeader status w = (case wr_Sent w of None \<Rightarrow> w\<lparr>wr_Sent := Some (status, wr_Header w)\<rparr> | Some _ \<Rightarrow> w)"

definition write_body :: "payload \<Rightarrow> writer \<Rightarrow> writer" where
  "write_body p w = (WriteHeader 200 w)\<lparr>wr_Body := wr_Body w @ [p]\<rparr>"

text \<open>The shape of every \<^verbatim>\<open>Visit\<close> method with a body: nothing is written unless the body could be
  encoded.\<close>

definition visit_json :: "(payload \<Rightarrow> string option) \<Rightarrow> int \<Rightarrow> string \<Rightarrow> payload \<Rightarrow> writer \<Rightarrow> writer \<times> goerr option" where
  "visit_json encode status correlation p w =
     (case encode p of
        Some e \<Rightarrow> (w, Some (External e))
      | None \<Rightarrow> (write_body p (WriteHeader status (set_header ''X-Correlation-ID'' correlation
          (set_header ''Content-Type'' ''application/json'' w))), None))"

definition visit_limited :: "(payload \<Rightarrow> string option) \<Rightarrow> int \<Rightarrow> string \<Rightarrow> payload \<Rightarrow> writer \<Rightarrow> writer \<times> goerr option" where
  "visit_limited encode retryAfter correlation p w =
     (case encode p of
        Some e \<Rightarrow> (w, Some (External e))
      | None \<Rightarrow> (write_body p (WriteHeader 429 (set_header ''X-Correlation-ID'' correlation
          (set_header ''Retry-After'' (itoa retryAfter) (set_header ''Content-Type'' ''application/json'' w)))), None))"

definition visit_empty :: "int \<Rightarrow> string \<Rightarrow> writer \<Rightarrow> writer \<times> goerr option" where
  "visit_empty status correlation w = (WriteHeader status (set_header ''X-Correlation-ID'' correlation w), None)"

section \<open>Response objects\<close>

text \<open>Each carries its body and the correlation identifier of its header; the 429 ones also the seconds
  of \<^verbatim>\<open>Retry-After\<close>.\<close>

datatype get_health_response =
  GetHealth200 api_health string | GetHealth429 api_error int string | GetHealth503 api_health string

fun VisitGetHealthResponse :: "(payload \<Rightarrow> string option) \<Rightarrow> get_health_response \<Rightarrow> writer \<Rightarrow> writer \<times> goerr option" where
  "VisitGetHealthResponse enc (GetHealth200 b c) = visit_json enc 200 c (HealthBody b)"
| "VisitGetHealthResponse enc (GetHealth429 b r c) = visit_limited enc r c (ErrorBody b)"
| "VisitGetHealthResponse enc (GetHealth503 b c) = visit_json enc 503 c (HealthBody b)"

datatype create_order_response =
    CreateOrder201 api_order string | CreateOrder400 api_error string | CreateOrder401 api_error string
  | CreateOrder404 api_error string | CreateOrder409 api_error string | CreateOrder413 api_error string
  | CreateOrder429 api_error int string | CreateOrder500 api_error string

fun VisitCreateOrderResponse :: "(payload \<Rightarrow> string option) \<Rightarrow> create_order_response \<Rightarrow> writer \<Rightarrow> writer \<times> goerr option" where
  "VisitCreateOrderResponse enc (CreateOrder201 b c) = visit_json enc 201 c (OrderBody b)"
| "VisitCreateOrderResponse enc (CreateOrder400 b c) = visit_json enc 400 c (ErrorBody b)"
| "VisitCreateOrderResponse enc (CreateOrder401 b c) = visit_json enc 401 c (ErrorBody b)"
| "VisitCreateOrderResponse enc (CreateOrder404 b c) = visit_json enc 404 c (ErrorBody b)"
| "VisitCreateOrderResponse enc (CreateOrder409 b c) = visit_json enc 409 c (ErrorBody b)"
| "VisitCreateOrderResponse enc (CreateOrder413 b c) = visit_json enc 413 c (ErrorBody b)"
| "VisitCreateOrderResponse enc (CreateOrder429 b r c) = visit_limited enc r c (ErrorBody b)"
| "VisitCreateOrderResponse enc (CreateOrder500 b c) = visit_json enc 500 c (ErrorBody b)"

datatype get_order_response =
    GetOrder200 api_order string | GetOrder401 api_error string | GetOrder404 api_error string
  | GetOrder429 api_error int string | GetOrder500 api_error string

fun VisitGetOrderResponse :: "(payload \<Rightarrow> string option) \<Rightarrow> get_order_response \<Rightarrow> writer \<Rightarrow> writer \<times> goerr option" where
  "VisitGetOrderResponse enc (GetOrder200 b c) = visit_json enc 200 c (OrderBody b)"
| "VisitGetOrderResponse enc (GetOrder401 b c) = visit_json enc 401 c (ErrorBody b)"
| "VisitGetOrderResponse enc (GetOrder404 b c) = visit_json enc 404 c (ErrorBody b)"
| "VisitGetOrderResponse enc (GetOrder429 b r c) = visit_limited enc r c (ErrorBody b)"
| "VisitGetOrderResponse enc (GetOrder500 b c) = visit_json enc 500 c (ErrorBody b)"

datatype create_checkout_response =
    CreateCheckout201 api_checkout string | CreateCheckout400 api_error string | CreateCheckout401 api_error string
  | CreateCheckout404 api_error string | CreateCheckout409 api_error string | CreateCheckout429 api_error int string
  | CreateCheckout500 api_error string | CreateCheckout502 api_error string

fun VisitCreateCheckoutResponse :: "(payload \<Rightarrow> string option) \<Rightarrow> create_checkout_response \<Rightarrow> writer \<Rightarrow> writer \<times> goerr option" where
  "VisitCreateCheckoutResponse enc (CreateCheckout201 b c) = visit_json enc 201 c (CheckoutBody b)"
| "VisitCreateCheckoutResponse enc (CreateCheckout400 b c) = visit_json enc 400 c (ErrorBody b)"
| "VisitCreateCheckoutResponse enc (CreateCheckout401 b c) = visit_json enc 401 c (ErrorBody b)"
| "VisitCreateCheckoutResponse enc (CreateCheckout404 b c) = visit_json enc 404 c (ErrorBody b)"
| "VisitCreateCheckoutResponse enc (CreateCheckout409 b c) = visit_json enc 409 c (ErrorBody b)"
| "VisitCreateCheckoutResponse enc (CreateCheckout429 b r c) = visit_limited enc r c (ErrorBody b)"
| "VisitCreateCheckoutResponse enc (CreateCheckout500 b c) = visit_json enc 500 c (ErrorBody b)"
| "VisitCreateCheckoutResponse enc (CreateCheckout502 b c) = visit_json enc 502 c (ErrorBody b)"

datatype list_webhook_events_response =
    ListWebhookEvents200 "api_event_inspection list" string | ListWebhookEvents400 api_error string
  | ListWebhookEvents401 api_error string | ListWebhookEvents429 api_error int string | ListWebhookEvents500 api_error string

fun VisitListWebhookEventsResponse :: "(payload \<Rightarrow> string option) \<Rightarrow> list_webhook_events_response \<Rightarrow> writer \<Rightarrow> writer \<times> goerr option" where
  "VisitListWebhookEventsResponse enc (ListWebhookEvents200 b c) = visit_json enc 200 c (EventListBody b)"
| "VisitListWebhookEventsResponse enc (ListWebhookEvents400 b c) = visit_json enc 400 c (ErrorBody b)"
| "VisitListWebhookEventsResponse enc (ListWebhookEvents401 b c) = visit_json enc 401 c (ErrorBody b)"
| "VisitListWebhookEventsResponse enc (ListWebhookEvents429 b r c) = visit_limited enc r c (ErrorBody b)"
| "VisitListWebhookEventsResponse enc (ListWebhookEvents500 b c) = visit_json enc 500 c (ErrorBody b)"

datatype reprocess_webhook_event_response =
    ReprocessWebhookEvent202 api_event_inspection string | ReprocessWebhookEvent401 api_error string
  | ReprocessWebhookEvent404 api_error string | ReprocessWebhookEvent409 api_error string
  | ReprocessWebhookEvent429 api_error int string | ReprocessWebhookEvent500 api_error string

fun VisitReprocessWebhookEventResponse :: "(payload \<Rightarrow> string option) \<Rightarrow> reprocess_webhook_event_response \<Rightarrow> writer \<Rightarrow> writer \<times> goerr option" where
  "VisitReprocessWebhookEventResponse enc (ReprocessWebhookEvent202 b c) = visit_json enc 202 c (EventBody b)"
| "VisitReprocessWebhookEventResponse enc (ReprocessWebhookEvent401 b c) = visit_json enc 401 c (ErrorBody b)"
| "VisitReprocessWebhookEventResponse enc (ReprocessWebhookEvent404 b c) = visit_json enc 404 c (ErrorBody b)"
| "VisitReprocessWebhookEventResponse enc (ReprocessWebhookEvent409 b c) = visit_json enc 409 c (ErrorBody b)"
| "VisitReprocessWebhookEventResponse enc (ReprocessWebhookEvent429 b r c) = visit_limited enc r c (ErrorBody b)"
| "VisitReprocessWebhookEventResponse enc (ReprocessWebhookEvent500 b c) = visit_json enc 500 c (ErrorBody b)"

datatype receive_stripe_webhook_response =
    ReceiveStripeWebhook200 string | ReceiveStripeWebhook202 string | ReceiveStripeWebhook400 api_error string
  | ReceiveStripeWebhook429 api_error int string | ReceiveStripeWebhook500 api_error string

fun VisitReceiveStripeWebhookResponse :: "(payload \<Rightarrow> string option) \<Rightarrow> receive_stripe_webhook_response \<Rightarrow> writer \<Rightarrow> writer \<times> goerr option" where
  "VisitReceiveStripeWebhookResponse enc (ReceiveStripeWebhook200 c) = visit_empty 200 c"
| "VisitReceiveStripeWebhookResponse enc (ReceiveStripeWebhook202 c) = visit_empty 202 c"
| "VisitReceiveStripeWebhookResponse enc (ReceiveStripeWebhook400 b c) = visit_json enc 400 c (ErrorBody b)"
| "VisitReceiveStripeWebhookResponse enc (ReceiveStripeWebhook429 b r c) = visit_limited enc r c (ErrorBody b)"
| "VisitReceiveStripeWebhookResponse enc (ReceiveStripeWebhook500 b c) = visit_json enc 500 c (ErrorBody b)"

datatype operation_response =
    GetHealthResponse get_health_response | CreateOrderResponse create_order_response
  | GetOrderResponse get_order_response | CreateCheckoutResponse create_checkout_response
  | ListWebhookEventsResponse list_webhook_events_response | ReprocessWebhookEventResponse reprocess_webhook_event_response
  | ReceiveStripeWebhookResponse receive_stripe_webhook_response

fun visit_response :: "(payload \<Rightarrow> string option) \<Rightarrow> operation_response \<Rightarrow> writer \<Rightarrow> writer \<times> goerr option" where
  "visit_response enc (GetHealthResponse r) = VisitGetHealthResponse enc r"
| "visit_response enc (CreateOrderResponse r) = VisitCreateOrderResponse enc r"
| "visit_response enc (GetOrderResponse r) = VisitGetOrderResponse enc r"
| "visit_response enc (CreateCheckoutResponse r) = VisitCreateCheckoutResponse enc r"
| "visit_response enc (ListWebhookEventsResponse r) = VisitListWebhookEventsResponse enc r"
| "visit_response enc (ReprocessWebhookEventResponse r) = VisitReprocessWebhookEventResponse enc r"
| "visit_response enc (ReceiveStripeWebhookResponse r) = VisitReceiveStripeWebhookResponse enc r"

end
