(* ===== verification/Http_Handlers.thy ===== *)
theory Http_Handlers
  imports Openapi Order_Service Payment_Service Webhook_Service
begin

text \<open>
  The handlers of the contract (\<^verbatim>\<open>internal/transport/http/handlers.go\<close>, \<^verbatim>\<open>errors.go\<close>) over the use cases,
  and the readiness check of \<^verbatim>\<open>internal/platform/health\<close>. The use cases are arguments over an arbitrary
  application state; a dependency that is nil is \<^const>\<open>None\<close>. A handler returns a response, fails with an
  error for the server to answer, or panics: a use case reports a panic as the error value
  \<^const>\<open>Panic\<close>, which no handler looks at.
\<close>

section \<open>Outcomes\<close>

datatype 'a outcome = Returns 'a | Fails goerr | Panics string

definition called :: "'a result \<Rightarrow> 'a outcome" where
  "called r = (case r of Inr a \<Rightarrow> Returns a | Inl (Panic t) \<Rightarrow> Panics t | Inl e \<Rightarrow> Fails e)"

text \<open>What a handler makes of the outcome of a use case: an error may become a response or a failure.\<close>

fun answer :: "('a \<Rightarrow> 'b outcome) \<Rightarrow> (goerr \<Rightarrow> 'b outcome) \<Rightarrow> 'a outcome \<Rightarrow> 'b outcome" where
  "answer f g (Returns a) = f a"
| "answer f g (Fails e) = g e"
| "answer f g (Panics t) = Panics t"

section \<open>Error codes (errors.go)\<close>

definition codeInvalidRequest :: string where "codeInvalidRequest = ''invalid_request''"
definition codeUnauthorized :: string where "codeUnauthorized = ''unauthorized''"
definition codeInvalidSignature :: string where "codeInvalidSignature = ''invalid_signature''"
definition codeProductNotFound :: string where "codeProductNotFound = ''product_not_found''"
definition codeOrderNotFound :: string where "codeOrderNotFound = ''order_not_found''"
definition codeIdempotencyKeyConflict :: string where "codeIdempotencyKeyConflict = ''idempotency_key_conflict''"
definition codeCheckoutInProgress :: string where "codeCheckoutInProgress = ''checkout_in_progress''"
definition codeOrderNotPayable :: string where "codeOrderNotPayable = ''order_not_payable''"
definition codeProviderUnavailable :: string where "codeProviderUnavailable = ''provider_unavailable''"
definition codeWebhookEventNotFound :: string where "codeWebhookEventNotFound = ''webhook_event_not_found''"
definition codeWebhookEventNotReplayable :: string where "codeWebhookEventNotReplayable = ''webhook_event_not_replayable''"
definition codeRateLimited :: string where "codeRateLimited = ''rate_limited''"
definition codeNotImplemented :: string where "codeNotImplemented = ''not_implemented''"
definition codeInternalError :: string where "codeInternalError = ''internal_error''"

text \<open>\<open>correlation\<close> is the identifier the request's context carries.\<close>

definition newError :: "string \<Rightarrow> string \<Rightarrow> string \<Rightarrow> api_error" where
  "newError correlation code message = \<lparr>er_Code = code, er_CorrelationId = correlation, er_Message = message\<rparr>"

definition sentinelError :: "string \<Rightarrow> string \<Rightarrow> sentinel \<Rightarrow> api_error" where
  "sentinelError correlation code s = newError correlation code (sentinel_text s)"

section \<open>Readiness (health.go)\<close>

record 's health_service =
  hs_serviceName :: string
  hs_version :: string
  hs_checks :: "(string \<times> ('s \<Rightarrow> goerr option)) list"

record health_result =
  hr_Checks :: "(string \<times> bool) list"
  hr_Ready :: bool

fun check_all :: "(string \<times> ('s \<Rightarrow> goerr option)) list \<Rightarrow> 's \<Rightarrow> (string \<times> bool) list \<Rightarrow> bool \<Rightarrow> health_result" where
  "check_all [] s statuses ready = \<lparr>hr_Checks = statuses, hr_Ready = ready\<rparr>"
| "check_all ((name, check) # cs) s statuses ready =
     (case check s of
        Some e \<Rightarrow> check_all cs s (statuses @ [(name, False)]) False
      | None \<Rightarrow> check_all cs s (statuses @ [(name, True)]) ready)"

definition Health_Check :: "'s health_service \<Rightarrow> 's \<Rightarrow> health_result" where
  "Health_Check h s = check_all (hs_checks h) s [] True"

section \<open>The handler\<close>

record 's order_cases =
  oc_Create :: "create_input \<Rightarrow> 's \<Rightarrow> 's \<times> order result"
  oc_Get :: "string \<Rightarrow> 's \<Rightarrow> order result"

record 's event_cases =
  ec_List :: "string \<Rightarrow> int \<Rightarrow> 's \<Rightarrow> event_inspection list result"
  ec_Reprocess :: "string \<Rightarrow> 's \<Rightarrow> 's \<times> event_inspection result"

record 's api_handler =
  ah_health :: "'s health_service"
  ah_orders :: "'s order_cases option"
  ah_checkouts :: "(checkout_input \<Rightarrow> 's \<Rightarrow> 's \<times> checkout result) option"
  ah_webhooks :: "(receive_input \<Rightarrow> 's \<Rightarrow> 's \<times> string result) option"
  ah_operations :: "'s event_cases option"

definition GetHealth :: "'s api_handler \<Rightarrow> string \<Rightarrow> 's \<Rightarrow> 's \<times> get_health_response outcome" where
  "GetHealth h correlation s =
     (let result = Health_Check (ah_health h) s;
          response = \<lparr>he_Checks = map (\<lambda>(name, available). (name, if available then Health_Up else Health_Down)) (hr_Checks result),
            he_Service = hs_serviceName (ah_health h), he_Status = Health_Ok, he_Version = hs_version (ah_health h)\<rparr>
      in (s, Returns (if \<not> hr_Ready result
            then GetHealth503 (response\<lparr>he_Status := Health_Unavailable\<rparr>) correlation
            else GetHealth200 response correlation)))"

definition orderResponse :: "order \<Rightarrow> api_order" where
  "orderResponse ord =
     \<lparr>ao_Amount = order_Amount ord, ao_Currency = order_Currency ord, ao_Id = order_ID ord, ao_Status = order_Status ord\<rparr>"

definition createOrderError :: "string \<Rightarrow> goerr \<Rightarrow> create_order_response outcome" where
  "createOrderError c e =
     (if errors_Is ErrInvalidProductID e \<or> errors_Is ErrInvalidQuantity e \<or> errors_Is ErrInvalidIdempotencyKey e
      then Returns (CreateOrder400 (newError c codeInvalidRequest (Error_text e)) c)
      else if errors_Is ErrProductNotFound e
      then Returns (CreateOrder404 (sentinelError c codeProductNotFound ErrProductNotFound) c)
      else if errors_Is OrderApp_ErrIdempotencyKeyConflict e
      then Returns (CreateOrder409 (sentinelError c codeIdempotencyKeyConflict OrderApp_ErrIdempotencyKeyConflict) c)
      else Fails (wrap ''create order'' e))"

definition CreateOrder ::
  "'s api_handler \<Rightarrow> string \<Rightarrow> string \<Rightarrow> create_order_request option \<Rightarrow> 's \<Rightarrow> 's \<times> create_order_response outcome" where
  "CreateOrder h c idempotencyKey body s =
     (case ah_orders h of
        None \<Rightarrow> (s, Fails (Sentinel ErrNotServed))
      | Some orders \<Rightarrow>
     (case body of
        None \<Rightarrow> (s, Returns (CreateOrder400 (newError c codeInvalidRequest ''request body is required'') c))
      | Some b \<Rightarrow>
     (case oc_Create orders \<lparr>in_ProductID = cr_ProductId b, in_Quantity = cr_Quantity b, in_IdempotencyKey = idempotencyKey\<rparr> s of
        (s', r) \<Rightarrow> (s', answer (\<lambda>ord. Returns (CreateOrder201 (orderResponse ord) c)) (createOrderError c) (called r)))))"

definition GetOrder :: "'s api_handler \<Rightarrow> string \<Rightarrow> string \<Rightarrow> 's \<Rightarrow> 's \<times> get_order_response outcome" where
  "GetOrder h c orderId s =
     (case ah_orders h of
        None \<Rightarrow> (s, Fails (Sentinel ErrNotServed))
      | Some orders \<Rightarrow>
          (s, answer (\<lambda>ord. Returns (GetOrder200 (orderResponse ord) c))
               (\<lambda>e. if errors_Is ErrOrderNotFound e
                 then Returns (GetOrder404 (sentinelError c codeOrderNotFound ErrOrderNotFound) c)
                 else Fails (wrap ''get order'' e))
               (called (oc_Get orders orderId s))))"

definition createCheckoutError :: "string \<Rightarrow> goerr \<Rightarrow> create_checkout_response outcome" where
  "createCheckoutError c e =
     (if errors_Is ErrInvalidIdempotencyKey e
      then Returns (CreateCheckout400 (newError c codeInvalidRequest (Error_text e)) c)
      else if errors_Is ErrOrderNotFound e
      then Returns (CreateCheckout404 (sentinelError c codeOrderNotFound ErrOrderNotFound) c)
      else if errors_Is PaymentApp_ErrIdempotencyKeyConflict e
      then Returns (CreateCheckout409 (sentinelError c codeIdempotencyKeyConflict PaymentApp_ErrIdempotencyKeyConflict) c)
      else if errors_Is ErrCheckoutInProgress e
      then Returns (CreateCheckout409 (sentinelError c codeCheckoutInProgress ErrCheckoutInProgress) c)
      else if errors_Is ErrOrderNotPayable e
      then Returns (CreateCheckout409 (sentinelError c codeOrderNotPayable ErrOrderNotPayable) c)
      else if errors_Is ErrProviderUnavailable e
      then Returns (CreateCheckout502 (sentinelError c codeProviderUnavailable ErrProviderUnavailable) c)
      else Fails (wrap ''create checkout'' e))"

definition CreateCheckout_handler ::
  "'s api_handler \<Rightarrow> string \<Rightarrow> string \<Rightarrow> string \<Rightarrow> 's \<Rightarrow> 's \<times> create_checkout_response outcome" where
  "CreateCheckout_handler h c orderId idempotencyKey s =
     (case ah_checkouts h of
        None \<Rightarrow> (s, Fails (Sentinel ErrNotServed))
      | Some create \<Rightarrow>
          (case create \<lparr>cin_OrderID = orderId, cin_IdempotencyKey = idempotencyKey\<rparr> s of
             (s', r) \<Rightarrow> (s', answer
               (\<lambda>ck. Returns (CreateCheckout201 \<lparr>ck_CheckoutUrl = checkout_URL ck, ck_ExpiresAt = checkout_ExpiresAt ck\<rparr> c))
               (createCheckoutError c) (called r))))"

definition optionalString :: "string \<Rightarrow> string option" where
  "optionalString v = (if v = [] then None else Some v)"

definition webhookEventResponse :: "event_inspection \<Rightarrow> api_event_inspection" where
  "webhookEventResponse e =
     \<lparr>wi_Attempts = ei_Attempts e, wi_EventType = ei_EventType e, wi_Id = ei_ID e, wi_LastError = optionalString (ei_LastError e),
      wi_LastReplayedAt = ei_LastReplayedAt e,
      wi_Outbox = map_option (\<lambda>x. \<lparr>ov_Attempts = oi_Attempts x, ov_Id = oi_ID x, ov_LastError = optionalString (oi_LastError x),
         ov_NextAttemptAt = oi_NextAttemptAt x, ov_PublishedAt = oi_PublishedAt x, ov_Status = oi_Status x\<rparr>) (ei_Outbox e),
      wi_ProcessedAt = ei_ProcessedAt e, wi_Provider = ei_Provider e, wi_ProviderEventId = ei_ProviderEventID e,
      wi_ReceivedAt = ei_ReceivedAt e, wi_ReplayCount = ei_ReplayCount e, wi_Status = ei_Status e, wi_UpdatedAt = ei_UpdatedAt e\<rparr>"

definition ListWebhookEvents_handler ::
  "'s api_handler \<Rightarrow> string \<Rightarrow> string option \<Rightarrow> int option \<Rightarrow> 's \<Rightarrow> 's \<times> list_webhook_events_response outcome" where
  "ListWebhookEvents_handler h c status limit s =
     (case ah_operations h of
        None \<Rightarrow> (s, Fails (Sentinel ErrNotServed))
      | Some operations \<Rightarrow>
          (s, answer (\<lambda>events. Returns (ListWebhookEvents200 (map webhookEventResponse events) c))
               (\<lambda>e. if errors_Is ErrInvalidStatus e \<or> errors_Is ErrInvalidLimit e
                 then Returns (ListWebhookEvents400 (newError c codeInvalidRequest (Error_text e)) c)
                 else Fails (wrap ''list webhook events'' e))
               (called (ec_List operations (case status of None \<Rightarrow> [] | Some x \<Rightarrow> x) (case limit of None \<Rightarrow> 0 | Some n \<Rightarrow> n) s))))"

definition ReprocessWebhookEvent_handler ::
  "'s api_handler \<Rightarrow> string \<Rightarrow> string \<Rightarrow> 's \<Rightarrow> 's \<times> reprocess_webhook_event_response outcome" where
  "ReprocessWebhookEvent_handler h c eventId s =
     (case ah_operations h of
        None \<Rightarrow> (s, Fails (Sentinel ErrNotServed))
      | Some operations \<Rightarrow>
          (case ec_Reprocess operations eventId s of
             (s', r) \<Rightarrow> (s', answer (\<lambda>e. Returns (ReprocessWebhookEvent202 (webhookEventResponse e) c))
               (\<lambda>e. if errors_Is ErrEventNotFound e
                 then Returns (ReprocessWebhookEvent404 (sentinelError c codeWebhookEventNotFound ErrEventNotFound) c)
                 else if errors_Is ErrEventNotReplayable e
                 then Returns (ReprocessWebhookEvent409 (sentinelError c codeWebhookEventNotReplayable ErrEventNotReplayable) c)
                 else Fails (wrap ''reprocess webhook event'' e))
               (called r))))"

text \<open>What reading a request body to its end gives: the bytes, and the error that stopped it, if any. No
  body at all is \<^const>\<open>None\<close>.\<close>

definition readWebhookBody :: "(string \<times> goerr option) option \<Rightarrow> string \<times> goerr option" where
  "readWebhookBody body = (case body of None \<Rightarrow> ([], None) | Some r \<Rightarrow> r)"

definition ReceiveStripeWebhook_handler ::
  "'s api_handler \<Rightarrow> string \<Rightarrow> string option \<Rightarrow> (string \<times> goerr option) option \<Rightarrow> 's \<Rightarrow> 's \<times> receive_stripe_webhook_response outcome" where
  "ReceiveStripeWebhook_handler h c signature body s =
     (case ah_webhooks h of
        None \<Rightarrow> (s, Fails (Sentinel ErrNotServed))
      | Some Receive_webhook \<Rightarrow>
          (case readWebhookBody body of
             (rawBody, readErr) \<Rightarrow>
               (case Receive_webhook
                   \<lparr>rin_RawBody = (case readErr of None \<Rightarrow> rawBody | Some _ \<Rightarrow> []),
                    rin_Signature = (case signature of None \<Rightarrow> [] | Some x \<Rightarrow> x), rin_CorrelationID = c,
                    rin_ReadError = map_option (\<lambda>e. Errorf [W (Sentinel ErrPayloadTooLarge), T '': '', W e]) readErr\<rparr> s of
                  (s', r) \<Rightarrow> (s', answer
                    (\<lambda>outcome. Returns (if outcome = OutcomeAccepted then ReceiveStripeWebhook202 c else ReceiveStripeWebhook200 c))
                    (\<lambda>e. if errors_Is ErrInvalidSignature e
                      then Returns (ReceiveStripeWebhook400 (sentinelError c codeInvalidSignature ErrInvalidSignature) c)
                      else Fails (wrap ''receive stripe webhook'' e))
                    (called r)))))"

end
