(* ===== verification/Netip.thy ===== *)
theory Netip
  imports Digits "HOL-Library.Word"
begin

unbundle bit_operations_syntax

text \<open>
  The part of the standard library's \<^verbatim>\<open>net/netip\<close>, \<^verbatim>\<open>net\<close> and \<^verbatim>\<open>strings\<close> the transport and
  the configuration use: addresses and prefixes, their parsing and their text. An address keeps its
  family, its bits and, for IPv6, its zone (empty when there is none); a prefix keeps an address without
  a zone and its length, which every use here keeps in range. Errors of the parsers carry nothing the
  program looks at, so they are \<^const>\<open>None\<close>.
\<close>

section \<open>Addresses\<close>

datatype addr = Addr4 "32 word" | Addr6 "128 word" string

fun Is4 :: "addr \<Rightarrow> bool" where
  "Is4 (Addr4 w) = True"
| "Is4 (Addr6 w z) = False"

fun Zone :: "addr \<Rightarrow> string" where
  "Zone (Addr4 w) = []"
| "Zone (Addr6 w z) = z"

fun Is4In6 :: "addr \<Rightarrow> bool" where
  "Is4In6 (Addr4 w) = False"
| "Is4In6 (Addr6 w z) = (drop_bit 32 w = 0xffff)"

fun Unmap :: "addr \<Rightarrow> addr" where
  "Unmap (Addr4 w) = Addr4 w"
| "Unmap (Addr6 w z) = (if Is4In6 (Addr6 w z) then Addr4 (ucast w) else Addr6 w z)"

fun WithZone :: "addr \<Rightarrow> string \<Rightarrow> addr" where
  "WithZone (Addr4 w) z = Addr4 w"
| "WithZone (Addr6 w z') z = Addr6 w z"

section \<open>Parsing\<close>

definition dec_digit :: "char \<Rightarrow> nat option" where
  "dec_digit c = (if is_digit c then Some (of_char c - 48) else None)"

definition hex_value :: "char \<Rightarrow> nat option" where
  "hex_value c = (let n = (of_char c :: nat) in
     if 48 \<le> n \<and> n \<le> 57 then Some (n - 48)
     else if 97 \<le> n \<and> n \<le> 102 then Some (n - 87)
     else if 65 \<le> n \<and> n \<le> 70 then Some (n - 55)
     else None)"

text \<open>The four fields of an IPv4 address, given the value and the number of digits of the current one
  and the finished ones.\<close>

fun v4_fields :: "string \<Rightarrow> nat \<Rightarrow> nat \<Rightarrow> nat list \<Rightarrow> nat list option" where
  "v4_fields [] v digits fs = (if length fs < 3 then None else Some (fs @ [v]))"
| "v4_fields (c # s) v digits fs =
     (case dec_digit c of
        Some d \<Rightarrow>
          if digits = 1 \<and> v = 0 then None
          else if 255 < v * 10 + d then None
          else v4_fields s (v * 10 + d) (digits + 1) fs
      | None \<Rightarrow>
          if c \<noteq> CHR ''.'' then None
          else if digits = 0 \<or> s = [] \<or> length fs = 3 then None
          else v4_fields s 0 0 (fs @ [v]))"

definition of_fields :: "'a::len word \<Rightarrow> nat list \<Rightarrow> 'a word" where
  "of_fields base fs = foldl (\<lambda>a f. a * base + of_nat f) 0 fs"

definition parseIPv4 :: "string \<Rightarrow> addr option" where
  "parseIPv4 s = map_option (\<lambda>fs. Addr4 (of_fields 256 fs)) (v4_fields s 0 0 [])"

text \<open>A group of hexadecimal digits: its value, how many there were and what follows.\<close>

fun hex_group :: "string \<Rightarrow> nat \<Rightarrow> nat \<Rightarrow> (nat \<times> nat \<times> string) option" where
  "hex_group [] acc off = Some (acc, off, [])"
| "hex_group (c # s) acc off =
     (case hex_value c of
        None \<Rightarrow> Some (acc, off, c # s)
      | Some d \<Rightarrow> if 3 < off then None else hex_group s (acc * 16 + d) (off + 1))"

text \<open>The groups of an IPv6 address read so far and where the ellipsis stood among them.\<close>

function v6_groups :: "string \<Rightarrow> nat list \<Rightarrow> nat option \<Rightarrow> (string \<times> nat list \<times> nat option) option" where
  "v6_groups s gs ell =
     (if 8 \<le> length gs then Some (s, gs, ell)
      else case hex_group s 0 0 of
        None \<Rightarrow> None
      | Some (acc, off, s') \<Rightarrow>
          if off = 0 then None
          else (case s' of
            [] \<Rightarrow> Some ([], gs @ [acc], ell)
          | c # r \<Rightarrow>
              if c = CHR ''.'' then
                (if ell = None \<and> length gs \<noteq> 6 \<or> 6 < length gs then None
                 else case v4_fields s 0 0 [] of
                   Some [a, b, d, e] \<Rightarrow> Some ([], gs @ [a * 256 + b, d * 256 + e], ell)
                 | _ \<Rightarrow> None)
              else if c \<noteq> CHR '':'' then None
              else (case r of
                [] \<Rightarrow> None
              | c' # r' \<Rightarrow>
                  if c' \<noteq> CHR '':'' then v6_groups r (gs @ [acc]) ell
                  else if ell \<noteq> None then None
                  else if r' = [] then Some ([], gs @ [acc], Some (length gs + 1))
                  else v6_groups r' (gs @ [acc]) (Some (length gs + 1)))))"
  by pat_completeness auto
termination by (relation "measure (\<lambda>(s, gs, ell). 8 - length gs)") auto

declare v6_groups.simps [simp del]

definition expand_ellipsis :: "nat list \<Rightarrow> nat option \<Rightarrow> nat list option" where
  "expand_ellipsis gs ell =
     (case ell of
        None \<Rightarrow> if length gs < 8 then None else Some gs
      | Some k \<Rightarrow> if length gs < 8 then Some (take k gs @ replicate (8 - length gs) 0 @ drop k gs) else None)"

definition parseIPv6 :: "string \<Rightarrow> addr option" where
  "parseIPv6 input =
     (let s = takeWhile (\<lambda>c. c \<noteq> CHR ''%'') input; rest = dropWhile (\<lambda>c. c \<noteq> CHR ''%'') input in
      if rest = ''%'' then None
      else let zone = tl rest; ell = has_prefix s ''::'' in
        if s = ''::'' then Some (Addr6 0 zone)
        else case v6_groups (if ell then drop 2 s else s) [] (if ell then Some 0 else None) of
          Some ([], gs, e) \<Rightarrow> map_option (\<lambda>gs. Addr6 (of_fields 65536 gs) zone) (expand_ellipsis gs e)
        | _ \<Rightarrow> None)"

definition ParseAddr :: "string \<Rightarrow> addr option" where
  "ParseAddr s = (case List.find (\<lambda>c. c \<in> set ''.:%'') s of
     Some c \<Rightarrow> if c = CHR ''.'' then parseIPv4 s else if c = CHR '':'' then parseIPv6 s else None
   | None \<Rightarrow> None)"

text \<open>The text before and after the last occurrence of a character.\<close>

definition split_last :: "char \<Rightarrow> string \<Rightarrow> (string \<times> string) option" where
  "split_last c s = (if c \<in> set s
     then Some (rev (tl (dropWhile (\<lambda>x. x \<noteq> c) (rev s))), rev (takeWhile (\<lambda>x. x \<noteq> c) (rev s))) else None)"

text \<open>\<^verbatim>\<open>strconv.ParseUint\<close> in base ten: digits only.\<close>

definition ParseUint :: "nat \<Rightarrow> string \<Rightarrow> nat option" where
  "ParseUint limit s = (if s \<noteq> [] \<and> list_all is_digit s \<and> digits_value s \<le> limit then Some (digits_value s) else None)"

definition ParseAddrPort :: "string \<Rightarrow> (addr \<times> nat) option" where
  "ParseAddrPort s =
     (case split_last CHR '':'' s of
        None \<Rightarrow> None
      | Some (ip, port) \<Rightarrow>
          if ip = [] \<or> port = [] then None
          else let v6 = (hd ip = CHR ''['') in
            if v6 \<and> (length ip < 2 \<or> last ip \<noteq> CHR '']'') then None
            else case (ParseUint 65535 port, ParseAddr (if v6 then butlast (tl ip) else ip)) of
              (Some p, Some a) \<Rightarrow> if Is4 a = v6 then None else Some (a, p)
            | _ \<Rightarrow> None)"

text \<open>\<^verbatim>\<open>net.SplitHostPort\<close>, whose port the program drops.\<close>

definition SplitHostPort :: "string \<Rightarrow> string option" where
  "SplitHostPort hostport =
     (case split_last CHR '':'' hostport of
        None \<Rightarrow> None
      | Some (before_port, port) \<Rightarrow>
          if hd hostport = CHR ''['' then
            (let host = takeWhile (\<lambda>c. c \<noteq> CHR '']'') (tl hostport) in
             if before_port = CHR ''['' # host @ '']'' \<and> CHR ''['' \<notin> set host \<and> CHR ''['' \<notin> set port \<and> CHR '']'' \<notin> set port
             then Some host else None)
          else if CHR '':'' \<in> set before_port \<or> CHR ''['' \<in> set hostport \<or> CHR '']'' \<in> set hostport then None
          else Some before_port)"

section \<open>Prefixes\<close>

datatype prefix = Prefix (prefix_Addr: addr) (prefix_Bits: nat)

definition PrefixFrom :: "addr \<Rightarrow> nat \<Rightarrow> prefix" where
  "PrefixFrom a n = Prefix (WithZone a []) n"

fun Masked :: "prefix \<Rightarrow> prefix" where
  "Masked (Prefix (Addr4 w) n) = Prefix (Addr4 (push_bit (32 - n) (drop_bit (32 - n) w))) n"
| "Masked (Prefix (Addr6 w z) n) = Prefix (Addr6 (push_bit (128 - n) (drop_bit (128 - n) w)) []) n"

fun Prefix_Contains :: "prefix \<Rightarrow> addr \<Rightarrow> bool" where
  "Prefix_Contains (Prefix (Addr4 p) n) (Addr4 w) = (drop_bit (32 - n) (p XOR w) = 0)"
| "Prefix_Contains (Prefix (Addr6 p z) n) (Addr6 w z') = (z' = [] \<and> drop_bit (128 - n) (p XOR w) = 0)"
| "Prefix_Contains (Prefix (Addr4 p) n) (Addr6 w z) = False"
| "Prefix_Contains (Prefix (Addr6 p z) n) (Addr4 w) = False"

definition ParsePrefix :: "string \<Rightarrow> prefix option" where
  "ParsePrefix s =
     (case split_last CHR ''/'' s of
        None \<Rightarrow> None
      | Some (ip, bits) \<Rightarrow>
          (case ParseAddr ip of
             None \<Rightarrow> None
           | Some a \<Rightarrow>
               if Zone a \<noteq> [] then None
               else if 1 < length bits \<and> hd bits = CHR ''0'' then None
               else map_option (PrefixFrom a) (ParseUint (if Is4 a then 32 else 128) bits)))"

section \<open>Text\<close>

definition groups_of :: "nat \<Rightarrow> nat \<Rightarrow> nat \<Rightarrow> nat list" where
  "groups_of k base n = map (\<lambda>i. n div base ^ (k - 1 - i) mod base) [0..<k]"

fun hex_text :: "nat \<Rightarrow> string" where
  "hex_text n = (if n < 16 then [hex_digit n] else hex_text (n div 16) @ [hex_digit (n mod 16)])"

declare hex_text.simps [simp del]

definition text4 :: "nat \<Rightarrow> string" where
  "text4 n = join_with ''.'' (map decimal (groups_of 4 256 n))"

text \<open>The first of the longest runs of at least two zero groups, as its bounds.\<close>

definition zero_run :: "nat list \<Rightarrow> nat \<times> nat" where
  "zero_run gs = foldl (\<lambda>(s, e) i. let l = length (takeWhile (\<lambda>g. g = 0) (drop i gs)) in
     if 2 \<le> l \<and> e - s < l then (i, i + l) else (s, e)) (255, 255) [0..<8]"

definition text6 :: "nat list \<Rightarrow> string" where
  "text6 gs = (case zero_run gs of (s, e) \<Rightarrow>
     if s = 255 then join_with '':'' (map hex_text gs)
     else join_with '':'' (map hex_text (take s gs)) @ ''::'' @ join_with '':'' (map hex_text (drop e gs)))"

fun Addr_String :: "addr \<Rightarrow> string" where
  "Addr_String (Addr4 w) = text4 (unat w)"
| "Addr_String (Addr6 w z) =
     (if Is4In6 (Addr6 w z) then ''::ffff:'' @ text4 (unat (ucast w :: 32 word)) else text6 (groups_of 8 65536 (unat w))) @
     (if z = [] then [] else CHR ''%'' # z)"

definition Prefix_String :: "prefix \<Rightarrow> string" where
  "Prefix_String p = Addr_String (prefix_Addr p) @ CHR ''/'' # decimal (prefix_Bits p)"

end
