(* ===== verification/Client_Address.thy ===== *)
theory Client_Address
  imports Netip
begin

text \<open>
  Who called (\<^verbatim>\<open>internal/transport/http/clientip.go\<close>): the address of a request, from its TCP peer and the
  forwarding headers of trusted proxies, and the key under which the rate limiter counts it. The request
  is its \<^verbatim>\<open>RemoteAddr\<close> and the values of its \<^verbatim>\<open>X-Forwarded-For\<close> header, in order. A resolver is its
  list of trusted networks, or \<^const>\<open>None\<close> for a nil pointer.
\<close>

section \<open>The resolver\<close>

definition forwardedForHeader :: string where "forwardedForHeader = ''X-Forwarded-For''"

definition NewClientAddressResolver :: "prefix list \<Rightarrow> prefix list option" where
  "NewClientAddressResolver trusted = Some trusted"

definition parseHop :: "string \<Rightarrow> addr option" where
  "parseHop untrimmed =
     (let v = TrimSpace untrimmed in
      if v = [] then None
      else case (case ParseAddr v of Some a \<Rightarrow> Some a | None \<Rightarrow> map_option fst (ParseAddrPort v)) of
        None \<Rightarrow> None
      | Some a \<Rightarrow> Some (WithZone (Unmap a) []))"

definition peerAddress :: "string \<Rightarrow> addr option" where
  "peerAddress remoteAddr =
     (case SplitHostPort remoteAddr of None \<Rightarrow> parseHop remoteAddr | Some host \<Rightarrow> parseHop host)"

definition forwardedHops :: "string list \<Rightarrow> string list" where
  "forwardedHops values = concat (map (\<lambda>v. map TrimSpace (split_on CHR '','' v)) values)"

fun trustedProxy :: "prefix list \<Rightarrow> addr \<Rightarrow> bool" where
  "trustedProxy [] a = False"
| "trustedProxy (p # ps) a = (if Prefix_Contains p a then True else trustedProxy ps a)"

text \<open>The walk over the hops, the newest first.\<close>

fun walk_hops :: "prefix list \<Rightarrow> addr \<Rightarrow> string list \<Rightarrow> addr" where
  "walk_hops trusted peer [] = peer"
| "walk_hops trusted peer (h # hs) =
     (case parseHop h of
        None \<Rightarrow> peer
      | Some hop \<Rightarrow>
          if \<not> trustedProxy trusted hop then hop
          else if hs = [] then hop
          else walk_hops trusted peer hs)"

definition Resolve :: "prefix list option \<Rightarrow> string \<Rightarrow> string list \<Rightarrow> addr option" where
  "Resolve r remoteAddr forwarded =
     (case peerAddress remoteAddr of
        None \<Rightarrow> None
      | Some peer \<Rightarrow>
          (case r of
             None \<Rightarrow> Some peer
           | Some trusted \<Rightarrow>
               if \<not> trustedProxy trusted peer then Some peer
               else Some (walk_hops trusted peer (rev (forwardedHops forwarded)))))"

definition ClientBucket :: "addr \<Rightarrow> prefix" where
  "ClientBucket a = (if Is4 a then PrefixFrom a 32 else Masked (PrefixFrom a 64))"

text \<open>\<^verbatim>\<open>ratelimit.Key\<close> of a bucket.\<close>

definition Key :: "prefix \<Rightarrow> string" where "Key p = Prefix_String p"

section \<open>Nobody chooses an identity\<close>

lemma forwardedHops_append: "forwardedHops (us @ vs) = forwardedHops us @ forwardedHops vs"
  by (simp add: forwardedHops_def)

lemma forwardedHops_appended:
  "\<forall>h \<in> set hs. CHR '','' \<notin> set h \<Longrightarrow>
   forwardedHops [v @ concat (map (\<lambda>h. CHR '','' # h) hs)] = forwardedHops [v] @ map TrimSpace hs"
proof (induction hs arbitrary: v)
  case (Cons h hs)
  then show ?case using Cons.IH [of "v @ CHR '','' # h"]
    by (simp add: forwardedHops_def split_on_sep split_on_word)
qed (simp add: forwardedHops_def)

lemma walk_trusted:
  "\<forall>h \<in> set ts. \<exists>p. parseHop h = Some p \<and> trustedProxy trusted p \<Longrightarrow> hs \<noteq> [] \<Longrightarrow>
   walk_hops trusted peer (ts @ hs) = walk_hops trusted peer hs"
  by (induction ts) auto

lemma walk_outsider:
  assumes "\<forall>h \<in> set ts. \<exists>p. parseHop h = Some p \<and> trustedProxy trusted p"
    and "parseHop h = Some a" and "\<not> trustedProxy trusted a"
  shows "walk_hops trusted peer (rev (us @ h # ts)) = a"
  using walk_trusted [of "rev ts" trusted "h # rev us" peer] assms by simp

text \<open>
  C35: nobody chooses an identity. The header of a peer that is no trusted proxy is not consulted. Behind
  trusted proxies, each appending the address it saw, the client is the first address from the right that
  is not a proxy's: whatever the client itself sent, in whichever and however many header values, it ends
  up left of that address and changes nothing.
\<close>

theorem Resolve_unforgeable:
  assumes "peerAddress remote = Some peer"
    and "\<forall>h \<in> set (client # proxies). CHR '','' \<notin> set h"
    and "\<forall>h \<in> set proxies. \<exists>p. parseHop (TrimSpace h) = Some p \<and> trustedProxy trusted p"
    and "parseHop (TrimSpace client) = Some a" and "\<not> trustedProxy trusted a"
  shows "Resolve (NewClientAddressResolver trusted) remote
      (forged @ [forged_value @ concat (map (\<lambda>h. CHR '','' # h) (client # proxies))]) =
    Some (if trustedProxy trusted peer then a else peer)"
proof -
  have hops: "forwardedHops (forged @ [forged_value @ concat (map (\<lambda>h. CHR '','' # h) (client # proxies))]) =
      (forwardedHops forged @ forwardedHops [forged_value]) @ TrimSpace client # map TrimSpace proxies"
    using forwardedHops_appended [OF assms(2), of forged_value] forwardedHops_append [of forged] by simp
  have "walk_hops trusted peer (rev (forwardedHops (forged @
      [forged_value @ concat (map (\<lambda>h. CHR '','' # h) (client # proxies))]))) = a"
    unfolding hops using assms(3,4,5) by (intro walk_outsider) auto
  with assms(1) show ?thesis by (simp add: Resolve_def NewClientAddressResolver_def)
qed

text \<open>A proxy at 10.0.0.1 in front of one at 10.0.0.2, and a client that forges two headers.\<close>

definition sample_trusted :: "prefix list" where
  "sample_trusted = [Prefix (Addr4 0x0a000000) 8]"

lemma sample_hops:
  "peerAddress ''10.0.0.1:443'' = Some (Addr4 0x0a000001)"
  "parseHop (TrimSpace '' 10.0.0.2'') = Some (Addr4 0x0a000002)"
  "parseHop (TrimSpace '' 203.0.113.9'') = Some (Addr4 0xcb007109)"
  by code_simp+

theorem Resolve_unforgeable_witness:
  "Resolve (NewClientAddressResolver sample_trusted) ''10.0.0.1:443'' [''1.1.1.1'', ''10.9.9.9, 203.0.113.9, 10.0.0.2''] =
     Some (Addr4 0xcb007109)"
  using Resolve_unforgeable [of "''10.0.0.1:443''" "Addr4 0x0a000001" "'' 203.0.113.9''" "['' 10.0.0.2'']" sample_trusted
      "Addr4 0xcb007109" "[''1.1.1.1'']" "''10.9.9.9''"]
  by (simp add: sample_hops sample_trusted_def)

section \<open>The bracketed spelling\<close>

lemma TrimSpace_ends:
  assumes "s \<noteq> []" and "plain_char (hd s)" and "plain_char (last s)"
  shows "TrimSpace s = s"
proof -
  have 1: "strip_heads white_space s = s"
    using assms by (intro strip_heads_id) (metis has_prefix_hd white_space_not_plain)
  have "strip_heads (map rev white_space) (rev s) = rev s"
  proof (rule strip_heads_id)
    fix w assume "w \<in> set (map rev white_space)"
    then obtain v where v: "v \<in> set white_space" "w = rev v" by auto
    show "w = [] \<or> \<not> has_prefix (rev s) w"
      using has_prefix_hd [of "rev s" w] white_space_not_plain [OF v(1)] assms(1,3) by (auto simp: v(2) hd_rev)
  qed
  with 1 show ?thesis by (simp add: TrimSpace_def)
qed
lemma parse_bracket: "ParseAddr (CHR ''['' # s) = None"
proof -
  have n: "hex_value CHR ''['' = None"  "dec_digit CHR ''['' = None" by code_simp+
  have "parseIPv4 (CHR ''['' # s) = None" by (simp add: parseIPv4_def n)
  moreover have "v6_groups (CHR ''['' # r) [] None = None" for r
    by (subst v6_groups.simps) (simp add: n)
  then have "parseIPv6 (CHR ''['' # s) = None" by (simp add: parseIPv6_def Let_def has_prefix_def)
  ultimately show ?thesis by (auto simp: ParseAddr_def split: option.splits)
qed
lemma port_bracket: "ParseAddrPort (s @ '']'') = None"
proof -
  have "split_last CHR '':'' (s @ '']'') = None \<or> (\<exists>u v. split_last CHR '':'' (s @ '']'') = Some (u, v @ '']''))"
    by (auto simp: split_last_def)
  moreover have "ParseUint n (v @ '']'') = None" for n v by (simp add: ParseUint_def is_digit_def)
  ultimately show ?thesis by (auto simp: ParseAddrPort_def Let_def)
qed
lemma sample_v6: "ParseAddr ''2001:db8::1'' = Some (Addr6 0x20010db8000000000000000000000001 [])"
  apply (simp add: ParseAddr_def parseIPv6_def has_prefix_def Let_def)
  apply (simp add: v6_groups.simps hex_value_def Let_def)
  apply (simp add: expand_ellipsis_def of_fields_def numeral_eq_Suc)
  done

lemma sample_v6_port: "ParseAddrPort ''[2001:db8::1]:443'' = Some (Addr6 0x20010db8000000000000000000000001 [], 443)"
  by (simp add: ParseAddrPort_def split_last_def ParseUint_def is_digit_def digits_value_def sample_v6)

text \<open>
  The bracketed spelling needs a port. A comment on \<^verbatim>\<open>parseHop\<close> counts a bracketed IPv6 address
  among the accepted spellings; but no text in brackets alone is accepted, so a hop written that way
  attributes the request to the proxy. With a port it is read.
\<close>

theorem bracketed_hop_refused:
  "parseHop (CHR ''['' # s @ '']'') = None \<and>
   parseHop ''[2001:db8::1]:443'' = Some (Addr6 0x20010db8000000000000000000000001 [])"
proof
  have "TrimSpace (CHR ''['' # s @ '']'') = CHR ''['' # s @ '']''"
    by (rule TrimSpace_ends) (simp_all add: plain_char_def)
  then show "parseHop (CHR ''['' # s @ '']'') = None"
    using port_bracket [of "CHR ''['' # s"] by (simp add: parseHop_def parse_bracket Let_def)
  have "TrimSpace ''[2001:db8::1]:443'' = ''[2001:db8::1]:443''"
    by (rule TrimSpace_ends) (simp_all add: plain_char_def)
  then show "parseHop ''[2001:db8::1]:443'' = Some (Addr6 0x20010db8000000000000000000000001 [])"
    by (simp add: parseHop_def parse_bracket sample_v6_port Let_def drop_bit_eq_div)
qed

end
