(* ===== verification/Float64.thy ===== *)
theory Float64
  imports Complex_Main GoLang "HOL-Library.Log_Nat"
begin

text \<open>
  Go's \<^verbatim>\<open>float64\<close> as far as the program uses it: finite values in the normal range, each operation the
  exact rational result rounded to the nearest multiple of a 53-bit unit, ties to even. Every quantity
  the program computes with is a token count or a number of seconds, far from overflow and from the
  subnormal range, so those are left out. The facts proved about rounding are the ones the rate limiter
  needs: it is monotone and leaves whole numbers up to \<open>2 ^ 53\<close> alone.
\<close>

section \<open>Rounding\<close>

definition round_even :: "rat \<Rightarrow> int" where
  "round_even x =
     (let f = \<lfloor>x\<rfloor>; d = x - of_int f in
      if d < 1 / 2 then f else if 1 / 2 < d then f + 1 else if even f then f else f + 1)"

text \<open>\<^term>\<open>exponent q\<close> is the \<open>e\<close> with \<open>2 ^ e \<le> q < 2 ^ (e + 1)\<close>, for positive \<open>q\<close>.\<close>

definition pow2 :: "int \<Rightarrow> rat" where
  "pow2 e = (if 0 \<le> e then 2 ^ nat e else 1 / 2 ^ nat (- e))"

definition exponent :: "rat \<Rightarrow> int" where
  "exponent q =
     (let (n, d) = quotient_of q; k = int (floorlog 2 (nat n)) - int (floorlog 2 (nat d))
      in if pow2 k \<le> q then k else k - 1)"

definition fl :: "rat \<Rightarrow> rat" where
  "fl q =
     (if q = 0 then 0
      else let u = pow2 (exponent \<bar>q\<bar> - 52)
           in if 0 < q then of_int (round_even (q / u)) * u else - (of_int (round_even (- q / u)) * u))"

section \<open>Facts\<close>

lemma round_even_bounds: "of_int \<lfloor>x\<rfloor> \<le> (of_int (round_even x) :: rat)" "round_even x \<le> \<lfloor>x\<rfloor> + 1" "\<lfloor>x\<rfloor> \<le> round_even x"
  by (auto simp: round_even_def Let_def)

lemma round_even_of_int [simp]: "round_even (of_int n) = n"
  by (simp add: round_even_def Let_def)

lemma round_even_mono: "x \<le> y \<Longrightarrow> round_even x \<le> round_even y"
proof (cases "\<lfloor>x\<rfloor> = \<lfloor>y\<rfloor>")
  case True
  assume "x \<le> y"
  then have "x - of_int \<lfloor>x\<rfloor> \<le> y - of_int \<lfloor>y\<rfloor>" using True by simp
  then show ?thesis using True by (auto simp: round_even_def Let_def)
next
  case False
  assume "x \<le> y"
  then have "\<lfloor>x\<rfloor> < \<lfloor>y\<rfloor>" using False floor_mono [of x y] by linarith
  with round_even_bounds(2) [of x] round_even_bounds(3) [of y] show ?thesis by linarith
qed

lemma pow2_pos [simp]: "0 < pow2 e"
  by (simp add: pow2_def)

lemma pow2_Suc: "pow2 (e + 1) = 2 * pow2 e"
proof (cases "0 \<le> e")
  case True
  then have "nat (e + 1) = Suc (nat e)" by simp
  with True show ?thesis by (simp add: pow2_def)
next
  case False
  show ?thesis
  proof (cases "e = -1")
    case False
    with \<open>\<not> 0 \<le> e\<close> have "nat (- e) = Suc (nat (- (e + 1)))" "\<not> 0 \<le> e + 1" by simp_all
    with \<open>\<not> 0 \<le> e\<close> show ?thesis by (simp add: pow2_def)
  qed (simp add: pow2_def)
qed

lemma pow2_add_nat: "pow2 (e + int n) = 2 ^ n * pow2 e"
proof (induction n)
  case (Suc n)
  have "pow2 (e + int (Suc n)) = pow2 ((e + int n) + 1)" by (simp add: ac_simps)
  with Suc show ?case by (simp only: pow2_Suc) simp
qed simp

lemma pow2_le: "e \<le> e' \<Longrightarrow> pow2 e \<le> pow2 e'"
  using pow2_add_nat [of e "nat (e' - e)"] by simp

lemma pow2_less_imp: "pow2 e < pow2 e' \<Longrightarrow> e < e'"
  using pow2_le [of e' e] by linarith

lemma floorlog_pow: "0 < n \<Longrightarrow> 2 ^ (floorlog 2 n - 1) \<le> n \<and> n < 2 ^ floorlog 2 n"
  using floorlog_bounds [of n 2] by simp

lemma of_int_powers:
  "2 ^ k \<le> n \<Longrightarrow> 2 ^ k \<le> (of_int n :: rat)" "n < 2 ^ k \<Longrightarrow> (of_int n :: rat) < 2 ^ k" "n \<le> 2 ^ k \<Longrightarrow> (of_int n :: rat) \<le> 2 ^ k"
  by (metis of_int_le_iff of_int_less_iff of_int_numeral of_int_power)+

lemma floorlog_rat:
  assumes "0 < n"
  shows "2 ^ (floorlog 2 (nat n) - 1) \<le> (of_int n :: rat)" "(of_int n :: rat) < 2 ^ floorlog 2 (nat n)" "1 \<le> floorlog 2 (nat n)"
proof -
  have "int (2 ^ (floorlog 2 (nat n) - 1)) \<le> int (nat n)" "int (nat n) < int (2 ^ floorlog 2 (nat n))"
    using floorlog_pow [of "nat n"] assms by (simp_all only: of_nat_le_iff of_nat_less_iff zero_less_nat_eq)
  with assms have "2 ^ (floorlog 2 (nat n) - 1) \<le> n" "n < 2 ^ floorlog 2 (nat n)" by simp_all
  then show "2 ^ (floorlog 2 (nat n) - 1) \<le> (of_int n :: rat)" "(of_int n :: rat) < 2 ^ floorlog 2 (nat n)"
    by (simp_all only: of_int_powers)
  show "1 \<le> floorlog 2 (nat n)" using assms by (simp add: floorlog_def)
qed

lemma pow2_diff: "pow2 (int a - int b) = 2 ^ a / 2 ^ b"
  using pow2_add_nat [of "int a - int b" b] by (simp add: pow2_def field_simps)

lemma exponent_bounds:
  assumes "0 < q"
  shows "pow2 (exponent q) \<le> q" and "q < 2 * pow2 (exponent q)"
proof -
  obtain n d where nd: "quotient_of q = (n, d)" by (cases "quotient_of q")
  have d: "0 < d" using quotient_of_denom_pos [OF nd] .
  have q: "q = of_int n / of_int d" using quotient_of_div [OF nd] .
  with assms d have n: "0 < n" by (simp add: zero_less_divide_iff)
  let ?a = "floorlog 2 (nat n)" and ?b = "floorlog 2 (nat d)"
  note a = floorlog_rat [OF n] and b = floorlog_rat [OF d]
  have up: "q < pow2 (int ?a - int ?b + 1)"
  proof -
    have "q < 2 ^ ?a / 2 ^ (?b - 1)"
      unfolding q using a(2) b(1) d n by (intro frac_less) auto
    also have "\<dots> = pow2 (int ?a - int (?b - 1))" by (simp add: pow2_diff)
    finally show ?thesis using b(3) by (simp add: of_nat_diff algebra_simps)
  qed
  have low: "pow2 (int ?a - int ?b - 1) \<le> q"
  proof -
    have "2 ^ (?a - 1) / 2 ^ ?b \<le> q"
      unfolding q using a(1) b(2) d n by (intro frac_le) auto
    moreover have "pow2 (int (?a - 1) - int ?b) = 2 ^ (?a - 1) / 2 ^ ?b" by (simp add: pow2_diff)
    ultimately show ?thesis using a(3) by (simp add: of_nat_diff algebra_simps)
  qed
  show "pow2 (exponent q) \<le> q" using low by (auto simp: exponent_def nd Let_def)
  show "q < 2 * pow2 (exponent q)"
    using up pow2_Suc [of "int ?a - int ?b"] pow2_Suc [of "int ?a - int ?b - 1"]
    by (auto simp: exponent_def nd Let_def)
qed

lemma exponent_unique:
  assumes "pow2 e \<le> q" and "q < 2 * pow2 e"
  shows "exponent q = e"
proof -
  have "0 < q" using assms(1) pow2_pos [of e] by linarith
  note b = exponent_bounds [OF this]
  have "pow2 e < pow2 (exponent q + 1)" "pow2 (exponent q) < pow2 (e + 1)"
    using assms b by (simp_all add: pow2_Suc)
  from this [THEN pow2_less_imp] show ?thesis by linarith
qed

lemma exponent_mono: "0 < q \<Longrightarrow> q \<le> r \<Longrightarrow> exponent q \<le> exponent r"
proof -
  assume "0 < q" "q \<le> r"
  then have "pow2 (exponent q) < pow2 (exponent r + 1)"
    using exponent_bounds [of q] exponent_bounds [of r] by (simp add: pow2_Suc)
  from this [THEN pow2_less_imp] show ?thesis by linarith
qed

lemma fl_0 [simp]: "fl 0 = 0"
  by (simp add: fl_def)

lemma fl_minus: "fl (- q) = - fl q"
  by (simp add: fl_def Let_def)

lemma fl_pos_bounds:
  assumes "0 < q"
  shows "pow2 (exponent q) \<le> fl q" and "fl q \<le> 2 * pow2 (exponent q)"
proof -
  let ?u = "pow2 (exponent q - 52)"
  have e: "pow2 (exponent q) = 2 ^ 52 * ?u" using pow2_add_nat [of "exponent q - 52" 52] by simp
  have "(2 :: rat) ^ 52 \<le> q / ?u" "q / ?u \<le> 2 ^ 53"
    using exponent_bounds [OF assms] by (simp_all add: e pos_le_divide_eq pos_divide_le_eq)
  then have "round_even (of_int (2 ^ 52)) \<le> round_even (q / ?u)" "round_even (q / ?u) \<le> round_even (of_int (2 ^ 53))"
    by (auto intro!: round_even_mono simp del: round_even_of_int)
  then have "2 ^ 52 \<le> round_even (q / ?u)" "round_even (q / ?u) \<le> 2 ^ 53" by (simp_all only: round_even_of_int)
  then have r: "2 ^ 52 \<le> (of_int (round_even (q / ?u)) :: rat)" "(of_int (round_even (q / ?u)) :: rat) \<le> 2 ^ 53"
    by (simp_all only: of_int_powers)
  have f: "fl q = of_int (round_even (q / ?u)) * ?u" using assms by (simp add: fl_def Let_def)
  show "pow2 (exponent q) \<le> fl q" unfolding f e using r(1) by (intro mult_right_mono less_imp_le [OF pow2_pos])
  have "of_int (round_even (q / ?u)) * ?u \<le> 2 ^ 53 * ?u" using r(2) by (intro mult_right_mono less_imp_le [OF pow2_pos])
  then show "fl q \<le> 2 * pow2 (exponent q)" unfolding f e by simp
qed

lemma fl_mono_pos:
  assumes "0 < q" and "q \<le> r"
  shows "fl q \<le> fl r"
proof (cases "exponent q = exponent r")
  case True
  let ?u = "pow2 (exponent r - 52)"
  have "round_even (q / ?u) \<le> round_even (r / ?u)"
    using assms by (intro round_even_mono divide_right_mono less_imp_le [OF pow2_pos])
  then show ?thesis using assms True by (simp add: fl_def Let_def)
next
  case False
  then have "exponent q + 1 \<le> exponent r" using exponent_mono [OF assms] by simp
  then have "2 * pow2 (exponent q) \<le> pow2 (exponent r)" using pow2_le pow2_Suc by metis
  with fl_pos_bounds(2) [OF assms(1)] fl_pos_bounds(1) [of r] assms show ?thesis by linarith
qed

lemma fl_nonneg: "0 \<le> q \<Longrightarrow> 0 \<le> fl q"
  using fl_pos_bounds(1) [of q] less_imp_le [OF pow2_pos [of "exponent q"]] by (cases "q = 0") (auto intro: order.trans)

lemma fl_mono: "q \<le> r \<Longrightarrow> fl q \<le> fl r"
proof -
  assume le: "q \<le> r"
  consider "0 < q" | "q \<le> 0" "0 \<le> r" | "r < 0" by linarith
  then show ?thesis
  proof cases
    case 2
    then show ?thesis using fl_nonneg [of r] fl_nonneg [of "- q"] by (simp add: fl_minus)
  next
    case 3
    then have "fl (- r) \<le> fl (- q)" using le by (intro fl_mono_pos) auto
    then show ?thesis by (simp add: fl_minus)
  qed (use le fl_mono_pos in auto)
qed

text \<open>Whole numbers up to \<open>2 ^ 53\<close> are exact.\<close>

lemma fl_of_int_pos:
  assumes "0 < n" and "n \<le> 2 ^ 53"
  shows "fl (of_int n) = of_int n"
proof -
  define e where "e = exponent (of_int n)"
  have n: "0 < (of_int n :: rat)" using assms(1) by simp
  have unit: "fl (of_int n) = of_int (round_even (of_int n / pow2 (e - 52))) * pow2 (e - 52)"
    using n by (simp add: fl_def Let_def e_def)
  show ?thesis
  proof (cases "e \<le> 52")
    case True
    have "pow2 (e - 52 + int (nat (52 - e))) = 2 ^ nat (52 - e) * pow2 (e - 52)" by (rule pow2_add_nat)
    with True have one: "2 ^ nat (52 - e) * pow2 (e - 52) = 1" by (simp add: pow2_def)
    have "of_int n / pow2 (e - 52) = of_int n * 2 ^ nat (52 - e)"
      using one less_imp_neq [OF pow2_pos [of "e - 52"]] by (simp add: field_simps)
    also have "\<dots> = of_int (n * 2 ^ nat (52 - e))" by simp
    finally have "fl (of_int n) = of_int (n * 2 ^ nat (52 - e)) * pow2 (e - 52)" unfolding unit by (simp only: round_even_of_int)
    with one show ?thesis by (simp add: mult.assoc)
  next
    case False
    have "pow2 53 \<le> pow2 e" using False by (intro pow2_le) simp
    also have "\<dots> \<le> of_int n" using exponent_bounds(1) [OF n] by (simp add: e_def)
    finally have "2 ^ 53 \<le> (of_int n :: rat)" by (simp add: pow2_def)
    moreover have "(of_int n :: rat) \<le> 2 ^ 53" using assms(2) by (rule of_int_powers)
    ultimately have n53: "(of_int n :: rat) = pow2 53" by (simp add: pow2_def)
    then have "e = 53" unfolding e_def by (intro exponent_unique) simp_all
    then have "of_int n / pow2 (e - 52) = of_int (2 ^ 52)" unfolding n53 by (simp add: pow2_def)
    then have "fl (of_int n) = of_int (2 ^ 52) * pow2 (e - 52)" unfolding unit by (simp only: round_even_of_int)
    with \<open>e = 53\<close> show ?thesis unfolding n53 by (simp add: pow2_def)
  qed
qed

lemma fl_of_int: "\<bar>n\<bar> \<le> 2 ^ 53 \<Longrightarrow> fl (of_int n) = of_int n"
  using fl_of_int_pos [of n] fl_of_int_pos [of "- n"] fl_minus [of "of_int n"]
  by (cases "n = 0"; cases "0 < n") auto

lemma fl_of_nat: "n \<le> 2 ^ 53 \<Longrightarrow> fl (of_nat n) = of_nat n"
  using fl_of_int [of "int n"] by simp

lemma fl_simps [simp]: "fl 1 = 1" "numeral w \<le> (2 :: int) ^ 53 \<Longrightarrow> fl (numeral w) = numeral w"
  using fl_of_int [of 1] fl_of_int [of "numeral w"] by simp_all

end
