(* ===== verification/Rate_Limit.thy ===== *)
theory Rate_Limit
  imports Float64 Amqp_Topology
begin

text \<open>
  Package \<^verbatim>\<open>internal/platform/ratelimit\<close>: a token bucket per key (\<^verbatim>\<open>bucket.go\<close>) in a bounded, least
  recently used store (\<^verbatim>\<open>limiter.go\<close>). Tokens are \<^verbatim>\<open>float64\<close>, modelled in \<^theory_text>\<open>Float64\<close>. The
  limiter's map from keys to list elements and its list are one thing here, the list of entries with the
  most recently used first: the map holds exactly the list's elements, under their keys.
\<close>

section \<open>Policies and buckets (bucket.go)\<close>

record policy =
  po_Burst :: int
  po_Interval :: duration

definition Policy_Validate :: "policy \<Rightarrow> string \<Rightarrow> goerr option" where
  "Policy_Validate p name =
     (if po_Burst p < 1 then Some (NewError (name @ '' burst must be at least 1''))
      else if po_Interval p \<le> 0 then Some (NewError (name @ '' interval must be positive''))
      else if quot (po_Interval p) (po_Burst p) \<le> 0
      then Some (NewError (name @ '' interval is too short to refill '' @ itoa (po_Burst p) @ '' tokens''))
      else None)"

definition tokenInterval :: "policy \<Rightarrow> duration" where
  "tokenInterval p = quot (po_Interval p) (po_Burst p)"

record rate_decision =
  rd_Allowed :: bool
  rd_RetryAfter :: duration

record bucket =
  bk_tokens :: rat
  bk_updatedAt :: instant

text \<open>\<^verbatim>\<open>time.Time.Sub\<close> saturates at the bounds of int64; \<^verbatim>\<open>time.Duration.Seconds\<close> adds the whole and
  the fractional seconds in floating point; a conversion to an integer truncates.\<close>

definition time_Sub :: "instant \<Rightarrow> instant \<Rightarrow> duration" where
  "time_Sub a b = (let d = a - b in if d > MaxInt64 then MaxInt64 else if d < - (2 ^ 63) then - (2 ^ 63) else d)"

definition Seconds :: "duration \<Rightarrow> rat" where
  "Seconds d = (let sec = quot d Second; nsec = d - sec * Second
     in fl (fl (of_int sec) + fl (fl (of_int nsec) / 10 ^ 9)))"

definition roundUpToSecond :: "duration \<Rightarrow> duration" where
  "roundUpToSecond wait =
     (if wait \<le> Second then Second
      else let rounded = wait - wait mod Second
           in if rounded < wait then int64 (rounded + Second) else rounded)"

definition refill :: "policy \<Rightarrow> instant \<Rightarrow> bucket \<Rightarrow> rat" where
  "refill p now b =
     (let burst = fl (of_int (po_Burst p)); elapsed = time_Sub now (bk_updatedAt b)
      in if 0 < elapsed
         then min burst (fl (bk_tokens b + fl (Seconds elapsed / Seconds (tokenInterval p))))
         else bk_tokens b)"

definition take_token :: "policy \<Rightarrow> instant \<Rightarrow> bucket \<Rightarrow> bucket \<times> rate_decision" where
  "take_token p now b =
     (let tokens = refill p now b in
      if 1 \<le> tokens
      then (\<lparr>bk_tokens = fl (tokens - 1), bk_updatedAt = now\<rparr>, \<lparr>rd_Allowed = True, rd_RetryAfter = 0\<rparr>)
      else let missing = fl (1 - tokens);
               wait = \<lfloor>fl (missing * fl (of_int (tokenInterval p)))\<rfloor>
           in (\<lparr>bk_tokens = tokens, bk_updatedAt = now\<rparr>,
               \<lparr>rd_Allowed = False, rd_RetryAfter = roundUpToSecond wait\<rparr>))"

section \<open>The limiter (limiter.go)\<close>

type_synonym entry = "string \<times> bucket"

record limiter =
  li_policy :: policy
  li_capacity :: int
  li_ttl :: duration
  li_order :: "entry list"

definition New_limiter :: "policy \<Rightarrow> int \<Rightarrow> duration \<Rightarrow> string \<Rightarrow> limiter result" where
  "New_limiter p capacity ttl name =
     (case Policy_Validate p name of
        Some e \<Rightarrow> Inl e
      | None \<Rightarrow>
          if capacity < 1 then Inl (NewError (name @ '' capacity must be at least 1''))
          else if ttl < 0 then Inl (NewError (name @ '' TTL must not be negative''))
          else Inr \<lparr>li_policy = p, li_capacity = capacity, li_ttl = ttl, li_order = []\<rparr>)"

text \<open>The two loops take entries from the back of the list, so they run over its reverse.\<close>

fun expire_oldest :: "duration \<Rightarrow> instant \<Rightarrow> entry list \<Rightarrow> entry list" where
  "expire_oldest ttl now [] = []"
| "expire_oldest ttl now (e # es) =
     (if time_Sub now (bk_updatedAt (snd e)) < ttl then e # es else expire_oldest ttl now es)"

definition expire :: "instant \<Rightarrow> limiter \<Rightarrow> limiter" where
  "expire now l =
     (if li_ttl l \<le> 0 then l else l\<lparr>li_order := rev (expire_oldest (li_ttl l) now (rev (li_order l)))\<rparr>)"

fun evict_oldest :: "int \<Rightarrow> entry list \<Rightarrow> entry list" where
  "evict_oldest capacity [] = []"
| "evict_oldest capacity (e # es) =
     (if capacity \<le> int (length (e # es)) then evict_oldest capacity es else e # es)"

definition evictIfFull :: "limiter \<Rightarrow> limiter" where
  "evictIfFull l = l\<lparr>li_order := rev (evict_oldest (li_capacity l) (rev (li_order l)))\<rparr>"

definition lookup :: "limiter \<Rightarrow> string \<Rightarrow> bucket option" where
  "lookup l key = map_of (li_order l) key"

definition Allow :: "instant \<Rightarrow> string \<Rightarrow> limiter \<Rightarrow> limiter \<times> rate_decision" where
  "Allow now key l0 =
     (let l1 = expire now l0 in
      let (l2, b) =
        (case lookup l1 key of
           None \<Rightarrow> (evictIfFull l1, \<lparr>bk_tokens = fl (of_int (po_Burst (li_policy l1))), bk_updatedAt = now\<rparr>)
         | Some b \<Rightarrow> (l1\<lparr>li_order := filter (\<lambda>e. fst e \<noteq> key) (li_order l1)\<rparr>, b)) in
      let (b', d) = take_token (li_policy l2) now b
      in (l2\<lparr>li_order := (key, b') # li_order l2\<rparr>, d))"

definition Limiter_Len :: "limiter \<Rightarrow> nat" where "Limiter_Len l = length (li_order l)"

section \<open>Properties of a bucket\<close>

text \<open>A policy that was accepted and whose burst is a whole number in floating point.\<close>

definition policy_ok :: "policy \<Rightarrow> bool" where
  "policy_ok p \<longleftrightarrow> 1 \<le> po_Burst p \<and> po_Burst p \<le> 2 ^ 53 \<and> 0 < tokenInterval p"

lemma Policy_Validate_ok: "Policy_Validate p name = None \<Longrightarrow> po_Burst p \<le> 2 ^ 53 \<Longrightarrow> policy_ok p"
  by (auto simp: Policy_Validate_def policy_ok_def tokenInterval_def split: if_splits)

definition bucket_ok :: "policy \<Rightarrow> bucket \<Rightarrow> bool" where
  "bucket_ok p b \<longleftrightarrow> 0 \<le> bk_tokens b \<and> bk_tokens b \<le> of_int (po_Burst p)"

lemma Seconds_nonneg: "0 \<le> d \<Longrightarrow> 0 \<le> Seconds d"
proof -
  assume d: "0 \<le> d"
  have q: "quot d Second = d div Second" using d by (simp add: quot_nonneg Second_def)
  have "0 \<le> d - d div Second * Second" by (simp add: minus_div_mult_eq_mod Second_def)
  with d show ?thesis unfolding Seconds_def Let_def q
    by (intro fl_nonneg add_nonneg_nonneg divide_nonneg_pos) (auto simp: Second_def pos_imp_zdiv_nonneg_iff)
qed

lemma refill_ok:
  assumes "policy_ok p" and "bucket_ok p b"
  shows "0 \<le> refill p now b \<and> refill p now b \<le> of_int (po_Burst p)"
proof -
  have burst: "fl (of_int (po_Burst p)) = of_int (po_Burst p)" using assms(1) by (intro fl_of_int) (auto simp: policy_ok_def)
  have "0 \<le> fl (bk_tokens b + fl (Seconds e / Seconds (tokenInterval p)))" if "0 < e" for e
    using assms that by (intro fl_nonneg add_nonneg_nonneg divide_nonneg_nonneg Seconds_nonneg) (auto simp: bucket_ok_def policy_ok_def)
  with assms show ?thesis
    unfolding refill_def Let_def burst by (auto simp: bucket_ok_def policy_ok_def)
qed

lemma roundUpToSecond_props: "wait < 2 ^ 62 \<Longrightarrow> Second \<le> roundUpToSecond wait \<and> roundUpToSecond wait mod Second = 0 \<and> wait \<le> roundUpToSecond wait"
proof -
  assume w: "wait < 2 ^ 62"
  show ?thesis
  proof (cases "wait \<le> Second")
    case False
    let ?r = "wait - wait mod Second"
    have r: "?r mod Second = 0" "Second \<le> ?r" "?r \<le> wait" "wait < ?r + Second"
    proof -
      show "?r mod Second = 0" by (simp add: minus_mod_eq_mult_div)
      have "1 \<le> wait div Second" using False zdiv_mono1 [of Second wait Second] by (simp add: Second_def)
      then show "Second \<le> ?r" by (simp add: minus_mod_eq_mult_div Second_def)
      show "?r \<le> wait" "wait < ?r + Second" by (simp_all add: Second_def)
    qed
    moreover have "int64 (?r + Second) = ?r + Second"
      using r w False by (intro int64_id) (auto simp: Second_def)
    ultimately show ?thesis using False by (auto simp: roundUpToSecond_def Let_def)
  qed (simp add: roundUpToSecond_def)
qed

lemma take_token_ok:
  assumes "policy_ok p" and "bucket_ok p b" and "take_token p now b = (b', d)"
  shows "bucket_ok p b'"
proof -
  note r = refill_ok [OF assms(1,2), of now]
  show ?thesis
  proof (cases "1 \<le> refill p now b")
    case True
    have "fl (refill p now b - 1) \<le> fl (of_int (po_Burst p))" using r by (intro fl_mono) linarith
    moreover have "fl (of_int (po_Burst p)) = of_int (po_Burst p)" using assms(1) by (intro fl_of_int) (auto simp: policy_ok_def)
    moreover have "0 \<le> fl (refill p now b - 1)" using True by (intro fl_nonneg) simp
    ultimately show ?thesis using assms(3) True by (auto simp: take_token_def Let_def bucket_ok_def)
  next
    case False
    with assms(3) r show ?thesis by (auto simp: take_token_def Let_def bucket_ok_def)
  qed
qed

text \<open>The longest wait is one token's interval, so rounding it up does not overflow.\<close>

lemma refusal_wait:
  assumes "policy_ok p" and "bucket_ok p b" and "tokenInterval p \<le> 2 ^ 53" and "\<not> 1 \<le> refill p now b"
  shows "\<lfloor>fl (fl (1 - refill p now b) * fl (of_int (tokenInterval p)))\<rfloor> < 2 ^ 62"
proof -
  let ?ti = "of_int (tokenInterval p) :: rat"
  note r = refill_ok [OF assms(1,2), of now]
  have ti: "0 < tokenInterval p" using assms(1) by (simp add: policy_ok_def)
  have fti: "fl ?ti = ?ti" using ti assms(3) by (intro fl_of_int) simp
  have "fl (1 - refill p now b) \<le> fl 1" using r by (intro fl_mono) simp
  also have "fl (1 :: rat) = 1" using fl_of_int [of 1] by simp
  finally have "fl (1 - refill p now b) * ?ti \<le> ?ti" using ti assms(4) by (simp add: mult_left_le_one_le fl_nonneg)
  then have "fl (fl (1 - refill p now b) * ?ti) \<le> fl ?ti" by (rule fl_mono)
  then have "\<lfloor>fl (fl (1 - refill p now b) * fl ?ti)\<rfloor> \<le> tokenInterval p" unfolding fti by (simp add: floor_le_iff)
  also note assms(3)
  finally show ?thesis by simp
qed

lemma take_token_refused:
  assumes "policy_ok p" and "bucket_ok p b" and "tokenInterval p \<le> 2 ^ 53"
    and "take_token p now b = (b', d)" and "\<not> rd_Allowed d"
  shows "b' = \<lparr>bk_tokens = refill p now b, bk_updatedAt = now\<rparr> \<and> Second \<le> rd_RetryAfter d \<and> rd_RetryAfter d mod Second = 0"
  using refusal_wait [OF assms(1-3)] assms(4,5) roundUpToSecond_props
  by (auto simp: take_token_def Let_def split: if_splits)

lemma tokenInterval_le: "Policy_Validate p name = None \<Longrightarrow> po_Interval p \<le> n \<Longrightarrow> tokenInterval p \<le> n"
proof -
  assume "Policy_Validate p name = None" "po_Interval p \<le> n"
  then have pos: "1 \<le> po_Burst p" "0 < po_Interval p" "po_Interval p \<le> n" by (auto simp: Policy_Validate_def split: if_splits)
  then have "tokenInterval p = po_Interval p div po_Burst p" by (simp add: tokenInterval_def quot_nonneg)
  also have "\<dots> \<le> po_Interval p" using zdiv_mono2 [of "po_Interval p" 1 "po_Burst p"] pos by simp
  finally show "tokenInterval p \<le> n" using pos by simp
qed

text \<open>
  C37: a bucket stays between empty and one burst, and a refusal always tells the client to wait. Floating
  point rounding included, a call never drives the credit below zero nor above the burst; it is allowed
  exactly when a whole token is there after the refill, with no wait; a refusal takes nothing and asks for
  a whole positive number of seconds.
\<close>

theorem take_token_bounds:
  assumes "Policy_Validate p name = None" and "po_Burst p \<le> 2 ^ 53" and "po_Interval p \<le> 2 ^ 53"
    and "0 \<le> bk_tokens b" and "bk_tokens b \<le> of_int (po_Burst p)"
  shows "case take_token p now b of (b', d) \<Rightarrow>
     0 \<le> bk_tokens b' \<and> bk_tokens b' \<le> of_int (po_Burst p) \<and> bk_updatedAt b' = now \<and>
     (rd_Allowed d \<longleftrightarrow> 1 \<le> refill p now b) \<and>
     (if rd_Allowed d then rd_RetryAfter d = 0
      else bk_tokens b' = refill p now b \<and> Second \<le> rd_RetryAfter d \<and> rd_RetryAfter d mod Second = 0)"
proof -
  have p: "policy_ok p" using assms(1,2) by (rule Policy_Validate_ok)
  have b: "bucket_ok p b" using assms(4,5) by (simp add: bucket_ok_def)
  obtain b' d where t: "take_token p now b = (b', d)" by (cases "take_token p now b")
  have ti: "tokenInterval p \<le> 2 ^ 53" using assms(1,3) by (rule tokenInterval_le)
  from take_token_ok [OF p b t] take_token_refused [OF p b ti t] t show ?thesis
    by (cases "rd_Allowed d") (auto simp: take_token_def Let_def bucket_ok_def split: if_splits)
qed

theorem take_token_bounds_witness:
  "case take_token \<lparr>po_Burst = 1, po_Interval = 10 * Second\<rparr> 7 \<lparr>bk_tokens = 0, bk_updatedAt = 7\<rparr> of (b', d) \<Rightarrow>
     0 \<le> bk_tokens b' \<and> \<not> rd_Allowed d \<and> Second \<le> rd_RetryAfter d"
proof -
  let ?p = "\<lparr>po_Burst = 1, po_Interval = 10 * Second\<rparr>" and ?b = "\<lparr>bk_tokens = 0, bk_updatedAt = 7\<rparr>"
  have "Policy_Validate ?p [] = None" by (simp add: Policy_Validate_def Second_def quot_def)
  moreover have "\<not> 1 \<le> refill ?p 7 ?b" by (simp add: refill_def time_Sub_def MaxInt64_def)
  ultimately show ?thesis
    using take_token_bounds [of ?p "[]" ?b 7] by (auto simp: Second_def split: prod.splits if_splits)
qed

text \<open>Successive calls at the given instants, from the same bucket.\<close>

fun takes :: "policy \<Rightarrow> instant list \<Rightarrow> bucket \<Rightarrow> bool list" where
  "takes p [] b = []"
| "takes p (now # ts) b = (case take_token p now b of (b', d) \<Rightarrow> rd_Allowed d # takes p ts b')"

lemma takes_same_instant:
  assumes "int k \<le> 2 ^ 53"
  shows "takes p (replicate n now) \<lparr>bk_tokens = of_nat k, bk_updatedAt = now\<rparr> = replicate (min n k) True @ replicate (n - k) False"
  using assms
proof (induction n arbitrary: k)
  case (Suc n)
  have r: "refill p now \<lparr>bk_tokens = of_nat k, bk_updatedAt = now\<rparr> = of_nat k" by (simp add: refill_def time_Sub_def Let_def MaxInt64_def)
  show ?case
  proof (cases k)
    case 0
    with r Suc.IH [of 0] show ?thesis by (simp add: take_token_def Let_def)
  next
    case (Suc j)
    have "fl (of_nat k - 1) = of_nat j" using Suc.prems Suc fl_of_nat [of j] by simp
    moreover have "1 \<le> (of_nat k :: rat)" using Suc by simp
    ultimately show ?thesis using r Suc.IH [of j] Suc.prems Suc by (simp add: take_token_def Let_def)
  qed
qed simp

text \<open>
  A new caller gets exactly one burst. From the full bucket a new key starts with, of any number of
  calls at one instant exactly the first burst of them are allowed and every further one is refused.
\<close>

theorem fresh_bucket_allows_burst:
  assumes "1 \<le> po_Burst p" and "po_Burst p \<le> 2 ^ 53"
  shows "takes p (replicate n now) \<lparr>bk_tokens = fl (of_int (po_Burst p)), bk_updatedAt = now\<rparr> =
    replicate (min n (nat (po_Burst p))) True @ replicate (n - nat (po_Burst p)) False"
proof -
  have "fl (of_int (po_Burst p)) = (of_nat (nat (po_Burst p)) :: rat)" using fl_of_int [of "po_Burst p"] assms by simp
  with takes_same_instant [of "nat (po_Burst p)" p n now] assms show ?thesis by simp
qed

theorem fresh_bucket_allows_burst_witness:
  "takes \<lparr>po_Burst = 2, po_Interval = Minute\<rparr> (replicate 3 9) \<lparr>bk_tokens = fl 2, bk_updatedAt = 9\<rparr> = [True, True, False]"
  using fresh_bucket_allows_burst [of "\<lparr>po_Burst = 2, po_Interval = Minute\<rparr>" 3 9] by (simp add: numeral_eq_Suc)

text \<open>
  A clock read out of order is paid twice. \<^verbatim>\<open>Allow\<close> reads the clock before it takes the lock, so
  racing calls may reach the bucket in another order than that of their instants; \<^verbatim>\<open>take\<close> then moves the
  bucket's instant back, and the next call is credited for the same time again: of the same five calls,
  three pass where two do when they arrive in the order of their instants.
\<close>

theorem backward_clock_refills_twice:
  "takes \<lparr>po_Burst = 1, po_Interval = 10 * Second\<rparr> [10 * Second, 0, 10 * Second, 0, 10 * Second]
     \<lparr>bk_tokens = 1, bk_updatedAt = 0\<rparr> = [True, False, True, False, True] \<and>
   takes \<lparr>po_Burst = 1, po_Interval = 10 * Second\<rparr> [0, 0, 10 * Second, 10 * Second, 10 * Second]
     \<lparr>bk_tokens = 1, bk_updatedAt = 0\<rparr> = [True, False, True, False, False]"
proof -
  let ?p = "\<lparr>po_Burst = 1, po_Interval = 10 * Second\<rparr>"
  have sec: "Seconds (10 * Second) = 10" "tokenInterval ?p = 10 * Second"
    by (simp_all add: Seconds_def tokenInterval_def quot_def Second_def)
  have ten: "refill ?p (10 * Second) \<lparr>bk_tokens = t, bk_updatedAt = 0\<rparr> = min 1 (fl (t + 1))" for t
    using sec by (simp add: refill_def time_Sub_def MaxInt64_def Let_def) (simp add: Second_def)
  have same: "refill ?p now \<lparr>bk_tokens = t, bk_updatedAt = now\<rparr> = t" for now t
    by (simp add: refill_def time_Sub_def MaxInt64_def Let_def)
  have earlier_call: "refill ?p 0 \<lparr>bk_tokens = t, bk_updatedAt = 10 * Second\<rparr> = t" for t
    by (simp add: refill_def time_Sub_def MaxInt64_def Let_def Second_def)
  have two: "fl (2 :: rat) = 2" by simp
  show ?thesis by (simp add: take_token_def ten same earlier_call two)
qed

section \<open>Properties of the limiter\<close>

definition limiter_ok :: "limiter \<Rightarrow> bool" where
  "limiter_ok l \<longleftrightarrow> policy_ok (li_policy l) \<and> 1 \<le> li_capacity l \<and> int (length (li_order l)) \<le> li_capacity l \<and>
     distinct (map fst (li_order l)) \<and> (\<forall>e \<in> set (li_order l). bucket_ok (li_policy l) (snd e))"

text \<open>Both loops keep a suffix of the entries they are given, so the store loses only its oldest ones.\<close>

lemma expire_suffix: "\<exists>k. expire_oldest ttl now es = drop k es"
proof (induction es)
  case (Cons e es)
  then obtain k where "expire_oldest ttl now es = drop k es" by blast
  then have "expire_oldest ttl now (e # es) = drop (if time_Sub now (bk_updatedAt (snd e)) < ttl then 0 else Suc k) (e # es)" by simp
  then show ?case by blast
qed simp

lemma evict_suffix: "\<exists>k. evict_oldest c es = drop k es"
proof (induction es)
  case (Cons e es)
  then obtain k where "evict_oldest c es = drop k es" by blast
  then have "evict_oldest c (e # es) = drop (if c \<le> int (length (e # es)) then Suc k else 0) (e # es)" by simp
  then show ?case by blast
qed simp

lemma evict_room: "1 \<le> c \<Longrightarrow> int (length (evict_oldest c es)) < c"
  by (induction es) auto

lemma rev_drop_take: "rev (drop k (rev xs)) = take (length xs - k) xs"
  by (simp add: rev_drop)

lemma expire_take: "\<exists>n. expire now l = l\<lparr>li_order := take n (li_order l)\<rparr>"
proof (cases "li_ttl l \<le> 0")
  case True
  then have "expire now l = l\<lparr>li_order := take (length (li_order l)) (li_order l)\<rparr>" by (simp add: expire_def)
  then show ?thesis by blast
next
  case False
  then show ?thesis using expire_suffix [of "li_ttl l" now "rev (li_order l)"] by (auto simp: expire_def rev_drop_take)
qed

lemma evict_take: "\<exists>n. evictIfFull l = l\<lparr>li_order := take n (li_order l)\<rparr>"
  using evict_suffix [of "li_capacity l" "rev (li_order l)"] by (auto simp: evictIfFull_def rev_drop_take)

lemma map_of_take: "map_of (take n xs) k = Some v \<Longrightarrow> map_of xs k = Some v"
  by (metis append_take_drop_id map_add_Some_iff map_of_append map_add_SomeD)

lemma limiter_ok_take: "limiter_ok l \<Longrightarrow> limiter_ok (l\<lparr>li_order := take n (li_order l)\<rparr>)"
  by (auto simp: limiter_ok_def take_map [symmetric] dest: in_set_takeD)

lemma lookup_take: "lookup (l\<lparr>li_order := take n (li_order l)\<rparr>) k = None \<or> lookup (l\<lparr>li_order := take n (li_order l)\<rparr>) k = lookup l k"
  using map_of_take [of n "li_order l" k] by (cases "map_of (take n (li_order l)) k") (auto simp: lookup_def)

text \<open>The entries a call keeps beside the one of its own key, before that is put in front.\<close>

definition others :: "instant \<Rightarrow> string \<Rightarrow> limiter \<Rightarrow> limiter" where
  "others now key l0 = (let l1 = expire now l0 in case lookup l1 key of
     None \<Rightarrow> evictIfFull l1 | Some _ \<Rightarrow> l1\<lparr>li_order := filter (\<lambda>e. fst e \<noteq> key) (li_order l1)\<rparr>)"

definition own_bucket :: "instant \<Rightarrow> string \<Rightarrow> limiter \<Rightarrow> bucket" where
  "own_bucket now key l0 = (case lookup (expire now l0) key of
     None \<Rightarrow> \<lparr>bk_tokens = fl (of_int (po_Burst (li_policy l0))), bk_updatedAt = now\<rparr> | Some b \<Rightarrow> b)"

lemma others_policy [simp]: "li_policy (others now key l) = li_policy l" "li_capacity (others now key l) = li_capacity l"
  by (simp_all add: others_def expire_def evictIfFull_def Let_def split: option.splits)

lemma Allow_eq: "Allow now key l = (case take_token (li_policy l) now (own_bucket now key l) of
    (b', d) \<Rightarrow> ((others now key l)\<lparr>li_order := (key, b') # li_order (others now key l)\<rparr>, d))"
  by (auto simp: Allow_def others_def own_bucket_def expire_def evictIfFull_def Let_def split: option.splits prod.splits)

lemma own_bucket_ok:
  assumes "limiter_ok l"
  shows "bucket_ok (li_policy l) (own_bucket now key l)"
proof (cases "lookup (expire now l) key")
  case None
  have "fl (of_int (po_Burst (li_policy l))) = of_int (po_Burst (li_policy l))"
    using assms by (intro fl_of_int) (auto simp: limiter_ok_def policy_ok_def)
  with None assms show ?thesis by (simp add: own_bucket_def bucket_ok_def limiter_ok_def policy_ok_def)
next
  case (Some b)
  obtain n where "expire now l = l\<lparr>li_order := take n (li_order l)\<rparr>" using expire_take by blast
  with Some have "(key, b) \<in> set (li_order l)" by (auto simp: lookup_def dest!: map_of_SomeD dest: in_set_takeD)
  with Some assms show ?thesis by (auto simp: own_bucket_def limiter_ok_def)
qed

lemma filter_key_length: "map_of es key = Some b \<Longrightarrow> length (filter (\<lambda>e. fst e \<noteq> key) es) < length es"
  using length_filter_less [of "(key, b)" es "\<lambda>e. fst e \<noteq> key"] by (auto dest: map_of_SomeD)

lemma map_of_filter_key: "k \<noteq> key \<Longrightarrow> map_of (filter (\<lambda>e. fst e \<noteq> key) es) k = map_of es k"
  by (induction es) auto

lemma others_ok:
  assumes "limiter_ok l"
  shows "limiter_ok (others now key l)" and "int (length (li_order (others now key l))) < li_capacity l"
    and "key \<notin> fst ` set (li_order (others now key l))"
    and "k \<noteq> key \<Longrightarrow> lookup (others now key l) k = None \<or> lookup (others now key l) k = lookup l k"
proof -
  obtain n where e: "expire now l = l\<lparr>li_order := take n (li_order l)\<rparr>" using expire_take by blast
  have ok: "limiter_ok (expire now l)" unfolding e by (rule limiter_ok_take [OF assms])
  have kept: "lookup (expire now l) k = None \<or> lookup (expire now l) k = lookup l k" for k unfolding e by (rule lookup_take)
  have cap: "li_capacity (expire now l) = li_capacity l" "1 \<le> li_capacity l" using assms by (simp_all add: e limiter_ok_def)
  have "limiter_ok (others now key l) \<and> int (length (li_order (others now key l))) < li_capacity l \<and>
    key \<notin> fst ` set (li_order (others now key l)) \<and>
    (k \<noteq> key \<longrightarrow> lookup (others now key l) k = None \<or> lookup (others now key l) k = lookup l k)"
  proof (cases "lookup (expire now l) key")
    case None
    obtain m where m: "evictIfFull (expire now l) = (expire now l)\<lparr>li_order := take m (li_order (expire now l))\<rparr>" using evict_take by blast
    have o: "others now key l = evictIfFull (expire now l)" using None by (simp add: others_def Let_def)
    have "int (length (li_order (evictIfFull (expire now l)))) < li_capacity l"
      using evict_room [of "li_capacity l"] cap by (simp add: evictIfFull_def)
    moreover have "key \<notin> fst ` set (li_order (evictIfFull (expire now l)))"
      using None by (auto simp: m lookup_def map_of_eq_None_iff dest: in_set_takeD)
    moreover have "limiter_ok (evictIfFull (expire now l))" unfolding m by (rule limiter_ok_take [OF ok])
    moreover have "lookup (evictIfFull (expire now l)) k = None \<or> lookup (evictIfFull (expire now l)) k = lookup l k"
      using lookup_take [of m "expire now l" k] kept [of k] unfolding m by metis
    ultimately show ?thesis by (simp add: o)
  next
    case (Some b)
    have o: "others now key l = (expire now l)\<lparr>li_order := filter (\<lambda>e. fst e \<noteq> key) (li_order (expire now l))\<rparr>"
      using Some by (simp add: others_def Let_def)
    have len: "length (li_order (others now key l)) < length (li_order (expire now l))"
      using filter_key_length Some by (simp add: o lookup_def)
    have "limiter_ok (others now key l)" using ok len
      by (auto simp: o limiter_ok_def distinct_map_filter)
    moreover have "lookup (others now key l) k = lookup (expire now l) k" if "k \<noteq> key"
      using that by (simp add: o lookup_def map_of_filter_key)
    ultimately show ?thesis using len ok cap kept [of k] by (auto simp: o limiter_ok_def)
  qed
  then show "limiter_ok (others now key l)" "int (length (li_order (others now key l))) < li_capacity l"
    "key \<notin> fst ` set (li_order (others now key l))"
    "k \<noteq> key \<Longrightarrow> lookup (others now key l) k = None \<or> lookup (others now key l) k = lookup l k" by blast+
qed

lemma Allow_ok:
  assumes "limiter_ok l" and "Allow now key l = (l', d)"
  shows "limiter_ok l'"
proof -
  obtain b' where t: "take_token (li_policy l) now (own_bucket now key l) = (b', d)"
    and l': "l' = (others now key l)\<lparr>li_order := (key, b') # li_order (others now key l)\<rparr>"
    using assms(2) by (auto simp: Allow_eq split: prod.splits)
  have "bucket_ok (li_policy l) b'"
    using assms(1) own_bucket_ok [OF assms(1)] t by (intro take_token_ok [where b' = b']) (auto simp: limiter_ok_def)
  with others_ok [OF assms(1), where now = now and key = key] show ?thesis by (auto simp: l' limiter_ok_def)
qed

lemma Allow_policy: "Allow now key l = (l', d) \<Longrightarrow> li_policy l' = li_policy l \<and> li_capacity l' = li_capacity l"
  by (auto simp: Allow_eq split: prod.splits)

text \<open>A refusal asks for a whole positive number of seconds.\<close>

lemma Allow_refused:
  assumes "limiter_ok l" and "tokenInterval (li_policy l) \<le> 2 ^ 53" and "Allow now key l = (l', d)" and "\<not> rd_Allowed d"
  shows "Second \<le> rd_RetryAfter d \<and> rd_RetryAfter d mod Second = 0"
proof -
  obtain b' where t: "take_token (li_policy l) now (own_bucket now key l) = (b', d)"
    using assms(3) by (auto simp: Allow_eq split: prod.splits)
  have "bucket_ok (li_policy l) (own_bucket now key l)" using own_bucket_ok [OF assms(1)] by blast
  then show ?thesis using take_token_refused [OF _ _ assms(2) t assms(4)] assms(1) by (simp add: limiter_ok_def)
qed

text \<open>The limiter after calls at the given instants for the given keys.\<close>

fun calls :: "(instant \<times> string) list \<Rightarrow> limiter \<Rightarrow> limiter" where
  "calls [] l = l"
| "calls ((now, key) # cs) l = calls cs (fst (Allow now key l))"

lemma calls_ok: "limiter_ok l \<Longrightarrow> limiter_ok (calls cs l) \<and> li_capacity (calls cs l) = li_capacity l \<and> li_policy (calls cs l) = li_policy l"
proof (induction cs arbitrary: l)
  case (Cons c cs)
  obtain now key where c: "c = (now, key)" by (cases c)
  obtain l' d where a: "Allow now key l = (l', d)" by (cases "Allow now key l")
  then have "li_capacity l' = li_capacity l" "li_policy l' = li_policy l" by (auto simp: Allow_eq split: prod.splits)
  with Cons.IH [OF Allow_ok [OF Cons.prems a]] show ?case by (simp add: c a)
qed simp

lemma New_limiter_ok: "New_limiter p cap ttl name = Inr l \<Longrightarrow> po_Burst p \<le> 2 ^ 53 \<Longrightarrow>
    limiter_ok l \<and> li_capacity l = cap \<and> li_policy l = p"
  by (auto simp: New_limiter_def limiter_ok_def intro: Policy_Validate_ok split: option.splits if_splits)

lemma new_key_allowed: "policy_ok p \<Longrightarrow> rd_Allowed (snd (take_token p now \<lparr>bk_tokens = fl (of_int (po_Burst p)), bk_updatedAt = now\<rparr>))"
  using fl_of_int [of "po_Burst p"] by (simp add: take_token_def refill_def time_Sub_def MaxInt64_def policy_ok_def Let_def)

text \<open>
  C38: bounded memory, and nobody pays for another. However a limiter was used, it holds at most its capacity
  of buckets, one for each key; a key it does not hold is allowed; and a call leaves the bucket of every
  other key as it is or drops it, which hands that key a fresh burst.
\<close>

theorem limiter_bounded_and_fair:
  assumes "New_limiter p cap ttl name = Inr l0" and "po_Burst p \<le> 2 ^ 53" and "l = calls cs l0"
    and "Allow now key l = (l', d)"
  shows "int (Limiter_Len l') \<le> cap \<and> distinct (map fst (li_order l')) \<and> lookup l' key \<noteq> None \<and>
    (lookup l key = None \<longrightarrow> rd_Allowed d) \<and>
    (other \<noteq> key \<longrightarrow> lookup l' other = lookup l other \<or> lookup l' other = None)"
proof -
  have ok: "limiter_ok l" "li_capacity l = cap" "li_policy l = p"
    using New_limiter_ok [OF assms(1,2)] calls_ok [of l0 cs] assms(3) by auto
  have ok': "limiter_ok l'" by (rule Allow_ok [OF ok(1) assms(4)])
  obtain b' where t: "take_token p now (own_bucket now key l) = (b', d)"
    and l': "l' = (others now key l)\<lparr>li_order := (key, b') # li_order (others now key l)\<rparr>"
    using assms(4) ok(3) by (auto simp: Allow_eq split: prod.splits)
  obtain n where "expire now l = l\<lparr>li_order := take n (li_order l)\<rparr>" using expire_take by blast
  then have "lookup l key = None \<Longrightarrow> lookup (expire now l) key = None" using lookup_take [of n l key] by auto
  then have "lookup l key = None \<longrightarrow> rd_Allowed d"
    using t new_key_allowed [of p now] ok by (auto simp: own_bucket_def limiter_ok_def)
  moreover have "other \<noteq> key \<longrightarrow> lookup l' other = lookup (others now key l) other" by (simp add: l' lookup_def)
  moreover have "lookup l' key \<noteq> None" by (simp add: l' lookup_def)
  ultimately show ?thesis using ok' others_ok(4) [OF ok(1), of other key now] ok(2)
    by (auto simp: limiter_ok_def l' Limiter_Len_def)
qed

theorem limiter_bounded_and_fair_witness:
  "let l' = fst (Allow 8 ''b'' \<lparr>li_policy = \<lparr>po_Burst = 1, po_Interval = Minute\<rparr>, li_capacity = 1, li_ttl = 0, li_order = []\<rparr>)
   in int (Limiter_Len l') \<le> 1 \<and> lookup l' ''b'' \<noteq> None"
proof -
  let ?p = "\<lparr>po_Burst = 1, po_Interval = Minute\<rparr>"
  let ?l = "\<lparr>li_policy = ?p, li_capacity = 1, li_ttl = 0, li_order = []\<rparr>"
  have "New_limiter ?p 1 0 [] = Inr ?l" by (simp add: New_limiter_def Policy_Validate_def Minute_def quot_def)
  moreover obtain l' d where "Allow 8 ''b'' ?l = (l', d)" by (cases "Allow 8 ''b'' ?l")
  ultimately show ?thesis using limiter_bounded_and_fair [of ?p 1 0 "[]" ?l ?l "[]" 8 "''b''" l' d "[]"] by simp
qed

end
