(* ===== verification/Config.thy ===== *)
theory Config
  imports Client_Address Payment_Domain Relay Consumer_Service Amqp_Consumer Amqp_Publisher Rate_Limit Tier_Names
begin

text \<open>
  Package \<^verbatim>\<open>internal/platform/config\<close>: the settings of a process and what is refused at startup, and the
  wiring of \<^verbatim>\<open>internal/runtime\<close> that hands them to the components. Reading the optional file and turning
  the environment into typed values is the work of two libraries, so their results are arguments of
  \<open>Load\<close>; so is \<^verbatim>\<open>net/url.Parse\<close>, as in \<^theory_text>\<open>Payment_Domain\<close>.
\<close>

section \<open>Settings\<close>

definition PublishAttemptBudget :: duration where "PublishAttemptBudget = 5 * Second"
definition EnvironmentDevelopment :: string where "EnvironmentDevelopment = ''development''"

record config =
  cf_ServiceName :: string
  cf_Environment :: string
  cf_HTTPAddress :: string
  cf_Port :: string
  cf_DatabaseURL :: string
  cf_DatabaseMaxOpenConnections :: int
  cf_DatabaseMaxIdleConnections :: int
  cf_DatabaseConnectionMaxLifetime :: duration
  cf_RabbitMQURL :: string
  cf_OutboxBatchSize :: int
  cf_OutboxInterval :: duration
  cf_OutboxLeaseDuration :: duration
  cf_OutboxBackoffBase :: duration
  cf_OutboxBackoffMax :: duration
  cf_OutboxAlertAfterAttempts :: int
  cf_ConsumerConcurrency :: int
  cf_ConsumerPrefetch :: int
  cf_ConsumerMaxAttempts :: int
  cf_ConsumerRetryDelays :: "duration list"
  cf_IntegrationAPIKeys :: "string list"
  cf_DocsEnabled :: bool
  cf_TrustedProxyCIDRs :: "string list"
  cf_TrustedProxies :: "prefix list"
  cf_RateLimitEnabled :: bool
  cf_RateLimitClientBurst :: int
  cf_RateLimitClientInterval :: duration
  cf_RateLimitClientCapacity :: int
  cf_RateLimitCredentialBurst :: int
  cf_RateLimitCredentialInterval :: duration
  cf_RateLimitCredentialCapacity :: int
  cf_RateLimitWebhookBurst :: int
  cf_RateLimitWebhookInterval :: duration
  cf_RateLimitHealthBurst :: int
  cf_RateLimitHealthInterval :: duration
  cf_RateLimitHealthCapacity :: int
  cf_RateLimitIdleTTL :: duration
  cf_StripeSecretKey :: string
  cf_StripeWebhookSecret :: string
  cf_StripeSuccessURL :: string
  cf_StripeCancelURL :: string
  cf_LogLevel :: string
  cf_LogFormat :: string
  cf_StartupTimeout :: duration
  cf_ShutdownTimeout :: duration
  cf_OTelEnabled :: bool
  cf_OTelServiceName :: string
  cf_OTelExporterEndpoint :: string
  cf_OTelExportInterval :: duration
  cf_MetricsSampleInterval :: duration
  cf_MetricsSampleTimeout :: duration
  cf_MigrationsDir :: string

section \<open>Validation\<close>

text \<open>A sequence of guards \<^verbatim>\<open>if c { return e }\<close>: the first that holds decides. The conditions have no
  effects, so evaluating the later ones is harmless.\<close>

fun first_failure :: "(bool \<times> goerr) list \<Rightarrow> goerr option" where
  "first_failure [] = None"
| "first_failure ((c, e) # gs) = (if c then Some e else first_failure gs)"

lemma first_failure_None: "first_failure gs = None \<longleftrightarrow> (\<forall>g \<in> set gs. \<not> fst g)"
  by (induction gs rule: first_failure.induct) auto

fun ParseTrustedProxies_loop :: "prefix list \<Rightarrow> string list \<Rightarrow> prefix list result" where
  "ParseTrustedProxies_loop prefixes [] = Inr prefixes"
| "ParseTrustedProxies_loop prefixes (untrimmed # vs) =
     (let v = TrimSpace untrimmed in
      if v = [] then ParseTrustedProxies_loop prefixes vs
      else case ParsePrefix v of
        None \<Rightarrow> Inl (NewError (''TRUSTED_PROXY_CIDRS entry '' @ quoted v @ '' must be a CIDR block such as 10.0.0.0/8''))
      | Some p \<Rightarrow> ParseTrustedProxies_loop (prefixes @ [Masked p]) vs)"

definition ParseTrustedProxies :: "string list \<Rightarrow> prefix list result" where
  "ParseTrustedProxies vs = ParseTrustedProxies_loop [] vs"

type_synonym limit_setting = "string \<times> int \<times> duration"

definition limit_settings :: "config \<Rightarrow> limit_setting list" where
  "limit_settings c =
     [(''RATE_LIMIT_CLIENT'', cf_RateLimitClientBurst c, cf_RateLimitClientInterval c),
      (''RATE_LIMIT_CREDENTIAL'', cf_RateLimitCredentialBurst c, cf_RateLimitCredentialInterval c),
      (''RATE_LIMIT_WEBHOOK'', cf_RateLimitWebhookBurst c, cf_RateLimitWebhookInterval c),
      (''RATE_LIMIT_HEALTH'', cf_RateLimitHealthBurst c, cf_RateLimitHealthInterval c)]"

fun limit_guards :: "limit_setting \<Rightarrow> (bool \<times> goerr) list" where
  "limit_guards (name, burst, interval) =
     [(burst < 1, NewError (name @ ''_BURST must be at least 1'')),
      (interval \<le> 0, NewError (name @ ''_INTERVAL must be positive'')),
      (quot interval burst \<le> 0, NewError (name @ ''_INTERVAL is too short to refill '' @ name @ ''_BURST tokens''))]"

fun ttl_guard :: "duration \<Rightarrow> limit_setting \<Rightarrow> bool \<times> goerr" where
  "ttl_guard ttl (name, burst, interval) = (ttl < interval,
     NewError (''RATE_LIMIT_IDLE_TTL must not be shorter than '' @ name @
       ''_INTERVAL, or a bucket would be reclaimed while still refilling''))"

definition validateRateLimits :: "config \<Rightarrow> goerr option" where
  "validateRateLimits c = first_failure
     (concat (map limit_guards (limit_settings c)) @
      map (\<lambda>(name, v). (v < 1, NewError (name @ '' must be at least 1'')))
        [(''RATE_LIMIT_CLIENT_CAPACITY'', cf_RateLimitClientCapacity c),
         (''RATE_LIMIT_CREDENTIAL_CAPACITY'', cf_RateLimitCredentialCapacity c),
         (''RATE_LIMIT_HEALTH_CAPACITY'', cf_RateLimitHealthCapacity c)] @
      (cf_RateLimitIdleTTL c < 0, NewError ''RATE_LIMIT_IDLE_TTL must not be negative'') #
      (if 0 < cf_RateLimitIdleTTL c then
         map (ttl_guard (cf_RateLimitIdleTTL c)) (limit_settings c)
       else []))"

text \<open>The guards of the ladder of delays, after the delay \<open>previous\<close>.\<close>

fun delay_guards :: "duration \<Rightarrow> duration list \<Rightarrow> (bool \<times> goerr) list" where
  "delay_guards previous [] = []"
| "delay_guards previous (d # ds) =
     (d \<le> 0, NewError ''CONSUMER_RETRY_DELAYS must contain only positive delays'') #
     (d \<le> previous, NewError ''CONSUMER_RETRY_DELAYS must be strictly ascending'') # delay_guards d ds"

text \<open>The products and sums are those of \<^verbatim>\<open>int64\<close>.\<close>

definition minimumLease :: "config \<Rightarrow> duration" where
  "minimumLease c = int64 (int64 (cf_OutboxBatchSize c * PublishAttemptBudget) + SettlementReserve)"

definition relayAndHealthConnections :: int where "relayAndHealthConnections = 2"

definition load_guards :: "bool \<Rightarrow> config \<Rightarrow> (bool \<times> goerr) list" where
  "load_guards requireRabbitMQ c =
     [(requireRabbitMQ \<and> cf_RabbitMQURL c = [], NewError ''RABBITMQ_URL is required for this process''),
      (cf_DatabaseMaxOpenConnections c < 1, NewError ''DATABASE_MAX_OPEN_CONNECTIONS must be positive''),
      (cf_DatabaseMaxIdleConnections c < 0 \<or> cf_DatabaseMaxIdleConnections c > cf_DatabaseMaxOpenConnections c,
       NewError ''DATABASE_MAX_IDLE_CONNECTIONS must be between zero and the maximum open connections''),
      (cf_StartupTimeout c \<le> 0 \<or> cf_ShutdownTimeout c \<le> 0, NewError ''startup and shutdown timeouts must be positive''),
      (cf_OutboxBatchSize c < 1, NewError ''OUTBOX_BATCH_SIZE must be positive''),
      (cf_OutboxInterval c \<le> 0, NewError ''OUTBOX_INTERVAL must be positive''),
      (cf_OutboxAlertAfterAttempts c < 1, NewError ''OUTBOX_ALERT_AFTER_ATTEMPTS must be positive''),
      (cf_OutboxBackoffBase c \<le> 0 \<or> cf_OutboxBackoffMax c \<le> 0, NewError ''outbox backoff durations must be positive''),
      (cf_OutboxBackoffMax c < cf_OutboxBackoffBase c,
       NewError ''OUTBOX_BACKOFF_MAX must not be smaller than OUTBOX_BACKOFF_BASE''),
      (cf_OutboxLeaseDuration c < minimumLease c,
       NewError (''OUTBOX_LEASE_DURATION must be at least OUTBOX_BATCH_SIZE x '' @ Duration_String PublishAttemptBudget @
         '' + '' @ Duration_String SettlementReserve @ '' settlement reserve ('' @ Duration_String (minimumLease c) @ '')'')),
      (cf_ConsumerConcurrency c < 1, NewError ''CONSUMER_CONCURRENCY must be positive''),
      (cf_ConsumerPrefetch c < cf_ConsumerConcurrency c, NewError ''CONSUMER_PREFETCH must be at least CONSUMER_CONCURRENCY''),
      (cf_ConsumerMaxAttempts c < 2, NewError ''CONSUMER_MAX_ATTEMPTS must be greater than one''),
      (cf_ConsumerRetryDelays c = [], NewError ''CONSUMER_RETRY_DELAYS must list at least one delay'')] @
     delay_guards 0 (cf_ConsumerRetryDelays c) @
     [(requireRabbitMQ \<and> cf_DatabaseMaxOpenConnections c < int64 (cf_ConsumerConcurrency c + relayAndHealthConnections),
       NewError (''DATABASE_MAX_OPEN_CONNECTIONS must be at least CONSUMER_CONCURRENCY plus '' @ itoa relayAndHealthConnections @
         '' for the relay and health checks ('' @ itoa (int64 (cf_ConsumerConcurrency c + relayAndHealthConnections)) @ '')'')),
      (cf_MetricsSampleInterval c \<le> 0 \<or> cf_MetricsSampleTimeout c \<le> 0,
       NewError ''metric sampling interval and timeout must be positive''),
      (cf_MetricsSampleTimeout c \<ge> cf_MetricsSampleInterval c,
       NewError ''METRICS_SAMPLE_TIMEOUT must be shorter than METRICS_SAMPLE_INTERVAL''),
      (cf_OTelEnabled c \<and> cf_OTelExporterEndpoint c = [],
       NewError ''OTEL_EXPORTER_OTLP_ENDPOINT is required when telemetry is enabled'')]"

text \<open>What reading the optional file reported.\<close>

datatype dotenv = DotenvLoaded | DotenvMissing | DotenvFailed string

text \<open>The settings before validation: names and the address filled in.\<close>

definition with_identity :: "string \<Rightarrow> string \<Rightarrow> config \<Rightarrow> config" where
  "with_identity serviceName defaultHTTPAddress c0 =
     (let c1 = c0\<lparr>cf_ServiceName := serviceName\<rparr>;
          c2 = (if cf_OTelServiceName c1 = [] then c1\<lparr>cf_OTelServiceName := serviceName\<rparr> else c1);
          c3 = (if cf_Port c2 \<noteq> [] then c2\<lparr>cf_HTTPAddress := CHR '':'' # cf_Port c2\<rparr> else c2)
      in if cf_HTTPAddress c3 = [] then c3\<lparr>cf_HTTPAddress := defaultHTTPAddress\<rparr> else c3)"

definition Load :: "dotenv \<Rightarrow> string + config \<Rightarrow> string \<Rightarrow> string \<Rightarrow> bool \<Rightarrow> config result" where
  "Load file parsed serviceName defaultHTTPAddress requireRabbitMQ =
     (case file of
        DotenvFailed e \<Rightarrow> Inl (wrap ''load .env'' (External e))
      | _ \<Rightarrow>
        (case parsed of
           Inl e \<Rightarrow> Inl (wrap ''parse environment'' (External e))
         | Inr c0 \<Rightarrow>
             if cf_Port c0 \<noteq> [] \<and> CHR '':'' \<in> set (cf_Port c0)
             then Inl (NewError ''PORT must contain only a port number'')
             else let c = with_identity serviceName defaultHTTPAddress c0 in
               (case first_failure (load_guards requireRabbitMQ c) of
                  Some e \<Rightarrow> Inl e
                | None \<Rightarrow>
                    (case validateRateLimits c of
                       Some e \<Rightarrow> Inl e
                     | None \<Rightarrow>
                         (case ParseTrustedProxies (cf_TrustedProxyCIDRs c) of
                            Inl e \<Rightarrow> Inl e
                          | Inr proxies \<Rightarrow> Inr (c\<lparr>cf_TrustedProxies := proxies\<rparr>))))))"

record rate_limit_policy =
  rp_Enabled :: bool
  rp_ClientBurst :: int
  rp_ClientInterval :: duration
  rp_ClientCapacity :: int
  rp_CredentialBurst :: int
  rp_CredentialInterval :: duration
  rp_CredentialCapacity :: int
  rp_WebhookBurst :: int
  rp_WebhookInterval :: duration
  rp_HealthBurst :: int
  rp_HealthInterval :: duration
  rp_HealthCapacity :: int
  rp_IdleTTL :: duration

definition RateLimitPolicy :: "config \<Rightarrow> rate_limit_policy" where
  "RateLimitPolicy c =
     \<lparr>rp_Enabled = cf_RateLimitEnabled c,
      rp_ClientBurst = cf_RateLimitClientBurst c, rp_ClientInterval = cf_RateLimitClientInterval c,
      rp_ClientCapacity = cf_RateLimitClientCapacity c,
      rp_CredentialBurst = cf_RateLimitCredentialBurst c, rp_CredentialInterval = cf_RateLimitCredentialInterval c,
      rp_CredentialCapacity = cf_RateLimitCredentialCapacity c,
      rp_WebhookBurst = cf_RateLimitWebhookBurst c, rp_WebhookInterval = cf_RateLimitWebhookInterval c,
      rp_HealthBurst = cf_RateLimitHealthBurst c, rp_HealthInterval = cf_RateLimitHealthInterval c,
      rp_HealthCapacity = cf_RateLimitHealthCapacity c, rp_IdleTTL = cf_RateLimitIdleTTL c\<rparr>"

definition IsDevelopment :: "config \<Rightarrow> bool" where
  "IsDevelopment c \<longleftrightarrow> cf_Environment c = EnvironmentDevelopment"

definition validateReturnURL :: "url_parser \<Rightarrow> string \<Rightarrow> string \<Rightarrow> goerr option" where
  "validateReturnURL url_Parse name v =
     (if (case url_Parse v of Inl e \<Rightarrow> True
          | Inr u \<Rightarrow> url_Host u = [] \<or> url_Scheme u \<noteq> ''http'' \<and> url_Scheme u \<noteq> ''https'')
      then Some (NewError (name @ '' must be an absolute HTTP or HTTPS URL'')) else None)"

definition ValidateStripeCheckout :: "url_parser \<Rightarrow> config \<Rightarrow> goerr option" where
  "ValidateStripeCheckout url_Parse c =
     (if cf_StripeSecretKey c = [] then Some (NewError ''STRIPE_SECRET_KEY is required for the API'')
      else case validateReturnURL url_Parse ''STRIPE_SUCCESS_URL'' (cf_StripeSuccessURL c) of
        Some e \<Rightarrow> Some e
      | None \<Rightarrow> validateReturnURL url_Parse ''STRIPE_CANCEL_URL'' (cf_StripeCancelURL c))"

definition ValidateStripeWebhook :: "config \<Rightarrow> goerr option" where
  "ValidateStripeWebhook c =
     (if cf_StripeWebhookSecret c = [] then Some (NewError ''STRIPE_WEBHOOK_SECRET is required for the API'') else None)"

definition ValidateStripe :: "url_parser \<Rightarrow> config \<Rightarrow> goerr option" where
  "ValidateStripe url_Parse c =
     (case ValidateStripeCheckout url_Parse c of Some e \<Rightarrow> Some e | None \<Rightarrow> ValidateStripeWebhook c)"

section \<open>Wiring (runtime/worker/worker.go, runtime/api/api.go)\<close>

definition relay_config_of :: "config \<Rightarrow> relay_config" where
  "relay_config_of c =
     \<lparr>rc_BatchSize = cf_OutboxBatchSize c, rc_Interval = cf_OutboxInterval c, rc_LeaseDuration = cf_OutboxLeaseDuration c,
      rc_Backoff = \<lparr>bo_Base = cf_OutboxBackoffBase c, bo_Max = cf_OutboxBackoffMax c\<rparr>,
      rc_AlertAfterAttempts = cf_OutboxAlertAfterAttempts c\<rparr>"

definition retry_tiers_of :: "config \<Rightarrow> retry_tier list" where
  "retry_tiers_of c = map (\<lambda>d. \<lparr>tier_Delay = d\<rparr>) (cf_ConsumerRetryDelays c)"

definition consumer_config_of :: "config \<Rightarrow> consumer_config" where
  "consumer_config_of c =
     \<lparr>cc_Prefetch = cf_ConsumerPrefetch c, cc_Concurrency = cf_ConsumerConcurrency c, cc_RetryTiers = retry_tiers_of c\<rparr>"

definition knownQueues :: "config \<Rightarrow> string list" where
  "knownQueues c = WebhooksQueue # DeadLetterQueue # map tier_Queue (retry_tiers_of c)"

definition validateStripeConfiguration :: "url_parser \<Rightarrow> config \<Rightarrow> bool \<Rightarrow> bool \<Rightarrow> goerr option" where
  "validateStripeConfiguration url_Parse c ownProvider ownVerifier =
     (case (if ownProvider then None else ValidateStripeCheckout url_Parse c) of
        Some e \<Rightarrow> Some (wrap ''configure Stripe checkout'' e)
      | None \<Rightarrow> (case (if ownVerifier then None else ValidateStripeWebhook c) of
          Some e \<Rightarrow> Some (wrap ''configure Stripe webhook'' e)
        | None \<Rightarrow> None))"

section \<open>What a loaded configuration guarantees\<close>

lemma with_identity_frame:
  "cf_ConsumerRetryDelays (with_identity s a c) = cf_ConsumerRetryDelays c"
  by (simp add: with_identity_def Let_def)

lemma delay_guards_None:
  "(\<forall>g \<in> set (delay_guards d ds). \<not> fst g) \<longleftrightarrow> (\<forall>x \<in> set ds. 0 < x) \<and> sorted_wrt (<) (d # ds)"
proof (induction d ds rule: delay_guards.induct)
  case (2 previous d ds)
  then show ?case by (fastforce simp: not_le)
qed simp

lemma Load_Inr:
  assumes "Load file parsed s a req = Inr c"
  shows "(\<forall>g \<in> set (load_guards req c). \<not> fst g) \<and> validateRateLimits c = None \<and>
    ParseTrustedProxies (cf_TrustedProxyCIDRs c) = Inr (cf_TrustedProxies c)"
proof -
  from assms obtain c0 proxies where c: "c = with_identity s a c0\<lparr>cf_TrustedProxies := proxies\<rparr>"
    and ok: "first_failure (load_guards req (with_identity s a c0)) = None" "validateRateLimits (with_identity s a c0) = None"
      "ParseTrustedProxies (cf_TrustedProxyCIDRs (with_identity s a c0)) = Inr proxies"
    by (auto simp: Load_def Let_def split: dotenv.splits sum.splits if_splits option.splits)
  have "load_guards req c = load_guards req (with_identity s a c0)" "validateRateLimits c = validateRateLimits (with_identity s a c0)"
    by (simp_all add: c load_guards_def minimumLease_def validateRateLimits_def limit_settings_def)
  with ok c show ?thesis by (simp add: first_failure_None)
qed

lemma loaded_guards:
  assumes "Load file parsed s a req = Inr c"
  shows "1 \<le> cf_OutboxBatchSize c" "0 < cf_OutboxInterval c" "1 \<le> cf_OutboxAlertAfterAttempts c"
    "0 < cf_OutboxBackoffBase c" "0 < cf_OutboxBackoffMax c" "minimumLease c \<le> cf_OutboxLeaseDuration c"
    "1 \<le> cf_ConsumerConcurrency c" "cf_ConsumerConcurrency c \<le> cf_ConsumerPrefetch c" "2 \<le> cf_ConsumerMaxAttempts c"
    "cf_ConsumerRetryDelays c \<noteq> []" "\<forall>d \<in> set (cf_ConsumerRetryDelays c). 0 < d" "sorted_wrt (<) (cf_ConsumerRetryDelays c)"
    "req \<Longrightarrow> int64 (cf_ConsumerConcurrency c + relayAndHealthConnections) \<le> cf_DatabaseMaxOpenConnections c"
    "cf_MetricsSampleTimeout c < cf_MetricsSampleInterval c"
  using Load_Inr [OF assms] delay_guards_None [of 0 "cf_ConsumerRetryDelays c"]
  by (auto simp: load_guards_def ball_Un not_less not_le)

lemma loaded_tiers:
  assumes "Load file parsed s a req = Inr c"
  shows "retry_tiers_of c \<noteq> []" "\<forall>t \<in> set (retry_tiers_of c). 0 < tier_Delay t"
    "sorted_wrt (\<lambda>t u. tier_Delay t < tier_Delay u) (retry_tiers_of c)" "distinct (map tier_Delay (retry_tiers_of c))"
  using loaded_guards(10-12) [OF assms]
  by (auto simp: retry_tiers_of_def sorted_wrt_map comp_def strict_sorted_iff)

text \<open>
  A worker runs with the configuration it was given. Whatever \<^verbatim>\<open>Load\<close> accepted, the relay, the
  consumer and its retry budget find nothing to replace by a default; a publication of every message of a
  batch, each with its whole budget, fits into the lease with the reserve for recording the outcomes; the
  pool has a connection for every consuming worker beside the relay and the health check; the queues the
  worker declares are all different; and a sampling round ends before the next begins. The bounds on the
  batch and the concurrency exclude that their product or sum wraps around.
\<close>

theorem Load_configures_worker:
  assumes "Load file parsed s a True = Inr c"
    and "cf_OutboxBatchSize c < 2 ^ 30" and "cf_ConsumerConcurrency c < 2 ^ 62"
  shows "Config_withDefaults (relay_config_of c) = relay_config_of c \<and>
    NewConsumer (consumer_config_of c) = consumer_config_of c \<and>
    MaxAttempts_withDefaults (cf_ConsumerMaxAttempts c) = cf_ConsumerMaxAttempts c \<and>
    cf_OutboxBatchSize c * PublishTimeout + SettlementReserve \<le> cf_OutboxLeaseDuration c \<and>
    cf_ConsumerConcurrency c + 2 \<le> cf_DatabaseMaxOpenConnections c \<and>
    distinct (knownQueues c) \<and>
    cf_MetricsSampleTimeout c < cf_MetricsSampleInterval c"
proof -
  note g = loaded_guards [OF assms(1)] and t = loaded_tiers [OF assms(1)]
  have "0 \<le> cf_OutboxBatchSize c * PublishAttemptBudget" "cf_OutboxBatchSize c * PublishAttemptBudget < 2 ^ 62 + 2 ^ 60"
    using g(1) assms(2) by (simp_all add: PublishAttemptBudget_def Second_def)
  then have lease: "minimumLease c = cf_OutboxBatchSize c * PublishAttemptBudget + SettlementReserve"
    unfolding minimumLease_def by (subst int64_id) (simp_all add: SettlementReserve_def Second_def int64_id)
  have sum: "int64 (cf_ConsumerConcurrency c + relayAndHealthConnections) = cf_ConsumerConcurrency c + 2"
    using g(7) assms(3) by (subst int64_id) (simp_all add: relayAndHealthConnections_def)
  have "0 < cf_OutboxLeaseDuration c"
    using g(1,6) lease by (simp add: SettlementReserve_def PublishAttemptBudget_def Second_def)
  then have "Config_withDefaults (relay_config_of c) = relay_config_of c"
    using g by (simp add: Config_withDefaults_def Backoff_withDefaults_def relay_config_of_def)
  moreover have "NewConsumer (consumer_config_of c) = consumer_config_of c"
    using g by (simp add: NewConsumer_def consumer_config_of_def)
  ultimately show ?thesis
    using g lease sum tiers_apart [OF t(2,4)]
    by (simp add: MaxAttempts_withDefaults_def knownQueues_def PublishTimeout_def PublishAttemptBudget_def)
qed

text \<open>The settings of an environment that only names the database and the broker: every default.\<close>

definition default_config :: config where
  "default_config =
     \<lparr>cf_ServiceName = [], cf_Environment = ''development'', cf_HTTPAddress = [], cf_Port = [], cf_DatabaseURL = ''postgres://db'',
      cf_DatabaseMaxOpenConnections = 10, cf_DatabaseMaxIdleConnections = 5, cf_DatabaseConnectionMaxLifetime = 30 * Minute,
      cf_RabbitMQURL = ''amqp://mq'', cf_OutboxBatchSize = 20, cf_OutboxInterval = Second, cf_OutboxLeaseDuration = 2 * Minute,
      cf_OutboxBackoffBase = 2 * Second, cf_OutboxBackoffMax = 5 * Minute, cf_OutboxAlertAfterAttempts = 10,
      cf_ConsumerConcurrency = 4, cf_ConsumerPrefetch = 4, cf_ConsumerMaxAttempts = 10,
      cf_ConsumerRetryDelays = [5 * Second, 30 * Second, 2 * Minute, 10 * Minute], cf_IntegrationAPIKeys = [],
      cf_DocsEnabled = False, cf_TrustedProxyCIDRs = [], cf_TrustedProxies = [], cf_RateLimitEnabled = True,
      cf_RateLimitClientBurst = 1200, cf_RateLimitClientInterval = Minute, cf_RateLimitClientCapacity = 10000,
      cf_RateLimitCredentialBurst = 600, cf_RateLimitCredentialInterval = Minute, cf_RateLimitCredentialCapacity = 64,
      cf_RateLimitWebhookBurst = 600, cf_RateLimitWebhookInterval = Minute, cf_RateLimitHealthBurst = 120,
      cf_RateLimitHealthInterval = Minute, cf_RateLimitHealthCapacity = 1000, cf_RateLimitIdleTTL = 10 * Minute,
      cf_StripeSecretKey = [], cf_StripeWebhookSecret = [], cf_StripeSuccessURL = [], cf_StripeCancelURL = [],
      cf_LogLevel = ''info'', cf_LogFormat = ''json'', cf_StartupTimeout = 30 * Second, cf_ShutdownTimeout = 15 * Second,
      cf_OTelEnabled = False, cf_OTelServiceName = [], cf_OTelExporterEndpoint = ''http://localhost:4318'',
      cf_OTelExportInterval = 10 * Second, cf_MetricsSampleInterval = 15 * Second, cf_MetricsSampleTimeout = 5 * Second,
      cf_MigrationsDir = ''db/migrations''\<rparr>"

lemma default_loads_keys: "Load DotenvMissing (Inr (default_config\<lparr>cf_IntegrationAPIKeys := keys\<rparr>)) ''worker'' '':8081'' True =
    Inr (default_config\<lparr>cf_IntegrationAPIKeys := keys, cf_ServiceName := ''worker'', cf_OTelServiceName := ''worker'',
      cf_HTTPAddress := '':8081''\<rparr>)"
proof -
  let ?c = "default_config\<lparr>cf_IntegrationAPIKeys := keys, cf_ServiceName := ''worker'', cf_OTelServiceName := ''worker'',
    cf_HTTPAddress := '':8081''\<rparr>"
  have "with_identity ''worker'' '':8081'' (default_config\<lparr>cf_IntegrationAPIKeys := keys\<rparr>) = ?c"
    by (simp add: with_identity_def default_config_def)
  moreover have "minimumLease ?c = 105 * Second"
    unfolding minimumLease_def by (simp add: default_config_def PublishAttemptBudget_def SettlementReserve_def Second_def int64_id)
  then have "first_failure (load_guards True ?c) = None"
    unfolding first_failure_None by (simp add: load_guards_def default_config_def duration_defs relayAndHealthConnections_def int64_id)
  moreover have "validateRateLimits ?c = None"
    by (simp add: validateRateLimits_def limit_settings_def default_config_def Minute_def quot_def)
  moreover have "ParseTrustedProxies (cf_TrustedProxyCIDRs ?c) = Inr (cf_TrustedProxies ?c)"
    by (simp add: ParseTrustedProxies_def default_config_def)
  ultimately show ?thesis by (simp add: Load_def default_config_def)
qed

lemma default_loads: "Load DotenvMissing (Inr default_config) ''worker'' '':8081'' True =
    Inr (default_config\<lparr>cf_ServiceName := ''worker'', cf_OTelServiceName := ''worker'', cf_HTTPAddress := '':8081''\<rparr>)"
  using default_loads_keys [of "[]"] by (simp add: default_config_def)

theorem Load_configures_worker_witness:
  "\<exists>c. Load DotenvMissing (Inr default_config) ''worker'' '':8081'' True = Inr c \<and> distinct (knownQueues c) \<and>
     cf_OutboxBatchSize c * PublishTimeout + SettlementReserve \<le> cf_OutboxLeaseDuration c"
  using Load_configures_worker [OF default_loads] default_loads by (simp add: default_config_def)

end
