(* ===== verification/Client_Bucket.thy ===== *)
theory Client_Bucket
  imports Client_Address
begin

text \<open>
  The keys under which the rate limiter counts callers. A key is the text of a network, so that two
  callers share a bucket exactly when they share the network rests on the text determining it: the
  proofs read the text back.
\<close>

section \<open>The text of a bucket determines it\<close>

lemma groups_of_Suc: "groups_of (Suc k) base n = groups_of k base (n div base) @ [n mod base]"
  by (auto simp: groups_of_def div_mult2_eq [symmetric] Suc_diff_le Suc_diff_Suc simp flip: power_Suc)

lemma groups_of_0: "groups_of 0 base n = []"
  by (simp add: groups_of_def)

lemmas groups_of_simps = groups_of_0 groups_of_Suc [of 3, simplified] groups_of_Suc [of 0, simplified]

lemma groups_of_inject:
  "0 < base \<Longrightarrow> m < base ^ k \<Longrightarrow> n < base ^ k \<Longrightarrow> groups_of k base m = groups_of k base n \<longleftrightarrow> m = n"
proof (induction k arbitrary: m n)
  case (Suc k)
  have "m div base < base ^ k" "n div base < base ^ k"
    using Suc.prems by (simp_all add: less_mult_imp_div_less mult.commute)
  with Suc show ?case by (auto simp: groups_of_Suc) (metis div_mult_mod_eq)
qed (simp add: groups_of_def)

lemma length_groups_of [simp]: "length (groups_of k base n) = k"
  by (simp add: groups_of_def)

lemma join_inject:
  assumes "\<And>w. sep \<notin> set (f w)" and "inj f" and "xs \<noteq> []" and "ys \<noteq> []"
  shows "join_with [sep] (map f xs) = join_with [sep] (map f ys) \<longleftrightarrow> xs = ys"
proof
  assume "join_with [sep] (map f xs) = join_with [sep] (map f ys)"
  then have "split_on sep (join_with [sep] (map f xs)) = split_on sep (join_with [sep] (map f ys))" by simp
  then have "map f xs = map f ys" using assms(1,3,4) by (simp add: split_on_join)
  with assms(2) show "xs = ys" by (rule map_injective [rotated])
qed simp

lemma decimal_no_sep: "\<not> is_digit c \<Longrightarrow> c \<notin> set (decimal n)"
  using decimal_digits [of n] by (auto simp: list_all_iff)

lemma inj_decimal: "inj decimal"
  by (rule injI) (simp add: decimal_inject)

lemma text4_inject:
  assumes "m < 2 ^ 32" and "n < 2 ^ 32"
  shows "text4 m = text4 n \<longleftrightarrow> m = n"
proof -
  have "groups_of 4 256 k \<noteq> []" for k :: nat by (metis length_groups_of length_0_conv zero_neq_numeral)
  moreover have "CHR ''.'' \<notin> set (decimal k)" for k by (rule decimal_no_sep) (simp add: is_digit_def)
  ultimately show ?thesis
    unfolding text4_def by (subst join_inject) (use assms in \<open>simp_all add: inj_decimal groups_of_inject\<close>)
qed

definition hex_read :: "string \<Rightarrow> nat" where
  "hex_read s = foldl (\<lambda>a c. 16 * a + the (hex_value c)) 0 s"

lemma hex_value_digit: "n < 16 \<Longrightarrow> hex_value (hex_digit n) = Some n"
  by (auto simp: hex_value_def hex_digit_def Let_def)

lemma hex_read_text: "hex_read (hex_text n) = n"
proof (induction n rule: hex_text.induct)
  case (1 n)
  show ?case
  proof (cases "n < 16")
    case True
    then show ?thesis by (subst hex_text.simps) (simp add: hex_read_def hex_value_digit)
  next
    case False
    with 1 show ?thesis by (subst hex_text.simps) (simp add: hex_read_def hex_value_digit)
  qed
qed

lemma inj_hex: "inj hex_text"
  by (metis hex_read_text injI)

lemma hex_no_colon: "CHR '':'' \<notin> set (hex_text n)"
proof (induction n rule: hex_text.induct)
  case (1 n)
  have colon: "hex_value CHR '':'' = None" by (simp add: hex_value_def)
  have digit: "CHR '':'' \<noteq> hex_digit k" if "k < 16" for k using hex_value_digit [OF that] colon by auto
  show ?case using 1 digit [of n] digit [of "n mod 16"] by (subst hex_text.simps) simp
qed

lemma hex_neq_Nil: "hex_text n \<noteq> []"
  by (subst hex_text.simps) simp

lemma join_hex_inject: "join_with '':'' (map hex_text xs) = join_with '':'' (map hex_text ys) \<longleftrightarrow> xs = ys"
proof (cases "xs = [] \<or> ys = []")
  case True
  have "join_with '':'' (map hex_text (z # zs)) \<noteq> []" for z zs
    by (cases zs) (simp_all add: hex_neq_Nil)
  then have "join_with '':'' (map hex_text zs) = [] \<longleftrightarrow> zs = []" for zs by (cases zs) simp_all
  with True show ?thesis by (metis map_is_Nil_conv join_with.simps(1))
next
  case False
  then show ?thesis by (intro join_inject hex_no_colon inj_hex) simp_all
qed

lemma groups_shift: "0 < base \<Longrightarrow> groups_of (Suc k) base (n * base) = groups_of k base n @ [0]"
  by (simp add: groups_of_Suc)

lemma groups_network:
  "0 < base \<Longrightarrow> groups_of (Suc (Suc (Suc (Suc 4)))) base (n * base * base * base * base) = groups_of 4 base n @ [0, 0, 0, 0]"
  by (simp only: groups_shift) simp

lemma zero_run_network: "zero_run [a, b, c, d, 0, 0, 0, 0] =
    (if d \<noteq> 0 then 4 else if c \<noteq> 0 then 3 else if b \<noteq> 0 then 2 else if a \<noteq> 0 then 1 else 0, 8)"
  by (simp add: zero_run_def Let_def upt_rec)

definition strip_zeros :: "nat list \<Rightarrow> nat list" where
  "strip_zeros gs = rev (dropWhile (\<lambda>g. g = 0) (rev gs))"

lemma text6_network: "text6 [a, b, c, d, 0, 0, 0, 0] = join_with '':'' (map hex_text (strip_zeros [a, b, c, d])) @ ''::''"
  by (simp add: text6_def zero_run_network strip_zeros_def)

lemma strip_zeros_inject: "length xs = length ys \<Longrightarrow> strip_zeros xs = strip_zeros ys \<longleftrightarrow> xs = ys"
proof
  assume len: "length xs = length ys" and eq: "strip_zeros xs = strip_zeros ys"
  have *: "xs = strip_zeros xs @ replicate (length xs - length (strip_zeros xs)) (0 :: nat)" for xs
  proof -
    have "takeWhile (\<lambda>g. g = 0) (rev xs) = replicate (length (takeWhile (\<lambda>g. g = 0) (rev xs))) 0"
      by (intro replicate_eqI) (auto dest: set_takeWhileD)
    moreover have "rev xs = takeWhile (\<lambda>g. g = 0) (rev xs) @ dropWhile (\<lambda>g. g = 0) (rev xs)" by simp
    ultimately show ?thesis unfolding strip_zeros_def
      by (metis add_diff_cancel_right' length_append length_rev rev_append rev_replicate rev_swap)
  qed
  show "xs = ys" using *[of xs] *[of ys] len eq by metis
qed simp

lemma four_groups: "length xs = 4 \<Longrightarrow> \<exists>a b c d. xs = [a, b, c, d]"
  by (auto simp: numeral_eq_Suc length_Suc_conv)

lemma text6_network_inject:
  assumes "h < 2 ^ 64" and "k < 2 ^ 64"
  shows "text6 (groups_of 8 65536 (h * 2 ^ 64)) = text6 (groups_of 8 65536 (k * 2 ^ 64)) \<longleftrightarrow> h = k"
proof -
  have net: "groups_of 8 65536 (n * 2 ^ 64) = groups_of 4 65536 n @ [0, 0, 0, 0]" for n
  proof -
    have "(8 :: nat) = Suc (Suc (Suc (Suc 4)))" "n * 2 ^ 64 = n * 65536 * 65536 * 65536 * 65536" by simp_all
    then show ?thesis using groups_network [of 65536 n] by (simp only:)
  qed
  obtain a b c d where h: "groups_of 4 65536 h = [a, b, c, d]"
    using four_groups [OF length_groups_of] by blast
  obtain a' b' c' d' where k: "groups_of 4 65536 k = [a', b', c', d']"
    using four_groups [OF length_groups_of] by blast
  have four: "(65536 :: nat) ^ 4 = 2 ^ 64" by simp
  have "text6 (groups_of 8 65536 (h * 2 ^ 64)) = text6 (groups_of 8 65536 (k * 2 ^ 64)) \<longleftrightarrow>
      groups_of 4 65536 h = groups_of 4 65536 k"
    unfolding net h k by (simp only: append_Cons append_Nil text6_network append_same_eq join_hex_inject strip_zeros_inject length_Cons list.size)
  then show ?thesis using groups_of_inject [of 65536 h 4 k] assms by (simp only: four)
qed

lemma unat_network: "unat (push_bit 64 (drop_bit 64 w) :: 128 word) = (unat w div 2 ^ 64) * 2 ^ 64"
proof -
  have "(unat w div 2 ^ 64) * 2 ^ 64 \<le> unat w" by simp
  also have "unat w < 2 ^ 128" using unsigned_less [of w] by simp
  finally show ?thesis unfolding unsigned_push_bit_eq unsigned_drop_bit_eq
    by (simp add: push_bit_eq_mult drop_bit_eq_div take_bit_nat_eq_self)
qed

fun same_client :: "addr \<Rightarrow> addr \<Rightarrow> bool" where
  "same_client (Addr4 v) (Addr4 w) = (v = w)"
| "same_client (Addr6 v y) (Addr6 w z) = (drop_bit 64 v = drop_bit 64 w)"
| "same_client a b = False"

lemma decimal_bits: "decimal 32 = ''32''" "decimal 64 = ''64''"
  by code_simp+

lemma Key_4: "Key (ClientBucket (Addr4 v)) = text4 (unat v) @ ''/32''"
  by (simp add: Key_def ClientBucket_def PrefixFrom_def Prefix_String_def decimal_bits)

lemma Key_6: "Key (ClientBucket (Addr6 v z)) = text6 (groups_of 8 65536 (unat v div 2 ^ 64 * 2 ^ 64)) @ ''/64''"
proof -
  have "bit (drop_bit 32 (push_bit 64 (drop_bit 64 v)) :: 128 word) 0 = False" by (simp add: bit_simps)
  moreover have "bit (0xffff :: 128 word) 0" by simp
  ultimately have "\<not> Is4In6 (Addr6 (push_bit 64 (drop_bit 64 v)) [])" by auto
  then show ?thesis
    by (simp add: Key_def ClientBucket_def PrefixFrom_def Prefix_String_def decimal_bits unat_network del: Is4In6.simps)
qed

lemma Key_inject: "Key (ClientBucket a) = Key (ClientBucket b) \<longleftrightarrow> same_client a b"
proof (cases "(a, b)" rule: same_client.cases)
  case (1 v w)
  then show ?thesis using text4_inject [of "unat v" "unat w"] unsigned_less [of v, where ?'a = nat] unsigned_less [of w, where ?'a = nat]
    by (simp add: Key_4 word_unat_eq_iff)
next
  case (2 v y w z)
  have "unat u div 2 ^ 64 < 2 ^ 64" for u :: "128 word"
    using unsigned_less [of u, where ?'a = nat] by (simp add: less_mult_imp_div_less)
  then have "Key (ClientBucket a) = Key (ClientBucket b) \<longleftrightarrow> unat v div 2 ^ 64 = unat w div 2 ^ 64"
    using 2 text6_network_inject [of "unat v div 2 ^ 64" "unat w div 2 ^ 64"] by (simp add: Key_6)
  also have "\<dots> \<longleftrightarrow> unat (drop_bit 64 v) = unat (drop_bit 64 w)" unfolding unsigned_drop_bit_eq
    using unsigned_less [of v, where ?'a = nat] unsigned_less [of w, where ?'a = nat]
    by (simp add: drop_bit_eq_div take_bit_nat_eq_self)
  finally show ?thesis using 2 by (simp add: word_unat_eq_iff)
qed (auto simp: Key_4 Key_6)

text \<open>
  C36: one bucket per network. Two callers are counted together exactly when they are the same IPv4
  address or IPv6 addresses of the same /64, however their addresses were spelled: an IPv4 caller mapped
  into IPv6 is the IPv4 caller, and a zone changes nothing.
\<close>

theorem client_bucket_key:
  assumes "parseHop s = Some a" and "parseHop t = Some b"
  shows "(Key (ClientBucket a) = Key (ClientBucket b) \<longleftrightarrow> same_client a b) \<and>
    \<not> Is4In6 a \<and> Zone a = [] \<and> same_client a a"
proof -
  have canonical: "\<not> Is4In6 (WithZone (Unmap c) [])" "Zone (WithZone (Unmap c) []) = []" for c
    by (cases c; simp)+
  have "same_client a a" by (cases a) simp_all
  with canonical assms Key_inject show ?thesis by (auto simp: parseHop_def Let_def split: if_splits option.splits)
qed

theorem client_bucket_key_witness:
  "Key (ClientBucket (Addr4 0xcb007109)) \<noteq> Key (ClientBucket (Addr4 0x0a000002)) \<and>
   parseHop ''::ffff:203.0.113.9'' = Some (Addr4 0xcb007109)"
proof -
  have hops: "parseHop ''203.0.113.9'' = Some (Addr4 0xcb007109)" "parseHop ''10.0.0.2'' = Some (Addr4 0x0a000002)"
    by code_simp+
  have five: "replicate 5 (0 :: nat) = [0, 0, 0, 0, 0]" by (simp add: numeral_eq_Suc)
  have "ParseAddr ''::ffff:203.0.113.9'' = Some (Addr6 0xffffcb007109 [])"
    apply (simp add: ParseAddr_def parseIPv6_def has_prefix_def Let_def)
    apply (simp add: v6_groups.simps hex_value_def dec_digit_def is_digit_def Let_def)
    apply (simp add: expand_ellipsis_def of_fields_def five)
    done
  moreover have "TrimSpace ''::ffff:203.0.113.9'' = ''::ffff:203.0.113.9''"
    by (rule TrimSpace_ends) (simp_all add: plain_char_def)
  ultimately have "parseHop ''::ffff:203.0.113.9'' = Some (Addr4 0xcb007109)"
    by (simp add: parseHop_def Let_def drop_bit_eq_div)
  with client_bucket_key [OF hops] show ?thesis by simp
qed

end
