(* ===== verification/Auth.thy ===== *)
theory Auth
  imports GoLang
begin

text \<open>
  Package \<^verbatim>\<open>internal/platform/auth\<close>: the integration keys. A verifier keeps a secret drawn at startup and
  the tag of each key under it. The keyed hash is cryptography the program relies on and is an argument,
  \<open>hmac secret text\<close>; what the program needs of it, that different texts among the configured keys and the
  candidates get different tags, is a hypothesis of the properties. A nil verifier is \<^const>\<open>None\<close>.
\<close>

section \<open>The verifier (apikey.go)\<close>

definition MinAPIKeyLength :: nat where "MinAPIKeyLength = 32"

definition ErrNoAPIKeys :: goerr where
  "ErrNoAPIKeys = NewError ''at least one integration API key is required''"

definition ErrInvalidAPIKey :: goerr where
  "ErrInvalidAPIKey = NewError (''integration API keys must have at least '' @ itoa (int MinAPIKeyLength) @
     '' characters and no surrounding whitespace'')"

definition ErrDuplicateAPIKey :: goerr where
  "ErrDuplicateAPIKey = NewError ''integration API keys must be unique''"

record verifier =
  ve_secret :: string
  ve_tags :: "string list"

definition tag :: "(string \<Rightarrow> string \<Rightarrow> string) \<Rightarrow> string \<Rightarrow> string \<Rightarrow> string" where
  "tag hmac secret text = hmac secret text"

fun check_keys :: "string set \<Rightarrow> string list \<Rightarrow> goerr option" where
  "check_keys seen [] = None"
| "check_keys seen (key # keys) =
     (if length key < MinAPIKeyLength \<or> TrimSpace key \<noteq> key then Some ErrInvalidAPIKey
      else if key \<in> seen then Some ErrDuplicateAPIKey
      else check_keys (insert key seen) keys)"

text \<open>\<open>random\<close> is what reading the secret returned.\<close>

definition NewAPIKeyVerifier ::
  "(string \<Rightarrow> string \<Rightarrow> string) \<Rightarrow> string + string \<Rightarrow> string list \<Rightarrow> verifier result" where
  "NewAPIKeyVerifier hmac random keys =
     (if keys = [] then Inl ErrNoAPIKeys
      else case check_keys {} keys of
        Some e \<Rightarrow> Inl e
      | None \<Rightarrow>
          (case random of
             Inl e \<Rightarrow> Inl (wrap ''generate API key verifier secret'' (External e))
           | Inr secret \<Rightarrow> Inr \<lparr>ve_secret = secret, ve_tags = map (tag hmac secret) keys\<rparr>))"

definition ConstantTimeCompare :: "string \<Rightarrow> string \<Rightarrow> nat" where
  "ConstantTimeCompare x y = (if x = y then 1 else 0)"

definition Valid :: "(string \<Rightarrow> string \<Rightarrow> string) \<Rightarrow> verifier option \<Rightarrow> string \<Rightarrow> bool" where
  "Valid hmac v candidate =
     (case v of
        None \<Rightarrow> False
      | Some v \<Rightarrow>
          let candidateTag = tag hmac (ve_secret v) candidate
          in foldl (\<lambda>valid t. Bit_Operations.or valid (ConstantTimeCompare candidateTag t)) 0 (ve_tags v) = 1)"

definition Fingerprint :: "(string \<Rightarrow> string \<Rightarrow> string) \<Rightarrow> verifier option \<Rightarrow> string \<Rightarrow> string option" where
  "Fingerprint hmac v candidate =
     (if \<not> Valid hmac v candidate then None
      else Some (hex_encode (tag hmac (ve_secret (the v)) candidate)))"

section \<open>Properties\<close>

lemma check_keys_None:
  "check_keys seen keys = None \<longleftrightarrow>
   (\<forall>k \<in> set keys. MinAPIKeyLength \<le> length k \<and> TrimSpace k = k \<and> k \<notin> seen) \<and> distinct keys"
  by (induction seen keys rule: check_keys.induct) (auto simp: not_less)

lemma Valid_iff: "Valid hmac (Some v) c \<longleftrightarrow> tag hmac (ve_secret v) c \<in> set (ve_tags v)"
proof -
  have *: "foldl (\<lambda>valid t. Bit_Operations.or valid (ConstantTimeCompare x t)) b ts = (if b = 1 \<or> x \<in> set ts then 1 else 0)"
    if "b = 0 \<or> b = 1" for x ts and b :: nat
    using that by (induction ts arbitrary: b) (auto simp: ConstantTimeCompare_def)
  show ?thesis by (simp add: Valid_def Let_def *)
qed

lemma hex_digit_inject: "m < 16 \<Longrightarrow> n < 16 \<Longrightarrow> hex_digit m = hex_digit n \<longleftrightarrow> m = n"
proof
  assume "m < 16" "n < 16" "hex_digit m = hex_digit n"
  moreover have "(of_char (hex_digit k) :: nat) = (if k < 10 then 48 + k else 87 + k)" if "k < 16" for k
    using that by (simp add: hex_digit_def)
  ultimately have "(if m < 10 then 48 + m else 87 + m) = (if n < 10 then 48 + n else 87 + n)" by metis
  then show "m = n" by (auto split: if_splits)
qed simp

lemma hex_encode_inject: "hex_encode xs = hex_encode ys \<longleftrightarrow> xs = ys"
proof
  show "hex_encode xs = hex_encode ys \<Longrightarrow> xs = ys"
  proof (induction xs arbitrary: ys)
    case Nil
    then show ?case by (cases ys) (auto simp: hex_encode_def)
  next
    case (Cons x xs)
    then obtain y ys' where ys: "ys = y # ys'" by (cases ys) (auto simp: hex_encode_def)
    have b: "(of_char z :: nat) div 16 < 16" for z using char_lt_256 [of z] by (simp add: less_mult_imp_div_less)
    from Cons.prems ys b have "(of_char x :: nat) div 16 = of_char y div 16" "(of_char x :: nat) mod 16 = of_char y mod 16"
      and rest: "hex_encode xs = hex_encode ys'"
      by (auto simp: hex_encode_def hex_digit_inject)
    then have "(of_char x :: nat) = of_char y" by (metis div_mult_mod_eq)
    with Cons.IH [OF rest] ys show ?case by (metis char_of_char)
  qed
qed simp

text \<open>
  Exactly the configured keys open the door. When a verifier could be built, its keys are long enough,
  without surrounding space and all different; a candidate is valid exactly when it is one of them, and only
  then has it a fingerprint; and two valid candidates share a fingerprint exactly when they are the same
  key. A process without a verifier accepts nothing.
\<close>

theorem verifier_accepts_keys:
  assumes "NewAPIKeyVerifier hmac random keys = Inr v"
    and "\<forall>k \<in> insert c (insert d (set keys)). \<forall>l \<in> insert c (insert d (set keys)).
      hmac (ve_secret v) k = hmac (ve_secret v) l \<longrightarrow> k = l"
  shows "keys \<noteq> [] \<and> distinct keys \<and> (\<forall>k \<in> set keys. 32 \<le> length k \<and> TrimSpace k = k) \<and>
    (Valid hmac (Some v) c \<longleftrightarrow> c \<in> set keys) \<and>
    (Fingerprint hmac (Some v) c = None \<longleftrightarrow> c \<notin> set keys) \<and>
    (c \<in> set keys \<and> d \<in> set keys \<longrightarrow> (Fingerprint hmac (Some v) c = Fingerprint hmac (Some v) d \<longleftrightarrow> c = d)) \<and>
    \<not> Valid hmac None c \<and> Fingerprint hmac None c = None"
proof -
  from assms(1) have keys: "keys \<noteq> []" "check_keys {} keys = None" and tags: "ve_tags v = map (tag hmac (ve_secret v)) keys"
    by (auto simp: NewAPIKeyVerifier_def split: if_splits option.splits sum.splits)
  have "Valid hmac (Some v) x \<longleftrightarrow> x \<in> set keys" if "x = c \<or> x = d" for x
    using assms(2) that by (auto simp: Valid_iff tags tag_def)
  then have "Valid hmac (Some v) c \<longleftrightarrow> c \<in> set keys" "Valid hmac (Some v) d \<longleftrightarrow> d \<in> set keys" by auto
  moreover have "tag hmac (ve_secret v) c = tag hmac (ve_secret v) d \<longleftrightarrow> c = d" using assms(2) by (auto simp: tag_def)
  ultimately show ?thesis using keys
    by (auto simp: check_keys_None MinAPIKeyLength_def Fingerprint_def hex_encode_inject) (auto simp: Valid_def)
qed

theorem verifier_accepts_keys_witness:
  "Valid (\<lambda>s x. s @ x) (Some \<lparr>ve_secret = ''s'', ve_tags = [''s'' @ replicate 32 CHR ''k'']\<rparr>) (replicate 32 CHR ''k'') \<and>
   \<not> Valid (\<lambda>s x. s @ x) (Some \<lparr>ve_secret = ''s'', ve_tags = [''s'' @ replicate 32 CHR ''k'']\<rparr>) ''guess''"
proof -
  let ?k = "replicate 32 CHR ''k''" and ?v = "\<lparr>ve_secret = ''s'', ve_tags = [''s'' @ replicate 32 CHR ''k'']\<rparr>"
  have "TrimSpace ?k = ?k" by (rule TrimSpace_plain) (auto simp: plain_char_def)
  then have "NewAPIKeyVerifier (\<lambda>s x. s @ x) (Inr ''s'') [?k] = Inr ?v"
    by (simp add: NewAPIKeyVerifier_def MinAPIKeyLength_def tag_def)
  moreover have "''guess'' \<noteq> ?k" by (simp add: numeral_eq_Suc)
  ultimately show ?thesis
    using verifier_accepts_keys [of "\<lambda>s x. s @ x" "Inr ''s''" "[?k]" ?v ?k ?k] verifier_accepts_keys [of "\<lambda>s x. s @ x" "Inr ''s''" "[?k]" ?v "''guess''" ?k]
    by simp
qed

end
