(* ===== verification/Http_Limits.thy ===== *)
theory Http_Limits
  imports Config Client_Bucket Auth
begin

text \<open>
  The rate limiting policy of the transport (\<^verbatim>\<open>internal/transport/http/ratelimit.go\<close>): which limiter
  counts a request, and under which key. The middlewares that call it are in \<^theory_text>\<open>Http_Server\<close>. A nil
  \<^verbatim>\<open>*rateLimiters\<close> is \<^const>\<open>None\<close>; every call of a limiter has the instant its clock showed. Refusals go to
  the observer, as notes of the limiter's name and the route class.
\<close>

section \<open>Route classes\<close>

definition healthPath :: string where "healthPath = ''/health''"
definition webhookPath :: string where "webhookPath = ''/v1/webhooks/stripe''"
definition docsPath :: string where "docsPath = ''/docs''"
definition docsIndexPath :: string where "docsIndexPath = ''/docs/''"
definition openAPIPath :: string where "openAPIPath = ''/openapi.yaml''"

definition RouteClassHealth :: string where "RouteClassHealth = ''health''"
definition RouteClassDocs :: string where "RouteClassDocs = ''docs''"
definition RouteClassBusiness :: string where "RouteClassBusiness = ''business''"
definition RouteClassOperations :: string where "RouteClassOperations = ''operations''"
definition RouteClassWebhook :: string where "RouteClassWebhook = ''webhook''"

lemma route_classes_distinct [simp]:
  "RouteClassHealth \<noteq> RouteClassWebhook" "RouteClassWebhook \<noteq> RouteClassHealth"
  "RouteClassDocs \<noteq> RouteClassWebhook" "RouteClassDocs \<noteq> RouteClassHealth"
  "RouteClassBusiness \<noteq> RouteClassWebhook" "RouteClassBusiness \<noteq> RouteClassHealth" "RouteClassBusiness \<noteq> RouteClassDocs"
  "RouteClassOperations \<noteq> RouteClassWebhook" "RouteClassOperations \<noteq> RouteClassHealth" "RouteClassOperations \<noteq> RouteClassDocs"
  by (simp_all add: RouteClassHealth_def RouteClassDocs_def RouteClassBusiness_def RouteClassOperations_def RouteClassWebhook_def)

definition coarseRouteClass :: "string \<Rightarrow> string" where
  "coarseRouteClass path =
     (if path = healthPath then RouteClassHealth
      else if path = webhookPath then RouteClassWebhook
      else if path = docsPath \<or> path = openAPIPath \<or> has_prefix path docsIndexPath then RouteClassDocs
      else RouteClassBusiness)"

definition routeClassFor :: "string \<Rightarrow> string" where
  "routeClassFor operationID =
     (if operationID = ''GetHealth'' then RouteClassHealth
      else if operationID = ''ReceiveStripeWebhook'' then RouteClassWebhook
      else if operationID = ''ListWebhookEvents'' \<or> operationID = ''ReprocessWebhookEvent'' then RouteClassOperations
      else RouteClassBusiness)"

section \<open>The limiters\<close>

definition limiterClient :: string where "limiterClient = ''client''"
definition limiterCredential :: string where "limiterCredential = ''credential''"
definition limiterWebhook :: string where "limiterWebhook = ''webhook''"
definition limiterHealth :: string where "limiterHealth = ''health''"

record rate_limit_config =
  rg_Enabled :: bool
  rg_Client :: policy
  rg_ClientCapacity :: int
  rg_Credential :: policy
  rg_CredentialCapacity :: int
  rg_Webhook :: policy
  rg_Health :: policy
  rg_HealthCapacity :: int
  rg_IdleTTL :: duration

definition rateLimitConfig :: "rate_limit_policy \<Rightarrow> rate_limit_config" where
  "rateLimitConfig p =
     \<lparr>rg_Enabled = rp_Enabled p,
      rg_Client = \<lparr>po_Burst = rp_ClientBurst p, po_Interval = rp_ClientInterval p\<rparr>, rg_ClientCapacity = rp_ClientCapacity p,
      rg_Credential = \<lparr>po_Burst = rp_CredentialBurst p, po_Interval = rp_CredentialInterval p\<rparr>,
      rg_CredentialCapacity = rp_CredentialCapacity p,
      rg_Webhook = \<lparr>po_Burst = rp_WebhookBurst p, po_Interval = rp_WebhookInterval p\<rparr>,
      rg_Health = \<lparr>po_Burst = rp_HealthBurst p, po_Interval = rp_HealthInterval p\<rparr>, rg_HealthCapacity = rp_HealthCapacity p,
      rg_IdleTTL = rp_IdleTTL p\<rparr>"

record rate_limiters =
  rl_client :: limiter
  rl_credential :: limiter
  rl_webhook :: limiter
  rl_health :: limiter
  rl_fingerprinter :: "(string \<Rightarrow> string option) option"
  rl_observed :: bool

definition newRateLimiters ::
  "rate_limit_config \<Rightarrow> (string \<Rightarrow> string option) option \<Rightarrow> bool \<Rightarrow> rate_limiters option result" where
  "newRateLimiters cfg fingerprinter observed =
     (if \<not> rg_Enabled cfg then Inr None
      else if fingerprinter = None then Inl (NewError ''rate limiting requires a credential fingerprinter'')
      else case New_limiter (rg_Client cfg) (rg_ClientCapacity cfg) (rg_IdleTTL cfg) ''RATE_LIMIT_CLIENT'' of
        Inl e \<Rightarrow> Inl e
      | Inr client \<Rightarrow>
     (case New_limiter (rg_Credential cfg) (rg_CredentialCapacity cfg) (rg_IdleTTL cfg) ''RATE_LIMIT_CREDENTIAL'' of
        Inl e \<Rightarrow> Inl e
      | Inr credential \<Rightarrow>
     (case New_limiter (rg_Webhook cfg) 1 (rg_IdleTTL cfg) ''RATE_LIMIT_WEBHOOK'' of
        Inl e \<Rightarrow> Inl e
      | Inr webhook \<Rightarrow>
     (case New_limiter (rg_Health cfg) (rg_HealthCapacity cfg) (rg_IdleTTL cfg) ''RATE_LIMIT_HEALTH'' of
        Inl e \<Rightarrow> Inl e
      | Inr health \<Rightarrow>
          Inr (Some \<lparr>rl_client = client, rl_credential = credential, rl_webhook = webhook, rl_health = health,
            rl_fingerprinter = fingerprinter, rl_observed = observed\<rparr>)))))"

definition globalWebhookKey :: string where "globalWebhookKey = ''webhook''"

type_synonym rejection = "string \<times> string"

definition observe :: "rate_limiters \<Rightarrow> rate_decision \<Rightarrow> string \<Rightarrow> string \<Rightarrow> rejection list" where
  "observe l d name class = (if \<not> rd_Allowed d \<and> rl_observed l then [(name, class)] else [])"

definition allowed :: rate_decision where
  "allowed = \<lparr>rd_Allowed = True, rd_RetryAfter = 0\<rparr>"

definition allowClient ::
  "instant \<Rightarrow> addr \<Rightarrow> string \<Rightarrow> rate_limiters option \<Rightarrow> rate_limiters option \<times> rate_decision \<times> rejection list" where
  "allowClient now address class ls =
     (case ls of
        None \<Rightarrow> (None, allowed, [])
      | Some l \<Rightarrow>
          if class = RouteClassHealth then
            (case Allow now (Key (ClientBucket address)) (rl_health l) of
               (l', d) \<Rightarrow> (Some (l\<lparr>rl_health := l'\<rparr>), d, observe l d limiterHealth class))
          else
            (case Allow now (Key (ClientBucket address)) (rl_client l) of
               (l', d) \<Rightarrow> (Some (l\<lparr>rl_client := l'\<rparr>), d, observe l d limiterClient class)))"

definition allowWebhook ::
  "instant \<Rightarrow> rate_limiters option \<Rightarrow> rate_limiters option \<times> rate_decision \<times> rejection list" where
  "allowWebhook now ls =
     (case ls of
        None \<Rightarrow> (None, allowed, [])
      | Some l \<Rightarrow>
          (case Allow now globalWebhookKey (rl_webhook l) of
             (l', d) \<Rightarrow> (Some (l\<lparr>rl_webhook := l'\<rparr>), d, observe l d limiterWebhook RouteClassWebhook)))"

definition allowCredential ::
  "instant \<Rightarrow> string \<Rightarrow> string \<Rightarrow> rate_limiters option \<Rightarrow> rate_limiters option \<times> rate_decision \<times> rejection list" where
  "allowCredential now credential class ls =
     (case ls of
        None \<Rightarrow> (None, allowed, [])
      | Some l \<Rightarrow>
          (case rl_fingerprinter l of
             None \<Rightarrow> (ls, allowed, [])
           | Some fingerprint \<Rightarrow>
               (case fingerprint credential of
                  None \<Rightarrow> (ls, allowed, [])
                | Some f \<Rightarrow>
                    (case Allow now f (rl_credential l) of
                       (l', d) \<Rightarrow> (Some (l\<lparr>rl_credential := l'\<rparr>), d, observe l d limiterCredential class)))))"

section \<open>A loaded configuration builds its limiters\<close>

lemma New_limiter_Inr:
  "1 \<le> po_Burst p \<Longrightarrow> 0 < po_Interval p \<Longrightarrow> 0 < quot (po_Interval p) (po_Burst p) \<Longrightarrow> 1 \<le> cap \<Longrightarrow> 0 \<le> ttl \<Longrightarrow>
   New_limiter p cap ttl name = Inr \<lparr>li_policy = p, li_capacity = cap, li_ttl = ttl, li_order = []\<rparr>"
  by (simp add: New_limiter_def Policy_Validate_def)

definition limit_ok :: "duration \<Rightarrow> int \<Rightarrow> duration \<Rightarrow> bool" where
  "limit_ok ttl b i \<longleftrightarrow> 1 \<le> b \<and> 0 < i \<and> 0 < quot i b \<and> (0 < ttl \<longrightarrow> i \<le> ttl)"

lemma validated_limits:
  assumes "validateRateLimits c = None"
  shows "\<forall>l \<in> set (limit_settings c). limit_ok (cf_RateLimitIdleTTL c) (fst (snd l)) (snd (snd l))"
    and "1 \<le> cf_RateLimitClientCapacity c" "1 \<le> cf_RateLimitCredentialCapacity c" "1 \<le> cf_RateLimitHealthCapacity c"
      "0 \<le> cf_RateLimitIdleTTL c"
proof -
  note none = assms [unfolded validateRateLimits_def first_failure_None set_append ball_Un]
  show "1 \<le> cf_RateLimitClientCapacity c" "1 \<le> cf_RateLimitCredentialCapacity c" "1 \<le> cf_RateLimitHealthCapacity c"
    "0 \<le> cf_RateLimitIdleTTL c" using none by (auto simp: not_less)
  show "\<forall>l \<in> set (limit_settings c). limit_ok (cf_RateLimitIdleTTL c) (fst (snd l)) (snd (snd l))"
  proof
    fix l assume l: "l \<in> set (limit_settings c)"
    obtain n b i where nbi: "l = (n, b, i)" by (cases l)
    have "\<forall>g \<in> set (limit_guards l). \<not> fst g" using none l by auto
    moreover have "0 < cf_RateLimitIdleTTL c \<longrightarrow> \<not> fst (ttl_guard (cf_RateLimitIdleTTL c) l)"
      using none l by (cases "0 < cf_RateLimitIdleTTL c") (simp_all del: ttl_guard.simps split_paired_All)
    ultimately show "limit_ok (cf_RateLimitIdleTTL c) (fst (snd l)) (snd (snd l))"
      by (simp add: nbi limit_ok_def not_less not_le)
  qed
qed

lemma limit_ok_New: "limit_ok ttl b i \<Longrightarrow> 1 \<le> cap \<Longrightarrow> 0 \<le> ttl \<Longrightarrow> New_limiter \<lparr>po_Burst = b, po_Interval = i\<rparr> cap ttl name =
    Inr \<lparr>li_policy = \<lparr>po_Burst = b, po_Interval = i\<rparr>, li_capacity = cap, li_ttl = ttl, li_order = []\<rparr> \<and> (ttl = 0 \<or> i \<le> ttl)"
  by (auto simp: limit_ok_def New_limiter_Inr)

text \<open>
  What was validated at startup can be built. The limiters of the transport validate their settings a
  second time; no configuration that \<^verbatim>\<open>Load\<close> accepted is refused there, and unless expiry is off no
  bucket is reclaimed within the interval it refills in.
\<close>

theorem Load_builds_limiters:
  assumes "Load file parsed s a req = Inr c"
  shows "\<exists>ls. newRateLimiters (rateLimitConfig (RateLimitPolicy c)) (Some fp) observed = Inr ls \<and>
    (case ls of
       None \<Rightarrow> \<not> cf_RateLimitEnabled c
     | Some l \<Rightarrow> cf_RateLimitEnabled c \<and>
         list_all (\<lambda>li. li_order li = [] \<and> 1 \<le> li_capacity li \<and> (li_ttl li = 0 \<or> po_Interval (li_policy li) \<le> li_ttl li))
           [rl_client l, rl_credential l, rl_webhook l, rl_health l])"
proof -
  note v = validated_limits [OF conjunct1 [OF conjunct2 [OF Load_Inr [OF assms]]]]
  have "limit_ok (cf_RateLimitIdleTTL c) (cf_RateLimitClientBurst c) (cf_RateLimitClientInterval c)"
    "limit_ok (cf_RateLimitIdleTTL c) (cf_RateLimitCredentialBurst c) (cf_RateLimitCredentialInterval c)"
    "limit_ok (cf_RateLimitIdleTTL c) (cf_RateLimitWebhookBurst c) (cf_RateLimitWebhookInterval c)"
    "limit_ok (cf_RateLimitIdleTTL c) (cf_RateLimitHealthBurst c) (cf_RateLimitHealthInterval c)"
    using v(1) by (simp_all add: limit_settings_def)
  note this [THEN limit_ok_New]
  with v(2-5) show ?thesis
    by (simp add: newRateLimiters_def rateLimitConfig_def RateLimitPolicy_def)
qed

theorem Load_builds_limiters_witness:
  "\<exists>ls. newRateLimiters (rateLimitConfig (RateLimitPolicy default_config)) (Some (\<lambda>_. None)) True = Inr (Some ls)"
  using Load_builds_limiters [OF default_loads, of "\<lambda>_. None" True]
  by (auto simp: default_config_def RateLimitPolicy_def split: option.splits)

end
