(* ===== verification/Http_Server.thy ===== *)
theory Http_Server
  imports Http_Handlers Http_Limits Errsanitize
begin

text \<open>
  The HTTP server (\<^verbatim>\<open>internal/transport/http\<close>): the middleware chain of \<^verbatim>\<open>server.go\<close>, the authentication of
  \<^verbatim>\<open>auth.go\<close>, the rate limiting middlewares of \<^verbatim>\<open>ratelimit.go\<close>, the headers of \<^verbatim>\<open>headers.go\<close>, the
  documentation routes of \<^verbatim>\<open>docs.go\<close>, and the routes, parameter binding and strict handlers of the
  generated server. One request is one function of the server's state: the application's state, the
  limiters and the refusals observed so far.

  What belongs to third parties is an argument (\<open>library\<close> below): the binding of parameters and the
  documentation page; so is the JSON codec. Logging and tracing are left out. The path of a request
  is the list of its decoded segments; \<^verbatim>\<open>URL.Path\<close> joins them, while the multiplexer matches them one by
  one. \<open>rq_Redirect\<close> is where \<^verbatim>\<open>net/http\<close> sends a request whose escaped path is not clean, and
  \<open>rq_BodyError\<close> the error of the connection after the bytes of \<open>rq_Body\<close>.
\<close>

section \<open>Requests and the library around them\<close>

record http_request =
  rq_Method :: string
  rq_Segments :: "string list"
  rq_RawQuery :: string
  rq_Redirect :: "string option"
  rq_RemoteAddr :: string
  rq_Header :: "string \<Rightarrow> string list"
  rq_Body :: string
  rq_BodyError :: "string option"

definition URL_Path :: "http_request \<Rightarrow> string" where
  "URL_Path rq = concat (map (\<lambda>s. CHR ''/'' # s) (rq_Segments rq))"

definition header_Get :: "http_request \<Rightarrow> string \<Rightarrow> string" where
  "header_Get rq name = (case rq_Header rq name of [] \<Rightarrow> [] | v # _ \<Rightarrow> v)"

datatype docs_mode = DocsDisabled | DocsPublic | DocsProtected

text \<open>What the parameter binder of the runtime package answers for a query parameter it refuses.\<close>

datatype bind_error = RequiredParameterError | BindFailed string

datatype endpoint =
    EP_GetHealth | EP_CreateOrder | EP_GetOrder | EP_CreateCheckout
  | EP_ListWebhookEvents | EP_ReprocessWebhookEvent | EP_ReceiveStripeWebhook

datatype pattern_segment = Literal string | Wildcard

type_synonym route = "string \<times> pattern_segment list \<times> endpoint"

text \<open>The third-party code: the Swagger page and the hashes of its inline scripts, the JSON codec, and the
  parameter binder.\<close>

record library =
  lb_ui :: "http_request \<Rightarrow> writer \<Rightarrow> writer"
  lb_hashes :: "string list option"
  lb_encode :: "payload \<Rightarrow> string option"
  lb_decode :: "string \<times> goerr option \<Rightarrow> create_order_request result"
  lb_bind_header :: "string \<Rightarrow> string \<Rightarrow> string + string"
  lb_bind_path :: "string \<Rightarrow> string \<Rightarrow> string + string"
  lb_bind_status :: "http_request \<Rightarrow> bind_error + string option"
  lb_bind_limit :: "http_request \<Rightarrow> bind_error + int option"

record 's server = library +
  sr_handler :: "'s api_handler"
  sr_routes :: "route list"
  sr_verifier :: "(string \<Rightarrow> bool) option"
  sr_trusted :: "prefix list"
  sr_docs :: docs_mode
  sr_docs_policy :: string

record 's server_state =
  ss_App :: 's
  ss_Limiters :: "rate_limiters option"
  ss_Rejected :: "rejection list"

text \<open>A step of a handler chain: the state, the writer, and the text of a panic.\<close>

type_synonym 's served = "'s server_state \<times> writer \<times> string option"

section \<open>Security headers (headers.go)\<close>

definition headerContentTypeOptions :: string where "headerContentTypeOptions = ''X-Content-Type-Options''"
definition headerReferrerPolicy :: string where "headerReferrerPolicy = ''Referrer-Policy''"
definition headerCacheControl :: string where "headerCacheControl = ''Cache-Control''"
definition headerContentSecurity :: string where "headerContentSecurity = ''Content-Security-Policy''"
definition headerFrameOptions :: string where "headerFrameOptions = ''X-Frame-Options''"

definition strictContentSecurityPolicy :: string where
  "strictContentSecurityPolicy = ''default-src ''@ CHR 39 # ''none'' @ CHR 39 # ''; frame-ancestors '' @ CHR 39 # ''none'' @ [CHR 39]"

definition setStrictSecurityHeaders :: "writer \<Rightarrow> writer" where
  "setStrictSecurityHeaders w =
     set_header headerFrameOptions ''DENY''
      (set_header headerContentSecurity strictContentSecurityPolicy
       (set_header headerCacheControl ''no-store''
        (set_header headerReferrerPolicy ''no-referrer''
         (set_header headerContentTypeOptions ''nosniff'' w))))"

section \<open>Errors (errors.go, server.go)\<close>

definition writeError :: "(payload \<Rightarrow> string option) \<Rightarrow> string \<Rightarrow> int \<Rightarrow> string \<Rightarrow> string \<Rightarrow> writer \<Rightarrow> writer" where
  "writeError encode correlation status code message w =
     (let w1 = WriteHeader status (set_header ''Content-Type'' ''application/json'' (setStrictSecurityHeaders w));
          body = ErrorBody (newError correlation code message)
      in case encode body of Some e \<Rightarrow> w1 | None \<Rightarrow> write_body body w1)"

definition retryAfterHeader :: string where "retryAfterHeader = ''Retry-After''"

definition writeRateLimited :: "(payload \<Rightarrow> string option) \<Rightarrow> string \<Rightarrow> duration \<Rightarrow> writer \<Rightarrow> writer" where
  "writeRateLimited encode correlation retryAfter w =
     (let d = (if retryAfter \<le> 0 then Second else retryAfter)
      in writeError encode correlation 429 codeRateLimited ''too many requests''
           (set_header retryAfterHeader (itoa (quot d Second)) w))"

text \<open>\<^verbatim>\<open>errors.As\<close> for \<^verbatim>\<open>*http.MaxBytesError\<close>, which is the library's error of this text, and for
  \<^verbatim>\<open>rateLimitedError\<close>.\<close>

definition MaxBytesError :: goerr where "MaxBytesError = External ''http: request body too large''"

fun as_too_large :: "goerr \<Rightarrow> bool" and part_too_large :: "errpart \<Rightarrow> bool" where
  "as_too_large (Errorf ps) = list_ex part_too_large ps"
| "as_too_large (PermanentError e) = as_too_large e"
| "as_too_large e = (e = MaxBytesError)"
| "part_too_large (T t) = False"
| "part_too_large (W e) = as_too_large e"

fun as_limited :: "goerr \<Rightarrow> duration option" and parts_limited :: "errpart list \<Rightarrow> duration option" where
  "as_limited (RateLimitedError d) = Some d"
| "as_limited (Errorf ps) = parts_limited ps"
| "as_limited (PermanentError e) = as_limited e"
| "as_limited e = None"
| "parts_limited [] = None"
| "parts_limited (T t # ps) = parts_limited ps"
| "parts_limited (W e # ps) = (case as_limited e of Some d \<Rightarrow> Some d | None \<Rightarrow> parts_limited ps)"

definition requestErrorHandler :: "(payload \<Rightarrow> string option) \<Rightarrow> string \<Rightarrow> goerr \<Rightarrow> writer \<Rightarrow> writer" where
  "requestErrorHandler encode correlation e w =
     (if as_too_large e then writeError encode correlation 413 codeInvalidRequest ''request body too large'' w
      else writeError encode correlation 400 codeInvalidRequest (Error_text e) w)"

definition responseErrorHandler :: "(payload \<Rightarrow> string option) \<Rightarrow> string \<Rightarrow> goerr \<Rightarrow> writer \<Rightarrow> writer" where
  "responseErrorHandler encode correlation e w =
     (case as_limited e of
        Some retryAfter \<Rightarrow> writeRateLimited encode correlation retryAfter w
      | None \<Rightarrow>
          if errors_Is ErrUnauthorized e
          then writeError encode correlation 401 codeUnauthorized (sentinel_text ErrUnauthorized) w
          else if errors_Is ErrNotServed e
          then writeError encode correlation 501 codeNotImplemented (sentinel_text ErrNotServed) w
          else writeError encode correlation 500 codeInternalError ''internal error'' w)"

section \<open>Operations and their middlewares\<close>

datatype operation =
    Op_GetHealth
  | Op_CreateOrder string create_order_request
  | Op_GetOrder string
  | Op_CreateCheckout string string
  | Op_ListWebhookEvents "string option" "int option"
  | Op_ReprocessWebhookEvent string
  | Op_ReceiveStripeWebhook "string option" "string \<times> goerr option"

fun operationID :: "operation \<Rightarrow> string" where
  "operationID Op_GetHealth = ''GetHealth''"
| "operationID (Op_CreateOrder k b) = ''CreateOrder''"
| "operationID (Op_GetOrder i) = ''GetOrder''"
| "operationID (Op_CreateCheckout i k) = ''CreateCheckout''"
| "operationID (Op_ListWebhookEvents s l) = ''ListWebhookEvents''"
| "operationID (Op_ReprocessWebhookEvent i) = ''ReprocessWebhookEvent''"
| "operationID (Op_ReceiveStripeWebhook s b) = ''ReceiveStripeWebhook''"

fun outcome_as :: "('a \<Rightarrow> 'b) \<Rightarrow> 's \<times> 'a outcome \<Rightarrow> 's \<times> 'b outcome" where
  "outcome_as f (s, Returns a) = (s, Returns (f a))"
| "outcome_as f (s, Fails e) = (s, Fails e)"
| "outcome_as f (s, Panics t) = (s, Panics t)"

fun call_operation :: "'s api_handler \<Rightarrow> string \<Rightarrow> operation \<Rightarrow> 's \<Rightarrow> 's \<times> operation_response outcome" where
  "call_operation h c Op_GetHealth s = outcome_as GetHealthResponse (GetHealth h c s)"
| "call_operation h c (Op_CreateOrder k b) s = outcome_as CreateOrderResponse (CreateOrder h c k (Some b) s)"
| "call_operation h c (Op_GetOrder i) s = outcome_as GetOrderResponse (GetOrder h c i s)"
| "call_operation h c (Op_CreateCheckout i k) s = outcome_as CreateCheckoutResponse (CreateCheckout_handler h c i k s)"
| "call_operation h c (Op_ListWebhookEvents st l) s = outcome_as ListWebhookEventsResponse (ListWebhookEvents_handler h c st l s)"
| "call_operation h c (Op_ReprocessWebhookEvent i) s = outcome_as ReprocessWebhookEventResponse (ReprocessWebhookEvent_handler h c i s)"
| "call_operation h c (Op_ReceiveStripeWebhook sg b) s =
     outcome_as ReceiveStripeWebhookResponse (ReceiveStripeWebhook_handler h c sg (Some b) s)"

text \<open>A strict handler takes the state and the request, here only its credential.\<close>

type_synonym 's strict_handler = "'s server_state \<Rightarrow> 's server_state \<times> operation_response outcome"

definition apiKeyHeader :: string where "apiKeyHeader = ''X-API-Key''"

definition publicOperation :: "string \<Rightarrow> bool" where
  "publicOperation opID \<longleftrightarrow> opID = ''GetHealth'' \<or> opID = ''ReceiveStripeWebhook''"

definition verified :: "(string \<Rightarrow> bool) option \<Rightarrow> string \<Rightarrow> bool" where
  "verified verifier credential = (case verifier of None \<Rightarrow> False | Some valid \<Rightarrow> valid credential)"

definition apiKeyAuthenticationMiddleware ::
  "(string \<Rightarrow> bool) option \<Rightarrow> string \<Rightarrow> 's strict_handler \<Rightarrow> string \<Rightarrow> 's strict_handler" where
  "apiKeyAuthenticationMiddleware verifier credential next opID st =
     (if publicOperation opID then next st
      else if \<not> verified verifier credential then (st, Fails (Sentinel ErrUnauthorized))
      else next st)"

definition operationRateLimitMiddleware ::
  "instant \<Rightarrow> string \<Rightarrow> 's strict_handler \<Rightarrow> string \<Rightarrow> 's strict_handler" where
  "operationRateLimitMiddleware now credential next opID st =
     (if ss_Limiters st = None then next st
      else let class = routeClassFor opID in
        if class = RouteClassBusiness \<or> class = RouteClassOperations then
          (case allowCredential now credential class (ss_Limiters st) of
             (ls, d, rejected) \<Rightarrow>
               let st' = st\<lparr>ss_Limiters := ls, ss_Rejected := ss_Rejected st @ rejected\<rparr>
               in if rd_Allowed d then next st' else (st', Fails (RateLimitedError (rd_RetryAfter d))))
        else next st)"

text \<open>\<^verbatim>\<open>strictHandler\<close>: the middlewares wrap in order, so the rate limit is outermost. What comes back is a
  response to write, an error, or a panic. (A response of another type than the operation's, which the
  generated code also checks for, cannot be expressed.)\<close>

fun respond ::
  "(payload \<Rightarrow> string option) \<Rightarrow> string \<Rightarrow> 's server_state \<times> operation_response outcome \<Rightarrow> writer \<Rightarrow> 's served" where
  "respond encode c (st, Returns response) w =
     (case visit_response encode response w of
        (w', None) \<Rightarrow> (st, w', None)
      | (w', Some e) \<Rightarrow> (st, responseErrorHandler encode c e w', None))"
| "respond encode c (st, Fails e) w = (st, responseErrorHandler encode c e w, None)"
| "respond encode c (st, Panics t) w = (st, w, Some t)"

definition call_strict :: "'s api_handler \<Rightarrow> string \<Rightarrow> operation \<Rightarrow> 's strict_handler" where
  "call_strict h c op st = (case call_operation h c op (ss_App st) of (s', r) \<Rightarrow> (st\<lparr>ss_App := s'\<rparr>, r))"

definition strict_serve ::
  "'s server \<Rightarrow> instant \<Rightarrow> http_request \<Rightarrow> string \<Rightarrow> operation \<Rightarrow> 's server_state \<Rightarrow> writer \<Rightarrow> 's served" where
  "strict_serve sv now rq c op st w =
     (let credential = header_Get rq apiKeyHeader; opID = operationID op
      in respond (lb_encode sv) c
           (operationRateLimitMiddleware now credential
              (apiKeyAuthenticationMiddleware (sr_verifier sv) credential (call_strict (sr_handler sv) c op) opID) opID st) w)"

end
