(* ===== verification/Http_Routes.thy ===== *)
theory Http_Routes
  imports Http_Server
begin

text \<open>
  From the connection to the strict handlers: the generated wrappers that bind parameters, the route table
  and the multiplexer of \<^verbatim>\<open>net/http\<close> over it (\<^verbatim>\<open>openapi/server.gen.go\<close>), the documentation routes
  (\<^verbatim>\<open>docs.go\<close>), and the middleware chain of \<^verbatim>\<open>newServer\<close> (\<^verbatim>\<open>server.go\<close>). \<open>serve\<close> is one request.
\<close>

section \<open>The generated wrappers\<close>

definition InvalidParamFormatError :: "string \<Rightarrow> string \<Rightarrow> goerr" where
  "InvalidParamFormatError name e = NewError (''Invalid format for parameter '' @ name @ '': '' @ e)"

definition TooManyValuesForParamError :: "string \<Rightarrow> nat \<Rightarrow> goerr" where
  "TooManyValuesForParamError name n = NewError (''Expected one value for '' @ name @ '', got '' @ itoa (int n))"

definition RequiredHeaderError :: "string \<Rightarrow> goerr" where
  "RequiredHeaderError name = NewError (''Header parameter '' @ name @ '' is required, but not found'')"

definition RequiredParamError :: "string \<Rightarrow> goerr" where
  "RequiredParamError name = NewError (''Query argument '' @ name @ '' is required, but not found'')"

text \<open>A header of at most one value; \<^const>\<open>None\<close> when it is absent.\<close>

definition header_parameter :: "'s server \<Rightarrow> http_request \<Rightarrow> string \<Rightarrow> string option result" where
  "header_parameter sv rq name =
     (case rq_Header rq name of
        [] \<Rightarrow> Inr None
      | [v] \<Rightarrow> (case lb_bind_header sv name v of Inl e \<Rightarrow> Inl (InvalidParamFormatError name e) | Inr x \<Rightarrow> Inr (Some x))
      | vs \<Rightarrow> Inl (TooManyValuesForParamError name (length vs)))"

definition idempotency_key :: "'s server \<Rightarrow> http_request \<Rightarrow> string result" where
  "idempotency_key sv rq =
     (case header_parameter sv rq ''Idempotency-Key'' of
        Inl e \<Rightarrow> Inl e
      | Inr None \<Rightarrow> Inl (RequiredHeaderError ''Idempotency-Key'')
      | Inr (Some key) \<Rightarrow> Inr key)"

definition path_parameter :: "'s server \<Rightarrow> string \<Rightarrow> string list \<Rightarrow> string result" where
  "path_parameter sv name values =
     (case lb_bind_path sv name (case values of [] \<Rightarrow> [] | v # _ \<Rightarrow> v) of
        Inl e \<Rightarrow> Inl (InvalidParamFormatError name e)
      | Inr x \<Rightarrow> Inr x)"

fun query_error :: "string \<Rightarrow> bind_error \<Rightarrow> goerr" where
  "query_error name RequiredParameterError = RequiredParamError name"
| "query_error name (BindFailed e) = InvalidParamFormatError name e"

text \<open>\<open>body\<close> is what reading the request body gives. Only \<^verbatim>\<open>CreateOrder\<close> decodes it before the strict
  middlewares run.\<close>

definition bind_CreateOrder :: "'s server \<Rightarrow> http_request \<Rightarrow> string \<times> goerr option \<Rightarrow> operation result" where
  "bind_CreateOrder sv rq body =
     (case idempotency_key sv rq of
        Inl e \<Rightarrow> Inl e
      | Inr key \<Rightarrow>
          (case lb_decode sv body of
             Inl e \<Rightarrow> Inl (wrap ''can't decode JSON body'' e)
           | Inr b \<Rightarrow> Inr (Op_CreateOrder key b)))"

definition bind_GetOrder :: "'s server \<Rightarrow> string list \<Rightarrow> operation result" where
  "bind_GetOrder sv values =
     (case path_parameter sv ''orderId'' values of Inl e \<Rightarrow> Inl e | Inr orderId \<Rightarrow> Inr (Op_GetOrder orderId))"

definition bind_CreateCheckout :: "'s server \<Rightarrow> http_request \<Rightarrow> string list \<Rightarrow> operation result" where
  "bind_CreateCheckout sv rq values =
     (case path_parameter sv ''orderId'' values of
        Inl e \<Rightarrow> Inl e
      | Inr orderId \<Rightarrow>
          (case idempotency_key sv rq of Inl e \<Rightarrow> Inl e | Inr key \<Rightarrow> Inr (Op_CreateCheckout orderId key)))"

definition bind_ListWebhookEvents :: "'s server \<Rightarrow> http_request \<Rightarrow> operation result" where
  "bind_ListWebhookEvents sv rq =
     (case lb_bind_status sv rq of
        Inl e \<Rightarrow> Inl (query_error ''status'' e)
      | Inr status \<Rightarrow>
          (case lb_bind_limit sv rq of
             Inl e \<Rightarrow> Inl (query_error ''limit'' e)
           | Inr maxEvents \<Rightarrow> Inr (Op_ListWebhookEvents status maxEvents)))"

definition bind_ReprocessWebhookEvent :: "'s server \<Rightarrow> string list \<Rightarrow> operation result" where
  "bind_ReprocessWebhookEvent sv values =
     (case path_parameter sv ''webhookEventId'' values of Inl e \<Rightarrow> Inl e | Inr i \<Rightarrow> Inr (Op_ReprocessWebhookEvent i))"

definition bind_ReceiveStripeWebhook :: "'s server \<Rightarrow> http_request \<Rightarrow> string \<times> goerr option \<Rightarrow> operation result" where
  "bind_ReceiveStripeWebhook sv rq body =
     (case header_parameter sv rq ''Stripe-Signature'' of
        Inl e \<Rightarrow> Inl e
      | Inr signature \<Rightarrow> Inr (Op_ReceiveStripeWebhook signature body))"

fun bind_endpoint ::
  "'s server \<Rightarrow> http_request \<Rightarrow> string \<times> goerr option \<Rightarrow> string list \<Rightarrow> endpoint \<Rightarrow> operation result" where
  "bind_endpoint sv rq body vs EP_GetHealth = Inr Op_GetHealth"
| "bind_endpoint sv rq body vs EP_CreateOrder = bind_CreateOrder sv rq body"
| "bind_endpoint sv rq body vs EP_GetOrder = bind_GetOrder sv vs"
| "bind_endpoint sv rq body vs EP_CreateCheckout = bind_CreateCheckout sv rq vs"
| "bind_endpoint sv rq body vs EP_ListWebhookEvents = bind_ListWebhookEvents sv rq"
| "bind_endpoint sv rq body vs EP_ReprocessWebhookEvent = bind_ReprocessWebhookEvent sv vs"
| "bind_endpoint sv rq body vs EP_ReceiveStripeWebhook = bind_ReceiveStripeWebhook sv rq body"

section \<open>The multiplexer\<close>

definition MethodGet :: string where "MethodGet = ''GET''"
definition MethodHead :: string where "MethodHead = ''HEAD''"
definition MethodPost :: string where "MethodPost = ''POST''"

definition api_routes :: "route list" where
  "api_routes =
     [(MethodGet, [Literal ''health''], EP_GetHealth),
      (MethodPost, [Literal ''v1'', Literal ''orders''], EP_CreateOrder),
      (MethodGet, [Literal ''v1'', Literal ''orders'', Wildcard], EP_GetOrder),
      (MethodPost, [Literal ''v1'', Literal ''orders'', Wildcard, Literal ''checkout''], EP_CreateCheckout),
      (MethodGet, [Literal ''v1'', Literal ''webhook-events''], EP_ListWebhookEvents),
      (MethodPost, [Literal ''v1'', Literal ''webhook-events'', Wildcard, Literal ''reprocess''], EP_ReprocessWebhookEvent),
      (MethodPost, [Literal ''v1'', Literal ''webhooks'', Literal ''stripe''], EP_ReceiveStripeWebhook)]"

text \<open>A wildcard matches one segment that is not empty; a pattern for GET also matches HEAD.\<close>

fun match_pattern :: "pattern_segment list \<Rightarrow> string list \<Rightarrow> string list option" where
  "match_pattern [] [] = Some []"
| "match_pattern (Literal l # ps) (s # ss) = (if s = l then match_pattern ps ss else None)"
| "match_pattern (Wildcard # ps) (s # ss) = (if s = [] then None else map_option (Cons s) (match_pattern ps ss))"
| "match_pattern ps ss = None"

definition method_matches :: "string \<Rightarrow> string \<Rightarrow> bool" where
  "method_matches m method \<longleftrightarrow> method = m \<or> m = MethodGet \<and> method = MethodHead"

fun match_route :: "route list \<Rightarrow> string \<Rightarrow> string list \<Rightarrow> (endpoint \<times> string list) option" where
  "match_route [] method segments = None"
| "match_route ((m, ps, ep) # rs) method segments =
     (case match_pattern ps segments of
        Some vs \<Rightarrow> if method_matches m method then Some (ep, vs) else match_route rs method segments
      | None \<Rightarrow> match_route rs method segments)"

definition matchingMethods :: "route list \<Rightarrow> string list \<Rightarrow> string list" where
  "matchingMethods rs segments = filter (\<lambda>m. match_route rs m segments \<noteq> None) [MethodGet, MethodHead, MethodPost]"

text \<open>The responses \<^verbatim>\<open>net/http\<close> writes by itself.\<close>

definition hexEscapeNonASCII :: "string \<Rightarrow> string" where
  "hexEscapeNonASCII s = concat (map (\<lambda>c. if (of_char c :: nat) < 128 then [c] else CHR ''%'' # hex_encode [c]) s)"

definition htmlEscape :: "string \<Rightarrow> string" where
  "htmlEscape s = concat (map (\<lambda>c. if c = CHR ''&'' then ''&amp;'' else if c = CHR ''<'' then ''&lt;''
     else if c = CHR ''>'' then ''&gt;'' else if c = CHR 34 then ''&#34;'' else if c = CHR 39 then ''&#39;'' else [c]) s)"

definition http_Error :: "string \<Rightarrow> int \<Rightarrow> writer \<Rightarrow> writer" where
  "http_Error message status w =
     write_body (TextBody (message @ [CHR 10]))
       (WriteHeader status (set_header ''X-Content-Type-Options'' ''nosniff''
         (set_header ''Content-Type'' ''text/plain; charset=utf-8'' w)))"

definition http_Redirect :: "string \<Rightarrow> string \<Rightarrow> writer \<Rightarrow> writer" where
  "http_Redirect method target w =
     (let hadCT = wr_Header w ''Content-Type'' \<noteq> None;
          w1 = set_header ''Location'' (hexEscapeNonASCII target) w;
          w2 = (if \<not> hadCT \<and> (method = MethodGet \<or> method = MethodHead)
                then set_header ''Content-Type'' ''text/html; charset=utf-8'' w1 else w1);
          w3 = WriteHeader 301 w2
      in if \<not> hadCT \<and> method = MethodGet
         then write_body (TextBody (''<a href='' @ quoted (htmlEscape target) @ ''>Moved Permanently</a>.'' @ [CHR 10, CHR 10])) w3
         else w3)"

definition not_routed :: "route list \<Rightarrow> http_request \<Rightarrow> writer \<Rightarrow> writer" where
  "not_routed rs rq w =
     (case matchingMethods rs (rq_Segments rq) of
        [] \<Rightarrow> http_Error ''404 page not found'' 404 w
      | ms \<Rightarrow> http_Error ''Method Not Allowed'' 405 (set_header ''Allow'' (join_with '', '' ms) w))"

section \<open>Documentation (docs.go)\<close>

definition docsAllowHeader :: string where "docsAllowHeader = ''GET, HEAD''"

definition DocsModeFor :: "bool \<Rightarrow> bool \<Rightarrow> docs_mode" where
  "DocsModeFor enabled development =
     (if \<not> enabled then DocsDisabled else if development then DocsPublic else DocsProtected)"

text \<open>The patterns \<^verbatim>\<open>registerDocs\<close> adds, without a method: two paths and the subtree below \<^verbatim>\<open>/docs/\<close>.\<close>

definition registerDocs :: "docs_mode \<Rightarrow> string list \<Rightarrow> bool" where
  "registerDocs mode segments \<longleftrightarrow>
     mode \<noteq> DocsDisabled \<and> (segments = [''docs''] \<or> segments = [''openapi.yaml''] \<or> (\<exists>s ss. segments = ''docs'' # s # ss))"

lemma registerDocs_code [code]:
  "registerDocs mode segments \<longleftrightarrow>
     mode \<noteq> DocsDisabled \<and> (segments = [''docs''] \<or> segments = [''openapi.yaml''] \<or>
       (case segments of a # b # ss \<Rightarrow> a = ''docs'' | _ \<Rightarrow> False))"
  by (auto simp: registerDocs_def split: list.splits)

definition swaggerContentSecurityPolicy :: "string list option \<Rightarrow> string" where
  "swaggerContentSecurityPolicy hashes =
     (let q = (\<lambda>s. CHR 39 # s @ [CHR 39]);
          scriptSources = q ''self'' # (case hashes of None \<Rightarrow> [q ''unsafe-inline''] | Some hs \<Rightarrow> hs)
      in join_with ''; ''
        [''default-src '' @ q ''none'',
         ''script-src '' @ join_with '' '' scriptSources,
         ''style-src '' @ q ''self'' @ '' '' @ q ''unsafe-inline'',
         ''img-src '' @ q ''self'' @ '' data:'',
         ''font-src '' @ q ''self'',
         ''connect-src '' @ q ''self'',
         ''base-uri '' @ q ''none'',
         ''form-action '' @ q ''none'',
         ''frame-ancestors '' @ q ''none''])"

definition docs_serve :: "'s server \<Rightarrow> string \<Rightarrow> http_request \<Rightarrow> writer \<Rightarrow> writer" where
  "docs_serve sv c rq w =
     (if sr_docs sv = DocsProtected \<and> \<not> verified (sr_verifier sv) (header_Get rq apiKeyHeader)
      then writeError (lb_encode sv) c 401 codeUnauthorized (sentinel_text ErrUnauthorized) w
      else if rq_Method rq \<noteq> MethodGet \<and> rq_Method rq \<noteq> MethodHead
      then writeError (lb_encode sv) c 405 codeInvalidRequest ''method not allowed'' (set_header ''Allow'' docsAllowHeader w)
      else if URL_Path rq = docsPath
      then http_Redirect (rq_Method rq) (docsIndexPath @ (if rq_RawQuery rq \<noteq> [] then CHR ''?'' # rq_RawQuery rq else [])) w
      else if URL_Path rq = openAPIPath
      then write_body DocumentBody (set_header ''Content-Type'' ''application/yaml'' w)
      else lb_ui sv rq (set_header headerContentSecurity (sr_docs_policy sv) w))"

section \<open>The middleware chain (server.go)\<close>

definition mux_serve ::
  "'s server \<Rightarrow> instant \<Rightarrow> http_request \<Rightarrow> string \<Rightarrow> string \<times> goerr option \<Rightarrow> 's server_state \<Rightarrow> writer \<Rightarrow> 's served" where
  "mux_serve sv now rq c body st w =
     (case rq_Redirect rq of
        Some target \<Rightarrow> (st, http_Redirect (rq_Method rq) target w, None)
      | None \<Rightarrow>
          if registerDocs (sr_docs sv) (rq_Segments rq) then (st, docs_serve sv c rq w, None)
          else (case match_route (sr_routes sv) (rq_Method rq) (rq_Segments rq) of
             None \<Rightarrow> (st, not_routed (sr_routes sv) rq w, None)
           | Some (ep, vs) \<Rightarrow>
               (case bind_endpoint sv rq body vs ep of
                  Inl e \<Rightarrow> (st, requestErrorHandler (lb_encode sv) c e w, None)
                | Inr op \<Rightarrow> strict_serve sv now rq c op st w)))"

definition maxBodyBytes :: nat where "maxBodyBytes = 64 * 1024"
definition webhookMaxBodyBytes :: nat where "webhookMaxBodyBytes = 512 * 1024"

definition bodyLimitFor :: "string \<Rightarrow> nat" where
  "bodyLimitFor path = (if path = webhookPath then webhookMaxBodyBytes else maxBodyBytes)"

text \<open>Reading through \<^verbatim>\<open>http.MaxBytesReader\<close> to the end.\<close>

definition limited_body :: "nat \<Rightarrow> http_request \<Rightarrow> string \<times> goerr option" where
  "limited_body n rq =
     (if n < length (rq_Body rq) then (take n (rq_Body rq), Some MaxBytesError)
      else (rq_Body rq, map_option External (rq_BodyError rq)))"

definition bodyLimitMiddleware :: "(string \<times> goerr option \<Rightarrow> 'b) \<Rightarrow> http_request \<Rightarrow> 'b" where
  "bodyLimitMiddleware next rq = next (limited_body (bodyLimitFor (URL_Path rq)) rq)"

definition recoveryMiddleware ::
  "(payload \<Rightarrow> string option) \<Rightarrow> string \<Rightarrow> ('s server_state \<Rightarrow> writer \<Rightarrow> 's served) \<Rightarrow>
   's server_state \<Rightarrow> writer \<Rightarrow> 's server_state \<times> writer" where
  "recoveryMiddleware encode c next st w =
     (case next st w of
        (st', w', Some recovered) \<Rightarrow> (st', writeError encode c 500 codeInternalError ''internal error'' w')
      | (st', w', None) \<Rightarrow> (st', w'))"

definition clientRateLimitMiddleware ::
  "(payload \<Rightarrow> string option) \<Rightarrow> string \<Rightarrow> instant \<Rightarrow> string \<Rightarrow> addr option \<Rightarrow>
   ('s server_state \<Rightarrow> writer \<Rightarrow> 's server_state \<times> writer) \<Rightarrow> 's server_state \<Rightarrow> writer \<Rightarrow> 's server_state \<times> writer" where
  "clientRateLimitMiddleware encode c now path address next st w =
     (if ss_Limiters st = None then next st w
      else let class = coarseRouteClass path;
        gate = (\<lambda>(ls, d, rejected).
          let st' = st\<lparr>ss_Limiters := ls, ss_Rejected := ss_Rejected st @ rejected\<rparr>
          in if rd_Allowed d then next st' w else (st', writeRateLimited encode c (rd_RetryAfter d) w))
      in if class = RouteClassWebhook then gate (allowWebhook now (ss_Limiters st))
         else (case address of
           None \<Rightarrow> next st w
         | Some a \<Rightarrow> gate (allowClient now a class (ss_Limiters st))))"

definition correlationHeader :: string where "correlationHeader = ''X-Correlation-ID''"
definition maxCorrelationIDLength :: nat where "maxCorrelationIDLength = 128"

definition alphanumeric :: "char \<Rightarrow> bool" where
  "alphanumeric c \<longleftrightarrow> byte_in 65 90 c \<or> byte_in 97 122 c \<or> byte_in 48 57 c"

definition correlationIDPattern :: "string \<Rightarrow> bool" where
  "correlationIDPattern v =
     (case v of [] \<Rightarrow> False | c # cs \<Rightarrow> alphanumeric c \<and> list_all (\<lambda>d. alphanumeric d \<or> d \<in> set ''._:-'') cs)"

definition validCorrelationID :: "string \<Rightarrow> bool" where
  "validCorrelationID value \<longleftrightarrow>
     value \<noteq> [] \<and> length value \<le> maxCorrelationIDLength \<and> correlationIDPattern value \<and> Sanitize value = value"

text \<open>\<open>random\<close> is the sixteen bytes read, or the instant at which reading them failed.\<close>

definition newCorrelationID :: "instant + string \<Rightarrow> string" where
  "newCorrelationID random = (case random of Inl now \<Rightarrow> ''fallback-'' @ itoa now | Inr bytes \<Rightarrow> hex_encode bytes)"

definition correlationMiddleware :: "instant + string \<Rightarrow> (string \<Rightarrow> writer \<Rightarrow> 'b) \<Rightarrow> http_request \<Rightarrow> writer \<Rightarrow> 'b" where
  "correlationMiddleware random next rq w =
     (let value = TrimSpace (header_Get rq correlationHeader);
          correlationID = (if validCorrelationID value then value else newCorrelationID random)
      in next correlationID (set_header correlationHeader correlationID w))"

definition securityHeadersMiddleware :: "(writer \<Rightarrow> 'b) \<Rightarrow> writer \<Rightarrow> 'b" where
  "securityHeadersMiddleware next w = next (setStrictSecurityHeaders w)"

definition clientAddressMiddleware :: "prefix list option \<Rightarrow> (addr option \<Rightarrow> 'b) \<Rightarrow> http_request \<Rightarrow> 'b" where
  "clientAddressMiddleware resolver next rq = next (Resolve resolver (rq_RemoteAddr rq) (rq_Header rq forwardedForHeader))"

text \<open>\<open>now\<close> and \<open>later\<close> are what the clock showed to the limiter before routing and to the one behind it.\<close>

definition serve ::
  "'s server \<Rightarrow> instant \<Rightarrow> instant \<Rightarrow> instant + string \<Rightarrow> http_request \<Rightarrow> 's server_state \<Rightarrow> 's server_state \<times> writer" where
  "serve sv now later random rq st =
     correlationMiddleware random (\<lambda>c. securityHeadersMiddleware (\<lambda>w.
       clientAddressMiddleware (NewClientAddressResolver (sr_trusted sv)) (\<lambda>address.
         clientRateLimitMiddleware (lb_encode sv) c now (URL_Path rq) address
           (recoveryMiddleware (lb_encode sv) c
             (bodyLimitMiddleware (mux_serve sv later rq c) rq)) st w) rq)) rq new_writer"

text \<open>What the client receives: an unsent status is 200, with the headers as they are at the end.\<close>

definition sent :: "writer \<Rightarrow> int \<times> headers" where
  "sent w = (case wr_Sent w of None \<Rightarrow> (200, wr_Header w) | Some x \<Rightarrow> x)"

section \<open>The servers\<close>

record http_config =
  hc_Docs :: docs_mode
  hc_TrustedProxies :: "prefix list"
  hc_RateLimit :: rate_limit_config

definition NewWithRateLimits ::
  "library \<Rightarrow> http_config \<Rightarrow> 's api_handler \<Rightarrow> (string \<Rightarrow> bool) option \<Rightarrow> (string \<Rightarrow> string option) option \<Rightarrow> bool \<Rightarrow>
   ('s server \<times> rate_limiters option) result" where
  "NewWithRateLimits lib cfg h verifier fingerprinter observed =
     (case newRateLimiters (hc_RateLimit cfg) fingerprinter observed of
        Inl e \<Rightarrow> Inl e
      | Inr limiters \<Rightarrow>
          Inr (library.extend lib (server.fields h api_routes verifier (hc_TrustedProxies cfg) (hc_Docs cfg)
            (swaggerContentSecurityPolicy (lb_hashes lib))), limiters))"

definition NewAPIHandler ::
  "'s health_service \<Rightarrow> 's order_cases option \<Rightarrow> (checkout_input \<Rightarrow> 's \<Rightarrow> 's \<times> checkout result) option \<Rightarrow>
   (receive_input \<Rightarrow> 's \<Rightarrow> 's \<times> string result) option \<Rightarrow> 's event_cases list \<Rightarrow> 's api_handler" where
  "NewAPIHandler healthService orders checkouts webhooks operations =
     \<lparr>ah_health = healthService, ah_orders = orders, ah_checkouts = checkouts, ah_webhooks = webhooks,
      ah_operations = (case operations of [] \<Rightarrow> None | o1 # _ \<Rightarrow> Some o1)\<rparr>"

definition NewHealthOnly :: "library \<Rightarrow> prefix list \<Rightarrow> 's health_service \<Rightarrow> 's server \<times> rate_limiters option" where
  "NewHealthOnly lib trusted healthService =
     (library.extend lib (server.fields (NewAPIHandler healthService None None None [])
        [(MethodGet, [Literal ''health''], EP_GetHealth)] None trusted DocsDisabled []), None)"

end
