(* ===== verification/Http_Answers.thy ===== *)
theory Http_Answers
  imports Http_Routes
begin

text \<open>
  What the server answers: every response carries the correlation identifier and the security headers, and
  every operation answers as the contract (\<^verbatim>\<open>api/openapi.yaml\<close>) says.
\<close>

section \<open>The responses of the handlers\<close>

datatype schema = NoBody | HealthSchema | OrderSchema | CheckoutSchema | EventSchema | EventListSchema | ErrorSchema

fun contract :: "endpoint \<Rightarrow> (int \<times> schema) list" where
  "contract EP_GetHealth = [(200, HealthSchema), (503, HealthSchema), (429, ErrorSchema)]"
| "contract EP_CreateOrder = [(201, OrderSchema), (400, ErrorSchema), (401, ErrorSchema), (404, ErrorSchema),
     (409, ErrorSchema), (413, ErrorSchema), (429, ErrorSchema), (500, ErrorSchema)]"
| "contract EP_GetOrder = [(200, OrderSchema), (401, ErrorSchema), (404, ErrorSchema), (429, ErrorSchema), (500, ErrorSchema)]"
| "contract EP_CreateCheckout = [(201, CheckoutSchema), (400, ErrorSchema), (401, ErrorSchema), (404, ErrorSchema),
     (409, ErrorSchema), (502, ErrorSchema), (429, ErrorSchema), (500, ErrorSchema)]"
| "contract EP_ListWebhookEvents = [(200, EventListSchema), (400, ErrorSchema), (401, ErrorSchema), (429, ErrorSchema),
     (500, ErrorSchema)]"
| "contract EP_ReprocessWebhookEvent = [(202, EventSchema), (401, ErrorSchema), (404, ErrorSchema), (409, ErrorSchema),
     (429, ErrorSchema), (500, ErrorSchema)]"
| "contract EP_ReceiveStripeWebhook = [(202, NoBody), (200, NoBody), (400, ErrorSchema), (429, ErrorSchema), (500, ErrorSchema)]"

text \<open>The bodies of a schema, for a request of this correlation identifier.\<close>

fun matches_schema :: "string \<Rightarrow> schema \<Rightarrow> payload list \<Rightarrow> bool" where
  "matches_schema c NoBody ps \<longleftrightarrow> ps = []"
| "matches_schema c HealthSchema ps \<longleftrightarrow> (\<exists>b. ps = [HealthBody b])"
| "matches_schema c OrderSchema ps \<longleftrightarrow> (\<exists>b. ps = [OrderBody b])"
| "matches_schema c CheckoutSchema ps \<longleftrightarrow> (\<exists>b. ps = [CheckoutBody b])"
| "matches_schema c EventSchema ps \<longleftrightarrow> (\<exists>b. ps = [EventBody b])"
| "matches_schema c EventListSchema ps \<longleftrightarrow> (\<exists>b. ps = [EventListBody b])"
| "matches_schema c ErrorSchema ps \<longleftrightarrow> (\<exists>code message. ps = [ErrorBody (newError c code message)])"

definition in_contract :: "string \<Rightarrow> endpoint \<Rightarrow> int \<Rightarrow> payload list \<Rightarrow> bool" where
  "in_contract c ep status ps \<longleftrightarrow> (case map_of (contract ep) status of None \<Rightarrow> False | Some sch \<Rightarrow> matches_schema c sch ps)"

fun endpoint_of :: "operation \<Rightarrow> endpoint" where
  "endpoint_of Op_GetHealth = EP_GetHealth"
| "endpoint_of (Op_CreateOrder k b) = EP_CreateOrder"
| "endpoint_of (Op_GetOrder i) = EP_GetOrder"
| "endpoint_of (Op_CreateCheckout i k) = EP_CreateCheckout"
| "endpoint_of (Op_ListWebhookEvents s l) = EP_ListWebhookEvents"
| "endpoint_of (Op_ReprocessWebhookEvent i) = EP_ReprocessWebhookEvent"
| "endpoint_of (Op_ReceiveStripeWebhook sg b) = EP_ReceiveStripeWebhook"

text \<open>Writing the response amounts to one status, this correlation identifier, and a body the contract
  allows, and the status is not 500.\<close>

definition writes_json :: "string \<Rightarrow> endpoint \<Rightarrow> operation_response \<Rightarrow> bool" where
  "writes_json c ep r \<longleftrightarrow> (\<exists>status p. (\<forall>enc. visit_response enc r = visit_json enc status c p) \<and>
     in_contract c ep status [p] \<and> status \<noteq> 500)"

definition writes_empty :: "string \<Rightarrow> endpoint \<Rightarrow> operation_response \<Rightarrow> bool" where
  "writes_empty c ep r \<longleftrightarrow> (\<exists>status. (\<forall>enc. visit_response enc r = visit_empty status c) \<and> in_contract c ep status [])"

definition well_written :: "string \<Rightarrow> endpoint \<Rightarrow> operation_response \<Rightarrow> bool" where
  "well_written c ep r \<longleftrightarrow> writes_json c ep r \<or> writes_empty c ep r"

lemma error_schema: "matches_schema c ErrorSchema [ErrorBody (newError c code message)]"
  by auto

lemma writes_jsonI:
  "(\<And>enc. visit_response enc r = visit_json enc status c p) \<Longrightarrow> in_contract c ep status [p] \<Longrightarrow> status \<noteq> 500 \<Longrightarrow>
   well_written c ep r"
  by (auto simp: well_written_def writes_json_def)

lemma writes_emptyI:
  "(\<And>enc. visit_response enc r = visit_empty status c) \<Longrightarrow> in_contract c ep status [] \<Longrightarrow> well_written c ep r"
  by (auto simp: well_written_def writes_empty_def)

lemmas visits = visit_response.simps VisitGetHealthResponse.simps VisitCreateOrderResponse.simps VisitGetOrderResponse.simps
  VisitCreateCheckoutResponse.simps VisitListWebhookEventsResponse.simps VisitReprocessWebhookEventResponse.simps
  VisitReceiveStripeWebhookResponse.simps

text \<open>The responses the handlers make.\<close>

lemma written_responses [simp]:
  "well_written c EP_GetHealth (GetHealthResponse (GetHealth200 hb c))"
  "well_written c EP_GetHealth (GetHealthResponse (GetHealth503 hb c))"
  "well_written c EP_CreateOrder (CreateOrderResponse (CreateOrder201 ob c))"
  "well_written c EP_CreateOrder (CreateOrderResponse (CreateOrder400 (newError c code m) c))"
  "well_written c EP_CreateOrder (CreateOrderResponse (CreateOrder404 (newError c code m) c))"
  "well_written c EP_CreateOrder (CreateOrderResponse (CreateOrder409 (newError c code m) c))"
  "well_written c EP_GetOrder (GetOrderResponse (GetOrder200 ob c))"
  "well_written c EP_GetOrder (GetOrderResponse (GetOrder404 (newError c code m) c))"
  "well_written c EP_CreateCheckout (CreateCheckoutResponse (CreateCheckout201 kb c))"
  "well_written c EP_CreateCheckout (CreateCheckoutResponse (CreateCheckout400 (newError c code m) c))"
  "well_written c EP_CreateCheckout (CreateCheckoutResponse (CreateCheckout404 (newError c code m) c))"
  "well_written c EP_CreateCheckout (CreateCheckoutResponse (CreateCheckout409 (newError c code m) c))"
  "well_written c EP_CreateCheckout (CreateCheckoutResponse (CreateCheckout502 (newError c code m) c))"
  "well_written c EP_ListWebhookEvents (ListWebhookEventsResponse (ListWebhookEvents200 es c))"
  "well_written c EP_ListWebhookEvents (ListWebhookEventsResponse (ListWebhookEvents400 (newError c code m) c))"
  "well_written c EP_ReprocessWebhookEvent (ReprocessWebhookEventResponse (ReprocessWebhookEvent202 eb c))"
  "well_written c EP_ReprocessWebhookEvent (ReprocessWebhookEventResponse (ReprocessWebhookEvent404 (newError c code m) c))"
  "well_written c EP_ReprocessWebhookEvent (ReprocessWebhookEventResponse (ReprocessWebhookEvent409 (newError c code m) c))"
  "well_written c EP_ReceiveStripeWebhook (ReceiveStripeWebhookResponse (ReceiveStripeWebhook400 (newError c code m) c))"
  by (rule writes_jsonI, (unfold visits, rule refl), simp_all add: in_contract_def error_schema del: matches_schema.simps(7))+

lemma written_empty [simp]:
  "well_written c EP_ReceiveStripeWebhook (ReceiveStripeWebhookResponse (ReceiveStripeWebhook200 c))"
  "well_written c EP_ReceiveStripeWebhook (ReceiveStripeWebhookResponse (ReceiveStripeWebhook202 c))"
  by (rule writes_emptyI, (unfold visits, rule refl), simp add: in_contract_def)+

lemma answer_Returns: "answer f g o1 = Returns r \<longleftrightarrow> (\<exists>a. o1 = Returns a \<and> f a = Returns r) \<or> (\<exists>e. o1 = Fails e \<and> g e = Returns r)"
  by (cases o1) auto

lemma answer_Fails: "answer f g o1 = Fails x \<longleftrightarrow> (\<exists>a. o1 = Returns a \<and> f a = Fails x) \<or> (\<exists>e. o1 = Fails e \<and> g e = Fails x)"
  by (cases o1) auto

lemma outcome_as_Returns: "outcome_as f x = (s', Returns r) \<longleftrightarrow> (\<exists>a. x = (s', Returns a) \<and> r = f a)"
  by (cases "(f, x)" rule: outcome_as.cases) auto

lemma outcome_as_Fails: "outcome_as f x = (s', Fails e) \<longleftrightarrow> x = (s', Fails e)"
  by (cases "(f, x)" rule: outcome_as.cases) auto

lemma createOrderError_written: "createOrderError c e = Returns r \<Longrightarrow> well_written c EP_CreateOrder (CreateOrderResponse r)"
  by (auto simp: createOrderError_def sentinelError_def split: if_splits)

lemma createCheckoutError_written:
  "createCheckoutError c e = Returns r \<Longrightarrow> well_written c EP_CreateCheckout (CreateCheckoutResponse r)"
  by (auto simp: createCheckoutError_def sentinelError_def split: if_splits)

lemma GetHealth_written: "GetHealth h c s = (s', Returns r) \<Longrightarrow> well_written c EP_GetHealth (GetHealthResponse r)"
  by (auto simp: GetHealth_def Let_def split: if_splits)

lemma CreateOrder_written: "CreateOrder h c k b s = (s', Returns r) \<Longrightarrow> well_written c EP_CreateOrder (CreateOrderResponse r)"
  by (auto simp: CreateOrder_def answer_Returns createOrderError_written split: option.splits prod.splits)

lemma GetOrder_written: "GetOrder h c i s = (s', Returns r) \<Longrightarrow> well_written c EP_GetOrder (GetOrderResponse r)"
  by (auto simp: GetOrder_def answer_Returns sentinelError_def split: option.splits if_splits)

lemma CreateCheckout_written:
  "CreateCheckout_handler h c i k s = (s', Returns r) \<Longrightarrow> well_written c EP_CreateCheckout (CreateCheckoutResponse r)"
  by (auto simp: CreateCheckout_handler_def answer_Returns createCheckoutError_written
      split: option.splits prod.splits)

lemma ListWebhookEvents_written:
  "ListWebhookEvents_handler h c st l s = (s', Returns r) \<Longrightarrow> well_written c EP_ListWebhookEvents (ListWebhookEventsResponse r)"
  by (auto simp: ListWebhookEvents_handler_def answer_Returns split: option.splits if_splits)

lemma ReprocessWebhookEvent_written:
  "ReprocessWebhookEvent_handler h c i s = (s', Returns r) \<Longrightarrow>
   well_written c EP_ReprocessWebhookEvent (ReprocessWebhookEventResponse r)"
  by (auto simp: ReprocessWebhookEvent_handler_def answer_Returns sentinelError_def
      split: option.splits if_splits prod.splits)

lemma ReceiveStripeWebhook_written:
  "ReceiveStripeWebhook_handler h c sg b s = (s', Returns r) \<Longrightarrow>
   well_written c EP_ReceiveStripeWebhook (ReceiveStripeWebhookResponse r)"
  by (auto simp: ReceiveStripeWebhook_handler_def answer_Returns sentinelError_def split: option.splits if_splits prod.splits)

lemma call_operation_written:
  "call_operation h c op s = (s', Returns r) \<Longrightarrow> well_written c (endpoint_of op) r"
  by (cases op) (auto simp: outcome_as_Returns intro: GetHealth_written CreateOrder_written GetOrder_written
      CreateCheckout_written ListWebhookEvents_written ReprocessWebhookEvent_written ReceiveStripeWebhook_written)

section \<open>Every response is marked\<close>

text \<open>The identifier of a request, and the chain once it is known.\<close>

definition correlation_of :: "instant + string \<Rightarrow> http_request \<Rightarrow> string" where
  "correlation_of random rq = correlationMiddleware random (\<lambda>c w. c) rq new_writer"

definition first_writer :: "string \<Rightarrow> writer" where
  "first_writer c = setStrictSecurityHeaders (set_header correlationHeader c new_writer)"

definition routed_serve :: "'s server \<Rightarrow> instant \<Rightarrow> string \<Rightarrow> http_request \<Rightarrow> 's server_state \<Rightarrow> writer \<Rightarrow> 's server_state \<times> writer" where
  "routed_serve sv later c rq =
     recoveryMiddleware (lb_encode sv) c (mux_serve sv later rq c (limited_body (bodyLimitFor (URL_Path rq)) rq))"

lemma serve_unfold:
  "serve sv now later random rq st =
     clientRateLimitMiddleware (lb_encode sv) (correlation_of random rq) now (URL_Path rq)
       (Resolve (NewClientAddressResolver (sr_trusted sv)) (rq_RemoteAddr rq) (rq_Header rq forwardedForHeader))
       (routed_serve sv later (correlation_of random rq) rq) st (first_writer (correlation_of random rq))"
  by (simp add: serve_def correlationMiddleware_def securityHeadersMiddleware_def clientAddressMiddleware_def
      bodyLimitMiddleware_def routed_serve_def first_writer_def correlation_of_def Let_def)

text \<open>One call of a limiter before routing, and one behind it: what it decided, and what the observer was told.\<close>

definition gated :: "instant \<Rightarrow> 's server_state \<Rightarrow> 's server_state \<Rightarrow> rate_decision \<Rightarrow> bool" where
  "gated now st st1 d \<longleftrightarrow> ss_App st1 = ss_App st \<and> (\<exists>r. ss_Rejected st1 = ss_Rejected st @ r \<and>
     (allowWebhook now (ss_Limiters st) = (ss_Limiters st1, d, r) \<or>
      (\<exists>a class. allowClient now a class (ss_Limiters st) = (ss_Limiters st1, d, r))))"

definition key_counted :: "instant \<Rightarrow> string \<Rightarrow> 's server_state \<Rightarrow> 's server_state \<Rightarrow> rate_decision \<Rightarrow> bool" where
  "key_counted now credential st st1 d \<longleftrightarrow> ss_App st1 = ss_App st \<and> (\<exists>r. ss_Rejected st1 = ss_Rejected st @ r \<and>
     (\<exists>class. allowCredential now credential class (ss_Limiters st) = (ss_Limiters st1, d, r)))"

text \<open>A request is refused by the gate before routing, or routed in the same application state.\<close>

lemma serve_cases:
  obtains (refused) st1 d where
      "serve sv now later random rq st =
         (st1, writeRateLimited (lb_encode sv) (correlation_of random rq) (rd_RetryAfter d) (first_writer (correlation_of random rq)))"
      "ss_App st1 = ss_App st" "\<not> rd_Allowed d" "gated now st st1 d"
  | (routed) st1 where
      "serve sv now later random rq st =
         routed_serve sv later (correlation_of random rq) rq st1 (first_writer (correlation_of random rq))"
      "ss_App st1 = ss_App st"
      "st1 = st \<or> (\<exists>d. gated now st st1 d \<and> rd_Allowed d)"
proof -
  let ?c = "correlation_of random rq"
  let ?next = "routed_serve sv later ?c rq" and ?w = "first_writer ?c"
  let ?a = "Resolve (NewClientAddressResolver (sr_trusted sv)) (rq_RemoteAddr rq) (rq_Header rq forwardedForHeader)"
  obtain lw dw rw where w: "allowWebhook now (ss_Limiters st) = (lw, dw, rw)" by (metis prod_cases3)
  consider "ss_Limiters st = None \<or> coarseRouteClass (URL_Path rq) \<noteq> RouteClassWebhook \<and> ?a = None"
    | "ss_Limiters st \<noteq> None" "coarseRouteClass (URL_Path rq) = RouteClassWebhook"
    | a where "ss_Limiters st \<noteq> None" "coarseRouteClass (URL_Path rq) \<noteq> RouteClassWebhook" "?a = Some a"
    by fastforce
  then show thesis
  proof cases
    case 1
    then have "serve sv now later random rq st = ?next st ?w"
      by (auto simp: serve_unfold clientRateLimitMiddleware_def Let_def)
    then show ?thesis by (rule routed) simp_all
  next
    case 2
    let ?st = "st\<lparr>ss_Limiters := lw, ss_Rejected := ss_Rejected st @ rw\<rparr>"
    from 2 w have "serve sv now later random rq st =
        (if rd_Allowed dw then ?next ?st ?w else (?st, writeRateLimited (lb_encode sv) ?c (rd_RetryAfter dw) ?w))"
      by (auto simp: serve_unfold clientRateLimitMiddleware_def Let_def)
    moreover from w have "gated now st ?st dw" by (auto simp: gated_def)
    ultimately show ?thesis by (cases "rd_Allowed dw") (auto intro: routed [of ?st] refused [of ?st dw])
  next
    case (3 a)
    obtain lc dc rc where c: "allowClient now a (coarseRouteClass (URL_Path rq)) (ss_Limiters st) = (lc, dc, rc)"
      by (metis prod_cases3)
    let ?st = "st\<lparr>ss_Limiters := lc, ss_Rejected := ss_Rejected st @ rc\<rparr>"
    from 3 c have "serve sv now later random rq st =
        (if rd_Allowed dc then ?next ?st ?w else (?st, writeRateLimited (lb_encode sv) ?c (rd_RetryAfter dc) ?w))"
      by (auto simp: serve_unfold clientRateLimitMiddleware_def Let_def)
    moreover from c have "gated now st ?st dc" by (auto simp: gated_def)
    ultimately show ?thesis by (cases "rd_Allowed dc") (auto intro: routed [of ?st] refused [of ?st dc])
  qed
qed

text \<open>Behind the multiplexer: refused for its credential, refused without one, or handled in the same
  application state.\<close>

lemma strict_serve_cases:
  obtains (limited) st1 d where
      "strict_serve sv now rq c op st w = (st1, writeRateLimited (lb_encode sv) c (rd_RetryAfter d) w, None)"
      "ss_App st1 = ss_App st" "\<not> rd_Allowed d" "\<not> publicOperation (operationID op)"
      "key_counted now (header_Get rq apiKeyHeader) st st1 d"
  | (unauthorized) st1 where
      "strict_serve sv now rq c op st w =
         (st1, writeError (lb_encode sv) c 401 codeUnauthorized (sentinel_text ErrUnauthorized) w, None)"
      "ss_App st1 = ss_App st" "\<not> publicOperation (operationID op)"
      "\<not> verified (sr_verifier sv) (header_Get rq apiKeyHeader)"
      "st1 = st \<or> (\<exists>d. key_counted now (header_Get rq apiKeyHeader) st st1 d \<and> rd_Allowed d)"
  | (called) st1 where
      "strict_serve sv now rq c op st w = respond (lb_encode sv) c (call_strict (sr_handler sv) c op st1) w"
      "ss_App st1 = ss_App st"
      "publicOperation (operationID op) \<or> verified (sr_verifier sv) (header_Get rq apiKeyHeader)"
      "st1 = st \<or> (\<exists>d. key_counted now (header_Get rq apiKeyHeader) st st1 d \<and> rd_Allowed d)"
proof -
  let ?k = "header_Get rq apiKeyHeader" and ?id = "operationID op"
  let ?rc = "routeClassFor ?id"
  let ?h = "call_strict (sr_handler sv) c op"
  let ?auth = "apiKeyAuthenticationMiddleware (sr_verifier sv) ?k ?h ?id"
  have auth: "thesis" if "strict_serve sv now rq c op st w = respond (lb_encode sv) c (?auth st1) w" "ss_App st1 = ss_App st"
    "st1 = st \<or> (\<exists>d. key_counted now ?k st st1 d \<and> rd_Allowed d)" for st1
  proof (cases "publicOperation ?id \<or> verified (sr_verifier sv) ?k")
    case True
    with that show thesis by (intro called [of st1]) (auto simp: apiKeyAuthenticationMiddleware_def)
  next
    case False
    with that show thesis
      by (intro unauthorized [of st1]) (auto simp: apiKeyAuthenticationMiddleware_def responseErrorHandler_def)
  qed
  show thesis
  proof (cases "ss_Limiters st \<noteq> None \<and> (?rc = RouteClassBusiness \<or> ?rc = RouteClassOperations)")
    case False
    then have "operationRateLimitMiddleware now ?k ?auth ?id st = ?auth st"
      by (auto simp: operationRateLimitMiddleware_def Let_def)
    then show thesis by (intro auth [of st]) (simp_all add: strict_serve_def Let_def)
  next
    case True
    obtain ls d r where a: "allowCredential now ?k ?rc (ss_Limiters st) = (ls, d, r)" by (metis prod_cases3)
    let ?st = "st\<lparr>ss_Limiters := ls, ss_Rejected := ss_Rejected st @ r\<rparr>"
    have run: "operationRateLimitMiddleware now ?k ?auth ?id st =
        (if rd_Allowed d then ?auth ?st else (?st, Fails (RateLimitedError (rd_RetryAfter d))))"
      using True a by (auto simp: operationRateLimitMiddleware_def Let_def)
    have c: "key_counted now ?k st ?st d" using a by (auto simp: key_counted_def)
    show thesis
    proof (cases "rd_Allowed d")
      case True
      with run c show thesis by (intro auth [of ?st]) (auto simp: strict_serve_def Let_def)
    next
      case refused: False
      have "\<not> publicOperation ?id" using True by (auto simp: publicOperation_def routeClassFor_def route_classes_distinct [symmetric])
      with refused run c show thesis
        by (intro limited [of ?st d]) (auto simp: strict_serve_def Let_def responseErrorHandler_def)
    qed
  qed
qed

text \<open>The headers every response has. \<open>ps\<close> are the security policies it may carry.\<close>

definition secured :: "string set \<Rightarrow> string \<Rightarrow> headers \<Rightarrow> bool" where
  "secured ps c h \<longleftrightarrow> h correlationHeader = Some c \<and> h headerContentTypeOptions = Some ''nosniff'' \<and>
     h headerReferrerPolicy = Some ''no-referrer'' \<and> h headerCacheControl = Some ''no-store'' \<and>
     h headerFrameOptions = Some ''DENY'' \<and> h headerContentSecurity \<in> Some ` ps"

definition security_headers :: "string set" where
  "security_headers = {correlationHeader, headerContentTypeOptions, headerReferrerPolicy, headerCacheControl,
     headerFrameOptions, headerContentSecurity}"

definition marked :: "string set \<Rightarrow> string \<Rightarrow> writer \<Rightarrow> bool" where
  "marked ps c w \<longleftrightarrow> secured ps c (wr_Header w) \<and> (\<forall>s h. wr_Sent w = Some (s, h) \<longrightarrow> secured ps c h)"

lemmas header_names = correlationHeader_def headerContentTypeOptions_def headerReferrerPolicy_def headerCacheControl_def
  headerFrameOptions_def headerContentSecurity_def

lemma marked_set [simp]:
  "marked ps c w \<Longrightarrow> k \<notin> security_headers \<Longrightarrow> marked ps c (set_header k v w)"
  "marked ps c w \<Longrightarrow> marked ps c (set_header ''X-Correlation-ID'' c w)"
  "marked ps c w \<Longrightarrow> marked ps c (set_header ''X-Content-Type-Options'' ''nosniff'' w)"
  "marked ps c w \<Longrightarrow> v \<in> ps \<Longrightarrow> marked ps c (set_header headerContentSecurity v w)"
  by (auto simp: marked_def secured_def set_header_def security_headers_def header_names)

lemma other_headers [simp]:
  "''Content-Type'' \<notin> security_headers" "''Retry-After'' \<notin> security_headers" "''Location'' \<notin> security_headers"
  "''Allow'' \<notin> security_headers" "retryAfterHeader \<notin> security_headers"
  by (auto simp: security_headers_def header_names retryAfterHeader_def)

lemma marked_WriteHeader [simp]: "marked ps c w \<Longrightarrow> marked ps c (WriteHeader s w)"
  by (auto simp: marked_def WriteHeader_def split: option.splits)

lemma marked_write_body [simp]: "marked ps c w \<Longrightarrow> marked ps c (write_body p w)"
  using marked_WriteHeader [of ps c w 200] by (simp add: write_body_def marked_def)

lemma marked_strict [simp]: "marked ps c w \<Longrightarrow> strictContentSecurityPolicy \<in> ps \<Longrightarrow> marked ps c (setStrictSecurityHeaders w)"
  by (auto simp: marked_def secured_def setStrictSecurityHeaders_def set_header_def header_names)

lemma marked_first: "strictContentSecurityPolicy \<in> ps \<Longrightarrow> marked ps c (first_writer c)"
  by (auto simp: first_writer_def marked_def secured_def setStrictSecurityHeaders_def set_header_def new_writer_def header_names)

lemma marked_writeError [simp]:
  "marked ps c w \<Longrightarrow> strictContentSecurityPolicy \<in> ps \<Longrightarrow> marked ps c (writeError enc c' status code message w)"
  by (auto simp: writeError_def Let_def split: option.splits)

lemma marked_writeRateLimited [simp]:
  "marked ps c w \<Longrightarrow> strictContentSecurityPolicy \<in> ps \<Longrightarrow> marked ps c (writeRateLimited enc c' d w)"
  by (auto simp: writeRateLimited_def Let_def)

lemma marked_handlers [simp]:
  assumes "marked ps c w" "strictContentSecurityPolicy \<in> ps"
  shows "marked ps c (requestErrorHandler enc c' e w)" "marked ps c (responseErrorHandler enc c' e w)"
  using assms by (auto simp: requestErrorHandler_def responseErrorHandler_def split: option.splits)

lemma marked_library [simp]:
  assumes "marked ps c w"
  shows "marked ps c (http_Error m s w)" "marked ps c (http_Redirect method target w)" "marked ps c (not_routed rs rq w)"
proof -
  show "marked ps c (http_Error m s w)" for m s w' using assms by (simp add: http_Error_def)
  show "marked ps c (http_Redirect method target w)" using assms by (simp add: http_Redirect_def Let_def)
  have "marked ps c (http_Error m s (set_header ''Allow'' v w))" for m s v
    using assms by (simp add: http_Error_def)
  then show "marked ps c (not_routed rs rq w)" using assms by (simp add: not_routed_def http_Error_def split: list.splits)
qed

lemma marked_visit:
  assumes "well_written c ep r" "marked ps c w"
  shows "marked ps c (fst (visit_response enc r w))"
  using assms
  by (auto simp: well_written_def writes_json_def writes_empty_def visit_json_def visit_empty_def split: option.splits)

lemma marked_respond:
  assumes "marked ps c w" "strictContentSecurityPolicy \<in> ps"
  shows "marked ps c (fst (snd (respond enc c (call_strict h c op st) w)))"
proof -
  obtain s' r where run: "call_operation h c op (ss_App st) = (s', r)" by (cases "call_operation h c op (ss_App st)")
  show ?thesis
  proof (cases r)
    case (Returns resp)
    note m = marked_visit [OF call_operation_written [OF run [unfolded Returns]] assms(1), of enc]
    obtain w' e where v: "visit_response enc resp w = (w', e)" by (cases "visit_response enc resp w")
    from m v assms(2) show ?thesis by (cases e) (simp_all add: call_strict_def run Returns)
  qed (use assms in \<open>simp_all add: call_strict_def run\<close>)
qed

text \<open>The documentation page keeps the headers that were set before it runs.\<close>

definition keeps_headers :: "'s server \<Rightarrow> bool" where
  "keeps_headers sv \<longleftrightarrow> (\<forall>rq ps c w. marked ps c w \<longrightarrow> marked ps c (lb_ui sv rq w))"

definition policies :: "'s server \<Rightarrow> http_request \<Rightarrow> string set" where
  "policies sv rq = insert strictContentSecurityPolicy (if registerDocs (sr_docs sv) (rq_Segments rq) then {sr_docs_policy sv} else {})"

lemma marked_mux:
  assumes "keeps_headers sv" "marked (policies sv rq) c w"
  shows "marked (policies sv rq) c (fst (snd (mux_serve sv now rq c body st w)))"
proof -
  have ps: "strictContentSecurityPolicy \<in> policies sv rq" by (simp add: policies_def)
  have strict: "marked (policies sv rq) c (fst (snd (strict_serve sv now rq c op st w)))" for op
    by (rule strict_serve_cases [of sv now rq c op st w]) (simp_all add: assms(2) ps marked_respond)
  have docs: "marked (policies sv rq) c (docs_serve sv c rq w)" if "registerDocs (sr_docs sv) (rq_Segments rq)"
  proof -
    have "sr_docs_policy sv \<in> policies sv rq" using that by (simp add: policies_def)
    then show ?thesis using assms ps by (simp add: docs_serve_def keeps_headers_def)
  qed
  from strict docs show ?thesis
    by (auto simp: mux_serve_def assms(2) ps split: option.splits sum.splits)
qed

text \<open>An identifier of the pattern cannot break a header line or a log line.\<close>

lemma hex_alphanumeric: "list_all alphanumeric (hex_encode bs)"
  using hex_decodable_encode [of bs] unfolding hex_decodable_def list_all_iff
  by (auto simp: is_hex_def alphanumeric_def byte_in_def Let_def)

lemma digit_alphanumeric: "is_digit c \<Longrightarrow> alphanumeric c"
  by (simp add: is_digit_def alphanumeric_def byte_in_def)

lemma pattern_append:
  "correlationIDPattern v \<Longrightarrow> list_all (\<lambda>d. alphanumeric d \<or> d \<in> set ''._:-'') u \<Longrightarrow> correlationIDPattern (v @ u)"
  by (cases v) (simp_all add: correlationIDPattern_def)

lemma pattern_new:
  assumes "random \<noteq> Inr []"
  shows "correlationIDPattern (newCorrelationID random)"
proof (cases random)
  case (Inl n)
  have "list_all (\<lambda>d. alphanumeric d \<or> d \<in> set ''._:-'') (itoa n)"
    using decimal_digits digit_alphanumeric by (auto simp: itoa_def list_all_iff)
  moreover have "correlationIDPattern ''fallback-''" by code_simp
  ultimately show ?thesis by (simp add: newCorrelationID_def Inl pattern_append del: append_Cons)
next
  case (Inr bs)
  with assms obtain b bs' where bs: "hex_encode bs = b # bs'" by (cases bs) (auto simp: hex_encode_def)
  with Inr hex_alphanumeric [of bs] show ?thesis
    by (auto simp: newCorrelationID_def correlationIDPattern_def list_all_iff)
qed

lemma correlation_of_cases:
  "correlation_of random rq = (let v = TrimSpace (header_Get rq correlationHeader)
     in if validCorrelationID v then v else newCorrelationID random)"
  by (simp add: correlation_of_def correlationMiddleware_def Let_def)

text \<open>
  C34: every response is marked. Whatever the request and whatever happens to it (refused, unrouted, badly formed,
  failed, panicked), the response carries one correlation identifier, the client's when it is a valid
  one and a fresh one otherwise, and the five security headers, with the strict content policy unless the
  documentation was asked for.
\<close>

theorem every_response_marked:
  assumes "keeps_headers sv" and "random \<noteq> Inr []" and "serve sv now later random rq st = (st', w)"
  shows "secured (policies sv rq) (correlation_of random rq) (snd (sent w)) \<and>
    correlationIDPattern (correlation_of random rq) \<and>
    correlation_of random rq = (let v = TrimSpace (header_Get rq correlationHeader)
      in if validCorrelationID v then v else newCorrelationID random)"
proof -
  let ?c = "correlation_of random rq" and ?ps = "policies sv rq"
  have ps: "strictContentSecurityPolicy \<in> ?ps" by (simp add: policies_def)
  note first = marked_first [OF ps, of ?c]
  have "marked ?ps ?c (snd (serve sv now later random rq st))"
  proof (cases rule: serve_cases [of sv now later random rq st])
    case (refused st1 d)
    with first ps show ?thesis by simp
  next
    case (routed st1)
    have "marked ?ps ?c (fst (snd (mux_serve sv later rq ?c (limited_body (bodyLimitFor (URL_Path rq)) rq) st1 (first_writer ?c))))"
      by (rule marked_mux [OF assms(1) first])
    with routed(1) ps show ?thesis
      by (auto simp: routed_serve_def recoveryMiddleware_def split: prod.splits option.splits)
  qed
  moreover have "correlationIDPattern ?c"
    using pattern_new [OF assms(2)] by (simp add: correlation_of_cases validCorrelationID_def Let_def)
  ultimately show ?thesis using assms(3) by (auto simp: sent_def marked_def correlation_of_cases split: option.splits)
qed

text \<open>A process whose use cases find nothing, its library, and requests to it.\<close>

definition sample_library :: library where
  "sample_library = \<lparr>lb_ui = (\<lambda>rq w. write_body (TextBody ''<html>'') w), lb_hashes = Some [], lb_encode = (\<lambda>p. None),
     lb_decode = (\<lambda>(b, e). case e of Some x \<Rightarrow> Inl x | None \<Rightarrow> Inr \<lparr>cr_ProductId = b, cr_Quantity = 1\<rparr>),
     lb_bind_header = (\<lambda>n v. Inr v), lb_bind_path = (\<lambda>n v. Inr v), lb_bind_status = (\<lambda>rq. Inr None),
     lb_bind_limit = (\<lambda>rq. Inr None)\<rparr>"

definition sample_handler :: "nat api_handler" where
  "sample_handler = NewAPIHandler \<lparr>hs_serviceName = ''api'', hs_version = ''1'', hs_checks = []\<rparr>
     (Some \<lparr>oc_Create = (\<lambda>i s. (s + 1, Inl (Sentinel ErrProductNotFound))), oc_Get = (\<lambda>i s. Inl (Sentinel ErrOrderNotFound))\<rparr>)
     (Some (\<lambda>i s. (s + 1, Inl (Sentinel ErrOrderNotFound)))) (Some (\<lambda>i s. (s + 1, Inl (Sentinel ErrInvalidSignature))))
     [\<lparr>ec_List = (\<lambda>st n s. Inr []), ec_Reprocess = (\<lambda>i s. (s, Inl (Sentinel ErrEventNotFound)))\<rparr>]"

definition sample_server :: "nat server" where
  "sample_server = library.extend sample_library
     (server.fields sample_handler api_routes (Some (\<lambda>k. k = ''key'')) [] DocsProtected ''default-src'')"

definition http_sample :: "string \<Rightarrow> string list \<Rightarrow> http_request" where
  "http_sample method segments = \<lparr>rq_Method = method, rq_Segments = segments, rq_RawQuery = [], rq_Redirect = None,
     rq_RemoteAddr = ''10.0.0.1:443'', rq_Header = (\<lambda>n. []), rq_Body = [], rq_BodyError = None\<rparr>"

lemma sample_server_simps [simp]:
  "lb_ui sample_server = (\<lambda>rq w. write_body (TextBody ''<html>'') w)" "lb_encode sample_server = (\<lambda>p. None)"
  "lb_bind_path sample_server = (\<lambda>n v. Inr v)" "sr_handler sample_server = sample_handler"
  "sr_routes sample_server = api_routes" "sr_verifier sample_server = Some (\<lambda>k. k = ''key'')"
  "sr_docs sample_server = DocsProtected"
  by (simp_all add: sample_server_def sample_library_def library.defs server.defs)

theorem every_response_marked_witness:
  "\<exists>st w. serve sample_server 0 0 (Inr (replicate 16 CHR ''a'')) (http_sample ''GET'' [''docs'', ''x''])
       \<lparr>ss_App = 0, ss_Limiters = None, ss_Rejected = []\<rparr> = (st, w) \<and>
     snd (sent w) ''Cache-Control'' = Some ''no-store''"
proof -
  have "keeps_headers sample_server" by (simp add: keeps_headers_def)
  from every_response_marked [OF this _ surjective_pairing, of "Inr (replicate 16 CHR ''a'')" "http_sample ''GET'' [''docs'', ''x'']"
      0 0 "\<lparr>ss_App = 0, ss_Limiters = None, ss_Rejected = []\<rparr>"]
  show ?thesis by (auto simp: secured_def headerCacheControl_def prod_eq_iff)
qed

end
