(* ===== verification/Http_Contract.thy ===== *)
theory Http_Contract
  imports Http_Answers
begin

text \<open>
  Every answer to a routed request is one the contract allows, whatever fails underneath: a status listed
  for the operation and a body of the schema of that status, never a cause.
\<close>

section \<open>Single answers\<close>

definition fresh :: "writer \<Rightarrow> bool" where
  "fresh w \<longleftrightarrow> wr_Sent w = None \<and> wr_Body w = []"

definition wrote :: "writer \<Rightarrow> int \<Rightarrow> payload list \<Rightarrow> bool" where
  "wrote w status ps \<longleftrightarrow> (\<exists>h. wr_Sent w = Some (status, h)) \<and> wr_Body w = ps"

definition internal_error :: "string \<Rightarrow> payload" where
  "internal_error c = ErrorBody (newError c codeInternalError ''internal error'')"

definition answers :: "string \<Rightarrow> endpoint \<Rightarrow> writer \<Rightarrow> bool" where
  "answers c ep w \<longleftrightarrow> (\<exists>status ps. wrote w status ps \<and> in_contract c ep status ps \<and> (status = 500 \<longrightarrow> ps = [internal_error c]))"

lemma fresh_set [simp]: "fresh (set_header k v w) = fresh w"
  by (simp add: fresh_def set_header_def)

lemma fresh_first [simp]: "fresh (first_writer c)"
  by (simp add: fresh_def first_writer_def setStrictSecurityHeaders_def set_header_def new_writer_def)

lemma wrote_body: "fresh w \<Longrightarrow> wrote (write_body p (WriteHeader s w)) s [p]"
  by (auto simp: fresh_def wrote_def write_body_def WriteHeader_def)

lemma wrote_Header: "fresh w \<Longrightarrow> wrote (WriteHeader s w) s []"
  by (auto simp: fresh_def wrote_def WriteHeader_def)

definition encodes_errors :: "(payload \<Rightarrow> string option) \<Rightarrow> bool" where
  "encodes_errors enc \<longleftrightarrow> (\<forall>b. enc (ErrorBody b) = None)"

lemma wrote_Error: "encodes_errors enc \<Longrightarrow> fresh w \<Longrightarrow> wrote (writeError enc c status code m w) status [ErrorBody (newError c code m)]"
  by (simp add: writeError_def Let_def encodes_errors_def wrote_body setStrictSecurityHeaders_def)

lemma wrote_limited: "encodes_errors enc \<Longrightarrow> fresh w \<Longrightarrow> wrote (writeRateLimited enc c d w) 429 [ErrorBody (newError c codeRateLimited ''too many requests'')]"
  by (simp add: writeRateLimited_def Let_def wrote_Error)

lemma wrote_internal: "encodes_errors enc \<Longrightarrow> as_limited e = None \<Longrightarrow> \<not> errors_Is ErrUnauthorized e \<Longrightarrow> \<not> errors_Is ErrNotServed e \<Longrightarrow> fresh w \<Longrightarrow>
    wrote (responseErrorHandler enc c e w) 500 [internal_error c]"
  by (simp add: responseErrorHandler_def wrote_Error internal_error_def)

lemma answers_Error:
  "encodes_errors enc \<Longrightarrow> fresh w \<Longrightarrow> in_contract c ep status [ErrorBody (newError c code m)] \<Longrightarrow> status \<noteq> 500 \<Longrightarrow>
   answers c ep (writeError enc c status code m w)"
  unfolding answers_def using wrote_Error by blast

lemma limited_in_contract: "in_contract c ep 429 [ErrorBody (newError c code m)]"
  by (cases ep) (auto simp: in_contract_def)

lemma answers_limited: "encodes_errors enc \<Longrightarrow> fresh w \<Longrightarrow> answers c ep (writeRateLimited enc c d w)"
  unfolding answers_def using wrote_limited limited_in_contract by fastforce

lemma answers_internal: "ep \<noteq> EP_GetHealth \<Longrightarrow> wrote w 500 [internal_error c] \<Longrightarrow> answers c ep w"
  unfolding answers_def by (cases ep) (auto simp: in_contract_def internal_error_def intro!: exI [of _ 500])

lemma answers_visit:
  assumes "well_written c ep r" "fresh w" "visit_response enc r w = (w', None)"
  shows "answers c ep w'"
proof -
  consider status p where "w' = write_body p (WriteHeader status (set_header ''X-Correlation-ID'' c
      (set_header ''Content-Type'' ''application/json'' w)))" "in_contract c ep status [p]" "status \<noteq> 500"
    | status where "w' = WriteHeader status (set_header ''X-Correlation-ID'' c w)" "in_contract c ep status []"
    using assms(1,3)
    by (auto simp: well_written_def writes_json_def writes_empty_def visit_json_def visit_empty_def split: option.splits)
  then show ?thesis
  proof cases
    case (1 status p)
    then show ?thesis unfolding answers_def using wrote_body [of _ p status] assms(2) by (metis fresh_set)
  next
    case (2 status)
    then have "wrote w' status []" using wrote_Header [of _ status] assms(2) by simp
    moreover have "status \<noteq> 500" using 2(2) by (cases ep) (auto simp: in_contract_def split: if_splits)
    ultimately show ?thesis unfolding answers_def using 2(2) by blast
  qed
qed

section \<open>The use cases\<close>

text \<open>The use cases are all there, and none of them reports one of the errors by which the transport itself
  refuses a request.\<close>

definition transport_error :: "goerr \<Rightarrow> bool" where
  "transport_error e \<longleftrightarrow> as_limited e \<noteq> None \<or> errors_Is ErrUnauthorized e \<or> errors_Is ErrNotServed e"

definition own_errors :: "'a result \<Rightarrow> bool" where
  "own_errors r \<longleftrightarrow> (case r of Inl e \<Rightarrow> \<not> transport_error e | Inr _ \<Rightarrow> True)"

definition complete_handler :: "'s api_handler \<Rightarrow> bool" where
  "complete_handler h \<longleftrightarrow>
     (\<exists>orders checkouts webhooks events.
        h = \<lparr>ah_health = ah_health h, ah_orders = Some orders, ah_checkouts = Some checkouts, ah_webhooks = Some webhooks,
          ah_operations = Some events\<rparr> \<and>
        (\<forall>i s. own_errors (snd (oc_Create orders i s))) \<and> (\<forall>i s. own_errors (oc_Get orders i s)) \<and>
        (\<forall>i s. own_errors (snd (checkouts i s))) \<and> (\<forall>i s. own_errors (snd (webhooks i s))) \<and>
        (\<forall>st n s. own_errors (ec_List events st n s)) \<and> (\<forall>i s. own_errors (snd (ec_Reprocess events i s))))"

lemma transport_error_wrap [simp]: "transport_error (Errorf [T t, W e]) = transport_error e"
  by (auto simp: transport_error_def split: option.splits)

lemma called_Fails: "own_errors r \<Longrightarrow> called r = Fails e \<Longrightarrow> \<not> transport_error e"
  by (auto simp: own_errors_def called_def split: sum.splits goerr.splits)

lemma answer_own:
  "answer f g (called r) = Fails x \<Longrightarrow> own_errors r \<Longrightarrow> transport_error x \<Longrightarrow> (\<And>a. f a \<noteq> Fails x) \<Longrightarrow>
   (\<And>e. \<not> transport_error e \<Longrightarrow> g e \<noteq> Fails x) \<Longrightarrow> False"
  by (auto simp: answer_Fails dest: called_Fails)

lemma own_pair: "own_errors (snd p) \<Longrightarrow> p = (s', r) \<Longrightarrow> own_errors r"
  by simp

lemma CreateOrder_fails:
  "ah_orders h = Some orders \<Longrightarrow> own_errors (snd (oc_Create orders \<lparr>in_ProductID = cr_ProductId b, in_Quantity = cr_Quantity b,
     in_IdempotencyKey = k\<rparr> s)) \<Longrightarrow> CreateOrder h c k (Some b) s = (s', Fails x) \<Longrightarrow> \<not> transport_error x"
  by (auto simp: CreateOrder_def createOrderError_def split: prod.splits if_splits elim!: answer_own)

lemma GetOrder_fails:
  "ah_orders h = Some orders \<Longrightarrow> own_errors (oc_Get orders i s) \<Longrightarrow> GetOrder h c i s = (s', Fails x) \<Longrightarrow> \<not> transport_error x"
  by (auto simp: GetOrder_def split: if_splits elim!: answer_own)

lemma CreateCheckout_fails:
  "ah_checkouts h = Some create \<Longrightarrow> own_errors (snd (create \<lparr>cin_OrderID = i, cin_IdempotencyKey = k\<rparr> s)) \<Longrightarrow>
   CreateCheckout_handler h c i k s = (s', Fails x) \<Longrightarrow> \<not> transport_error x"
  by (auto simp: CreateCheckout_handler_def createCheckoutError_def split: prod.splits if_splits elim!: answer_own)

lemma ListWebhookEvents_fails:
  "ah_operations h = Some events \<Longrightarrow> (\<And>st n. own_errors (ec_List events st n s)) \<Longrightarrow>
   ListWebhookEvents_handler h c st l s = (s', Fails x) \<Longrightarrow> \<not> transport_error x"
  by (auto simp: ListWebhookEvents_handler_def split: if_splits elim!: answer_own)

lemma ReprocessWebhookEvent_fails:
  "ah_operations h = Some events \<Longrightarrow> own_errors (snd (ec_Reprocess events i s)) \<Longrightarrow>
   ReprocessWebhookEvent_handler h c i s = (s', Fails x) \<Longrightarrow> \<not> transport_error x"
  by (auto simp: ReprocessWebhookEvent_handler_def split: prod.splits if_splits elim!: answer_own)

lemma ReceiveStripeWebhook_fails:
  "ah_webhooks h = Some Receive_webhook \<Longrightarrow> (\<And>i s' r. Receive_webhook i s = (s', r) \<Longrightarrow> own_errors r) \<Longrightarrow>
   ReceiveStripeWebhook_handler h c sg b s = (s', Fails x) \<Longrightarrow> \<not> transport_error x"
  by (auto simp: ReceiveStripeWebhook_handler_def split: prod.splits if_splits elim!: answer_own)

text \<open>So no operation fails with an error of the transport, health never fails, and nothing of it panics.\<close>

lemma call_operation_fails:
  assumes h: "complete_handler h" and run: "call_operation h c op s = (s', Fails e)"
  shows "\<not> transport_error e \<and> op \<noteq> Op_GetHealth"
proof -
  obtain orders checkouts webhooks events where
    h_eq: "ah_orders h = Some orders" "ah_checkouts h = Some checkouts" "ah_webhooks h = Some webhooks" "ah_operations h = Some events"
    and errs: "\<And>i s. own_errors (snd (oc_Create orders i s))" "\<And>i s. own_errors (oc_Get orders i s)"
      "\<And>i s. own_errors (snd (checkouts i s))" "\<And>i s. own_errors (snd (webhooks i s))"
      "\<And>st n s. own_errors (ec_List events st n s)" "\<And>i s. own_errors (snd (ec_Reprocess events i s))"
    using h unfolding complete_handler_def by (metis api_handler.select_convs(2-5))
  note fails = CreateOrder_fails [OF h_eq(1) errs(1)] GetOrder_fails [OF h_eq(1) errs(2)]
    CreateCheckout_fails [OF h_eq(2) errs(3)] ListWebhookEvents_fails [OF h_eq(4) errs(5)]
    ReprocessWebhookEvent_fails [OF h_eq(4) errs(6)] ReceiveStripeWebhook_fails [OF h_eq(3) errs(4) [THEN own_pair]]
  show ?thesis
  proof (cases op)
    case Op_GetHealth
    with run show ?thesis by (simp add: outcome_as_Fails GetHealth_def Let_def)
  next
    case (Op_CreateOrder k b)
    with run fails(1) show ?thesis by (auto simp: outcome_as_Fails)
  next
    case (Op_GetOrder i)
    with run fails(2) show ?thesis by (auto simp: outcome_as_Fails)
  next
    case (Op_CreateCheckout i k)
    with run fails(3) show ?thesis by (auto simp: outcome_as_Fails)
  next
    case (Op_ListWebhookEvents x l)
    with run fails(4) show ?thesis by (auto simp: outcome_as_Fails)
  next
    case (Op_ReprocessWebhookEvent i)
    with run fails(5) show ?thesis by (auto simp: outcome_as_Fails)
  next
    case (Op_ReceiveStripeWebhook sg b)
    with run fails(6) show ?thesis by (auto simp: outcome_as_Fails)
  qed
qed

lemma GetHealth_returns:
  assumes "call_operation h c Op_GetHealth s = (s', r)"
  shows "\<exists>hb. r = Returns (GetHealthResponse (GetHealth200 hb c)) \<or> r = Returns (GetHealthResponse (GetHealth503 hb c))"
proof -
  obtain hb where "GetHealth h c s = (s, Returns (GetHealth200 hb c)) \<or> GetHealth h c s = (s, Returns (GetHealth503 hb c))"
    unfolding GetHealth_def Let_def by (cases "hr_Ready (Health_Check (ah_health h) s)") simp_all
  then show ?thesis using assms by auto
qed

section \<open>Answers of the chain\<close>

text \<open>What a panic leaves behind is answered by the recovery.\<close>

definition settles :: "(payload \<Rightarrow> string option) \<Rightarrow> string \<Rightarrow> endpoint \<Rightarrow> 's served \<Rightarrow> bool" where
  "settles enc c ep x \<longleftrightarrow> answers c ep (snd (recoveryMiddleware enc c (\<lambda>st w. x) (fst x) new_writer))"

lemma settles_iff:
  "settles enc c ep (st, w, None) \<longleftrightarrow> answers c ep w"
  "settles enc c ep (st, w, Some t) \<longleftrightarrow> answers c ep (writeError enc c 500 codeInternalError ''internal error'' w)"
  by (simp_all add: settles_def recoveryMiddleware_def)

lemma endpoint_health: "endpoint_of op = EP_GetHealth \<longleftrightarrow> op = Op_GetHealth"
  by (cases op) simp_all

lemma settles_respond:
  assumes enc: "encodes_errors enc" "\<forall>b. enc (HealthBody b) = None" and h: "complete_handler h" and w: "fresh w"
  shows "settles enc c (endpoint_of op) (respond enc c (call_strict h c op st) w)"
proof -
  obtain s' r where run: "call_operation h c op (ss_App st) = (s', r)" by (cases "call_operation h c op (ss_App st)")
  have internal: "answers c (endpoint_of op) (responseErrorHandler enc c e w)" if "op \<noteq> Op_GetHealth" "\<not> transport_error e" for e
    using that wrote_internal [OF enc(1) _ _ _ w, of e c] by (intro answers_internal) (auto simp: transport_error_def endpoint_health)
  show ?thesis
  proof (cases r)
    case (Fails e)
    with call_operation_fails [OF h run [unfolded Fails]] internal show ?thesis
      by (simp add: call_strict_def run settles_iff)
  next
    case (Panics t)
    with run GetHealth_returns [of h c "ss_App st" s' r] have "op \<noteq> Op_GetHealth" by auto
    then have "answers c (endpoint_of op) (writeError enc c 500 codeInternalError ''internal error'' w)"
      using wrote_Error [OF enc(1) w] by (intro answers_internal) (auto simp: internal_error_def endpoint_health)
    with Panics show ?thesis by (simp add: call_strict_def run settles_iff)
  next
    case (Returns resp)
    note written = call_operation_written [OF run [unfolded Returns]]
    obtain w' x where v: "visit_response enc resp w = (w', x)" by (cases "visit_response enc resp w")
    show ?thesis
    proof (cases x)
      case None
      with answers_visit [OF written w] v Returns show ?thesis by (simp add: call_strict_def run settles_iff)
    next
      case (Some e)
      have e: "w' = w \<and> (\<exists>m. e = External m)" and "op \<noteq> Op_GetHealth"
      proof -
        show "w' = w \<and> (\<exists>m. e = External m)"
          using written v Some
          by (auto simp: well_written_def writes_json_def writes_empty_def visit_json_def visit_empty_def split: option.splits)
        show "op \<noteq> Op_GetHealth"
        proof
          assume "op = Op_GetHealth"
          with run Returns obtain hb where "resp = GetHealthResponse (GetHealth200 hb c) \<or> resp = GetHealthResponse (GetHealth503 hb c)"
            using GetHealth_returns [of h c "ss_App st" s' r] by auto
          with v Some enc(2) show False by (auto simp: visit_json_def)
        qed
      qed
      then have "answers c (endpoint_of op) (responseErrorHandler enc c e w)" by (intro internal) (auto simp: transport_error_def)
      with e v Some Returns show ?thesis by (simp add: call_strict_def run settles_iff)
    qed
  qed
qed

lemma settles_strict:
  assumes "encodes_errors (lb_encode sv)" "\<forall>b. lb_encode sv (HealthBody b) = None" "complete_handler (sr_handler sv)" "fresh w"
  shows "settles (lb_encode sv) c (endpoint_of op) (strict_serve sv now rq c op st w)"
proof (cases rule: strict_serve_cases [of sv now rq c op st w])
  case (limited st1 d)
  then show ?thesis using answers_limited [OF assms(1,4)] by (simp add: settles_iff)
next
  case (unauthorized st1)
  then have "in_contract c (endpoint_of op) 401 [ErrorBody (newError c codeUnauthorized (sentinel_text ErrUnauthorized))]"
    by (cases op) (auto simp: publicOperation_def in_contract_def)
  with unauthorized answers_Error [OF assms(1,4)] show ?thesis by (simp add: settles_iff)
next
  case (called st1)
  with settles_respond [OF assms] show ?thesis by simp
qed

lemma bind_endpoint_of: "bind_endpoint sv rq body vs ep = Inr op \<Longrightarrow> endpoint_of op = ep"
  by (cases ep) (auto simp: bind_CreateOrder_def bind_GetOrder_def bind_CreateCheckout_def bind_ListWebhookEvents_def
      bind_ReprocessWebhookEvent_def bind_ReceiveStripeWebhook_def split: sum.splits)

text \<open>A request the wrappers refuse: only the body of an order can be too large there.\<close>

lemma bind_refused:
  assumes "\<forall>n v. \<exists>x. lb_bind_path sv n v = Inr x" and "bind_endpoint sv rq body vs ep = Inl e"
  shows "in_contract c ep (if as_too_large e then 413 else 400) [ErrorBody (newError c code m)]"
proof -
  have path: "path_parameter sv n v \<noteq> Inl x" for n v x
    using assms(1) by (auto simp: path_parameter_def split: sum.splits list.splits) (metis Inl_Inr_False)+
  have "\<not> as_too_large x" if "idempotency_key sv rq = Inl x \<or> header_parameter sv rq n = Inl x" for n x
    using that
    by (auto simp: idempotency_key_def header_parameter_def RequiredHeaderError_def InvalidParamFormatError_def
        TooManyValuesForParamError_def MaxBytesError_def split: list.splits sum.splits option.splits)
  then have key: "idempotency_key sv rq = Inl x \<Longrightarrow> \<not> as_too_large x" "header_parameter sv rq n = Inl x \<Longrightarrow> \<not> as_too_large x" for n x
    by blast+
  have query: "\<not> as_too_large (query_error n x)" for n x
    by (cases x) (simp_all add: RequiredParamError_def InvalidParamFormatError_def MaxBytesError_def)
  show ?thesis
    using assms(2)
    by (cases ep) (auto simp: path key query in_contract_def bind_CreateOrder_def bind_GetOrder_def bind_CreateCheckout_def bind_ListWebhookEvents_def
        bind_ReprocessWebhookEvent_def bind_ReceiveStripeWebhook_def split: sum.splits)
qed

text \<open>
  C10: the contract holds whatever fails. With the use cases in place, every answer to a request for an
  operation of the contract, refused, badly formed, failed or panicked, has a status \<^verbatim>\<open>openapi.yaml\<close> lists for
  that operation and one body of its schema with the request's identifier; an answer 500 says
  \<^verbatim>\<open>internal error\<close> and nothing about the cause.
\<close>

theorem responses_in_contract:
  assumes "encodes_errors (lb_encode sv)" and "\<forall>b. lb_encode sv (HealthBody b) = None"
    and "\<forall>n v. \<exists>x. lb_bind_path sv n v = Inr x" and "complete_handler (sr_handler sv)"
    and "rq_Redirect rq = None" and "\<not> registerDocs (sr_docs sv) (rq_Segments rq)"
    and "match_route (sr_routes sv) (rq_Method rq) (rq_Segments rq) = Some (ep, vs)"
    and "serve sv now later random rq st = (st', w)"
  shows "\<exists>status ps. wrote w status ps \<and> in_contract (correlation_of random rq) ep status ps \<and>
    (status = 500 \<longrightarrow> ps = [internal_error (correlation_of random rq)])"
proof -
  let ?c = "correlation_of random rq" and ?enc = "lb_encode sv"
  have "answers ?c ep (snd (serve sv now later random rq st))"
  proof (cases rule: serve_cases [of sv now later random rq st])
    case (refused st1 d)
    with answers_limited [OF assms(1) fresh_first] show ?thesis by simp
  next
    case (routed st1)
    let ?body = "limited_body (bodyLimitFor (URL_Path rq)) rq" and ?w = "first_writer ?c"
    have mux: "mux_serve sv later rq ?c ?body st1 ?w = (case bind_endpoint sv rq ?body vs ep of
        Inl e \<Rightarrow> (st1, requestErrorHandler ?enc ?c e ?w, None)
      | Inr op \<Rightarrow> strict_serve sv later rq ?c op st1 ?w)"
      using assms(5-7) by (simp add: mux_serve_def)
    have settled: "settles ?enc ?c ep (mux_serve sv later rq ?c ?body st1 ?w)"
    proof (cases "bind_endpoint sv rq ?body vs ep")
      case (Inl e)
      note ok = bind_refused [OF assms(3) Inl, of ?c]
      show ?thesis
        using ok [of codeInvalidRequest "''request body too large''"] ok [of codeInvalidRequest "Error_text e"]
          answers_Error [OF assms(1) fresh_first]
        by (cases "as_too_large e") (simp_all add: mux Inl settles_iff requestErrorHandler_def)
    next
      case (Inr op)
      with settles_strict [OF assms(1,2,4) fresh_first, of ?c op] bind_endpoint_of [OF Inr] show ?thesis by (simp add: mux)
    qed
    have "snd (routed_serve sv later ?c rq st1 ?w) =
        snd (recoveryMiddleware ?enc ?c (\<lambda>st w. mux_serve sv later rq ?c ?body st1 ?w) st1 ?w)"
      by (simp add: routed_serve_def recoveryMiddleware_def)
    with settled routed(1) show ?thesis by (simp add: settles_def recoveryMiddleware_def)
  qed
  then show ?thesis using assms(8) by (simp add: answers_def)
qed

lemma sample_handler_complete: "complete_handler sample_handler"
  unfolding complete_handler_def sample_handler_def NewAPIHandler_def
  by (intro exI conjI) (rule api_handler.equality; simp; fail | simp add: own_errors_def transport_error_def)+

lemma in_contract_status: "in_contract c EP_CreateOrder status ps \<Longrightarrow> status \<in> {201, 400, 401, 404, 409, 413, 429, 500}"
  by (auto simp: in_contract_def split: if_splits)

text \<open>An order without its key: 400 with the words of the wrapper.\<close>

theorem responses_in_contract_witness:
  "\<exists>st w status ps. serve sample_server 0 0 (Inr ''0123456789abcdef'') (http_sample ''POST'' [''v1'', ''orders''])
       \<lparr>ss_App = 0, ss_Limiters = None, ss_Rejected = []\<rparr> = (st, w) \<and>
     wrote w status ps \<and> status \<in> {201, 400, 401, 404, 409, 413, 429, 500}"
proof -
  let ?rq = "http_sample ''POST'' [''v1'', ''orders'']"
  have "match_route (sr_routes sample_server) (rq_Method ?rq) (rq_Segments ?rq) = Some (EP_CreateOrder, [])"
    by (simp add: http_sample_def) code_simp
  moreover have "\<not> registerDocs (sr_docs sample_server) (rq_Segments ?rq)"
    by (simp add: http_sample_def registerDocs_def)
  ultimately have "\<exists>status ps. wrote w status ps \<and> in_contract c EP_CreateOrder status ps"
    if "serve sample_server 0 0 (Inr ''0123456789abcdef'') ?rq \<lparr>ss_App = 0, ss_Limiters = None, ss_Rejected = []\<rparr> = (st, w)"
      "c = correlation_of (Inr ''0123456789abcdef'') ?rq" for st w c
    using responses_in_contract [OF _ _ _ _ _ _ _ that(1)] that(2) sample_handler_complete
    by (fastforce simp: encodes_errors_def http_sample_def)
  then show ?thesis
    by (metis (lifting) surj_pair in_contract_status)
qed

end
