(* ===== verification/Http_Refusals.thy ===== *)
theory Http_Refusals
  imports Http_Contract
begin

text \<open>
  Refused requests: every operation is counted by the limiters of its class, and a refusal is told to the
  observer once, reaches no use case, and tells the client a whole positive number of seconds to wait.
\<close>

section \<open>Which limiter counts\<close>

lemma match_literal: "match_pattern (Literal l # ps) segs = Some us \<longleftrightarrow> (\<exists>ss. segs = l # ss \<and> match_pattern ps ss = Some us)"
  by (cases segs) auto

lemma match_wild: "match_pattern (Wildcard # ps) segs = Some us \<longleftrightarrow>
    (\<exists>s ss ts. segs = s # ss \<and> s \<noteq> [] \<and> match_pattern ps ss = Some ts \<and> us = s # ts)"
  by (cases segs) auto

lemma match_nil: "match_pattern [] segs = Some us \<longleftrightarrow> segs = [] \<and> us = []"
  by (cases segs) auto

lemma match_route_mem: "match_route rs m segs = Some (ep, vs) \<Longrightarrow> \<exists>m' ps. (m', ps, ep) \<in> set rs \<and> match_pattern ps segs = Some vs"
proof (induction rs)
  case (Cons r rs)
  obtain m' ps e where r: "r = (m', ps, e)" by (cases r)
  show ?case
  proof (cases "match_route rs m segs = Some (ep, vs)")
    case True
    with Cons.IH show ?thesis by fastforce
  next
    case False
    with Cons.prems r have "e = ep \<and> match_pattern ps segs = Some vs" by (cases "match_pattern ps segs") (auto split: if_splits)
    with r show ?thesis by fastforce
  qed
qed simp

lemma match_route_api:
  assumes "match_route api_routes m segs = Some (ep, vs)"
  obtains "ep = EP_GetHealth" "segs = [''health'']"
  | "ep = EP_CreateOrder" "segs = [''v1'', ''orders'']"
  | i where "ep = EP_GetOrder" "segs = [''v1'', ''orders'', i]" "i \<noteq> []"
  | i where "ep = EP_CreateCheckout" "segs = [''v1'', ''orders'', i, ''checkout'']" "i \<noteq> []"
  | "ep = EP_ListWebhookEvents" "segs = [''v1'', ''webhook-events'']"
  | i where "ep = EP_ReprocessWebhookEvent" "segs = [''v1'', ''webhook-events'', i, ''reprocess'']" "i \<noteq> []"
  | "ep = EP_ReceiveStripeWebhook" "segs = [''v1'', ''webhooks'', ''stripe'']"
proof -
  obtain m' ps where mem: "(m', ps, ep) \<in> set api_routes" and pat: "match_pattern ps segs = Some vs"
    using match_route_mem [OF assms] by blast
  from mem show thesis
    unfolding api_routes_def list.set insert_iff empty_iff prod.inject
  proof (elim disjE conjE FalseE)
    assume "ps = [Literal ''health'']" "ep = EP_GetHealth"
    with pat show thesis by (intro that(1)) (simp_all only: match_literal match_nil, blast)
  next
    assume "ps = [Literal ''v1'', Literal ''orders'']" "ep = EP_CreateOrder"
    with pat show thesis by (intro that(2)) (simp_all only: match_literal match_nil, blast)
  next
    assume ps: "ps = [Literal ''v1'', Literal ''orders'', Wildcard]" "ep = EP_GetOrder"
    from pat obtain i where "segs = [''v1'', ''orders'', i]" "i \<noteq> []" unfolding ps match_literal match_wild match_nil by blast
    with ps show thesis by (intro that(3))
  next
    assume ps: "ps = [Literal ''v1'', Literal ''orders'', Wildcard, Literal ''checkout'']" "ep = EP_CreateCheckout"
    from pat obtain i where "segs = [''v1'', ''orders'', i, ''checkout'']" "i \<noteq> []" unfolding ps match_literal match_wild match_nil by blast
    with ps show thesis by (intro that(4))
  next
    assume "ps = [Literal ''v1'', Literal ''webhook-events'']" "ep = EP_ListWebhookEvents"
    with pat show thesis by (intro that(5)) (simp_all only: match_literal match_nil, blast)
  next
    assume ps: "ps = [Literal ''v1'', Literal ''webhook-events'', Wildcard, Literal ''reprocess'']" "ep = EP_ReprocessWebhookEvent"
    from pat obtain i where "segs = [''v1'', ''webhook-events'', i, ''reprocess'']" "i \<noteq> []"
      unfolding ps match_literal match_wild match_nil by blast
    with ps show thesis by (intro that(6))
  next
    assume "ps = [Literal ''v1'', Literal ''webhooks'', Literal ''stripe'']" "ep = EP_ReceiveStripeWebhook"
    with pat show thesis by (intro that(7)) (simp_all only: match_literal match_nil, blast)
  qed
qed

text \<open>
  The gate before routing knows what it counts. A request routed to the health probe or to the webhook was
  counted by the limiter of that class; one routed to any other operation was counted by its address as
  business, will be counted by its key, and has the small body limit, which only the webhook exceeds.
\<close>

theorem gate_agrees_with_routing:
  assumes "match_route api_routes (rq_Method rq) (rq_Segments rq) = Some (ep, vs)"
    and "bind_endpoint sv rq body vs ep = Inr op"
  shows "coarseRouteClass (URL_Path rq) =
      (if publicOperation (operationID op) then routeClassFor (operationID op) else RouteClassBusiness) \<and>
    (publicOperation (operationID op) \<longleftrightarrow> routeClassFor (operationID op) \<notin> {RouteClassBusiness, RouteClassOperations}) \<and>
    bodyLimitFor (URL_Path rq) = (if ep = EP_ReceiveStripeWebhook then webhookMaxBodyBytes else maxBodyBytes)"
proof -
  have op: "endpoint_of op = ep" by (rule bind_endpoint_of [OF assms(2)])
  have classes: "coarseRouteClass (URL_Path rq) = (case ep of EP_GetHealth \<Rightarrow> RouteClassHealth
      | EP_ReceiveStripeWebhook \<Rightarrow> RouteClassWebhook | _ \<Rightarrow> RouteClassBusiness)"
    "bodyLimitFor (URL_Path rq) = (if ep = EP_ReceiveStripeWebhook then webhookMaxBodyBytes else maxBodyBytes)"
    by (rule match_route_api [OF assms(1)]; simp add: URL_Path_def coarseRouteClass_def bodyLimitFor_def healthPath_def
        webhookPath_def docsPath_def openAPIPath_def docsIndexPath_def has_prefix_def)+
  show ?thesis
    by (cases op) (use op classes in \<open>auto simp: publicOperation_def routeClassFor_def route_classes_distinct [symmetric]\<close>)
qed

theorem gate_agrees_with_routing_witness:
  "coarseRouteClass (URL_Path (http_sample ''GET'' [''v1'', ''orders'', ''../stripe''])) = RouteClassBusiness"
proof -
  let ?rq = "http_sample ''GET'' [''v1'', ''orders'', ''../stripe'']"
  have "match_route api_routes (rq_Method ?rq) (rq_Segments ?rq) = Some (EP_GetOrder, [''../stripe''])"
    by (simp add: http_sample_def) code_simp
  moreover have "bind_endpoint sample_server ?rq ([], None) [''../stripe''] EP_GetOrder = Inr (Op_GetOrder ''../stripe'')"
    by (simp add: bind_GetOrder_def path_parameter_def)
  ultimately show ?thesis using gate_agrees_with_routing [of ?rq EP_GetOrder "[''../stripe'']" sample_server]
    by (fastforce simp: publicOperation_def)
qed

section \<open>What a refusal does\<close>

definition limiters_ok :: "rate_limiters option \<Rightarrow> bool" where
  "limiters_ok ls \<longleftrightarrow> (case ls of None \<Rightarrow> True
     | Some l \<Rightarrow> list_all (\<lambda>li. limiter_ok li \<and> tokenInterval (li_policy li) \<le> 2 ^ 53)
         [rl_client l, rl_credential l, rl_webhook l, rl_health l])"

text \<open>The outcome of one call of a limiter.\<close>

definition call_ok :: "rate_limiters option \<Rightarrow> rate_decision \<Rightarrow> rejection list \<Rightarrow> bool" where
  "call_ok ls d r \<longleftrightarrow> limiters_ok ls \<and> length r \<le> 1 \<and> (r \<noteq> [] \<longrightarrow> \<not> rd_Allowed d) \<and>
     (\<not> rd_Allowed d \<longrightarrow> Second \<le> rd_RetryAfter d)"

lemma observe_length: "length (observe l d name cls) \<le> 1 \<and> (observe l d name cls \<noteq> [] \<longrightarrow> \<not> rd_Allowed d)"
  by (simp add: observe_def)

lemma call_ok_allowed: "limiters_ok ls \<Longrightarrow> call_ok ls allowed []"
  by (simp add: call_ok_def allowed_def)

lemma Allow_keeps:
  assumes "limiter_ok l" "tokenInterval (li_policy l) \<le> 2 ^ 53" "Allow now key l = (l', d)"
  shows "limiter_ok l' \<and> tokenInterval (li_policy l') \<le> 2 ^ 53 \<and> (\<not> rd_Allowed d \<longrightarrow> Second \<le> rd_RetryAfter d)"
  using Allow_ok [OF assms(1,3)] Allow_policy [OF assms(3)] Allow_refused [OF assms] assms(2) by auto

lemma allowWebhook_ok:
  assumes "limiters_ok ls" "allowWebhook now ls = (ls', d, r)"
  shows "call_ok ls' d r"
proof (cases ls)
  case (Some l)
  obtain l' e where a: "Allow now globalWebhookKey (rl_webhook l) = (l', e)" by (cases "Allow now globalWebhookKey (rl_webhook l)")
  from Some assms(1) Allow_keeps [OF _ _ a] have "limiter_ok l' \<and> tokenInterval (li_policy l') \<le> 2 ^ 53 \<and> (\<not> rd_Allowed e \<longrightarrow> Second \<le> rd_RetryAfter e)"
    by (simp add: limiters_ok_def)
  with assms Some a observe_length [of l e] show ?thesis by (auto simp: allowWebhook_def limiters_ok_def call_ok_def)
qed (use assms in \<open>auto simp: allowWebhook_def call_ok_allowed\<close>)

lemma allowClient_ok:
  assumes "limiters_ok ls" "allowClient now a cls ls = (ls', d, r)"
  shows "call_ok ls' d r"
proof (cases ls)
  case (Some l)
  let ?k = "Key (ClientBucket a)" and ?l = "if cls = RouteClassHealth then rl_health l else rl_client l"
  obtain l' e where a: "Allow now ?k ?l = (l', e)" by (cases "Allow now ?k ?l")
  from Some assms(1) Allow_keeps [OF _ _ a] have "limiter_ok l' \<and> tokenInterval (li_policy l') \<le> 2 ^ 53 \<and> (\<not> rd_Allowed e \<longrightarrow> Second \<le> rd_RetryAfter e)"
    by (simp add: limiters_ok_def split: if_splits)
  with assms Some a observe_length [of l e] show ?thesis
    by (cases "cls = RouteClassHealth") (auto simp: allowClient_def limiters_ok_def call_ok_def)
qed (use assms in \<open>auto simp: allowClient_def call_ok_allowed\<close>)

lemma allowCredential_ok:
  assumes "limiters_ok ls" "allowCredential now credential cls ls = (ls', d, r)"
  shows "call_ok ls' d r"
proof (cases "\<exists>l f. ls = Some l \<and> Option.bind (rl_fingerprinter l) (\<lambda>fp. fp credential) = Some f")
  case True
  then obtain l f fp where l: "ls = Some l" "rl_fingerprinter l = Some fp" "fp credential = Some f" by (auto simp: bind_eq_Some_conv)
  obtain l' e where a: "Allow now f (rl_credential l) = (l', e)" by (cases "Allow now f (rl_credential l)")
  from l assms(1) Allow_keeps [OF _ _ a] have "limiter_ok l' \<and> tokenInterval (li_policy l') \<le> 2 ^ 53 \<and> (\<not> rd_Allowed e \<longrightarrow> Second \<le> rd_RetryAfter e)"
    by (simp add: limiters_ok_def)
  with assms l a observe_length [of l e] show ?thesis by (auto simp: allowCredential_def limiters_ok_def call_ok_def)
next
  case False
  with assms show ?thesis by (auto simp: allowCredential_def call_ok_allowed split: option.splits)
qed

lemma gated_ok: "limiters_ok (ss_Limiters st) \<Longrightarrow> gated now st st1 d \<Longrightarrow> \<exists>r. ss_Rejected st1 = ss_Rejected st @ r \<and> call_ok (ss_Limiters st1) d r"
  by (auto simp: gated_def dest: allowWebhook_ok allowClient_ok)

lemma key_counted_ok: "limiters_ok (ss_Limiters st) \<Longrightarrow> key_counted now credential st st1 d \<Longrightarrow>
    \<exists>r. ss_Rejected st1 = ss_Rejected st @ r \<and> call_ok (ss_Limiters st1) d r"
  by (auto simp: key_counted_def dest: allowCredential_ok)

text \<open>What a request did to the limiters and told the observer.\<close>

definition accounted :: "string \<Rightarrow> 's server_state \<Rightarrow> 's server_state \<Rightarrow> writer \<Rightarrow> bool" where
  "accounted c st st' w \<longleftrightarrow> limiters_ok (ss_Limiters st') \<and> (\<exists>r. ss_Rejected st' = ss_Rejected st @ r \<and> length r \<le> 1 \<and>
     (r \<noteq> [] \<longrightarrow> ss_App st' = ss_App st \<and> wrote w 429 [ErrorBody (newError c codeRateLimited ''too many requests'')] \<and>
        (\<exists>n \<ge> 1. snd (sent w) ''Retry-After'' = Some (itoa n))))"

lemma limited_retry:
  assumes "encodes_errors enc" "fresh w" "Second \<le> rd_RetryAfter d"
  shows "\<exists>n \<ge> 1. snd (sent (writeRateLimited enc c (rd_RetryAfter d) w)) ''Retry-After'' = Some (itoa n)"
proof (intro exI conjI)
  let ?n = "quot (rd_RetryAfter d) Second"
  have pos: "0 < rd_RetryAfter d" using assms(3) by (simp add: Second_def)
  then have "?n = rd_RetryAfter d div Second" by (simp add: quot_nonneg Second_def)
  then show "1 \<le> ?n" using assms(3) zdiv_mono1 [of Second "rd_RetryAfter d" Second] by (simp add: Second_def)
  show "snd (sent (writeRateLimited enc c (rd_RetryAfter d) w)) ''Retry-After'' = Some (itoa ?n)"
    using assms(1,2) pos
    by (simp add: writeRateLimited_def writeError_def Let_def encodes_errors_def fresh_def sent_def write_body_def WriteHeader_def
        set_header_def setStrictSecurityHeaders_def retryAfterHeader_def header_names)
qed

lemma accounted_refused:
  assumes "encodes_errors enc" "fresh w" "ss_Rejected st1 = ss_Rejected st @ r" "call_ok (ss_Limiters st1) d r"
    "\<not> rd_Allowed d" "ss_App st1 = ss_App st"
  shows "accounted c st st1 (writeRateLimited enc c (rd_RetryAfter d) w)"
  unfolding accounted_def
  using assms wrote_limited [OF assms(1,2), of c "rd_RetryAfter d"] limited_retry [OF assms(1,2), of d c] by (auto simp: call_ok_def)

lemma accounted_quiet: "limiters_ok (ss_Limiters st') \<Longrightarrow> ss_Rejected st' = ss_Rejected st \<Longrightarrow> accounted c st st' w"
  by (simp add: accounted_def)

lemma accounted_from: "accounted c st1 st' w \<Longrightarrow> ss_App st1 = ss_App st \<Longrightarrow> ss_Rejected st1 = ss_Rejected st \<Longrightarrow> accounted c st st' w"
  by (simp add: accounted_def)

lemma respond_state: "fst (respond enc c (st, r) w) = st"
  by (cases r) (auto split: prod.splits option.splits)

lemma call_strict_limiters: "ss_Limiters (fst (call_strict h c op st)) = ss_Limiters st \<and> ss_Rejected (fst (call_strict h c op st)) = ss_Rejected st"
  by (simp add: call_strict_def split: prod.splits)

lemma key_counted_allowed:
  assumes "limiters_ok (ss_Limiters st)" "st1 = st \<or> (\<exists>d. key_counted now k st st1 d \<and> rd_Allowed d)"
  shows "limiters_ok (ss_Limiters st1) \<and> ss_Rejected st1 = ss_Rejected st"
  using assms key_counted_ok [OF assms(1)] by (fastforce simp: call_ok_def)

lemma gated_allowed:
  assumes "limiters_ok (ss_Limiters st)" "st1 = st \<or> (\<exists>d. gated now st st1 d \<and> rd_Allowed d)"
  shows "limiters_ok (ss_Limiters st1) \<and> ss_Rejected st1 = ss_Rejected st"
  using assms gated_ok [OF assms(1)] by (fastforce simp: call_ok_def)

lemma strict_accounted:
  assumes "encodes_errors (lb_encode sv)" "fresh w" "limiters_ok (ss_Limiters st)"
    and run: "strict_serve sv now rq c op st w = (st', w', p)"
  shows "accounted c st st' w' \<and> (p \<noteq> None \<longrightarrow> ss_Rejected st' = ss_Rejected st)"
proof (cases rule: strict_serve_cases [of sv now rq c op st w])
  case (limited st1 d)
  from key_counted_ok [OF assms(3) limited(5)] obtain r where "ss_Rejected st1 = ss_Rejected st @ r" "call_ok (ss_Limiters st1) d r" by blast
  from accounted_refused [OF assms(1,2) this limited(3,2), of c] limited(1) run show ?thesis by simp
next
  case (unauthorized st1)
  with key_counted_allowed [OF assms(3) unauthorized(5)] run show ?thesis by (simp add: accounted_quiet)
next
  case (called st1)
  obtain st2 r where h: "call_strict (sr_handler sv) c op st1 = (st2, r)" by (cases "call_strict (sr_handler sv) c op st1")
  have "st' = st2" using called(1) run h respond_state [of "lb_encode sv" c st2 r w] by (metis fst_conv)
  with key_counted_allowed [OF assms(3) called(4)] call_strict_limiters [of "sr_handler sv" c op st1] h show ?thesis
    by (simp add: accounted_quiet)
qed

lemma mux_accounted:
  assumes "encodes_errors (lb_encode sv)" "fresh w" "limiters_ok (ss_Limiters st)"
    and run: "mux_serve sv now rq c body st w = (st', w', p)"
  shows "accounted c st st' w' \<and> (p \<noteq> None \<longrightarrow> ss_Rejected st' = ss_Rejected st)"
  using run strict_accounted [OF assms(1-3)] assms(3)
  by (auto simp: mux_serve_def accounted_quiet split: option.splits if_splits prod.splits sum.splits)


text \<open>A server whose webhook bucket is empty.\<close>

definition sample_limiters :: rate_limiters where
  "sample_limiters =
     (let p = \<lparr>po_Burst = 1, po_Interval = Minute\<rparr>; l = \<lparr>li_policy = p, li_capacity = 1, li_ttl = 0, li_order = []\<rparr>
      in \<lparr>rl_client = l, rl_credential = l, rl_webhook = l\<lparr>li_order := [(globalWebhookKey, \<lparr>bk_tokens = 0, bk_updatedAt = 7\<rparr>)]\<rparr>,
          rl_health = l, rl_fingerprinter = None, rl_observed = True\<rparr>)"

lemma sample_limiters_ok: "limiters_ok (Some sample_limiters)"
  by (simp add: limiters_ok_def sample_limiters_def limiter_ok_def policy_ok_def bucket_ok_def tokenInterval_def Minute_def quot_def Let_def)

lemma sample_webhook_refused: "\<exists>ls d. allowWebhook 7 (Some sample_limiters) = (ls, d, [(limiterWebhook, RouteClassWebhook)]) \<and> \<not> rd_Allowed d"
  by (simp add: allowWebhook_def sample_limiters_def Let_def Allow_def expire_def lookup_def take_token_def refill_def time_Sub_def
      MaxInt64_def observe_def)


end
