(* ===== verification/Http_Access.thy ===== *)
theory Http_Access
  imports Http_Refusals System
begin

text \<open>
  Who reaches what: requests without a valid key reach no protected use case, refused requests reach none at
  all, a webhook is acknowledged only when its event is stored, and the worker's server has no API.
\<close>

section \<open>Authentication\<close>

text \<open>Exchanging the use cases leaves binding and everything before the handler as they were.\<close>

lemma library_other_handler [simp]:
  "lb_ui (sv\<lparr>sr_handler := h\<rparr>) = lb_ui sv" "lb_encode (sv\<lparr>sr_handler := h\<rparr>) = lb_encode sv"
  "lb_decode (sv\<lparr>sr_handler := h\<rparr>) = lb_decode sv" "lb_bind_header (sv\<lparr>sr_handler := h\<rparr>) = lb_bind_header sv"
  "lb_bind_path (sv\<lparr>sr_handler := h\<rparr>) = lb_bind_path sv" "lb_bind_status (sv\<lparr>sr_handler := h\<rparr>) = lb_bind_status sv"
  "lb_bind_limit (sv\<lparr>sr_handler := h\<rparr>) = lb_bind_limit sv"
  by (cases sv; simp)+

lemma bind_other_handler [simp]: "bind_endpoint (sv\<lparr>sr_handler := h\<rparr>) rq body vs ep = bind_endpoint sv rq body vs ep"
  by (cases ep) (simp_all add: bind_CreateOrder_def bind_GetOrder_def bind_CreateCheckout_def bind_ListWebhookEvents_def
      bind_ReprocessWebhookEvent_def bind_ReceiveStripeWebhook_def idempotency_key_def header_parameter_def path_parameter_def
      cong: sum.case_cong option.case_cong list.case_cong)

lemma docs_other_handler [simp]: "docs_serve (sv\<lparr>sr_handler := h\<rparr>) c rq w = docs_serve sv c rq w"
  by (simp add: docs_serve_def)

lemma public_call:
  assumes "publicOperation (operationID op)" "ah_health h' = ah_health h" "ah_webhooks h' = ah_webhooks h"
  shows "call_strict h' c op = call_strict h c op"
  using assms by (cases op) (auto simp: publicOperation_def call_strict_def GetHealth_def ReceiveStripeWebhook_handler_def fun_eq_iff)

lemma strict_unauthenticated:
  assumes "\<not> verified (sr_verifier sv) (header_Get rq apiKeyHeader)"
    and "ah_health h' = ah_health (sr_handler sv)" "ah_webhooks h' = ah_webhooks (sr_handler sv)"
  shows "strict_serve (sv\<lparr>sr_handler := h'\<rparr>) now rq c op st w = strict_serve sv now rq c op st w"
proof (cases "publicOperation (operationID op)")
  case True
  with public_call [OF True assms(2,3), of c] show ?thesis by (simp add: strict_serve_def Let_def)
next
  case False
  then have "apiKeyAuthenticationMiddleware (sr_verifier sv) (header_Get rq apiKeyHeader) f (operationID op) =
      apiKeyAuthenticationMiddleware (sr_verifier sv) (header_Get rq apiKeyHeader) g (operationID op)" for f g :: "'a strict_handler"
    using assms(1) by (simp add: apiKeyAuthenticationMiddleware_def fun_eq_iff)
  then show ?thesis by (simp add: strict_serve_def Let_def) metis
qed

lemma respond_App: "ss_App (fst (respond enc c (st, r) w)) = ss_App st"
  by (cases r) (auto split: prod.splits option.splits)

lemma health_call_App: "ss_App (fst (call_strict h c Op_GetHealth st)) = ss_App st"
  by (simp add: call_strict_def GetHealth_def Let_def)

lemma strict_App:
  assumes "\<not> verified (sr_verifier sv) (header_Get rq apiKeyHeader)" "endpoint_of op \<noteq> EP_ReceiveStripeWebhook"
  shows "ss_App (fst (strict_serve sv now rq c op st w)) = ss_App st"
proof (cases rule: strict_serve_cases [of sv now rq c op st w])
  case (called st1)
  then have "op = Op_GetHealth" using assms by (cases op) (auto simp: publicOperation_def)
  with called health_call_App [of "sr_handler sv" c st1] show ?thesis
    by (metis respond_App surjective_pairing)
qed simp_all

lemma recovery_fst: "fst (recoveryMiddleware enc c next st w) = fst (next st w)"
  by (simp add: recoveryMiddleware_def split: prod.splits option.splits)

lemma mux_App:
  assumes "\<not> verified (sr_verifier sv) (header_Get rq apiKeyHeader)"
    and "\<forall>vs. match_route (sr_routes sv) (rq_Method rq) (rq_Segments rq) \<noteq> Some (EP_ReceiveStripeWebhook, vs)"
  shows "ss_App (fst (mux_serve sv now rq c body st w)) = ss_App st"
  using assms strict_App [OF assms(1)]
  by (auto simp: mux_serve_def dest: bind_endpoint_of split: option.splits sum.splits)

text \<open>
  C9: without a key nothing behind the door is touched. A request whose credential is not valid gets the same
  answer, byte for byte, and leaves the same state, whatever the order, checkout and operations use cases
  would have done; and unless it is a webhook, the state of the application does not change.
\<close>

theorem unauthenticated_reaches_nothing:
  assumes "\<not> verified (sr_verifier sv) (header_Get rq apiKeyHeader)"
    and "ah_health h' = ah_health (sr_handler sv)" and "ah_webhooks h' = ah_webhooks (sr_handler sv)"
    and "serve sv now later random rq st = (st', w)"
  shows "serve (sv\<lparr>sr_handler := h'\<rparr>) now later random rq st = (st', w) \<and>
    ((\<exists>vs. match_route (sr_routes sv) (rq_Method rq) (rq_Segments rq) = Some (EP_ReceiveStripeWebhook, vs)) \<or>
     ss_App st' = ss_App st)"
proof
  have "mux_serve (sv\<lparr>sr_handler := h'\<rparr>) later rq c body st w = mux_serve sv later rq c body st w" for c body st w
    by (simp add: mux_serve_def strict_unauthenticated [OF assms(1-3)] cong: sum.case_cong option.case_cong prod.case_cong)
  then have "routed_serve (sv\<lparr>sr_handler := h'\<rparr>) later c rq = routed_serve sv later c rq" for c
    by (simp add: routed_serve_def recoveryMiddleware_def fun_eq_iff)
  then show "serve (sv\<lparr>sr_handler := h'\<rparr>) now later random rq st = (st', w)"
    using assms(4) by (simp add: serve_unfold)
  have "ss_App (fst (serve sv now later random rq st)) = ss_App st"
    if "\<forall>vs. match_route (sr_routes sv) (rq_Method rq) (rq_Segments rq) \<noteq> Some (EP_ReceiveStripeWebhook, vs)"
    by (rule serve_cases [of sv now later random rq st])
      (simp_all add: routed_serve_def recovery_fst mux_App [OF assms(1) that])
  then show "(\<exists>vs. match_route (sr_routes sv) (rq_Method rq) (rq_Segments rq) = Some (EP_ReceiveStripeWebhook, vs)) \<or>
     ss_App st' = ss_App st"
    using assms(4) by fastforce
qed

theorem unauthenticated_reaches_nothing_witness:
  "\<exists>st w. serve (sample_server\<lparr>sr_handler := sample_handler\<lparr>ah_operations := None\<rparr>\<rparr>) 0 0 (Inr ''0123456789abcdef'')
       (http_sample ''GET'' [''v1'', ''webhook-events'']) \<lparr>ss_App = 7, ss_Limiters = None, ss_Rejected = []\<rparr> = (st, w) \<and>
     ss_App st = 7"
proof -
  let ?rq = "http_sample ''GET'' [''v1'', ''webhook-events'']"
    and ?st = "\<lparr>ss_App = 7, ss_Limiters = None, ss_Rejected = []\<rparr>"
  obtain st w where run: "serve sample_server 0 0 (Inr ''0123456789abcdef'') ?rq ?st = (st, w)"
    by (cases "serve sample_server 0 0 (Inr ''0123456789abcdef'') ?rq ?st")
  have "\<not> verified (sr_verifier sample_server) (header_Get ?rq apiKeyHeader)"
    by (simp add: verified_def header_Get_def http_sample_def)
  moreover have "match_route (sr_routes sample_server) (rq_Method ?rq) (rq_Segments ?rq) = Some (EP_ListWebhookEvents, [])"
    by (simp add: http_sample_def) code_simp
  ultimately have "serve (sample_server\<lparr>sr_handler := sample_handler\<lparr>ah_operations := None\<rparr>\<rparr>) 0 0 (Inr ''0123456789abcdef'')
      ?rq ?st = (st, w) \<and> ss_App st = 7"
    using unauthenticated_reaches_nothing [OF _ _ _ run, of "sample_handler\<lparr>ah_operations := None\<rparr>"] by simp
  then show ?thesis by blast
qed

section \<open>Webhooks\<close>

lemma sent_writeError: "fresh w \<Longrightarrow> fst (sent (writeError enc c status code m w)) = status"
  by (auto simp: sent_def writeError_def Let_def fresh_def WriteHeader_def write_body_def set_header_def
      setStrictSecurityHeaders_def split: option.splits)

lemma sent_limited: "fresh w \<Longrightarrow> fst (sent (writeRateLimited enc c d w)) = 429"
  by (simp add: writeRateLimited_def Let_def sent_writeError)

lemma sent_handlers: "fresh w \<Longrightarrow> 400 \<le> fst (sent (requestErrorHandler enc c e w))" "fresh w \<Longrightarrow> 400 \<le> fst (sent (responseErrorHandler enc c e w))"
  by (simp_all add: requestErrorHandler_def responseErrorHandler_def sent_writeError sent_limited split: option.splits)

text \<open>The use case of the process, with what the observer is told left out.\<close>

definition receive_case ::
  "(string \<Rightarrow> bool) \<Rightarrow> (string \<Rightarrow> string \<Rightarrow> provider_event result) \<Rightarrow> (nat \<Rightarrow> fault) \<Rightarrow> (nat \<Rightarrow> fault) \<Rightarrow> instant \<Rightarrow>
   string result \<Rightarrow> string result \<Rightarrow> instant \<Rightarrow> receive_input \<Rightarrow> database \<Rightarrow> database \<times> string result" where
  "receive_case json_Valid verify f g dbnow newEventID newMessageID now inp db =
     (case Receive json_Valid verify Stripe (StoreIgnored f) (StorePending g dbnow) True newEventID newMessageID now inp db of
        (db', r, receipts) \<Rightarrow> (db', r))"

lemma receive_case_Inr:
  assumes "schema_ok db" "receive_case jv verify f g dbnow neid nmid now inp db = (db', Inr out)"
  shows "rin_ReadError inp = None \<and> (\<exists>pe. verify (rin_RawBody inp) (rin_Signature inp) = Inr pe \<and>
    (Stripe, pe_ID pe) \<in> received_events db' \<and> (out = OutcomeAccepted \<longrightarrow> (Stripe, pe_ID pe) \<in> queued_events db'))"
proof -
  obtain k where "receive jv verify Stripe (StoreIgnored f) (StorePending g dbnow) neid nmid now inp db = (db', k, Inr out)"
    using assms(2) by (auto simp: receive_case_def Receive_def split: prod.splits)
  from inbox_store.receive_success [OF assms(1) this] show ?thesis .
qed

text \<open>What the handler gives the use case, and what it makes of its result.\<close>

definition webhook_input :: "string \<Rightarrow> string option \<Rightarrow> string \<times> goerr option \<Rightarrow> receive_input" where
  "webhook_input c sg body =
     \<lparr>rin_RawBody = (case snd body of None \<Rightarrow> fst body | Some _ \<Rightarrow> []),
      rin_Signature = (case sg of None \<Rightarrow> [] | Some x \<Rightarrow> x), rin_CorrelationID = c,
      rin_ReadError = map_option (\<lambda>e. Errorf [W (Sentinel ErrPayloadTooLarge), T '': '', W e]) (snd body)\<rparr>"

lemma webhook_handler:
  assumes "ah_webhooks h = Some use"
  shows "ReceiveStripeWebhook_handler h c sg (Some body) s = (case use (webhook_input c sg body) s of
    (s', r) \<Rightarrow> (s', answer
      (\<lambda>outcome. Returns (if outcome = OutcomeAccepted then ReceiveStripeWebhook202 c else ReceiveStripeWebhook200 c))
      (\<lambda>e. if errors_Is ErrInvalidSignature e
        then Returns (ReceiveStripeWebhook400 (sentinelError c codeInvalidSignature ErrInvalidSignature) c)
        else Fails (wrap ''receive stripe webhook'' e))
      (called r)))"
  by (cases body; cases "snd body") (simp_all add: ReceiveStripeWebhook_handler_def readWebhookBody_def webhook_input_def assms)

lemma webhook_run:
  assumes "ah_webhooks h = Some use" "use (webhook_input c sg body) (ss_App st) = (s', r)"
  shows "call_strict h c (Op_ReceiveStripeWebhook sg body) st = (st\<lparr>ss_App := s'\<rparr>,
    (case called r of
       Returns out \<Rightarrow> Returns (ReceiveStripeWebhookResponse
         (if out = OutcomeAccepted then ReceiveStripeWebhook202 c else ReceiveStripeWebhook200 c))
     | Fails e \<Rightarrow> if errors_Is ErrInvalidSignature e
         then Returns (ReceiveStripeWebhookResponse
           (ReceiveStripeWebhook400 (sentinelError c codeInvalidSignature ErrInvalidSignature) c))
         else Fails (wrap ''receive stripe webhook'' e)
     | Panics t \<Rightarrow> Panics t))"
  by (cases "called r") (simp_all add: call_strict_def webhook_handler [OF assms(1)] assms(2))

lemma webhook_success:
  assumes "ah_webhooks h = Some use" "fresh w" "encodes_errors enc"
    and run: "respond enc c (call_strict h c (Op_ReceiveStripeWebhook sg body) st) w = (st', w', p)"
    and ok: "fst (sent (snd (recoveryMiddleware enc c (\<lambda>st w. (st', w', p)) st w))) \<in> {200, 202}"
  shows "\<exists>out. use (webhook_input c sg body) (ss_App st) = (ss_App st', Inr out) \<and> p = None \<and>
    (fst (sent w') = 202 \<longleftrightarrow> out = OutcomeAccepted)"
proof -
  obtain s' r where u: "use (webhook_input c sg body) (ss_App st) = (s', r)" by (cases "use (webhook_input c sg body) (ss_App st)")
  note run' = run [unfolded webhook_run [OF assms(1) u]]
  have panic: "fst (sent (writeError enc c 500 codeInternalError ''internal error'' w)) = 500" using assms(2) by (rule sent_writeError)
  note bad = sent_handlers(2) [OF assms(2), of enc c]
  show ?thesis
  proof (cases "called r")
    case (Returns out)
    then have "r = Inr out" by (auto simp: called_def split: sum.splits goerr.splits)
    with run' u Returns assms(2) show ?thesis
      by (cases "out = OutcomeAccepted") (auto simp: visit_empty_def sent_def WriteHeader_def fresh_def set_header_def)
  next
    case (Fails e)
    have "400 \<le> fst (sent w') \<and> p = None"
    proof (cases "errors_Is ErrInvalidSignature e")
      case True
      with run' Fails assms(2,3) show ?thesis
        by (auto simp: visit_json_def encodes_errors_def sent_def WriteHeader_def write_body_def fresh_def set_header_def)
    next
      case False
      with run' Fails bad show ?thesis by auto
    qed
    with ok show ?thesis by (simp add: recoveryMiddleware_def)
  next
    case (Panics t)
    with run' ok panic show ?thesis by (auto simp: recoveryMiddleware_def)
  qed
qed

text \<open>
  C8: a webhook is acknowledged only when it is stored. If the provider gets 200 or 202, its request was read
  to the end and within the limit, the signature over exactly its bytes was verified, and the event is in
  the inbox; after 202 its message is in the outbox too. Whatever the server of the database did, anything
  else is answered with an error, so the provider sends the event again.
\<close>

theorem webhook_acknowledged_durable:
  assumes "ah_webhooks (sr_handler sv) = Some (receive_case jv verify f g dbnow neid nmid arrival)"
    and "encodes_errors (lb_encode sv)" and "schema_ok (ss_App st)"
    and "rq_Redirect rq = None" and "\<not> registerDocs (sr_docs sv) (rq_Segments rq)"
    and "match_route (sr_routes sv) (rq_Method rq) (rq_Segments rq) = Some (EP_ReceiveStripeWebhook, vs)"
    and "serve sv now later random rq st = (st', w)" and "fst (sent w) \<in> {200, 202}"
  shows "\<exists>pe signature. verify (rq_Body rq) signature = Inr pe \<and>
    int (length (rq_Body rq)) \<le> int webhookMaxBodyBytes \<and> rq_BodyError rq = None \<and>
    (Stripe, pe_ID pe) \<in> received_events (ss_App st') \<and>
    (fst (sent w) = 202 \<longrightarrow> (Stripe, pe_ID pe) \<in> queued_events (ss_App st'))"
proof -
  let ?c = "correlation_of random rq" and ?enc = "lb_encode sv" and ?body = "limited_body (bodyLimitFor (URL_Path rq)) rq"
  let ?w = "first_writer ?c"
  show ?thesis
  proof (cases rule: serve_cases [of sv now later random rq st])
    case (refused st1 d)
    then have "fst (sent w) = 429" using assms(7) by (simp add: sent_limited)
    with assms(8) show ?thesis by simp
  next
    case (routed st1)
    have mux: "mux_serve sv later rq ?c ?body st1 ?w = (case bind_ReceiveStripeWebhook sv rq ?body of
        Inl e \<Rightarrow> (st1, requestErrorHandler ?enc ?c e ?w, None)
      | Inr op \<Rightarrow> strict_serve sv later rq ?c op st1 ?w)"
      using assms(4-6) by (simp add: mux_serve_def)
    have w: "recoveryMiddleware ?enc ?c (\<lambda>st w. mux_serve sv later rq ?c ?body st1 ?w) st1 ?w = (st', w)"
      using routed(1) assms(7) by (simp add: routed_serve_def recoveryMiddleware_def)
    show ?thesis
    proof (cases "bind_ReceiveStripeWebhook sv rq ?body")
      case (Inl e)
      with mux w have "400 \<le> fst (sent w)" using sent_handlers(1) [OF fresh_first, of ?enc ?c e ?c] by (simp add: recoveryMiddleware_def)
      with assms(8) show ?thesis by auto
    next
      case (Inr op)
      then obtain sg where op: "op = Op_ReceiveStripeWebhook sg ?body"
        by (auto simp: bind_ReceiveStripeWebhook_def split: sum.splits)
      then have public: "publicOperation (operationID op)" by (simp add: publicOperation_def)
      obtain st2 where st2: "mux_serve sv later rq ?c ?body st1 ?w = respond ?enc ?c (call_strict (sr_handler sv) ?c op st2) ?w"
          "ss_App st2 = ss_App st1"
        using mux Inr public by (cases rule: strict_serve_cases [of sv later rq ?c op st1 ?w]) auto
      obtain st3 w3 p where m: "respond ?enc ?c (call_strict (sr_handler sv) ?c op st2) ?w = (st3, w3, p)" by (metis prod_cases3)
      have end_w: "recoveryMiddleware ?enc ?c (\<lambda>st w. (st3, w3, p)) st2 ?w = (st', w)"
        using w st2(1) m by (simp add: recoveryMiddleware_def)
      from webhook_success [OF assms(1) fresh_first assms(2) m [unfolded op]] assms(8) end_w
      obtain out where out: "receive_case jv verify f g dbnow neid nmid arrival (webhook_input ?c sg ?body) (ss_App st2) = (ss_App st3, Inr out)"
        "p = None" "fst (sent w3) = 202 \<longleftrightarrow> out = OutcomeAccepted" by fastforce
      have same: "st3 = st'" "w3 = w" using end_w out(2) by (simp_all add: recoveryMiddleware_def)
      have "schema_ok (ss_App st2)" using st2(2) routed(2) assms(3) by simp
      from receive_case_Inr [OF this out(1)] obtain pe where
        pe: "rin_ReadError (webhook_input ?c sg ?body) = None"
          "verify (rin_RawBody (webhook_input ?c sg ?body)) (rin_Signature (webhook_input ?c sg ?body)) = Inr pe"
          "(Stripe, pe_ID pe) \<in> received_events (ss_App st')" "out = OutcomeAccepted \<longrightarrow> (Stripe, pe_ID pe) \<in> queued_events (ss_App st')"
        using same by blast
      have body: "?body = (rq_Body rq, None)" "length (rq_Body rq) \<le> bodyLimitFor (URL_Path rq)" "rq_BodyError rq = None"
        using pe(1) by (auto simp: webhook_input_def limited_body_def split: if_splits)
      moreover have "bodyLimitFor (URL_Path rq) \<le> webhookMaxBodyBytes"
        by (simp add: bodyLimitFor_def webhookMaxBodyBytes_def maxBodyBytes_def)
      moreover have "verify (rq_Body rq) (rin_Signature (webhook_input ?c sg ?body)) = Inr pe"
        using pe(2) body(1) by (simp add: webhook_input_def)
      ultimately show ?thesis using pe(3,4) out(3) same by (intro exI conjI) auto
    qed
  qed
qed

text \<open>A webhook of an event the application does not handle, at a server over the tables.\<close>

definition webhook_server :: "database server" where
  "webhook_server = library.extend sample_library (server.fields
     (NewAPIHandler \<lparr>hs_serviceName = ''api'', hs_version = ''1'', hs_checks = []\<rparr> None None
       (Some (receive_case (\<lambda>_. True) sample_verify no_faults no_faults 8 (Inr ''evt_2'') (Inr ''msg_2'') 9)) [])
     api_routes None [] DocsDisabled [])"

definition webhook_request :: http_request where
  "webhook_request = (http_sample ''POST'' [''v1'', ''webhooks'', ''stripe''])\<lparr>rq_Body := ''{}''\<rparr>"

theorem webhook_acknowledged_durable_witness:
  "\<exists>st w. \<exists>pe :: provider_event. serve webhook_server 0 0 (Inr ''0123456789abcdef'') webhook_request
       \<lparr>ss_App = sample_db, ss_Limiters = None, ss_Rejected = []\<rparr> = (st, w) \<and>
     fst (sent w) = 200 \<and> (Stripe, pe_ID pe) \<in> received_events (ss_App st)"
proof -
  let ?st = "\<lparr>ss_App = sample_db, ss_Limiters = None, ss_Rejected = []\<rparr>" and ?rq = webhook_request
  let ?c = "correlation_of (Inr ''0123456789abcdef'') ?rq"
  have fields: "lb_encode webhook_server = (\<lambda>p. None)" "sr_routes webhook_server = api_routes" "sr_docs webhook_server = DocsDisabled"
    "ah_webhooks (sr_handler webhook_server) =
       Some (receive_case (\<lambda>_. True) sample_verify no_faults no_faults 8 (Inr ''evt_2'') (Inr ''msg_2'') 9)"
    by (simp_all add: webhook_server_def sample_library_def library.defs server.defs NewAPIHandler_def)
  have route: "match_route api_routes (rq_Method ?rq) (rq_Segments ?rq) = Some (EP_ReceiveStripeWebhook, [])"
    by (simp add: webhook_request_def http_sample_def) code_simp
  have rq: "rq_Redirect ?rq = None" "header_parameter webhook_server ?rq ''Stripe-Signature'' = Inr None"
    "limited_body (bodyLimitFor (URL_Path ?rq)) ?rq = (''{}'', None)"
    by (simp_all add: webhook_request_def http_sample_def header_parameter_def limited_body_def bodyLimitFor_def
        maxBodyBytes_def webhookMaxBodyBytes_def)
  obtain db where use: "receive_case (\<lambda>_. True) sample_verify no_faults no_faults 8 (Inr ''evt_2'') (Inr ''msg_2'') 9
      (webhook_input ?c None (''{}'', None)) sample_db = (db, Inr OutcomeIgnored)"
    using sample_insert_run
    by (simp add: receive_case_def Receive_def receive_def receive_store_def webhook_input_def sample_verify_def NewEvent_def
        Handled_def StoreIgnored_def autocommit_def insertedEvent_def Stripe_def)
  obtain st w where run: "serve webhook_server 0 0 (Inr ''0123456789abcdef'') ?rq ?st = (st, w)"
    by (cases "serve webhook_server 0 0 (Inr ''0123456789abcdef'') ?rq ?st")
  have "mux_serve webhook_server 0 ?rq ?c (''{}'', None) ?st (first_writer ?c) =
      respond (\<lambda>p. None) ?c (call_strict (sr_handler webhook_server) ?c (Op_ReceiveStripeWebhook None (''{}'', None)) ?st) (first_writer ?c)"
    by (simp add: mux_serve_def rq(1,2) fields(1-3) registerDocs_def route bind_ReceiveStripeWebhook_def strict_serve_def Let_def
        operationRateLimitMiddleware_def apiKeyAuthenticationMiddleware_def publicOperation_def)
  then have "(st, w) = (?st\<lparr>ss_App := db\<rparr>, fst (visit_empty 200 ?c (first_writer ?c)))"
    using run use by (simp add: serve_unfold clientRateLimitMiddleware_def routed_serve_def recoveryMiddleware_def rq(3) fields(1)
        webhook_run [OF fields(4)] called_def visit_empty_def)
  then have s: "fst (sent w) = 200"
    by (simp add: visit_empty_def sent_def WriteHeader_def set_header_def first_writer_def setStrictSecurityHeaders_def new_writer_def)
  have "\<exists>pe signature. sample_verify (rq_Body ?rq) signature = Inr pe \<and> int (length (rq_Body ?rq)) \<le> int webhookMaxBodyBytes \<and>
      rq_BodyError ?rq = None \<and> (Stripe, pe_ID pe) \<in> received_events (ss_App st) \<and>
      (fst (sent w) = 202 \<longrightarrow> (Stripe, pe_ID pe) \<in> queued_events (ss_App st))"
    by (rule webhook_acknowledged_durable [OF fields(4) _ _ rq(1) _ route [folded fields(2)] run])
      (simp_all add: fields encodes_errors_def registerDocs_def s sample_ok)
  with run s show ?thesis by blast
qed

section \<open>The worker's server\<close>

text \<open>
  The worker has no API. The server of the worker answers the probe; every other path is unknown to it, with
  a key or without, and no request changes the state of the application.
\<close>

theorem worker_serves_health_only:
  assumes "NewHealthOnly lib trusted healthService = (sv, limiters)"
    and "serve sv now later random rq \<lparr>ss_App = s, ss_Limiters = limiters, ss_Rejected = []\<rparr> = (st', w)"
    and "encodes_errors (lb_encode sv)" and "\<forall>b. lb_encode sv (HealthBody b) = None" and "rq_Redirect rq = None"
  shows "ss_App st' = s \<and> fst (sent w) =
    (if rq_Segments rq \<noteq> [''health''] then 404
     else if rq_Method rq \<notin> {MethodGet, MethodHead} then 405
     else if hr_Ready (Health_Check healthService s) then 200 else 503)"
proof -
  let ?c = "correlation_of random rq" and ?body = "limited_body (bodyLimitFor (URL_Path rq)) rq"
  let ?w = "first_writer ?c" and ?st = "\<lparr>ss_App = s, ss_Limiters = limiters, ss_Rejected = []\<rparr>"
  have sv: "sr_docs sv = DocsDisabled" "sr_routes sv = [(MethodGet, [Literal ''health''], EP_GetHealth)]"
    "ah_health (sr_handler sv) = healthService" "limiters = None"
    using assms(1) by (auto simp: NewHealthOnly_def NewAPIHandler_def library.defs server.defs)
  have chain: "serve sv now later random rq ?st = recoveryMiddleware (lb_encode sv) ?c (mux_serve sv later rq ?c ?body) ?st ?w"
    by (simp add: serve_unfold clientRateLimitMiddleware_def routed_serve_def sv(4))
  show ?thesis
  proof (cases "rq_Segments rq = [''health''] \<and> rq_Method rq \<in> {MethodGet, MethodHead}")
    case True
    then have "mux_serve sv later rq ?c ?body ?st ?w = respond (lb_encode sv) ?c (call_strict (sr_handler sv) ?c Op_GetHealth ?st) ?w"
      by (auto simp: mux_serve_def assms(5) sv registerDocs_def method_matches_def strict_serve_def Let_def
          operationRateLimitMiddleware_def apiKeyAuthenticationMiddleware_def publicOperation_def)
    with chain assms(2,4) True show ?thesis
      by (auto simp: call_strict_def GetHealth_def Let_def sv(3) recoveryMiddleware_def visit_json_def sent_def write_body_def
          WriteHeader_def set_header_def first_writer_def setStrictSecurityHeaders_def new_writer_def)
  next
    case False
    have none: "match_route (sr_routes sv) (rq_Method rq) (rq_Segments rq) = None"
    proof (rule ccontr)
      assume "match_route (sr_routes sv) (rq_Method rq) (rq_Segments rq) \<noteq> None"
      then show False using False sv(2) match_literal [of "''health''" "[]" "rq_Segments rq"]
        by (auto simp: method_matches_def match_nil split: option.splits if_splits)
    qed
    have methods: "matchingMethods (sr_routes sv) (rq_Segments rq) = (if rq_Segments rq = [''health''] then [MethodGet, MethodHead] else [])"
      using match_literal [of "''health''" "[]" "rq_Segments rq"]
      by (auto simp: matchingMethods_def sv(2) method_matches_def match_nil MethodGet_def MethodHead_def MethodPost_def split: option.splits)
    have "mux_serve sv later rq ?c ?body ?st ?w = (?st, not_routed (sr_routes sv) rq ?w, None)"
      using none by (simp add: mux_serve_def assms(5) sv(1) registerDocs_def)
    with chain assms(2) methods False show ?thesis
      by (auto simp: recoveryMiddleware_def not_routed_def http_Error_def sent_def write_body_def WriteHeader_def set_header_def
          first_writer_def setStrictSecurityHeaders_def new_writer_def)
  qed
qed

theorem worker_serves_health_only_witness:
  "\<exists>st w. serve (fst (NewHealthOnly sample_library [] \<lparr>hs_serviceName = ''worker'', hs_version = ''1'', hs_checks = []\<rparr>)) 0 0
       (Inr ''0123456789abcdef'') (http_sample ''POST'' [''v1'', ''webhooks'', ''stripe''])
       \<lparr>ss_App = 7 :: nat, ss_Limiters = None, ss_Rejected = []\<rparr> = (st, w) \<and> ss_App st = 7 \<and> fst (sent w) = 404"
proof -
  let ?hs = "\<lparr>hs_serviceName = ''worker'', hs_version = ''1'', hs_checks = []\<rparr> :: nat health_service"
  let ?sv = "fst (NewHealthOnly sample_library [] ?hs)" and ?rq = "http_sample ''POST'' [''v1'', ''webhooks'', ''stripe'']"
  let ?st = "\<lparr>ss_App = 7 :: nat, ss_Limiters = None, ss_Rejected = []\<rparr>"
  obtain st w where run: "serve ?sv 0 0 (Inr ''0123456789abcdef'') ?rq ?st = (st, w)"
    by (cases "serve ?sv 0 0 (Inr ''0123456789abcdef'') ?rq ?st")
  have "NewHealthOnly sample_library [] ?hs = (?sv, None)" by (simp add: NewHealthOnly_def)
  moreover have "lb_encode ?sv = (\<lambda>p. None)" by (simp add: NewHealthOnly_def sample_library_def library.defs server.defs)
  ultimately have "ss_App st = 7 \<and> fst (sent w) = 404"
    using worker_serves_health_only [OF _ run] by (simp add: encodes_errors_def http_sample_def)
  with run show ?thesis by blast
qed

end
