(* ===== verification/Http_Api.thy ===== *)
theory Http_Api
  imports Http_Access Catalog Order_Service
begin

text \<open>
  The API process (\<^verbatim>\<open>internal/runtime/api/api.go\<close>): its server over its use cases over the tables. A request is
  then a run of the operations of \<^theory_text>\<open>System\<close>, so everything shown of the runs holds of any history of
  requests, whatever the other processes do in between.

  What one request draws from outside is a record: the faults of the database in each of its transactions,
  the instants and identifiers, and what other connections do to the tables between its statements.
\<close>

section \<open>The process\<close>

record draws =
  dw_faults :: "nat \<Rightarrow> faults"
  dw_others :: "nat \<Rightarrow> database \<Rightarrow> database"
  dw_now :: "nat \<Rightarrow> instant"
  dw_OrderID :: "string result"
  dw_PaymentID :: "string result"
  dw_AttemptID :: "string result"
  dw_EventID :: "string result"
  dw_MessageID :: "string result"

text \<open>What the process is given at startup: the parser of URLs and of JSON, the provider, the verifier of
  webhooks, and the health service.\<close>

record ports =
  pt_url_Parse :: url_parser
  pt_json_Valid :: "string \<Rightarrow> bool"
  pt_provider :: "provider_request \<Rightarrow> session result"
  pt_verify :: "string \<Rightarrow> string \<Rightarrow> provider_event result"
  pt_health :: "database health_service"

definition order_service :: "static \<Rightarrow> draws \<Rightarrow> database order_cases" where
  "order_service products d =
     \<lparr>oc_Create = (\<lambda>inp db. case Orders_Create (Static_Product products)
          (\<lambda>db. OrderRepository_CreateOrGet (dw_faults d 0) (dw_others d 0) db) True (dw_OrderID d) (dw_now d 0) inp db of
        (db', r, notes) \<Rightarrow> (db', r)),
      oc_Get = (\<lambda>i db. Orders_Get (OrderRepository_Get (dw_faults d 0)) i db)\<rparr>"

definition checkout_service :: "ports \<Rightarrow> draws \<Rightarrow> checkout_input \<Rightarrow> database \<Rightarrow> database \<times> checkout result" where
  "checkout_service p d inp db =
     (case CreateCheckout (pt_url_Parse p) (\<lambda>db i. Orders_Get (OrderRepository_Get (dw_faults d 0)) i db)
        (\<lambda>db. PrepareCheckout (dw_faults d 1) (\<lambda>_. dw_others d 1 db) db) (pt_provider p)
        (\<lambda>db. SaveSession (dw_faults d 2) (dw_others d 2) db) (\<lambda>i. dw_others d (3 + i)) True
        (dw_PaymentID d) (dw_AttemptID d) (dw_now d 0) (dw_now d 1) inp db of
        (db', r, made, notes) \<Rightarrow> (db', r))"

definition webhook_service :: "ports \<Rightarrow> draws \<Rightarrow> receive_input \<Rightarrow> database \<Rightarrow> database \<times> string result" where
  "webhook_service p d =
     receive_case (pt_json_Valid p) (pt_verify p) (dw_faults d 0) (dw_faults d 1) (dw_now d 1) (dw_EventID d) (dw_MessageID d) (dw_now d 0)"

definition operations_service :: "draws \<Rightarrow> database event_cases" where
  "operations_service d =
     \<lparr>ec_List = (\<lambda>status n db. Operations_List (WebhookRepository_List (dw_faults d 0)) db status n),
      ec_Reprocess = (\<lambda>i db. Operations_Reprocess (WebhookRepository_Reprocess (dw_faults d 0) (dw_now d 0)) db i)\<rparr>"

definition api_services :: "static \<Rightarrow> ports \<Rightarrow> draws \<Rightarrow> database api_handler" where
  "api_services products p d =
     NewAPIHandler (pt_health p) (Some (order_service products d)) (Some (checkout_service p d)) (Some (webhook_service p d))
       [operations_service d]"

text \<open>The server over the services, once the keys are read. \<^verbatim>\<open>catalog.Demo\<close> panics when its product is not valid.\<close>

definition api_server ::
  "library \<Rightarrow> (string \<Rightarrow> string \<Rightarrow> string) \<Rightarrow> verifier \<Rightarrow> config \<Rightarrow> ports \<Rightarrow> draws \<Rightarrow> (database server \<times> rate_limiters option) result" where
  "api_server lib hmac v cfg p d =
     (case Demo of
        Inl e \<Rightarrow> Inl (Panic (Error_text e))
      | Inr products \<Rightarrow>
     (case NewWithRateLimits lib
         \<lparr>hc_Docs = DocsModeFor (cf_DocsEnabled cfg) (IsDevelopment cfg), hc_TrustedProxies = cf_TrustedProxies cfg,
          hc_RateLimit = rateLimitConfig (RateLimitPolicy cfg)\<rparr>
         (api_services products p d) (Some (Valid hmac (Some v))) (Some (Fingerprint hmac (Some v))) True of
        Inl e \<Rightarrow> Inl (wrap ''configure rate limiting'' e)
      | Inr sv \<Rightarrow> Inr sv))"

text \<open>What \<^verbatim>\<open>Run\<close> decides on the configuration, up to the server. \<open>ownProvider\<close> and \<open>ownVerifier\<close> say which
  ports the caller replaced, \<open>secret\<close> is what reading the verifier's secret gave.\<close>

definition Api_Run ::
  "library \<Rightarrow> (string \<Rightarrow> string \<Rightarrow> string) \<Rightarrow> string + string \<Rightarrow> config \<Rightarrow> bool \<Rightarrow> bool \<Rightarrow> ports \<Rightarrow> draws \<Rightarrow>
   (database server \<times> rate_limiters option) result" where
  "Api_Run lib hmac secret cfg ownProvider ownVerifier p d =
     (case NewAPIKeyVerifier hmac secret (cf_IntegrationAPIKeys cfg) of
        Inl e \<Rightarrow> Inl (wrap ''configure integration authentication'' e)
      | Inr v \<Rightarrow>
     (case validateStripeConfiguration (pt_url_Parse p) cfg ownProvider ownVerifier of
        Some e \<Rightarrow> Inl e
      | None \<Rightarrow> api_server lib hmac v cfg p d))"

section \<open>Requests are runs\<close>

lemma runs_trans: "runs d1 d2 \<Longrightarrow> runs db d1 \<Longrightarrow> runs db d2"
  by (induction rule: runs.induct) (blast intro: runs.intros)+

definition draws_ok :: "draws \<Rightarrow> bool" where
  "draws_ok d \<longleftrightarrow> (\<forall>i db. runs db (dw_others d i db))"

lemma CreateOrGet_const:
  "OrderRepository_CreateOrGet f env db ord =
   OrderRepository_CreateOrGet f (\<lambda>_. env (fst (autocommit (f 0) (insert_order (OrderFromDomain ord)) db))) db ord"
proof -
  obtain d2 x where "autocommit (f 0) (insert_order (OrderFromDomain ord)) db = (d2, x)"
    by (cases "autocommit (f 0) (insert_order (OrderFromDomain ord)) db")
  then show ?thesis by (cases x) (simp_all add: OrderRepository_CreateOrGet_def)
qed

lemma SaveSession_const:
  "SaveSession f env db a = SaveSession f (\<lambda>_. env (fst (autocommit (f 0) (update_session a) db))) db a"
proof -
  obtain d2 x where "autocommit (f 0) (update_session a) db = (d2, x)" by (cases "autocommit (f 0) (update_session a) db")
  then show ?thesis by (cases x) (simp_all add: SaveSession_def)
qed

lemma runs_CreateOrGet:
  assumes "Order_New i product q k now = Inr ord" and "\<And>d. runs d (env d)"
    and "OrderRepository_CreateOrGet f env db ord = (db', r)"
  shows "runs db db'"
proof -
  obtain d2 x where a: "autocommit (f 0) (insert_order (OrderFromDomain ord)) db = (d2, x)"
    by (cases "autocommit (f 0) (insert_order (OrderFromDomain ord)) db")
  from assms(3) CreateOrGet_const [of f env db ord] a have "OrderRepository_CreateOrGet f (\<lambda>_. env d2) db ord = (db', r)" by simp
  from runs.create_order [OF runs.start assms(1) a assms(2) this] show ?thesis .
qed

lemma runs_SaveSession:
  assumes "AttachSession up a0 ses now = Inr a" and "\<And>d. runs d (env d)" and "SaveSession f env db a = (db', e)"
  shows "runs db db'"
proof -
  obtain d2 x where a: "autocommit (f 0) (update_session a) db = (d2, x)" by (cases "autocommit (f 0) (update_session a) db")
  from assms(3) SaveSession_const [of f env db a] a have "SaveSession f (\<lambda>_. env d2) db a = (db', e)" by simp
  from runs.save_session [OF runs.start assms(1) a assms(2) this] show ?thesis .
qed

lemma order_service_runs:
  assumes "draws_ok d" and "oc_Create (order_service products d) inp db = (db', r)"
  shows "runs db db'"
proof -
  have env: "\<And>x. runs x (dw_others d 0 x)" using assms(1) by (simp add: draws_ok_def)
  obtain r0 told where run: "Orders_Create (Static_Product products)
      (\<lambda>db. OrderRepository_CreateOrGet (dw_faults d 0) (dw_others d 0) db) True (dw_OrderID d) (dw_now d 0) inp db = (db', r0, told)"
    using assms(2) by (auto simp: order_service_def split: prod.splits)
  show ?thesis
  proof (cases "db' = db")
    case False
    with run obtain i product ord r1 where "Order_New i product (in_Quantity inp) (in_IdempotencyKey inp) (dw_now d 0) = Inr ord"
      "OrderRepository_CreateOrGet (dw_faults d 0) (dw_others d 0) db ord = (db', r1)"
      by (auto simp: Orders_Create_def split: option.splits sum.splits prod.splits if_splits)
    from runs_CreateOrGet [OF this(1) env this(2)] show ?thesis .
  qed (simp add: runs.start)
qed

lemma checkout_service_runs:
  assumes "draws_ok d" and "checkout_service p d inp db = (db', r)"
  shows "runs db db'"
proof -
  have env: "\<And>i x. runs x (dw_others d i x)" using assms(1) by (simp add: draws_ok_def)
  obtain r0 made told where run: "CreateCheckout (pt_url_Parse p) (\<lambda>db i. Orders_Get (OrderRepository_Get (dw_faults d 0)) i db)
        (\<lambda>db. PrepareCheckout (dw_faults d 1) (\<lambda>_. dw_others d 1 db) db) (pt_provider p)
        (\<lambda>db. SaveSession (dw_faults d 2) (dw_others d 2) db) (\<lambda>i. dw_others d (3 + i)) True
        (dw_PaymentID d) (dw_AttemptID d) (dw_now d 0) (dw_now d 1) inp db = (db', r0, made, told)"
    using assms(2) by (auto simp: checkout_service_def split: prod.splits)
  show ?thesis
  proof (cases "db' = db")
    case False
    let ?d1 = "dw_others d 3 db"
    from run False obtain pid aid ord p0 a0 d2 pr where
      new: "Payment_New pid aid ord (cin_IdempotencyKey inp) (dw_now d 0) = Inr (p0, a0)"
      and prep: "PrepareCheckout (dw_faults d 1) (\<lambda>_. dw_others d 1 ?d1) ?d1 p0 a0 = (d2, pr)"
      and rest: "db' = d2 \<or> (\<exists>a ses x e. AttachSession (pt_url_Parse p) a ses (dw_now d 1) = Inr x \<and>
          SaveSession (dw_faults d 2) (dw_others d 2) (dw_others d 4 d2) x = (db', e))"
      unfolding CreateCheckout_def Let_def
      by (clarsimp split: option.splits sum.splits prod.splits if_splits) (blast+)?
    have "runs db d2"
      by (rule runs.prepare [OF env new env prep])
    show ?thesis
      using rest
    proof
      assume "db' = d2"
      with \<open>runs db d2\<close> show ?thesis by simp
    next
      assume "\<exists>a ses x e. AttachSession (pt_url_Parse p) a ses (dw_now d 1) = Inr x \<and>
          SaveSession (dw_faults d 2) (dw_others d 2) (dw_others d 4 d2) x = (db', e)"
      then obtain a ses x e where s: "AttachSession (pt_url_Parse p) a ses (dw_now d 1) = Inr x"
          "SaveSession (dw_faults d 2) (dw_others d 2) (dw_others d 4 d2) x = (db', e)" by blast
      from runs_SaveSession [OF s(1) env s(2)] have "runs (dw_others d 4 d2) db'" .
      then show ?thesis using \<open>runs db d2\<close> env runs_trans by blast
    qed
  qed (simp add: runs.start)
qed

lemma webhook_service_runs:
  assumes "webhook_service p d inp db = (db', r)"
  shows "runs db db'"
proof -
  obtain kind where "receive (pt_json_Valid p) (pt_verify p) Stripe (StoreIgnored (dw_faults d 0)) (StorePending (dw_faults d 1) (dw_now d 1))
      (dw_EventID d) (dw_MessageID d) (dw_now d 0) inp db = (db', kind, r)"
    using assms by (auto simp: webhook_service_def receive_case_def Receive_def split: prod.splits)
  from runs.receive_webhook [OF runs.start this] show ?thesis .
qed

lemma operations_service_runs:
  assumes "ec_Reprocess (operations_service d) i db = (db', r)"
  shows "runs db db'"
  using assms runs.replay [OF runs.start, of "dw_faults d 0" "dw_now d 0" db i db' r] runs.start [of db]
  by (auto simp: operations_service_def Operations_Reprocess_def split: option.splits)

lemma fst_outcome_as [simp]: "fst (outcome_as f x) = fst x"
  by (cases "(f, x)" rule: outcome_as.cases) auto

lemma api_call_runs:
  assumes "draws_ok d"
  shows "runs db (fst (call_operation (api_services products p d) c op db))"
proof (cases op)
  case (Op_CreateOrder k b)
  then show ?thesis using order_service_runs [OF assms]
    by (auto simp: api_services_def NewAPIHandler_def CreateOrder_def split: prod.splits)
next
  case (Op_CreateCheckout i k)
  then show ?thesis using checkout_service_runs [OF assms]
    by (auto simp: api_services_def NewAPIHandler_def CreateCheckout_handler_def split: prod.splits)
next
  case (Op_ReprocessWebhookEvent i)
  then show ?thesis using operations_service_runs
    by (auto simp: api_services_def NewAPIHandler_def ReprocessWebhookEvent_handler_def split: prod.splits)
next
  case (Op_ReceiveStripeWebhook sg b)
  have "ah_webhooks (api_services products p d) = Some (webhook_service p d)" by (simp add: api_services_def NewAPIHandler_def)
  with Op_ReceiveStripeWebhook show ?thesis using webhook_service_runs
    by (auto simp: webhook_handler split: prod.splits)
qed (simp_all add: api_services_def NewAPIHandler_def GetHealth_def GetOrder_def ListWebhookEvents_handler_def Let_def runs.start)

text \<open>A request changes the application's state at most by one call of an operation.\<close>

lemma serve_App:
  "ss_App (fst (serve sv now later random rq st)) = ss_App st \<or>
   (\<exists>c op. ss_App (fst (serve sv now later random rq st)) = fst (call_operation (sr_handler sv) c op (ss_App st)))"
proof (cases rule: serve_cases [of sv now later random rq st])
  case (routed st1)
  let ?c = "correlation_of random rq" and ?body = "limited_body (bodyLimitFor (URL_Path rq)) rq"
  let ?w = "first_writer ?c"
  have strict: "ss_App (fst (strict_serve sv later rq ?c op st1 ?w)) = ss_App st1 \<or>
      ss_App (fst (strict_serve sv later rq ?c op st1 ?w)) = fst (call_operation (sr_handler sv) ?c op (ss_App st1))" for op
  proof (cases rule: strict_serve_cases [of sv later rq ?c op st1 ?w])
    case (called st2)
    obtain s' r where run: "call_operation (sr_handler sv) ?c op (ss_App st2) = (s', r)"
      by (cases "call_operation (sr_handler sv) ?c op (ss_App st2)")
    from called(1) have "fst (strict_serve sv later rq ?c op st1 ?w) = st2\<lparr>ss_App := s'\<rparr>"
      by (simp add: call_strict_def run respond_state)
    with called(2) run show ?thesis by simp
  qed simp_all
  have "ss_App (fst (mux_serve sv later rq ?c ?body st1 ?w)) = ss_App st1 \<or>
      (\<exists>op. ss_App (fst (mux_serve sv later rq ?c ?body st1 ?w)) = fst (call_operation (sr_handler sv) ?c op (ss_App st1)))"
    using strict by (auto simp: mux_serve_def split: option.splits sum.splits)
  with routed(1,2) show ?thesis by (auto simp: routed_serve_def recovery_fst)
qed simp

text \<open>A history of requests, each with its draws and with what the other processes did before it. The server
  itself does not change; its use cases see the draws of the request.\<close>

type_synonym request = "draws \<times> instant \<times> instant \<times> (instant + string) \<times> http_request"

fun history :: "static \<Rightarrow> ports \<Rightarrow> database server \<Rightarrow> request list \<Rightarrow> database server_state \<Rightarrow> database server_state" where
  "history products p sv [] st = st"
| "history products p sv ((d, now, later, random, rq) # rs) st =
     history products p sv rs (fst (serve (sv\<lparr>sr_handler := api_services products p d\<rparr>) now later random rq
       (st\<lparr>ss_App := dw_others d 5 (ss_App st)\<rparr>)))"

lemma history_runs:
  "\<forall>r \<in> set rs. draws_ok (fst r) \<Longrightarrow> runs (ss_App st) (ss_App (history products p sv rs st))"
proof (induction rs arbitrary: st)
  case (Cons r rs)
  obtain d now later random rq where r: "r = (d, now, later, random, rq)" by (cases r)
  have ok: "draws_ok d" using Cons.prems r by simp
  let ?st = "st\<lparr>ss_App := dw_others d 5 (ss_App st)\<rparr>"
  let ?st' = "fst (serve (sv\<lparr>sr_handler := api_services products p d\<rparr>) now later random rq ?st)"
  have 1: "runs (ss_App st) (ss_App ?st)" using ok by (simp add: draws_ok_def)
  have 2: "runs (ss_App ?st) (ss_App ?st')"
    using serve_App [of "sv\<lparr>sr_handler := api_services products p d\<rparr>" now later random rq ?st] api_call_runs [OF ok]
    by (auto simp: runs.start)
  have 3: "runs (ss_App ?st') (ss_App (history products p sv rs ?st'))" using Cons by simp
  have "history products p sv (r # rs) st = history products p sv rs ?st'" by (simp add: r)
  with runs_trans [OF 3 runs_trans [OF 2 1]] show ?case by simp
qed (simp add: runs.start)

text \<open>
  C7: the API refines the runs. Whatever requests a server of the API process gets, valid or not, in whatever
  order, with whatever faults and with whatever the other processes do before and during each, what they do
  to the tables is a run of the operations of the system; so the tables stay consistent: the schema, the
  ledger and the messages of every handled event.
\<close>

theorem requests_are_runs:
  assumes "\<forall>r \<in> set rs. draws_ok (fst r)"
  shows "\<exists>db. ss_App (history products p sv rs \<lparr>ss_App = empty_db, ss_Limiters = limiters, ss_Rejected = []\<rparr>) = db \<and>
    runs empty_db db \<and> good db"
  using history_runs [OF assms, of "\<lparr>ss_App = empty_db, ss_Limiters = limiters, ss_Rejected = []\<rparr>" products p sv]
    runs_good [OF _ good_empty] by auto

definition sample_draws :: draws where
  "sample_draws = \<lparr>dw_faults = (\<lambda>i. no_faults), dw_others = (\<lambda>i db. db), dw_now = (\<lambda>i. 9), dw_OrderID = Inr ''ord_1'',
     dw_PaymentID = Inr ''pay_1'', dw_AttemptID = Inr ''pat_1'', dw_EventID = Inr ''evt_2'', dw_MessageID = Inr ''msg_2''\<rparr>"

definition sample_ports :: ports where
  "sample_ports = \<lparr>pt_url_Parse = (\<lambda>u. Inl (External ''no URL'')), pt_json_Valid = (\<lambda>b. True), pt_provider = (\<lambda>q. Inl (External ''down'')),
     pt_verify = sample_verify, pt_health = \<lparr>hs_serviceName = ''api'', hs_version = ''1'', hs_checks = []\<rparr>\<rparr>"

lemma sample_draws_ok: "draws_ok sample_draws"
  by (simp add: draws_ok_def sample_draws_def runs.start)

theorem requests_are_runs_witness:
  "\<exists>db. ss_App (history (\<lambda>_. None) sample_ports webhook_server
       [(sample_draws, 0, 0, Inr ''0123456789abcdef'', webhook_request), (sample_draws, 1, 1, Inr ''0123456789abcdef'', webhook_request)]
       \<lparr>ss_App = empty_db, ss_Limiters = None, ss_Rejected = []\<rparr>) = db \<and> good db"
  using requests_are_runs [of "[(sample_draws, 0, 0, Inr ''0123456789abcdef'', webhook_request),
      (sample_draws, 1, 1, Inr ''0123456789abcdef'', webhook_request)]" "\<lambda>_. None" sample_ports webhook_server None] sample_draws_ok
  by simp

section \<open>Startup\<close>

text \<open>
  What was configured is what serves. A configuration that loads, with acceptable keys and the settings of
  Stripe, starts: no limiter is refused. The server has every route of the contract, accepts exactly the
  configured keys, believes exactly the configured proxies, limits exactly when limiting is enabled, and
  shows its documentation without a key only in development.
\<close>

theorem loaded_api_serves:
  assumes "Load file parsed s a req = Inr c"
    and "cf_IntegrationAPIKeys c \<noteq> []" and "check_keys {} (cf_IntegrationAPIKeys c) = None"
    and "validateStripeConfiguration (pt_url_Parse p) c ownProvider ownVerifier = None"
    and "\<forall>l \<in> set (cf_IntegrationAPIKeys c). hmac sec k = hmac sec l \<longrightarrow> k = l"
  shows "\<exists>sv limiters. Api_Run lib hmac (Inr sec) c ownProvider ownVerifier p d = Inr (sv, limiters) \<and>
    sr_routes sv = api_routes \<and> (verified (sr_verifier sv) k \<longleftrightarrow> k \<in> set (cf_IntegrationAPIKeys c)) \<and>
    ParseTrustedProxies (cf_TrustedProxyCIDRs c) = Inr (sr_trusted sv) \<and>
    (limiters = None \<longleftrightarrow> \<not> cf_RateLimitEnabled c) \<and> (sr_docs sv = DocsDisabled \<longleftrightarrow> \<not> cf_DocsEnabled c) \<and>
    (sr_docs sv = DocsPublic \<longrightarrow> cf_Environment c = EnvironmentDevelopment)"
proof -
  let ?v = "\<lparr>ve_secret = sec, ve_tags = map (tag hmac sec) (cf_IntegrationAPIKeys c)\<rparr>"
  have v: "NewAPIKeyVerifier hmac (Inr sec) (cf_IntegrationAPIKeys c) = Inr ?v"
    using assms(2,3) by (simp add: NewAPIKeyVerifier_def)
  have valid: "Valid hmac (Some ?v) k \<longleftrightarrow> k \<in> set (cf_IntegrationAPIKeys c)"
    using assms(5) by (auto simp: Valid_iff tag_def)
  obtain products where demo: "Demo = Inr products"
    by (auto simp: Demo_def NewStatic_def demo_valid)
  obtain ls where ls: "newRateLimiters (rateLimitConfig (RateLimitPolicy c)) (Some (Fingerprint hmac (Some ?v))) True = Inr ls"
    "ls = None \<longleftrightarrow> \<not> cf_RateLimitEnabled c"
    using Load_builds_limiters [OF assms(1), of "Fingerprint hmac (Some ?v)" True] by (auto split: option.splits)
  have "ParseTrustedProxies (cf_TrustedProxyCIDRs c) = Inr (cf_TrustedProxies c)" using Load_Inr [OF assms(1)] by blast
  then show ?thesis
    using ls(2) valid
    by (auto simp: Api_Run_def api_server_def v assms(4) demo NewWithRateLimits_def ls(1) library.defs server.defs verified_def DocsModeFor_def
        IsDevelopment_def)
qed

theorem loaded_api_serves_witness:
  "\<exists>sv limiters. Api_Run sample_library (\<lambda>s x. s @ x) (Inr ''s'')
      (default_config\<lparr>cf_IntegrationAPIKeys := [replicate 32 CHR ''k''], cf_ServiceName := ''worker'', cf_OTelServiceName := ''worker'',
         cf_HTTPAddress := '':8081''\<rparr>) True True sample_ports sample_draws = Inr (sv, limiters) \<and>
     limiters \<noteq> None \<and> sr_docs sv = DocsDisabled \<and> \<not> verified (sr_verifier sv) ''guess''"
proof -
  let ?k = "replicate 32 CHR ''k''"
  let ?c = "default_config\<lparr>cf_IntegrationAPIKeys := [?k], cf_ServiceName := ''worker'', cf_OTelServiceName := ''worker'',
    cf_HTTPAddress := '':8081''\<rparr>"
  have "TrimSpace ?k = ?k" by (rule TrimSpace_plain) (auto simp: plain_char_def)
  then have "check_keys {} (cf_IntegrationAPIKeys ?c) = None" by (simp add: MinAPIKeyLength_def)
  moreover have "validateStripeConfiguration (pt_url_Parse sample_ports) ?c True True = None"
    by (simp add: validateStripeConfiguration_def)
  moreover have "''guess'' \<noteq> ?k" by (simp add: numeral_eq_Suc)
  moreover have "cf_RateLimitEnabled ?c" "\<not> cf_DocsEnabled ?c" by (simp_all add: default_config_def)
  ultimately show ?thesis
    using loaded_api_serves [OF default_loads_keys [of "[?k]"], of sample_ports True True "\<lambda>s x. s @ x" "''s''" "''guess''"
        sample_library sample_draws] by fastforce
qed

end
