(* ===== verification/Startup_Retry.thy ===== *)
theory Startup_Retry
  imports GoLang Prelude
begin

text \<open>
  The bounded retry of startup (\<^verbatim>\<open>internal/platform/retry/retry.go\<close>). \<open>attempt n\<close> is what the call of \<open>fn\<close>
  numbered \<open>n\<close> answers, \<open>expired n\<close> the error of the context when the wait after it ended because the
  context was done, and \<^const>\<open>None\<close> when the timer fired. The loop may go on for ever, so it is a partial
  function; besides its result it returns the waits it started.
\<close>

definition next_delay :: "duration \<Rightarrow> duration \<Rightarrow> duration" where
  "next_delay maximumDelay delay =
     (let d = int64 (delay * 2) in if maximumDelay < d then maximumDelay else d)"

definition deadline_error :: "goerr \<Rightarrow> goerr \<Rightarrow> goerr" where
  "deadline_error lastErr ctxErr =
     Errorf [T ''retry deadline reached: last error: '', W lastErr, T ''; context: '', W ctxErr]"

partial_function (option) retry_loop ::
  "duration \<Rightarrow> (nat \<Rightarrow> goerr option) \<Rightarrow> (nat \<Rightarrow> goerr option) \<Rightarrow> nat \<Rightarrow> duration \<Rightarrow> (goerr option \<times> duration list) option" where
  "retry_loop maximumDelay attempt expired n delay =
     (case attempt n of
        None \<Rightarrow> Some (None, [])
      | Some e \<Rightarrow>
     (case expired n of
        Some c \<Rightarrow> Some (Some (deadline_error e c), [delay])
      | None \<Rightarrow>
          Option.bind (retry_loop maximumDelay attempt expired (Suc n) (next_delay maximumDelay delay))
          (\<lambda>(r, waits). Some (r, delay # waits))))"

definition retry_Do ::
  "duration \<Rightarrow> duration \<Rightarrow> (nat \<Rightarrow> goerr option) \<Rightarrow> (nat \<Rightarrow> goerr option) \<Rightarrow> (goerr option \<times> duration list) option" where
  "retry_Do initialDelay maximumDelay attempt expired = retry_loop maximumDelay attempt expired 0 initialDelay"

section \<open>When it returns\<close>

text \<open>The waits, and the round in which something ends the loop.\<close>

definition delays :: "duration \<Rightarrow> duration \<Rightarrow> nat \<Rightarrow> duration" where
  "delays maximumDelay delay k = (next_delay maximumDelay ^^ k) delay"

lemma delays_Suc: "delays mx d (Suc k) = delays mx (next_delay mx d) k"
  by (simp only: delays_def funpow_Suc_right comp_def)

definition retry_ends :: "(nat \<Rightarrow> goerr option) \<Rightarrow> (nat \<Rightarrow> goerr option) \<Rightarrow> nat \<Rightarrow> bool" where
  "retry_ends attempt expired n \<longleftrightarrow> attempt n = None \<or> expired n \<noteq> None"

lemma retry_loop_runs:
  assumes "retry_ends attempt expired (n + k)" and "\<forall>j<k. \<not> retry_ends attempt expired (n + j)"
  shows "retry_loop mx attempt expired n d =
    (case attempt (n + k) of
       None \<Rightarrow> Some (None, map (delays mx d) [0..<k])
     | Some e \<Rightarrow> Some (Some (deadline_error e (the (expired (n + k)))), map (delays mx d) [0..<Suc k]))"
  using assms
proof (induction k arbitrary: n d)
  case 0
  then show ?case
    by (subst retry_loop.simps) (auto simp: retry_ends_def delays_def split: option.splits)
next
  case (Suc k)
  have "retry_ends attempt expired (Suc n + k)" "\<forall>j<k. \<not> retry_ends attempt expired (Suc n + j)"
    using Suc.prems by (auto dest: spec [of _ "Suc _"])
  note ih = Suc.IH [OF this, of "next_delay mx d"]
  have now: "attempt n \<noteq> None" "expired n = None" using Suc.prems(2) by (auto simp: retry_ends_def dest: spec [of _ 0])
  have upt: "map (delays mx d) [0..<Suc i] = d # map (delays mx (next_delay mx d)) [0..<i]" for i
    by (simp add: map_upt_Suc delays_Suc del: upt_Suc) (simp add: delays_def)
  from now ih show ?case
    by (subst retry_loop.simps) (simp add: upt split: option.splits del: upt_Suc)
qed

lemma retry_loop_returns:
  assumes "retry_loop mx attempt expired n d = Some r"
  shows "\<exists>j. retry_ends attempt expired (n + j)"
  using assms
proof (induction rule: retry_loop.raw_induct [rotated, consumes 1, case_names turn])
  case (turn loop mx attempt expired n d r)
  consider "retry_ends attempt expired n" | "\<not> retry_ends attempt expired n" by blast
  then show ?case
  proof cases
    case 1
    then show ?thesis by (intro exI [of _ 0]) simp
  next
    case 2
    with turn(2) obtain q where "loop mx attempt expired (Suc n) (next_delay mx d) = Some q"
      by (auto simp: retry_ends_def split: option.splits bind_splits)
    from turn(1) [OF this] obtain j where "retry_ends attempt expired (Suc n + j)" by blast
    then show ?thesis by (intro exI [of _ "Suc j"]) simp
  qed
qed

lemma retry_Do_None: "retry_Do initial mx attempt expired = None \<longleftrightarrow> (\<forall>n. \<not> retry_ends attempt expired n)"
proof
  assume none: "retry_Do initial mx attempt expired = None"
  show "\<forall>n. \<not> retry_ends attempt expired n"
  proof (rule ccontr)
    assume "\<not> ?thesis"
    then obtain n where "retry_ends attempt expired n" by blast
    from ex_least_nat_le [of "retry_ends attempt expired", OF this] obtain k where
      k: "retry_ends attempt expired (0 + k)" "\<forall>j<k. \<not> retry_ends attempt expired (0 + j)" by auto
    from retry_loop_runs [OF k, of mx initial] none show False by (cases "attempt k") (simp_all add: retry_Do_def)
  qed
next
  assume never: "\<forall>n. \<not> retry_ends attempt expired n"
  show "retry_Do initial mx attempt expired = None"
  proof (rule ccontr)
    assume "retry_Do initial mx attempt expired \<noteq> None"
    then obtain r where "retry_loop mx attempt expired 0 initial = Some r" by (auto simp: retry_Do_def)
    from retry_loop_returns [OF this] never show False by simp
  qed
qed

text \<open>The waits double up to the maximum.\<close>

lemma delays_closed:
  assumes "0 < d" and "d \<le> mx" and "mx < 2 ^ 62"
  shows "delays mx d k = min mx (d * 2 ^ k)"
  using assms
proof (induction k arbitrary: d)
  case (Suc k)
  have "int64 (d * 2) = d * 2" using Suc.prems by (intro int64_id) auto
  then have nd: "next_delay mx d = min mx (d * 2)" by (simp add: next_delay_def Let_def)
  have "min mx (min mx (d * 2) * 2 ^ k) = min mx (d * 2 * 2 ^ k)"
  proof (cases "mx \<le> d * 2")
    case True
    have "mx * 1 \<le> mx * 2 ^ k" using Suc.prems by (intro mult_left_mono) auto
    moreover have "d * 2 * 1 \<le> d * 2 * 2 ^ k" using Suc.prems by (intro mult_left_mono) auto
    ultimately show ?thesis using True by (simp add: min_def)
  qed simp
  then show ?case using Suc.IH [of "next_delay mx d"] Suc.prems by (simp add: delays_Suc nd ac_simps)
qed (simp add: delays_def)

lemma waited_enough:
  assumes "0 < d" and "d \<le> mx" and "mx < 2 ^ 62"
  shows "int k * d \<le> (\<Sum>j<k. delays mx d j)"
proof -
  have "d \<le> delays mx d j" for j
  proof -
    have "d * 1 \<le> d * 2 ^ j" using assms(1) by (intro mult_left_mono) auto
    then show ?thesis using assms by (simp add: delays_closed)
  qed
  then have "(\<Sum>j<k. d) \<le> (\<Sum>j<k. delays mx d j)" by (intro sum_mono)
  then show ?thesis by simp
qed

text \<open>
  C27: startup waits a bounded time. The retry goes on for ever only when the dependency never answers and
  its context never ends. Under a context that is done once the time it was given is spent, the retry
  returns after at most that time divided by the first wait, plus one, rounds; the waits double up to the
  maximum; success is reported exactly when an attempt succeeded before the context ended, and an error
  keeps the cause of the last attempt.
\<close>

theorem retry_bounded:
  assumes "0 < initial" and "initial \<le> mx" and "mx < 2 ^ 62" and "0 \<le> budget"
    and "\<forall>n. budget \<le> (\<Sum>j<n. delays mx initial j) \<longrightarrow> expired n \<noteq> None"
  shows "\<exists>r waits. retry_Do initial mx attempt expired = Some (r, waits) \<and>
    int (length waits) \<le> budget div initial + 2 \<and>
    (\<forall>k<length waits. waits ! k = min mx (initial * 2 ^ k)) \<and>
    (\<exists>n. (\<forall>j<n. attempt j \<noteq> None \<and> expired j = None) \<and>
       (r = None \<longleftrightarrow> attempt n = None) \<and>
       (\<forall>e. r = Some e \<longrightarrow> (\<exists>c l. expired n = Some c \<and> attempt n = Some l \<and> e = deadline_error l c)))"
proof -
  define n where "n = nat (budget div initial + 1)"
  have 0: "0 \<le> budget div initial" using assms(1,4) by (simp add: pos_imp_zdiv_nonneg_iff)
  have "budget = budget div initial * initial + budget mod initial" by simp
  moreover have "budget mod initial < initial" using assms(1) by simp
  ultimately have "budget \<le> budget div initial * initial + initial" by linarith
  then have "budget \<le> int n * initial" using 0 by (simp add: n_def distrib_right)
  with waited_enough [OF assms(1-3), of n] assms(5) have "retry_ends attempt expired n" unfolding retry_ends_def by fastforce
  from ex_least_nat_le [of "retry_ends attempt expired", OF this] obtain k where
    k: "k \<le> n" "retry_ends attempt expired (0 + k)" "\<forall>j<k. \<not> retry_ends attempt expired (0 + j)" by auto
  have len: "int k \<le> budget div initial + 1" using k(1) 0 by (simp add: n_def)
  note run = retry_loop_runs [OF k(2,3), of mx initial] and ws = delays_closed [OF assms(1-3)]
  show ?thesis
  proof (cases "attempt k")
    case None
    with run have "retry_Do initial mx attempt expired = Some (None, map (delays mx initial) [0..<k])"
      by (simp add: retry_Do_def)
    with None k(3) len show ?thesis by (intro exI conjI) (auto simp: retry_ends_def ws)
  next
    case (Some e)
    with run have "retry_Do initial mx attempt expired =
        Some (Some (deadline_error e (the (expired k))), map (delays mx initial) [0..<Suc k])"
      by (simp add: retry_Do_def)
    moreover from Some k(2) have "expired k = Some (the (expired k))" by (auto simp: retry_ends_def)
    ultimately show ?thesis using Some k(3) len
      by (intro exI [of _ k] exI conjI) (auto simp: retry_ends_def ws simp del: upt_Suc)
  qed
qed

theorem retry_bounded_witness:
  "retry_Do 500 5000 (\<lambda>n. if n < 2 then Some (External ''down'') else None) (\<lambda>n. if 3 \<le> n then Some (External ''late'') else None)
     \<noteq> None"
proof -
  have mono: "(\<Sum>j<n. delays 5000 500 j) \<le> (\<Sum>j<3. delays 5000 500 j)" if "n \<le> 3" for n
    using that by (intro sum_mono2) (auto simp: delays_closed)
  have "(\<Sum>j<3. delays 5000 500 j) = 3500" by (simp add: eval_nat_numeral delays_closed)
  with mono have small: "(\<Sum>j<n. delays 5000 500 j) \<le> 3500" if "n \<le> 3" for n using that by simp
  have "\<forall>n. 3501 \<le> (\<Sum>j<n. delays 5000 500 j) \<longrightarrow> (if 3 \<le> n then Some (External ''late'') else None) \<noteq> None"
  proof (intro allI impI)
    fix n assume "3501 \<le> (\<Sum>j<n. delays 5000 500 j)"
    with small [of n] have "3 \<le> n" by linarith
    then show "(if 3 \<le> n then Some (External ''late'') else None) \<noteq> None" by simp
  qed
  from retry_bounded [OF _ _ _ _ this, of "\<lambda>n. if n < 2 then Some (External ''down'') else None"] show ?thesis by auto
qed

end
