(* ===== verification/Process_Lifecycle.thy ===== *)
theory Process_Lifecycle
  imports Startup_Retry
begin

text \<open>
  What the two processes share: a run is the error it returns and the log of what it did, where resources
  are acquired and released (the deferred calls), warnings are logged, and a composition serves. What a
  release answers is only logged and left out. \<^const>\<open>None\<close> means that a startup retry never returns.
\<close>

datatype resource = Logger | Telemetry | StartupContext | Postgres | RelayConnection | ConsumerConnection
  | RepublishConnection | SamplingConnection | PublisherChannel

datatype 'w lifecycle = Acquired resource | Released resource | Warned string | Serving 'w

type_synonym 'w boot = "(goerr option \<times> 'w lifecycle list) option"

text \<open>A resource that is acquired, used and released by a deferred call; an early return; and a warning.\<close>

definition holding :: "resource \<Rightarrow> 'w boot \<Rightarrow> 'w boot" where
  "holding r b = (case b of None \<Rightarrow> None | Some (e, l) \<Rightarrow> Some (e, Acquired r # l @ [Released r]))"

definition refuse :: "goerr \<Rightarrow> 'w boot" where
  "refuse e = Some (Some e, [])"

definition warned :: "bool \<Rightarrow> string \<Rightarrow> 'w boot \<Rightarrow> 'w boot" where
  "warned wrong text b =
     (case b of None \<Rightarrow> None | Some (e, l) \<Rightarrow> Some (e, (if wrong then [Warned text] else []) @ l))"

section \<open>What was opened is released\<close>

text \<open>The log read with the stack of what is held: releases come in the opposite order.\<close>

fun unwinds :: "resource list \<Rightarrow> 'w lifecycle list \<Rightarrow> bool" where
  "unwinds held [] \<longleftrightarrow> held = []"
| "unwinds held (Acquired r # l) \<longleftrightarrow> unwinds (r # held) l"
| "unwinds held (Released r # l) \<longleftrightarrow> (case held of [] \<Rightarrow> False | q # held' \<Rightarrow> q = r \<and> unwinds held' l)"
| "unwinds held (Warned t # l) \<longleftrightarrow> unwinds held l"
| "unwinds held (Serving w # l) \<longleftrightarrow> unwinds held l"

definition tidy :: "'w boot \<Rightarrow> bool" where
  "tidy b \<longleftrightarrow> (\<forall>e l. b = Some (e, l) \<longrightarrow> (\<forall>held l'. unwinds held (l @ l') = unwinds held l'))"

named_theorems tidy_intros \<open>compositions that release what they acquire\<close>

lemma tidy_refuse [tidy_intros]: "tidy (refuse e)"
  by (simp add: tidy_def refuse_def)

lemma tidy_None [tidy_intros]: "tidy None"
  by (simp add: tidy_def)

lemma tidy_serving [tidy_intros]: "tidy (Some (e, [Serving w]))"
  by (simp add: tidy_def)

lemma tidy_holding [tidy_intros]: "tidy b \<Longrightarrow> tidy (holding r b)"
  by (auto simp: tidy_def holding_def split: option.splits)

lemma tidy_warned [tidy_intros]: "tidy b \<Longrightarrow> tidy (warned wrong t b)"
  by (auto simp: tidy_def warned_def split: option.splits)

lemma tidy_unwinds: "tidy b \<Longrightarrow> b = Some (e, l) \<Longrightarrow> unwinds [] l"
  unfolding tidy_def by (metis append_Nil2 unwinds.simps(1))

end
