(* ===== verification/Metrics.thy ===== *)
theory Metrics
  imports Float64 Prelude "HOL-Library.List_Lexorder" "HOL-Library.Char_ord"
begin

text \<open>
  What the program may record (\<^verbatim>\<open>internal/platform/metrics\<close>: \<^verbatim>\<open>labels.go\<close>, \<^verbatim>\<open>catalogue.go\<close>, \<^verbatim>\<open>metrics.go\<close>): the
  closed vocabulary of every label, the catalogue of instruments, and the instruments built from it.
  The OpenTelemetry meter is an argument: what it answers when an instrument is created, a handle or an
  error. A measurement is the call made on such a handle, with its value and its attributes.
\<close>

section \<open>Labels\<close>

definition LabelProvider :: string where "LabelProvider = ''provider''"
definition LabelEventKind :: string where "LabelEventKind = ''event.kind''"
definition LabelOutcome :: string where "LabelOutcome = ''outcome''"
definition LabelReason :: string where "LabelReason = ''reason''"
definition LabelOperation :: string where "LabelOperation = ''operation''"
definition LabelEntity :: string where "LabelEntity = ''entity''"
definition LabelFrom :: string where "LabelFrom = ''from''"
definition LabelTo :: string where "LabelTo = ''to''"
definition LabelStage :: string where "LabelStage = ''stage''"
definition LabelDisposition :: string where "LabelDisposition = ''disposition''"
definition LabelDestination :: string where "LabelDestination = ''destination''"
definition LabelQueue :: string where "LabelQueue = ''queue''"
definition LabelState :: string where "LabelState = ''state''"
definition LabelSampler :: string where "LabelSampler = ''sampler''"
definition LabelLimiter :: string where "LabelLimiter = ''limiter''"
definition LabelRouteClass :: string where "LabelRouteClass = ''route.class''"

definition Other :: string where "Other = ''other''"

definition LimiterClient :: string where "LimiterClient = ''client''"
definition LimiterCredential :: string where "LimiterCredential = ''credential''"
definition LimiterWebhook :: string where "LimiterWebhook = ''webhook''"
definition LimiterHealth :: string where "LimiterHealth = ''health''"

definition LabelRouteClassHealth :: string where "LabelRouteClassHealth = ''health''"
definition LabelRouteClassDocs :: string where "LabelRouteClassDocs = ''docs''"
definition LabelRouteClassBusiness :: string where "LabelRouteClassBusiness = ''business''"
definition LabelRouteClassOperations :: string where "LabelRouteClassOperations = ''operations''"
definition LabelRouteClassWebhook :: string where "LabelRouteClassWebhook = ''webhook''"

definition SamplerBacklog :: string where "SamplerBacklog = ''backlog''"
definition SamplerBroker :: string where "SamplerBroker = ''broker''"

definition statuses :: "string list" where
  "statuses =
     [''pending'', ''processing'', ''succeeded'', ''failed'', ''cancelled'', ''expired'', ''partially_refunded'', ''refunded'', ''created'', ''paid'']"

text \<open>\<^verbatim>\<open>allowed\<close>: the values each key may carry.\<close>

definition allowed_table :: "(string \<times> string list) list" where
  "allowed_table =
     [(LabelProvider, [''stripe'']),
      (LabelEventKind, [''checkout.completed'', ''checkout.payment_succeeded'',
        ''checkout.payment_failed'', ''checkout.expired'']),
      (LabelOutcome, [''accepted'', ''duplicate'', ''ignored'', ''success'', ''error'', ''published'',
        ''retrying'', ''failed'', ''lease_lost'', ''empty'']),
      (LabelReason, [''invalid_signature'', ''storage'', ''internal'', ''not_confirmed'',
        ''not_routed'', ''permanent'', ''transient'', ''lease_lost'', ''already_processed'',
        ''stale_event'', ''incompatible_api_version'', ''unreadable_payload'', ''missing_reference'',
        ''aggregate_not_found'', ''reference_mismatch'', ''amount_mismatch'', ''state_conflict'',
        ''invariant_violated'', ''unclassified'']),
      (LabelOperation, [''create_order'', ''create_checkout'']),
      (LabelEntity, [''order'', ''payment'', ''attempt'']),
      (LabelFrom, statuses),
      (LabelTo, statuses),
      (LabelStage, [''lease'', ''settlement'']),
      (LabelDisposition, [''done'', ''retry'', ''dead'', ''unrecorded'']),
      (LabelDestination, [''retry'', ''dead_letter'']),
      (LabelState, [''in_use'', ''idle'']),
      (LabelSampler, [SamplerBacklog, SamplerBroker]),
      (LabelLimiter, [LimiterClient, LimiterCredential, LimiterWebhook, LimiterHealth]),
      (LabelRouteClass, [LabelRouteClassHealth, LabelRouteClassDocs, LabelRouteClassBusiness,
        LabelRouteClassOperations, LabelRouteClassWebhook])]"

definition allowed_values :: "string \<Rightarrow> string list option" where
  "allowed_values = map_of allowed_table"

definition Normalize :: "string \<Rightarrow> string \<Rightarrow> string" where
  "Normalize key value =
     (case allowed_values key of
        None \<Rightarrow> Other
      | Some values \<Rightarrow> if value \<in> set values then value else Other)"

type_synonym attribute = "string \<times> string"

definition Attr :: "string \<Rightarrow> string \<Rightarrow> attribute" where
  "Attr key value = (key, Normalize key value)"

definition AllowedValues :: "string \<Rightarrow> string list" where
  "AllowedValues key = (case allowed_values key of None \<Rightarrow> [] | Some values \<Rightarrow> sort (remdups values))"

definition LabelKeys :: "string list" where
  "LabelKeys = sort (LabelQueue # map fst allowed_table)"

section \<open>The catalogue\<close>

datatype instrument_kind = KindCounter | KindHistogram | KindGauge | KindObservableCounter

record instrument =
  im_Name :: string
  im_Description :: string
  im_Unit :: string
  im_Kind :: instrument_kind
  im_Labels :: "string list"

definition WebhookReceived :: string where "WebhookReceived = ''payment.webhook.received''"
definition WebhookInvalidSignature :: string where "WebhookInvalidSignature = ''payment.webhook.invalid_signature''"
definition WebhookDuplicate :: string where "WebhookDuplicate = ''payment.webhook.duplicate''"
definition WebhookReceiveDuration :: string where "WebhookReceiveDuration = ''payment.webhook.receive.duration''"
definition WebhookReceiveFailures :: string where "WebhookReceiveFailures = ''payment.webhook.receive.failures''"
definition ProviderRequestDuration :: string where "ProviderRequestDuration = ''payment.provider.request.duration''"
definition ProviderRequestFailures :: string where "ProviderRequestFailures = ''payment.provider.request.failures''"
definition IdempotencyReplays :: string where "IdempotencyReplays = ''payment.idempotency.replays''"
definition IdempotencyConflicts :: string where "IdempotencyConflicts = ''payment.idempotency.conflicts''"
definition StateTransitions :: string where "StateTransitions = ''payment.state.transitions''"
definition OutboxPublishDuration :: string where "OutboxPublishDuration = ''outbox.publish.duration''"
definition OutboxPublishFailures :: string where "OutboxPublishFailures = ''outbox.publish.failures''"
definition OutboxRelayCycleTime :: string where "OutboxRelayCycleTime = ''outbox.relay.cycle.duration''"
definition OutboxRelayCycleFailure :: string where "OutboxRelayCycleFailure = ''outbox.relay.cycle.failures''"
definition OutboxRelayStuck :: string where "OutboxRelayStuck = ''outbox.relay.stuck''"
definition OutboxRelayAbandoned :: string where "OutboxRelayAbandoned = ''outbox.relay.abandoned''"
definition OutboxRelayLeaseLost :: string where "OutboxRelayLeaseLost = ''outbox.relay.lease_lost''"
definition ConsumerHandleDuration :: string where "ConsumerHandleDuration = ''payment.consumer.handle.duration''"
definition ConsumerNoOps :: string where "ConsumerNoOps = ''payment.consumer.no_ops''"
definition ConsumerFailures :: string where "ConsumerFailures = ''payment.consumer.failures''"
definition ConsumerRetries :: string where "ConsumerRetries = ''payment.consumer.retries''"
definition ConsumerDeadLetters :: string where "ConsumerDeadLetters = ''payment.consumer.dead_letters''"
definition BrokerRedeliveries :: string where "BrokerRedeliveries = ''rabbitmq.consumer.redeliveries''"
definition BrokerRepublished :: string where "BrokerRepublished = ''rabbitmq.consumer.republished''"
definition BrokerRejected :: string where "BrokerRejected = ''rabbitmq.consumer.rejected''"
definition BrokerUnacknowledged :: string where "BrokerUnacknowledged = ''rabbitmq.consumer.unacknowledged''"
definition OutboxPending :: string where "OutboxPending = ''outbox.pending''"
definition OutboxOldestAge :: string where "OutboxOldestAge = ''outbox.oldest.age''"
definition InboxPendingGauge :: string where "InboxPendingGauge = ''webhook.inbox.pending''"
definition InboxFailedGauge :: string where "InboxFailedGauge = ''webhook.inbox.failed''"
definition InboxOldestAge :: string where "InboxOldestAge = ''webhook.inbox.oldest.age''"
definition QueueDepth :: string where "QueueDepth = ''rabbitmq.queue.depth''"
definition PoolConnections :: string where "PoolConnections = ''database.pool.connections''"
definition PoolMaxOpen :: string where "PoolMaxOpen = ''database.pool.max_open''"
definition PoolWaits :: string where "PoolWaits = ''database.pool.waits''"
definition SamplerAge :: string where "SamplerAge = ''metrics.sampler.age''"
definition SamplerFailures :: string where "SamplerFailures = ''metrics.sampler.failures''"
definition HTTPRateLimited :: string where "HTTPRateLimited = ''http.server.rate_limited''"

definition catalogue :: "instrument list" where
  "catalogue =
     [\<lparr>im_Name = WebhookReceived, im_Description = ''Provider events received, by outcome.'',
       im_Unit = ''{event}'', im_Kind = KindCounter, im_Labels = [LabelProvider, LabelEventKind, LabelOutcome]\<rparr>,
      \<lparr>im_Name = WebhookInvalidSignature, im_Description = ''Webhook requests rejected because the signature could not be verified.'',
       im_Unit = ''{request}'', im_Kind = KindCounter, im_Labels = [LabelProvider]\<rparr>,
      \<lparr>im_Name = WebhookDuplicate, im_Description = ''Provider events received again after being stored.'',
       im_Unit = ''{event}'', im_Kind = KindCounter, im_Labels = [LabelProvider, LabelEventKind]\<rparr>,
      \<lparr>im_Name = WebhookReceiveDuration, im_Description = ''Time to verify and durably store one provider event.'',
       im_Unit = ''s'', im_Kind = KindHistogram, im_Labels = [LabelProvider, LabelOutcome]\<rparr>,
      \<lparr>im_Name = WebhookReceiveFailures, im_Description = ''Webhook requests that ended without a stored event.'',
       im_Unit = ''{request}'', im_Kind = KindCounter, im_Labels = [LabelProvider, LabelReason]\<rparr>,
      \<lparr>im_Name = ProviderRequestDuration, im_Description = ''Time spent in one payment provider request.'',
       im_Unit = ''s'', im_Kind = KindHistogram, im_Labels = [LabelProvider, LabelOperation, LabelOutcome]\<rparr>,
      \<lparr>im_Name = ProviderRequestFailures, im_Description = ''Payment provider requests that failed, by normalized outcome.'',
       im_Unit = ''{request}'', im_Kind = KindCounter, im_Labels = [LabelProvider, LabelOperation, LabelOutcome]\<rparr>,
      \<lparr>im_Name = IdempotencyReplays, im_Description = ''Requests answered from an earlier result because the idempotency key was seen before.'',
       im_Unit = ''{request}'', im_Kind = KindCounter, im_Labels = [LabelOperation]\<rparr>,
      \<lparr>im_Name = IdempotencyConflicts, im_Description = ''Requests refused because the idempotency key was reused with a different payload.'',
       im_Unit = ''{request}'', im_Kind = KindCounter, im_Labels = [LabelOperation]\<rparr>,
      \<lparr>im_Name = StateTransitions, im_Description = ''State transitions the consumer committed, by entity and normalized states.'',
       im_Unit = ''{transition}'', im_Kind = KindCounter, im_Labels = [LabelEntity, LabelFrom, LabelTo]\<rparr>,
      \<lparr>im_Name = OutboxPublishDuration, im_Description = ''Time the broker took to confirm or refuse one outbox message.'',
       im_Unit = ''s'', im_Kind = KindHistogram, im_Labels = [LabelOutcome]\<rparr>,
      \<lparr>im_Name = OutboxPublishFailures, im_Description = ''Outbox publications that did not end confirmed, by normalized reason.'',
       im_Unit = ''{message}'', im_Kind = KindCounter, im_Labels = [LabelReason]\<rparr>,
      \<lparr>im_Name = OutboxRelayCycleTime, im_Description = ''Duration of one relay cycle: lease, publish and settle a batch.'',
       im_Unit = ''s'', im_Kind = KindHistogram, im_Labels = [LabelOutcome]\<rparr>,
      \<lparr>im_Name = OutboxRelayCycleFailure, im_Description = ''Relay cycles that failed, by stage.'',
       im_Unit = ''{cycle}'', im_Kind = KindCounter, im_Labels = [LabelStage]\<rparr>,
      \<lparr>im_Name = OutboxRelayStuck, im_Description = ''Outbox messages reported as stuck after the configured attempt threshold.'',
       im_Unit = ''{message}'', im_Kind = KindCounter, im_Labels = []\<rparr>,
      \<lparr>im_Name = OutboxRelayAbandoned, im_Description = ''Outbox messages abandoned after a permanent failure.'',
       im_Unit = ''{message}'', im_Kind = KindCounter, im_Labels = []\<rparr>,
      \<lparr>im_Name = OutboxRelayLeaseLost, im_Description = ''Outbox outcomes that could not be recorded because the lease had expired.'',
       im_Unit = ''{message}'', im_Kind = KindCounter, im_Labels = []\<rparr>,
      \<lparr>im_Name = ConsumerHandleDuration, im_Description = ''Time to apply one delivered event, including recording a failure.'',
       im_Unit = ''s'', im_Kind = KindHistogram, im_Labels = [LabelDisposition]\<rparr>,
      \<lparr>im_Name = ConsumerNoOps, im_Description = ''Delivered events that changed nothing, by reason.'',
       im_Unit = ''{event}'', im_Kind = KindCounter, im_Labels = [LabelReason]\<rparr>,
      \<lparr>im_Name = ConsumerFailures, im_Description = ''Delivered events whose handling failed, by normalized reason.'',
       im_Unit = ''{event}'', im_Kind = KindCounter, im_Labels = [LabelReason]\<rparr>,
      \<lparr>im_Name = ConsumerRetries, im_Description = ''Delivered events scheduled for another attempt.'',
       im_Unit = ''{event}'', im_Kind = KindCounter, im_Labels = []\<rparr>,
      \<lparr>im_Name = ConsumerDeadLetters, im_Description = ''Delivered events sent to the dead-letter queue, by normalized reason.'',
       im_Unit = ''{event}'', im_Kind = KindCounter, im_Labels = [LabelReason]\<rparr>,
      \<lparr>im_Name = BrokerRedeliveries, im_Description = ''Deliveries the broker flagged as redelivered.'',
       im_Unit = ''{message}'', im_Kind = KindCounter, im_Labels = []\<rparr>,
      \<lparr>im_Name = BrokerRepublished, im_Description = ''Messages republished to a retry tier or the dead letter, with the copy confirmed.'',
       im_Unit = ''{message}'', im_Kind = KindCounter, im_Labels = [LabelDestination, LabelQueue]\<rparr>,
      \<lparr>im_Name = BrokerRejected, im_Description = ''Messages whose body could not be read and were dead-lettered directly.'',
       im_Unit = ''{message}'', im_Kind = KindCounter, im_Labels = []\<rparr>,
      \<lparr>im_Name = BrokerUnacknowledged, im_Description = ''Messages left unacknowledged for the broker to redeliver.'',
       im_Unit = ''{message}'', im_Kind = KindCounter, im_Labels = []\<rparr>,
      \<lparr>im_Name = OutboxPending, im_Description = ''Outbox messages not yet published: pending, plus leased ones whose outcome is not recorded.'',
       im_Unit = ''{message}'', im_Kind = KindGauge, im_Labels = []\<rparr>,
      \<lparr>im_Name = OutboxOldestAge, im_Description = ''Age of the oldest unpublished outbox message.'',
       im_Unit = ''s'', im_Kind = KindGauge, im_Labels = []\<rparr>,
      \<lparr>im_Name = InboxPendingGauge, im_Description = ''Inbox events not yet applied: pending, plus ones being processed.'',
       im_Unit = ''{event}'', im_Kind = KindGauge, im_Labels = []\<rparr>,
      \<lparr>im_Name = InboxFailedGauge, im_Description = ''Inbox events marked failed and waiting for an operator.'',
       im_Unit = ''{event}'', im_Kind = KindGauge, im_Labels = []\<rparr>,
      \<lparr>im_Name = InboxOldestAge, im_Description = ''Age of the oldest inbox event not yet applied.'',
       im_Unit = ''s'', im_Kind = KindGauge, im_Labels = []\<rparr>,
      \<lparr>im_Name = QueueDepth, im_Description = ''Messages ready in each known queue, as last sampled from the broker.'',
       im_Unit = ''{message}'', im_Kind = KindGauge, im_Labels = [LabelQueue]\<rparr>,
      \<lparr>im_Name = PoolConnections, im_Description = ''PostgreSQL pool connections, by state.'',
       im_Unit = ''{connection}'', im_Kind = KindGauge, im_Labels = [LabelState]\<rparr>,
      \<lparr>im_Name = PoolMaxOpen, im_Description = ''Configured ceiling of open PostgreSQL connections.'',
       im_Unit = ''{connection}'', im_Kind = KindGauge, im_Labels = []\<rparr>,
      \<lparr>im_Name = PoolWaits, im_Description = ''Times a caller waited for a PostgreSQL connection.'',
       im_Unit = ''{wait}'', im_Kind = KindObservableCounter, im_Labels = []\<rparr>,
      \<lparr>im_Name = SamplerAge, im_Description = ''Seconds since a background sampler last collected successfully.'',
       im_Unit = ''s'', im_Kind = KindGauge, im_Labels = [LabelSampler]\<rparr>,
      \<lparr>im_Name = SamplerFailures, im_Description = ''Background sample attempts that failed or timed out.'',
       im_Unit = ''{sample}'', im_Kind = KindObservableCounter, im_Labels = [LabelSampler]\<rparr>,
      \<lparr>im_Name = HTTPRateLimited, im_Description = ''Requests refused with 429 by a rate limiter, by limiter and route class.'',
       im_Unit = ''{request}'', im_Kind = KindCounter, im_Labels = [LabelLimiter, LabelRouteClass]\<rparr>]"

text \<open>\<^verbatim>\<open>Catalogue\<close> returns a copy, which as a value is the catalogue itself.\<close>

definition Catalogue :: "instrument list" where
  "Catalogue = catalogue"

definition catalogue_lookup :: "string \<Rightarrow> instrument option" where
  "catalogue_lookup name = List.find (\<lambda>i. im_Name i = name) catalogue"

section \<open>The instruments (metrics.go)\<close>

text \<open>The meter's answers, by name, description and unit.\<close>

record 'h meter =
  mt_Int64Counter :: "string \<Rightarrow> string \<Rightarrow> string \<Rightarrow> 'h result"
  mt_Float64Histogram :: "string \<Rightarrow> string \<Rightarrow> string \<Rightarrow> 'h result"
  mt_Float64Gauge :: "string \<Rightarrow> string \<Rightarrow> string \<Rightarrow> 'h result"

record 'h metrics =
  mm_counters :: "string \<rightharpoonup> 'h"
  mm_histograms :: "string \<rightharpoonup> 'h"
  mm_gauges :: "string \<rightharpoonup> 'h"

definition create_error :: "string \<Rightarrow> string \<Rightarrow> goerr \<Rightarrow> goerr" where
  "create_error what name e = Errorf [T (''create '' @ what @ '' ''), T name, T '': '', W e]"

definition create_instrument :: "'h meter \<Rightarrow> instrument \<Rightarrow> 'h metrics \<Rightarrow> 'h metrics result" where
  "create_instrument mt i m =
     (case im_Kind i of
        KindCounter \<Rightarrow>
          (case mt_Int64Counter mt (im_Name i) (im_Description i) (im_Unit i) of
             Inl e \<Rightarrow> Inl (create_error ''counter'' (im_Name i) e)
           | Inr h \<Rightarrow> Inr (m\<lparr>mm_counters := (mm_counters m)(im_Name i \<mapsto> h)\<rparr>))
      | KindHistogram \<Rightarrow>
          (case mt_Float64Histogram mt (im_Name i) (im_Description i) (im_Unit i) of
             Inl e \<Rightarrow> Inl (create_error ''histogram'' (im_Name i) e)
           | Inr h \<Rightarrow> Inr (m\<lparr>mm_histograms := (mm_histograms m)(im_Name i \<mapsto> h)\<rparr>))
      | KindGauge \<Rightarrow>
          (case mt_Float64Gauge mt (im_Name i) (im_Description i) (im_Unit i) of
             Inl e \<Rightarrow> Inl (create_error ''gauge'' (im_Name i) e)
           | Inr h \<Rightarrow> Inr (m\<lparr>mm_gauges := (mm_gauges m)(im_Name i \<mapsto> h)\<rparr>))
      | KindObservableCounter \<Rightarrow> Inr m)"

fun create_all :: "'h meter \<Rightarrow> instrument list \<Rightarrow> 'h metrics \<Rightarrow> 'h metrics result" where
  "create_all mt [] m = Inr m"
| "create_all mt (i # is) m =
     (case create_instrument mt i m of Inl e \<Rightarrow> Inl e | Inr m' \<Rightarrow> create_all mt is m')"

definition NewWithProvider :: "'h meter \<Rightarrow> 'h metrics result" where
  "NewWithProvider mt =
     create_all mt catalogue \<lparr>mm_counters = Map.empty, mm_histograms = Map.empty, mm_gauges = Map.empty\<rparr>"

text \<open>The no-op provider is an argument too; that it refuses nothing is what the panic relies on.\<close>

definition NewNoop :: "'h meter \<Rightarrow> 'h metrics result" where
  "NewNoop noop =
     (case NewWithProvider noop of
        Inl e \<Rightarrow> Inl (Panic (''metrics: no-op provider failed: '' @ Error_text e))
      | Inr m \<Rightarrow> Inr m)"

datatype 'h measurement =
    CounterAdd 'h int "attribute list"
  | HistogramRecord 'h rat "attribute list"
  | GaugeRecord 'h rat "attribute list"

definition metrics_add :: "'h metrics \<Rightarrow> string \<Rightarrow> int \<Rightarrow> attribute list \<Rightarrow> 'h measurement list" where
  "metrics_add m name delta attrs =
     (case mm_counters m name of None \<Rightarrow> [] | Some h \<Rightarrow> [CounterAdd h delta attrs])"

definition metrics_record :: "'h metrics \<Rightarrow> string \<Rightarrow> rat \<Rightarrow> attribute list \<Rightarrow> 'h measurement list" where
  "metrics_record m name value attrs =
     (case mm_histograms m name of None \<Rightarrow> [] | Some h \<Rightarrow> [HistogramRecord h value attrs])"

definition metrics_set :: "'h metrics \<Rightarrow> string \<Rightarrow> rat \<Rightarrow> attribute list \<Rightarrow> 'h measurement list" where
  "metrics_set m name value attrs =
     (case mm_gauges m name of None \<Rightarrow> [] | Some h \<Rightarrow> [GaugeRecord h value attrs])"

section \<open>The series that can exist\<close>

text \<open>Every value a key can show, and for an instrument every list of attributes it can be recorded with.
  Queue names are the topology's.\<close>

definition vocabulary :: "string list \<Rightarrow> string \<Rightarrow> string list" where
  "vocabulary queues key =
     Other # (if key = LabelQueue then queues else case allowed_values key of None \<Rightarrow> [] | Some values \<Rightarrow> values)"

definition series_of :: "string list \<Rightarrow> instrument \<Rightarrow> attribute list list" where
  "series_of queues i = product_lists (map (\<lambda>k. map (Pair k) (vocabulary queues k)) (im_Labels i))"

text \<open>A measurement of an instrument of the catalogue, on the handle created for it, in one of its series.\<close>

definition measures :: "'h meter \<Rightarrow> string list \<Rightarrow> instrument \<Rightarrow> 'h measurement \<Rightarrow> bool" where
  "measures mt queues i x =
     (case x of
        CounterAdd h n attrs \<Rightarrow> im_Kind i = KindCounter \<and> 0 \<le> n \<and>
          mt_Int64Counter mt (im_Name i) (im_Description i) (im_Unit i) = Inr h \<and> attrs \<in> set (series_of queues i)
      | HistogramRecord h v attrs \<Rightarrow> im_Kind i = KindHistogram \<and>
          mt_Float64Histogram mt (im_Name i) (im_Description i) (im_Unit i) = Inr h \<and> attrs \<in> set (series_of queues i)
      | GaugeRecord h v attrs \<Rightarrow> im_Kind i = KindGauge \<and>
          mt_Float64Gauge mt (im_Name i) (im_Description i) (im_Unit i) = Inr h \<and> attrs \<in> set (series_of queues i))"

definition catalogued :: "'h meter \<Rightarrow> string list \<Rightarrow> 'h measurement \<Rightarrow> bool" where
  "catalogued mt queues x \<longleftrightarrow> (\<exists>i \<in> set catalogue. measures mt queues i x)"

lemma catalogue_distinct: "distinct (map im_Name catalogue)"
  by code_simp

text \<open>The kind and the labels under a name.\<close>

definition label_entry :: "string \<Rightarrow> (instrument_kind \<times> string list) option" where
  "label_entry name = map_option (\<lambda>i. (im_Kind i, im_Labels i)) (catalogue_lookup name)"

lemma entry_Some: "label_entry name = Some (k, ls) \<Longrightarrow> \<exists>i \<in> set catalogue. im_Name i = name \<and> im_Kind i = k \<and> im_Labels i = ls"
  by (auto simp: label_entry_def catalogue_lookup_def find_Some_iff)

lemma entries:
  "label_entry WebhookReceived = Some (KindCounter, [LabelProvider, LabelEventKind, LabelOutcome])"
  "label_entry WebhookInvalidSignature = Some (KindCounter, [LabelProvider])"
  "label_entry WebhookDuplicate = Some (KindCounter, [LabelProvider, LabelEventKind])"
  "label_entry WebhookReceiveDuration = Some (KindHistogram, [LabelProvider, LabelOutcome])"
  "label_entry WebhookReceiveFailures = Some (KindCounter, [LabelProvider, LabelReason])"
  "label_entry ProviderRequestDuration = Some (KindHistogram, [LabelProvider, LabelOperation, LabelOutcome])"
  "label_entry ProviderRequestFailures = Some (KindCounter, [LabelProvider, LabelOperation, LabelOutcome])"
  "label_entry IdempotencyReplays = Some (KindCounter, [LabelOperation])"
  "label_entry IdempotencyConflicts = Some (KindCounter, [LabelOperation])"
  "label_entry StateTransitions = Some (KindCounter, [LabelEntity, LabelFrom, LabelTo])"
  "label_entry OutboxPublishDuration = Some (KindHistogram, [LabelOutcome])"
  "label_entry OutboxPublishFailures = Some (KindCounter, [LabelReason])"
  "label_entry OutboxRelayCycleTime = Some (KindHistogram, [LabelOutcome])"
  "label_entry OutboxRelayCycleFailure = Some (KindCounter, [LabelStage])"
  "label_entry OutboxRelayStuck = Some (KindCounter, [])"
  "label_entry OutboxRelayAbandoned = Some (KindCounter, [])"
  "label_entry OutboxRelayLeaseLost = Some (KindCounter, [])"
  "label_entry ConsumerHandleDuration = Some (KindHistogram, [LabelDisposition])"
  "label_entry ConsumerNoOps = Some (KindCounter, [LabelReason])"
  "label_entry ConsumerFailures = Some (KindCounter, [LabelReason])"
  "label_entry ConsumerRetries = Some (KindCounter, [])"
  "label_entry ConsumerDeadLetters = Some (KindCounter, [LabelReason])"
  "label_entry BrokerRedeliveries = Some (KindCounter, [])"
  "label_entry BrokerRepublished = Some (KindCounter, [LabelDestination, LabelQueue])"
  "label_entry BrokerRejected = Some (KindCounter, [])"
  "label_entry BrokerUnacknowledged = Some (KindCounter, [])"
  "label_entry OutboxPending = Some (KindGauge, [])"
  "label_entry OutboxOldestAge = Some (KindGauge, [])"
  "label_entry InboxPendingGauge = Some (KindGauge, [])"
  "label_entry InboxFailedGauge = Some (KindGauge, [])"
  "label_entry InboxOldestAge = Some (KindGauge, [])"
  "label_entry QueueDepth = Some (KindGauge, [LabelQueue])"
  "label_entry PoolConnections = Some (KindGauge, [LabelState])"
  "label_entry PoolMaxOpen = Some (KindGauge, [])"
  "label_entry PoolWaits = Some (KindObservableCounter, [])"
  "label_entry SamplerAge = Some (KindGauge, [LabelSampler])"
  "label_entry SamplerFailures = Some (KindObservableCounter, [LabelSampler])"
  "label_entry HTTPRateLimited = Some (KindCounter, [LabelLimiter, LabelRouteClass])"
  by code_simp+

section \<open>What construction guarantees\<close>

text \<open>Every instrument of the list has the handle the meter gave it: later ones have other names.\<close>

definition created :: "'h meter \<Rightarrow> 'h metrics \<Rightarrow> instrument \<Rightarrow> bool" where
  "created mt m i =
     (case im_Kind i of
        KindCounter \<Rightarrow> (\<exists>h. mt_Int64Counter mt (im_Name i) (im_Description i) (im_Unit i) = Inr h \<and> mm_counters m (im_Name i) = Some h)
      | KindHistogram \<Rightarrow> (\<exists>h. mt_Float64Histogram mt (im_Name i) (im_Description i) (im_Unit i) = Inr h \<and> mm_histograms m (im_Name i) = Some h)
      | KindGauge \<Rightarrow> (\<exists>h. mt_Float64Gauge mt (im_Name i) (im_Description i) (im_Unit i) = Inr h \<and> mm_gauges m (im_Name i) = Some h)
      | KindObservableCounter \<Rightarrow> True)"

lemma create_instrument_Inr:
  assumes "create_instrument mt i m = Inr m'"
  shows "created mt m' i" and "im_Name j \<noteq> im_Name i \<Longrightarrow> created mt m' j = created mt m j"
  using assms by (auto simp: create_instrument_def created_def split: instrument_kind.splits sum.splits)

lemma create_all_Inr:
  assumes "create_all mt is m = Inr m'" and "distinct (map im_Name is)"
  shows "(\<forall>i \<in> set is. created mt m' i) \<and> (\<forall>j. im_Name j \<notin> im_Name ` set is \<longrightarrow> created mt m' j = created mt m j)"
  using assms
proof (induction "is" arbitrary: m)
  case (Cons i "is")
  then obtain m1 where m1: "create_instrument mt i m = Inr m1" "create_all mt is m1 = Inr m'"
    by (auto split: sum.splits)
  from Cons.IH [OF m1(2)] Cons.prems(2) have ih: "\<forall>i \<in> set is. created mt m' i"
      "\<And>j. im_Name j \<notin> im_Name ` set is \<Longrightarrow> created mt m' j = created mt m1 j"
    by auto
  from ih(2) [of i] create_instrument_Inr(1) [OF m1(1)] Cons.prems(2) have "created mt m' i" by simp
  with ih create_instrument_Inr(2) [OF m1(1)] show ?case by auto
qed simp

lemma NewWithProvider_creates:
  assumes "NewWithProvider mt = Inr m" and "i \<in> set catalogue"
  shows "created mt m i"
  using create_all_Inr [OF assms(1) [unfolded NewWithProvider_def] catalogue_distinct] assms(2) by blast

text \<open>A meter that refuses nothing, and one that answers every name with itself.\<close>

lemma create_all_total:
  assumes "\<And>n d u. \<exists>h. mt_Int64Counter mt n d u = Inr h" "\<And>n d u. \<exists>h. mt_Float64Histogram mt n d u = Inr h"
    "\<And>n d u. \<exists>h. mt_Float64Gauge mt n d u = Inr h"
  shows "\<exists>m'. create_all mt is m = Inr m'"
proof (induction "is" arbitrary: m)
  case (Cons i "is")
  from assms(1-3) [of "im_Name i" "im_Description i" "im_Unit i"] obtain m1 where "create_instrument mt i m = Inr m1"
    by (cases "im_Kind i") (auto simp: create_instrument_def)
  with Cons.IH show ?case by simp
qed simp

definition name_meter :: "string meter" where
  "name_meter = \<lparr>mt_Int64Counter = \<lambda>n d u. Inr n, mt_Float64Histogram = \<lambda>n d u. Inr n, mt_Float64Gauge = \<lambda>n d u. Inr n\<rparr>"

lemma name_meter_builds: obtains m where "NewWithProvider name_meter = Inr m"
proof -
  have "\<exists>m. NewWithProvider name_meter = Inr m"
    unfolding NewWithProvider_def by (rule create_all_total) (simp_all add: name_meter_def)
  with that show thesis by blast
qed

section \<open>What a measurement can be\<close>

lemma product_lists_member:
  "xs \<in> set (product_lists xss) \<longleftrightarrow> list_all2 (\<lambda>x ys. x \<in> set ys) xs xss"
  by (induction xss arbitrary: xs) (auto simp: list_all2_Cons2)

text \<open>An attribute that one of the package's two constructors made.\<close>

definition normalized :: "string list \<Rightarrow> attribute \<Rightarrow> bool" where
  "normalized queues a \<longleftrightarrow> snd a \<in> set (vocabulary queues (fst a))"

lemma LabelQueue_free: "allowed_values LabelQueue = None"
  by code_simp

lemma Attr_normalized [simp, intro]: "normalized queues (Attr k v)"
  by (auto simp: normalized_def Attr_def Normalize_def vocabulary_def LabelQueue_free split: option.splits)

lemma queue_normalized: "q \<in> set queues \<or> q = Other \<Longrightarrow> normalized queues (LabelQueue, q)"
  by (auto simp: normalized_def vocabulary_def)

lemma Attr_key [simp]: "fst (Attr k v) = k"
  by (simp add: Attr_def)

lemma series_member:
  "attrs \<in> set (series_of queues i) \<longleftrightarrow> map fst attrs = im_Labels i \<and> list_all (normalized queues) attrs"
proof -
  have "list_all2 (\<lambda>a ys. a \<in> set ys) attrs (map (\<lambda>k. map (Pair k) (vocabulary queues k)) ls) \<longleftrightarrow>
      map fst attrs = ls \<and> list_all (normalized queues) attrs" for ls
  proof (induction ls arbitrary: attrs)
    case (Cons k ls)
    then show ?case by (cases attrs) (auto simp: normalized_def image_iff intro!: prod_eqI)
  qed auto
  then show ?thesis by (simp add: series_of_def product_lists_member)
qed

named_theorems measured \<open>every measurement of a list is catalogued\<close>

lemma add_catalogued [measured]:
  assumes "NewWithProvider mt = Inr m" and "0 \<le> n"
    and "label_entry name = Some (KindCounter, map fst attrs)" and "list_all (normalized queues) attrs"
  shows "list_all (catalogued mt queues) (metrics_add m name n attrs)"
proof -
  from entry_Some [OF assms(3)] obtain i where "i \<in> set catalogue" "im_Name i = name" "im_Kind i = KindCounter" "im_Labels i = map fst attrs"
    by blast
  with NewWithProvider_creates [OF assms(1), of i] assms(2,4) show ?thesis
    by (auto simp: created_def metrics_add_def catalogued_def measures_def series_member intro!: bexI [of _ i])
qed

lemma record_catalogued [measured]:
  assumes "NewWithProvider mt = Inr m"
    and "label_entry name = Some (KindHistogram, map fst attrs)" and "list_all (normalized queues) attrs"
  shows "list_all (catalogued mt queues) (metrics_record m name v attrs)"
proof -
  from entry_Some [OF assms(2)] obtain i where "i \<in> set catalogue" "im_Name i = name" "im_Kind i = KindHistogram" "im_Labels i = map fst attrs"
    by blast
  with NewWithProvider_creates [OF assms(1), of i] assms(3) show ?thesis
    by (auto simp: created_def metrics_record_def catalogued_def measures_def series_member intro!: bexI [of _ i])
qed

lemma set_catalogued [measured]:
  assumes "NewWithProvider mt = Inr m"
    and "label_entry name = Some (KindGauge, map fst attrs)" and "list_all (normalized queues) attrs"
  shows "list_all (catalogued mt queues) (metrics_set m name v attrs)"
proof -
  from entry_Some [OF assms(2)] obtain i where "i \<in> set catalogue" "im_Name i = name" "im_Kind i = KindGauge" "im_Labels i = map fst attrs"
    by blast
  with NewWithProvider_creates [OF assms(1), of i] assms(3) show ?thesis
    by (auto simp: created_def metrics_set_def catalogued_def measures_def series_member intro!: bexI [of _ i])
qed

declare entries [measured]

text \<open>A catalogued instrument is never missing: the call that records on it is made.\<close>

lemma add_recorded:
  assumes "NewWithProvider mt = Inr m" and "label_entry name = Some (KindCounter, ls)"
  obtains h where "mm_counters m name = Some h"
proof -
  from entry_Some [OF assms(2)] NewWithProvider_creates [OF assms(1)] that show ?thesis
    by (fastforce simp: created_def)
qed

text \<open>The handle and the attributes identify a series; a catalogued measurement belongs to one of these.\<close>

fun series :: "'h measurement \<Rightarrow> 'h \<times> attribute list" where
  "series (CounterAdd h n attrs) = (h, attrs)"
| "series (HistogramRecord h v attrs) = (h, attrs)"
| "series (GaugeRecord h v attrs) = (h, attrs)"

definition all_series :: "string list \<Rightarrow> (instrument \<times> attribute list) list" where
  "all_series queues = concat (map (\<lambda>i. map (Pair i) (series_of queues i)) catalogue)"

definition handle_of :: "'h meter \<Rightarrow> instrument \<Rightarrow> 'h result" where
  "handle_of mt i =
     (case im_Kind i of
        KindCounter \<Rightarrow> mt_Int64Counter mt (im_Name i) (im_Description i) (im_Unit i)
      | KindHistogram \<Rightarrow> mt_Float64Histogram mt (im_Name i) (im_Description i) (im_Unit i)
      | _ \<Rightarrow> mt_Float64Gauge mt (im_Name i) (im_Description i) (im_Unit i))"

lemma catalogued_series:
  assumes "catalogued mt queues x"
  shows "series x \<in> (\<lambda>(i, attrs). (projr (handle_of mt i), attrs)) ` set (all_series queues)"
proof -
  from assms obtain i where i: "i \<in> set catalogue" "measures mt queues i x" by (auto simp: catalogued_def)
  then have "projr (handle_of mt i) = fst (series x)" "snd (series x) \<in> set (series_of queues i)"
    by (cases x; simp add: measures_def handle_of_def)+
  with i(1) show ?thesis
    by (auto simp: all_series_def image_iff intro!: bexI [of _ i] prod_eqI)
qed

lemma length_product_lists: "length (product_lists xss) = prod_list (map length xss)"
  by (induction xss) (simp_all add: length_concat comp_def sum_list_triv)

lemma vocabulary_sizes:
  "length (vocabulary queues LabelProvider) = 2" "length (vocabulary queues LabelEventKind) = 5"
  "length (vocabulary queues LabelOutcome) = 11" "length (vocabulary queues LabelReason) = 20"
  "length (vocabulary queues LabelOperation) = 3" "length (vocabulary queues LabelEntity) = 4"
  "length (vocabulary queues LabelFrom) = 11" "length (vocabulary queues LabelTo) = 11"
  "length (vocabulary queues LabelStage) = 3" "length (vocabulary queues LabelDisposition) = 5"
  "length (vocabulary queues LabelDestination) = 3" "length (vocabulary queues LabelState) = 3"
  "length (vocabulary queues LabelSampler) = 3" "length (vocabulary queues LabelLimiter) = 5"
  "length (vocabulary queues LabelRouteClass) = 6" "length (vocabulary queues LabelQueue) = Suc (length queues)"
  by (code_simp, code_simp, code_simp, code_simp, code_simp, code_simp, code_simp, code_simp, code_simp, code_simp,
      code_simp, code_simp, code_simp, code_simp, code_simp, simp add: vocabulary_def)

lemma catalogue_labels:
  "map im_Labels catalogue =
     [[LabelProvider, LabelEventKind, LabelOutcome], [LabelProvider], [LabelProvider, LabelEventKind],
      [LabelProvider, LabelOutcome], [LabelProvider, LabelReason], [LabelProvider, LabelOperation, LabelOutcome],
      [LabelProvider, LabelOperation, LabelOutcome], [LabelOperation], [LabelOperation],
      [LabelEntity, LabelFrom, LabelTo], [LabelOutcome], [LabelReason], [LabelOutcome], [LabelStage], [], [], [],
      [LabelDisposition], [LabelReason], [LabelReason], [], [LabelReason], [], [LabelDestination, LabelQueue], [], [],
      [], [], [], [], [], [LabelQueue], [LabelState], [], [], [LabelSampler], [LabelSampler], [LabelLimiter, LabelRouteClass]]"
  by (simp add: catalogue_def)

text \<open>How many series there can ever be: a constant, and four for each queue of the topology.\<close>

lemma length_all_series: "length (all_series queues) = 973 + 4 * length queues"
proof -
  have "length (all_series queues) = sum_list (map (\<lambda>ls. prod_list (map (\<lambda>k. length (vocabulary queues k)) ls)) (map im_Labels catalogue))"
    by (simp add: all_series_def length_concat comp_def series_of_def length_product_lists)
  then show ?thesis by (simp only: catalogue_labels) (simp add: vocabulary_sizes)
qed

section \<open>The contract of an observer\<close>

text \<open>Whatever it hears, an observer only measures what is in the catalogue; then a whole history of
  notes stays within a fixed number of series.\<close>

locale observer =
  fixes hears :: "'h metrics \<Rightarrow> 'n \<Rightarrow> 'h measurement list"
    and queues :: "string list"
  assumes within: "NewWithProvider mt = Inr m \<Longrightarrow> list_all (catalogued mt queues) (hears m n)"
begin

lemma history_within:
  "NewWithProvider mt = Inr m \<Longrightarrow> list_all (catalogued mt queues) (concat (map (hears m) ns))"
  using within by (induction ns) auto

lemma history_series:
  assumes "NewWithProvider mt = Inr m"
  shows "card (series ` set (concat (map (hears m) ns))) \<le> 973 + 4 * length queues"
proof -
  let ?f = "\<lambda>(i, attrs). (projr (handle_of mt i), attrs)"
  have "series ` set (concat (map (hears m) ns)) \<subseteq> ?f ` set (all_series queues)"
    using catalogued_series history_within [OF assms] unfolding list_all_iff by blast
  then have "card (series ` set (concat (map (hears m) ns))) \<le> card (?f ` set (all_series queues))"
    by (intro card_mono) auto
  also have "\<dots> \<le> length (all_series queues)"
    using card_image_le [of "set (all_series queues)" ?f] card_length [of "all_series queues"] by simp
  finally show ?thesis by (simp add: length_all_series)
qed

end

end
