(* ===== verification/Metrics_Observers.thy ===== *)
theory Metrics_Observers
  imports Metrics Http_Limits Relay Consumer_Service Payment_Service Order_Service Webhook_Service Amqp_Consumer
begin

text \<open>
  The observers (\<^verbatim>\<open>internal/platform/metrics/observers.go\<close>, \<^verbatim>\<open>broker.go\<close>): each turns what a component tells
  its observer into measurements. The notes are the ones the components' models emit; the duration a note
  carries in the code, a difference of two clock readings, is an argument.
\<close>

section \<open>The API process\<close>

definition receiveFailureReason :: "goerr \<Rightarrow> string" where
  "receiveFailureReason e =
     (if errors_Is ErrInvalidSignature e then ''invalid_signature''
      else if errors_Is ErrPayloadTooLarge e then ''storage''
      else ''internal'')"

definition WebhookObserver_Received :: "'h metrics \<Rightarrow> duration \<Rightarrow> receipt \<Rightarrow> 'h measurement list" where
  "WebhookObserver_Received m d r =
     (let provider = Attr LabelProvider (receipt_Provider r); kind = Attr LabelEventKind (receipt_Kind r) in
      case receipt_Err r of
        Some e \<Rightarrow>
          (let reason = receiveFailureReason e in
           metrics_add m WebhookReceiveFailures 1 [provider, Attr LabelReason reason] @
           (if reason = ''invalid_signature'' then metrics_add m WebhookInvalidSignature 1 [provider] else []) @
           metrics_record m WebhookReceiveDuration (Seconds d) [provider, Attr LabelOutcome ''error''])
      | None \<Rightarrow>
          (let outcome = Attr LabelOutcome (receipt_Outcome r) in
           metrics_add m WebhookReceived 1 [provider, kind, outcome] @
           metrics_record m WebhookReceiveDuration (Seconds d) [provider, outcome] @
           (if receipt_Outcome r = OutcomeDuplicate then metrics_add m WebhookDuplicate 1 [provider, kind] else [])))"

definition CheckoutObserver_ProviderCalled ::
  "'h metrics \<Rightarrow> duration \<Rightarrow> string \<Rightarrow> string \<Rightarrow> goerr option \<Rightarrow> 'h measurement list" where
  "CheckoutObserver_ProviderCalled m d prov op err =
     (let provider = Attr LabelProvider prov; operation = Attr LabelOperation op;
          normalized = Attr LabelOutcome (if err = None then ''success'' else ''error'')
      in metrics_record m ProviderRequestDuration (Seconds d) [provider, operation, normalized] @
         (if err \<noteq> None then metrics_add m ProviderRequestFailures 1 [provider, operation, normalized] else []))"

definition CheckoutObserver_Replayed :: "'h metrics \<Rightarrow> 'h measurement list" where
  "CheckoutObserver_Replayed m = metrics_add m IdempotencyReplays 1 [Attr LabelOperation ProviderOperationCreateCheckout]"

definition CheckoutObserver_Conflicted :: "'h metrics \<Rightarrow> 'h measurement list" where
  "CheckoutObserver_Conflicted m = metrics_add m IdempotencyConflicts 1 [Attr LabelOperation ProviderOperationCreateCheckout]"

fun CheckoutObserver :: "'h metrics \<Rightarrow> duration \<Rightarrow> checkout_note \<Rightarrow> 'h measurement list" where
  "CheckoutObserver m d (ProviderCalled provider operation err) = CheckoutObserver_ProviderCalled m d provider operation err"
| "CheckoutObserver m d CheckoutReplayed = CheckoutObserver_Replayed m"
| "CheckoutObserver m d CheckoutConflicted = CheckoutObserver_Conflicted m"

fun OrderObserver :: "'h metrics \<Rightarrow> order_note \<Rightarrow> 'h measurement list" where
  "OrderObserver m OrderReplayed = metrics_add m IdempotencyReplays 1 [Attr LabelOperation ''create_order'']"
| "OrderObserver m OrderConflicted = metrics_add m IdempotencyConflicts 1 [Attr LabelOperation ''create_order'']"

text \<open>A nil \<^verbatim>\<open>*Metrics\<close> records nothing.\<close>

definition RateLimitObserver_Rejected :: "'h metrics option \<Rightarrow> string \<Rightarrow> string \<Rightarrow> 'h measurement list" where
  "RateLimitObserver_Rejected mo limiter routeClass =
     (case mo of
        None \<Rightarrow> []
      | Some m \<Rightarrow> metrics_add m HTTPRateLimited 1 [Attr LabelLimiter limiter, Attr LabelRouteClass routeClass])"

section \<open>The worker\<close>

definition publishFailureReason :: "relay_outcome \<Rightarrow> goerr option \<Rightarrow> string" where
  "publishFailureReason outcome cause =
     (if outcome = OutcomeLeaseLost then ''lease_lost''
      else case cause of
        None \<Rightarrow> ''transient''
      | Some e \<Rightarrow>
          if errors_Is ErrNotRouted e then ''not_routed''
          else if errors_Is ErrNotConfirmed e then ''not_confirmed''
          else if IsPermanent e then ''permanent''
          else ''transient'')"

definition cycleOutcome :: "relay_result \<Rightarrow> goerr option \<Rightarrow> string" where
  "cycleOutcome res err =
     (if err \<noteq> None then ''failed'' else if Result_Empty res then ''empty'' else ''published'')"

definition PublicationSettled_hears :: "'h metrics \<Rightarrow> duration \<Rightarrow> relay_outcome \<Rightarrow> goerr option \<Rightarrow> 'h measurement list" where
  "PublicationSettled_hears m d outcome cause =
     metrics_record m OutboxPublishDuration (Seconds d) [Attr LabelOutcome (Outcome_String outcome)] @
     (if outcome = OutcomePublished then []
      else metrics_add m OutboxPublishFailures 1 [Attr LabelReason (publishFailureReason outcome cause)])"

definition CycleCompleted_hears ::
  "'h metrics \<Rightarrow> duration \<Rightarrow> relay_result \<Rightarrow> goerr option \<Rightarrow> cycle_stage \<Rightarrow> 'h measurement list" where
  "CycleCompleted_hears m d res err stage =
     metrics_record m OutboxRelayCycleTime (Seconds d) [Attr LabelOutcome (cycleOutcome res err)] @
     (if err \<noteq> None then metrics_add m OutboxRelayCycleFailure 1 [Attr LabelStage (CycleStage_String stage)] else [])"

text \<open>The call of the publisher is no notification.\<close>

fun RelayObserver :: "'h metrics \<Rightarrow> duration \<Rightarrow> relay_note \<Rightarrow> 'h measurement list" where
  "RelayObserver m d (Stuck i n e) = metrics_add m OutboxRelayStuck 1 []"
| "RelayObserver m d (Abandoned i n e) = metrics_add m OutboxRelayAbandoned 1 []"
| "RelayObserver m d (LeaseLost i e) = metrics_add m OutboxRelayLeaseLost 1 []"
| "RelayObserver m d (PublicationSettled outcome n cause) = PublicationSettled_hears m d outcome cause"
| "RelayObserver m d (CycleCompleted res err stage) = CycleCompleted_hears m d res err stage"
| "RelayObserver m d (PublishCalled msg err) = []"

definition consumerFailureReason :: "goerr option \<Rightarrow> string" where
  "consumerFailureReason cause =
     (case cause of
        None \<Rightarrow> ''unclassified''
      | Some e \<Rightarrow>
          if errors_Is ErrIncompatibleAPIVersion e then ''incompatible_api_version''
          else if errors_Is ErrUnreadablePayload e then ''unreadable_payload''
          else if errors_Is ErrMissingReference e then ''missing_reference''
          else if errors_Is ErrAggregateNotFound e then ''aggregate_not_found''
          else if errors_Is ErrReferenceMismatch e then ''reference_mismatch''
          else if errors_Is ErrAmountMismatch e then ''amount_mismatch''
          else if errors_Is ErrStateConflict e then ''state_conflict''
          else if errors_Is ErrInvariantViolated e then ''invariant_violated''
          else ''unclassified'')"

definition transition_labels :: "state_change \<Rightarrow> attribute list" where
  "transition_labels t = [Attr LabelEntity (sc_Entity t), Attr LabelFrom (sc_From t), Attr LabelTo (sc_To t)]"

definition ConsumerObserver_Handled :: "'h metrics \<Rightarrow> duration \<Rightarrow> report \<Rightarrow> 'h measurement list" where
  "ConsumerObserver_Handled m d r =
     metrics_record m ConsumerHandleDuration (Seconds d)
       [Attr LabelDisposition (if rp_Err r = None then Disposition_String (rp_Disposition r) else ''unrecorded'')] @
     (if rp_Err r \<noteq> None then metrics_add m ConsumerFailures 1 [Attr LabelReason ''storage'']
      else if rp_Disposition r \<noteq> DispositionDone
      then metrics_add m ConsumerFailures 1 [Attr LabelReason (consumerFailureReason (rp_Cause r))]
      else if \<not> rp_Applied r
      then metrics_add m ConsumerNoOps 1
             [Attr LabelReason (if rp_AlreadyProcessed r then ''already_processed'' else ''stale_event'')]
      else concat (map (\<lambda>t. metrics_add m StateTransitions 1 (transition_labels t)) (rp_Transitions r)))"

fun ConsumerObserver :: "'h metrics \<Rightarrow> duration \<Rightarrow> consumer_note \<Rightarrow> 'h measurement list" where
  "ConsumerObserver m d (EventApplied i e) = []"
| "ConsumerObserver m d (EventNoOp i s) = []"
| "ConsumerObserver m d (EventRetrying i n e) = metrics_add m ConsumerRetries 1 []"
| "ConsumerObserver m d (EventDeadLettered i n e) = metrics_add m ConsumerDeadLetters 1 [Attr LabelReason (consumerFailureReason (Some e))]"
| "ConsumerObserver m d (EventHandled i r) = ConsumerObserver_Handled m d r"

definition destinationKind :: "string \<Rightarrow> string" where
  "destinationKind queue = (if queue = DeadLetterQueue then ''dead_letter'' else ''retry'')"

definition queueAttr :: "string list \<Rightarrow> string \<Rightarrow> attribute" where
  "queueAttr queues queue = (LabelQueue, if queue \<in> set queues then queue else Other)"

text \<open>Of what a delivery does, the consumer tells its observers these four.\<close>

definition BrokerObserver :: "string list \<Rightarrow> 'h metrics \<Rightarrow> amqp_event \<Rightarrow> 'h measurement list" where
  "BrokerObserver queues m e =
     (case e of
        Rejected i cause \<Rightarrow> metrics_add m BrokerRejected 1 []
      | Republished i destination n \<Rightarrow>
          metrics_add m BrokerRepublished 1 [Attr LabelDestination (destinationKind destination), queueAttr queues destination]
      | FailedDelivery i cause \<Rightarrow> metrics_add m BrokerUnacknowledged 1 []
      | Redelivered i \<Rightarrow> metrics_add m BrokerRedeliveries 1 []
      | _ \<Rightarrow> [])"

section \<open>The contract\<close>

lemma queueAttr_simps [simp]: "fst (queueAttr queues q) = LabelQueue" "normalized queues (queueAttr queues q)"
  by (auto simp: queueAttr_def intro!: queue_normalized)

lemma WebhookObserver_measured [measured]:
  "NewWithProvider mt = Inr m \<Longrightarrow> list_all (catalogued mt queues) (WebhookObserver_Received m d r)"
  by (auto simp: WebhookObserver_Received_def Let_def measured split: option.splits)

lemma CheckoutObserver_measured [measured]:
  "NewWithProvider mt = Inr m \<Longrightarrow> list_all (catalogued mt queues) (CheckoutObserver m d told)"
  by (cases told) (auto simp: CheckoutObserver_ProviderCalled_def CheckoutObserver_Replayed_def CheckoutObserver_Conflicted_def
      Let_def measured)

lemma OrderObserver_measured [measured]:
  "NewWithProvider mt = Inr m \<Longrightarrow> list_all (catalogued mt queues) (OrderObserver m told)"
  by (cases told) (auto simp: measured)

lemma RateLimitObserver_measured [measured]:
  "NewWithProvider mt = Inr m \<Longrightarrow> list_all (catalogued mt queues) (RateLimitObserver_Rejected (Some m) limiter routeClass)"
  by (auto simp: RateLimitObserver_Rejected_def measured)

lemma RelayObserver_measured [measured]:
  "NewWithProvider mt = Inr m \<Longrightarrow> list_all (catalogued mt queues) (RelayObserver m d told)"
  by (cases told) (auto simp: PublicationSettled_hears_def CycleCompleted_hears_def measured)

lemma transitions_measured:
  "NewWithProvider mt = Inr m \<Longrightarrow>
   list_all (catalogued mt queues) (concat (map (\<lambda>t. metrics_add m StateTransitions 1 (transition_labels t)) ts))"
  by (induction ts) (auto simp: transition_labels_def measured)

lemma ConsumerObserver_measured [measured]:
  "NewWithProvider mt = Inr m \<Longrightarrow> list_all (catalogued mt queues) (ConsumerObserver m d told)"
  by (cases told) (auto simp: ConsumerObserver_Handled_def measured transitions_measured)

lemma BrokerObserver_measured [measured]:
  "NewWithProvider mt = Inr m \<Longrightarrow> list_all (catalogued mt queues) (BrokerObserver queues m e)"
  by (cases e) (auto simp: BrokerObserver_def measured)

interpretation webhook: observer "\<lambda>m (d, r). WebhookObserver_Received m d r" queues for queues
  by unfold_locales (auto simp: measured)

interpretation checkout: observer "\<lambda>m (d, told). CheckoutObserver m d told" queues for queues
  by unfold_locales (auto simp: measured)

interpretation orders: observer OrderObserver queues for queues
  by unfold_locales (rule OrderObserver_measured)

interpretation rate_limit: observer "\<lambda>m (limiter, routeClass). RateLimitObserver_Rejected (Some m) limiter routeClass" queues for queues
  by unfold_locales (auto simp: measured)

interpretation relay: observer "\<lambda>m (d, told). RelayObserver m d told" queues for queues
  by unfold_locales (auto simp: measured)

interpretation consumer: observer "\<lambda>m (d, told). ConsumerObserver m d told" queues for queues
  by unfold_locales (auto simp: measured)

interpretation broker: observer "BrokerObserver queues" queues for queues
  by unfold_locales (rule BrokerObserver_measured)

end
