(* ===== verification/Samplers.thy ===== *)
theory Samplers
  imports Metrics_Observers
begin

text \<open>
  The background samplers (\<^verbatim>\<open>internal/platform/metrics/samplers.go\<close>, \<^verbatim>\<open>collectors.go\<close>): a sampler runs a
  collector on an interval and publishes what it managed to collect; a round that fails changes no gauge.
  A round is given by what the collector answered, whether the process was being shut down by then, and
  the instant the clock shows after it. The readers of the backlog, of the queue depths and of the pool are
  arguments.
\<close>

section \<open>Samples\<close>

record sampled =
  sd_Instrument :: string
  sd_Value :: rat
  sd_Queue :: string

definition DefaultSampleInterval :: duration where "DefaultSampleInterval = 15 * Second"
definition DefaultSampleTimeout :: duration where "DefaultSampleTimeout = 5 * Second"

record sampler_config =
  sx_Interval :: duration
  sx_Timeout :: duration

definition SamplerConfig_withDefaults :: "sampler_config \<Rightarrow> sampler_config" where
  "SamplerConfig_withDefaults c =
     (let c1 = (if sx_Interval c \<le> 0 then c\<lparr>sx_Interval := DefaultSampleInterval\<rparr> else c)
      in if sx_Timeout c1 \<le> 0 \<or> sx_Interval c1 < sx_Timeout c1 then c1\<lparr>sx_Timeout := DefaultSampleTimeout\<rparr> else c1)"

section \<open>Collectors (collectors.go)\<close>

definition plain_sample :: "string \<Rightarrow> rat \<Rightarrow> sampled" where
  "plain_sample name v = \<lparr>sd_Instrument = name, sd_Value = v, sd_Queue = []\<rparr>"

definition float_of_int :: "int \<Rightarrow> rat" where
  "float_of_int n = fl (of_int n)"

text \<open>Pending messages and the age of the oldest; pending and failed entries and the age of the oldest. The
  inbox is read only after the outbox has answered.\<close>

definition BacklogCollector :: "(int \<times> duration) result \<Rightarrow> (int \<times> int \<times> duration) result \<Rightarrow> sampled list result" where
  "BacklogCollector outbox inbox =
     (case outbox of
        Inl e \<Rightarrow> Inl (wrap ''sample outbox backlog'' e)
      | Inr (pending, oldest) \<Rightarrow>
     (case inbox of
        Inl e \<Rightarrow> Inl (wrap ''sample inbox backlog'' e)
      | Inr (inboxPending, inboxFailed, inboxOldest) \<Rightarrow>
          Inr [plain_sample OutboxPending (float_of_int pending),
               plain_sample OutboxOldestAge (Seconds oldest),
               plain_sample InboxPendingGauge (float_of_int inboxPending),
               plain_sample InboxFailedGauge (float_of_int inboxFailed),
               plain_sample InboxOldestAge (Seconds inboxOldest)]))"

definition QueueDepthCollector :: "(string list \<Rightarrow> (string \<rightharpoonup> int) result) \<Rightarrow> string list \<Rightarrow> sampled list result" where
  "QueueDepthCollector read known =
     (case read known of
        Inl e \<Rightarrow> Inl (wrap ''sample queue depths'' e)
      | Inr depths \<Rightarrow>
          Inr (concat (map (\<lambda>queue. case depths queue of
                 None \<Rightarrow> []
               | Some depth \<Rightarrow> [\<lparr>sd_Instrument = QueueDepth, sd_Value = float_of_int depth, sd_Queue = queue\<rparr>]) known)))"

section \<open>A sampler (samplers.go)\<close>

record sampler =
  sp_name :: string
  sp_interval :: duration
  sp_timeout :: duration
  sp_failures :: int
  sp_lastOK :: instant
  sp_started :: instant

definition NewSampler :: "string \<Rightarrow> sampler_config \<Rightarrow> instant \<Rightarrow> sampler" where
  "NewSampler name config now =
     (let c = SamplerConfig_withDefaults config in
      \<lparr>sp_name = name, sp_interval = sx_Interval c, sp_timeout = sx_Timeout c, sp_failures = 0, sp_lastOK = 0, sp_started = now\<rparr>)"

definition publish_sampled :: "'h metrics \<Rightarrow> sampled \<Rightarrow> 'h measurement list" where
  "publish_sampled m v =
     (if sd_Queue v = [] then metrics_set m (sd_Instrument v) (sd_Value v) []
      else metrics_set m (sd_Instrument v) (sd_Value v) [(LabelQueue, sd_Queue v)])"

record sampling_round =
  rd_collected :: "sampled list result"
  rd_shutdown :: bool
  rd_clock :: instant

definition sample_round :: "'h metrics \<Rightarrow> sampling_round \<Rightarrow> sampler \<Rightarrow> sampler \<times> 'h measurement list" where
  "sample_round m r s =
     (case rd_collected r of
        Inl e \<Rightarrow> if rd_shutdown r then (s, []) else (s\<lparr>sp_failures := int64 (sp_failures s + 1)\<rparr>, [])
      | Inr values \<Rightarrow> (s\<lparr>sp_lastOK := rd_clock r\<rparr>, concat (map (publish_sampled m) values)))"

text \<open>\<^verbatim>\<open>Run\<close>: one round at once, then one for every tick until the context is done; it always returns nil.\<close>

fun sample_ticks :: "'h metrics \<Rightarrow> sampling_round list \<Rightarrow> sampler \<Rightarrow> sampler \<times> 'h measurement list" where
  "sample_ticks m [] s = (s, [])"
| "sample_ticks m (r # rs) s =
     (case sample_round m r s of (s1, ms) \<Rightarrow> case sample_ticks m rs s1 of (s2, ms') \<Rightarrow> (s2, ms @ ms'))"

definition Sampler_Run :: "'h metrics \<Rightarrow> sampling_round \<Rightarrow> sampling_round list \<Rightarrow> sampler \<Rightarrow> sampler \<times> 'h measurement list \<times> goerr option" where
  "Sampler_Run m first ticks s =
     (case sample_round m first s of (s1, ms) \<Rightarrow> case sample_ticks m ticks s1 of (s2, ms') \<Rightarrow> (s2, ms @ ms', None))"

definition ageSeconds :: "instant \<Rightarrow> sampler \<Rightarrow> rat" where
  "ageSeconds now s = Seconds (time_Sub now (if IsZero (sp_lastOK s) then sp_started s else sp_lastOK s))"

section \<open>Observable instruments\<close>

text \<open>Creating an observable instrument and registering a callback are the meter's; a callback is what it
  observes when it is called.\<close>

record 'o observables =
  ob_Float64Gauge :: "string \<Rightarrow> string \<Rightarrow> string \<Rightarrow> 'o result"
  ob_Int64Gauge :: "string \<Rightarrow> string \<Rightarrow> string \<Rightarrow> 'o result"
  ob_Int64Counter :: "string \<Rightarrow> string \<Rightarrow> string \<Rightarrow> 'o result"
  ob_RegisterCallback :: "'o list \<Rightarrow> goerr option"

definition empty_instrument :: instrument where
  "empty_instrument = \<lparr>im_Name = [], im_Description = [], im_Unit = [], im_Kind = KindCounter, im_Labels = []\<rparr>"

definition described :: "(string \<Rightarrow> string \<Rightarrow> string \<Rightarrow> 'o result) \<Rightarrow> string \<Rightarrow> 'o result" where
  "described mk name =
     (let i = (case catalogue_lookup name of None \<Rightarrow> empty_instrument | Some i \<Rightarrow> i)
      in mk name (im_Description i) (im_Unit i))"

type_synonym 'o observation = "'o \<times> rat \<times> attribute list"

text \<open>\<^verbatim>\<open>registerObservers\<close>: the callback, or the error that is logged instead.\<close>

definition registerObservers :: "'o observables \<Rightarrow> (instant \<Rightarrow> sampler \<Rightarrow> 'o observation list) result" where
  "registerObservers ob =
     (case described (ob_Float64Gauge ob) SamplerAge of
        Inl e \<Rightarrow> Inl e
      | Inr age \<Rightarrow>
     (case described (ob_Int64Counter ob) SamplerFailures of
        Inl e \<Rightarrow> Inl e
      | Inr failures \<Rightarrow>
     (case ob_RegisterCallback ob [age, failures] of
        Some e \<Rightarrow> Inl e
      | None \<Rightarrow>
          Inr (\<lambda>now s. [(age, ageSeconds now s, [Attr LabelSampler (sp_name s)]),
                        (failures, of_int (sp_failures s), [Attr LabelSampler (sp_name s)])]))))"

record pool_stats =
  st_InUse :: int
  st_Idle :: int
  st_MaxOpenConnections :: int
  st_WaitCount :: int

definition RegisterPoolMetrics :: "'o observables \<Rightarrow> bool \<Rightarrow> (pool_stats \<Rightarrow> 'o observation list) option result" where
  "RegisterPoolMetrics ob hasDB =
     (if \<not> hasDB then Inr None
      else case described (ob_Int64Gauge ob) PoolConnections of
        Inl e \<Rightarrow> Inl (wrap ''register pool gauge'' e)
      | Inr connections \<Rightarrow>
     (case described (ob_Int64Gauge ob) PoolMaxOpen of
        Inl e \<Rightarrow> Inl (wrap ''register pool ceiling gauge'' e)
      | Inr maxOpen \<Rightarrow>
     (case described (ob_Int64Counter ob) PoolWaits of
        Inl e \<Rightarrow> Inl (wrap ''register pool wait counter'' e)
      | Inr waits \<Rightarrow>
     (case ob_RegisterCallback ob [connections, maxOpen, waits] of
        Some e \<Rightarrow> Inl (wrap ''register pool callback'' e)
      | None \<Rightarrow>
          Inr (Some (\<lambda>stats. [(connections, of_int (st_InUse stats), [(LabelState, ''in_use'')]),
                              (connections, of_int (st_Idle stats), [(LabelState, ''idle'')]),
                              (maxOpen, of_int (st_MaxOpenConnections stats), []),
                              (waits, of_int (st_WaitCount stats), [])]))))))"

section \<open>What a sampler tells\<close>

text \<open>The rounds that collected something, and the ones that count as failures: a collector that fails
  because the process stops is not one.\<close>

definition collected_values :: "sampling_round \<Rightarrow> sampled list" where
  "collected_values r = (case rd_collected r of Inl e \<Rightarrow> [] | Inr values \<Rightarrow> values)"

definition succeeded :: "sampling_round \<Rightarrow> bool" where
  "succeeded r \<longleftrightarrow> \<not> isl (rd_collected r)"

definition counts_as_failure :: "sampling_round \<Rightarrow> bool" where
  "counts_as_failure r \<longleftrightarrow> \<not> succeeded r \<and> \<not> rd_shutdown r"

definition last_success :: "instant \<Rightarrow> sampling_round list \<Rightarrow> instant" where
  "last_success t rs = foldl (\<lambda>t r. if succeeded r then rd_clock r else t) t rs"

lemma sample_ticks_spec:
  assumes "0 \<le> sp_failures s" and "sp_failures s + int (length rs) < 2 ^ 63"
  shows "sample_ticks m rs s =
    (s\<lparr>sp_failures := sp_failures s + int (length (filter counts_as_failure rs)), sp_lastOK := last_success (sp_lastOK s) rs\<rparr>,
     concat (map (publish_sampled m) (concat (map collected_values rs))))"
  using assms
proof (induction rs arbitrary: s)
  case (Cons r rs)
  show ?case
  proof (cases "rd_collected r")
    case (Inr vs)
    then show ?thesis using Cons.IH [of "s\<lparr>sp_lastOK := rd_clock r\<rparr>"] Cons.prems
      by (simp add: sample_round_def succeeded_def counts_as_failure_def collected_values_def last_success_def)
  next
    case (Inl e)
    have "int64 (sp_failures s + 1) = sp_failures s + 1"
      using Cons.prems by (intro int64_id) auto
    then show ?thesis using Inl Cons.IH [of s] Cons.IH [of "s\<lparr>sp_failures := sp_failures s + 1\<rparr>"] Cons.prems
      by (auto simp: sample_round_def succeeded_def counts_as_failure_def collected_values_def last_success_def)
  qed
qed (simp add: last_success_def)

lemma Sampler_Run_ticks: "Sampler_Run m first ticks s = (case sample_ticks m (first # ticks) s of (s', ms) \<Rightarrow> (s', ms, None))"
  by (simp add: Sampler_Run_def split: prod.splits)

text \<open>The last instant at which a round succeeded, or the start.\<close>

definition last_contact :: "instant \<Rightarrow> sampling_round list \<Rightarrow> instant" where
  "last_contact t0 rs = (let t = last_success 0 rs in if IsZero t then t0 else t)"

text \<open>
  A sampler outlives what it samples. \<^verbatim>\<open>Run\<close> returns no error whatever the collector answered; the
  gauges it set are exactly those of the rounds that collected something, in their order, so a failed round
  leaves every published value as it was; the failure counter is the number of failed rounds, those cut
  short by a shutdown apart; and the age it shows is counted from the last successful round, or from its
  construction when there was none.
\<close>

theorem sampler_outlives_outage:
  assumes "int (length ticks) + 1 < 2 ^ 63"
    and "Sampler_Run m first ticks (NewSampler name config t0) = (s, told, err)"
  shows "err = None \<and>
    told = concat (map (publish_sampled m) (concat (map collected_values (filter succeeded (first # ticks))))) \<and>
    sp_failures s = int (length (filter counts_as_failure (first # ticks))) \<and>
    (\<forall>now. ageSeconds now s = Seconds (time_Sub now (last_contact t0 (first # ticks))))"
proof -
  let ?s = "NewSampler name config t0"
  have vals: "concat (map collected_values rs) = concat (map collected_values (filter succeeded rs))" for rs
    by (induction rs) (auto simp: succeeded_def collected_values_def split: sum.splits)
  have "sample_ticks m (first # ticks) ?s = (?s\<lparr>sp_failures := int (length (filter counts_as_failure (first # ticks))),
      sp_lastOK := last_success 0 (first # ticks)\<rparr>, concat (map (publish_sampled m) (concat (map collected_values (first # ticks)))))"
    using sample_ticks_spec [of ?s "first # ticks" m] assms(1) by (simp add: NewSampler_def Let_def)
  with assms(2) vals [of "first # ticks"] show ?thesis
    by (auto simp: Sampler_Run_ticks ageSeconds_def last_contact_def NewSampler_def Let_def simp del: sample_ticks.simps)
qed

theorem sampler_outlives_outage_witness:
  "sp_failures (fst (Sampler_Run \<lparr>mm_counters = Map.empty, mm_histograms = Map.empty, mm_gauges = [OutboxPending \<mapsto> ''g'']\<rparr>
      \<lparr>rd_collected = Inr [plain_sample OutboxPending 3], rd_shutdown = False, rd_clock = 7\<rparr>
      [\<lparr>rd_collected = Inl (External ''down''), rd_shutdown = False, rd_clock = 8\<rparr>]
      (NewSampler SamplerBacklog \<lparr>sx_Interval = 0, sx_Timeout = 0\<rparr> 1))) = 1"
proof -
  let ?m = "\<lparr>mm_counters = Map.empty, mm_histograms = Map.empty, mm_gauges = [OutboxPending \<mapsto> ''g'']\<rparr>"
  let ?a = "\<lparr>rd_collected = Inr [plain_sample OutboxPending 3], rd_shutdown = False, rd_clock = 7\<rparr>"
  let ?b = "\<lparr>rd_collected = Inl (External ''down''), rd_shutdown = False, rd_clock = 8\<rparr>"
  obtain s told err where run: "Sampler_Run ?m ?a [?b] (NewSampler SamplerBacklog \<lparr>sx_Interval = 0, sx_Timeout = 0\<rparr> 1) = (s, told, err)"
    by (rule prod_cases3)
  from sampler_outlives_outage [OF _ this] have "sp_failures s = 1"
    by (simp add: counts_as_failure_def succeeded_def)
  then show ?thesis by (simp only: run fst_conv)
qed

text \<open>With a configuration that has a timeout longer than its interval the default replaces it, and the
  default can be longer than the interval as well; what the binaries load is never changed.\<close>

lemma withDefaults_can_exceed:
  "\<exists>c. sx_Interval (SamplerConfig_withDefaults c) < sx_Timeout (SamplerConfig_withDefaults c)"
  by (rule exI [of _ "\<lparr>sx_Interval = Second, sx_Timeout = 2 * Second\<rparr>"])
    (simp add: SamplerConfig_withDefaults_def DefaultSampleTimeout_def Second_def)

lemma withDefaults_keeps:
  "0 < sx_Timeout c \<Longrightarrow> sx_Timeout c < sx_Interval c \<Longrightarrow> SamplerConfig_withDefaults c = c"
  by (simp add: SamplerConfig_withDefaults_def)

section \<open>Samples stay within the catalogue\<close>

lemma publish_plain: "publish_sampled m (plain_sample name v) = metrics_set m name v []"
  by (simp add: publish_sampled_def plain_sample_def)

lemma BacklogCollector_measured [measured]:
  assumes "NewWithProvider mt = Inr m" and "BacklogCollector outbox inbox = Inr vs"
  shows "list_all (catalogued mt queues) (concat (map (publish_sampled m) vs))"
  using assms by (auto simp: BacklogCollector_def publish_plain measured split: sum.splits prod.splits)

lemma QueueDepthCollector_measured [measured]:
  assumes "NewWithProvider mt = Inr m" and "QueueDepthCollector read queues = Inr vs" and "[] \<notin> set queues"
  shows "list_all (catalogued mt queues) (concat (map (publish_sampled m) vs))"
proof -
  from assms(2) obtain depths where vs: "vs = concat (map (\<lambda>queue. case depths queue of None \<Rightarrow> []
      | Some depth \<Rightarrow> [\<lparr>sd_Instrument = QueueDepth, sd_Value = float_of_int depth, sd_Queue = queue\<rparr>]) queues)"
    by (auto simp: QueueDepthCollector_def split: sum.splits)
  have "list_all (catalogued mt queues) (publish_sampled m x)" if x: "x \<in> set vs" for x
  proof -
    from x vs obtain q d where "q \<in> set queues" "x = \<lparr>sd_Instrument = QueueDepth, sd_Value = float_of_int d, sd_Queue = q\<rparr>"
      by (auto split: option.splits)
    with assms(1,3) show ?thesis by (auto simp: publish_sampled_def measured queue_normalized)
  qed
  then show ?thesis by (fastforce simp: list_all_iff)
qed

lemma sample_round_measured:
  assumes "\<And>vs. rd_collected r = Inr vs \<Longrightarrow> list_all (catalogued mt queues) (concat (map (publish_sampled m) vs))"
  shows "list_all (catalogued mt queues) (snd (sample_round m r s))"
  using assms by (auto simp: sample_round_def split: sum.splits)

end
