(* ===== verification/Api_Process.thy ===== *)
theory Api_Process
  imports Http_Api Process_Lifecycle Samplers
begin

text \<open>
  The API process from its first check to the end of its server (\<^verbatim>\<open>Run\<close> of \<^verbatim>\<open>internal/runtime/api/api.go\<close>, and of
  \<^verbatim>\<open>transport/http/server.go\<close>). What the outside answers is a record, as for the worker.
\<close>

section \<open>Serving (server.go)\<close>

text \<open>How the standard server's \<^verbatim>\<open>Serve\<close> returns; \<open>ServerClosed\<close> is \<^verbatim>\<open>http.ErrServerClosed\<close>.\<close>

datatype serve_end = ServeNil | ServerClosed | ServeFailed goerr

definition serveError :: "serve_end \<Rightarrow> goerr option" where
  "serveError e = (case e of ServeFailed err \<Rightarrow> Some (wrap ''serve http'' err) | _ \<Rightarrow> None)"

text \<open>\<^verbatim>\<open>errors.Join\<close> leaves nil errors out and puts the others on lines of their own.\<close>

fun join_lines :: "goerr list \<Rightarrow> errpart list" where
  "join_lines [] = []"
| "join_lines [e] = [W e]"
| "join_lines (e # es) = W e # T [CHR 0x0A] # join_lines es"

definition errors_Join :: "goerr option list \<Rightarrow> goerr option" where
  "errors_Join es = (let some = concat (map (\<lambda>e. case e of None \<Rightarrow> [] | Some x \<Rightarrow> [x]) es) in
     if some = [] then None else Some (Errorf (join_lines some)))"

text \<open>\<open>sw_first\<close> is how \<^verbatim>\<open>Serve\<close> ended when it ended before the context was done; otherwise the server is shut
  down, by force when handlers do not drain in time, and \<open>sw_end\<close> is what \<^verbatim>\<open>Serve\<close> then returns.\<close>

record serving =
  sw_first :: "serve_end option"
  sw_shutdown :: "goerr option"
  sw_close :: "goerr option"
  sw_end :: serve_end

definition Server_Run :: "serving \<Rightarrow> goerr option" where
  "Server_Run w =
     (case sw_first w of
        Some e \<Rightarrow> serveError e
      | None \<Rightarrow>
          (case sw_shutdown w of
             None \<Rightarrow> serveError (sw_end w)
           | Some err \<Rightarrow> errors_Join [Some (wrap ''shutdown http'' err), sw_close w, serveError (sw_end w)]))"

text \<open>Only a server that was asked to stop and drained, or whose listener was closed, ends without an error.\<close>

lemma Server_Run_None:
  "Server_Run w = None \<longleftrightarrow>
    (case sw_first w of Some e \<Rightarrow> \<forall>err. e \<noteq> ServeFailed err | None \<Rightarrow> sw_shutdown w = None \<and> (\<forall>err. sw_end w \<noteq> ServeFailed err))"
  by (auto simp: Server_Run_def serveError_def errors_Join_def Let_def split: option.splits serve_end.splits)

section \<open>The process (api.go)\<close>

record ('h, 'o) api_environment =
  ap_secret :: "string + string"
  ap_logging :: "goerr option"
  ap_telemetry :: "goerr option"
  ap_meter :: "'h meter"
  ap_open :: "nat \<Rightarrow> goerr option"
  ap_openExpired :: "nat \<Rightarrow> goerr option"
  ap_observables :: "'o observables"
  ap_serving :: serving

text \<open>Which dependencies the caller replaced; a listener of its own only changes where \<open>ap_serving\<close> comes from.\<close>

record api_options =
  ao_Logger :: bool
  ao_Provider :: bool
  ao_Verifier :: bool

type_synonym api_boot = "(database server \<times> rate_limiters option) boot"

definition api_serve ::
  "('h, 'o) api_environment \<Rightarrow> library \<Rightarrow> (string \<Rightarrow> string \<Rightarrow> string) \<Rightarrow> verifier \<Rightarrow> config \<Rightarrow> ports \<Rightarrow> draws \<Rightarrow> api_boot" where
  "api_serve env lib hmac v cfg p d =
     warned (DocsModeFor (cf_DocsEnabled cfg) (IsDevelopment cfg) = DocsProtected)
       ''api documentation enabled outside development; /docs and /openapi.yaml require a valid X-API-Key''
       (case api_server lib hmac v cfg p d of
          Inl e \<Rightarrow> refuse e
        | Inr sv \<Rightarrow> Some (Server_Run (ap_serving env), [Serving sv]))"

definition api_open ::
  "('h, 'o) api_environment \<Rightarrow> library \<Rightarrow> (string \<Rightarrow> string \<Rightarrow> string) \<Rightarrow> verifier \<Rightarrow> config \<Rightarrow> ports \<Rightarrow> draws \<Rightarrow> api_boot" where
  "api_open env lib hmac v cfg p d =
     (case retry_Do (500 * Millisecond) (5 * Second) (ap_open env) (ap_openExpired env) of
        None \<Rightarrow> None
      | Some (Some e, waits) \<Rightarrow> refuse (wrap ''initialize postgres'' e)
      | Some (None, waits) \<Rightarrow>
          holding Postgres
            (case RegisterPoolMetrics (ap_observables env) True of
               Inl e \<Rightarrow> refuse (wrap ''instrument postgres pool'' e)
             | Inr callback \<Rightarrow> api_serve env lib hmac v cfg p d))"

definition api_telemetry ::
  "('h, 'o) api_environment \<Rightarrow> library \<Rightarrow> (string \<Rightarrow> string \<Rightarrow> string) \<Rightarrow> verifier \<Rightarrow> config \<Rightarrow> ports \<Rightarrow> draws \<Rightarrow> api_boot" where
  "api_telemetry env lib hmac v cfg p d =
     (case ap_telemetry env of
        Some e \<Rightarrow> refuse e
      | None \<Rightarrow>
          holding Telemetry
            (case NewWithProvider (ap_meter env) of
               Inl e \<Rightarrow> refuse (wrap ''build metrics'' e)
             | Inr m \<Rightarrow> holding StartupContext (api_open env lib hmac v cfg p d)))"

definition Api_Process_Run ::
  "('h, 'o) api_environment \<Rightarrow> library \<Rightarrow> (string \<Rightarrow> string \<Rightarrow> string) \<Rightarrow> config \<Rightarrow> api_options \<Rightarrow> ports \<Rightarrow> draws \<Rightarrow> api_boot" where
  "Api_Process_Run env lib hmac cfg opts p d =
     (case NewAPIKeyVerifier hmac (ap_secret env) (cf_IntegrationAPIKeys cfg) of
        Inl e \<Rightarrow> refuse (wrap ''configure integration authentication'' e)
      | Inr v \<Rightarrow>
     (case validateStripeConfiguration (pt_url_Parse p) cfg (ao_Provider opts) (ao_Verifier opts) of
        Some e \<Rightarrow> refuse e
      | None \<Rightarrow>
          if ao_Logger opts then api_telemetry env lib hmac v cfg p d
          else case ap_logging env of
            Some e \<Rightarrow> refuse e
          | None \<Rightarrow> holding Logger (api_telemetry env lib hmac v cfg p d)))"

lemma Api_Process_tidy: "tidy (Api_Process_Run env lib hmac cfg opts p d)"
proof -
  have serve: "tidy (api_serve env lib hmac v cfg p d)" for v
    by (auto simp: api_serve_def split: sum.splits intro!: tidy_intros)
  have "tidy (api_open env lib hmac v cfg p d)" for v
    by (auto simp: api_open_def split: option.splits sum.splits intro!: tidy_intros serve)
  then have "tidy (api_telemetry env lib hmac v cfg p d)" for v
    by (auto simp: api_telemetry_def split: option.splits sum.splits intro!: tidy_intros)
  then show ?thesis
    by (auto simp: Api_Process_Run_def split: option.splits sum.splits intro!: tidy_intros)
qed

text \<open>A run that is refused for its keys or for the settings of Stripe has opened nothing.\<close>

lemma Api_Process_Run_refuses:
  "NewAPIKeyVerifier hmac (ap_secret env) (cf_IntegrationAPIKeys cfg) = Inl e \<Longrightarrow>
    Api_Process_Run env lib hmac cfg opts p d = Some (Some (wrap ''configure integration authentication'' e), [])"
  "NewAPIKeyVerifier hmac (ap_secret env) (cf_IntegrationAPIKeys cfg) = Inr v \<Longrightarrow>
    validateStripeConfiguration (pt_url_Parse p) cfg (ao_Provider opts) (ao_Verifier opts) = Some e \<Longrightarrow>
    Api_Process_Run env lib hmac cfg opts p d = Some (Some e, [])"
  by (simp_all add: Api_Process_Run_def refuse_def)

lemma api_serve_serves:
  assumes "api_server lib hmac v cfg p d = Inr sv"
  obtains l where "api_serve env lib hmac v cfg p d = Some (Server_Run (ap_serving env), l)" "Serving sv \<in> set l"
  using assms by (auto simp: api_serve_def warned_def)

lemma Api_Process_Run_serves:
  assumes "Api_Run lib hmac (ap_secret env) cfg (ao_Provider opts) (ao_Verifier opts) p d = Inr sv"
    and "ap_logging env = None" and "ap_telemetry env = None" and "NewWithProvider (ap_meter env) = Inr m"
    and "retry_Do (500 * Millisecond) (5 * Second) (ap_open env) (ap_openExpired env) = Some (None, waits)"
    and "RegisterPoolMetrics (ap_observables env) True = Inr callback"
  shows "\<exists>log. Api_Process_Run env lib hmac cfg opts p d = Some (Server_Run (ap_serving env), log) \<and>
    unwinds [] log \<and> Serving sv \<in> set log"
proof -
  from assms(1) obtain v where v: "NewAPIKeyVerifier hmac (ap_secret env) (cf_IntegrationAPIKeys cfg) = Inr v"
      "validateStripeConfiguration (pt_url_Parse p) cfg (ao_Provider opts) (ao_Verifier opts) = None"
      "api_server lib hmac v cfg p d = Inr sv"
    by (auto simp: Api_Run_def split: sum.splits option.splits)
  obtain l where l: "api_serve env lib hmac v cfg p d = Some (Server_Run (ap_serving env), l)" "Serving sv \<in> set l"
    by (rule api_serve_serves [OF v(3)])
  then obtain log where log: "Api_Process_Run env lib hmac cfg opts p d = Some (Server_Run (ap_serving env), log)" "Serving sv \<in> set log"
    using v(1,2) assms(2-6) by (cases "ao_Logger opts") (simp_all add: Api_Process_Run_def api_telemetry_def api_open_def holding_def)
  with tidy_unwinds [OF Api_Process_tidy] show ?thesis by blast
qed

section \<open>What was configured is what serves\<close>


text \<open>A process that is asked to stop, with a handler that does not drain in time: an error, and nothing left open.\<close>

definition sample_api :: "(string, string) api_environment" where
  "sample_api =
     \<lparr>ap_secret = Inr ''s'', ap_logging = None, ap_telemetry = None, ap_meter = name_meter, ap_open = \<lambda>n. None,
      ap_openExpired = \<lambda>n. None,
      ap_observables = \<lparr>ob_Float64Gauge = \<lambda>n d u. Inr n, ob_Int64Gauge = \<lambda>n d u. Inr n, ob_Int64Counter = \<lambda>n d u. Inr n,
        ob_RegisterCallback = \<lambda>l. None\<rparr>,
      ap_serving = \<lparr>sw_first = None, sw_shutdown = Some (External ''deadline''), sw_close = None, sw_end = ServerClosed\<rparr>\<rparr>"


end
