(* ===== verification/Worker_Logs.thy ===== *)
theory Worker_Logs
  imports Errsanitize Relay Consumer_Service Amqp_Consumer
begin

text \<open>
  What the worker logs (\<^verbatim>\<open>internal/runtime/worker/observers.go\<close>, \<^verbatim>\<open>internal/platform/logging/error.go\<close>): every
  observer turns a note into one entry, and the text of an error only enters one after it was sanitized.
\<close>

datatype log_level = LevelInfo | LevelWarn | LevelError

datatype log_value = LogString string | LogInt int | LogBool bool

record log_entry =
  lg_Level :: log_level
  lg_Message :: string
  lg_Fields :: "(string \<times> log_value) list"

section \<open>Errors in logs (error.go)\<close>

definition SanitizedText :: "goerr option \<Rightarrow> string" where
  "SanitizedText err = (case err of None \<Rightarrow> [] | Some e \<Rightarrow> Sanitize (Error_text e))"

text \<open>A nil error adds no field.\<close>

definition SanitizedError :: "goerr option \<Rightarrow> (string \<times> log_value) list" where
  "SanitizedError err = (if err = None then [] else [(''error'', LogString (SanitizedText err))])"

text \<open>What is written to the stream when a process ends with an error: the text and a newline.\<close>

definition WriteSanitizedError :: "goerr \<Rightarrow> string" where
  "WriteSanitizedError e = SanitizedText (Some e) @ [CHR 0x0A]"

section \<open>The observers (observers.go)\<close>

definition component_field :: "string \<Rightarrow> string \<times> log_value" where
  "component_field c = (''component'', LogString c)"

fun relayObserver :: "relay_note \<Rightarrow> log_entry list" where
  "relayObserver (Stuck messageID attempts cause) =
     [\<lparr>lg_Level = LevelWarn, lg_Message = ''outbox message is not going through'',
       lg_Fields = [component_field ''outbox_relay'', (''message_id'', LogString messageID), (''attempts'', LogInt attempts)] @
         SanitizedError (Some cause)\<rparr>]"
| "relayObserver (Abandoned messageID attempts cause) =
     [\<lparr>lg_Level = LevelError, lg_Message = ''outbox message abandoned after a permanent failure'',
       lg_Fields = [component_field ''outbox_relay'', (''message_id'', LogString messageID), (''attempts'', LogInt attempts)] @
         SanitizedError (Some cause)\<rparr>]"
| "relayObserver (LeaseLost messageID cause) =
     [\<lparr>lg_Level = LevelWarn, lg_Message = ''outbox lease expired before the outcome could be recorded'',
       lg_Fields = [component_field ''outbox_relay'', (''message_id'', LogString messageID)] @ SanitizedError (Some cause)\<rparr>]"
| "relayObserver (PublicationSettled outcome n cause) = []"
| "relayObserver (CycleCompleted res err stage) = []"
| "relayObserver (PublishCalled msg err) = []"

fun consumerObserver :: "consumer_note \<Rightarrow> log_entry list" where
  "consumerObserver (EventApplied eventID eff) =
     [\<lparr>lg_Level = LevelInfo, lg_Message = ''webhook event applied'',
       lg_Fields = [component_field ''consumer'', (''webhook_event_id'', LogString eventID),
         (''attempt_status'', LogString (ef_AttemptStatus eff)), (''payment_status'', LogString (ef_PaymentStatus eff)),
         (''order_paid'', LogBool (ef_OrderPaid eff))]\<rparr>]"
| "consumerObserver (EventNoOp eventID reason) =
     [\<lparr>lg_Level = LevelInfo, lg_Message = ''webhook event produced no change'',
       lg_Fields = [component_field ''consumer'', (''webhook_event_id'', LogString eventID), (''reason'', LogString reason)]\<rparr>]"
| "consumerObserver (EventRetrying eventID attempts cause) =
     [\<lparr>lg_Level = LevelWarn, lg_Message = ''webhook event will be retried'',
       lg_Fields = [component_field ''consumer'', (''webhook_event_id'', LogString eventID), (''attempts'', LogInt attempts)] @
         SanitizedError (Some cause)\<rparr>]"
| "consumerObserver (EventDeadLettered eventID attempts cause) =
     [\<lparr>lg_Level = LevelError, lg_Message = ''webhook event sent to the dead-letter queue'',
       lg_Fields = [component_field ''consumer'', (''webhook_event_id'', LogString eventID), (''attempts'', LogInt attempts)] @
         SanitizedError (Some cause)\<rparr>]"
| "consumerObserver (EventHandled eventID r) = []"

definition brokerObserver :: "amqp_event \<Rightarrow> log_entry list" where
  "brokerObserver e =
     (case e of
        Rejected messageID cause \<Rightarrow>
          [\<lparr>lg_Level = LevelError, lg_Message = ''message could not be read and was rejected'',
            lg_Fields = [component_field ''consumer'', (''message_id'', LogString messageID)] @ SanitizedError (Some cause)\<rparr>]
      | Republished messageID destination attempts \<Rightarrow>
          [\<lparr>lg_Level = LevelInfo, lg_Message = ''message republished'',
            lg_Fields = [component_field ''consumer'', (''message_id'', LogString messageID),
              (''destination'', LogString destination), (''attempts'', LogInt attempts)]\<rparr>]
      | FailedDelivery messageID cause \<Rightarrow>
          [\<lparr>lg_Level = LevelError, lg_Message = ''message left unacknowledged for redelivery'',
            lg_Fields = [component_field ''consumer'', (''message_id'', LogString messageID)] @ SanitizedError (Some cause)\<rparr>]
      | _ \<Rightarrow> [])"

section \<open>No error text passes unsanitized\<close>

definition sanitized_entry :: "log_entry \<Rightarrow> bool" where
  "sanitized_entry l \<longleftrightarrow> (\<forall>v. (''error'', v) \<in> set (lg_Fields l) \<longrightarrow> (\<exists>t. v = LogString (Sanitize t)))"

lemma SanitizedError_field: "(k, v) \<in> set (SanitizedError err) \<Longrightarrow> k = ''error'' \<and> (\<exists>t. v = LogString (Sanitize t))"
  by (auto simp: SanitizedError_def SanitizedText_def split: if_splits option.splits)

lemma relayObserver_sanitized: "list_all sanitized_entry (relayObserver n)"
  by (cases n) (auto simp: sanitized_entry_def component_field_def dest: SanitizedError_field)

lemma consumerObserver_sanitized: "list_all sanitized_entry (consumerObserver c)"
  by (cases c) (auto simp: sanitized_entry_def component_field_def dest: SanitizedError_field)

lemma brokerObserver_sanitized: "list_all sanitized_entry (brokerObserver e)"
  by (cases e) (auto simp: brokerObserver_def sanitized_entry_def component_field_def dest: SanitizedError_field)

end
