(* ===== verification/Worker_Process.thy ===== *)
theory Worker_Process
  imports Process_Lifecycle Samplers Worker_Logs Http_Routes
begin

text \<open>
  The worker process (\<^verbatim>\<open>internal/runtime/worker/worker.go\<close>): how it is put together, what makes it refuse to
  start, and that whatever it opened is released. What the outside answers while it starts is a record.
  The log lists the resources as they are acquired and released (the deferred calls), the warnings, and the
  composition that serves; what a release answers is only logged and left out. \<^const>\<open>None\<close> means that a
  startup retry never returns.
\<close>

section \<open>Identity\<close>

text \<open>Eight random bytes and the name of the host, or the errors of asking for them.\<close>

definition InstanceIdentity :: "string \<Rightarrow> string result \<Rightarrow> string result \<Rightarrow> string result" where
  "InstanceIdentity fallback random hostname =
     (case random of
        Inl e \<Rightarrow> Inl (wrap ''generate instance suffix'' e)
      | Inr suffix \<Rightarrow>
          (let host = (case hostname of Inl e \<Rightarrow> fallback | Inr h \<Rightarrow> if h = [] then fallback else h)
           in Inr (host @ ''-'' @ hex_encode suffix)))"

section \<open>Composition\<close>

record worker_options =
  wo_Interpreter :: bool
  wo_Logger :: bool
  wo_InstanceID :: string

text \<open>What serves: the owner of the leases, the relay, the consumer and its retry budget, whether the Stripe
  interpreter reads the events, the queues the label of a metric may name, the samplers, and the
  dependencies of the health check.\<close>

record worker_wiring =
  wk_Owner :: string
  wk_Relay :: relay_config
  wk_Consumer :: consumer_config
  wk_MaxAttempts :: int
  wk_StripeInterpreter :: bool
  wk_Queues :: "string list"
  wk_Samplers :: "(string \<times> sampler_config) list"
  wk_Checks :: "string list"

record ('h, 'o) environment =
  ev_logging :: "goerr option"
  ev_telemetry :: "goerr option"
  ev_meter :: "'h meter"
  ev_open :: "nat \<Rightarrow> goerr option"
  ev_openExpired :: "nat \<Rightarrow> goerr option"
  ev_observables :: "'o observables"
  ev_connect :: "nat \<Rightarrow> goerr option"
  ev_connectExpired :: "nat \<Rightarrow> goerr option"
  ev_warm :: "goerr option"
  ev_random :: "string result"
  ev_hostname :: "string result"
  ev_finished :: "goerr option list"

text \<open>\<^verbatim>\<open>group.Wait\<close>: the first error among the components, in the order they returned.\<close>

definition group_Wait :: "goerr option list \<Rightarrow> goerr option" where
  "group_Wait finished = (case List.find (\<lambda>e. e \<noteq> None) finished of None \<Rightarrow> None | Some e \<Rightarrow> e)"

definition sampler_config_of :: "config \<Rightarrow> sampler_config" where
  "sampler_config_of c = \<lparr>sx_Interval = cf_MetricsSampleInterval c, sx_Timeout = cf_MetricsSampleTimeout c\<rparr>"

definition worker_wiring_of :: "config \<Rightarrow> worker_options \<Rightarrow> string \<Rightarrow> worker_wiring" where
  "worker_wiring_of c opts instanceID =
     \<lparr>wk_Owner = instanceID,
      wk_Relay = Config_withDefaults (relay_config_of c),
      wk_Consumer = NewConsumer (consumer_config_of c),
      wk_MaxAttempts = MaxAttempts_withDefaults (cf_ConsumerMaxAttempts c),
      wk_StripeInterpreter = (\<not> wo_Interpreter opts),
      wk_Queues = knownQueues c,
      wk_Samplers = [(SamplerBacklog, SamplerConfig_withDefaults (sampler_config_of c)),
                     (SamplerBroker, SamplerConfig_withDefaults (sampler_config_of c))],
      wk_Checks = [''postgres'', ''rabbitmq'']\<rparr>"

definition worker_serve :: "('h, 'o) environment \<Rightarrow> config \<Rightarrow> worker_options \<Rightarrow> worker_wiring boot" where
  "worker_serve env c opts =
     (case (if wo_InstanceID opts = [] then InstanceIdentity (cf_ServiceName c) (ev_random env) (ev_hostname env)
            else Inr (wo_InstanceID opts)) of
        Inl e \<Rightarrow> refuse (wrap ''build relay identity'' e)
      | Inr instanceID \<Rightarrow> Some (group_Wait (ev_finished env), [Serving (worker_wiring_of c opts instanceID)]))"

definition worker_connect :: "('h, 'o) environment \<Rightarrow> config \<Rightarrow> worker_options \<Rightarrow> worker_wiring boot" where
  "worker_connect env c opts =
     (case retry_Do (500 * Millisecond) (5 * Second) (ev_connect env) (ev_connectExpired env) of
        None \<Rightarrow> None
      | Some (err, waits) \<Rightarrow>
          warned (err \<noteq> None) ''rabbitmq unavailable at startup; the relay will keep retrying''
            (holding RelayConnection (holding ConsumerConnection (holding RepublishConnection (holding SamplingConnection
              (warned (ev_warm env \<noteq> None) ''outbox publisher not ready yet''
                (holding PublisherChannel (worker_serve env c opts))))))))"

definition worker_open :: "('h, 'o) environment \<Rightarrow> config \<Rightarrow> worker_options \<Rightarrow> worker_wiring boot" where
  "worker_open env c opts =
     (case retry_Do (500 * Millisecond) (5 * Second) (ev_open env) (ev_openExpired env) of
        None \<Rightarrow> None
      | Some (Some e, waits) \<Rightarrow> refuse (wrap ''initialize postgres'' e)
      | Some (None, waits) \<Rightarrow>
          holding Postgres
            (case RegisterPoolMetrics (ev_observables env) True of
               Inl e \<Rightarrow> refuse (wrap ''instrument postgres pool'' e)
             | Inr callback \<Rightarrow> worker_connect env c opts))"

definition Worker_Run :: "('h, 'o) environment \<Rightarrow> config \<Rightarrow> worker_options \<Rightarrow> worker_wiring boot" where
  "Worker_Run env c opts =
     (let rest = (case ev_telemetry env of
          Some e \<Rightarrow> refuse e
        | None \<Rightarrow>
            holding Telemetry
              (case NewWithProvider (ev_meter env) of
                 Inl e \<Rightarrow> refuse (wrap ''build metrics'' e)
               | Inr m \<Rightarrow> holding StartupContext (worker_open env c opts)))
      in if wo_Logger opts then rest
         else case ev_logging env of Some e \<Rightarrow> refuse e | None \<Rightarrow> holding Logger rest)"

section \<open>What was opened is released\<close>

lemma Worker_Run_tidy: "tidy (Worker_Run env c opts)"
proof -
  have serve: "tidy (worker_serve env c opts)"
    by (auto simp: worker_serve_def split: sum.splits intro: tidy_intros)
  have connect: "tidy (worker_connect env c opts)"
    by (auto simp: worker_connect_def split: option.splits intro!: tidy_intros serve)
  have "tidy (worker_open env c opts)"
    by (auto simp: worker_open_def split: option.splits sum.splits intro!: tidy_intros connect)
  then show ?thesis
    by (auto simp: Worker_Run_def Let_def split: option.splits sum.splits intro!: tidy_intros)
qed

section \<open>Identities\<close>

text \<open>Two processes that drew different random bytes never own each other's leases, on one host or on two.\<close>

lemma append_same_length: "length b = length d \<Longrightarrow> a @ b = c @ d \<longleftrightarrow> a = c \<and> b = d"
  by auto

lemma InstanceIdentity_unique:
  assumes "InstanceIdentity f1 (Inr x) h1 = Inr i" and "InstanceIdentity f2 (Inr y) h2 = Inr i" and "length x = length y"
  shows "x = y"
proof -
  from assms(1,2) obtain a b where "i = a @ ''-'' @ hex_encode x" "i = b @ ''-'' @ hex_encode y"
    by (auto simp: InstanceIdentity_def Let_def)
  then have "(a @ ''-'') @ hex_encode x = (b @ ''-'') @ hex_encode y" by simp
  with append_same_length [of "hex_encode x" "hex_encode y"] assms(3) show ?thesis
    by (simp add: hex_encode_inject)
qed

section \<open>Where a message is republished\<close>

lemma TierFor_member: "TierFor tiers n = Some t \<Longrightarrow> t \<in> set tiers"
proof -
  have "nat x < length tiers" if "tiers \<noteq> []" "x < int (length tiers)" for x using that by (cases "0 \<le> x") auto
  from nth_mem [OF this] show "TierFor tiers n = Some t \<Longrightarrow> ?thesis" by (auto simp: TierFor_def Let_def split: if_splits)
qed

definition names_known_queue :: "string list \<Rightarrow> amqp_event \<Rightarrow> bool" where
  "names_known_queue queues e \<longleftrightarrow> (\<forall>i q n. e = Republished i q n \<longrightarrow> q \<in> set queues)"

lemma names_known_queue_simps [simp]:
  "names_known_queue queues (Called x err)" "names_known_queue queues (Opened y)" "names_known_queue queues (Sent ch ex k p e)"
  "names_known_queue queues (Awaited b)" "names_known_queue queues (ReturnSeen r)" "names_known_queue queues (HandlerCalled i hr)"
  "names_known_queue queues (Redelivered s)" "names_known_queue queues (Rejected s c)" "names_known_queue queues (FailedDelivery s c)"
  "names_known_queue queues (Republished i q n) \<longleftrightarrow> q \<in> set queues"
  by (simp_all add: names_known_queue_def)

lemma republish_names [only_intros]: "only (names_known_queue queues) (republish am hooks x d)"
  by (rule republish_only) simp_all

lemma only_failed [only_intros]: "only E m \<Longrightarrow> (\<And>s e. E (FailedDelivery s e)) \<Longrightarrow> only E (failed s f m)"
  by (rule onlyI) (auto simp: failed_def split: option.splits sum.splits dest: onlyD)

lemma only_on_net_handler: "(\<And>i r. E (HandlerCalled i r)) \<Longrightarrow> only E (on_net (call_handler handler i))"
  by (rule onlyI) (auto simp: on_net_Some call_handler_def split: prod.splits)

text \<open>Whatever happens to a delivery, a copy of it only goes to a queue of the topology the process declared,
  so the queue label of the metric is the name of the queue.\<close>

lemma handle_delivery_names:
  "only (names_known_queue (knownQueues c)) (handle_delivery am hooks (retry_tiers_of c) unmarshal handler d)"
proof -
  let ?E = "names_known_queue (knownQueues c)"
  have ack: "only ?E (ack am hooks d)"
    unfolding ack_def by (intro only_intros) (auto intro: only_intros split: option.splits)
  have dead: "only ?E (republishToDeadLetter am hooks d h)" for h
    unfolding republishToDeadLetter_def by (intro only_intros ack) (simp add: knownQueues_def)
  have retry: "only ?E (republishForRetry am hooks (retry_tiers_of c) d h)" for h
  proof (cases "TierFor (retry_tiers_of c) (h_Attempts h)")
    case (Some t)
    then have "tier_Queue t \<in> set (knownQueues c)" by (auto simp: knownQueues_def dest: TierFor_member)
    with Some show ?thesis unfolding republishForRetry_def by (auto intro!: only_intros ack)
  qed (simp add: republishForRetry_def dead)
  have settle: "only ?E (settle_delivery am hooks (retry_tiers_of c) d h)" for h
    unfolding settle_delivery_def by (auto split: disposition.splits intro: ack dead retry)
  show ?thesis
    unfolding handle_delivery_def
    by (auto split: sum.splits intro!: only_intros dead settle only_on_net_handler)
qed

lemma queue_label_exact:
  assumes "handle_delivery am hooks (retry_tiers_of c) unmarshal handler d w = Some (w', r, l)"
    and "Republished i q n \<in> set l"
  shows "queueAttr (knownQueues c) q = (LabelQueue, q)"
  using onlyD [OF handle_delivery_names assms(1)] assms(2) by (auto simp: list_all_iff queueAttr_def)

section \<open>Properties\<close>

text \<open>
  C26: a worker serves what it was configured to serve, with or without a broker. If the configuration
  loads, logging, telemetry and the instruments can be set up, PostgreSQL answers one of the startup
  attempts and the operating system names the instance, the worker serves; whether the broker answered
  makes no difference to it. The relay, the consumer, its retry budget and the samplers run with exactly
  the configured values, none replaced by a default: the publications of a whole batch and the reserve for
  settling it fit into the lease, the pool has a connection for every consuming worker beside the relay and
  the health check, a sampling round ends before the next begins, and the queues are different from each
  other. When it returns, with the first error of its components, everything it opened has been released,
  in the opposite order.
\<close>

theorem worker_runs_as_configured:
  assumes "Load file parsed s a True = Inr c"
    and "cf_OutboxBatchSize c < 2 ^ 30" and "cf_ConsumerConcurrency c < 2 ^ 62"
    and "ev_logging env = None" and "ev_telemetry env = None" and "NewWithProvider (ev_meter env) = Inr m"
    and "retry_Do (500 * Millisecond) (5 * Second) (ev_open env) (ev_openExpired env) = Some (None, w1)"
    and "RegisterPoolMetrics (ev_observables env) True = Inr cb"
    and "retry_Do (500 * Millisecond) (5 * Second) (ev_connect env) (ev_connectExpired env) = Some (broker, w2)"
    and "InstanceIdentity (cf_ServiceName c) (ev_random env) (ev_hostname env) = Inr i"
    and "wo_InstanceID opts = []"
  shows "\<exists>log. Worker_Run env c opts = Some (group_Wait (ev_finished env), log) \<and> unwinds [] log \<and>
    Serving \<lparr>wk_Owner = i, wk_Relay = relay_config_of c, wk_Consumer = consumer_config_of c,
      wk_MaxAttempts = cf_ConsumerMaxAttempts c, wk_StripeInterpreter = (\<not> wo_Interpreter opts), wk_Queues = knownQueues c,
      wk_Samplers = [(SamplerBacklog, sampler_config_of c), (SamplerBroker, sampler_config_of c)],
      wk_Checks = [''postgres'', ''rabbitmq'']\<rparr> \<in> set log \<and>
    cf_OutboxBatchSize c * PublishTimeout + SettlementReserve \<le> cf_OutboxLeaseDuration c \<and>
    cf_ConsumerConcurrency c + 2 \<le> cf_DatabaseMaxOpenConnections c \<and>
    cf_MetricsSampleTimeout c < cf_MetricsSampleInterval c \<and> distinct (knownQueues c)"
proof -
  note conf = Load_configures_worker [OF assms(1-3)]
  have "0 < cf_MetricsSampleTimeout c"
    using Load_Inr [OF assms(1)] by (auto simp: load_guards_def ball_Un not_less not_le)
  with conf have "SamplerConfig_withDefaults (sampler_config_of c) = sampler_config_of c"
    by (intro withDefaults_keeps) (simp_all add: sampler_config_of_def)
  with conf have wiring: "worker_wiring_of c opts i = \<lparr>wk_Owner = i, wk_Relay = relay_config_of c, wk_Consumer = consumer_config_of c,
      wk_MaxAttempts = cf_ConsumerMaxAttempts c, wk_StripeInterpreter = (\<not> wo_Interpreter opts), wk_Queues = knownQueues c,
      wk_Samplers = [(SamplerBacklog, sampler_config_of c), (SamplerBroker, sampler_config_of c)],
      wk_Checks = [''postgres'', ''rabbitmq'']\<rparr>"
    by (simp add: worker_wiring_of_def)
  have serve: "worker_serve env c opts = Some (group_Wait (ev_finished env), [Serving (worker_wiring_of c opts i)])"
    using assms(10,11) by (simp add: worker_serve_def)
  obtain l where connect: "worker_connect env c opts = Some (group_Wait (ev_finished env), l)" "Serving (worker_wiring_of c opts i) \<in> set l"
    using serve assms(9) by (auto simp: worker_connect_def warned_def holding_def)
  let ?l = "Acquired Telemetry # Acquired StartupContext # Acquired Postgres # l @ [Released Postgres, Released StartupContext, Released Telemetry]"
  have "Worker_Run env c opts =
      Some (group_Wait (ev_finished env), if wo_Logger opts then ?l else Acquired Logger # ?l @ [Released Logger])"
    using assms(4-8) connect(1) by (simp add: Worker_Run_def worker_open_def holding_def Let_def)
  with connect(2) obtain log where log: "Worker_Run env c opts = Some (group_Wait (ev_finished env), log)"
      "Serving (worker_wiring_of c opts i) \<in> set log" by (auto split: if_splits)
  with Worker_Run_tidy [of env c opts] have "unwinds [] log" by (rule_tac tidy_unwinds)
  with log conf wiring show ?thesis by auto
qed

text \<open>A broker that is down, and everything else in order.\<close>

definition sample_environment :: "(string, string) environment" where
  "sample_environment =
     \<lparr>ev_logging = None, ev_telemetry = None,
      ev_meter = name_meter,
      ev_open = \<lambda>n. None, ev_openExpired = \<lambda>n. None,
      ev_observables = \<lparr>ob_Float64Gauge = \<lambda>n d u. Inr n, ob_Int64Gauge = \<lambda>n d u. Inr n, ob_Int64Counter = \<lambda>n d u. Inr n,
        ob_RegisterCallback = \<lambda>l. None\<rparr>,
      ev_connect = \<lambda>n. Some (External ''refused''), ev_connectExpired = \<lambda>n. Some (External ''late''),
      ev_warm = Some (External ''refused''), ev_random = Inr ''12345678'', ev_hostname = Inr ''host'', ev_finished = []\<rparr>"

theorem worker_runs_as_configured_witness:
  "\<exists>c log. Load DotenvMissing (Inr default_config) ''worker'' '':8081'' True = Inr c \<and>
     Worker_Run sample_environment c \<lparr>wo_Interpreter = False, wo_Logger = False, wo_InstanceID = []\<rparr> = Some (None, log) \<and> unwinds [] log"
proof -
  let ?env = sample_environment and ?o = "\<lparr>wo_Interpreter = False, wo_Logger = False, wo_InstanceID = []\<rparr>"
  obtain c where c: "Load DotenvMissing (Inr default_config) ''worker'' '':8081'' True = Inr c"
      "cf_OutboxBatchSize c < 2 ^ 30" "cf_ConsumerConcurrency c < 2 ^ 62"
    using default_loads by (auto simp: default_config_def)
  obtain m where m: "NewWithProvider (ev_meter ?env) = Inr m"
    using name_meter_builds by (auto simp: sample_environment_def)
  have open_ok: "retry_Do a b (ev_open ?env) (ev_openExpired ?env) = Some (None, [])" for a b
    unfolding retry_Do_def by (subst retry_loop.simps) (simp add: sample_environment_def)
  obtain e where down: "retry_Do a b (ev_connect ?env) (ev_connectExpired ?env) = Some (Some e, [a])" for a b
    unfolding retry_Do_def by (subst (asm) retry_loop.simps) (auto simp: sample_environment_def)
  obtain cb where pool: "RegisterPoolMetrics (ev_observables ?env) True = Inr cb"
    by (simp add: RegisterPoolMetrics_def described_def sample_environment_def)
  obtain i where "InstanceIdentity (cf_ServiceName c) (ev_random ?env) (ev_hostname ?env) = Inr i"
    by (simp add: InstanceIdentity_def sample_environment_def)
  from worker_runs_as_configured [OF c _ _ m open_ok pool down this, of ?o] c(1) show ?thesis
    by (auto simp: sample_environment_def group_Wait_def)
qed

end
