(* ===== verification/Metrics_Truth.thy ===== *)
theory Metrics_Truth
  imports Metrics_Observers Ledger
begin

text \<open>
  What the counter of state transitions says of the tables. It is fed from the report the consumer makes of
  one event; the question is whether that report, and the labels it becomes, are the changes of status the
  transaction committed.
\<close>

section \<open>Changes of status\<close>

definition row_moved :: "('r \<Rightarrow> string) \<Rightarrow> ('r \<Rightarrow> string) \<Rightarrow> 'r list \<Rightarrow> 'r list \<Rightarrow> string \<Rightarrow> string \<Rightarrow> bool" where
  "row_moved key status t t' old new \<longleftrightarrow> (\<exists>r \<in> set t. \<exists>r' \<in> set t'. key r' = key r \<and> status r = old \<and> status r' = new)"

definition status_moved :: "database \<Rightarrow> database \<Rightarrow> state_change \<Rightarrow> bool" where
  "status_moved db db' c \<longleftrightarrow>
     sc_Entity c = EntityAttempt \<and> row_moved att_ID att_Status (payment_attempts db) (payment_attempts db') (sc_From c) (sc_To c) \<or>
     sc_Entity c = EntityPayment \<and> row_moved pay_ID pay_Status (payments db) (payments db') (sc_From c) (sc_To c) \<or>
     sc_Entity c = EntityOrder \<and> row_moved ord_ID ord_Status (orders db) (orders db') (sc_From c) (sc_To c)"

lemma entities_distinct [simp]:
  "EntityAttempt \<noteq> EntityPayment" "EntityAttempt \<noteq> EntityOrder" "EntityPayment \<noteq> EntityOrder"
  "EntityPayment \<noteq> EntityAttempt" "EntityOrder \<noteq> EntityAttempt" "EntityOrder \<noteq> EntityPayment"
  by (simp_all add: EntityAttempt_def EntityPayment_def EntityOrder_def)

lemma row_moved_update:
  assumes "unique_key key t" and "\<And>r. key (f r) = key r" and "\<And>r. status (f r) = st"
  shows "row_moved key status t (update_where (\<lambda>r. b \<and> key r = k) f t) old new \<longleftrightarrow>
    (\<exists>r \<in> set t. status r = old \<and> new = (if b \<and> key r = k then st else old))"
proof
  assume "row_moved key status t (update_where (\<lambda>r. b \<and> key r = k) f t) old new"
  then obtain r r0 where r: "r \<in> set t" "r0 \<in> set t" "key (if b \<and> key r0 = k then f r0 else r0) = key r" "status r = old"
      "status (if b \<and> key r0 = k then f r0 else r0) = new"
    by (auto simp: row_moved_def update_where_def)
  then have "key r0 = key r" by (simp add: assms(2) split: if_splits)
  from unique_keyD [OF assms(1) r(2,1) this] r assms(3) show "\<exists>r \<in> set t. status r = old \<and> new = (if b \<and> key r = k then st else old)"
    by (auto split: if_splits)
next
  assume "\<exists>r \<in> set t. status r = old \<and> new = (if b \<and> key r = k then st else old)"
  then obtain r where r: "r \<in> set t" "status r = old" "new = (if b \<and> key r = k then st else old)" by blast
  let ?r = "if b \<and> key r = k then f r else r"
  have "?r \<in> set (update_where (\<lambda>r. b \<and> key r = k) f t)" using r(1) by (auto simp: update_where_def)
  moreover have "key ?r = key r" "status ?r = new" using r(2,3) assms(2,3) by auto
  ultimately show "row_moved key status t (update_where (\<lambda>r. b \<and> key r = k) f t) old new"
    using r(1,2) unfolding row_moved_def by blast
qed

lemma row_moved_same:
  assumes "unique_key key t"
  shows "row_moved key status t t old new \<Longrightarrow> old = new"
  using assms by (auto simp: row_moved_def dest: unique_keyD)


section \<open>What one event moved\<close>

lemma effect_moves_rows:
  assumes "schema_ok db" and "LockPaymentAggregate aid pid oid db = Inr (Some row, db)" and "a = aggregate_of_row row"
  shows "t \<in> set (transitions a e) \<Longrightarrow> status_moved db (after_effect now i a e db) t"
    and "status_moved db (after_effect now i a e db) t \<Longrightarrow> sc_From t \<noteq> sc_To t \<Longrightarrow> t \<in> set (transitions a e)"
proof -
  let ?d = "after_effect now i a e db"
  from assms(2) obtain x p q where rows: "x \<in> set (payment_attempts db)" "p \<in> set (payments db)" "q \<in> set (orders db)"
    and ids: "att_ID x = ag_AttemptID a" "pay_ID p = ag_PaymentID a" "ord_ID q = ag_OrderID a"
    and st: "att_Status x = ag_AttemptStatus a" "pay_Status p = ag_PaymentStatus a" "ord_Status q = ag_OrderStatus a"
    by (rule LockPaymentAggregate_Some) (simp add: assms(3) aggregate_of_row_def)
  note key = schema_okD(1,3,5) [OF assms(1)]
  have one: "y = x" if "y \<in> set (payment_attempts db)" "att_ID y = ag_AttemptID a" for y
    using unique_keyD [OF key(3) that(1) rows(1)] that(2) ids by simp
  have two: "y = p" if "y \<in> set (payments db)" "pay_ID y = ag_PaymentID a" for y
    using unique_keyD [OF key(2) that(1) rows(2)] that(2) ids by simp
  have three: "y = q" if "y \<in> set (orders db)" "ord_ID y = ag_OrderID a" for y
    using unique_keyD [OF key(1) that(1) rows(3)] that(2) ids by simp
  have moved: "status_moved db ?d t \<longleftrightarrow>
      sc_Entity t = EntityAttempt \<and> (\<exists>r \<in> set (payment_attempts db). att_Status r = sc_From t \<and>
         sc_To t = (if ef_AttemptStatus e \<noteq> [] \<and> att_ID r = ag_AttemptID a then ef_AttemptStatus e else sc_From t)) \<or>
      sc_Entity t = EntityPayment \<and> (\<exists>r \<in> set (payments db). pay_Status r = sc_From t \<and>
         sc_To t = (if ef_PaymentStatus e \<noteq> [] \<and> pay_ID r = ag_PaymentID a then ef_PaymentStatus e else sc_From t)) \<or>
      sc_Entity t = EntityOrder \<and> (\<exists>r \<in> set (orders db). ord_Status r = sc_From t \<and>
         sc_To t = (if ef_OrderPaid e \<and> ord_ID r = ag_OrderID a then OrderStatusPaid else sc_From t))" for t
    using row_moved_update [OF key(3), of "\<lambda>r. r\<lparr>att_Status := ef_AttemptStatus e, att_UpdatedAt := now\<rparr>" att_Status]
      row_moved_update [OF key(2), of "\<lambda>r. r\<lparr>pay_Status := ef_PaymentStatus e, pay_UpdatedAt := now\<rparr>" pay_Status]
      row_moved_update [OF key(1), of "\<lambda>r. r\<lparr>ord_Status := OrderStatusPaid, ord_UpdatedAt := now\<rparr>" ord_Status]
    by (simp add: status_moved_def after_effect_def)
  have paid: "OrderStatusPaid = ''paid''" by (simp add: OrderStatusPaid_def)
  show "status_moved db ?d t" if "t \<in> set (transitions a e)"
    using that rows ids st unfolding moved by (auto simp: transitions_def paid split: if_splits)
  show "t \<in> set (transitions a e)" if "status_moved db ?d t" "sc_From t \<noteq> sc_To t"
    using that unfolding moved by (cases t) (auto simp: transitions_def paid st split: if_splits dest!: one two three)
qed

text \<open>The labels of a transition are its own words: every status a row can have is in the vocabulary.\<close>

lemma status_words:
  assumes "schema_ok db"
  shows "r \<in> set (payment_attempts db) \<Longrightarrow> att_Status r \<in> set statuses" "p \<in> set (payments db) \<Longrightarrow> pay_Status p \<in> set statuses"
    "q \<in> set (orders db) \<Longrightarrow> ord_Status q \<in> set statuses"
  using assms unfolding schema_ok_def table_ok_defs list_all_iff check_defs statuses_def
  by (auto simp: OrderStatusPending_def OrderStatusPaid_def OrderStatusCancelled_def OrderStatusExpired_def
      PaymentStatusPending_def PaymentStatusProcessing_def PaymentStatusSucceeded_def PaymentStatusFailed_def PaymentStatusCancelled_def
      PaymentStatusPartiallyRefunded_def PaymentStatusRefunded_def AttemptStatusCreated_def AttemptStatusPending_def
      AttemptStatusSucceeded_def AttemptStatusFailed_def AttemptStatusExpired_def AttemptStatusCancelled_def)

lemma Normalize_status: "s \<in> set statuses \<Longrightarrow> Attr LabelFrom s = (LabelFrom, s) \<and> Attr LabelTo s = (LabelTo, s)"
proof -
  have "allowed_values LabelFrom = Some statuses" "allowed_values LabelTo = Some statuses" by code_simp+
  then show "s \<in> set statuses \<Longrightarrow> ?thesis" by (simp add: Attr_def Normalize_def)
qed

lemma Attr_entity: "x \<in> {EntityAttempt, EntityPayment, EntityOrder} \<Longrightarrow> Attr LabelEntity x = (LabelEntity, x)"
proof -
  have "allowed_values LabelEntity = Some [EntityOrder, EntityPayment, EntityAttempt]" by code_simp
  then show "x \<in> {EntityAttempt, EntityPayment, EntityOrder} \<Longrightarrow> ?thesis" by (auto simp: Attr_def Normalize_def)
qed

lemma moved_labels:
  assumes "schema_ok db" and "schema_ok db'" and "status_moved db db' t"
  shows "transition_labels t = [(LabelEntity, sc_Entity t), (LabelFrom, sc_From t), (LabelTo, sc_To t)]"
proof -
  from assms(3) status_words [OF assms(1)] status_words [OF assms(2)]
  have "sc_From t \<in> set statuses \<and> sc_To t \<in> set statuses \<and> sc_Entity t \<in> {EntityAttempt, EntityPayment, EntityOrder}"
    by (simp add: status_moved_def row_moved_def) (elim disjE conjE bexE; metis)
  with Normalize_status Attr_entity show ?thesis by (simp add: transition_labels_def)
qed

lemma RecordFailure_frame:
  assumes "EventRepository_RecordFailure f now db i c t mx = (db', r)"
  shows "orders db' = orders db \<and> payments db' = payments db \<and> payment_attempts db' = payment_attempts db"
  using assms by (auto simp: EventRepository_RecordFailure_def autocommit_def RecordWebhookEventFailure_def Let_def exec_write_def
      split: fault.splits option.splits sum.splits prod.splits if_splits)

lemma same_tables_moved:
  assumes "schema_ok db" and "orders db' = orders db" "payments db' = payments db" "payment_attempts db' = payment_attempts db"
  shows "status_moved db db' t \<Longrightarrow> sc_From t = sc_To t"
  using assms(2-4) row_moved_same [OF schema_okD(1) [OF assms(1)]] row_moved_same [OF schema_okD(3) [OF assms(1)]]
    row_moved_same [OF schema_okD(5) [OF assms(1)]]
  by (auto simp: status_moved_def)

lemma handled_moves:
  assumes "schema_ok db"
    and "handle (EventRepository_Process fs now) (EventRepository_RecordFailure f now') pr interp (\<lambda>_ _. None) mx db i =
      (db', r, rep, told)"
  shows "schema_ok db'" and "t \<in> set (rp_Transitions rep) \<Longrightarrow> status_moved db db' t"
    and "r = Inr d \<Longrightarrow> h_Disposition d = DispositionDone \<Longrightarrow> status_moved db db' t \<Longrightarrow> sc_From t \<noteq> sc_To t \<Longrightarrow>
      t \<in> set (rp_Transitions rep)"
proof -
  obtain s1 q cap where run: "EventRepository_Process fs now db i (handle_resolve pr interp) (handle_decide pr) = (s1, q, cap)"
    by (cases "EventRepository_Process fs now db i (handle_resolve pr interp) (handle_decide pr)") auto
  note ok = Process_status [OF assms(1) run]
  have "schema_ok db' \<and> (t \<in> set (rp_Transitions rep) \<longrightarrow> status_moved db db' t) \<and>
    (r = Inr d \<and> h_Disposition d = DispositionDone \<and> status_moved db db' t \<and> sc_From t \<noteq> sc_To t \<longrightarrow> t \<in> set (rp_Transitions rep))"
  proof (cases q)
    case (Inl cause)
    with run assms(2) have "classify (EventRepository_RecordFailure f now') mx s1 i cause = (db', r, rep, told)"
      by (simp add: handle_def)
    then obtain z where "EventRepository_RecordFailure f now' s1 i cause (isTerminal cause) mx = (db', z)" "rp_Transitions rep = []"
        "\<And>d. r = Inr d \<Longrightarrow> h_Disposition d \<noteq> DispositionDone"
      by (auto simp: classify_def empty_report_def Let_def split: prod.splits sum.splits if_splits)
    with RecordFailure_safe ok show ?thesis by auto
  next
    case (Inr res)
    with run assms(2) have s1: "db' = s1" and rep: "rp_Transitions rep =
        (case cap of Some (a, e) \<Rightarrow> if pr_Applied res then transitions a e else [] | None \<Rightarrow> [])"
      by (auto simp: handle_def empty_report_def)
    from assms(1) run show ?thesis
    proof (cases rule: Process_cases)
      case unchanged
      with Inr have "cap = None" "db' = db" using s1 by auto
      with rep same_tables_moved [OF assms(1)] assms(1) show ?thesis by auto
    next
      case (effect e ref x row a eff)
      have "pr_Applied res \<longleftrightarrow> ef_AttemptStatus eff \<noteq> [] \<or> ef_PaymentStatus eff \<noteq> [] \<or> ef_OrderPaid eff"
        using effect(12) [OF Inr] by simp
      then have "rp_Transitions rep = transitions a eff" using rep effect(11) by (auto simp: transitions_def)
      with effect_moves_rows [OF assms(1) effect(7,5), where e = eff and now = now and i = i and t = t] effect(8,9) s1
      show ?thesis by auto
    qed
  qed
  then show "schema_ok db'" and "t \<in> set (rp_Transitions rep) \<Longrightarrow> status_moved db db' t"
    and "r = Inr d \<Longrightarrow> h_Disposition d = DispositionDone \<Longrightarrow> status_moved db db' t \<Longrightarrow> sc_From t \<noteq> sc_To t \<Longrightarrow>
      t \<in> set (rp_Transitions rep)" by auto
qed

lemma handle_report:
  assumes "handle process rf pr interp after mx s i = (s', r, rep, told)" and "rp_Transitions rep \<noteq> []"
  shows "rp_Applied rep \<and> rp_Disposition rep = DispositionDone \<and> (\<exists>d. r = Inr d)"
  using assms by (auto simp: handle_def classify_def empty_report_def Let_def split: prod.splits sum.splits option.splits if_splits)


lemma handle_sample:
  "handle (EventRepository_Process no_faults 10) (EventRepository_RecordFailure NoFault 10) Stripe (\<lambda>_. Inr sample_outcome)
      (\<lambda>_ _. None) 10 sample_db ''evt_1'' = (sample_after,
        Inr \<lparr>h_Disposition = DispositionDone, h_Attempts = 0, h_Cause = None, h_Note = [], h_Applied = True\<rparr>,
        empty_report\<lparr>rp_Applied := True, rp_AlreadyProcessed := False,
          rp_Transitions := transitions (aggregate_of_row sample_row) sample_effect\<rparr>,
        [EventApplied ''evt_1'' sample_effect])"
  by (simp add: handle_def sample_run)


end
