(* ===== verification/Sandbox_Events.thy ===== *)
theory Sandbox_Events
  imports Stripe Digits
begin

text \<open>
  The events the sandbox emits (\<^verbatim>\<open>internal/sandbox/events.go\<close>): a versioned fixture, filled with the
  references of a local checkout. \<open>fixture_files\<close> is the content of the embedded JSON files, decoded;
  encoding the event and the hash are arguments, as are the random bytes.
\<close>

section \<open>Scenarios\<close>

record sandbox_reference =
  sr_OrderID :: string
  sr_PaymentID :: string
  sr_AttemptID :: string
  sr_SessionID :: string
  sr_PaymentIntentID :: string
  sr_Amount :: int
  sr_Currency :: string

record scenario =
  sn_Name :: string
  sn_Fixture :: string
  sn_OrderStatus :: string
  sn_PaymentStatus :: string
  sn_AttemptStatus :: string
  sn_WebhookStatus :: string
  sn_OutboxStatus :: string

definition scenarios :: "string \<Rightarrow> scenario option" where
  "scenarios =
     [''card-paid'' \<mapsto>
        \<lparr>sn_Name = ''card-paid'', sn_Fixture = ''fixtures/card-paid.json'', sn_OrderStatus = ''paid'',
         sn_PaymentStatus = ''succeeded'', sn_AttemptStatus = ''succeeded'', sn_WebhookStatus = ''processed'',
         sn_OutboxStatus = ''published''\<rparr>,
      ''pix-processing'' \<mapsto>
        \<lparr>sn_Name = ''pix-processing'', sn_Fixture = ''fixtures/pix-processing.json'', sn_OrderStatus = ''pending'',
         sn_PaymentStatus = ''processing'', sn_AttemptStatus = ''pending'', sn_WebhookStatus = ''processed'',
         sn_OutboxStatus = ''published''\<rparr>,
      ''pix-succeeded'' \<mapsto>
        \<lparr>sn_Name = ''pix-succeeded'', sn_Fixture = ''fixtures/pix-succeeded.json'', sn_OrderStatus = ''paid'',
         sn_PaymentStatus = ''succeeded'', sn_AttemptStatus = ''succeeded'', sn_WebhookStatus = ''processed'',
         sn_OutboxStatus = ''published''\<rparr>,
      ''pix-failed'' \<mapsto>
        \<lparr>sn_Name = ''pix-failed'', sn_Fixture = ''fixtures/pix-failed.json'', sn_OrderStatus = ''pending'',
         sn_PaymentStatus = ''failed'', sn_AttemptStatus = ''failed'', sn_WebhookStatus = ''processed'',
         sn_OutboxStatus = ''published''\<rparr>,
      ''checkout-expired'' \<mapsto>
        \<lparr>sn_Name = ''checkout-expired'', sn_Fixture = ''fixtures/checkout-expired.json'', sn_OrderStatus = ''pending'',
         sn_PaymentStatus = ''pending'', sn_AttemptStatus = ''expired'', sn_WebhookStatus = ''processed'',
         sn_OutboxStatus = ''published''\<rparr>]"

definition ScenarioNames :: "string list" where
  "ScenarioNames = [''card-paid'', ''pix-processing'', ''pix-succeeded'', ''pix-failed'', ''checkout-expired'']"

section \<open>Fixtures\<close>

record fixture_object =
  fo_ID :: string
  fo_Object :: string

record fixture_session =
  fx_ID :: string
  fx_Object :: string
  fx_PaymentStatus :: string
  fx_Status :: string
  fx_AmountTotal :: int
  fx_Currency :: string
  fx_ClientReferenceID :: string
  fx_PaymentIntent :: "fixture_object option"
  fx_Metadata :: "string \<rightharpoonup> string"

record fixture_envelope =
  fe_ID :: string
  fe_Object :: string
  fe_APIVersion :: string
  fe_Created :: int
  fe_Type :: string
  fe_Session :: fixture_session

text \<open>The five files only differ in the type of the event and the status of the payment and the session.\<close>

definition fixture_of :: "string \<Rightarrow> string \<Rightarrow> string \<Rightarrow> fixture_envelope" where
  "fixture_of type paymentStatus status =
     \<lparr>fe_ID = ''evt_fixture'', fe_Object = ''event'', fe_APIVersion = ''fixture'', fe_Created = 0, fe_Type = type,
      fe_Session = \<lparr>fx_ID = ''cs_fixture'', fx_Object = ''checkout.session'', fx_PaymentStatus = paymentStatus, fx_Status = status,
        fx_AmountTotal = 0, fx_Currency = ''brl'', fx_ClientReferenceID = ''ord_fixture'',
        fx_PaymentIntent = Some \<lparr>fo_ID = ''pi_fixture'', fo_Object = ''payment_intent''\<rparr>,
        fx_Metadata = [''order_id'' \<mapsto> ''ord_fixture'', ''payment_id'' \<mapsto> ''pay_fixture'', ''payment_attempt_id'' \<mapsto> ''pat_fixture'']\<rparr>\<rparr>"

definition fixture_files :: "string \<Rightarrow> fixture_envelope option" where
  "fixture_files =
     [''fixtures/card-paid.json'' \<mapsto> fixture_of ''checkout.session.completed'' ''paid'' ''complete'',
      ''fixtures/pix-processing.json'' \<mapsto> fixture_of ''checkout.session.completed'' ''unpaid'' ''complete'',
      ''fixtures/pix-succeeded.json'' \<mapsto> fixture_of ''checkout.session.async_payment_succeeded'' ''paid'' ''complete'',
      ''fixtures/pix-failed.json'' \<mapsto> fixture_of ''checkout.session.async_payment_failed'' ''unpaid'' ''complete'',
      ''fixtures/checkout-expired.json'' \<mapsto> fixture_of ''checkout.session.expired'' ''unpaid'' ''expired'']"

section \<open>Rendering\<close>

text \<open>\<^verbatim>\<open>randomSuffix\<close> (client.go), of the bytes the system drew.\<close>

definition randomSuffix :: "string result \<Rightarrow> string result" where
  "randomSuffix random =
     (case random of
        Inl e \<Rightarrow> Inl (wrap ''generate sandbox identifier'' e)
      | Inr bytes \<Rightarrow> Inr (ToLower (hex_encode bytes)))"

definition Reference_validate :: "sandbox_reference \<Rightarrow> goerr option" where
  "Reference_validate r =
     (if TrimSpace (sr_OrderID r) = [] \<or> TrimSpace (sr_PaymentID r) = [] \<or> TrimSpace (sr_AttemptID r) = [] \<or>
         TrimSpace (sr_SessionID r) = []
      then Some (NewError ''sandbox reference requires order, payment, attempt and Checkout Session ids'')
      else if sr_Amount r \<le> 0 \<or> length (sr_Currency r) \<noteq> 3
      then Some (NewError ''sandbox reference requires a positive amount and three-letter currency'')
      else None)"

text \<open>\<^verbatim>\<open>time.Time.Unix\<close>.\<close>

definition unix_seconds :: "instant \<Rightarrow> int" where
  "unix_seconds t = t div Second - 62135596800"

definition fill_fixture :: "string \<Rightarrow> string \<Rightarrow> sandbox_reference \<Rightarrow> instant \<Rightarrow> fixture_envelope \<Rightarrow> fixture_envelope" where
  "fill_fixture version eventID r now ev =
     ev\<lparr>fe_ID := eventID, fe_APIVersion := version, fe_Created := unix_seconds (UTC now),
        fe_Session := (fe_Session ev)
          \<lparr>fx_ID := sr_SessionID r, fx_AmountTotal := sr_Amount r, fx_Currency := ToLower (sr_Currency r),
           fx_ClientReferenceID := sr_OrderID r,
           fx_PaymentIntent :=
             (if sr_PaymentIntentID r = [] then None
              else map_option (\<lambda>i. i\<lparr>fo_ID := sr_PaymentIntentID r\<rparr>) (fx_PaymentIntent (fe_Session ev))),
           fx_Metadata := [''order_id'' \<mapsto> sr_OrderID r, ''payment_id'' \<mapsto> sr_PaymentID r, ''payment_attempt_id'' \<mapsto> sr_AttemptID r]\<rparr>\<rparr>"

definition RenderEvent ::
  "(fixture_envelope \<Rightarrow> string result) \<Rightarrow> string \<Rightarrow> string result \<Rightarrow> string \<Rightarrow> string \<Rightarrow> sandbox_reference \<Rightarrow> instant \<Rightarrow>
   (string \<times> scenario \<times> string) result" where
  "RenderEvent marshal version random name eventID r now =
     (case scenarios name of
        None \<Rightarrow> Inl (Errorf [T ''unknown scenario '', T (quoted name), T ''; choose '', T (join_with '', '' ScenarioNames)])
      | Some sn \<Rightarrow>
     (case (if TrimSpace eventID = [] then (case randomSuffix random of Inl e \<Rightarrow> Inl e | Inr suffix \<Rightarrow> Inr (''evt_sandbox_'' @ suffix))
            else Inr eventID) of
        Inl e \<Rightarrow> Inl e
      | Inr resolved \<Rightarrow>
     (case Reference_validate r of
        Some e \<Rightarrow> Inl e
      | None \<Rightarrow>
     (case fixture_files (sn_Fixture sn) of
        None \<Rightarrow> Inl (NewError ''read sandbox fixture: file does not exist'')
      | Some ev \<Rightarrow>
     (case marshal (fill_fixture version resolved r now ev) of
        Inl e \<Rightarrow> Inl (wrap ''encode sandbox fixture'' e)
      | Inr payload \<Rightarrow> Inr (payload, sn, resolved))))))"

definition StripeSignature :: "(string \<Rightarrow> string \<Rightarrow> string) \<Rightarrow> string \<Rightarrow> string \<Rightarrow> instant \<Rightarrow> string result" where
  "StripeSignature hmac_sha256 payload secret now =
     (if \<not> has_prefix secret ''whsec_'' then Inl (NewError ''webhook secret must begin with whsec_'')
      else Inr (''t='' @ itoa (unix_seconds now) @ '',v1='' @
             hex_encode (hmac_sha256 secret (itoa (unix_seconds now) @ ''.'' @ payload))))"

end
