(* ===== verification/Sandbox_Store.thy ===== *)
theory Sandbox_Store
  imports Sandbox_Events Queries
begin

text \<open>
  The sandbox's own view of the tables (\<^verbatim>\<open>internal/sandbox/store.go\<close>): the reference of an order's latest
  checkout, the state its commands show and wait for, and the removal of one order the tool created. What
  \<^verbatim>\<open>#>>\<close> reads from a stored payload is an argument: the order identifier in the metadata and the client
  reference.
\<close>

section \<open>Reading\<close>

record aggregate_status =
  as_OrderID :: string
  as_OrderStatus :: string
  as_PaymentID :: string
  as_PaymentStatus :: string
  as_AttemptID :: string
  as_AttemptStatus :: string
  as_ProviderEvent :: string
  as_WebhookStatus :: string
  as_OutboxStatus :: string

definition no_status :: aggregate_status where
  "no_status = \<lparr>as_OrderID = [], as_OrderStatus = [], as_PaymentID = [], as_PaymentStatus = [], as_AttemptID = [],
     as_AttemptStatus = [], as_ProviderEvent = [], as_WebhookStatus = [], as_OutboxStatus = []\<rparr>"

text \<open>The join both statements share, newest attempt first, and its first row. Rows of one instant come in
  the order of the table.\<close>

definition checkout_rows :: "string \<Rightarrow> database \<Rightarrow> (order_row \<times> payment_row \<times> attempt_row) list" where
  "checkout_rows orderID db =
     concat (map (\<lambda>q. concat (map (\<lambda>p. map (\<lambda>a. (q, p, a))
         (filter (\<lambda>a. att_PaymentID a = pay_ID p) (payment_attempts db)))
       (filter (\<lambda>p. pay_OrderID p = ord_ID q) (payments db))))
     (filter (\<lambda>q. ord_ID q = orderID) (orders db)))"

definition latest_checkout :: "string \<Rightarrow> (order_row \<times> payment_row \<times> attempt_row) option stmt" where
  "latest_checkout orderID db =
     Inr (case sort_key (\<lambda>(q, p, a). - att_CreatedAt a) (checkout_rows orderID db) of [] \<Rightarrow> None | x # xs \<Rightarrow> Some x, db)"

text \<open>A null session identifier cannot be scanned into a string.\<close>

definition Store_Reference :: "fault \<Rightarrow> string \<Rightarrow> database \<Rightarrow> sandbox_reference result" where
  "Store_Reference f orderID db =
     (case snd (autocommit f (latest_checkout orderID) db) of
        Inl e \<Rightarrow> Inl (wrap ''read sandbox checkout reference'' e)
      | Inr None \<Rightarrow> Inl (Errorf [T ''sandbox order '', T (quoted orderID), T '' or its checkout was not found''])
      | Inr (Some (q, p, a)) \<Rightarrow>
          (case att_ProviderSessionID a of
             None \<Rightarrow> Inl (wrap ''read sandbox checkout reference'' (External ''converting NULL to string is unsupported''))
           | Some sessionID \<Rightarrow>
               if \<not> has_prefix (ord_IdempotencyKey q) ''sandbox_order_''
               then Inl (Errorf [T ''order '', T (quoted orderID), T '' was not created by the sandbox tool''])
               else Inr \<lparr>sr_OrderID = ord_ID q, sr_PaymentID = pay_ID p, sr_AttemptID = att_ID a, sr_SessionID = sessionID,
                      sr_PaymentIntentID = (case att_ProviderPaymentIntentID a of None \<Rightarrow> [] | Some i \<Rightarrow> i),
                      sr_Amount = pay_Amount p, sr_Currency = pay_Currency p\<rparr>))"

definition event_pipeline :: "string \<Rightarrow> (string \<times> string) option stmt" where
  "event_pipeline providerEventID db =
     Inr (map_option (\<lambda>w. (evt_Status w,
            case find (\<lambda>ob. obx_WebhookEventID ob = evt_ID w) (outbox_events db) of None \<Rightarrow> [] | Some ob \<Rightarrow> obx_Status ob))
          (find (\<lambda>w. evt_Provider w = ''stripe'' \<and> evt_ProviderEventID w = providerEventID) (webhook_events db)), db)"

text \<open>Two statements; others may commit between them, so each has the tables it reads.\<close>

definition Store_Status :: "faults \<Rightarrow> database \<Rightarrow> database \<Rightarrow> string \<Rightarrow> string \<Rightarrow> aggregate_status result" where
  "Store_Status fs db db' orderID providerEventID =
     (case snd (autocommit (fs 0) (latest_checkout orderID) db) of
        Inl e \<Rightarrow> Inl (wrap ''read sandbox aggregate'' e)
      | Inr None \<Rightarrow> Inl (Errorf [T ''sandbox order '', T (quoted orderID), T '' was not found''])
      | Inr (Some (q, p, a)) \<Rightarrow>
          (let status = no_status\<lparr>as_OrderID := ord_ID q, as_OrderStatus := ord_Status q, as_PaymentID := pay_ID p,
                 as_PaymentStatus := pay_Status p, as_AttemptID := att_ID a, as_AttemptStatus := att_Status a\<rparr>
           in if providerEventID = [] then Inr status
              else case snd (autocommit (fs 1) (event_pipeline providerEventID) db') of
                Inl e \<Rightarrow> Inl (wrap ''read sandbox pipeline state'' e)
              | Inr None \<Rightarrow> Inr (status\<lparr>as_ProviderEvent := providerEventID\<rparr>)
              | Inr (Some (w, ob)) \<Rightarrow>
                  Inr (status\<lparr>as_ProviderEvent := providerEventID, as_WebhookStatus := w, as_OutboxStatus := ob\<rparr>)))"

section \<open>Waiting\<close>

definition Scenario_matches :: "scenario \<Rightarrow> aggregate_status \<Rightarrow> bool" where
  "Scenario_matches sn st \<longleftrightarrow>
     as_OrderStatus st = sn_OrderStatus sn \<and> as_PaymentStatus st = sn_PaymentStatus sn \<and>
     as_AttemptStatus st = sn_AttemptStatus sn \<and> as_WebhookStatus st = sn_WebhookStatus sn \<and>
     as_OutboxStatus st = sn_OutboxStatus sn"

text \<open>The polling loop: what is read in round \<open>n\<close>, and the error of the context when it is done after that
  round. It may go on for ever. Besides an error it returns what was read last; the model adds the round it
  ended in.\<close>

partial_function (option) WaitForScenario ::
  "(nat \<Rightarrow> aggregate_status result) \<Rightarrow> (nat \<Rightarrow> goerr option) \<Rightarrow> scenario \<Rightarrow> nat \<Rightarrow>
   (aggregate_status \<times> goerr option \<times> nat) option" where
  "WaitForScenario read finished sn n =
     (case read n of
        Inl e \<Rightarrow> Some (no_status, Some e, n)
      | Inr status \<Rightarrow>
          if Scenario_matches sn status then Some (status, None, n)
          else case finished n of
            Some e \<Rightarrow> Some (status, Some (Errorf [T ''wait for '', T (sn_Name sn), T '': '', W e]), n)
          | None \<Rightarrow> WaitForScenario read finished sn (Suc n))"

text \<open>\<^verbatim>\<open>WaitForOrder\<close>, over what the API answers.\<close>

partial_function (option) WaitForOrder ::
  "(nat \<Rightarrow> (string \<times> 'o) result) \<Rightarrow> (nat \<Rightarrow> goerr option) \<Rightarrow> 'o \<Rightarrow> string \<Rightarrow> nat \<Rightarrow>
   ('o \<times> goerr option \<times> nat) option" where
  "WaitForOrder get finished none expected n =
     (case get n of
        Inl e \<Rightarrow> Some (none, Some e, n)
      | Inr (status, ord) \<Rightarrow>
          if status = expected then Some (ord, None, n)
          else case finished n of
            Some e \<Rightarrow> Some (ord, Some (Errorf [T ''wait for order status '', T (quoted expected), T '': '', W e]), n)
          | None \<Rightarrow> WaitForOrder get finished none expected (Suc n))"

text \<open>Once the context is done, at the latest, the waiting ends.\<close>

lemma WaitForScenario_ends:
  assumes "n \<le> m" and "finished m \<noteq> None"
  shows "\<exists>st e k. WaitForScenario read finished sn n = Some (st, e, k) \<and> n \<le> k \<and> k \<le> m"
  using assms
proof (induction rule: inc_induct)
  case base
  then show ?case by (subst WaitForScenario.simps) (auto split: sum.split)
next
  case (step n)
  show ?case
  proof (cases "\<exists>st. read n = Inr st \<and> \<not> Scenario_matches sn st \<and> finished n = None")
    case True
    then have "WaitForScenario read finished sn n = WaitForScenario read finished sn (Suc n)"
      by (subst WaitForScenario.simps) auto
    with step show ?thesis by (metis Suc_leD)
  next
    case False
    then show ?thesis using step.hyps by (subst WaitForScenario.simps) (auto split: sum.split option.split)
  qed
qed

lemma WaitForOrder_ends:
  assumes "n \<le> m" and "finished m \<noteq> None"
  shows "\<exists>st e k. WaitForOrder get finished none expected n = Some (st, e, k) \<and> n \<le> k \<and> k \<le> m"
  using assms
proof (induction rule: inc_induct)
  case base
  then show ?case by (subst WaitForOrder.simps) (auto split: sum.split)
next
  case (step n)
  show ?case
  proof (cases "\<exists>st ord. get n = Inr (st, ord) \<and> st \<noteq> expected \<and> finished n = None")
    case True
    then have "WaitForOrder get finished none expected n = WaitForOrder get finished none expected (Suc n)"
      by (subst WaitForOrder.simps) auto
    with step show ?thesis by (metis Suc_leD)
  next
    case False
    then show ?thesis using step.hyps by (subst WaitForOrder.simps) (auto split: sum.split option.split)
  qed
qed

section \<open>Removing an order\<close>

record cleanup_result =
  cu_OrderID :: string
  cu_Orders :: int
  cu_Payments :: int
  cu_Attempts :: int
  cu_WebhookEvents :: int
  cu_OutboxEvents :: int

text \<open>What the two paths read in a stored payload.\<close>

record payload_paths =
  pp_metadata_order_id :: "string \<Rightarrow> string option"
  pp_client_reference_id :: "string \<Rightarrow> string option"

definition names_order :: "payload_paths \<Rightarrow> string \<Rightarrow> event_row \<Rightarrow> bool" where
  "names_order pp orderID w \<longleftrightarrow>
     pp_metadata_order_id pp (evt_Payload w) = Some orderID \<or> pp_client_reference_id pp (evt_Payload w) = Some orderID"

definition lock_sandbox_order :: "string \<Rightarrow> string option stmt" where
  "lock_sandbox_order orderID db = Inr (map_option ord_IdempotencyKey (find (\<lambda>q. ord_ID q = orderID) (orders db)), db)"

definition in_progress :: "database \<Rightarrow> event_row \<Rightarrow> bool" where
  "in_progress db w \<longleftrightarrow>
     evt_Status w \<in> {InboxPending, InboxProcessing} \<or>
     (case find (\<lambda>ob. obx_WebhookEventID ob = evt_ID w) (outbox_events db) of
        None \<Rightarrow> False | Some ob \<Rightarrow> obx_Status ob \<notin> {''published'', ''failed''})"

definition count_busy :: "payload_paths \<Rightarrow> string \<Rightarrow> int stmt" where
  "count_busy pp orderID db =
     Inr (int (length (filter (\<lambda>w. names_order pp orderID w \<and> in_progress db w) (webhook_events db))), db)"

definition delete_rows :: "('r \<Rightarrow> bool) \<Rightarrow> 'r list \<Rightarrow> (database \<Rightarrow> 'r list \<Rightarrow> database) \<Rightarrow> int stmt" where
  "delete_rows p t put db = exec_write (put db (filter (\<lambda>r. \<not> p r) t)) (int (affected p t))"

definition delete_outbox :: "payload_paths \<Rightarrow> string \<Rightarrow> int stmt" where
  "delete_outbox pp orderID db =
     delete_rows (\<lambda>ob. \<exists>w \<in> set (webhook_events db). names_order pp orderID w \<and> evt_ID w = obx_WebhookEventID ob)
       (outbox_events db) (\<lambda>db t. db\<lparr>outbox_events := t\<rparr>) db"

definition delete_events :: "payload_paths \<Rightarrow> string \<Rightarrow> int stmt" where
  "delete_events pp orderID db =
     delete_rows (names_order pp orderID) (webhook_events db) (\<lambda>db t. db\<lparr>webhook_events := t\<rparr>) db"

definition delete_attempts :: "string \<Rightarrow> int stmt" where
  "delete_attempts orderID db =
     delete_rows (\<lambda>a. \<exists>p \<in> set (payments db). pay_OrderID p = orderID \<and> pay_ID p = att_PaymentID a)
       (payment_attempts db) (\<lambda>db t. db\<lparr>payment_attempts := t\<rparr>) db"

definition delete_payments :: "string \<Rightarrow> int stmt" where
  "delete_payments orderID db =
     delete_rows (\<lambda>p. pay_OrderID p = orderID) (payments db) (\<lambda>db t. db\<lparr>payments := t\<rparr>) db"

definition delete_order :: "string \<Rightarrow> int stmt" where
  "delete_order orderID db =
     delete_rows (\<lambda>q. ord_ID q = orderID) (orders db) (\<lambda>db t. db\<lparr>orders := t\<rparr>) db"

text \<open>\<^verbatim>\<open>execRows\<close>.\<close>

definition execRows :: "fault \<Rightarrow> int stmt \<Rightarrow> int stmt" where
  "execRows f s w = (case in_tx f s w of Inl e \<Rightarrow> Inl (wrap ''delete sandbox rows'' e) | Inr r \<Rightarrow> Inr r)"

definition cleanup_deletes :: "faults \<Rightarrow> payload_paths \<Rightarrow> string \<Rightarrow> cleanup_result stmt" where
  "cleanup_deletes fs pp orderID w =
     (case execRows (fs 3) (delete_outbox pp orderID) w of Inl e \<Rightarrow> Inl e | Inr (n1, w1) \<Rightarrow>
     (case execRows (fs 4) (delete_events pp orderID) w1 of Inl e \<Rightarrow> Inl e | Inr (n2, w2) \<Rightarrow>
     (case execRows (fs 5) (delete_attempts orderID) w2 of Inl e \<Rightarrow> Inl e | Inr (n3, w3) \<Rightarrow>
     (case execRows (fs 6) (delete_payments orderID) w3 of Inl e \<Rightarrow> Inl e | Inr (n4, w4) \<Rightarrow>
     (case execRows (fs 7) (delete_order orderID) w4 of Inl e \<Rightarrow> Inl e | Inr (n5, w5) \<Rightarrow>
        Inr (\<lparr>cu_OrderID = orderID, cu_Orders = n5, cu_Payments = n4, cu_Attempts = n3, cu_WebhookEvents = n2,
              cu_OutboxEvents = n1\<rparr>, w5))))))"

definition Store_Cleanup :: "faults \<Rightarrow> payload_paths \<Rightarrow> string \<Rightarrow> database \<Rightarrow> database \<times> cleanup_result result" where
  "Store_Cleanup fs pp orderID db =
     (case begin_tx (fs 0) of
        Some e \<Rightarrow> (db, Inl (wrap ''begin sandbox cleanup'' e))
      | None \<Rightarrow>
     (case in_tx (fs 1) (lock_sandbox_order orderID) db of
        Inl e \<Rightarrow> (db, Inl (wrap ''lock sandbox order'' e))
      | Inr (None, w) \<Rightarrow> (db, Inl (Errorf [T ''sandbox order '', T (quoted orderID), T '' was not found'']))
      | Inr (Some key, w) \<Rightarrow>
          if \<not> has_prefix key ''sandbox_order_''
          then (db, Inl (Errorf [T ''refusing to delete order '', T (quoted orderID), T '': it was not created by the sandbox tool'']))
          else
     (case in_tx (fs 2) (count_busy pp orderID) w of
        Inl e \<Rightarrow> (db, Inl (wrap ''check sandbox work in progress'' e))
      | Inr (busy, w) \<Rightarrow>
          if busy \<noteq> 0
          then (db, Inl (Errorf [T ''refusing to delete order '', T (quoted orderID), T '' while '', T (itoa busy),
                         T '' event(s) are still in progress'']))
          else
     (case cleanup_deletes fs pp orderID w of
        Inl e \<Rightarrow> (db, Inl e)
      | Inr (res, w) \<Rightarrow>
     (case commit_tx (fs 8) db w of
        (db', Some e) \<Rightarrow> (db', Inl (wrap ''commit sandbox cleanup'' e))
      | (db', None) \<Rightarrow> (db', Inr res))))))"

end
