(* ===== verification/Sandbox_Cleanup.thy ===== *)
theory Sandbox_Cleanup
  imports Sandbox_Store Ledger
begin

text \<open>
  What removing a sandbox order does to the tables. The statements of the transaction are read over one
  state; the code only locks the order, so what others commit in between is not excluded by it.
\<close>

section \<open>Deleting rows\<close>

lemma unique_on_filter: "unique_on q key t \<Longrightarrow> unique_on q key (filter p t)"
proof -
  have "filter q (filter p t) = filter p (filter q t)" by (simp add: conj_commute)
  then show "unique_on q key t \<Longrightarrow> ?thesis" by (simp add: unique_on_def distinct_map_filter del: filter_filter)
qed

lemma delete_rows_Inr:
  "delete_rows p t put db = Inr (n, db') \<longleftrightarrow>
    schema_ok (put db (filter (\<lambda>r. \<not> p r) t)) \<and> db' = put db (filter (\<lambda>r. \<not> p r) t) \<and> n = int (affected p t)"
  by (auto simp: delete_rows_def exec_write_Inr)

lemmas table_filters = list_all_iff list_ex_iff distinct_map_filter unique_on_filter

lemma outbox_deletable: "schema_ok db \<Longrightarrow> schema_ok (db\<lparr>outbox_events := filter p (outbox_events db)\<rparr>)"
  by (auto simp: schema_ok_def table_ok_defs table_filters)

lemma events_deletable:
  "schema_ok db \<Longrightarrow> (\<And>m w. m \<in> set (outbox_events db) \<Longrightarrow> w \<in> set (webhook_events db) \<Longrightarrow> evt_ID w = obx_WebhookEventID m \<Longrightarrow> p w) \<Longrightarrow>
   schema_ok (db\<lparr>webhook_events := filter p (webhook_events db)\<rparr>)"
  by (fastforce simp: schema_ok_def table_ok_defs table_filters)

lemma attempts_deletable: "schema_ok db \<Longrightarrow> schema_ok (db\<lparr>payment_attempts := filter p (payment_attempts db)\<rparr>)"
  by (auto simp: schema_ok_def table_ok_defs table_filters)

lemma payments_deletable:
  "schema_ok db \<Longrightarrow> (\<And>a r. a \<in> set (payment_attempts db) \<Longrightarrow> r \<in> set (payments db) \<Longrightarrow> pay_ID r = att_PaymentID a \<Longrightarrow> p r) \<Longrightarrow>
   schema_ok (db\<lparr>payments := filter p (payments db)\<rparr>)"
  by (fastforce simp: schema_ok_def table_ok_defs table_filters)

lemma orders_deletable:
  "schema_ok db \<Longrightarrow> (\<And>r q. r \<in> set (payments db) \<Longrightarrow> q \<in> set (orders db) \<Longrightarrow> ord_ID q = pay_OrderID r \<Longrightarrow> p q) \<Longrightarrow>
   schema_ok (db\<lparr>orders := filter p (orders db)\<rparr>)"
  by (fastforce simp: schema_ok_def table_ok_defs table_filters)

section \<open>The tables without the order\<close>

definition attempt_of :: "database \<Rightarrow> string \<Rightarrow> attempt_row \<Rightarrow> bool" where
  "attempt_of db i a \<longleftrightarrow> (\<exists>p \<in> set (payments db). pay_OrderID p = i \<and> pay_ID p = att_PaymentID a)"

definition message_of :: "payload_paths \<Rightarrow> database \<Rightarrow> string \<Rightarrow> outbox_row \<Rightarrow> bool" where
  "message_of pp db i m \<longleftrightarrow> (\<exists>w \<in> set (webhook_events db). names_order pp i w \<and> evt_ID w = obx_WebhookEventID m)"

definition without_order :: "payload_paths \<Rightarrow> string \<Rightarrow> database \<Rightarrow> database" where
  "without_order pp i db = db
     \<lparr>outbox_events := filter (\<lambda>m. \<not> message_of pp db i m) (outbox_events db),
      webhook_events := filter (\<lambda>w. \<not> names_order pp i w) (webhook_events db),
      payment_attempts := filter (\<lambda>a. \<not> attempt_of db i a) (payment_attempts db),
      payments := filter (\<lambda>p. pay_OrderID p \<noteq> i) (payments db),
      orders := filter (\<lambda>q. ord_ID q \<noteq> i) (orders db)\<rparr>"

definition removed_counts :: "payload_paths \<Rightarrow> string \<Rightarrow> database \<Rightarrow> cleanup_result" where
  "removed_counts pp i db =
     \<lparr>cu_OrderID = i, cu_Orders = int (affected (\<lambda>q. ord_ID q = i) (orders db)),
      cu_Payments = int (affected (\<lambda>p. pay_OrderID p = i) (payments db)),
      cu_Attempts = int (affected (attempt_of db i) (payment_attempts db)),
      cu_WebhookEvents = int (affected (names_order pp i) (webhook_events db)),
      cu_OutboxEvents = int (affected (message_of pp db i) (outbox_events db))\<rparr>"

lemmas delete_defs = delete_outbox_def delete_events_def delete_attempts_def delete_payments_def delete_order_def

lemma cleanup_deletes_Inr:
  assumes "cleanup_deletes fs pp i db = Inr (res, w)"
  shows "w = without_order pp i db \<and> res = removed_counts pp i db \<and> schema_ok w"
  using assms
  by (auto simp: cleanup_deletes_def execRows_def in_tx_Inr delete_defs delete_rows_Inr without_order_def removed_counts_def
      message_of_def [abs_def] attempt_of_def [abs_def] names_order_def [abs_def] split: sum.splits prod.splits)

lemma without_order_ok:
  assumes "schema_ok db"
  shows "cleanup_deletes no_faults pp i db = Inr (removed_counts pp i db, without_order pp i db)"
proof -
  let ?w1 = "db\<lparr>outbox_events := filter (\<lambda>m. \<not> message_of pp db i m) (outbox_events db)\<rparr>"
  let ?w2 = "?w1\<lparr>webhook_events := filter (\<lambda>w. \<not> names_order pp i w) (webhook_events ?w1)\<rparr>"
  let ?w3 = "?w2\<lparr>payment_attempts := filter (\<lambda>a. \<not> attempt_of db i a) (payment_attempts ?w2)\<rparr>"
  let ?w4 = "?w3\<lparr>payments := filter (\<lambda>p. pay_OrderID p \<noteq> i) (payments ?w3)\<rparr>"
  let ?w5 = "?w4\<lparr>orders := filter (\<lambda>q. ord_ID q \<noteq> i) (orders ?w4)\<rparr>"
  have 1: "schema_ok ?w1" by (rule outbox_deletable [OF assms])
  have 2: "schema_ok ?w2" by (rule events_deletable [OF 1]) (auto simp: message_of_def)
  have 3: "schema_ok ?w3" by (rule attempts_deletable [OF 2])
  have 4: "schema_ok ?w4" by (rule payments_deletable [OF 3]) (auto simp: attempt_of_def)
  have 5: "schema_ok ?w5" by (rule orders_deletable [OF 4]) auto
  show ?thesis
    using 1 2 3 4 5
    by (simp add: cleanup_deletes_def execRows_def delete_defs delete_rows_def exec_write_def without_order_def removed_counts_def
        message_of_def [abs_def] attempt_of_def [abs_def])
qed

text \<open>The books balance without the order: its payments and their attempts go with it.\<close>

lemma without_order_ledger:
  assumes "schema_ok db" and "ledger_ok db"
  shows "ledger_ok (without_order pp i db)"
proof -
  let ?d = "without_order pp i db"
  note books = assms(2) [unfolded ledger_ok_def]
  have orders: "paid_orders ?d = paid_orders db - {i}" "settled_orders ?d = settled_orders db - {i}"
    by (auto simp: books_defs without_order_def)
  have own: "attempt_of db i a \<longleftrightarrow> pay_OrderID p = i" if p: "p \<in> set (payments db)" "pay_ID p = att_PaymentID a" for p a
  proof
    assume "attempt_of db i a"
    then obtain p' where "p' \<in> set (payments db)" "pay_OrderID p' = i" "pay_ID p' = att_PaymentID a" by (auto simp: attempt_of_def)
    moreover from this p have "p' = p" by (intro unique_keyD [OF schema_okD(3) [OF assms(1)]]) simp_all
    ultimately show "pay_OrderID p = i" by simp
  qed (use p in \<open>auto simp: attempt_of_def\<close>)
  have "succeeded_payments ?d = captured_payments ?d"
  proof (intro set_eqI iffI)
    fix x assume "x \<in> succeeded_payments ?d"
    then obtain p where p: "p \<in> set (payments db)" "pay_Status p = PaymentStatusSucceeded" "pay_OrderID p \<noteq> i" "x = pay_ID p"
      by (auto simp: succeeded_payments_def without_order_def)
    then have "x \<in> captured_payments db" using books by (auto simp: succeeded_payments_def)
    then obtain a where "a \<in> set (payment_attempts db)" "att_Status a = AttemptStatusSucceeded" "x = att_PaymentID a"
      by (auto simp: captured_payments_def)
    with p own [of p a] show "x \<in> captured_payments ?d"
      by (auto simp: captured_payments_def without_order_def intro!: image_eqI [of _ _ a])
  next
    fix x assume "x \<in> captured_payments ?d"
    then obtain a where a: "a \<in> set (payment_attempts db)" "att_Status a = AttemptStatusSucceeded" "\<not> attempt_of db i a" "x = att_PaymentID a"
      by (auto simp: captured_payments_def without_order_def)
    then have "x \<in> succeeded_payments db" using books by (auto simp: captured_payments_def)
    then obtain p where "p \<in> set (payments db)" "pay_Status p = PaymentStatusSucceeded" "x = pay_ID p"
      by (auto simp: succeeded_payments_def)
    with a own [of p a] show "x \<in> succeeded_payments ?d"
      by (auto simp: succeeded_payments_def without_order_def intro!: image_eqI [of _ _ p])
  qed
  with orders books show ?thesis by (auto simp: ledger_ok_def without_order_def)
qed

lemma Store_Cleanup_cases:
  assumes "Store_Cleanup fs pp i db = (db', r)"
  obtains (refused) "db' = db" "\<And>res. r \<noteq> Inr res"
  | (removed) q where "q \<in> set (orders db)" "ord_ID q = i" "has_prefix (ord_IdempotencyKey q) ''sandbox_order_''"
      "\<forall>w \<in> set (webhook_events db). names_order pp i w \<longrightarrow> \<not> in_progress db w"
      "db' = without_order pp i db" "schema_ok db'" "\<And>res. r = Inr res \<Longrightarrow> res = removed_counts pp i db"
proof -
  let ?busy = "filter (\<lambda>w. names_order pp i w \<and> in_progress db w) (webhook_events db)"
  have lock: "y = (map_option ord_IdempotencyKey (find (\<lambda>q. ord_ID q = i) (orders db)), db)"
    if "in_tx f (lock_sandbox_order i) db = Inr y" for f y
    using that by (auto simp: in_tx_def lock_sandbox_order_def split: fault.splits)
  have count: "y = (int (length ?busy), db)" if "in_tx f (count_busy pp i) db = Inr y" for f y
    using that by (auto simp: in_tx_def count_busy_def split: fault.splits)
  show thesis
  proof (cases "\<exists>res w. r = Inr res \<or> db' \<noteq> db")
    case False
    then show thesis by (intro refused) auto
  next
    case True
    from assms True obtain key w n w' res v where run:
      "in_tx (fs 1) (lock_sandbox_order i) db = Inr (Some key, w)" "has_prefix key ''sandbox_order_''"
      "in_tx (fs 2) (count_busy pp i) w = Inr (n, w')" "n = 0"
      "cleanup_deletes fs pp i w' = Inr (res, v)"
      "(case commit_tx (fs 8) db v of (db', None) \<Rightarrow> (db', Inr res)
         | (db', Some e) \<Rightarrow> (db', Inl (wrap ''commit sandbox cleanup'' e))) = (db', r)"
      unfolding Store_Cleanup_def by (auto split: option.splits sum.splits prod.splits if_splits)
    from lock [OF run(1)] obtain q where q: "q \<in> set (orders db)" "ord_ID q = i" "key = ord_IdempotencyKey q" and w: "w = db"
      by (auto simp: eq_commute [of "Some key"] dest: find_SomeD)
    note n = count [OF run(3) [unfolded w]]
    with run(4) have idle: "\<forall>w \<in> set (webhook_events db). names_order pp i w \<longrightarrow> \<not> in_progress db w"
      by (auto simp: filter_empty_conv)
    from n run(5) have v: "v = without_order pp i db \<and> res = removed_counts pp i db \<and> schema_ok v"
      by (intro cleanup_deletes_Inr) simp
    show thesis
    proof (cases "fs 8")
      case (Refused e)
      with run(6) show thesis by (intro refused) (auto simp: commit_tx_def)
    qed (use run(2,6) v q idle in \<open>auto simp: commit_tx_def intro!: removed [of q]\<close>)
  qed
qed


text \<open>The sample order as the tool creates one, its event consumed and its message published.\<close>

definition sandbox_db :: database where
  "sandbox_db = sample_db
     \<lparr>orders := [sample_order\<lparr>ord_IdempotencyKey := ''sandbox_order_1''\<rparr>],
      webhook_events := [sample_event\<lparr>evt_Status := InboxProcessed\<rparr>],
      outbox_events := [sample_message\<lparr>obx_Status := MessagePublished, obx_PublishedAt := Some 5\<rparr>]\<rparr>"

lemma sandbox_tables [simp]:
  "orders sandbox_db = [sample_order\<lparr>ord_IdempotencyKey := ''sandbox_order_1''\<rparr>]"
  "payments sandbox_db = [sample_payment]" "payment_attempts sandbox_db = [sample_attempt]"
  "webhook_events sandbox_db = [sample_event\<lparr>evt_Status := InboxProcessed\<rparr>]"
  "outbox_events sandbox_db = [sample_message\<lparr>obx_Status := MessagePublished, obx_PublishedAt := Some 5\<rparr>]"
  by (simp_all add: sandbox_db_def)

lemma sandbox_ok [simp]: "schema_ok sandbox_db"
  by (simp add: schema_ok_def table_ok_defs check_defs unique_on_def sample_order_def sample_payment_def
      sample_attempt_def sample_event_def sample_message_def int4_def int8_def)


end
