(* ===== verification/Sandbox_Pipeline.thy ===== *)
theory Sandbox_Pipeline
  imports Sandbox_Store Ledger
begin

text \<open>
  What an emitted scenario comes to: the fixture filled with the references of a checkout, read back by
  the Stripe adapter and applied by the consumer, leaves the tables in the state the scenario promises, so
  that waiting for it ends at the first look.
\<close>

section \<open>Reading a rendered event back\<close>

text \<open>What the encoder and the SDK's decoders promise each other: a field written is the field read.\<close>

definition reads_as :: "stripe_sdk \<Rightarrow> string \<Rightarrow> fixture_envelope \<Rightarrow> bool" where
  "reads_as sdk payload ev \<longleftrightarrow>
     (case sdk_decode_envelope sdk payload of
        Inl _ \<Rightarrow> False
      | Inr env \<Rightarrow> env_APIVersion env = fe_APIVersion ev \<and> env_Type env = fe_Type ev \<and>
     (case sdk_decode_session sdk (env_Object env) of
        Inl _ \<Rightarrow> False
      | Inr s \<Rightarrow> let x = fe_Session ev in
          ss_ID s = fx_ID x \<and> ss_Object s = fx_Object x \<and> ss_PaymentStatus s = fx_PaymentStatus x \<and>
          ss_PaymentIntent s = map_option fo_ID (fx_PaymentIntent x) \<and> ss_AmountTotal s = fx_AmountTotal x \<and>
          ss_Currency s = fx_Currency x \<and> ss_ClientReferenceID s = fx_ClientReferenceID x \<and> ss_Metadata s = fx_Metadata x))"

definition sdk_agrees :: "stripe_sdk \<Rightarrow> (fixture_envelope \<Rightarrow> string result) \<Rightarrow> bool" where
  "sdk_agrees sdk marshal \<longleftrightarrow> sdk_StatusPaid sdk = ''paid'' \<and> sdk_StatusUnpaid sdk = ''unpaid'' \<and>
     sdk_StatusNoPaymentRequired sdk = ''no_payment_required'' \<and> TrimSpace (sdk_APIVersion sdk) \<noteq> [] \<and>
     (\<forall>ev payload. marshal ev = Inr payload \<longrightarrow> reads_as sdk payload ev)"

lemma scenario_names: "scenarios name = Some sn \<Longrightarrow> name \<in> set ScenarioNames"
  by (auto simp: scenarios_def ScenarioNames_def split: if_splits)

text \<open>What each fixture makes the provider say, and the state each scenario waits for, by the outcome.\<close>

definition expected_payment :: "string \<Rightarrow> string" where
  "expected_payment out =
     (if out = OutcomeSucceeded then PaymentStatusSucceeded else if out = OutcomePending then PaymentStatusProcessing
      else if out = OutcomeFailed then PaymentStatusFailed else PaymentStatusPending)"

definition expected_attempt :: "string \<Rightarrow> string" where
  "expected_attempt out =
     (if out = OutcomeSucceeded then AttemptStatusSucceeded else if out = OutcomePending then AttemptStatusPending
      else if out = OutcomeFailed then AttemptStatusFailed else AttemptStatusExpired)"

definition expected_order :: "string \<Rightarrow> string" where
  "expected_order out = (if out = OutcomeSucceeded then OrderStatusPaid else OrderStatusPending)"

definition emits :: "string \<Rightarrow> scenario \<Rightarrow> string \<Rightarrow> string \<Rightarrow> string \<Rightarrow> string \<Rightarrow> bool" where
  "emits name sn type ps st out \<longleftrightarrow>
     fixture_files (sn_Fixture sn) = Some (fixture_of type ps st) \<and>
     (type, ps, out) \<in> {(''checkout.session.completed'', ''paid'', OutcomeSucceeded),
       (''checkout.session.completed'', ''unpaid'', OutcomePending),
       (''checkout.session.async_payment_succeeded'', ''paid'', OutcomeSucceeded),
       (''checkout.session.async_payment_failed'', ''unpaid'', OutcomeFailed),
       (''checkout.session.expired'', ''unpaid'', OutcomeExpired)} \<and>
     (out = OutcomeExpired \<longleftrightarrow> name = ''checkout-expired'') \<and>
     sn_OrderStatus sn = expected_order out \<and> sn_PaymentStatus sn = expected_payment out \<and>
     sn_AttemptStatus sn = expected_attempt out \<and> sn_WebhookStatus sn = InboxProcessed \<and> sn_OutboxStatus sn = MessagePublished"

lemmas emit_simps = scenarios_def emits_def fixture_files_def expected_order_def expected_payment_def expected_attempt_def
  order_status_defs payment_status_defs attempt_status_defs inbox_status_defs message_status_defs

lemma emits_card_paid: "scenarios ''card-paid'' = Some sn \<Longrightarrow>
    emits ''card-paid'' sn ''checkout.session.completed'' ''paid'' ''complete'' OutcomeSucceeded"
  and emits_pix_processing: "scenarios ''pix-processing'' = Some sn \<Longrightarrow>
    emits ''pix-processing'' sn ''checkout.session.completed'' ''unpaid'' ''complete'' OutcomePending"
  and emits_pix_succeeded: "scenarios ''pix-succeeded'' = Some sn \<Longrightarrow>
    emits ''pix-succeeded'' sn ''checkout.session.async_payment_succeeded'' ''paid'' ''complete'' OutcomeSucceeded"
  and emits_pix_failed: "scenarios ''pix-failed'' = Some sn \<Longrightarrow>
    emits ''pix-failed'' sn ''checkout.session.async_payment_failed'' ''unpaid'' ''complete'' OutcomeFailed"
  and emits_checkout_expired: "scenarios ''checkout-expired'' = Some sn \<Longrightarrow>
    emits ''checkout-expired'' sn ''checkout.session.expired'' ''unpaid'' ''expired'' OutcomeExpired"
  by (auto simp: emit_simps)

lemma scenario_emits:
  assumes "scenarios name = Some sn"
  obtains type ps st out where "emits name sn type ps st out"
proof -
  from scenario_names [OF assms] show thesis
    unfolding ScenarioNames_def using that assms
    by (auto dest: emits_card_paid emits_pix_processing emits_pix_succeeded emits_pix_failed emits_checkout_expired)
qed

section \<open>What the consumer makes of it\<close>

lemma RenderEvent_Inr:
  assumes "RenderEvent marshal version random name eid rf now = Inr (payload, sn, peid)"
  shows "scenarios name = Some sn \<and> Reference_validate rf = None \<and> peid \<noteq> [] \<and>
    (\<exists>ev. fixture_files (sn_Fixture sn) = Some ev \<and> marshal (fill_fixture version peid rf now ev) = Inr payload)"
  using assms
  by (auto simp: RenderEvent_def randomSuffix_def split: option.splits sum.splits if_splits)

lemma emitted_kind:
  assumes "emits name sn type ps st out"
  obtains kind where "eventKinds type = Some kind"
    "sdk_StatusPaid sdk = ''paid'' \<Longrightarrow> sdk_StatusUnpaid sdk = ''unpaid'' \<Longrightarrow> sdk_StatusNoPaymentRequired sdk = ''no_payment_required'' \<Longrightarrow>
     ss_PaymentStatus s = ps \<Longrightarrow> financialOutcome sdk kind s = Inr out"
  using assms unfolding emits_def
  by (auto simp: eventKinds_def financialOutcome_def kind_defs intro: that)

lemma Interpret_rendered:
  assumes "sdk_agrees sdk marshal" and "emits name sn type ps st out"
    and "marshal (fill_fixture (sdk_APIVersion sdk) peid rf now (fixture_of type ps st)) = Inr payload"
    and "Reference_validate rf = None"
    and ids: "TrimSpace (sr_OrderID rf) = sr_OrderID rf" "TrimSpace (sr_PaymentID rf) = sr_PaymentID rf"
      "TrimSpace (sr_AttemptID rf) = sr_AttemptID rf"
    and ev: "event_Payload ev = payload" "event_Type ev = type" "event_Kind ev = KindUnknown"
  shows "Interpret sdk (NewSession sdk) ev = Inr
    \<lparr>so_OrderID = sr_OrderID rf, so_PaymentID = sr_PaymentID rf, so_AttemptID = sr_AttemptID rf, so_SessionID = sr_SessionID rf,
     so_PaymentIntentID = sr_PaymentIntentID rf, so_Amount = sr_Amount rf, so_Currency = ToUpper (ToLower (sr_Currency rf)),
     so_Outcome = out, so_OccurredAt = event_ReceivedAt ev\<rparr>"
proof -
  let ?fx = "fill_fixture (sdk_APIVersion sdk) peid rf now (fixture_of type ps st)"
  from assms(1,3) have "reads_as sdk payload ?fx" by (simp add: sdk_agrees_def)
  then obtain env s where env: "sdk_decode_envelope sdk payload = Inr env" "env_APIVersion env = sdk_APIVersion sdk"
      "sdk_decode_session sdk (env_Object env) = Inr s"
    and s: "ss_ID s = sr_SessionID rf" "ss_Object s = ''checkout.session''" "ss_PaymentStatus s = ps"
      "ss_PaymentIntent s = (if sr_PaymentIntentID rf = [] then None else Some (sr_PaymentIntentID rf))"
      "ss_AmountTotal s = sr_Amount rf" "ss_Currency s = ToLower (sr_Currency rf)" "ss_ClientReferenceID s = sr_OrderID rf"
      "ss_Metadata s = [''order_id'' \<mapsto> sr_OrderID rf, ''payment_id'' \<mapsto> sr_PaymentID rf, ''payment_attempt_id'' \<mapsto> sr_AttemptID rf]"
    by (auto simp: reads_as_def fill_fixture_def fixture_of_def Let_def split: sum.splits)
  obtain kind where "eventKinds type = Some kind" "financialOutcome sdk kind s = Inr out"
    using assms(1) s(3) by (rule_tac emitted_kind [OF assms(2), of sdk s]) (simp add: sdk_agrees_def)
  then have "financialOutcome sdk (interpret_kind ev) s = Inr out" using ev by (simp add: interpret_kind_def map_get_def)
  moreover have "checkVersion (NewSession sdk) (sdk_APIVersion sdk) = None"
    using assms(1) by (simp add: checkVersion_def NewSession_def sdk_agrees_def)
  moreover have "localReference s = Inr \<lparr>rf_OrderID = sr_OrderID rf, rf_PaymentID = sr_PaymentID rf, rf_AttemptID = sr_AttemptID rf\<rparr>"
    using assms(4) ids
    by (simp add: localReference_def s map_get_def metadataOrderID_def metadataPaymentID_def metadataAttemptID_def
        Reference_validate_def Let_def split: if_splits)
  moreover have "TrimSpace (sr_SessionID rf) \<noteq> []" using assms(4) by (simp add: Reference_validate_def split: if_splits)
  ultimately show ?thesis by (simp add: Interpret_def ev env s)
qed

text \<open>The decision on an attempt that waits for the provider: whatever the outcome, the statuses it leaves
  are the ones the scenario names.\<close>

definition moved_to :: "string \<Rightarrow> string \<Rightarrow> string" where
  "moved_to new old = (if new \<noteq> [] then new else old)"

lemma decideEffect_awaited:
  assumes "emits name sn type ps st out" and "so_Outcome x = out" and "ag_Provider a = Stripe"
    and "so_Amount x = ag_Amount a" and "EqualFold (so_Currency x) (ag_Currency a)" and "so_SessionID x = ag_SessionID a"
    and "ag_AttemptStatus a = AttemptStatusPending"
    and "ag_PaymentStatus a = PaymentStatusPending \<or> ag_PaymentStatus a = PaymentStatusProcessing \<and> name \<noteq> ''checkout-expired''"
  shows "\<exists>eff. decideEffect x a Stripe = Inr eff \<and> moved_to (ef_AttemptStatus eff) (ag_AttemptStatus a) = sn_AttemptStatus sn \<and>
    moved_to (ef_PaymentStatus eff) (ag_PaymentStatus a) = sn_PaymentStatus sn \<and> (ef_OrderPaid eff \<longleftrightarrow> sn_OrderStatus sn = OrderStatusPaid)"
proof -
  have out: "out \<in> {OutcomeSucceeded, OutcomePending, OutcomeFailed, OutcomeExpired}" using assms(1) by (auto simp: emits_def)
  have sn: "sn_AttemptStatus sn = expected_attempt out" "sn_PaymentStatus sn = expected_payment out"
      "sn_OrderStatus sn = expected_order out" "out = OutcomeExpired \<longleftrightarrow> name = ''checkout-expired''"
    using assms(1) by (simp_all add: emits_def)
  let ?t = "Decide out (ag_PaymentStatus a) AttemptStatusPending"
  have "tr_Decision ?t \<in> {DecisionApply, DecisionNoOp} \<and>
      (tr_Decision ?t = DecisionNoOp \<longrightarrow> out = OutcomePending \<and> ag_PaymentStatus a = PaymentStatusProcessing) \<and>
      (tr_Decision ?t = DecisionApply \<longrightarrow> moved_to (tr_Attempt ?t) AttemptStatusPending = expected_attempt out \<and>
        moved_to (tr_Payment ?t) (ag_PaymentStatus a) = expected_payment out \<and> (tr_OrderPaid ?t \<longleftrightarrow> out = OutcomeSucceeded))"
    using out assms(8) sn(4)
    by (auto simp: decide_defs settled_defs moved_to_def expected_attempt_def expected_payment_def)
  then show ?thesis
    using assms(2-7) sn
    by (auto simp: decideEffect_def EqualFold_def Let_def moved_to_def no_effect_def expected_attempt_def expected_payment_def
        expected_order_def)
qed

section \<open>What the tables show\<close>

lemma insort_key_map: "(\<And>x. g (f x) = g x) \<Longrightarrow> insort_key g (f x) (map f xs) = map f (insort_key g x xs)"
  by (induction xs) simp_all

lemma sort_key_map: "(\<And>x. g (f x) = g x) \<Longrightarrow> sort_key g (map f xs) = map f (sort_key g xs)"
  by (induction xs) (simp_all add: insort_key_map)

definition newest_checkout :: "string \<Rightarrow> database \<Rightarrow> (order_row \<times> payment_row \<times> attempt_row) option" where
  "newest_checkout oid db =
     (case sort_key (\<lambda>(q, p, a). - att_CreatedAt a) (checkout_rows oid db) of [] \<Rightarrow> None | x # xs \<Rightarrow> Some x)"

lemma latest_checkout: "latest_checkout oid db = Inr (newest_checkout oid db, db)"
  by (simp add: latest_checkout_def newest_checkout_def)

lemma newest_checkout_rows:
  assumes "newest_checkout oid db = Some (q, p, a)"
  shows "q \<in> set (orders db) \<and> p \<in> set (payments db) \<and> a \<in> set (payment_attempts db) \<and>
    ord_ID q = oid \<and> pay_OrderID p = ord_ID q \<and> att_PaymentID a = pay_ID p"
proof -
  have "(q, p, a) \<in> set (sort_key (\<lambda>(q, p, a). - att_CreatedAt a) (checkout_rows oid db))"
    using assms by (auto simp: newest_checkout_def simp del: set_sort split: list.splits)
  then show ?thesis by (auto simp: checkout_rows_def)
qed

text \<open>The rows one event touches, seen through the join.\<close>

definition row_touch :: "instant \<Rightarrow> aggregate \<Rightarrow> effect \<Rightarrow> order_row \<times> payment_row \<times> attempt_row \<Rightarrow> order_row \<times> payment_row \<times> attempt_row" where
  "row_touch now ag e = (\<lambda>(q, p, a).
     (if ef_OrderPaid e \<and> ord_ID q = ag_OrderID ag then q\<lparr>ord_Status := OrderStatusPaid, ord_UpdatedAt := now\<rparr> else q,
      if ef_PaymentStatus e \<noteq> [] \<and> pay_ID p = ag_PaymentID ag then p\<lparr>pay_Status := ef_PaymentStatus e, pay_UpdatedAt := now\<rparr> else p,
      if ef_AttemptStatus e \<noteq> [] \<and> att_ID a = ag_AttemptID ag then a\<lparr>att_Status := ef_AttemptStatus e, att_UpdatedAt := now\<rparr> else a))"

lemma checkout_rows_after_effect: "checkout_rows oid (after_effect now i ag e db) = map (row_touch now ag e) (checkout_rows oid db)"
proof -
  have keys: "ord_ID (if b then r\<lparr>ord_Status := s, ord_UpdatedAt := now\<rparr> else r) = ord_ID r"
    "pay_ID (if b then r'\<lparr>pay_Status := s, pay_UpdatedAt := now\<rparr> else r') = pay_ID r'"
    "pay_OrderID (if b then r'\<lparr>pay_Status := s, pay_UpdatedAt := now\<rparr> else r') = pay_OrderID r'"
    "att_PaymentID (if b then r''\<lparr>att_Status := s, att_UpdatedAt := now\<rparr> else r'') = att_PaymentID r''" for b r r' r'' s
    by simp_all
  show ?thesis
    by (simp add: checkout_rows_def after_effect_def update_where_def filter_map comp_def keys map_concat row_touch_def)
qed

lemma newest_checkout_after_effect:
  "newest_checkout oid (after_effect now i ag e db) = map_option (row_touch now ag e) (newest_checkout oid db)"
proof -
  have "(\<lambda>(q, p, a). - att_CreatedAt a) (row_touch now ag e x) = (\<lambda>(q, p, a). - att_CreatedAt a) x" for x
    by (simp add: row_touch_def split: prod.split)
  then show ?thesis
    by (simp add: newest_checkout_def checkout_rows_after_effect sort_key_map split: list.split)
qed

lemma lock_newest:
  assumes "schema_ok db" and "newest_checkout oid db = Some (q, p, a)"
  obtains row where "LockPaymentAggregate (att_ID a) (pay_ID p) oid db = Inr (Some row, db)"
    "row = \<lparr>agg_OrderID = oid, agg_OrderStatus = ord_Status q, agg_PaymentID = pay_ID p, agg_PaymentStatus = pay_Status p,
       agg_Provider = pay_Provider p, agg_Amount = pay_Amount p, agg_Currency = pay_Currency p, agg_AttemptID = att_ID a,
       agg_AttemptStatus = att_Status a, agg_SessionID = att_ProviderSessionID a\<rparr>"
proof -
  note rows = newest_checkout_rows [OF assms(2)] and key = schema_okD(1,3,5) [OF assms(1)]
  have "\<exists>p' \<in> set (payments db). pay_ID p' = att_PaymentID a \<and> pay_Provider p' = att_Provider a"
    using assms(1) rows unfolding schema_ok_def attempts_ok_def list_all_iff list_ex_iff by blast
  with rows have prov: "pay_Provider p = att_Provider a" using unique_keyD [OF key(2)] by metis
  obtain r where r: "LockPaymentAggregate (att_ID a) (pay_ID p) oid db = Inr (r, db)"
    by (simp add: LockPaymentAggregate_def Let_def)
  have "r \<noteq> None"
  proof
    assume "r = None"
    with r have "\<forall>a' \<in> set (payment_attempts db). \<forall>p' \<in> set (payments db). \<forall>q' \<in> set (orders db).
        \<not> (pay_ID p' = att_PaymentID a' \<and> pay_Provider p' = att_Provider a' \<and> ord_ID q' = pay_OrderID p' \<and>
           att_ID a' = att_ID a \<and> pay_ID p' = pay_ID p \<and> ord_ID q' = oid)"
      by (auto simp: LockPaymentAggregate_def Let_def ball_Un split: list.splits)
    with rows prov show False by fastforce
  qed
  then obtain row where row: "r = Some row" by blast
  from r [unfolded row] show thesis
  proof (rule LockPaymentAggregate_Some)
    fix a' p' q'
    assume x: "a' \<in> set (payment_attempts db)" "p' \<in> set (payments db)" "q' \<in> set (orders db)"
      "att_ID a' = att_ID a" "pay_ID p' = pay_ID p" "ord_ID q' = oid"
      and eq: "row = \<lparr>agg_OrderID = oid, agg_OrderStatus = ord_Status q', agg_PaymentID = pay_ID p, agg_PaymentStatus = pay_Status p',
          agg_Provider = pay_Provider p', agg_Amount = pay_Amount p', agg_Currency = pay_Currency p', agg_AttemptID = att_ID a,
          agg_AttemptStatus = att_Status a', agg_SessionID = att_ProviderSessionID a'\<rparr>"
    have "a' = a" "p' = p" "q' = q"
      using x rows unique_keyD [OF key(1), of q' q] unique_keyD [OF key(2), of p' p] unique_keyD [OF key(3), of a' a] by simp_all
    with eq r row show thesis by (intro that) simp_all
  qed
qed

text \<open>The newest checkout of the order waits for the provider, and its identifiers are plain.\<close>

definition awaiting :: "string \<Rightarrow> string \<Rightarrow> database \<Rightarrow> bool" where
  "awaiting name oid db =
     (case newest_checkout oid db of
        None \<Rightarrow> False
      | Some (q, p, a) \<Rightarrow>
          pay_Provider p = Stripe \<and> att_Status a = AttemptStatusPending \<and>
          (pay_Status p = PaymentStatusPending \<or> pay_Status p = PaymentStatusProcessing \<and> name \<noteq> ''checkout-expired'') \<and>
          TrimSpace oid = oid \<and> TrimSpace (pay_ID p) = pay_ID p \<and> TrimSpace (att_ID a) = att_ID a)"

lemma Store_Reference_Inr:
  assumes "Store_Reference f oid db0 = Inr rf" and "newest_checkout oid db0 = Some (q, p, a)"
  shows "sr_OrderID rf = ord_ID q \<and> sr_PaymentID rf = pay_ID p \<and> sr_AttemptID rf = att_ID a \<and>
    att_ProviderSessionID a = Some (sr_SessionID rf) \<and> sr_Amount rf = pay_Amount p \<and> sr_Currency rf = pay_Currency p"
  using assms
  by (auto simp: Store_Reference_def autocommit_def latest_checkout split: fault.splits option.splits if_splits)

lemma pipeline_row:
  assumes "schema_ok db" and "e \<in> set (webhook_events db)" and "evt_Provider e = Stripe"
    and "m \<in> set (outbox_events db)" and "obx_WebhookEventID m = evt_ID e"
  shows "event_pipeline (evt_ProviderEventID e) db = Inr (Some (evt_Status e, obx_Status m), db)"
proof -
  have "find (\<lambda>w. evt_Provider w = ''stripe'' \<and> evt_ProviderEventID w = evt_ProviderEventID e) (webhook_events db) = Some e"
    using find_unique [OF schema_okD(9) [OF assms(1)] assms(2)] assms(3) by (simp add: Stripe_def)
  moreover have "find (\<lambda>ob. obx_WebhookEventID ob = evt_ID e) (outbox_events db) = Some m"
    using find_unique [OF schema_okD(11) [OF assms(1)] assms(4)] assms(5) by simp
  ultimately show ?thesis by (simp add: event_pipeline_def)
qed

text \<open>
  C30: a scenario ends where it says. An event the tool renders from the reference of a checkout that waits
  for the provider, once stored in the inbox under its identifier and type and relayed, is applied by the
  consumer without an error; what the tool then reads are the order, payment, attempt, inbox and outbox
  statuses the scenario declares, so that waiting for the scenario returns them at the first look.
\<close>

theorem scenario_reaches_promise:
  assumes "schema_ok db" and "ledger_ok db" and "sdk_agrees sdk marshal"
    and "Store_Reference f oid (db\<lparr>webhook_events := ws, outbox_events := obs\<rparr>) = Inr rf"
    and "RenderEvent marshal (sdk_APIVersion sdk) random name eid rf now = Inr (payload, sn, peid)"
    and "e \<in> set (webhook_events db)" and "evt_Provider e = Stripe" and "evt_ProviderEventID e = peid" and "evt_Payload e = payload"
    and "sdk_decode_envelope sdk payload = Inr env" and "evt_EventType e = env_Type env"
    and "evt_Status e \<noteq> InboxProcessed" and "evt_Attempts e < 2 ^ 31 - 1"
    and "m \<in> set (outbox_events db)" and "obx_WebhookEventID m = evt_ID e" and "obx_Status m = MessagePublished"
    and "awaiting name oid db"
    and "EventRepository_Process no_faults at db (evt_ID e) (handle_resolve Stripe (Interpret sdk (NewSession sdk)))
           (handle_decide Stripe) = (db', r, cap)"
  shows "is_ok r \<and> (\<exists>st. Scenario_matches sn st \<and>
    WaitForScenario (\<lambda>_. Store_Status no_faults db' db' oid peid) finished sn 0 = Some (st, None, 0))"
proof -
  from assms(17) obtain q p a where new: "newest_checkout oid db = Some (q, p, a)"
    and waits: "pay_Provider p = Stripe" "att_Status a = AttemptStatusPending"
      "pay_Status p = PaymentStatusPending \<or> pay_Status p = PaymentStatusProcessing \<and> name \<noteq> ''checkout-expired''"
      "TrimSpace oid = oid" "TrimSpace (pay_ID p) = pay_ID p" "TrimSpace (att_ID a) = att_ID a"
    by (auto simp: awaiting_def split: option.splits)
  note rows = newest_checkout_rows [OF new]
  have "newest_checkout oid (db\<lparr>webhook_events := ws, outbox_events := obs\<rparr>) = Some (q, p, a)"
    using new by (simp add: newest_checkout_def checkout_rows_def)
  note rf = Store_Reference_Inr [OF assms(4) this]
  from RenderEvent_Inr [OF assms(5)] obtain ev where sn: "scenarios name = Some sn" and rfok: "Reference_validate rf = None"
    and peid: "peid \<noteq> []" and ev: "fixture_files (sn_Fixture sn) = Some ev" "marshal (fill_fixture (sdk_APIVersion sdk) peid rf now ev) = Inr payload"
    by blast
  obtain type ps st out where emits: "emits name sn type ps st out" using scenario_emits [OF sn] .
  then have evq: "ev = fixture_of type ps st" using ev(1) by (simp add: emits_def)
  have "reads_as sdk payload (fill_fixture (sdk_APIVersion sdk) peid rf now ev)" using assms(3) ev(2) by (simp add: sdk_agrees_def)
  then have type: "evt_EventType e = type"
    using assms(10,11) by (simp add: reads_as_def evq fill_fixture_def fixture_of_def split: sum.splits)
  let ?x = "\<lparr>so_OrderID = sr_OrderID rf, so_PaymentID = sr_PaymentID rf, so_AttemptID = sr_AttemptID rf, so_SessionID = sr_SessionID rf,
     so_PaymentIntentID = sr_PaymentIntentID rf, so_Amount = sr_Amount rf, so_Currency = ToUpper (ToLower (sr_Currency rf)),
     so_Outcome = out, so_OccurredAt = evt_ReceivedAt e\<rparr>"
  have interp: "Interpret sdk (NewSession sdk) (ie_Event (entry_of_row e)) = Inr ?x"
  proof -
    have "TrimSpace (sr_OrderID rf) = sr_OrderID rf" "TrimSpace (sr_PaymentID rf) = sr_PaymentID rf"
        "TrimSpace (sr_AttemptID rf) = sr_AttemptID rf"
      using rows rf waits by simp_all
    from Interpret_rendered [OF assms(3) emits ev(2) [unfolded evq] rfok this, of "ie_Event (entry_of_row e)"] assms(9) type
    show ?thesis by (simp add: entry_of_row_def KindUnknown_def)
  qed
  obtain row where lock: "LockPaymentAggregate (att_ID a) (pay_ID p) oid db = Inr (Some row, db)" and
    row: "aggregate_of_row row = \<lparr>ag_OrderID = oid, ag_OrderStatus = ord_Status q, ag_PaymentID = pay_ID p,
      ag_PaymentStatus = pay_Status p, ag_Provider = pay_Provider p, ag_Amount = pay_Amount p, ag_Currency = pay_Currency p,
      ag_AttemptID = att_ID a, ag_AttemptStatus = att_Status a, ag_SessionID = sr_SessionID rf\<rparr>"
    by (rule lock_newest [OF assms(1) new]) (simp add: rf aggregate_of_row_def)
  have "EqualFold (ToUpper (ToLower (sr_Currency rf))) (pay_Currency p)" using rf by simp
  with decideEffect_awaited [OF emits, of ?x "aggregate_of_row row"] rf waits
  have "\<exists>eff. decideEffect ?x (aggregate_of_row row) Stripe = Inr eff \<and>
      moved_to (ef_AttemptStatus eff) (att_Status a) = sn_AttemptStatus sn \<and>
      moved_to (ef_PaymentStatus eff) (pay_Status p) = sn_PaymentStatus sn \<and> (ef_OrderPaid eff \<longleftrightarrow> sn_OrderStatus sn = OrderStatusPaid)"
    by (simp add: row)
  then obtain eff where eff: "decideEffect ?x (aggregate_of_row row) Stripe = Inr eff"
    "moved_to (ef_AttemptStatus eff) (att_Status a) = sn_AttemptStatus sn"
    "moved_to (ef_PaymentStatus eff) (pay_Status p) = sn_PaymentStatus sn" "ef_OrderPaid eff \<longleftrightarrow> sn_OrderStatus sn = OrderStatusPaid"
    by blast
  have run: "db' = after_effect at (evt_ID e) (aggregate_of_row row) eff db" "is_ok r"
  proof -
    from lock rf rows have "LockPaymentAggregate (so_AttemptID ?x) (so_PaymentID ?x) (so_OrderID ?x) db = Inr (Some row, db)" by simp
    note all = Process_completes [OF assms(1,2,6,12,13,7), of "Interpret sdk (NewSession sdk)", OF interp this eff(1), of at]
    from all assms(18) show "db' = after_effect at (evt_ID e) (aggregate_of_row row) eff db" "is_ok r" by auto
  qed
  have ok': "schema_ok db'" using Process_safe [OF assms(1,18)] by blast
  have "\<not> paymentSettled (pay_Status p)" using waits(3) by (auto simp: settled_defs)
  with open_payment_order_pending [OF assms(1,2)] rows have "ord_Status q = OrderStatusPending" by metis
  moreover have "sn_OrderStatus sn \<in> {OrderStatusPaid, OrderStatusPending}" using emits by (auto simp: emits_def expected_order_def)
  ultimately have order: "(if ef_OrderPaid eff then OrderStatusPaid else ord_Status q) = sn_OrderStatus sn"
    using eff(4) by auto
  have "newest_checkout oid db' = Some (row_touch at (aggregate_of_row row) eff (q, p, a))"
    by (simp add: run(1) newest_checkout_after_effect new)
  then obtain q' p' a' where new': "newest_checkout oid db' = Some (q', p', a')" and
    st: "ord_Status q' = sn_OrderStatus sn" "pay_Status p' = sn_PaymentStatus sn" "att_Status a' = sn_AttemptStatus sn"
    using order eff(2,3) rows by (auto simp: row_touch_def row moved_to_def if_distrib [of ord_Status] if_distrib [of pay_Status] if_distrib [of att_Status] cong: if_cong)
  let ?e = "e\<lparr>evt_Status := InboxProcessed, evt_ProcessedAt := Some at, evt_Attempts := evt_Attempts e + 1,
               evt_LastError := nullableText (ef_Note eff), evt_UpdatedAt := at\<rparr>"
  have "?e \<in> set (webhook_events db')" using assms(6) by (auto simp: run(1) after_effect_def set_update_where)
  then have "event_pipeline peid db' = Inr (Some (InboxProcessed, MessagePublished), db')"
    using pipeline_row [OF ok', of ?e m] assms(7,8,14-16) by (simp add: run(1) after_effect_def)
  then have "\<exists>s. Store_Status no_faults db' db' oid peid = Inr s \<and> Scenario_matches sn s"
    using st peid emits
    by (simp add: Store_Status_def autocommit_def latest_checkout new' Scenario_matches_def no_status_def emits_def)
  then obtain s where "Store_Status no_faults db' db' oid peid = Inr s" "Scenario_matches sn s" by blast
  with run(2) show ?thesis by (auto simp: WaitForScenario.simps)
qed

text \<open>The card scenario, emitted for the sample checkout, and an SDK that reads it back.\<close>

definition emitted_db :: database where
  "emitted_db = sample_db
     \<lparr>orders := [sample_order\<lparr>ord_IdempotencyKey := ''sandbox_order_1''\<rparr>],
      outbox_events := [sample_message\<lparr>obx_Status := MessagePublished, obx_PublishedAt := Some 5\<rparr>]\<rparr>"

definition emitted_reference :: sandbox_reference where
  "emitted_reference = \<lparr>sr_OrderID = ''ord_1'', sr_PaymentID = ''pay_1'', sr_AttemptID = ''pat_1'', sr_SessionID = ''cs_1'',
     sr_PaymentIntentID = [], sr_Amount = 100, sr_Currency = ''BRL''\<rparr>"

definition emitted_event :: fixture_envelope where
  "emitted_event = fill_fixture ''v1'' ''evt_s1'' emitted_reference 0 (fixture_of ''checkout.session.completed'' ''paid'' ''complete'')"

definition emitted_marshal :: "fixture_envelope \<Rightarrow> string result" where
  "emitted_marshal ev = (if ev = emitted_event then Inr ''{}'' else Inl (External ''another event''))"

definition emitted_sdk :: stripe_sdk where
  "emitted_sdk = sample_sdk
     \<lparr>sdk_decode_envelope := (\<lambda>_. Inr \<lparr>env_APIVersion = ''v1'', env_Type = ''checkout.session.completed'', env_Object = ''{}''\<rparr>),
      sdk_decode_session := (\<lambda>_. Inr (sample_session\<lparr>ss_PaymentStatus := ''paid''\<rparr>))\<rparr>"

lemma emitted_ok: "schema_ok emitted_db" "ledger_ok emitted_db"
  by (simp_all add: schema_ok_def table_ok_defs check_defs unique_on_def ledger_ok_def books_defs emitted_db_def sample_defs
      int4_def int8_def)

lemma emitted_agrees: "sdk_agrees emitted_sdk emitted_marshal"
proof -
  have "ToLower ''BRL'' = ''brl''" by code_simp
  then show ?thesis
    by (simp add: sdk_agrees_def emitted_marshal_def reads_as_def emitted_sdk_def sample_sdk_def emitted_event_def
        fill_fixture_def fixture_of_def emitted_reference_def sample_session_def metadataOrderID_def metadataPaymentID_def metadataAttemptID_def)
qed

lemma emitted_Reference:
  "Store_Reference NoFault ''ord_1'' (emitted_db\<lparr>webhook_events := [], outbox_events := []\<rparr>) = Inr emitted_reference"
  by (simp add: Store_Reference_def autocommit_def latest_checkout_def checkout_rows_def emitted_db_def sample_order_def
      sample_payment_def sample_attempt_def emitted_reference_def has_prefix_def)

lemma emitted_rendered:
  "\<exists>sn. RenderEvent emitted_marshal ''v1'' (Inr []) ''card-paid'' ''evt_s1'' emitted_reference 0 = Inr (''{}'', sn, ''evt_s1'')"
proof -
  have "TrimSpace ''evt_s1'' = ''evt_s1''" by (rule TrimSpace_plain; auto simp: plain_char_def)
  then show ?thesis
    by (simp add: RenderEvent_def scenarios_def fixture_files_def Reference_validate_def emitted_marshal_def emitted_event_def)
      (simp add: emitted_reference_def)
qed

lemma emitted_awaits: "awaiting ''card-paid'' ''ord_1'' emitted_db"
  by (simp add: awaiting_def newest_checkout_def checkout_rows_def emitted_db_def sample_order_def sample_payment_def sample_attempt_def)

theorem scenario_reaches_promise_witness:
  "\<exists>sn db' r cap. scenarios ''card-paid'' = Some sn \<and>
     EventRepository_Process no_faults 9 emitted_db ''evt_1'' (handle_resolve Stripe (Interpret emitted_sdk (NewSession emitted_sdk)))
       (handle_decide Stripe) = (db', r, cap) \<and> is_ok r \<and>
     (\<exists>st. WaitForScenario (\<lambda>_. Store_Status no_faults db' db' ''ord_1'' ''evt_s1'') (\<lambda>_. None) sn 0 = Some (st, None, 0))"
proof -
  obtain sn where render: "RenderEvent emitted_marshal (sdk_APIVersion emitted_sdk) (Inr []) ''card-paid'' ''evt_s1'' emitted_reference 0 =
      Inr (''{}'', sn, ''evt_s1'')"
    using emitted_rendered by (auto simp: emitted_sdk_def sample_sdk_def)
  obtain db' r cap where run: "EventRepository_Process no_faults 9 emitted_db (evt_ID sample_event)
      (handle_resolve Stripe (Interpret emitted_sdk (NewSession emitted_sdk))) (handle_decide Stripe) = (db', r, cap)"
    by (cases "EventRepository_Process no_faults 9 emitted_db (evt_ID sample_event)
      (handle_resolve Stripe (Interpret emitted_sdk (NewSession emitted_sdk))) (handle_decide Stripe)")
  note fires = scenario_reaches_promise [OF emitted_ok emitted_agrees emitted_Reference render, of sample_event
      "\<lparr>env_APIVersion = ''v1'', env_Type = ''checkout.session.completed'', env_Object = ''{}''\<rparr>"
      "sample_message\<lparr>obx_Status := MessagePublished, obx_PublishedAt := Some 5\<rparr>" 9 db' r cap "\<lambda>_. None",
      OF _ _ _ _ _ _ _ _ _ _ _ emitted_awaits run]
  have "is_ok r \<and> (\<exists>st. Scenario_matches sn st \<and>
      WaitForScenario (\<lambda>_. Store_Status no_faults db' db' ''ord_1'' ''evt_s1'') (\<lambda>_. None) sn 0 = Some (st, None, 0))"
    by (rule fires) (simp_all add: emitted_db_def sample_event_def sample_message_def emitted_sdk_def)
  moreover have "scenarios ''card-paid'' = Some sn" using RenderEvent_Inr [OF render] by simp
  moreover have "evt_ID sample_event = ''evt_1''" by (simp add: sample_event_def)
  ultimately show ?thesis using run by auto
qed

end
