(* ===== verification/Sandbox_Config.thy ===== *)
theory Sandbox_Config
  imports Config Sandbox_Store
begin

text \<open>
  The settings of the sandbox command (\<^verbatim>\<open>internal/sandbox/config.go\<close>) and what keeps it on the local
  machine: every address it may talk to is checked to be a loopback one. \<^verbatim>\<open>net/url.Parse\<close> is an argument,
  as in \<^theory_text>\<open>Payment_Domain\<close>; of a URL the host without its port and the path matter here too.
\<close>

section \<open>Settings\<close>

record web_endpoint = url +
  ep_Hostname :: string
  ep_Path :: string

type_synonym endpoint_parser = "string \<Rightarrow> web_endpoint result"

definition defaultAPIURL :: string where "defaultAPIURL = ''http://localhost:8080''"

record sandbox_config =
  sc_Environment :: string
  sc_APIURL :: string
  sc_APIKey :: string
  sc_DatabaseURL :: string
  sc_StripeKey :: string
  sc_WebhookSecret :: string

record requirements =
  rq_API :: bool
  rq_Database :: bool
  rq_Stripe :: bool
  rq_WebhookSecret :: bool

definition no_requirements :: requirements where
  "no_requirements = \<lparr>rq_API = False, rq_Database = False, rq_Stripe = False, rq_WebhookSecret = False\<rparr>"

text \<open>\<^verbatim>\<open>strings.TrimRight\<close> with one character.\<close>

definition TrimRight :: "char \<Rightarrow> string \<Rightarrow> string" where
  "TrimRight c s = rev (dropWhile (\<lambda>x. x = c) (rev s))"

fun first_key :: "string list \<Rightarrow> string" where
  "first_key [] = []"
| "first_key (k # ks) = (if TrimSpace k \<noteq> [] then TrimSpace k else first_key ks)"

definition firstAPIKey :: "string \<Rightarrow> string" where
  "firstAPIKey s = first_key (split_on CHR '','' s)"

text \<open>\<^verbatim>\<open>os.Getenv\<close> reads an unset variable as the empty text.\<close>

definition LoadConfig :: "dotenv \<Rightarrow> (string \<Rightarrow> string) \<Rightarrow> sandbox_config result" where
  "LoadConfig file getenv =
     (case file of
        DotenvFailed e \<Rightarrow> Inl (wrap ''load .env'' (External e))
      | _ \<Rightarrow>
          let apiURL = TrimSpace (getenv ''SANDBOX_API_URL'');
              apiURL' = (if apiURL = [] then defaultAPIURL else apiURL)
          in Inr \<lparr>sc_Environment = TrimSpace (getenv ''APP_ENV''), sc_APIURL = TrimRight CHR ''/'' apiURL',
                  sc_APIKey = firstAPIKey (getenv ''INTEGRATION_API_KEYS''), sc_DatabaseURL = TrimSpace (getenv ''DATABASE_URL''),
                  sc_StripeKey = TrimSpace (getenv ''STRIPE_SECRET_KEY''),
                  sc_WebhookSecret = TrimSpace (getenv ''STRIPE_WEBHOOK_SECRET'')\<rparr>)"

section \<open>Loopback addresses\<close>

text \<open>\<^verbatim>\<open>net.ParseIP\<close> takes no zone; \<^verbatim>\<open>IP.IsLoopback\<close> looks at the first byte of an IPv4 address, mapped ones
  included.\<close>

definition ParseIP :: "string \<Rightarrow> addr option" where
  "ParseIP s = (case ParseAddr s of None \<Rightarrow> None | Some a \<Rightarrow> if Zone a \<noteq> [] then None else Some a)"

definition IP_IsLoopback :: "addr \<Rightarrow> bool" where
  "IP_IsLoopback a = (case Unmap a of Addr4 w \<Rightarrow> drop_bit 24 w = 127 | Addr6 w z \<Rightarrow> w = 1)"

text \<open>\<^verbatim>\<open>strings.EqualFold\<close> also folds the long s of Unicode into the letter.\<close>

fun fold_long_s :: "string \<Rightarrow> string" where
  "fold_long_s (a # b # s) =
     (if a = CHR 0xC5 \<and> b = CHR 0xBF then CHR ''s'' # fold_long_s s else a # fold_long_s (b # s))"
| "fold_long_s s = s"

definition isLoopbackHost :: "string \<Rightarrow> bool" where
  "isLoopbackHost host \<longleftrightarrow>
     EqualFold (fold_long_s host) ''localhost'' \<or>
     (case ParseIP host of None \<Rightarrow> False | Some a \<Rightarrow> IP_IsLoopback a)"

definition validateLoopbackHTTP :: "endpoint_parser \<Rightarrow> string \<Rightarrow> goerr option" where
  "validateLoopbackHTTP url_Parse s =
     (case (case url_Parse s of Inl e \<Rightarrow> None
            | Inr u \<Rightarrow> if url_Scheme u \<noteq> ''http'' \<or> url_Host u = [] \<or> ep_Path u \<noteq> [] then None else Some u) of
        None \<Rightarrow> Some (NewError ''SANDBOX_API_URL must be an HTTP origin such as http://localhost:8080'')
      | Some u \<Rightarrow>
          if \<not> isLoopbackHost (ep_Hostname u)
          then Some (NewError ''SANDBOX_API_URL must point to localhost or a loopback address'') else None)"

definition validateLoopbackPostgres :: "endpoint_parser \<Rightarrow> string \<Rightarrow> goerr option" where
  "validateLoopbackPostgres url_Parse s =
     (case (case url_Parse s of Inl e \<Rightarrow> None
            | Inr u \<Rightarrow> if url_Scheme u \<noteq> ''postgres'' \<and> url_Scheme u \<noteq> ''postgresql'' \<or> url_Host u = [] then None else Some u) of
        None \<Rightarrow> Some (NewError ''DATABASE_URL must be a PostgreSQL URL for the local sandbox'')
      | Some u \<Rightarrow>
          if \<not> isLoopbackHost (ep_Hostname u)
          then Some (NewError ''sandbox DATABASE_URL must point to localhost or a loopback address'')
          else if TrimPrefix (ep_Path u) ''/'' = []
          then Some (NewError ''sandbox DATABASE_URL must name a database'') else None)"

text \<open>\<^verbatim>\<open>Config.Validate\<close>.\<close>

definition Sandbox_Validate :: "endpoint_parser \<Rightarrow> sandbox_config \<Rightarrow> requirements \<Rightarrow> goerr option" where
  "Sandbox_Validate url_Parse c req =
     (if sc_Environment c \<noteq> ''development'' \<and> sc_Environment c \<noteq> ''test''
      then Some (NewError ''sandbox requires APP_ENV=development or APP_ENV=test'')
      else if rq_API req \<and> sc_APIKey c = []
      then Some (NewError ''sandbox requires at least one INTEGRATION_API_KEYS entry'')
      else case (if rq_API req then validateLoopbackHTTP url_Parse (sc_APIURL c) else None) of
        Some e \<Rightarrow> Some e
      | None \<Rightarrow>
     (case (if rq_Database req then validateLoopbackPostgres url_Parse (sc_DatabaseURL c) else None) of
        Some e \<Rightarrow> Some e
      | None \<Rightarrow>
          if rq_Stripe req \<and> \<not> has_prefix (sc_StripeKey c) ''sk_test_''
          then Some (NewError ''sandbox requires a Stripe test key beginning with sk_test_'')
          else if rq_WebhookSecret req \<and> \<not> has_prefix (sc_WebhookSecret c) ''whsec_''
          then Some (NewError ''sandbox requires STRIPE_WEBHOOK_SECRET beginning with whsec_'')
          else None))"

section \<open>What a validated setting promises\<close>

definition local_environment :: "sandbox_config \<Rightarrow> bool" where
  "local_environment c \<longleftrightarrow> sc_Environment c \<in> {''development'', ''test''}"

definition local_endpoint :: "endpoint_parser \<Rightarrow> string list \<Rightarrow> string \<Rightarrow> bool" where
  "local_endpoint url_Parse schemes s \<longleftrightarrow>
     (case url_Parse s of Inl e \<Rightarrow> False | Inr u \<Rightarrow> url_Scheme u \<in> set schemes \<and> isLoopbackHost (ep_Hostname u))"

lemma validateLoopbackHTTP_None: "validateLoopbackHTTP P s = None \<Longrightarrow> local_endpoint P [''http''] s"
  by (auto simp: validateLoopbackHTTP_def local_endpoint_def split: sum.splits if_splits)

lemma validateLoopbackPostgres_None:
  "validateLoopbackPostgres P s = None \<Longrightarrow> local_endpoint P [''postgres'', ''postgresql''] s"
  by (auto simp: validateLoopbackPostgres_def local_endpoint_def split: sum.splits if_splits)

lemma Sandbox_Validate_None:
  assumes "Sandbox_Validate P c req = None"
  shows "local_environment c" and "rq_API req \<Longrightarrow> sc_APIKey c \<noteq> [] \<and> local_endpoint P [''http''] (sc_APIURL c)"
    and "rq_Database req \<Longrightarrow> local_endpoint P [''postgres'', ''postgresql''] (sc_DatabaseURL c)"
    and "rq_Stripe req \<Longrightarrow> has_prefix (sc_StripeKey c) ''sk_test_''"
    and "rq_WebhookSecret req \<Longrightarrow> has_prefix (sc_WebhookSecret c) ''whsec_''"
  using assms validateLoopbackHTTP_None [of P "sc_APIURL c"] validateLoopbackPostgres_None [of P "sc_DatabaseURL c"]
  by (auto simp: Sandbox_Validate_def local_environment_def split: option.splits if_splits)

text \<open>Names and addresses of the loopback interface count; private, public and zoned ones do not.\<close>

lemma loopback_name: "isLoopbackHost ''LocalHost''" by code_simp
lemma loopback_v4: "isLoopbackHost ''127.0.0.1''" by code_simp
lemma loopback_v6: "isLoopbackHost ''::1''" by code_simp
lemma private_v4: "\<not> isLoopbackHost ''10.0.0.1''" by code_simp
lemma zoned_v6: "\<not> isLoopbackHost ''::1%lo''" by code_simp

end
