(* ===== verification/Sandbox_Client.thy ===== *)
theory Sandbox_Client
  imports Sandbox_Config
begin

text \<open>
  The client of the running API (\<^verbatim>\<open>internal/sandbox/client.go\<close>) and what a command of the tool does to
  the world outside: the requests it sends, the connection it opens and closes, the order it removes and
  what it prints. \<open>acts\<close> is the order of these with the result of the code that did them; it is
  \<^const>\<open>None\<close> for code that never ends. The HTTP exchange (redirects it follows included), the decoders
  and the clock are arguments.
\<close>

section \<open>Requests and replies\<close>

record sandbox_request =
  sq_Method :: string
  sq_URL :: string
  sq_Headers :: "string \<rightharpoonup> string"
  sq_Body :: "string option"

record sandbox_reply =
  sp_StatusCode :: int
  sp_Status :: string
  sp_Body :: "string result"

record sandbox_client =
  cl_baseURL :: string
  cl_apiKey :: string

record sandbox_order =
  co_ID :: string
  co_Status :: string
  co_Amount :: int
  co_Currency :: string

record checkout_response =
  cr_CheckoutURL :: string
  cr_ExpiresAt :: instant

record checkout_result =
  cc_OrderID :: string
  cc_OrderStatus :: string
  cc_Amount :: int
  cc_Currency :: string
  cc_CheckoutURL :: string
  cc_ExpiresAt :: instant

record reported_error =
  ae_Code :: string
  ae_Message :: string

definition maxResponseBody :: nat where "maxResponseBody = 2 ^ 20"

section \<open>What a command does\<close>

datatype printout =
    Ready string
  | Usage
  | CheckoutCreated checkout_result
  | Emitted string string aggregate_status
  | StatusRead aggregate_status
  | OrderRead sandbox_order
  | CleanedUp cleanup_result

datatype touch =
    Request sandbox_request
  | Opened string
  | Closed string
  | Removed string database database
  | Printed printout

type_synonym 'a acts = "(touch list \<times> 'a result) option"

definition done_with :: "'a result \<Rightarrow> 'a acts" where "done_with r = Some ([], r)"

definition and_then :: "'a acts \<Rightarrow> ('a \<Rightarrow> 'b acts) \<Rightarrow> 'b acts" where
  "and_then m f =
     (case m of
        None \<Rightarrow> None
      | Some (ts, Inl e) \<Rightarrow> Some (ts, Inl e)
      | Some (ts, Inr x) \<Rightarrow> (case f x of None \<Rightarrow> None | Some (us, r) \<Rightarrow> Some (ts @ us, r)))"

definition checked :: "goerr option \<Rightarrow> unit acts" where
  "checked e = Some ([], case e of None \<Rightarrow> Inr () | Some e \<Rightarrow> Inl e)"

definition wrapped :: "string \<Rightarrow> 'a acts \<Rightarrow> 'a acts" where
  "wrapped t m = map_option (\<lambda>(ts, r). (ts, case r of Inl e \<Rightarrow> Inl (wrap t e) | Inr x \<Rightarrow> Inr x)) m"

section \<open>The client\<close>

text \<open>\<open>wd_do\<close> answers the request with the given number among those of a command.\<close>

record web =
  wd_url_Parse :: endpoint_parser
  wd_do :: "nat \<Rightarrow> sandbox_request \<Rightarrow> sandbox_reply result"
  wd_decode_error :: "string \<Rightarrow> reported_error result"
  wd_decode_order :: "string \<Rightarrow> sandbox_order result"
  wd_decode_checkout :: "string \<Rightarrow> checkout_response result"
  wd_random :: "string result"

definition NewClient :: "sandbox_config \<Rightarrow> sandbox_client" where
  "NewClient cfg = \<lparr>cl_baseURL = sc_APIURL cfg, cl_apiKey = sc_APIKey cfg\<rparr>"

definition refused_reply :: "web \<Rightarrow> string \<Rightarrow> sandbox_reply \<Rightarrow> string \<Rightarrow> goerr" where
  "refused_reply wd what rp body =
     (case wd_decode_error wd body of
        Inl e \<Rightarrow> Errorf [T what, T '' returned '', T (sp_Status rp)]
      | Inr reported \<Rightarrow>
          if ae_Code reported \<noteq> []
          then Errorf [T what, T '' returned '', T (sp_Status rp), T '' ('', T (ae_Code reported), T ''): '', T (ae_Message reported)]
          else Errorf [T what, T '' returned '', T (sp_Status rp)])"

definition successful :: "sandbox_reply \<Rightarrow> bool" where
  "successful rp \<longleftrightarrow> 200 \<le> sp_StatusCode rp \<and> sp_StatusCode rp < 300"

definition request_of :: "sandbox_client \<Rightarrow> string \<Rightarrow> string \<Rightarrow> string option \<Rightarrow> (string \<times> string) list \<Rightarrow> sandbox_request" where
  "request_of c verb path input headers =
     (let h0 = [''Accept'' \<mapsto> ''application/json''];
          h1 = (if input \<noteq> None then h0(''Content-Type'' \<mapsto> ''application/json'') else h0);
          h2 = (if cl_apiKey c \<noteq> [] then h1(''X-API-Key'' \<mapsto> cl_apiKey c) else h1)
      in \<lparr>sq_Method = verb, sq_URL = cl_baseURL c @ path, sq_Headers = foldl (\<lambda>h (k, v). h(k \<mapsto> v)) h2 headers, sq_Body = input\<rparr>)"

text \<open>What \<^verbatim>\<open>jsonRequest\<close> makes of the reply; an empty body leaves the output as it was.\<close>

definition read_reply :: "web \<Rightarrow> sandbox_reply \<Rightarrow> 'a \<Rightarrow> (string \<Rightarrow> 'a result) \<Rightarrow> 'a result" where
  "read_reply wd rp zero decode =
     (case sp_Body rp of
        Inl e \<Rightarrow> Inl (wrap ''read local API response'' e)
      | Inr full \<Rightarrow>
          (let body = take maxResponseBody full in
           if \<not> successful rp then Inl (refused_reply wd ''local API'' rp body)
           else if TrimSpace body = [] then Inr zero
           else case decode body of Inl e \<Rightarrow> Inl (wrap ''decode local API response'' e) | Inr out \<Rightarrow> Inr out))"

definition jsonRequest ::
  "web \<Rightarrow> sandbox_client \<Rightarrow> nat \<Rightarrow> string \<Rightarrow> string \<Rightarrow> string option \<Rightarrow> (string \<times> string) list \<Rightarrow> 'a \<Rightarrow>
   (string \<Rightarrow> 'a result) \<Rightarrow> 'a acts" where
  "jsonRequest wd c n verb path input headers zero decode =
     (let rq = request_of c verb path input headers in
      case wd_url_Parse wd (sq_URL rq) of
        Inl e \<Rightarrow> done_with (Inl (wrap ''build request'' e))
      | Inr u \<Rightarrow>
          Some ([Request rq],
            case wd_do wd n rq of
              Inl e \<Rightarrow> Inl (wrap ''call local API'' e)
            | Inr rp \<Rightarrow> read_reply wd rp zero decode))"

definition zero_order :: sandbox_order where
  "zero_order = \<lparr>co_ID = [], co_Status = [], co_Amount = 0, co_Currency = []\<rparr>"

text \<open>The encoder writes the keys of a map in order.\<close>

definition demo_order_body :: "int \<Rightarrow> string" where
  "demo_order_body quantity =
     ''{'' @ quoted ''productId'' @ '':'' @ quoted ''product_demo'' @ '','' @ quoted ''quantity'' @ '':'' @ itoa quantity @ ''}''"

definition Client_CreateCheckout :: "web \<Rightarrow> sandbox_client \<Rightarrow> int \<Rightarrow> checkout_result acts" where
  "Client_CreateCheckout wd c quantity =
     (if quantity < 1 \<or> 1000 < quantity then done_with (Inl (NewError ''quantity must be between 1 and 1000''))
      else and_then (done_with (randomSuffix (wd_random wd))) (\<lambda>suffix.
        and_then (wrapped ''create sandbox order''
          (jsonRequest wd c 0 ''POST'' ''/v1/orders'' (Some (demo_order_body quantity))
             [(''Idempotency-Key'', ''sandbox_order_'' @ suffix)] zero_order (wd_decode_order wd))) (\<lambda>ord.
        and_then (wrapped ''create sandbox checkout''
          (jsonRequest wd c 1 ''POST'' (''/v1/orders/'' @ co_ID ord @ ''/checkout'') None
             [(''Idempotency-Key'', ''sandbox_checkout_'' @ suffix)] \<lparr>cr_CheckoutURL = [], cr_ExpiresAt = 0\<rparr>
             (wd_decode_checkout wd))) (\<lambda>co.
        done_with (Inr \<lparr>cc_OrderID = co_ID ord, cc_OrderStatus = co_Status ord, cc_Amount = co_Amount ord,
          cc_Currency = co_Currency ord, cc_CheckoutURL = cr_CheckoutURL co, cc_ExpiresAt = cr_ExpiresAt co\<rparr>)))))"

definition Client_GetOrder :: "web \<Rightarrow> sandbox_client \<Rightarrow> nat \<Rightarrow> string \<Rightarrow> sandbox_order acts" where
  "Client_GetOrder wd c n orderID =
     wrapped ''get sandbox order'' (jsonRequest wd c n ''GET'' (''/v1/orders/'' @ orderID) None [] zero_order (wd_decode_order wd))"

definition Client_Health :: "web \<Rightarrow> sandbox_client \<Rightarrow> unit acts" where
  "Client_Health wd c = jsonRequest wd c 0 ''GET'' ''/health'' None [] () (\<lambda>_. Inr ())"

definition CheckAuthentication :: "web \<Rightarrow> sandbox_client \<Rightarrow> unit acts" where
  "CheckAuthentication wd c = jsonRequest wd c 1 ''GET'' ''/v1/webhook-events?limit=1'' None [] () (\<lambda>_. Inr ())"

definition post_request :: "sandbox_client \<Rightarrow> string \<Rightarrow> string \<Rightarrow> sandbox_request" where
  "post_request c payload signature =
     \<lparr>sq_Method = ''POST'', sq_URL = cl_baseURL c @ ''/v1/webhooks/stripe'',
      sq_Headers = [''Content-Type'' \<mapsto> ''application/json'', ''Accept'' \<mapsto> ''application/json'', ''Stripe-Signature'' \<mapsto> signature],
      sq_Body = Some payload\<rparr>"

definition PostEvent :: "web \<Rightarrow> sandbox_client \<Rightarrow> string \<Rightarrow> string \<Rightarrow> unit acts" where
  "PostEvent wd c payload signature =
     (let rq = post_request c payload signature in
      case wd_url_Parse wd (sq_URL rq) of
        Inl e \<Rightarrow> done_with (Inl (wrap ''build webhook request'' e))
      | Inr u \<Rightarrow>
          Some ([Request rq],
            case wd_do wd 0 rq of
              Inl e \<Rightarrow> Inl (wrap ''call local webhook'' e)
            | Inr rp \<Rightarrow>
                (case sp_Body rp of
                   Inl e \<Rightarrow> Inl (wrap ''read local webhook response'' e)
                 | Inr full \<Rightarrow>
                     if \<not> successful rp then Inl (refused_reply wd ''local webhook'' rp (take maxResponseBody full)) else Inr ())))"

end
