(* ===== verification/Sandbox_Command.thy ===== *)
theory Sandbox_Command
  imports Sandbox_Client Samples
begin

text \<open>
  The sandbox command (\<^verbatim>\<open>cmd/sandbox/main.go\<close>): how the arguments are read, what each subcommand checks
  before it touches anything, and what it does then. The tables a statement sees and the way it ends are
  those of its position in the command, so that the services may write in between; the texts of numbers and
  durations, encoding and the keyed hash are arguments.
\<close>

section \<open>Arguments\<close>

text \<open>The part of package \<^verbatim>\<open>flag\<close> in use: a set of flags holds its current values, and a value is set by the
  kind of the flag.\<close>

datatype flag_value = FString string | FInt int | FDuration duration

type_synonym flag_set = "string \<rightharpoonup> flag_value"

record number_texts =
  nt_Int :: "string \<Rightarrow> int result"
  nt_Duration :: "string \<Rightarrow> duration result"

definition set_flag :: "number_texts \<Rightarrow> flag_value \<Rightarrow> string \<Rightarrow> flag_value result" where
  "set_flag nt old s =
     (case old of
        FString _ \<Rightarrow> Inr (FString s)
      | FInt _ \<Rightarrow> (case nt_Int nt s of Inl e \<Rightarrow> Inl e | Inr i \<Rightarrow> Inr (FInt i))
      | FDuration _ \<Rightarrow> (case nt_Duration nt s of Inl e \<Rightarrow> Inl e | Inr d \<Rightarrow> Inr (FDuration d)))"

text \<open>The name of a flag argument and the value after an equals sign; \<^const>\<open>None\<close> for what is not a flag.\<close>

datatype flag_text = Positional | Terminator | BadSyntax | NamedFlag string "string option"

definition read_flag :: "string \<Rightarrow> flag_text" where
  "read_flag s =
     (if length s < 2 \<or> hd s \<noteq> CHR ''-'' then Positional
      else if s = ''--'' then Terminator
      else let name = (if has_prefix s ''--'' then drop 2 s else drop 1 s) in
        if name = [] \<or> hd name = CHR ''-'' \<or> hd name = CHR ''='' then BadSyntax
        else if CHR ''='' \<in> set name
        then NamedFlag (takeWhile (\<lambda>c. c \<noteq> CHR ''='') name) (Some (tl (dropWhile (\<lambda>c. c \<noteq> CHR ''='') name)))
        else NamedFlag name None)"

definition assign_flag :: "number_texts \<Rightarrow> flag_set \<Rightarrow> string \<Rightarrow> string \<Rightarrow> flag_set result" where
  "assign_flag nt fs name v =
     (case fs name of
        None \<Rightarrow> Inl (Errorf [T ''flag provided but not defined: -'', T name])
      | Some old \<Rightarrow>
          (case set_flag nt old v of
             Inl e \<Rightarrow> Inl (Errorf [T ''invalid value '', T (quoted v), T '' for flag -'', T name, T '': '', T (Error_text e)])
           | Inr new \<Rightarrow> Inr (fs(name \<mapsto> new))))"

definition unknown_flag :: "string \<Rightarrow> goerr" where
  "unknown_flag name =
     (if name = ''help'' \<or> name = ''h'' then NewError ''flag: help requested''
      else Errorf [T ''flag provided but not defined: -'', T name])"

fun parse_flags :: "number_texts \<Rightarrow> flag_set \<Rightarrow> string list \<Rightarrow> (flag_set \<times> string list) result" where
  "parse_flags nt fs [] = Inr (fs, [])"
| "parse_flags nt fs (s # args) =
     (case read_flag s of
        Positional \<Rightarrow> Inr (fs, s # args)
      | Terminator \<Rightarrow> Inr (fs, args)
      | BadSyntax \<Rightarrow> Inl (Errorf [T ''bad flag syntax: '', T s])
      | NamedFlag name (Some v) \<Rightarrow>
          if fs name = None then Inl (unknown_flag name)
          else (case assign_flag nt fs name v of Inl e \<Rightarrow> Inl e | Inr fs' \<Rightarrow> parse_flags nt fs' args)
      | NamedFlag name None \<Rightarrow>
          if fs name = None then Inl (unknown_flag name)
          else (case args of
             [] \<Rightarrow> Inl (Errorf [T ''flag needs an argument: -'', T name])
           | v # rest \<Rightarrow> (case assign_flag nt fs name v of Inl e \<Rightarrow> Inl e | Inr fs' \<Rightarrow> parse_flags nt fs' rest)))"

definition string_flag :: "flag_set \<Rightarrow> string \<Rightarrow> string" where
  "string_flag fs name = (case fs name of Some (FString s) \<Rightarrow> s | _ \<Rightarrow> [])"

definition number_flag :: "flag_set \<Rightarrow> string \<Rightarrow> int" where
  "number_flag fs name = (case fs name of Some (FInt i) \<Rightarrow> i | Some (FDuration d) \<Rightarrow> d | _ \<Rightarrow> 0)"

section \<open>The world of a command\<close>

record command_env =
  cm_Config :: "sandbox_config result"
  cm_web :: web
  cm_numbers :: number_texts
  cm_stripe_cli :: bool
  cm_open :: "goerr option"
  cm_ping :: "goerr option"
  cm_marshal :: "fixture_envelope \<Rightarrow> string result"
  cm_version :: string
  cm_hmac :: "string \<Rightarrow> string \<Rightarrow> string"
  cm_now :: instant
  cm_tables :: "nat \<Rightarrow> database"
  cm_faults :: "nat \<Rightarrow> faults"
  cm_paths :: payload_paths
  cm_finished :: "nat \<Rightarrow> goerr option"
  cm_stdout :: "goerr option"

definition cleanupConfirmation :: string where "cleanupConfirmation = ''delete-local-sandbox-order''"

definition usageError :: goerr where
  "usageError = NewError ''usage: sandbox <doctor|checkout|emit|status|wait|cleanup>; run sandbox help for details''"

definition writeJSON :: "command_env \<Rightarrow> printout \<Rightarrow> unit acts" where
  "writeJSON env out =
     Some ([Printed out], case cm_stdout env of None \<Rightarrow> Inr () | Some e \<Rightarrow> Inl (wrap ''write sandbox output'' e))"

text \<open>\<^verbatim>\<open>OpenStore\<close> (store.go), and the code that runs on the store until its deferred \<^verbatim>\<open>Close\<close>.\<close>

definition with_store :: "command_env \<Rightarrow> string \<Rightarrow> 'a acts \<Rightarrow> 'a acts" where
  "with_store env databaseURL body =
     (case cm_open env of
        Some e \<Rightarrow> done_with (Inl (wrap ''open sandbox database'' e))
      | None \<Rightarrow>
     (case cm_ping env of
        Some e \<Rightarrow> Some ([Opened databaseURL, Closed databaseURL], Inl (wrap ''ping sandbox database'' e))
      | None \<Rightarrow> map_option (\<lambda>(ts, r). (Opened databaseURL # ts @ [Closed databaseURL], r)) body))"

section \<open>Subcommands\<close>

definition runDoctor :: "command_env \<Rightarrow> sandbox_config \<Rightarrow> string list \<Rightarrow> unit acts" where
  "runDoctor env cfg args =
     and_then (done_with (parse_flags (cm_numbers env) Map.empty args)) (\<lambda>(fs, rest).
     if rest \<noteq> [] then done_with (Inl (NewError ''doctor does not accept positional arguments''))
     else and_then (checked (Sandbox_Validate (wd_url_Parse (cm_web env)) cfg
         \<lparr>rq_API = True, rq_Database = True, rq_Stripe = True, rq_WebhookSecret = True\<rparr>)) (\<lambda>_.
     if \<not> cm_stripe_cli env then done_with (Inl (NewError ''stripe CLI was not found in PATH''))
     else and_then (wrapped ''API health check'' (Client_Health (cm_web env) (NewClient cfg))) (\<lambda>_.
     and_then (wrapped ''API authentication check'' (CheckAuthentication (cm_web env) (NewClient cfg))) (\<lambda>_.
     with_store env (sc_DatabaseURL cfg) (writeJSON env (Ready (sc_Environment cfg)))))))"

definition checkout_flags :: flag_set where "checkout_flags = [''quantity'' \<mapsto> FInt 1]"

definition runCheckout :: "command_env \<Rightarrow> sandbox_config \<Rightarrow> string list \<Rightarrow> unit acts" where
  "runCheckout env cfg args =
     and_then (done_with (parse_flags (cm_numbers env) checkout_flags args)) (\<lambda>(fs, rest).
     if rest \<noteq> [] then done_with (Inl (NewError ''checkout does not accept positional arguments''))
     else and_then (checked (Sandbox_Validate (wd_url_Parse (cm_web env)) cfg
         (no_requirements\<lparr>rq_API := True, rq_Stripe := True\<rparr>))) (\<lambda>_.
     and_then (Client_CreateCheckout (cm_web env) (NewClient cfg) (number_flag fs ''quantity'')) (\<lambda>res.
     writeJSON env (CheckoutCreated res))))"

definition emit_flags :: flag_set where
  "emit_flags = [''order'' \<mapsto> FString [], ''scenario'' \<mapsto> FString [], ''event-id'' \<mapsto> FString [],
     ''wait'' \<mapsto> FDuration (20 * Second)]"

text \<open>The statuses read while an emitted event is waited for, and what is printed in the end.\<close>

definition await_emitted :: "command_env \<Rightarrow> string \<Rightarrow> string \<Rightarrow> scenario \<Rightarrow> unit acts" where
  "await_emitted env orderID eventID sn =
     (case WaitForScenario
             (\<lambda>n. Store_Status (cm_faults env (Suc n)) (cm_tables env (2 * n + 1)) (cm_tables env (2 * n + 2)) orderID eventID)
             (cm_finished env) sn 0 of
        None \<Rightarrow> None
      | Some (st, None, k) \<Rightarrow> writeJSON env (Emitted eventID (sn_Name sn) st)
      | Some (st, Some e, k) \<Rightarrow> Some ([Printed (Emitted eventID (sn_Name sn) st)], Inl e))"

definition emit_on_store :: "command_env \<Rightarrow> sandbox_config \<Rightarrow> flag_set \<Rightarrow> unit acts" where
  "emit_on_store env cfg fs =
     and_then (done_with (Store_Reference (cm_faults env 0 0) (string_flag fs ''order'') (cm_tables env 0))) (\<lambda>rf.
     and_then (done_with (RenderEvent (cm_marshal env) (cm_version env) (wd_random (cm_web env)) (string_flag fs ''scenario'')
       (string_flag fs ''event-id'') rf (UTC (cm_now env)))) (\<lambda>(payload, sn, eventID).
     and_then (done_with (StripeSignature (cm_hmac env) payload (sc_WebhookSecret cfg) (UTC (cm_now env)))) (\<lambda>signature.
     and_then (PostEvent (cm_web env) (NewClient cfg) payload signature) (\<lambda>_.
     if 0 < number_flag fs ''wait'' then await_emitted env (string_flag fs ''order'') eventID sn
     else writeJSON env (Emitted eventID (sn_Name sn) no_status)))))"

definition runEmit :: "command_env \<Rightarrow> sandbox_config \<Rightarrow> string list \<Rightarrow> unit acts" where
  "runEmit env cfg args =
     and_then (done_with (parse_flags (cm_numbers env) emit_flags args)) (\<lambda>(fs, rest).
     if rest \<noteq> [] \<or> string_flag fs ''order'' = [] \<or> string_flag fs ''scenario'' = []
     then done_with (Inl (NewError ''emit requires --order and --scenario and accepts no positional arguments''))
     else if number_flag fs ''wait'' < 0 then done_with (Inl (NewError ''emit --wait must not be negative''))
     else and_then (checked (Sandbox_Validate (wd_url_Parse (cm_web env)) cfg
         (no_requirements\<lparr>rq_API := True, rq_Database := True, rq_WebhookSecret := True\<rparr>))) (\<lambda>_.
     with_store env (sc_DatabaseURL cfg) (emit_on_store env cfg fs)))"

definition status_flags :: flag_set where "status_flags = [''order'' \<mapsto> FString [], ''event-id'' \<mapsto> FString []]"

definition runStatus :: "command_env \<Rightarrow> sandbox_config \<Rightarrow> string list \<Rightarrow> unit acts" where
  "runStatus env cfg args =
     and_then (done_with (parse_flags (cm_numbers env) status_flags args)) (\<lambda>(fs, rest).
     if rest \<noteq> [] \<or> string_flag fs ''order'' = []
     then done_with (Inl (NewError ''status requires --order and accepts no positional arguments''))
     else and_then (checked (Sandbox_Validate (wd_url_Parse (cm_web env)) cfg (no_requirements\<lparr>rq_Database := True\<rparr>))) (\<lambda>_.
     with_store env (sc_DatabaseURL cfg)
       (and_then (done_with (Store_Status (cm_faults env 0) (cm_tables env 0) (cm_tables env 1) (string_flag fs ''order'')
          (string_flag fs ''event-id''))) (\<lambda>st. writeJSON env (StatusRead st)))))"

definition wait_flags :: flag_set where
  "wait_flags = [''order'' \<mapsto> FString [], ''status'' \<mapsto> FString ''paid'', ''timeout'' \<mapsto> FDuration (2 * Minute)]"

text \<open>The polls of the order, one request each.\<close>

definition poll_order :: "command_env \<Rightarrow> sandbox_config \<Rightarrow> string \<Rightarrow> nat \<Rightarrow> sandbox_order acts" where
  "poll_order env cfg orderID n = Client_GetOrder (cm_web env) (NewClient cfg) n orderID"

definition polled :: "sandbox_order acts \<Rightarrow> (string \<times> sandbox_order) result" where
  "polled m = (case m of
     Some (ts, Inr ord) \<Rightarrow> Inr (co_Status ord, ord) | Some (ts, Inl e) \<Rightarrow> Inl e | None \<Rightarrow> Inl (NewError []))"

definition touches :: "'a acts \<Rightarrow> touch list" where
  "touches m = (case m of None \<Rightarrow> [] | Some (ts, r) \<Rightarrow> ts)"

definition await_order :: "command_env \<Rightarrow> sandbox_config \<Rightarrow> string \<Rightarrow> string \<Rightarrow> sandbox_order acts" where
  "await_order env cfg orderID expected =
     (case WaitForOrder (\<lambda>n. polled (poll_order env cfg orderID n)) (cm_finished env) zero_order expected 0 of
        None \<Rightarrow> None
      | Some (ord, e, k) \<Rightarrow>
          Some (concat (map (\<lambda>n. touches (poll_order env cfg orderID n)) [0..<Suc k]),
            case e of None \<Rightarrow> Inr ord | Some e \<Rightarrow> Inl e))"

definition runWait :: "command_env \<Rightarrow> sandbox_config \<Rightarrow> string list \<Rightarrow> unit acts" where
  "runWait env cfg args =
     and_then (done_with (parse_flags (cm_numbers env) wait_flags args)) (\<lambda>(fs, rest).
     if rest \<noteq> [] \<or> string_flag fs ''order'' = []
     then done_with (Inl (NewError ''wait requires --order and accepts no positional arguments''))
     else if number_flag fs ''timeout'' \<le> 0 then done_with (Inl (NewError ''wait --timeout must be positive''))
     else and_then (checked (Sandbox_Validate (wd_url_Parse (cm_web env)) cfg (no_requirements\<lparr>rq_API := True\<rparr>))) (\<lambda>_.
     and_then (await_order env cfg (string_flag fs ''order'') (string_flag fs ''status'')) (\<lambda>ord. writeJSON env (OrderRead ord))))"

definition cleanup_flags :: flag_set where "cleanup_flags = [''order'' \<mapsto> FString [], ''confirm'' \<mapsto> FString []]"

definition remove_order :: "command_env \<Rightarrow> string \<Rightarrow> cleanup_result acts" where
  "remove_order env orderID =
     (case Store_Cleanup (cm_faults env 0) (cm_paths env) orderID (cm_tables env 0) of
        (db', r) \<Rightarrow> Some ([Removed orderID (cm_tables env 0) db'], r))"

definition runCleanup :: "command_env \<Rightarrow> sandbox_config \<Rightarrow> string list \<Rightarrow> unit acts" where
  "runCleanup env cfg args =
     and_then (done_with (parse_flags (cm_numbers env) cleanup_flags args)) (\<lambda>(fs, rest).
     if rest \<noteq> [] \<or> string_flag fs ''order'' = []
     then done_with (Inl (NewError ''cleanup requires --order and accepts no positional arguments''))
     else if string_flag fs ''confirm'' \<noteq> cleanupConfirmation
     then done_with (Inl (Errorf [T ''cleanup requires --confirm='', T cleanupConfirmation]))
     else and_then (checked (Sandbox_Validate (wd_url_Parse (cm_web env)) cfg (no_requirements\<lparr>rq_Database := True\<rparr>))) (\<lambda>_.
     with_store env (sc_DatabaseURL cfg)
       (and_then (remove_order env (string_flag fs ''order'')) (\<lambda>res. writeJSON env (CleanedUp res)))))"

text \<open>\<^verbatim>\<open>run\<close>.\<close>

definition sandbox_run :: "command_env \<Rightarrow> string list \<Rightarrow> unit acts" where
  "sandbox_run env arguments =
     (case arguments of
        [] \<Rightarrow> done_with (Inl usageError)
      | c # args \<Rightarrow>
     (case cm_Config env of
        Inl e \<Rightarrow> done_with (Inl e)
      | Inr cfg \<Rightarrow>
          if c = ''doctor'' then runDoctor env cfg args
          else if c = ''checkout'' then runCheckout env cfg args
          else if c = ''emit'' then runEmit env cfg args
          else if c = ''status'' then runStatus env cfg args
          else if c = ''wait'' then runWait env cfg args
          else if c = ''cleanup'' then runCleanup env cfg args
          else if c \<in> {''help'', ''-h'', ''--help''} then Some ([Printed Usage], Inr ())
          else done_with (Inl (Errorf [T ''unknown sandbox command '', T (quoted c), T '': '', W usageError]))))"

section \<open>What a command may touch\<close>

text \<open>\<open>confined P m\<close>: the code ends, and every touch of it satisfies \<open>P\<close>.\<close>

definition confined :: "(touch \<Rightarrow> bool) \<Rightarrow> 'a acts \<Rightarrow> bool" where
  "confined P m \<longleftrightarrow> (case m of None \<Rightarrow> False | Some (ts, r) \<Rightarrow> list_all P ts)"

named_theorems keeps_confined

lemma confined_done [keeps_confined]: "confined P (done_with r)"
  by (simp add: confined_def done_with_def)

lemma confined_checked [keeps_confined]: "confined P (checked e)"
  by (simp add: confined_def checked_def)

lemma confined_and_then:
  assumes "confined P m" and "\<And>ts x. m = Some (ts, Inr x) \<Longrightarrow> confined P (f x)"
  shows "confined P (and_then m f)"
  using assms by (auto simp: confined_def and_then_def split: option.splits sum.splits)

lemma confined_wrapped [simp]: "confined P (wrapped t m) \<longleftrightarrow> confined P m"
  by (auto simp: confined_def wrapped_def split: option.splits)

lemma confined_write [keeps_confined]: "(\<And>out. P (Printed out)) \<Longrightarrow> confined P (writeJSON env out)"
  by (simp add: confined_def writeJSON_def)

lemma confined_store [keeps_confined]:
  "P (Opened u) \<Longrightarrow> P (Closed u) \<Longrightarrow> confined P body \<Longrightarrow> confined P (with_store env u body)"
  by (auto simp: confined_def with_store_def done_with_def split: option.splits)

lemma confined_jsonRequest [keeps_confined]:
  "(\<And>rq. sq_URL rq = cl_baseURL c @ path \<Longrightarrow> P (Request rq)) \<Longrightarrow> confined P (jsonRequest wd c n verb path input headers zero decode)"
  by (auto simp: confined_def jsonRequest_def done_with_def request_of_def Let_def split: sum.splits)

lemma confined_PostEvent [keeps_confined]:
  "(\<And>rq. has_prefix (sq_URL rq) (cl_baseURL c) \<Longrightarrow> P (Request rq)) \<Longrightarrow> confined P (PostEvent wd c payload signature)"
  by (auto simp: confined_def PostEvent_def post_request_def done_with_def has_prefix_def Let_def split: sum.splits)

lemma has_prefix_append [simp]: "has_prefix (s @ t) s"
  by (simp add: has_prefix_def)

lemma confined_GetOrder [keeps_confined]:
  "(\<And>rq. has_prefix (sq_URL rq) (cl_baseURL c) \<Longrightarrow> P (Request rq)) \<Longrightarrow> confined P (Client_GetOrder wd c n i)"
  unfolding Client_GetOrder_def confined_wrapped by (rule confined_jsonRequest) simp

lemma confined_CreateCheckout [keeps_confined]:
  assumes "\<And>rq. has_prefix (sq_URL rq) (cl_baseURL c) \<Longrightarrow> P (Request rq)"
  shows "confined P (Client_CreateCheckout wd c quantity)"
  unfolding Client_CreateCheckout_def
  by (auto intro!: confined_and_then confined_done confined_jsonRequest assms)

lemma polls_end:
  assumes "cm_finished env m \<noteq> None" and "\<And>n. confined P (poll_order env cfg i n)"
  shows "confined P (await_order env cfg i expected)"
proof -
  obtain ord e k where "WaitForOrder (\<lambda>n. polled (poll_order env cfg i n)) (cm_finished env) zero_order expected 0 = Some (ord, e, k)"
    using WaitForOrder_ends [of 0 m "cm_finished env" "\<lambda>n. polled (poll_order env cfg i n)" zero_order expected] assms(1) by auto
  moreover have "list_all P (touches (poll_order env cfg i n))" for n
    using assms(2) [of n] by (auto simp: confined_def touches_def split: option.splits)
  ultimately show ?thesis by (auto simp: await_order_def confined_def list_all_iff)
qed

lemma await_ends:
  assumes "cm_finished env m \<noteq> None" and "\<And>out. P (Printed out)"
  shows "confined P (await_emitted env i eid sn)"
proof -
  obtain st e k where "WaitForScenario
      (\<lambda>n. Store_Status (cm_faults env (Suc n)) (cm_tables env (2 * n + 1)) (cm_tables env (2 * n + 2)) i eid)
      (cm_finished env) sn 0 = Some (st, e, k)"
    using WaitForScenario_ends [of 0 m "cm_finished env" _ sn] assms(1) by blast
  then show ?thesis
    using confined_write [of P env, OF assms(2)] assms(2) by (cases e) (simp_all add: await_emitted_def confined_def)
qed

section \<open>Local only\<close>

text \<open>A touch that stays on the machine: a request below the configured origin, itself on the loopback
  interface; the configured database, there too; an order removed by the confirmed command for it.\<close>

definition local_touch :: "command_env \<Rightarrow> string list \<Rightarrow> sandbox_config \<Rightarrow> touch \<Rightarrow> bool" where
  "local_touch env arguments cfg t =
     (let P = wd_url_Parse (cm_web env) in
      case t of
        Request rq \<Rightarrow> local_environment cfg \<and> has_prefix (sq_URL rq) (sc_APIURL cfg) \<and> local_endpoint P [''http''] (sc_APIURL cfg)
      | Opened u \<Rightarrow> local_environment cfg \<and> u = sc_DatabaseURL cfg \<and> local_endpoint P [''postgres'', ''postgresql''] u
      | Closed u \<Rightarrow> u = sc_DatabaseURL cfg
      | Removed i db db' \<Rightarrow>
          (case arguments of
             [] \<Rightarrow> False
           | c # args \<Rightarrow> c = ''cleanup'' \<and> db' = fst (Store_Cleanup (cm_faults env 0) (cm_paths env) i db) \<and>
               (case parse_flags (cm_numbers env) cleanup_flags args of
                  Inl e \<Rightarrow> False
                | Inr (fs, rest) \<Rightarrow> string_flag fs ''confirm'' = cleanupConfirmation \<and> i = string_flag fs ''order'' \<and> i \<noteq> []))
      | Printed out \<Rightarrow> True)"

text \<open>The connection is closed again: none was opened, or one, and closed.\<close>

fun connections :: "touch list \<Rightarrow> touch list" where
  "connections [] = []"
| "connections (Opened u # ts) = Opened u # connections ts"
| "connections (Closed u # ts) = Closed u # connections ts"
| "connections (Request rq # ts) = connections ts"
| "connections (Removed i db db' # ts) = connections ts"
| "connections (Printed out # ts) = connections ts"

lemma connections_append [simp]: "connections (ts @ us) = connections ts @ connections us"
  by (induction ts rule: connections.induct) simp_all

definition silent :: "touch \<Rightarrow> bool" where
  "silent t = (case t of Opened u \<Rightarrow> False | Closed u \<Rightarrow> False | _ \<Rightarrow> True)"

definition silent_acts :: "'a acts \<Rightarrow> bool" where "silent_acts m = confined silent m"

definition one_session :: "string \<Rightarrow> 'a acts \<Rightarrow> bool" where
  "one_session u m \<longleftrightarrow> (case m of None \<Rightarrow> False | Some (ts, r) \<Rightarrow> connections ts \<in> {[], [Opened u, Closed u]})"

lemma quiet_connections: "list_all silent ts \<Longrightarrow> connections ts = []"
  by (induction ts rule: connections.induct) (simp_all add: silent_def)

lemma one_session_quiet: "silent_acts m \<Longrightarrow> one_session u m"
  by (auto simp: silent_acts_def one_session_def confined_def quiet_connections split: option.splits)

lemma one_session_then:
  assumes "silent_acts m" and "\<And>x. one_session u (f x)"
  shows "one_session u (and_then m f)"
proof (cases "\<exists>ts x. m = Some (ts, Inr x)")
  case True
  then obtain ts x where m: "m = Some (ts, Inr x)" by blast
  with assms(1) have "connections ts = []" by (simp add: silent_acts_def confined_def quiet_connections)
  with m assms(2) [of x] show ?thesis by (auto simp: and_then_def one_session_def split: option.splits)
next
  case False
  with assms(1) show ?thesis
    by (auto simp: silent_acts_def confined_def one_session_def and_then_def quiet_connections split: option.splits sum.splits)
qed

lemma one_session_store: "silent_acts body \<Longrightarrow> one_session u (with_store env u body)"
  by (auto simp: silent_acts_def confined_def one_session_def with_store_def done_with_def quiet_connections split: option.splits)

lemma silent_simps [simp]: "silent (Request rq)" "silent (Removed i db db')" "silent (Printed out)"
  by (simp_all add: silent_def)

lemma acts_Inr [simp]:
  "done_with r = Some (ts, Inr x) \<longleftrightarrow> r = Inr x \<and> ts = []"
  "checked e = Some (ts, Inr y) \<longleftrightarrow> e = None \<and> ts = []"
  by (auto simp: done_with_def checked_def split: option.splits)

text \<open>A client of the settings only asks below their origin, and the database is the configured one.\<close>

lemma validated_local:
  assumes "Sandbox_Validate (wd_url_Parse (cm_web env)) cfg req = None"
  shows "(rq_API req \<longrightarrow> (\<forall>rq arguments. has_prefix (sq_URL rq) (cl_baseURL (NewClient cfg)) \<longrightarrow> local_touch env arguments cfg (Request rq))) \<and>
    (rq_Database req \<longrightarrow> (\<forall>arguments. local_touch env arguments cfg (Opened (sc_DatabaseURL cfg))))"
  using Sandbox_Validate_None [OF assms] by (simp add: local_touch_def NewClient_def)

lemma local_plain [simp]: "local_touch env arguments cfg (Printed out)" "local_touch env arguments cfg (Closed (sc_DatabaseURL cfg))"
  by (simp_all add: local_touch_def)

lemma doctor_local: "confined (local_touch env (c # args) cfg) (runDoctor env cfg args)"
  unfolding runDoctor_def Client_Health_def CheckAuthentication_def
  by (auto intro!: confined_and_then keeps_confined dest!: validated_local split: prod.split)

lemma checkout_local: "confined (local_touch env (c # args) cfg) (runCheckout env cfg args)"
  unfolding runCheckout_def
  by (auto simp: no_requirements_def intro!: confined_and_then keeps_confined dest!: validated_local split: prod.split)

lemma emit_local:
  assumes "cm_finished env m \<noteq> None"
  shows "confined (local_touch env (c # args) cfg) (runEmit env cfg args)"
  unfolding runEmit_def emit_on_store_def
  by (auto simp: no_requirements_def intro!: confined_and_then keeps_confined await_ends [of env m, OF assms] dest!: validated_local
      split: prod.split)

lemma status_local: "confined (local_touch env (c # args) cfg) (runStatus env cfg args)"
  unfolding runStatus_def
  by (auto simp: no_requirements_def intro!: confined_and_then keeps_confined dest!: validated_local split: prod.split)

lemma wait_local:
  assumes "cm_finished env m \<noteq> None"
  shows "confined (local_touch env (c # args) cfg) (runWait env cfg args)"
  unfolding runWait_def poll_order_def
  by (auto simp: no_requirements_def poll_order_def intro!: confined_and_then keeps_confined polls_end [of env m, OF assms]
      dest!: validated_local split: prod.split)

lemma cleanup_local: "confined (local_touch env (''cleanup'' # args) cfg) (runCleanup env cfg args)"
proof -
  have "confined (local_touch env (''cleanup'' # args) cfg) (remove_order env (string_flag fs ''order''))"
    if "parse_flags (cm_numbers env) cleanup_flags args = Inr (fs, [])" "string_flag fs ''order'' \<noteq> []"
      "string_flag fs ''confirm'' = cleanupConfirmation" for fs
    using that by (simp add: remove_order_def confined_def local_touch_def split: prod.split)
  then show ?thesis
    unfolding runCleanup_def
    by (auto simp: no_requirements_def intro!: confined_and_then keeps_confined dest!: validated_local split: prod.split)
qed

lemma doctor_session: "one_session (sc_DatabaseURL cfg) (runDoctor env cfg args)"
  unfolding runDoctor_def Client_Health_def CheckAuthentication_def
  by (auto simp: silent_acts_def intro!: one_session_then one_session_store keeps_confined split: prod.split)
    (auto simp: silent_acts_def intro!: one_session_quiet keeps_confined)

lemma checkout_session: "one_session (sc_DatabaseURL cfg) (runCheckout env cfg args)"
  unfolding runCheckout_def
  by (auto simp: silent_acts_def intro!: one_session_quiet confined_and_then keeps_confined split: prod.split)

lemma emit_session:
  assumes "cm_finished env m \<noteq> None"
  shows "one_session (sc_DatabaseURL cfg) (runEmit env cfg args)"
proof -
  have "silent_acts (emit_on_store env cfg fs)" for fs
    unfolding emit_on_store_def
    by (auto simp: silent_acts_def intro!: confined_and_then keeps_confined await_ends [of env m, OF assms] split: prod.split)
  then show ?thesis
    unfolding runEmit_def
    by (auto simp: silent_acts_def intro!: one_session_then one_session_store keeps_confined split: prod.split)
      (auto simp: silent_acts_def intro!: one_session_quiet keeps_confined)
qed

lemma status_session: "one_session (sc_DatabaseURL cfg) (runStatus env cfg args)"
  unfolding runStatus_def
  by (auto simp: silent_acts_def intro!: one_session_then one_session_store confined_and_then keeps_confined split: prod.split)
    (auto simp: silent_acts_def intro!: one_session_quiet keeps_confined)

lemma wait_session:
  assumes "cm_finished env m \<noteq> None"
  shows "one_session (sc_DatabaseURL cfg) (runWait env cfg args)"
  unfolding runWait_def
  by (auto simp: silent_acts_def poll_order_def intro!: one_session_quiet confined_and_then keeps_confined polls_end [of env m, OF assms]
      split: prod.split)

lemma cleanup_session: "one_session (sc_DatabaseURL cfg) (runCleanup env cfg args)"
proof -
  have "confined silent (remove_order env i)" for i by (simp add: remove_order_def confined_def split: prod.split)
  then show ?thesis
    unfolding runCleanup_def
    by (auto simp: silent_acts_def intro!: one_session_then one_session_store confined_and_then keeps_confined split: prod.split)
      (auto simp: silent_acts_def intro!: one_session_quiet keeps_confined)
qed


text \<open>A local setup, and the cleanup of the sample order in it.\<close>

definition demo_config :: sandbox_config where
  "demo_config = \<lparr>sc_Environment = ''test'', sc_APIURL = ''http://localhost:8080'', sc_APIKey = ''key'',
     sc_DatabaseURL = ''postgres://localhost/payments'', sc_StripeKey = ''sk_test_1'', sc_WebhookSecret = ''whsec_1''\<rparr>"

definition demo_web :: web where
  "demo_web = \<lparr>wd_url_Parse = (\<lambda>s. Inr \<lparr>url_Scheme = takeWhile (\<lambda>c. c \<noteq> CHR '':'') s, url_Host = ''localhost'',
       ep_Hostname = ''localhost'', ep_Path = ''/payments''\<rparr>),
     wd_do = (\<lambda>_ _. Inl (External ''connection refused'')), wd_decode_error = (\<lambda>_. Inl (External ''not JSON'')),
     wd_decode_order = (\<lambda>_. Inl (External ''not JSON'')), wd_decode_checkout = (\<lambda>_. Inl (External ''not JSON'')),
     wd_random = Inr ''0123456789ab''\<rparr>"

definition demo_env :: command_env where
  "demo_env = \<lparr>cm_Config = Inr demo_config, cm_web = demo_web,
     cm_numbers = \<lparr>nt_Int = (\<lambda>_. Inl (External ''parse error'')), nt_Duration = (\<lambda>_. Inl (External ''parse error''))\<rparr>,
     cm_stripe_cli = True, cm_open = None, cm_ping = None, cm_marshal = (\<lambda>_. Inr ''{}''), cm_version = ''v1'',
     cm_hmac = (\<lambda>_ _. []), cm_now = 9, cm_tables = (\<lambda>_. sample_db), cm_faults = (\<lambda>_. no_faults),
     cm_paths = \<lparr>pp_metadata_order_id = \<lambda>_. None, pp_client_reference_id = \<lambda>_. None\<rparr>,
     cm_finished = (\<lambda>n. Some (External ''context deadline exceeded'')), cm_stdout = None\<rparr>"

definition demo_arguments :: "string list" where
  "demo_arguments = [''cleanup'', ''--order'', ''ord_1'', ''-confirm=delete-local-sandbox-order'']"


end
