(* ===== verification/Spec2Isabelle.thy ===== *)
theory Spec2Isabelle
  imports Catalog System Stripe Outbox_Repository Errsanitize Delivery Tier_Names Amqp_Session Http_Api Api_Process
    Metrics_Series Metrics_Truth Sandbox_Cleanup Sandbox_Pipeline Sandbox_Command
begin

text \<open>
  A verification development for the payments service: an HTTP API that takes orders, opens hosted
  checkouts and receives the provider's webhooks, and a worker that relays stored events to RabbitMQ,
  consumes them, and applies them to payments and orders. Both processes meet in one PostgreSQL database.

  \<^bold>\<open>The parts and how they interact.\<close> A request passes the middleware chain and the generated server to a
  handler, which calls a use case (orders, payments, webhooks) over a repository. A checkout reserves a
  payment and an attempt, calls Stripe, and saves the session. A webhook stores an inbox event and, in the
  same transaction, an outbox message. The relay leases due messages, publishes them with confirms, and
  settles them. The consumer takes a message, resolves the event's session, decides the transition, and
  applies it in one transaction; then it acknowledges the message, or first republishes it to a delay tier
  or to the dead letter. Both processes tell observers what they do; the observers turn it into log lines
  and metrics. A command beside them, the sandbox, drives the same pipeline on a developer's machine.

  \<^bold>\<open>Theories and code\<close> (paths under \<^verbatim>\<open>src/internal\<close>).
  \<^item> \<^theory_text>\<open>Prelude\<close>, \<^theory_text>\<open>GoLang\<close>, \<^theory_text>\<open>Digits\<close>, \<^theory_text>\<open>Float64\<close>, \<^theory_text>\<open>Netip\<close>: theorem collections, tables as lists of rows, Go's strings,
    integers at their width, durations, wrapped errors, decimal text, binary floating point, and addresses.
  \<^item> \<^theory_text>\<open>Order_Domain\<close>, \<^theory_text>\<open>Payment_Domain\<close>, \<^theory_text>\<open>Webhook_Domain\<close> (\<^verbatim>\<open>domain\<close>), \<^theory_text>\<open>Catalog\<close> (\<^verbatim>\<open>adapters/catalog\<close>),
    \<^theory_text>\<open>Errsanitize\<close> (\<^verbatim>\<open>platform/errsanitize\<close>, with a matcher for its regular expressions).
  \<^item> \<^theory_text>\<open>Order_Service\<close>, \<^theory_text>\<open>Payment_Service\<close>, \<^theory_text>\<open>Webhook_Service\<close>, \<^theory_text>\<open>Consumer_Service\<close>, \<^theory_text>\<open>Relay\<close> (\<^verbatim>\<open>application\<close>): the
    use cases over their ports. What each relies on is a locale (\<^verbatim>\<open>checkout_repository\<close>, \<^verbatim>\<open>inbox_repository\<close>
    and so on), interpreted on the repositories below.
  \<^item> \<^theory_text>\<open>Database\<close>, \<^theory_text>\<open>Queries\<close> (\<^verbatim>\<open>adapters/postgres/queries\<close> and \<^verbatim>\<open>db/migrations\<close>): rows, constraints, faults, and
    one definition per statement. \<^theory_text>\<open>Order_Repository\<close>, \<^theory_text>\<open>Payment_Repository\<close>, \<^theory_text>\<open>Webhook_Repository\<close>,
    \<^theory_text>\<open>Event_Repository\<close>, \<^theory_text>\<open>Outbox_Repository\<close> (\<^verbatim>\<open>adapters/postgres/repositories\<close>): the transactions.
  \<^item> \<^theory_text>\<open>Stripe\<close> (\<^verbatim>\<open>adapters/payments/stripe\<close>): sessions, signatures, what a stored event says.
  \<^item> \<^theory_text>\<open>Amqp\<close>, \<^theory_text>\<open>Amqp_Connection\<close>, \<^theory_text>\<open>Amqp_Topology\<close>, \<^theory_text>\<open>Tier_Names\<close>, \<^theory_text>\<open>Amqp_Publisher\<close>, \<^theory_text>\<open>Amqp_Consumer\<close>,
    \<^theory_text>\<open>Amqp_Session\<close> (\<^verbatim>\<open>adapters/rabbitmq\<close>): the adapter over the driver, and the goroutines of a consuming
    session as a step relation.
  \<^item> \<^theory_text>\<open>Rate_Limit\<close>, \<^theory_text>\<open>Auth\<close>, \<^theory_text>\<open>Config\<close> (\<^verbatim>\<open>platform\<close>), \<^theory_text>\<open>Client_Address\<close>, \<^theory_text>\<open>Client_Bucket\<close>, \<^theory_text>\<open>Http_Limits\<close>,
    \<^theory_text>\<open>Openapi\<close>, \<^theory_text>\<open>Http_Handlers\<close>, \<^theory_text>\<open>Http_Server\<close>, \<^theory_text>\<open>Http_Routes\<close> (\<^verbatim>\<open>transport/http\<close>): one request from the
    connection to the response. \<^theory_text>\<open>Http_Answers\<close>, \<^theory_text>\<open>Http_Contract\<close>, \<^theory_text>\<open>Http_Refusals\<close>, \<^theory_text>\<open>Http_Access\<close> hold
    what is shown of it.
  \<^item> \<^theory_text>\<open>Metrics\<close>, \<^theory_text>\<open>Metrics_Observers\<close>, \<^theory_text>\<open>Samplers\<close> (\<^verbatim>\<open>platform/metrics\<close>): vocabulary, catalogue, the observer of each
    component, collectors and samplers. A locale states what every observer keeps to, interpreted on each.
    \<^theory_text>\<open>Metrics_Truth\<close> relates the counters to the tables, \<^theory_text>\<open>Metrics_Series\<close> bounds them for the whole program.
  \<^item> \<^theory_text>\<open>Startup_Retry\<close> (\<^verbatim>\<open>platform/retry\<close>), \<^theory_text>\<open>Worker_Logs\<close> (\<^verbatim>\<open>platform/logging\<close> and the observers of the worker),
    \<^theory_text>\<open>Process_Lifecycle\<close>, \<^theory_text>\<open>Worker_Process\<close>, \<^theory_text>\<open>Api_Process\<close> (\<^verbatim>\<open>runtime\<close>): how the two processes start, what they
    are composed of, how they end, and that they release what they opened.
  \<^item> \<^theory_text>\<open>Sandbox_Events\<close>, \<^theory_text>\<open>Sandbox_Store\<close>, \<^theory_text>\<open>Sandbox_Config\<close>, \<^theory_text>\<open>Sandbox_Client\<close> (\<^verbatim>\<open>sandbox\<close>) and \<^theory_text>\<open>Sandbox_Command\<close>
    (\<^verbatim>\<open>cmd/sandbox\<close>): fixtures, the tool's own view of the tables, its settings, its requests and its
    subcommands. \<^theory_text>\<open>Sandbox_Cleanup\<close> and \<^theory_text>\<open>Sandbox_Pipeline\<close> hold what it does to the tables and what an emitted
    scenario comes to.
  \<^item> \<^theory_text>\<open>Ledger\<close>, \<^theory_text>\<open>System\<close>, \<^theory_text>\<open>Delivery\<close>, \<^theory_text>\<open>Http_Api\<close> (\<^verbatim>\<open>runtime\<close>): the components together. \<^theory_text>\<open>Samples\<close> is the
    concrete state of the witnesses.

  \<^bold>\<open>State and operations.\<close> The tables are one record of row lists; a statement is a function of it, with a
  fault for each position of a transaction. A use case is a function of an arbitrary state, a repository
  one of the tables. A Go error is a value of \<^typ>\<open>goerr\<close>, so \<^verbatim>\<open>errors.Is\<close> and the texts are computed; a
  panic is an error value that only the HTTP recovery looks at. Names are those of the source, with a
  prefix where two packages use the same one.

  \<^bold>\<open>What the lemmas show.\<close> Of the domain: the invariants of its values and the transition matrix. Of the
  repositories: atomicity under every fault, idempotence, exclusion, and that locks and conditional
  updates serialise the processes. Of the ledger: an order is paid exactly when a payment for it succeeded.
  Of the runs: every interleaving keeps the schema, the ledger and a message for every handled event, and
  never loses or regresses a row; payment is reachable. Of the broker side: a published row is on the
  broker, an acknowledged message is durable, deadlines hold, and where a session or a drain can hang. Of
  the HTTP side: every response is marked and within the contract, keys guard everything but the
  probe and the webhook, a webhook is acknowledged only when stored, refusals are honest, and any history of
  requests is a run. Of the configuration: what loads also starts, with or without a broker, in bounded time.
  Of the metrics: every series is catalogued and their number fixed by the topology, and the counted
  transitions are the committed ones. Of the sandbox: it stays on the local machine, its cleanup removes one
  order and nothing else, and each scenario ends in the state it declares.

  \<^bold>\<open>Conventions and bounds.\<close>
  \<^item> A transaction that fails leaves the tables as they were; \<^verbatim>\<open>ReplyLost\<close> is a commit whose answer never
    arrived, so the change is made and an error reported. Isolation is READ COMMITTED: between the
    statements of an operation the other connections act through a function \<open>env\<close>. Row locks end with
    the transaction. \<^verbatim>\<open>SKIP LOCKED\<close> is a predicate of the rows others hold, and ties in an order keep the
    order of the table.
  \<^item> Instants and durations are integers in nanoseconds; int32 and int64 wrap where the source converts or
    can overflow. Floating point is exact rounding in the normal range, where the limiter computes.
  \<^item> An operation on the broker's driver is partial: \<^const>\<open>None\<close> is an operation that never returns. There is no
    fuel; a claim that an operation returns is stated as such.
  \<^item> JSON documents stay text or records; which text decodes to which value is a parameter.
  \<^item> The multiplexer of \<^verbatim>\<open>net/http\<close> is modelled for the patterns the program registers; a request says where
    the library would redirect it when its path is not clean.

  \<^bold>\<open>Parameters\<close> are the code that is not in the repository: Stripe's client and signature check, the AMQP
  driver and broker, \<^verbatim>\<open>net/url\<close>, \<^verbatim>\<open>encoding/json\<close>, the keyed hash, the parameter binder of the OpenAPI runtime,
  the meter, the sandbox's HTTP exchange and the Swagger page. What a property needs of one is a hypothesis of it.

  \<^bold>\<open>Not modelled:\<close> the construction of the logger, of the OpenTelemetry providers and of the connection pool,
  which only call their libraries; tracing; the sockets and signals of the processes; reading the environment
  into the settings, which is a library's; the log lines of the HTTP chain; the migrations runner and the
  contract tests, which are tools beside the program; the OpenAPI document embedded in the generated file
  and its enum checks, which nothing calls.
\<close>

section \<open>Every reachable state\<close>

text \<open>The states the running processes can reach from an empty database.\<close>

lemma reachable_good: "runs empty_db db \<Longrightarrow> good db"
  using runs_good [OF _ good_empty] by blast

lemma reachable_pair: "runs empty_db db \<Longrightarrow> runs db db' \<Longrightarrow> good db \<and> good db' \<and> evolves db db'"
  using reachable_good runs_good by blast

text \<open>
  C1: an order is paid exactly when it was paid for, and only once. In every reachable state,
  however the processes interleaved and whatever failed, an order is paid exactly when one of its
  payments succeeded, with the order's own amount and currency and through an attempt that
  succeeded; and no order has two succeeded payments.
\<close>

theorem reachable_paid_iff:
  assumes "runs empty_db db" and "q \<in> set (orders db)"
  shows "(ord_Status q = OrderStatusPaid) =
      (\<exists>p \<in> set (payments db). \<exists>a \<in> set (payment_attempts db). pay_OrderID p = ord_ID q \<and>
         pay_Status p = PaymentStatusSucceeded \<and> pay_Amount p = ord_Amount q \<and> pay_Currency p = ord_Currency q \<and>
         att_PaymentID a = pay_ID p \<and> att_Status a = AttemptStatusSucceeded) \<and>
    affected (\<lambda>p. pay_OrderID p = ord_ID q \<and> pay_Status p = PaymentStatusSucceeded) (payments db) \<le> 1"
proof -
  have ok: "schema_ok db" "ledger_ok db" using reachable_good [OF assms(1)] by (simp_all add: good_def)
  have amount: "pay_Amount p = ord_Amount q \<and> pay_Currency p = ord_Currency q"
    if h: "p \<in> set (payments db)" "pay_OrderID p = ord_ID q" for p
  proof -
    from payment_has_order [OF ok(1) h(1)] obtain q' where "q' \<in> set (orders db)" "ord_ID q' = ord_ID q"
      "ord_Amount q' = pay_Amount p" "ord_Currency q' = pay_Currency p" using h(2) by auto
    with unique_keyD [OF schema_okD(1) [OF ok(1)] _ assms(2)] show ?thesis by metis
  qed
  have paid: "ord_Status q = OrderStatusPaid \<longleftrightarrow> ord_ID q \<in> paid_orders db"
    using unique_keyD [OF schema_okD(1) [OF ok(1)] _ assms(2)] assms(2) by (auto simp: paid_orders_def)
  have "ord_ID q \<in> settled_orders db \<longleftrightarrow>
      (\<exists>p \<in> set (payments db). pay_OrderID p = ord_ID q \<and> pay_Status p = PaymentStatusSucceeded)"
    by (force simp: settled_orders_def)
  moreover have "\<exists>a \<in> set (payment_attempts db). att_PaymentID a = pay_ID p \<and> att_Status a = AttemptStatusSucceeded"
    if "p \<in> set (payments db)" "pay_Status p = PaymentStatusSucceeded" for p
  proof -
    have "pay_ID p \<in> captured_payments db" using that ok(2) by (force simp: ledger_ok_def succeeded_payments_def)
    then show ?thesis by (auto simp: captured_payments_def)
  qed
  moreover have "affected (\<lambda>p. pay_OrderID p = ord_ID q \<and> pay_Status p = PaymentStatusSucceeded) (payments db) =
      affected (\<lambda>p. pay_OrderID p = ord_ID q \<and> pay_Status p = PaymentStatusSucceeded) (filter payment_active (payments db))"
    by (auto simp: affected_def filter_filter payment_active_def intro!: arg_cong [where f = length] filter_cong)
  moreover have "affected (\<lambda>p. pay_OrderID p = ord_ID q \<and> pay_Status p = PaymentStatusSucceeded)
      (filter payment_active (payments db)) \<le> 1"
    using schema_okD(4) [OF ok(1)] by (intro affected_le_1 [of pay_OrderID]) (simp_all add: unique_on_def)
  ultimately show ?thesis using paid ok(2) amount by (simp add: ledger_ok_def) blast
qed

theorem reachable_paid_iff_witness:
  "\<exists>q. q \<in> set (orders sample_after) \<and> ord_Status q = OrderStatusPaid \<and>
     (\<exists>p \<in> set (payments sample_after). pay_OrderID p = ord_ID q \<and> pay_Status p = PaymentStatusSucceeded \<and> pay_Amount p = 100)"
proof -
  have runs: "runs empty_db sample_after" using runs_paid by blast
  have q: "sample_order\<lparr>ord_Status := OrderStatusPaid, ord_UpdatedAt := 10\<rparr> \<in> set (orders sample_after)"
    by (simp add: after_effect_def sample_effect_def sample_row_def aggregate_of_row_def) (simp add: sample_order_def)
  moreover from reachable_paid_iff [OF runs q] have "\<exists>p \<in> set (payments sample_after). pay_OrderID p = ''ord_1'' \<and>
      pay_Status p = PaymentStatusSucceeded \<and> pay_Amount p = 100" by (auto simp: sample_order_def)
  ultimately show ?thesis
    by (intro exI [of _ "sample_order\<lparr>ord_Status := OrderStatusPaid, ord_UpdatedAt := 10\<rparr>"]) (simp add: sample_order_def)
qed



text \<open>
  C3: no event is lost on the way to the broker. In every reachable state, each stored event the
  application handles has exactly one outbox message.
\<close>

theorem no_event_lost:
  assumes "runs empty_db db" and "e \<in> set (webhook_events db)" and "evt_Status e \<noteq> InboxSkipped"
  shows "affected (\<lambda>m. obx_WebhookEventID m = evt_ID e) (outbox_events db) = 1"
proof -
  have ok: "schema_ok db" "mailed db" using reachable_good [OF assms(1)] by (simp_all add: good_def)
  from ok(2) assms(2,3) obtain m where "m \<in> set (outbox_events db)" "obx_WebhookEventID m = evt_ID e"
    by (auto simp: mailed_def list_all_iff list_ex_iff)
  then show ?thesis using schema_okD(11) [OF ok(1)] by (intro affected_1 [of obx_WebhookEventID]) auto
qed

theorem no_event_lost_witness:
  "affected (\<lambda>m. obx_WebhookEventID m = ''evt_1'') (outbox_events sample_db) = 1"
  using no_event_lost [OF runs_sample, of sample_event] by (simp add: sample_event_def)


end
